(* ===== verification/Prelude.thy ===== *)
theory Prelude
  imports Main "HOL-Library.Word" "HOL-Library.Sublist" "HOL-Library.Multiset"
    "HOL-Library.Code_Target_Numeral"
begin

text \<open>
  What every theory of the development shares: the names of the model's basic types, the collections
  of facts the component proofs draw on, and generic lemmas on lists, maps and results.

  Modelling conventions.  A Go \<open>string\<close> or \<open>[]byte\<close> is a HOL \<open>string\<close>, one \<open>char\<close> per byte; a rune is
  a \<open>nat\<close>; \<open>int\<close>, \<open>int64\<close>, \<open>time.Duration\<close> and \<open>time.Time\<close> (nanoseconds since Go's zero time) are
  \<open>int\<close>; \<open>float64\<close> is \<open>real\<close>; unsigned integers whose wrap-around matters are \<open>word\<close>s; a Go map is
  a function into \<open>option\<close> and a set \<open>map[string]bool\<close> a HOL set.  A function that returns an error
  returns \<open>Inl message\<close>, a nil pointer is \<open>None\<close>.
\<close>

type_synonym go_string = string
type_synonym rune = nat
type_synonym time = int
type_synonym 'a res = "go_string + 'a"

text \<open>The collections: results of operations, preservation of invariants, evaluation of text.\<close>

named_theorems op_simps \<open>unfolding of the operations of the model\<close>
named_theorems inv_intros \<open>preservation of the invariants\<close>
named_theorems text_eval \<open>evaluation of text functions on literals\<close>

text \<open>Monadic composition of fallible operations, as Go's \<open>if err != nil { return err }\<close>.\<close>

definition bindE :: "('e + 'a) \<Rightarrow> ('a \<Rightarrow> 'e + 'b) \<Rightarrow> 'e + 'b" where
  "bindE m f = (case m of Inl e \<Rightarrow> Inl e | Inr x \<Rightarrow> f x)"

lemma bindE_Inl [simp]: "bindE (Inl e) f = Inl e"
  by (simp add: bindE_def)

lemma bindE_Inr [simp]: "bindE (Inr x) f = f x"
  by (simp add: bindE_def)

lemma bindE_eq_Inr_iff [simp]: "bindE m f = Inr y \<longleftrightarrow> (\<exists>x. m = Inr x \<and> f x = Inr y)"
  by (cases m) auto

abbreviation second :: time where "second \<equiv> 1000000000"
abbreviation minute :: time where "minute \<equiv> 60 * second"
abbreviation hour :: time where "hour \<equiv> 60 * minute"

subsection \<open>Lists\<close>

lemma last_snoc_cases: "xs = [] \<or> (\<exists>ys y. xs = ys @ [y])"
  by (cases xs rule: rev_cases) auto

lemma distinct_filter_map:
  "distinct (map f xs) \<Longrightarrow> distinct (map f (filter P xs))"
  by (induction xs) auto

lemma length_filter_take_le: "length (take n (filter P xs)) \<le> n"
  by simp

lemma map_upd_same_dom: "x \<in> dom m \<Longrightarrow> dom (m(x \<mapsto> y)) = dom m"
  by auto

end
