(* ===== verification/Go_Text.thy ===== *)
theory Go_Text
  imports Prelude Unicode_Tables
begin

text \<open>
  The string functions of Go's standard library that the program uses, on byte strings: UTF-8
  decoding as \<open>range\<close> and \<open>[]rune(s)\<close> do it (an invalid byte is one U+FFFD), encoding as
  \<open>string(runes)\<close>, and \<open>strings.Contains\<close>, \<open>Index\<close>, \<open>HasPrefix\<close>, \<open>HasSuffix\<close>, \<open>TrimSpace\<close>, \<open>Fields\<close>,
  \<open>ToLower\<close> and \<open>Map\<close>.  Nothing here is mapped: it is the language, not the repository.
\<close>

section \<open>UTF-8\<close>

definition cont :: "nat \<Rightarrow> bool" where
  "cont b \<longleftrightarrow> 0x80 \<le> b \<and> b \<le> 0xBF"

text \<open>The range of the second byte of a sequence, by its first byte (Go's \<open>acceptRanges\<close>).\<close>

definition second_ok :: "nat \<Rightarrow> nat \<Rightarrow> bool" where
  "second_ok b0 b1 \<longleftrightarrow>
     (if b0 = 0xE0 then 0xA0 \<le> b1 \<and> b1 \<le> 0xBF
      else if b0 = 0xED then 0x80 \<le> b1 \<and> b1 \<le> 0x9F
      else if b0 = 0xF0 then 0x90 \<le> b1 \<and> b1 \<le> 0xBF
      else if b0 = 0xF4 then 0x80 \<le> b1 \<and> b1 \<le> 0x8F
      else cont b1)"

abbreviation rune_error :: rune where "rune_error \<equiv> 0xFFFD"

definition decode_long :: "nat \<Rightarrow> nat list \<Rightarrow> rune \<times> nat" where
  "decode_long b0 bs =
     (if 0xC2 \<le> b0 \<and> b0 \<le> 0xDF then
        (case bs of b1 # _ \<Rightarrow>
           if cont b1 then ((b0 mod 32) * 64 + b1 mod 64, 2) else (rune_error, 1)
         | [] \<Rightarrow> (rune_error, 1))
      else if 0xE0 \<le> b0 \<and> b0 \<le> 0xEF then
        (case bs of b1 # b2 # _ \<Rightarrow>
           if second_ok b0 b1 \<and> cont b2
           then ((b0 mod 16) * 4096 + (b1 mod 64) * 64 + b2 mod 64, 3) else (rune_error, 1)
         | _ \<Rightarrow> (rune_error, 1))
      else if 0xF0 \<le> b0 \<and> b0 \<le> 0xF4 then
        (case bs of b1 # b2 # b3 # _ \<Rightarrow>
           if second_ok b0 b1 \<and> cont b2 \<and> cont b3
           then ((b0 mod 8) * 262144 + (b1 mod 64) * 4096 + (b2 mod 64) * 64 + b3 mod 64, 4)
           else (rune_error, 1)
         | _ \<Rightarrow> (rune_error, 1))
      else (rune_error, 1))"

text \<open>\<open>utf8.DecodeRune\<close> on a non-empty string: the rune and its width.\<close>

definition decode_rune :: "char \<Rightarrow> go_string \<Rightarrow> rune \<times> nat" where
  "decode_rune c cs =
     (if of_char c < (0x80 :: nat) then (of_char c, 1)
      else decode_long (of_char c) (map of_char (take 3 cs)))"

lemma decode_long_width: "1 \<le> snd (decode_long b bs) \<and> snd (decode_long b bs) \<le> Suc (length bs)"
  by (auto simp: decode_long_def split: list.splits)

lemma decode_rune_width:
  "1 \<le> snd (decode_rune c cs)" "snd (decode_rune c cs) \<le> Suc (length cs)"
  using decode_long_width [of "of_char c" "map of_char (take 3 cs)"]
  by (auto simp: decode_rune_def)

text \<open>A string as the sequence of its runes, each with the bytes it was read from.\<close>

fun rune_chunks :: "go_string \<Rightarrow> (rune \<times> go_string) list" where
  "rune_chunks [] = []"
| "rune_chunks (c # cs) =
     (let (r, n) = decode_rune c cs in (r, c # take (n - 1) cs) # rune_chunks (drop (n - 1) cs))"

definition runes :: "go_string \<Rightarrow> rune list" where
  "runes s = map fst (rune_chunks s)"

definition valid_rune :: "rune \<Rightarrow> bool" where
  "valid_rune r \<longleftrightarrow> r < 0xD800 \<or> (0xE000 \<le> r \<and> r \<le> 0x10FFFF)"

definition encode_bytes :: "rune \<Rightarrow> nat list" where
  "encode_bytes r =
     (if r < 0x80 then [r]
      else if r < 0x800 then [0xC0 + r div 64, 0x80 + r mod 64]
      else if \<not> valid_rune r then [0xEF, 0xBF, 0xBD]
      else if r < 0x10000 then [0xE0 + r div 4096, 0x80 + r div 64 mod 64, 0x80 + r mod 64]
      else [0xF0 + r div 262144, 0x80 + r div 4096 mod 64, 0x80 + r div 64 mod 64, 0x80 + r mod 64])"

definition encode_rune :: "rune \<Rightarrow> go_string" where
  "encode_rune r = map char_of (encode_bytes r)"

text \<open>\<open>string(runes)\<close>.\<close>

definition utf8 :: "rune list \<Rightarrow> go_string" where
  "utf8 rs = concat (map encode_rune rs)"

lemma rune_chunks_concat: "concat (map snd (rune_chunks s)) = s"
  by (induction s rule: rune_chunks.induct) (auto split: prod.splits)

lemma runes_Nil [simp]: "runes [] = []"
  by (simp add: runes_def)

lemma runes_eq_Nil_iff [simp]: "runes s = [] \<longleftrightarrow> s = []"
  by (cases s) (auto simp: runes_def Let_def split: prod.splits)

lemma runes_Cons:
  "runes (c # cs) = fst (decode_rune c cs) # runes (drop (snd (decode_rune c cs) - 1) cs)"
  by (simp add: runes_def Let_def split: prod.splits)

lemma runes_ascii [text_eval]:
  "of_char c < (0x80 :: nat) \<Longrightarrow> runes (c # cs) = of_char c # runes cs"
  by (simp add: runes_Cons decode_rune_def)

lemma runes_induct [case_names Nil Cons]:
  assumes "P []"
    and step: "\<And>c cs. P (drop (snd (decode_rune c cs) - 1) cs) \<Longrightarrow> P (c # cs)"
  shows "P s"
proof (induction s rule: length_induct)
  case (1 xs)
  show ?case
  proof (cases xs)
    case (Cons c cs)
    with 1 have "P (drop (snd (decode_rune c cs) - 1) cs)" by simp
    then show ?thesis unfolding Cons by (rule step)
  qed (use assms in simp)
qed

lemma length_runes_le: "length (runes s) \<le> length s"
proof (induction s rule: runes_induct)
  case (Cons c cs)
  then have "length (runes (drop (snd (decode_rune c cs) - 1) cs)) \<le> length cs"
    by simp
  then show ?case by (simp add: runes_Cons)
qed simp

lemma utf8_Nil [simp]: "utf8 [] = []"
  by (simp add: utf8_def)

lemma utf8_Cons: "utf8 (r # rs) = encode_rune r @ utf8 rs"
  by (simp add: utf8_def)

lemma utf8_append [simp]: "utf8 (rs @ ts) = utf8 rs @ utf8 ts"
  by (simp add: utf8_def)


subsection \<open>Decoding inverts encoding\<close>

lemma of_char_bytes [simp]: "b < 256 \<Longrightarrow> (of_char (char_of b :: char) :: nat) = b"
  by (simp add: of_char_of)

lemma encode_bytes_256: "b \<in> set (encode_bytes r) \<Longrightarrow> b < 256"
  by (auto simp: encode_bytes_def valid_rune_def split: if_splits)

lemma map_of_char_encode [simp]: "map of_char (encode_rune r) = encode_bytes r"
  by (simp add: encode_rune_def encode_bytes_256 comp_def cong: map_cong)

lemma length_encode_bytes: "1 \<le> length (encode_bytes r)" "length (encode_bytes r) \<le> 4"
  by (auto simp: encode_bytes_def)

text \<open>The decoder on the digits base 64 that the encoder writes.\<close>

lemma mod_digit: "\<lbrakk>k mod m = 0; a < m\<rbrakk> \<Longrightarrow> (k + a) mod m = a" for k a m :: nat
  by (metis add.left_neutral mod_add_left_eq mod_less)

lemma decode_digits_2:
  "\<lbrakk>2 \<le> q; q < 32; a < 64\<rbrakk> \<Longrightarrow> decode_long (0xC0 + q) ((0x80 + a) # bs) = (q * 64 + a, 2)"
  for q a :: nat
  by (simp add: decode_long_def cont_def mod_digit)

lemma decode_digits_3:
  "\<lbrakk>q < 16; a < 64; b < 64; q = 0 \<Longrightarrow> 32 \<le> a; q = 13 \<Longrightarrow> a < 32\<rbrakk> \<Longrightarrow>
     decode_long (0xE0 + q) ((0x80 + a) # (0x80 + b) # bs) = (q * 4096 + a * 64 + b, 3)"
  for q a b :: nat
  by (cases "q = 0"; cases "q = 13") (auto simp: decode_long_def cont_def second_ok_def mod_digit)

lemma decode_digits_4:
  "\<lbrakk>q < 5; a < 64; b < 64; c < 64; q = 0 \<Longrightarrow> 16 \<le> a; q = 4 \<Longrightarrow> a < 16\<rbrakk> \<Longrightarrow>
     decode_long (0xF0 + q) ((0x80 + a) # (0x80 + b) # (0x80 + c) # bs) =
       (q * 262144 + a * 4096 + b * 64 + c, 4)"
  for q a b c :: nat
  by (cases "q = 0"; cases "q = 4") (auto simp: decode_long_def cont_def second_ok_def mod_digit)

lemma digits_4096: "r div 4096 * 4096 + (r div 64 mod 64) * 64 + r mod 64 = r" for r :: nat
proof -
  have d: "r div 4096 = r div 64 div 64" by (simp add: div_mult2_eq [symmetric])
  have 1: "r div 64 * 64 + r mod 64 = r" by (rule div_mult_mod_eq)
  have 2: "r div 64 div 64 * 64 + r div 64 mod 64 = r div 64" by (rule div_mult_mod_eq)
  show ?thesis unfolding d using 1 2 by linarith
qed

lemma digits_262144:
  "r div 262144 * 262144 + (r div 4096 mod 64) * 4096 + (r div 64 mod 64) * 64 + r mod 64 = r"
  for r :: nat
proof -
  have d: "r div 262144 = r div 4096 div 64" by (simp add: div_mult2_eq [symmetric])
  have 2: "r div 4096 div 64 * 64 + r div 4096 mod 64 = r div 4096" by (rule div_mult_mod_eq)
  show ?thesis unfolding d using 2 digits_4096 [of r] by linarith
qed

lemma decode_encode_long:
  assumes "valid_rune r" "0x80 \<le> r"
  shows "decode_long (hd (encode_bytes r)) (tl (encode_bytes r) @ bs) =
    (r, length (encode_bytes r))"
proof -
  consider "r < 0x800" | "0x800 \<le> r" "r < 0x10000" | "0x10000 \<le> r" by linarith
  then show ?thesis
  proof cases
    case 1
    then show ?thesis using assms decode_digits_2 [of "r div 64" "r mod 64" bs]
      by (simp add: encode_bytes_def)
  next
    case 2
    have q: "r div 4096 < 16" using 2 by simp
    have lo: "r div 4096 = 0 \<Longrightarrow> 32 \<le> r div 64 mod 64" using 2 by simp
    have hi: "r div 4096 = 13 \<Longrightarrow> r div 64 mod 64 < 32"
      using assms digits_4096 [of r] unfolding valid_rune_def by linarith
    show ?thesis
      using 2 assms decode_digits_3 [OF q _ _ lo hi, of "r mod 64" bs] digits_4096 [of r]
      by (simp add: encode_bytes_def)
  next
    case 3
    have q: "r div 262144 < 5" using 3 assms unfolding valid_rune_def by linarith
    have lo: "r div 262144 = 0 \<Longrightarrow> 16 \<le> r div 4096 mod 64" using 3 by simp
    have hi: "r div 262144 = 4 \<Longrightarrow> r div 4096 mod 64 < 16"
      using 3 assms digits_262144 [of r] unfolding valid_rune_def by linarith
    show ?thesis
      using 3 assms decode_digits_4 [OF q _ _ _ lo hi, of "r div 64 mod 64" "r mod 64" bs]
        digits_262144 [of r]
      by (simp add: encode_bytes_def)
  qed
qed

lemma encode_rune_Cons:
  "encode_rune r = char_of (hd (encode_bytes r)) # map char_of (tl (encode_bytes r))"
  using length_encode_bytes [of r] by (cases "encode_bytes r") (auto simp: encode_rune_def)

lemma decode_rune_encode:
  assumes "valid_rune r"
  shows "decode_rune (char_of (hd (encode_bytes r))) (map char_of (tl (encode_bytes r)) @ s) =
    (r, length (encode_bytes r))"
proof (cases "r < 0x80")
  case True
  then show ?thesis by (simp add: decode_rune_def encode_bytes_def)
next
  case False
  let ?b = "encode_bytes r"
  have hd: "hd ?b < 256" "\<not> hd ?b < 0x80"
    using False assms by (auto simp: encode_bytes_def valid_rune_def)
  have tl: "map of_char (map char_of (tl ?b) :: string) = tl ?b"
  proof -
    have "set (tl ?b) \<subseteq> set ?b" by (cases ?b) auto
    then have "\<forall>x \<in> set (tl ?b). (of_char (char_of x :: char) :: nat) = x"
      using encode_bytes_256 [of _ r] by (simp add: subset_iff)
    then show ?thesis by (simp only: map_map comp_def) (simp cong: map_cong)
  qed
  have "take 3 (map char_of (tl ?b) @ s) = map char_of (tl ?b) @ take (3 - length (tl ?b)) s"
    using length_encode_bytes [of r] by simp
  then have "map of_char (take 3 (map char_of (tl ?b) @ s)) =
      tl ?b @ map of_char (take (3 - length (tl ?b)) s)"
    by (simp only: map_append tl)
  then show ?thesis using hd decode_encode_long [OF assms] False
    by (simp add: decode_rune_def)
qed

lemma runes_encode_append [simp]:
  assumes "valid_rune r"
  shows "runes (encode_rune r @ s) = r # runes s"
  using decode_rune_encode [OF assms, of s] length_encode_bytes [of r]
  by (simp add: encode_rune_Cons runes_Cons)

lemma runes_utf8_append: "list_all valid_rune rs \<Longrightarrow> runes (utf8 rs @ s) = rs @ runes s"
  by (induction rs) (auto simp: utf8_Cons)

lemma runes_utf8: "list_all valid_rune rs \<Longrightarrow> runes (utf8 rs) = rs"
  using runes_utf8_append [of rs "[]"] by simp

section \<open>Searching\<close>

text \<open>\<open>strings.HasPrefix\<close>, \<open>strings.HasSuffix\<close>.\<close>

abbreviation has_prefix :: "go_string \<Rightarrow> go_string \<Rightarrow> bool" where
  "has_prefix s p \<equiv> prefix p s"

abbreviation has_suffix :: "go_string \<Rightarrow> go_string \<Rightarrow> bool" where
  "has_suffix s p \<equiv> suffix p s"

text \<open>\<open>strings.Index\<close>: the first position at which the substring starts.\<close>

fun index_of :: "'a list \<Rightarrow> 'a list \<Rightarrow> nat option" where
  "index_of s sub =
     (if prefix sub s then Some 0
      else case s of [] \<Rightarrow> None | _ # cs \<Rightarrow> map_option Suc (index_of cs sub))"

declare index_of.simps [simp del]

fun contains :: "'a list \<Rightarrow> 'a list \<Rightarrow> bool" where
  "contains [] sub = (sub = [])"
| "contains (c # cs) sub = (prefix sub (c # cs) \<or> contains cs sub)"

lemma contains_iff_sublist: "contains s sub \<longleftrightarrow> sublist sub s"
  by (induction s) (auto simp: sublist_Cons_right)

lemma contains_iff: "contains s sub \<longleftrightarrow> (\<exists>a b. s = a @ sub @ b)"
  by (auto simp: contains_iff_sublist sublist_def)

lemma contains_refl [simp]: "contains s s"
  by (simp add: contains_iff_sublist)

lemma contains_Nil [simp]: "contains s []"
  by (simp add: contains_iff_sublist)

lemma contains_length: "contains s sub \<Longrightarrow> length sub \<le> length s"
  by (auto simp: contains_iff)

lemma index_of_Some:
  "index_of s sub = Some i \<Longrightarrow>
     i + length sub \<le> length s \<and> take (length sub) (drop i s) = sub \<and>
     (\<forall>j < i. take (length sub) (drop j s) \<noteq> sub)"
proof (induction s arbitrary: i)
  case Nil
  then show ?case by (auto simp: index_of.simps split: if_splits)
next
  case (Cons c cs)
  show ?case
  proof (cases "prefix sub (c # cs)")
    case True
    then have "i = 0" using Cons.prems by (simp add: index_of.simps [of "c # cs"])
    then show ?thesis using True prefix_length_le [OF True]
      by (auto elim: prefixE)
  next
    case False
    then obtain k where k: "index_of cs sub = Some k" "i = Suc k"
      using Cons.prems by (auto simp: index_of.simps [of "c # cs"])
    have "take (length sub) (c # cs) \<noteq> sub" using False by (metis take_is_prefix)
    then show ?thesis using Cons.IH [OF k(1)] k(2) by (auto simp: less_Suc_eq_0_disj)
  qed
qed

lemma index_of_None: "index_of s sub = None \<longleftrightarrow> \<not> contains s sub"
  by (induction s) (auto simp: index_of.simps [of "[]"] index_of.simps [of "_ # _"] prefix_def)

section \<open>Trimming, splitting and mapping\<close>

text \<open>\<open>strings.TrimSpace\<close>: leading and trailing runes of \<open>unicode.IsSpace\<close> are dropped, every other
  byte is kept as it is, valid UTF-8 or not.\<close>

definition trim_chunks :: "(rune \<times> go_string) list \<Rightarrow> (rune \<times> go_string) list" where
  "trim_chunks cs =
     rev (dropWhile (\<lambda>c. is_space (fst c)) (rev (dropWhile (\<lambda>c. is_space (fst c)) cs)))"

definition trim_space :: "go_string \<Rightarrow> go_string" where
  "trim_space s = concat (map snd (trim_chunks (rune_chunks s)))"

text \<open>The maximal runs of elements that satisfy \<open>p\<close>, in order: \<open>strings.FieldsFunc\<close>, and
  \<open>FindAllString\<close> of a pattern \<open>[class]+\<close>.\<close>

lemma length_dropWhile_less [termination_simp]: "length (dropWhile p xs) < Suc (length xs)"
  using length_dropWhile_le [of p xs] by simp

fun maximal_runs :: "('a \<Rightarrow> bool) \<Rightarrow> 'a list \<Rightarrow> 'a list list" where
  "maximal_runs p [] = []"
| "maximal_runs p (x # xs) =
     (if p x then (x # takeWhile p xs) # maximal_runs p (dropWhile p xs)
      else maximal_runs p xs)"

definition fields :: "go_string \<Rightarrow> go_string list" where
  "fields s = map (\<lambda>r. concat (map snd r)) (maximal_runs (\<lambda>c. \<not> is_space (fst c)) (rune_chunks s))"

text \<open>\<open>strings.Map\<close> and \<open>strings.ToLower\<close>.  An invalid byte comes out as an encoded U+FFFD.\<close>

definition map_runes :: "(rune \<Rightarrow> rune option) \<Rightarrow> go_string \<Rightarrow> go_string" where
  "map_runes f s = utf8 (List.map_filter f (runes s))"

definition to_lower :: "go_string \<Rightarrow> go_string" where
  "to_lower s = map_runes (\<lambda>r. Some (rune_to_lower r)) s"

text \<open>\<open>utf8.ValidString\<close>: no byte had to be replaced.\<close>

definition valid_utf8 :: "go_string \<Rightarrow> bool" where
  "valid_utf8 s = list_all (\<lambda>c. \<not> (fst c = rune_error \<and> length (snd c) = 1)) (rune_chunks s)"

lemma maximal_runs_ne: "r \<in> set (maximal_runs p xs) \<Longrightarrow> r \<noteq> [] \<and> list_all p r"
proof (induction p xs rule: maximal_runs.induct)
  case (2 p x xs)
  have "list_all p (takeWhile p xs)" by (induction xs) auto
  then show ?case using 2 by (cases "p x") auto
qed simp

lemma maximal_runs_sublist: "r \<in> set (maximal_runs p xs) \<Longrightarrow> sublist r xs"
proof (induction p xs rule: maximal_runs.induct)
  case (2 p x xs)
  have tw: "sublist (x # takeWhile p xs) (x # xs)"
    by (metis Cons_prefix_Cons prefix_imp_sublist takeWhile_is_prefix)
  have dw: "sublist (dropWhile p xs) (x # xs)"
    by (metis sublist_Cons_right suffix_dropWhile suffix_imp_sublist)
  show ?case using 2 tw dw
    by (auto split: if_splits intro: sublist_order.order.trans simp: sublist_Cons_right)
qed simp

lemma trim_space_Nil [simp]: "trim_space [] = []"
  by (simp add: trim_space_def trim_chunks_def)

text \<open>Decimal digits of a natural number, as \<open>strconv.Itoa\<close> writes them.\<close>

fun digits_of :: "nat \<Rightarrow> go_string" where
  "digits_of n = (if n < 10 then [char_of (48 + n)] else digits_of (n div 10) @ [char_of (48 + n mod 10)])"

declare digits_of.simps [simp del]

definition itoa :: "int \<Rightarrow> go_string" where
  "itoa i = (if i < 0 then CHR 0x2D # digits_of (nat (- i)) else digits_of (nat i))"

end
