(* ===== verification/Policy.thy ===== *)
theory Policy
  imports Go_Text
begin

text \<open>
  Packages \<open>artifact/policy\<close>, \<open>artifact/ingest\<close>, \<open>artifact/lifecycle\<close> and \<open>config/capability.go\<close>: the
  sensitivity order and its inheritance, the administrative downgrade, the provenance and approval
  of an artifact, the ingestion channels, the retention policy and the two capability vocabularies.

  A Go \<open>type T string\<close> with declared constants is kept a string, since its \<open>Validate\<close> has to reject
  strings outside the vocabulary.  \<open>Sensitivity\<close> is a \<open>uint8\<close> and is an \<open>8 word\<close> here.
\<close>

section \<open>Sensitivity\<close>

type_synonym sensitivity = "8 word"

abbreviation SensitivityNormal :: sensitivity where "SensitivityNormal \<equiv> 0"
abbreviation SensitivitySensitive :: sensitivity where "SensitivitySensitive \<equiv> 1"
abbreviation SensitivitySecret :: sensitivity where "SensitivitySecret \<equiv> 2"
abbreviation SensitivityRestricted :: sensitivity where "SensitivityRestricted \<equiv> 3"

definition Sensitivity_Validate :: "sensitivity \<Rightarrow> unit res" where
  "Sensitivity_Validate s =
     (if s > SensitivityRestricted then Inl ''invalid sensitivity'' else Inr ())"

definition Sensitivity_String :: "sensitivity \<Rightarrow> go_string" where
  "Sensitivity_String s =
     (if s = SensitivityNormal then ''NORMAL''
      else if s = SensitivitySensitive then ''SENSITIVE''
      else if s = SensitivitySecret then ''SECRET''
      else if s = SensitivityRestricted then ''RESTRICTED''
      else ''INVALID'')"

text \<open>The JSON codec of strings is \<open>encoding/json\<close>'s: a parameter.\<close>

definition MarshalJSON :: "(go_string \<Rightarrow> go_string) \<Rightarrow> sensitivity \<Rightarrow> go_string res" where
  "MarshalJSON json_marshal s =
     bindE (Sensitivity_Validate s) (\<lambda>_. Inr (json_marshal (Sensitivity_String s)))"

definition UnmarshalJSON :: "(go_string \<Rightarrow> go_string res) \<Rightarrow> go_string \<Rightarrow> sensitivity res" where
  "UnmarshalJSON json_unmarshal data =
     bindE (json_unmarshal data) (\<lambda>value.
       if value = ''NORMAL'' then Inr SensitivityNormal
       else if value = ''SENSITIVE'' then Inr SensitivitySensitive
       else if value = ''SECRET'' then Inr SensitivitySecret
       else if value = ''RESTRICTED'' then Inr SensitivityRestricted
       else Inl ''invalid sensitivity'')"

definition InheritSensitivity :: "sensitivity \<Rightarrow> sensitivity \<Rightarrow> sensitivity" where
  "InheritSensitivity source detected = (if detected > source then detected else source)"

lemma InheritSensitivity_max: "InheritSensitivity a b = max a b"
  by (auto simp: InheritSensitivity_def max_def)

lemma Sensitivity_Validate_ok [simp]: "Sensitivity_Validate s = Inr u \<longleftrightarrow> s \<le> SensitivityRestricted"
  by (auto simp: Sensitivity_Validate_def)

lemma sensitivity_cases:
  assumes "s \<le> SensitivityRestricted"
  obtains "s = SensitivityNormal" | "s = SensitivitySensitive" | "s = SensitivitySecret"
    | "s = SensitivityRestricted"
proof -
  have "s = 0 \<or> s = 1 \<or> s = 2 \<or> s = 3" using assms by unat_arith
  then show thesis using that by blast
qed

text \<open>A sensitivity survives the wire, provided the JSON codec of strings is a round trip.\<close>

lemma sensitivity_wire:
  assumes "\<And>x. unmarshal (marshal x) = Inr x" "MarshalJSON marshal s = Inr w"
  shows "UnmarshalJSON unmarshal w = Inr s"
proof -
  from assms(2) have "s \<le> SensitivityRestricted" and w: "w = marshal (Sensitivity_String s)"
    by (auto simp: MarshalJSON_def)
  then show ?thesis
    by (cases rule: sensitivity_cases)
      (simp_all add: w UnmarshalJSON_def Sensitivity_String_def assms(1))
qed

section \<open>Diagnostic events\<close>

text \<open>What the code reports to its \<open>debugnode.Observer\<close>; an operation returns the events it emits.\<close>

record debug_event =
  ev_Node :: go_string
  ev_TraceID :: go_string
  ev_ResourceID :: go_string
  ev_Status :: go_string
  ev_ReasonCode :: go_string

section \<open>Administrative downgrade\<close>

record downgrade_request =
  dr_ResourceID :: go_string
  dr_Current :: sensitivity
  dr_Requested :: sensitivity
  dr_Reason :: go_string
  dr_Confirmed :: bool
  dr_TraceID :: go_string

record downgrade_result =
  dg_Sensitivity :: sensitivity
  dg_AuditRequired :: bool
  dg_RecalculateRetrieval :: bool
  dg_InvalidateSemanticProjection :: bool

definition AuthorizeDowngrade :: "downgrade_request \<Rightarrow> (downgrade_result \<times> debug_event list) res" where
  "AuthorizeDowngrade request =
     (if dr_Current request > SensitivityRestricted \<or> dr_Requested request > SensitivityRestricted
      then Inl ''invalid sensitivity''
      else if dr_Requested request \<ge> dr_Current request
      then Inl ''requested sensitivity is not a downgrade''
      else if trim_space (dr_ResourceID request) = '''' \<or> trim_space (dr_Reason request) = '''' \<or>
              \<not> dr_Confirmed request
      then Inl ''resource, reason, and confirmation are required''
      else Inr (\<lparr>dg_Sensitivity = dr_Requested request, dg_AuditRequired = True,
                 dg_RecalculateRetrieval = True, dg_InvalidateSemanticProjection = True\<rparr>,
                [\<lparr>ev_Node = ''SENSITIVITY.DOWNGRADE'', ev_TraceID = dr_TraceID request,
                  ev_ResourceID = dr_ResourceID request, ev_Status = ''authorized'',
                  ev_ReasonCode = Sensitivity_String (dr_Requested request)\<rparr>]))"

section \<open>Ingestion channels and capabilities\<close>

abbreviation ChannelHostUserAttachment :: go_string where
  "ChannelHostUserAttachment \<equiv> ''HOST_USER_ATTACHMENT''"
abbreviation ChannelAdminAuthored :: go_string where
  "ChannelAdminAuthored \<equiv> ''ADMIN_AUTHORED''"
abbreviation ChannelGeneratedArtifact :: go_string where
  "ChannelGeneratedArtifact \<equiv> ''GENERATED_ARTIFACT''"
abbreviation ChannelExternalImport :: go_string where
  "ChannelExternalImport \<equiv> ''EXTERNAL_IMPORT''"
abbreviation ChannelTrustedToolCapture :: go_string where
  "ChannelTrustedToolCapture \<equiv> ''TRUSTED_TOOL_CAPTURE''"
abbreviation ChannelUnclassified :: go_string where
  "ChannelUnclassified \<equiv> ''UNCLASSIFIED''"

definition Channel_Validate :: "go_string \<Rightarrow> unit res" where
  "Channel_Validate c =
     (if c \<in> {ChannelHostUserAttachment, ChannelAdminAuthored, ChannelGeneratedArtifact,
              ChannelExternalImport, ChannelTrustedToolCapture, ChannelUnclassified}
      then Inr () else Inl ''invalid ingestion channel'')"

definition MCPClientCapability_Validate :: "go_string \<Rightarrow> unit res" where
  "MCPClientCapability_Validate c =
     (if c \<in> {''CONTEXT_READ'', ''ARCHIVE_CHECKPOINT'', ''MEMORY_PROPOSE'', ''ARTIFACT_SEARCH'',
              ''ARTIFACT_READ'', ''RESOURCE_READ'', ''OPS_READ''}
      then Inr () else Inl ''invalid MCP client capability'')"

definition IngestionCapability_Validate :: "go_string \<Rightarrow> unit res" where
  "IngestionCapability_Validate c =
     (if c \<in> {''HOST_ATTACHMENT_UPLOAD'', ''GENERATED_ARTIFACT_UPLOAD''}
      then Inr () else Inl ''invalid ingestion capability'')"

definition ChannelForCapability :: "go_string \<Rightarrow> go_string res" where
  "ChannelForCapability capability =
     bindE (IngestionCapability_Validate capability) (\<lambda>_.
       if capability = ''HOST_ATTACHMENT_UPLOAD'' then Inr ChannelHostUserAttachment
       else if capability = ''GENERATED_ARTIFACT_UPLOAD'' then Inr ChannelGeneratedArtifact
       else Inl ''unsupported ingestion capability'')"

section \<open>Provenance and approval\<close>

abbreviation OriginUserProvided :: go_string where "OriginUserProvided \<equiv> ''USER_PROVIDED''"
abbreviation OriginUserAuthored :: go_string where "OriginUserAuthored \<equiv> ''USER_AUTHORED''"
abbreviation OriginAgentGenerated :: go_string where "OriginAgentGenerated \<equiv> ''AGENT_GENERATED''"
abbreviation OriginExternalSource :: go_string where "OriginExternalSource \<equiv> ''EXTERNAL_SOURCE''"
abbreviation OriginTrustedTool :: go_string where "OriginTrustedTool \<equiv> ''TRUSTED_TOOL_OUTPUT''"
abbreviation OriginUnknown :: go_string where "OriginUnknown \<equiv> ''UNKNOWN''"

abbreviation ApprovalUnreviewed :: go_string where "ApprovalUnreviewed \<equiv> ''UNREVIEWED''"
abbreviation ApprovalUserApproved :: go_string where "ApprovalUserApproved \<equiv> ''USER_APPROVED''"
abbreviation ApprovalUserRejected :: go_string where "ApprovalUserRejected \<equiv> ''USER_REJECTED''"

record authority =
  origin :: go_string
  approval :: go_string

definition OriginForChannel :: "go_string \<Rightarrow> go_string res" where
  "OriginForChannel channel =
     bindE (Channel_Validate channel) (\<lambda>_.
       if channel = ChannelHostUserAttachment then Inr OriginUserProvided
       else if channel = ChannelAdminAuthored then Inr OriginUserAuthored
       else if channel = ChannelGeneratedArtifact then Inr OriginAgentGenerated
       else if channel = ChannelExternalImport then Inr OriginExternalSource
       else if channel = ChannelTrustedToolCapture then Inr OriginTrustedTool
       else Inr OriginUnknown)"

definition NewAuthority :: "go_string \<Rightarrow> authority res" where
  "NewAuthority channel =
     bindE (OriginForChannel channel) (\<lambda>o'. Inr \<lparr>origin = o', approval = ApprovalUnreviewed\<rparr>)"

definition OriginClass_Validate :: "go_string \<Rightarrow> unit res" where
  "OriginClass_Validate v =
     (if v \<in> {OriginUserProvided, OriginUserAuthored, OriginAgentGenerated, OriginExternalSource,
              OriginTrustedTool, OriginUnknown}
      then Inr () else Inl ''invalid origin class'')"

definition ApprovalState_Validate :: "go_string \<Rightarrow> unit res" where
  "ApprovalState_Validate v =
     (if v \<in> {ApprovalUnreviewed, ApprovalUserApproved, ApprovalUserRejected}
      then Inr () else Inl ''invalid approval state'')"

record approval_change =
  ac_ArtifactID :: go_string
  ac_State :: go_string
  ac_Reason :: go_string
  ac_Confirmed :: bool
  ac_TraceID :: go_string

definition ChangeApproval :: "authority \<Rightarrow> approval_change \<Rightarrow> (authority \<times> debug_event list) res" where
  "ChangeApproval a change =
     bindE (OriginClass_Validate (origin a)) (\<lambda>_.
     bindE (ApprovalState_Validate (approval a)) (\<lambda>_.
     bindE (ApprovalState_Validate (ac_State change)) (\<lambda>_.
       if trim_space (ac_ArtifactID change) = '''' \<or> trim_space (ac_Reason change) = '''' \<or>
          \<not> ac_Confirmed change
       then Inl ''artifact, reason, and confirmation are required''
       else Inr (\<lparr>origin = origin a, approval = ac_State change\<rparr>,
                 [\<lparr>ev_Node = ''ARTIFACT.APPROVAL_CHANGE'', ev_TraceID = ac_TraceID change,
                   ev_ResourceID = ac_ArtifactID change, ev_Status = ''complete'',
                   ev_ReasonCode = ac_State change\<rparr>]))))"

lemma OriginForChannel_valid:
  "OriginForChannel c = Inr o' \<Longrightarrow> OriginClass_Validate o' = Inr ()"
  by (auto simp: OriginForChannel_def OriginClass_Validate_def split: if_splits)

lemma ChangeApproval_origin:
  "ChangeApproval a change = Inr (a', es) \<Longrightarrow>
     origin a' = origin a \<and> approval a' = ac_State change \<and> ApprovalState_Validate (approval a') = Inr ()"
  by (auto simp: ChangeApproval_def split: if_splits)

section \<open>Retention\<close>

definition Role_Validate :: "go_string \<Rightarrow> unit res" where
  "Role_Validate v =
     (if v \<in> {''SOURCE'', ''WORK_PRODUCT'', ''FINAL_OUTPUT''} then Inr ()
      else Inl ''invalid artifact role'')"

definition RetentionClass_Validate :: "go_string \<Rightarrow> unit res" where
  "RetentionClass_Validate v =
     (if v \<in> {''SESSION'', ''TEMPORARY'', ''RETAINED'', ''PERMANENT''} then Inr ()
      else Inl ''invalid retention class'')"

definition StorageState_Validate :: "go_string \<Rightarrow> unit res" where
  "StorageState_Validate v =
     (if v \<in> {''PRESENT'', ''EVICTION_PENDING'', ''EVICTED'', ''RESTORE_PENDING''} then Inr ()
      else Inl ''invalid storage state'')"

definition Recoverability_Validate :: "go_string \<Rightarrow> unit res" where
  "Recoverability_Validate v =
     (if v \<in> {''REUPLOAD'', ''REGENERABLE'', ''EXTERNAL_SOURCE'', ''NONE'', ''UNKNOWN''} then Inr ()
      else Inl ''invalid recoverability'')"

definition EvidenceAvailability_Validate :: "go_string \<Rightarrow> unit res" where
  "EvidenceAvailability_Validate v =
     (if v \<in> {''ONLINE'', ''METADATA_ONLY'', ''OFFLINE_REHYDRATABLE'', ''OFFLINE_UNRECOVERABLE''}
      then Inr () else Inl ''invalid evidence availability'')"

record retention_policy =
  CardMaxBytes :: int
  SessionGrace :: time
  TemporaryMinimumAge :: time
  TemporaryMaximumAge :: time
  TemporaryQuotaBytes :: int
  RetainedMinimumAge :: time
  RetainedQuotaBytes :: int
  PermanentAutoEviction :: bool
  BatchSize :: int
  GCEnabled :: bool
  ArtifactLeaseTTL :: time
  ArtifactLeaseMaxLife :: time
  Version :: go_string

definition DefaultPolicy :: retention_policy where
  "DefaultPolicy =
     \<lparr>CardMaxBytes = 1048576, SessionGrace = 72 * hour, TemporaryMinimumAge = 7 * 24 * hour,
      TemporaryMaximumAge = 90 * 24 * hour, TemporaryQuotaBytes = 100 * 1073741824,
      RetainedMinimumAge = 180 * 24 * hour, RetainedQuotaBytes = 1099511627776,
      PermanentAutoEviction = False, BatchSize = 100, GCEnabled = False,
      ArtifactLeaseTTL = 30 * minute, ArtifactLeaseMaxLife = 24 * hour, Version = ''stage3.3.1-v1''\<rparr>"

definition Policy_Validate :: "retention_policy \<Rightarrow> unit res" where
  "Policy_Validate p =
     (if CardMaxBytes p \<le> 0 \<or> CardMaxBytes p > 2097152 \<or> SessionGrace p < 0 \<or>
         TemporaryMinimumAge p < 0 \<or> TemporaryMaximumAge p < TemporaryMinimumAge p \<or>
         TemporaryQuotaBytes p < 0 \<or> RetainedMinimumAge p < 0 \<or> RetainedQuotaBytes p < 0 \<or>
         BatchSize p < 1 \<or> BatchSize p > 1000 \<or> ArtifactLeaseTTL p \<le> 0 \<or>
         ArtifactLeaseTTL p > 24 * hour \<or> ArtifactLeaseMaxLife p < ArtifactLeaseTTL p \<or>
         ArtifactLeaseMaxLife p > 24 * hour \<or> Version p = ''''
      then Inl ''RETENTION_POLICY_INVALID'' else Inr ())"

definition Defaults :: "go_string \<Rightarrow> (go_string \<times> go_string) res" where
  "Defaults outputRole =
     (if outputRole = ''PRIMARY_RESULT'' \<or> outputRole = ''SECONDARY_RESULT''
      then Inr (''WORK_PRODUCT'', ''TEMPORARY'')
      else if outputRole = ''FINAL_REPORT'' then Inr (''FINAL_OUTPUT'', ''RETAINED'')
      else if outputRole = ''DIAGNOSTIC'' then Inr (''WORK_PRODUCT'', ''SESSION'')
      else Inl ''unsupported output role'')"

lemma DefaultPolicy_valid: "Policy_Validate DefaultPolicy = Inr ()"
  by (simp add: Policy_Validate_def DefaultPolicy_def)

lemma Defaults_valid:
  "Defaults outputRole = Inr (role, retention) \<Longrightarrow>
     Role_Validate role = Inr () \<and> RetentionClass_Validate retention = Inr () \<and>
     retention \<noteq> ''PERMANENT''"
  by (auto simp: Defaults_def Role_Validate_def RetentionClass_Validate_def split: if_splits)

section \<open>Properties\<close>

text \<open>An administrative downgrade is authorised exactly when the request lowers the sensitivity
  strictly within the frozen order, names a resource and a reason, and is confirmed; the result is
  then the requested level with all three follow-up duties (audit, eligibility, projection) and one
  diagnostic event naming that level.\<close>

theorem AuthorizeDowngrade_strict:
  "AuthorizeDowngrade rq = Inr (r, es) \<longleftrightarrow>
     dr_Requested rq < dr_Current rq \<and> dr_Current rq \<le> SensitivityRestricted \<and>
     trim_space (dr_ResourceID rq) \<noteq> '''' \<and> trim_space (dr_Reason rq) \<noteq> '''' \<and> dr_Confirmed rq \<and>
     r = \<lparr>dg_Sensitivity = dr_Requested rq, dg_AuditRequired = True,
          dg_RecalculateRetrieval = True, dg_InvalidateSemanticProjection = True\<rparr> \<and>
     es = [\<lparr>ev_Node = ''SENSITIVITY.DOWNGRADE'', ev_TraceID = dr_TraceID rq,
            ev_ResourceID = dr_ResourceID rq, ev_Status = ''authorized'',
            ev_ReasonCode = Sensitivity_String (dr_Requested rq)\<rparr>]"
  by (auto simp: AuthorizeDowngrade_def not_less not_le intro: order.trans less_imp_le)

end
