(* ===== verification/Go_Regexp.thy ===== *)
theory Go_Regexp
  imports Go_Text
begin

text \<open>
  Go's package \<open>regexp\<close> as far as the program's patterns use it: classes, concatenation,
  alternation, greedy repetition with bounds, one capturing group and the ASCII word boundary.
  A match is leftmost-first, as in Perl: \<open>mt\<close> lists the ways an expression can match at a position
  in order of preference, so the first is the one Go reports.  Standard library, not mapped.
\<close>

datatype rx =
    Cls "rune \<Rightarrow> bool"
  | Eps
  | Seq rx rx
  | Alt rx rx
  | Rep rx nat "nat option"
  | Word_Boundary
  | Group rx

text \<open>A position: the rune before it, the runes after it, and what the group has captured.\<close>

type_synonym rx_state = "rune option \<times> rune list \<times> rune list option"

fun times :: "nat \<Rightarrow> ('a \<Rightarrow> 'a list) \<Rightarrow> 'a \<Rightarrow> 'a list" where
  "times 0 f s = [s]"
| "times (Suc n) f s = concat (map (times n f) (f s))"

fun many :: "nat \<Rightarrow> ('a \<Rightarrow> 'a list) \<Rightarrow> 'a \<Rightarrow> 'a list" where
  "many 0 f s = [s]"
| "many (Suc n) f s = concat (map (many n f) (f s)) @ [s]"

definition ascii_word :: "rune \<Rightarrow> bool" where
  "ascii_word r \<longleftrightarrow>
     (97 \<le> r \<and> r \<le> 122) \<or> (65 \<le> r \<and> r \<le> 90) \<or> (48 \<le> r \<and> r \<le> 57) \<or> r = 95"

definition at_boundary :: "rune option \<Rightarrow> rune list \<Rightarrow> bool" where
  "at_boundary before after \<longleftrightarrow>
     (case before of None \<Rightarrow> False | Some r \<Rightarrow> ascii_word r) \<noteq>
     (case after of [] \<Rightarrow> False | r # _ \<Rightarrow> ascii_word r)"

text \<open>An unbounded repetition never needs more rounds than there are runes left, since every
  repeated expression of the program consumes at least one rune.\<close>

primrec mt :: "rx \<Rightarrow> rx_state \<Rightarrow> rx_state list" where
  "mt (Cls p) st = (case st of (_, r # rs, g) \<Rightarrow> if p r then [(Some r, rs, g)] else [] | _ \<Rightarrow> [])"
| "mt Eps st = [st]"
| "mt (Seq a b) st = concat (map (mt b) (mt a st))"
| "mt (Alt a b) st = mt a st @ mt b st"
| "mt (Rep a lo hi) st =
     concat (map (\<lambda>st'. many (case hi of Some h \<Rightarrow> h - lo | None \<Rightarrow> length (fst (snd st'))) (mt a) st')
                 (times lo (mt a) st))"
| "mt Word_Boundary st = (case st of (before, after, _) \<Rightarrow> if at_boundary before after then [st] else [])"
| "mt (Group a) st =
     map (\<lambda>(b, rest, _). (b, rest, Some (take (length (fst (snd st)) - length rest) (fst (snd st)))))
         (mt a st)"

text \<open>\<open>MatchString\<close>: some position has a match.\<close>

fun rx_search :: "rx \<Rightarrow> rune option \<Rightarrow> rune list \<Rightarrow> bool" where
  "rx_search e before [] = (mt e (before, [], None) \<noteq> [])"
| "rx_search e before (r # rs) =
     (mt e (before, r # rs, None) \<noteq> [] \<or> rx_search e (Some r) rs)"

text \<open>\<open>FindAllStringSubmatch(s, -1)\<close>: the successive leftmost matches, each with its group.  The
  program's patterns match no empty text; an empty match is skipped.\<close>

function find_all :: "rx \<Rightarrow> rune option \<Rightarrow> rune list \<Rightarrow> (rune list \<times> rune list option) list" where
  "find_all e before rs =
     (case mt e (before, rs, None) of
        (before', rest, g) # _ \<Rightarrow>
          if length rest < length rs
          then (take (length rs - length rest) rs, g) # find_all e before' rest
          else (case rs of [] \<Rightarrow> [] | r # rs' \<Rightarrow> find_all e (Some r) rs')
      | [] \<Rightarrow> (case rs of [] \<Rightarrow> [] | r # rs' \<Rightarrow> find_all e (Some r) rs'))"
  by pat_completeness auto

termination
  by (relation "measure (\<lambda>(e, before, rs). length rs)") auto

declare find_all.simps [simp del]

text \<open>Case folding of the patterns' ASCII letters: U+212A folds to \<open>k\<close> and U+017F to \<open>s\<close>.\<close>

definition fold_key :: "rune \<Rightarrow> rune" where
  "fold_key r =
     (if 65 \<le> r \<and> r \<le> 90 then r + 32
      else if r = 0x212A then 107 else if r = 0x17F then 115 else r)"

definition fold_alnum :: "rune \<Rightarrow> bool" where
  "fold_alnum r \<longleftrightarrow>
     (97 \<le> fold_key r \<and> fold_key r \<le> 122) \<or> (48 \<le> r \<and> r \<le> 57)"

text \<open>Notation for patterns: a literal under \<open>(?i)\<close>, a class given by its ASCII members, \<open>\s\<close>, and
  the alternatives and the sequence of a list.\<close>

definition rx_seq :: "rx list \<Rightarrow> rx" where
  "rx_seq es = foldr Seq es Eps"

fun rx_alt :: "rx list \<Rightarrow> rx" where
  "rx_alt [] = Cls (\<lambda>_. False)"
| "rx_alt [e] = e"
| "rx_alt (e # es) = Alt e (rx_alt es)"

definition lit :: "go_string \<Rightarrow> rx" where
  "lit s = rx_seq (map (\<lambda>c. Cls (\<lambda>r. fold_key r = fold_key c)) (runes s))"

definition one_of :: "go_string \<Rightarrow> rune \<Rightarrow> bool" where
  "one_of s r \<longleftrightarrow> r \<in> set (map of_char s)"

definition rx_space :: "rune \<Rightarrow> bool" where
  "rx_space r \<longleftrightarrow> r = 9 \<or> r = 10 \<or> r = 12 \<or> r = 13 \<or> r = 32"

abbreviation rx_opt :: "rx \<Rightarrow> rx" where "rx_opt e \<equiv> Rep e 0 (Some 1)"
abbreviation rx_star :: "rx \<Rightarrow> rx" where "rx_star e \<equiv> Rep e 0 None"
abbreviation rx_plus :: "rx \<Rightarrow> rx" where "rx_plus e \<equiv> Rep e 1 None"

end
