(* ===== verification/Archive.thy ===== *)
theory Archive
  imports Policy Go_Regexp
begin

text \<open>
  Package \<open>archive\<close>: the role and the authoritative metadata of an archived message, the inherited
  sensitivity of an episode, the identity of an experience source, the canonical timestamp, and the
  deterministic content policy (\<open>policy_detect.go\<close>) that flags secret-like and instruction-like text.
\<close>

section \<open>Messages and episodes\<close>

abbreviation RoleUser :: go_string where "RoleUser \<equiv> ''user''"
abbreviation RoleAssistant :: go_string where "RoleAssistant \<equiv> ''assistant''"
abbreviation RoleSystem :: go_string where "RoleSystem \<equiv> ''system''"
abbreviation RoleTool :: go_string where "RoleTool \<equiv> ''tool''"

definition ArchiveRole_Validate :: "go_string \<Rightarrow> unit res" where
  "ArchiveRole_Validate r =
     (if r \<in> {RoleUser, RoleAssistant, RoleSystem, RoleTool} then Inr () else Inl ''invalid archive role'')"

record message_evidence =
  ev_MessageID :: go_string
  ev_ClientID :: go_string
  ev_SessionID :: go_string
  ev_Role :: go_string
  ev_Content :: go_string
  ev_ContentHash :: go_string
  ev_CurrentUserTurn :: bool
  ev_Retrieved :: bool
  ev_SecretLike :: bool
  ev_InstructionLike :: bool
  ev_Sensitivity :: sensitivity

fun episode_loop :: "sensitivity \<Rightarrow> message_evidence list \<Rightarrow> (go_string \<Rightarrow> bool) \<Rightarrow> sensitivity" where
  "episode_loop result [] included = result"
| "episode_loop result (m # ms) included =
     episode_loop (if included (ev_MessageID m)
                   then InheritSensitivity result (ev_Sensitivity m) else result) ms included"

definition EpisodeSensitivity :: "message_evidence list \<Rightarrow> (go_string \<Rightarrow> bool) \<Rightarrow> sensitivity" where
  "EpisodeSensitivity messages included = episode_loop SensitivityNormal messages included"

lemma episode_loop_ge: "result \<le> episode_loop result ms included"
  by (induction ms arbitrary: result)
    (auto simp: InheritSensitivity_max intro: order_trans [OF max.cobounded1])

lemma episode_loop_covers:
  "\<lbrakk>m \<in> set ms; included (ev_MessageID m)\<rbrakk> \<Longrightarrow> ev_Sensitivity m \<le> episode_loop result ms included"
proof (induction ms arbitrary: result)
  case (Cons a ms)
  then show ?case
    using episode_loop_ge [of "max result (ev_Sensitivity a)" ms included]
    by (auto simp: InheritSensitivity_max)
qed simp

lemma episode_loop_attained:
  "episode_loop result ms included = result \<or>
   (\<exists>m \<in> set ms. included (ev_MessageID m) \<and> episode_loop result ms included = ev_Sensitivity m)"
proof (induction ms arbitrary: result)
  case (Cons a ms)
  then show ?case by (auto simp: InheritSensitivity_def split: if_splits)
qed simp

section \<open>Experience sources\<close>

record experience_source =
  es_Type :: go_string
  es_Name :: go_string
  es_SessionID :: go_string

definition GenericCheckpointSource :: "go_string \<Rightarrow> experience_source" where
  "GenericCheckpointSource externalSessionID =
     \<lparr>es_Type = ''GENERIC_CHECKPOINT'', es_Name = ''mindmory-checkpoint'',
      es_SessionID = externalSessionID\<rparr>"

definition lower_hex :: "char \<Rightarrow> bool" where
  "lower_hex c \<longleftrightarrow> c \<in> set ''0123456789abcdef''"

definition IsCanonicalSHA256 :: "go_string \<Rightarrow> bool" where
  "IsCanonicalSHA256 value \<longleftrightarrow>
     has_prefix value ''sha256:'' \<and> length value = 71 \<and> list_all lower_hex (drop 7 value)"

definition validSourceID :: "go_string \<Rightarrow> bool" where
  "validSourceID value \<longleftrightarrow>
     length (trim_space value) > 0 \<and> length value \<le> 512 \<and> valid_utf8 value \<and> CHR 0x00 \<notin> set value"

definition source_name_char :: "char \<Rightarrow> bool" where
  "source_name_char c \<longleftrightarrow> c \<in> set ''abcdefghijklmnopqrstuvwxyz0123456789._-''"

definition sourceName :: "go_string \<Rightarrow> bool" where
  "sourceName v \<longleftrightarrow>
     v \<noteq> [] \<and> hd v \<in> set ''abcdefghijklmnopqrstuvwxyz0123456789'' \<and>
     list_all source_name_char (tl v) \<and> length v \<le> 128"

definition ExperienceSourceType_Validate :: "go_string \<Rightarrow> unit res" where
  "ExperienceSourceType_Validate s =
     (if s \<in> {''GENERIC_CHECKPOINT'', ''HARNESS_NATIVE_LOG'', ''IMPORT''} then Inr ()
      else Inl ''invalid experience source type'')"

definition ExperienceSource_Validate :: "experience_source \<Rightarrow> unit res" where
  "ExperienceSource_Validate s =
     (if ExperienceSourceType_Validate (es_Type s) \<noteq> Inr () \<or> \<not> sourceName (es_Name s) \<or>
         \<not> validSourceID (es_SessionID s)
      then Inl ''invalid experience source'' else Inr ())"

record source_event =
  se_ID :: go_string
  se_Sequence :: "int option"
  se_Hash :: go_string

definition SourceEvent_Validate :: "source_event \<Rightarrow> unit res" where
  "SourceEvent_Validate s =
     (if se_ID s = '''' \<and> se_Sequence s = None \<and> se_Hash s = '''' then Inr ()
      else if \<not> validSourceID (se_ID s) \<or> \<not> IsCanonicalSHA256 (se_Hash s) \<or>
              (case se_Sequence s of None \<Rightarrow> False | Some n \<Rightarrow> n < 0)
      then Inl ''invalid source event provenance'' else Inr ())"

text \<open>\<open>CanonicalTimestamp\<close>: truncation towards the past to a whole microsecond since Go's zero time.\<close>

definition CanonicalTimestamp :: "time \<Rightarrow> time" where
  "CanonicalTimestamp value = value - value mod 1000"

lemma GenericCheckpointSource_valid:
  "ExperienceSource_Validate (GenericCheckpointSource sid) = Inr () \<longleftrightarrow> validSourceID sid"
  by (auto simp: ExperienceSource_Validate_def GenericCheckpointSource_def
    ExperienceSourceType_Validate_def sourceName_def source_name_char_def)

lemma CanonicalTimestamp_idem: "CanonicalTimestamp (CanonicalTimestamp t) = CanonicalTimestamp t"
  by (simp add: CanonicalTimestamp_def mod_diff_left_eq)

section \<open>Properties\<close>

text \<open>The sensitivity of an episode is the maximum over its included messages, and NORMAL when
  none is included, so an episode is never less restricted than any source it includes and never
  more restricted than its most restricted one.\<close>

theorem EpisodeSensitivity_Max:
  "EpisodeSensitivity messages included =
     Max (insert SensitivityNormal
       (ev_Sensitivity ` {m \<in> set messages. included (ev_MessageID m)}))"
proof (rule Max_eqI [symmetric])
  show "EpisodeSensitivity messages included \<in> insert SensitivityNormal
      (ev_Sensitivity ` {m \<in> set messages. included (ev_MessageID m)})"
    using episode_loop_attained [of SensitivityNormal messages included]
    by (auto simp: EpisodeSensitivity_def)
qed (auto simp: EpisodeSensitivity_def episode_loop_covers)

end
