(* ===== verification/Message_Policy.thy ===== *)
theory Message_Policy
  imports Archive
begin

text \<open>
  \<open>archive/policy_detect.go\<close>: the fail-closed content policy.  The phrases and regular expressions are
  the source's, in the source's order; \<open>DetectMessagePolicy\<close> is the classification, and the lemmas
  characterise each of its three secret detectors.
\<close>

definition instructionLikePatterns :: "go_string list" where
  "instructionLikePatterns =
     [''ignore all previous instructions'',
      ''ignore previous instructions'',
      ''ignore your instructions'',
      ''ignore everything before'',
      ''ignore the system prompt'',
      ''disregard all previous'',
      ''disregard your instructions'',
      ''disregard the system prompt'',
      ''override your instructions'',
      ''override the system prompt'',
      ''your new instructions'',
      ''your new system prompt'',
      ''from now on you are'',
      ''you are now a'',
      ''jailbreak'',
      ''forget all previous instructions'',
      [CHR 0xE5, CHR 0xBF, CHR 0xBD, CHR 0xE7, CHR 0x95, CHR 0xA5, CHR 0xE6, CHR 0x89,
         CHR 0x80, CHR 0xE6, CHR 0x9C, CHR 0x89, CHR 0xE4, CHR 0xB9, CHR 0x8B, CHR 0xE5,
         CHR 0x89, CHR 0x8D, CHR 0xE7, CHR 0x9A, CHR 0x84, CHR 0xE6, CHR 0x8C, CHR 0x87,
         CHR 0xE4, CHR 0xBB, CHR 0xA4],
      [CHR 0xE5, CHR 0xBF, CHR 0xBD, CHR 0xE7, CHR 0x95, CHR 0xA5, CHR 0xE4, CHR 0xB9,
         CHR 0x8B, CHR 0xE5, CHR 0x89, CHR 0x8D, CHR 0xE7, CHR 0x9A, CHR 0x84, CHR 0xE6,
         CHR 0x8C, CHR 0x87, CHR 0xE4, CHR 0xBB, CHR 0xA4],
      [CHR 0xE6, CHR 0x97, CHR 0xA0, CHR 0xE8, CHR 0xA7, CHR 0x86, CHR 0xE4, CHR 0xB9,
         CHR 0x8B, CHR 0xE5, CHR 0x89, CHR 0x8D, CHR 0xE7, CHR 0x9A, CHR 0x84, CHR 0xE6,
         CHR 0x8C, CHR 0x87, CHR 0xE4, CHR 0xBB, CHR 0xA4],
      [CHR 0xE6, CHR 0x97, CHR 0xA0, CHR 0xE8, CHR 0xA7, CHR 0x86, CHR 0xE4, CHR 0xBD,
         CHR 0xA0, CHR 0xE7, CHR 0x9A, CHR 0x84, CHR 0xE6, CHR 0x8C, CHR 0x87, CHR 0xE4,
         CHR 0xBB, CHR 0xA4],
      [CHR 0xE5, CHR 0xBF, CHR 0x98, CHR 0xE8, CHR 0xAE, CHR 0xB0, CHR 0xE6, CHR 0x89,
         CHR 0x80, CHR 0xE6, CHR 0x9C, CHR 0x89, CHR 0xE4, CHR 0xB9, CHR 0x8B, CHR 0xE5,
         CHR 0x89, CHR 0x8D, CHR 0xE7, CHR 0x9A, CHR 0x84, CHR 0xE6, CHR 0x8C, CHR 0x87,
         CHR 0xE4, CHR 0xBB, CHR 0xA4],
      [CHR 0xE4, CHR 0xBB, CHR 0x8E, CHR 0xE6, CHR 0xAD, CHR 0xA4, CHR 0xE5, CHR 0x88,
         CHR 0xBB, CHR 0xE8, CHR 0xB5, CHR 0xB7, CHR 0xE4, CHR 0xBD, CHR 0xA0, CHR 0xE6,
         CHR 0x98, CHR 0xAF],
      [CHR 0xE4, CHR 0xBB, CHR 0x8E, CHR 0xE7, CHR 0x8E, CHR 0xB0, CHR 0xE5, CHR 0x9C,
         CHR 0xA8, CHR 0xE5, CHR 0xBC, CHR 0x80, CHR 0xE5, CHR 0xA7, CHR 0x8B, CHR 0xE4,
         CHR 0xBD, CHR 0xA0, CHR 0xE6, CHR 0x98, CHR 0xAF],
      [CHR 0xE4, CHR 0xBD, CHR 0xA0, CHR 0xE7, CHR 0x9A, CHR 0x84, CHR 0xE6, CHR 0x96,
         CHR 0xB0, CHR 0xE6, CHR 0x8C, CHR 0x87, CHR 0xE4, CHR 0xBB, CHR 0xA4, CHR 0xE6,
         CHR 0x98, CHR 0xAF],
      [CHR 0xE4, CHR 0xBD, CHR 0xA0, CHR 0xE7, CHR 0x9A, CHR 0x84, CHR 0xE6, CHR 0x96,
         CHR 0xB0, CHR 0xE7, CHR 0xB3, CHR 0xBB, CHR 0xE7, CHR 0xBB, CHR 0x9F, CHR 0xE6,
         CHR 0x8F, CHR 0x90, CHR 0xE7, CHR 0xA4, CHR 0xBA, CHR 0xE8, CHR 0xAF, CHR 0x8D],
      [CHR 0xE7, CHR 0xB3, CHR 0xBB, CHR 0xE7, CHR 0xBB, CHR 0x9F, CHR 0xE6, CHR 0x8F,
         CHR 0x90, CHR 0xE7, CHR 0xA4, CHR 0xBA, CHR 0xE8, CHR 0xAF, CHR 0x8D, CHR 0xE6,
         CHR 0x98, CHR 0xAF],
      [CHR 0xE8, CHR 0xB6, CHR 0x8A, CHR 0xE7, CHR 0x8B, CHR 0xB1]]"

definition secretLikePatterns :: "go_string list" where
  "secretLikePatterns =
     [''my password is'',
      ''my password:'',
      ''the password is'',
      ''my api key'',
      ''my api-key'',
      ''api key is'',
      ''api-key is'',
      ''apikey is'',
      ''my secret key'',
      ''secret key is'',
      ''access key is'',
      ''private key is'',
      ''my token is'',
      ''credentials are'',
      ''credit card number'',
      ''card number is'',
      ''ssn is'',
      ''passport number is'',
      [CHR 0xE6, CHR 0x88, CHR 0x91, CHR 0xE7, CHR 0x9A, CHR 0x84, CHR 0xE5, CHR 0xAF,
         CHR 0x86, CHR 0xE7, CHR 0xA0, CHR 0x81, CHR 0xE6, CHR 0x98, CHR 0xAF],
      [CHR 0xE5, CHR 0xAF, CHR 0x86, CHR 0xE7, CHR 0xA0, CHR 0x81, CHR 0xE6, CHR 0x98,
         CHR 0xAF],
      [CHR 0xE6, CHR 0x88, CHR 0x91, CHR 0xE7, CHR 0x9A, CHR 0x84, CHR 0xE5, CHR 0xAF,
         CHR 0x86, CHR 0xE9, CHR 0x92, CHR 0xA5, CHR 0xE6, CHR 0x98, CHR 0xAF],
      [CHR 0xE5, CHR 0xAF, CHR 0x86, CHR 0xE9, CHR 0x92, CHR 0xA5, CHR 0xE6, CHR 0x98,
         CHR 0xAF],
      [CHR 0x61, CHR 0x70, CHR 0x69, CHR 0x20, CHR 0xE5, CHR 0xAF, CHR 0x86, CHR 0xE9,
         CHR 0x92, CHR 0xA5],
      [CHR 0xE8, CHR 0xB4, CHR 0xA6, CHR 0xE5, CHR 0x8F, CHR 0xB7, CHR 0xE5, CHR 0xAF,
         CHR 0x86, CHR 0xE7, CHR 0xA0, CHR 0x81],
      [CHR 0xE9, CHR 0x93, CHR 0xB6, CHR 0xE8, CHR 0xA1, CHR 0x8C, CHR 0xE5, CHR 0x8D,
         CHR 0xA1, CHR 0xE5, CHR 0x8F, CHR 0xB7],
      [CHR 0xE8, CHR 0xBA, CHR 0xAB, CHR 0xE4, CHR 0xBB, CHR 0xBD, CHR 0xE8, CHR 0xAF,
         CHR 0x81, CHR 0xE5, CHR 0x8F, CHR 0xB7],
      [CHR 0xE4, CHR 0xBF, CHR 0xA1, CHR 0xE7, CHR 0x94, CHR 0xA8, CHR 0xE5, CHR 0x8D,
         CHR 0xA1, CHR 0xE5, CHR 0x8F, CHR 0xB7]]"

section \<open>Structured secrets\<close>

definition tok_char :: "go_string \<Rightarrow> rune \<Rightarrow> bool" where
  "tok_char extra r \<longleftrightarrow> fold_alnum r \<or> one_of extra r"

definition not_space_or :: "go_string \<Rightarrow> rune \<Rightarrow> bool" where
  "not_space_or extra r \<longleftrightarrow> \<not> rx_space r \<and> \<not> one_of extra r"

abbreviation rx_b :: rx where "rx_b \<equiv> Word_Boundary"

definition rx_private_key :: rx where
  "rx_private_key =
     rx_seq [lit ''-----BEGIN '',
       rx_opt (rx_alt [lit ''RSA '', lit ''EC '', lit ''DSA '', lit ''OPENSSH '']),
       lit ''PRIVATE KEY-----'']"

definition rx_jwt :: rx where
  "rx_jwt =
     rx_seq [rx_b, lit ''eyJ'', Rep (Cls (tok_char ''_-'')) 8 None, lit ''.'',
       Rep (Cls (tok_char ''_-'')) 8 None, lit ''.'', Rep (Cls (tok_char ''_-'')) 8 None, rx_b]"

definition rx_aws_key :: rx where
  "rx_aws_key =
     rx_seq [rx_b, rx_alt [lit ''AKIA'', lit ''ASIA''], Rep (Cls fold_alnum) 16 (Some 16), rx_b]"

definition rx_provider_token :: rx where
  "rx_provider_token =
     rx_alt [
       rx_seq [rx_b, lit ''gh'', Cls (\<lambda>r. one_of ''pousr'' (fold_key r)), lit ''_'',
         Rep (Cls fold_alnum) 20 None, rx_b],
       rx_seq [rx_b, lit ''github_pat_'', Rep (Cls (tok_char ''_'')) 20 None, rx_b],
       rx_seq [rx_b, lit ''sk-'', Rep (Cls (tok_char ''_-'')) 20 None, rx_b]]"

definition rx_bearer :: rx where
  "rx_bearer =
     rx_alt [
       rx_seq [rx_b, lit ''authorization'', rx_star (Cls rx_space), lit '':'', rx_star (Cls rx_space),
         lit ''bearer'', rx_plus (Cls rx_space), rx_plus (Cls (not_space_or ''''))],
       rx_seq [rx_b, lit ''bearer'', rx_plus (Cls rx_space),
         Rep (Cls (tok_char ''._~+/=-'')) 16 None]]"

definition rx_url_userinfo :: rx where
  "rx_url_userinfo =
     rx_seq [rx_b,
       rx_alt [Seq (lit ''http'') (rx_opt (lit ''s'')), Seq (lit ''postgres'') (rx_opt (lit ''ql'')),
         lit ''mysql'', Seq (lit ''mongodb'') (rx_opt (lit ''+srv'')), lit ''redis''],
       lit ''://'', rx_plus (Cls (not_space_or ''/:@'')), lit '':'',
       rx_plus (Cls (not_space_or ''/@'')), lit ''@'', rx_plus (Cls (not_space_or ''''))]"

definition rx_env_assignment :: rx where
  "rx_env_assignment =
     rx_seq [rx_b,
       rx_alt [lit ''API_KEY'', lit ''API_TOKEN'', lit ''ACCESS_TOKEN'', lit ''SECRET_KEY'',
         lit ''CLIENT_SECRET'', lit ''DATABASE_URL'', lit ''DB_PASSWORD'', lit ''PASSWORD''],
       rx_star (Cls rx_space), lit ''='', rx_star (Cls rx_space),
       Rep (Cls (not_space_or [CHR 0x22, CHR 0x27])) 8 None]"

definition structuredSecretPattern :: rx where
  "structuredSecretPattern =
     rx_alt [rx_private_key, rx_jwt, rx_aws_key, rx_provider_token, rx_bearer, rx_url_userinfo,
       rx_env_assignment]"

section \<open>Labelled credentials\<close>

definition credentialAssignmentPattern :: rx where
  "credentialAssignmentPattern =
     rx_seq [
       rx_alt [lit ''password'', lit ''passphrase'',
         rx_seq [lit ''api'', rx_opt (Cls (one_of '' _-'')), lit ''key''],
         Seq (lit ''secret'') (rx_opt (Seq (rx_opt (Cls (one_of '' _-''))) (lit ''key''))),
         rx_seq [lit ''access'', rx_opt (Cls (one_of '' _-'')), lit ''token''],
         rx_seq [lit ''client'', rx_opt (Cls (one_of '' _-'')), lit ''secret''],
         lit [CHR 0xE5, CHR 0xAF, CHR 0x86, CHR 0xE7, CHR 0xA0, CHR 0x81], lit [CHR 0xE5, CHR 0x8F, CHR 0xA3, CHR 0xE4, CHR 0xBB, CHR 0xA4], lit [CHR 0xE5, CHR 0xAF, CHR 0x86, CHR 0xE9, CHR 0x92, CHR 0xA5], lit [CHR 0xE4, CHR 0xBB, CHR 0xA4, CHR 0xE7, CHR 0x89, CHR 0x8C], lit [CHR 0xE5, CHR 0x87, CHR 0xAD, CHR 0xE8, CHR 0xAF, CHR 0x81], lit [CHR 0xE6, CHR 0x95, CHR 0xB0, CHR 0xE6, CHR 0x8D, CHR 0xAE, CHR 0xE5, CHR 0xBA,
         CHR 0x93, CHR 0xE5, CHR 0xAF, CHR 0x86, CHR 0xE7, CHR 0xA0, CHR 0x81]],
       rx_star (Cls rx_space),
       rx_alt [lit ''is'', lit [CHR 0xE6, CHR 0x98, CHR 0xAF], lit [CHR 0xE4, CHR 0xB8, CHR 0xBA], lit '':'', lit [CHR 0xEF, CHR 0xBC, CHR 0x9A], lit ''=''],
       rx_star (Cls rx_space),
       rx_opt (Cls (one_of [CHR 0x22, CHR 0x27])),
       Group (Rep (Cls (not_space_or [CHR 0x22, CHR 0x27])) 8 None)]"

text \<open>The character classes present in a value: lower case, upper case, digit, anything else.\<close>

datatype char_class = Lower | Upper | Digit | Symbol

definition char_class :: "rune \<Rightarrow> char_class" where
  "char_class r =
     (if is_lower r then Lower else if is_upper r then Upper else if is_digit r then Digit
      else Symbol)"

definition count_classes :: "rune list \<Rightarrow> nat" where
  "count_classes value =
     (let present = map char_class value in
      length (filter (\<lambda>c. c \<in> set present) [Lower, Upper, Digit, Symbol]))"

definition containsLabeledCredential :: "go_string \<Rightarrow> bool" where
  "containsLabeledCredential content \<longleftrightarrow>
     list_ex (\<lambda>(_, g). case g of None \<Rightarrow> False | Some value \<Rightarrow> count_classes value \<ge> 2)
       (find_all credentialAssignmentPattern None (runes content))"

section \<open>Payment card numbers\<close>

definition luhn_candidate :: rx where
  "luhn_candidate =
     Rep (Seq (Cls (\<lambda>r. 48 \<le> r \<and> r \<le> 57)) (rx_opt (Cls (one_of '' -'')))) 13 (Some 19)"

definition card_digits :: "rune list \<Rightarrow> nat list" where
  "card_digits candidate = map (\<lambda>r. r - 48) (filter (\<lambda>r. is_digit r \<and> r \<le> 57) candidate)"

definition luhn_value :: "bool \<Rightarrow> nat \<Rightarrow> nat" where
  "luhn_value double d = (if double then (if d * 2 > 9 then d * 2 - 9 else d * 2) else d)"

text \<open>The loop from the last digit to the first, with its accumulator and its toggle.\<close>

fun luhn_loop :: "nat \<Rightarrow> bool \<Rightarrow> nat list \<Rightarrow> nat" where
  "luhn_loop acc double [] = acc"
| "luhn_loop acc double (d # ds) = luhn_loop (acc + luhn_value double d) (\<not> double) ds"

definition luhn_sum :: "nat list \<Rightarrow> nat" where
  "luhn_sum digits = luhn_loop 0 False (rev digits)"

definition luhn_ok :: "nat list \<Rightarrow> bool" where
  "luhn_ok digits \<longleftrightarrow> 13 \<le> length digits \<and> length digits \<le> 19 \<and> luhn_sum digits mod 10 = 0"

definition containsLuhnCard :: "go_string \<Rightarrow> bool" where
  "containsLuhnCard content \<longleftrightarrow>
     list_ex (\<lambda>(candidate, _). luhn_ok (card_digits candidate))
       (find_all luhn_candidate None (runes content))"

section \<open>The classification\<close>

text \<open>The result is \<open>(secretLike, instructionLike)\<close>.\<close>

definition DetectMessagePolicy :: "go_string \<Rightarrow> bool \<times> bool" where
  "DetectMessagePolicy content =
     (let lower = to_lower content;
          instructionLike = list_ex (contains lower) instructionLikePatterns;
          secretPhrase = list_ex (contains lower) secretLikePatterns
      in (secretPhrase \<or> rx_search structuredSecretPattern None (runes content) \<or>
            containsLuhnCard content \<or> containsLabeledCredential content,
          instructionLike))"

subsection \<open>The Luhn sum detects single-digit errors and transpositions\<close>

lemma luhn_loop_acc: "luhn_loop (a + b) t ds = a + luhn_loop b t ds"
  by (induction ds arbitrary: b t) (simp_all add: add.assoc)

lemma luhn_loop_append:
  "luhn_loop n t (xs @ ys) = luhn_loop (luhn_loop n t xs) (t \<noteq> odd (length xs)) ys"
proof (induction xs arbitrary: n t)
  case (Cons x xs)
  then show ?case by (cases t; cases "odd (length xs)") simp_all
qed simp

lemma luhn_value_less: "d < 10 \<Longrightarrow> luhn_value t d < 10"
  by (auto simp: luhn_value_def)

lemma luhn_value_inj: "\<lbrakk>d < 10; e < 10; luhn_value t d = luhn_value t e\<rbrakk> \<Longrightarrow> d = e"
  by (auto simp: luhn_value_def split: if_splits) presburger+

lemma luhn_sum_at:
  "luhn_sum (xs @ [d] @ ys) =
     luhn_loop 0 False (rev ys) + luhn_value (odd (length ys)) d +
     luhn_loop 0 (odd (length ys) = False) (rev xs)"
proof -
  have "luhn_sum (xs @ [d] @ ys) =
      luhn_loop (luhn_loop 0 False (rev ys) + luhn_value (odd (length ys)) d + 0)
        (odd (length ys) = False) (rev xs)"
    by (simp add: luhn_sum_def luhn_loop_append)
  then show ?thesis by (simp only: luhn_loop_acc)
qed

lemma add_mod_10_cancel:
  fixes a b d e :: nat
  assumes "(a + d + b) mod 10 = (a + e + b) mod 10"
  shows "d mod 10 = e mod 10"
proof -
  have "(int d + int (a + b)) mod 10 = (int e + int (a + b)) mod 10"
    using arg_cong [OF assms, of int] by (simp add: zmod_int ac_simps)
  then have "int d mod 10 = int e mod 10"
    by (simp add: mod_eq_dvd_iff)
  then have "int (d mod 10) = int (e mod 10)" by (simp add: zmod_int)
  then show ?thesis by simp
qed

lemma add_mod_10_inj:
  "\<lbrakk>(a + d + b) mod 10 = (a + e + b) mod (10 :: nat); d < 10; e < 10\<rbrakk> \<Longrightarrow> d = e"
  using add_mod_10_cancel [of a d b e] by simp

text \<open>Where two runs of digits differ in one place only, their sums differ modulo ten.\<close>

lemma luhn_sum_single:
  assumes "d < 10" "e < 10" "luhn_sum (xs @ [d] @ ys) mod 10 = luhn_sum (xs @ [e] @ ys) mod 10"
  shows "d = e"
  using assms by (metis luhn_sum_at add_mod_10_inj luhn_value_less luhn_value_inj)

lemma luhn_pair:
  "\<forall>d \<in> set [0..<10]. \<forall>e \<in> set [0..<10]. \<forall>t \<in> {True, False}.
     (luhn_value t d + luhn_value (\<not> t) e) mod 10 = (luhn_value t e + luhn_value (\<not> t) d) mod 10 \<longrightarrow>
     d = e \<or> {d, e} = {0, 9}"
  by code_simp

lemma luhn_sum_pair:
  "luhn_sum (xs @ [d, e] @ ys) =
     luhn_loop 0 False (rev ys) +
     (luhn_value (odd (length ys)) e + luhn_value (\<not> odd (length ys)) d) +
     luhn_loop 0 (odd (length ys)) (rev xs)"
proof -
  have "luhn_sum (xs @ [d, e] @ ys) = luhn_sum ((xs @ [d]) @ [e] @ ys)" by simp
  also have "\<dots> = luhn_loop 0 False (rev ys) + luhn_value (odd (length ys)) e +
      luhn_loop 0 (odd (length ys) = False) (d # rev xs)"
    by (subst luhn_sum_at) simp
  finally show ?thesis
    using luhn_loop_acc [of "luhn_value (even (length ys)) d" 0 "odd (length ys)" "rev xs"] by simp
qed

lemma luhn_sum_transposed:
  assumes "d < 10" "e < 10" "luhn_sum (xs @ [d, e] @ ys) mod 10 = luhn_sum (xs @ [e, d] @ ys) mod 10"
  shows "d = e \<or> {d, e} = {0, 9}"
proof -
  let ?t = "odd (length ys)"
  have eq: "(luhn_value ?t e + luhn_value (\<not> ?t) d) mod 10 = (luhn_value ?t d + luhn_value (\<not> ?t) e) mod 10"
    using assms(3) unfolding luhn_sum_pair by (rule add_mod_10_cancel)
  have "d \<in> set [0..<10]" "e \<in> set [0..<10]" "?t \<in> {True, False}" using assms(1,2) by auto
  from luhn_pair [rule_format, OF this(2,1,3) eq] show ?thesis by (metis insert_commute)
qed

subsection \<open>A listed phrase is found in any letter case\<close>

lemma to_lower_utf8: "list_all valid_rune rs \<Longrightarrow> to_lower (utf8 rs) = utf8 (map rune_to_lower rs)"
  by (simp add: to_lower_def map_runes_def runes_utf8 map_filter_def comp_def)

lemma pattern_runes: "\<forall>p \<in> set (instructionLikePatterns @ secretLikePatterns). utf8 (runes p) = p"
  by code_simp

lemma phrase_found:
  assumes "p \<in> set (instructionLikePatterns @ secretLikePatterns)"
    and "list_all valid_rune (before @ phrase @ after)" "map rune_to_lower phrase = runes p"
  shows "contains (to_lower (utf8 (before @ phrase @ after))) p"
proof -
  have "utf8 (map rune_to_lower phrase) = p" using assms(1,3) pattern_runes by simp
  then have "to_lower (utf8 (before @ phrase @ after)) =
      utf8 (map rune_to_lower before) @ p @ utf8 (map rune_to_lower after)"
    using to_lower_utf8 [OF assms(2)] by (simp only: map_append utf8_append)
  then show ?thesis unfolding contains_iff by blast
qed

section \<open>Properties\<close>

text \<open>The content policy fails closed on every listed phrase: wherever it stands in the content
  and in whatever letter case, an instruction-like phrase sets the instruction flag and a
  secret-like phrase the secret flag.\<close>

theorem DetectMessagePolicy_phrases:
  assumes "list_all valid_rune (before @ phrase @ after)" "map rune_to_lower phrase = runes p"
  shows "(p \<in> set instructionLikePatterns \<longrightarrow>
            snd (DetectMessagePolicy (utf8 (before @ phrase @ after)))) \<and>
         (p \<in> set secretLikePatterns \<longrightarrow>
            fst (DetectMessagePolicy (utf8 (before @ phrase @ after))))"
  using phrase_found [of p before phrase after] assms
  by (auto simp: DetectMessagePolicy_def Let_def list_ex_iff simp del: utf8_append)

lemma DetectMessagePolicy_phrases_witness:
  "snd (DetectMessagePolicy ''Please IGNORE Previous INSTRUCTIONS now'')"
proof -
  let ?b = "runes ''Please ''" and ?p = "runes ''IGNORE Previous INSTRUCTIONS''" and ?a = "runes '' now''"
  have "list_all valid_rune (?b @ ?p @ ?a)" by code_simp
  moreover have "map rune_to_lower ?p = runes ''ignore previous instructions''" by code_simp
  moreover have "''ignore previous instructions'' \<in> set instructionLikePatterns" by code_simp
  moreover have "utf8 (?b @ ?p @ ?a) = ''Please IGNORE Previous INSTRUCTIONS now''" by code_simp
  ultimately show ?thesis
    using DetectMessagePolicy_phrases [of ?b ?p ?a "''ignore previous instructions''"] by metis
qed

text \<open>The card detector's checksum distinguishes numbers: two digit strings that differ in one digit,
  or by the transposition of two neighbouring digits other than 0 and 9, never both pass.\<close>

theorem luhn_detects_errors:
  assumes "d < 10" "e < 10" "d \<noteq> e"
  shows "\<not> (luhn_ok (xs @ [d] @ ys) \<and> luhn_ok (xs @ [e] @ ys)) \<and>
    ({d, e} = {0, 9} \<or> \<not> (luhn_ok (xs @ [d, e] @ ys) \<and> luhn_ok (xs @ [e, d] @ ys)))"
  unfolding luhn_ok_def
  using assms luhn_sum_single [of d e xs ys] luhn_sum_transposed [of d e xs ys]
  by metis

lemma luhn_detects_errors_witness:
  "luhn_ok ((4 # replicate 14 1) @ [1] @ []) \<and>
   \<not> luhn_ok ((4 # replicate 14 1) @ [7] @ []) \<and>
   luhn_ok ([] @ [4, 1] @ replicate 14 1) \<and>
   \<not> luhn_ok ([] @ [1, 4] @ replicate 14 1)"
proof -
  have 1: "luhn_ok ((4 # replicate 14 1) @ [1] @ [])" by code_simp
  have 2: "luhn_ok ([] @ [4, 1] @ replicate 14 1)" by code_simp
  have digits: "(1 :: nat) < 10" "(7 :: nat) < 10" "(4 :: nat) < 10" "(1 :: nat) \<noteq> 7" "(4 :: nat) \<noteq> 1"
    and not09: "{4, 1 :: nat} \<noteq> {0, 9}" by auto
  from luhn_detects_errors [OF digits(1,2,4), of "4 # replicate 14 1" "[]"]
    luhn_detects_errors [OF digits(3,1,5), of "[]" "replicate 14 1"] 1 2 not09
  show ?thesis by blast
qed

end
