(* ===== verification/Go_Hash.thy ===== *)
theory Go_Hash
  imports Go_Text
begin

text \<open>
  Digests.  SHA-256 (and HMAC-SHA-256) of the standard library is a parameter \<open>sha\<close> from byte strings
  to byte strings; hexadecimal coding, big-endian lengths and length-prefixed framing are defined.
  Nothing is assumed of \<open>sha\<close>: a theorem that two digests agree concludes that the inputs agree or
  that they are a collision of \<open>sha\<close>.
\<close>

definition hex_digit :: "nat \<Rightarrow> char" where
  "hex_digit n = ''0123456789abcdef'' ! n"

text \<open>\<open>hex.EncodeToString\<close>.\<close>

definition hex_encode :: "go_string \<Rightarrow> go_string" where
  "hex_encode s = concat (map (\<lambda>c. [hex_digit (of_char c div 16), hex_digit (of_char c mod 16)]) s)"

text \<open>\<open>binary.BigEndian.PutUint64\<close>, of a length taken modulo \<open>2 ^ 64\<close> as \<open>uint64(len(value))\<close> does.\<close>

fun be_bytes :: "nat \<Rightarrow> nat \<Rightarrow> go_string" where
  "be_bytes 0 n = []"
| "be_bytes (Suc k) n = be_bytes k (n div 256) @ [char_of (n mod 256)]"

definition be64 :: "nat \<Rightarrow> go_string" where
  "be64 n = be_bytes 8 n"

definition sha_name :: "(go_string \<Rightarrow> go_string) \<Rightarrow> go_string \<Rightarrow> go_string" where
  "sha_name sha s = ''sha256:'' @ hex_encode (sha s)"

text \<open>Length-prefixed framing: every field is written after its length.\<close>

definition frame_field :: "go_string \<Rightarrow> go_string" where
  "frame_field v = be64 (length v) @ v"

definition frame :: "go_string list \<Rightarrow> go_string" where
  "frame vs = concat (map frame_field vs)"

section \<open>Injectivity of the codings\<close>

lemma length_be_bytes [simp]: "length (be_bytes k n) = k"
  by (induction k arbitrary: n) auto

lemma length_be64 [simp]: "length (be64 n) = 8"
  by (simp add: be64_def)

lemma be_bytes_inj:
  "\<lbrakk>be_bytes k m = be_bytes k n; m < 256 ^ k; n < 256 ^ k\<rbrakk> \<Longrightarrow> m = n"
proof (induction k arbitrary: m n)
  case (Suc k)
  have d: "m div 256 < 256 ^ k" "n div 256 < 256 ^ k"
    using Suc.prems(2,3) by (simp_all add: less_mult_imp_div_less)
  have eq: "be_bytes k (m div 256) = be_bytes k (n div 256)"
    "(char_of (m mod 256) :: char) = char_of (n mod 256)"
    using Suc.prems(1) by auto
  have "of_char (char_of (m mod 256) :: char) = (of_char (char_of (n mod 256) :: char) :: nat)"
    using eq(2) by simp
  then have "m mod 256 = n mod 256"
    by (simp add: of_char_of)
  moreover have "m div 256 = n div 256" using Suc.IH [OF eq(1) d] .
  ultimately show ?case by (metis div_mult_mod_eq)
qed simp

lemma be64_inj: "\<lbrakk>be64 m = be64 n; m < 2 ^ 64; n < 2 ^ 64\<rbrakk> \<Longrightarrow> m = n"
  using be_bytes_inj [of 8 m n] by (simp add: be64_def)

lemma frame_Nil [simp]: "frame [] = []"
  by (simp add: frame_def)

lemma frame_Cons: "frame (v # vs) = be64 (length v) @ v @ frame vs"
  by (simp add: frame_def frame_field_def)

lemma frame_inj:
  "\<lbrakk>frame vs = frame ws; length vs = length ws;
    \<forall>v \<in> set vs \<union> set ws. length v < 2 ^ 64\<rbrakk> \<Longrightarrow> vs = ws"
proof (induction vs arbitrary: ws)
  case (Cons v vs)
  from Cons.prems(2) obtain w ws' where ws: "ws = w # ws'" by (cases ws) auto
  have eq: "be64 (length v) @ v @ frame vs = be64 (length w) @ w @ frame ws'"
    using Cons.prems(1) ws by (simp add: frame_Cons)
  then have "be64 (length v) = be64 (length w)" and rest: "v @ frame vs = w @ frame ws'"
    by (simp_all add: append_eq_append_conv)
  then have "length v = length w" using be64_inj Cons.prems(3) ws by auto
  then show ?case using Cons.IH [of ws'] rest Cons.prems(2,3) ws
    by (auto simp: append_eq_append_conv)
qed auto

lemma hex_digit_inj: "\<lbrakk>hex_digit m = hex_digit n; m < 16; n < 16\<rbrakk> \<Longrightarrow> m = n"
proof -
  have "distinct ''0123456789abcdef''" by simp
  then show "\<lbrakk>hex_digit m = hex_digit n; m < 16; n < 16\<rbrakk> \<Longrightarrow> m = n"
    by (simp only: hex_digit_def nth_eq_iff_index_eq) (simp add: nth_eq_iff_index_eq)
qed

lemma hex_encode_Nil [simp]: "hex_encode [] = []"
  by (simp add: hex_encode_def)

lemma hex_encode_Cons:
  "hex_encode (c # cs) = hex_digit (of_char c div 16) # hex_digit (of_char c mod 16) # hex_encode cs"
  by (simp add: hex_encode_def)

lemma hex_encode_inj: "hex_encode s = hex_encode t \<longleftrightarrow> s = t"
proof (induction s arbitrary: t)
  case Nil
  then show ?case by (cases t) (auto simp: hex_encode_Cons)
next
  case (Cons c cs)
  show ?case
  proof (cases t)
    case (Cons d ds)
    have "hex_digit (of_char c div 16) = hex_digit (of_char d div 16) \<and>
        hex_digit (of_char c mod 16) = hex_digit (of_char d mod 16) \<longrightarrow> c = d"
    proof
      assume "hex_digit (of_char c div 16) = hex_digit (of_char d div 16) \<and>
        hex_digit (of_char c mod 16) = hex_digit (of_char d mod 16)"
      then have "of_char c div 16 = (of_char d div 16 :: nat)" "of_char c mod 16 = (of_char d mod 16 :: nat)"
        by (auto intro!: hex_digit_inj less_mult_imp_div_less)
      then have "of_char c = (of_char d :: nat)" by (metis div_mult_mod_eq)
      then show "c = d" by simp
    qed
    then show ?thesis using Cons.IH [of ds] by (auto simp: \<open>t = d # ds\<close> hex_encode_Cons)
  qed (auto simp: hex_encode_Cons)
qed

lemma sha_name_eq_iff: "sha_name sha s = sha_name sha t \<longleftrightarrow> sha s = sha t"
  by (simp add: sha_name_def hex_encode_inj)

section \<open>The contract of a digest over a coded value\<close>

text \<open>A coding that is injective on the values the code can build, under a digest: equal digests
  bind the values, up to a collision that is exhibited.\<close>

definition collision :: "(go_string \<Rightarrow> go_string) \<Rightarrow> go_string \<Rightarrow> go_string \<Rightarrow> bool" where
  "collision sha s t \<longleftrightarrow> s \<noteq> t \<and> sha s = sha t"

locale bound_coding =
  fixes code :: "'a \<Rightarrow> go_string"
    and sane :: "'a \<Rightarrow> bool"
  assumes code_inj: "\<lbrakk>sane x; sane y; code x = code y\<rbrakk> \<Longrightarrow> x = y"
begin

lemma digest_binds:
  "\<lbrakk>sane x; sane y; sha_name sha (code x) = sha_name sha (code y)\<rbrakk> \<Longrightarrow>
     x = y \<or> collision sha (code x) (code y)"
  using code_inj by (auto simp: sha_name_eq_iff collision_def)

end

text \<open>The framing is such a coding, on tuples of a fixed width whose fields fit a 64-bit length.\<close>

definition sane_tuple :: "nat \<Rightarrow> go_string list \<Rightarrow> bool" where
  "sane_tuple n vs \<longleftrightarrow> length vs = n \<and> (\<forall>v \<in> set vs. length v < 2 ^ 64)"

interpretation framed: bound_coding frame "sane_tuple n" for n
  by unfold_locales (auto simp: sane_tuple_def intro!: frame_inj)

end
