(* ===== verification/Memory_Domain.thy ===== *)
theory Memory_Domain
  imports Message_Policy Go_Hash Complex_Main
begin

text \<open>
  Package \<open>memory\<close> without the mutation gate: the kinds, life cycle, epistemic status and scope of a
  memory, the declared importance of an evidence quote, the identity of a proposal with its canonical
  request hash, and the evidence of a governed revision.
\<close>

section \<open>Vocabularies\<close>

abbreviation LifecycleActive :: go_string where "LifecycleActive \<equiv> ''ACTIVE''"
abbreviation LifecycleSuperseded :: go_string where "LifecycleSuperseded \<equiv> ''SUPERSEDED''"
abbreviation LifecycleForgotten :: go_string where "LifecycleForgotten \<equiv> ''FORGOTTEN''"
abbreviation LifecycleInvalidated :: go_string where "LifecycleInvalidated \<equiv> ''INVALIDATED''"

abbreviation KindUserPreference :: go_string where "KindUserPreference \<equiv> ''USER_PREFERENCE''"
abbreviation KindPersonalGoal :: go_string where "KindPersonalGoal \<equiv> ''PERSONAL_GOAL''"
abbreviation KindPersonalConstraint :: go_string where "KindPersonalConstraint \<equiv> ''PERSONAL_CONSTRAINT''"
abbreviation KindProjectDecision :: go_string where "KindProjectDecision \<equiv> ''PROJECT_DECISION''"
abbreviation KindCorrection :: go_string where "KindCorrection \<equiv> ''CORRECTION''"
abbreviation KindLesson :: go_string where "KindLesson \<equiv> ''LESSON''"

definition Kind_Validate :: "go_string \<Rightarrow> unit res" where
  "Kind_Validate k =
     (if k \<in> {KindUserPreference, KindPersonalGoal, KindPersonalConstraint, KindProjectDecision,
              ''DOCUMENT_FACT'', ''CONTRACT_TERM'', ''DATASET_FACT'', ''CODE_ARCHITECTURE_FACT'',
              ''ENTITY_RELATION'', KindCorrection, KindLesson}
      then Inr () else Inl ''invalid memory kind'')"

definition Lifecycle_Validate :: "go_string \<Rightarrow> unit res" where
  "Lifecycle_Validate l =
     (if l \<in> {LifecycleActive, LifecycleSuperseded, LifecycleForgotten, LifecycleInvalidated}
      then Inr () else Inl ''invalid memory lifecycle'')"

definition EpistemicStatus_Validate :: "go_string \<Rightarrow> unit res" where
  "EpistemicStatus_Validate e =
     (if e \<in> {''SOURCE_ASSERTION'', ''USER_ACCEPTED'', ''VERIFIED_DERIVATION''} then Inr ()
      else Inl ''invalid epistemic status'')"

abbreviation ScopeGlobal :: go_string where "ScopeGlobal \<equiv> ''GLOBAL''"
abbreviation ScopeProject :: go_string where "ScopeProject \<equiv> ''PROJECT''"

definition ScopeType_Validate :: "go_string \<Rightarrow> unit res" where
  "ScopeType_Validate s =
     (if s \<noteq> ScopeGlobal \<and> s \<noteq> ScopeProject then Inl ''invalid memory scope'' else Inr ())"

section \<open>Declared importance\<close>

definition criticalImportanceCues :: "go_string list" where
  "criticalImportanceCues =
     [''very important'', ''crucially'', ''critical'', ''top priority'', ''highest priority'',
      ''must never'', ''absolutely must'', ''absolutely'',
      [CHR 0xE6, CHR 0x9C, CHR 0x80, CHR 0xE9, CHR 0x87, CHR 0x8D, CHR 0xE8, CHR 0xA6,
         CHR 0x81], [CHR 0xE9, CHR 0x9D, CHR 0x9E, CHR 0xE5, CHR 0xB8, CHR 0xB8, CHR 0xE9, CHR 0x87,
         CHR 0x8D, CHR 0xE8, CHR 0xA6, CHR 0x81], [CHR 0xE6, CHR 0x9E, CHR 0x81, CHR 0xE5, CHR 0x85, CHR 0xB6, CHR 0xE9, CHR 0x87,
         CHR 0x8D, CHR 0xE8, CHR 0xA6, CHR 0x81], [CHR 0xE5, CHR 0x85, CHR 0xB3, CHR 0xE9, CHR 0x94, CHR 0xAE], [CHR 0xE9, CHR 0x87, CHR 0x8D, CHR 0xE4, CHR 0xB8, CHR 0xAD, CHR 0xE4, CHR 0xB9,
         CHR 0x8B, CHR 0xE9, CHR 0x87, CHR 0x8D], [CHR 0xE4, CHR 0xB8, CHR 0x80, CHR 0xE5, CHR 0xAE, CHR 0x9A, CHR 0xE8, CHR 0xA6,
         CHR 0x81, CHR 0xE8, CHR 0xAE, CHR 0xB0, CHR 0xE4, CHR 0xBD, CHR 0x8F], [CHR 0xE5, CHR 0x8D, CHR 0x83, CHR 0xE4, CHR 0xB8, CHR 0x87, CHR 0xE5, CHR 0x88,
         CHR 0xAB, CHR 0xE5, CHR 0xBF, CHR 0x98], [CHR 0xE5, CHR 0x8A, CHR 0xA1, CHR 0xE5, CHR 0xBF, CHR 0x85]]"

definition strongImportanceCues :: "go_string list" where
  "strongImportanceCues =
     [''important'', ''priority'', ''should always'', ''always remember'',
      [CHR 0xE9, CHR 0x87, CHR 0x8D, CHR 0xE8, CHR 0xA6, CHR 0x81], [CHR 0xE4, CHR 0xBC, CHR 0x98, CHR 0xE5, CHR 0x85, CHR 0x88], [CHR 0xE5, CHR 0x8A, CHR 0xA1, CHR 0xE5, CHR 0xBF, CHR 0x85, CHR 0xE8, CHR 0xAE,
         CHR 0xB0, CHR 0xE4, CHR 0xBD, CHR 0x8F]]"

definition notableImportanceCues :: "go_string list" where
  "notableImportanceCues = [''matters'', ''remember to'', [CHR 0xE8, CHR 0xAE, CHR 0xB0, CHR 0xE4, CHR 0xBD, CHR 0x8F], [CHR 0xE8, CHR 0xAE, CHR 0xB0, CHR 0xE5, CHR 0xBE, CHR 0x97]]"

definition trivialImportanceCues :: "go_string list" where
  "trivialImportanceCues =
     [''not important'', [CHR 0x64, CHR 0x6F, CHR 0x65, CHR 0x73, CHR 0x6E, CHR 0x27, CHR 0x74, CHR 0x20,
         CHR 0x6D, CHR 0x61, CHR 0x74, CHR 0x74, CHR 0x65, CHR 0x72],
      ''no need to remember'', ''trivial'', ''minor detail'',
      [CHR 0xE4, CHR 0xB8, CHR 0x8D, CHR 0xE9, CHR 0x87, CHR 0x8D, CHR 0xE8, CHR 0xA6,
         CHR 0x81], [CHR 0xE6, CHR 0x97, CHR 0xA0, CHR 0xE6, CHR 0x89, CHR 0x80, CHR 0xE8, CHR 0xB0,
         CHR 0x93], [CHR 0xE4, CHR 0xB8, CHR 0x8D, CHR 0xE7, CHR 0x94, CHR 0xA8, CHR 0xE8, CHR 0xAE,
         CHR 0xB0], [CHR 0xE5, CHR 0xB0, CHR 0x8F, CHR 0xE4, CHR 0xBA, CHR 0x8B]]"

definition has_any :: "go_string \<Rightarrow> go_string list \<Rightarrow> bool" where
  "has_any s cues \<longleftrightarrow> list_ex (contains s) cues"

definition Importance :: "go_string \<Rightarrow> real" where
  "Importance quote =
     (let lower = to_lower quote in
      if has_any lower criticalImportanceCues then 1
      else if has_any lower trivialImportanceCues then 1 / 5
      else if has_any lower strongImportanceCues then 4 / 5
      else if has_any lower notableImportanceCues then 3 / 5
      else 2 / 5)"

lemma has_any_mono: "\<lbrakk>has_any s cues; contains t s\<rbrakk> \<Longrightarrow> has_any t cues"
  by (auto simp: has_any_def list_ex_iff contains_iff_sublist intro: sublist_order.order.trans)

text \<open>Every cue that contains another cue is redundant; two of the strong list are shadowed by the
  critical list, which is consulted first.\<close>

lemma Importance_grades: "Importance quote \<in> {1, 4 / 5, 3 / 5, 2 / 5, 1 / 5}"
  by (simp add: Importance_def Let_def)

section \<open>Proposals\<close>

abbreviation ProposalPending :: go_string where "ProposalPending \<equiv> ''PENDING''"
abbreviation ProposalApplied :: go_string where "ProposalApplied \<equiv> ''APPLIED''"
abbreviation ProposalRejected :: go_string where "ProposalRejected \<equiv> ''REJECTED''"

record message_quote =
  mq_Hash :: go_string
  mq_StartByte :: int
  mq_EndByte :: int

record proposal_identity =
  pi_ClientKey :: go_string
  pi_SessionID :: go_string
  pi_MessageID :: go_string
  pi_Mutation :: go_string
  pi_TargetMemoryID :: go_string
  pi_ProposedKind :: go_string
  pi_Scope :: go_string
  pi_ProjectKey :: go_string
  pi_Subject :: go_string
  pi_Replacement :: go_string
  pi_RequestEvidenceHash :: go_string
  pi_EvidenceContentHash :: go_string
  pi_Evidence :: "message_quote option"

record proposal =
  pr_ID :: go_string
  pr_RequestHash :: go_string
  pr_ReasonCode :: go_string
  pr_AppliedMemoryID :: go_string
  pr_GateClass :: go_string
  pr_Identity :: proposal_identity
  pr_Status :: go_string
  pr_CreatedAt :: time
  pr_ResolvedAt :: "time option"

definition ProposalStatus_Validate :: "go_string \<Rightarrow> unit res" where
  "ProposalStatus_Validate p =
     (if p \<noteq> ProposalPending \<and> p \<noteq> ProposalApplied \<and> p \<noteq> ProposalRejected
      then Inl ''invalid proposal status'' else Inr ())"

definition identity_fields :: "proposal_identity \<Rightarrow> go_string list" where
  "identity_fields i =
     [pi_ClientKey i, pi_SessionID i, pi_MessageID i, pi_Mutation i,
      pi_TargetMemoryID i, pi_ProposedKind i, pi_Scope i, pi_ProjectKey i,
      pi_Subject i, pi_Replacement i, pi_RequestEvidenceHash i,
      pi_EvidenceContentHash i]"

definition RequestHash :: "(go_string \<Rightarrow> go_string) \<Rightarrow> proposal_identity \<Rightarrow> go_string" where
  "RequestHash sha identity = sha_name sha (frame (identity_fields identity))"

text \<open>What the request hash binds: the identity without the located quote.\<close>

definition sane_identity :: "proposal_identity \<Rightarrow> bool" where
  "sane_identity i \<longleftrightarrow> (\<forall>v \<in> set (identity_fields i). length v < 2 ^ 64)"

lemma RequestHash_binds:
  assumes "sane_identity i" "sane_identity j" "RequestHash sha i = RequestHash sha j"
  shows "i\<lparr>pi_Evidence := None\<rparr> = j\<lparr>pi_Evidence := None\<rparr> \<or>
    collision sha (frame (identity_fields i)) (frame (identity_fields j))"
proof -
  have "sane_tuple 12 (identity_fields i)" "sane_tuple 12 (identity_fields j)"
    using assms(1,2) by (simp_all add: sane_tuple_def sane_identity_def identity_fields_def)
  from framed.digest_binds [OF this] assms(3)
  have "identity_fields i = identity_fields j \<or>
      collision sha (frame (identity_fields i)) (frame (identity_fields j))"
    by (simp add: RequestHash_def)
  then show ?thesis by (auto simp: identity_fields_def)
qed

section \<open>Governed revisions\<close>

record revision_evidence =
  re_Kind :: go_string
  re_SourceID :: go_string
  re_Relation :: go_string
  re_Quote :: "message_quote option"
  re_CitationHash :: go_string

definition RevisionEvidence_Validate :: "revision_evidence \<Rightarrow> unit res" where
  "RevisionEvidence_Validate e =
     (if re_SourceID e = '''' \<or>
         (re_Relation e \<noteq> ''SUPPORTS'' \<and> re_Relation e \<noteq> ''CONTRADICTS'' \<and>
          re_Relation e \<noteq> ''DERIVED_FROM'')
      then Inl ''invalid revision evidence''
      else if re_Kind e = ''MESSAGE'' then
        (if re_Quote e = None \<or> re_CitationHash e \<noteq> ''''
         then Inl ''message revision evidence requires quote'' else Inr ())
      else if re_Kind e = ''ARTIFACT_FRAGMENT'' then
        (if re_CitationHash e = '''' \<or> re_Quote e \<noteq> None
         then Inl ''artifact revision evidence requires citation hash'' else Inr ())
      else if re_Kind e = ''COGNITIVE_MEMORY'' then
        (if re_Quote e \<noteq> None \<or> re_CitationHash e \<noteq> ''''
         then Inl ''memory revision evidence uses identity'' else Inr ())
      else Inl ''invalid revision evidence source'')"

section \<open>Properties\<close>


definition sample_identity :: "go_string \<Rightarrow> go_string \<Rightarrow> proposal_identity" where
  "sample_identity subject replacement =
     \<lparr>pi_ClientKey = ''mindmory-cli'', pi_SessionID = ''s1'', pi_MessageID = ''m1'',
      pi_Mutation = ''REMEMBER'', pi_TargetMemoryID = '''', pi_ProposedKind = KindUserPreference,
      pi_Scope = ScopeGlobal, pi_ProjectKey = '''', pi_Subject = subject,
      pi_Replacement = replacement, pi_RequestEvidenceHash = '''', pi_EvidenceContentHash = '''',
      pi_Evidence = None\<rparr>"


end
