(* ===== verification/Retrieval.thy ===== *)
theory Retrieval
  imports Memory_Domain
begin

text \<open>
  Package \<open>retrieval\<close>: the request types with their validation and effective limits, the authority
  rule \<open>MemoryEligible\<close>, the legacy heat curve, the token estimate of the reflex packet, and the signed
  continuity cursor.  \<open>math.Exp\<close> is HOL's \<open>exp\<close>; HMAC, base64 and the JSON codec of a cursor are
  parameters.
\<close>

section \<open>Limits\<close>

abbreviation DefaultSearchLimit :: int where "DefaultSearchLimit \<equiv> 8"
abbreviation MaximumSearchLimit :: int where "MaximumSearchLimit \<equiv> 20"
abbreviation IdentityHitsMax :: nat where "IdentityHitsMax \<equiv> 20"
abbreviation MaximumQueryBytes :: nat where "MaximumQueryBytes \<equiv> 1024"

record session_scope =
  ss_SessionID :: go_string
  ss_ClientKey :: go_string
  ss_ProjectKey :: go_string

section \<open>Requests\<close>

record search_request =
  sq_SessionID :: go_string
  sq_Query :: go_string
  sq_Limit :: int
  sq_Kinds :: "go_string list"
  sq_Mode :: go_string

definition SearchRequest_Validate :: "search_request \<Rightarrow> unit res" where
  "SearchRequest_Validate r =
     (if trim_space (sq_SessionID r) = '''' \<or> trim_space (sq_Query r) = '''' \<or>
         \<not> valid_utf8 (sq_Query r) \<or> length (sq_Query r) > MaximumQueryBytes
      then Inl ''invalid retrieval query''
      else if sq_Limit r < 0 \<or> sq_Limit r > MaximumSearchLimit
      then Inl ''invalid retrieval result limit''
      else if list_ex (\<lambda>kind. Kind_Validate kind \<noteq> Inr ()) (sq_Kinds r)
      then Inl ''invalid memory kind filter''
      else if sq_Mode r \<noteq> '''' \<and> sq_Mode r \<noteq> ''LEXICAL'' \<and> sq_Mode r \<noteq> ''SEMANTIC_FALLBACK'' \<and>
              sq_Mode r \<noteq> ''SEMANTIC''
      then Inl ''invalid retrieval search mode'' else Inr ())"

definition SearchRequest_EffectiveLimit :: "search_request \<Rightarrow> int" where
  "SearchRequest_EffectiveLimit r = (if sq_Limit r = 0 then DefaultSearchLimit else sq_Limit r)"

record feedback_request =
  fq_SessionID :: go_string
  fq_MemoryID :: go_string
  fq_Outcome :: go_string
  fq_Note :: go_string

definition FeedbackRequest_Validate :: "feedback_request \<Rightarrow> unit res" where
  "FeedbackRequest_Validate r =
     (if trim_space (fq_SessionID r) = '''' \<or> trim_space (fq_MemoryID r) = ''''
      then Inl ''invalid feedback request''
      else if trim_space (fq_Outcome r) = ''helped'' \<or> trim_space (fq_Outcome r) = ''misled''
      then Inr () else Inl ''invalid feedback outcome'')"

record artifact_search_request =
  as_SessionID :: go_string
  as_Query :: go_string
  as_Limit :: int

definition ArtifactSearchRequest_EffectiveLimit :: "artifact_search_request \<Rightarrow> int" where
  "ArtifactSearchRequest_EffectiveLimit r = (if as_Limit r = 0 then 8 else as_Limit r)"

definition ArtifactSearchRequest_Validate :: "artifact_search_request \<Rightarrow> unit res" where
  "ArtifactSearchRequest_Validate r =
     (if trim_space (as_SessionID r) = '''' \<or> trim_space (as_Query r) = '''' \<or>
         \<not> valid_utf8 (as_Query r) \<or> length (as_Query r) > MaximumQueryBytes \<or>
         as_Limit r < 0 \<or> as_Limit r > 20
      then Inl ''invalid artifact search'' else Inr ())"

record artifact_read_request =
  ar_SessionID :: go_string
  ar_ArtifactID :: go_string
  ar_MaxChars :: int

definition ArtifactReadRequest_EffectiveMaxChars :: "artifact_read_request \<Rightarrow> int" where
  "ArtifactReadRequest_EffectiveMaxChars r = (if ar_MaxChars r = 0 then 16000 else ar_MaxChars r)"

definition ArtifactReadRequest_Validate :: "artifact_read_request \<Rightarrow> unit res" where
  "ArtifactReadRequest_Validate r =
     (if trim_space (ar_SessionID r) = '''' \<or> trim_space (ar_ArtifactID r) = '''' \<or>
         ar_MaxChars r < 0 \<or> ar_MaxChars r > 64000
      then Inl ''invalid artifact read'' else Inr ())"

record context_request =
  cq_SessionID :: go_string
  cq_Query :: go_string
  cq_MaxChars :: int
  cq_Mode :: go_string

abbreviation ReflexMode :: go_string where "ReflexMode \<equiv> ''reflex''"
abbreviation ExplicitMode :: go_string where "ExplicitMode \<equiv> ''explicit''"

definition ContextRequest_EffectiveMode :: "context_request \<Rightarrow> go_string" where
  "ContextRequest_EffectiveMode r = (if cq_Mode r = ReflexMode then ReflexMode else ExplicitMode)"

definition ContextRequest_EffectiveMaxChars :: "context_request \<Rightarrow> int" where
  "ContextRequest_EffectiveMaxChars r = (if cq_MaxChars r = 0 then 12000 else cq_MaxChars r)"

definition ContextRequest_Validate :: "context_request \<Rightarrow> unit res" where
  "ContextRequest_Validate r =
     (if cq_Mode r \<noteq> '''' \<and> cq_Mode r \<noteq> ReflexMode \<and> cq_Mode r \<noteq> ExplicitMode
      then Inl ''invalid context mode''
      else if trim_space (cq_SessionID r) = '''' \<or> \<not> valid_utf8 (cq_Query r) \<or>
              length (cq_Query r) > MaximumQueryBytes \<or> cq_MaxChars r < 0 \<or> cq_MaxChars r > 32000
      then Inl ''invalid context request'' else Inr ())"

record diff_request =
  dq_SessionID :: go_string
  dq_Cursor :: go_string
  dq_Limit :: int

definition DiffRequest_EffectiveLimit :: "diff_request \<Rightarrow> int" where
  "DiffRequest_EffectiveLimit r = (if dq_Limit r = 0 then 20 else dq_Limit r)"

definition DiffRequest_Validate :: "diff_request \<Rightarrow> unit res" where
  "DiffRequest_Validate r =
     (if trim_space (dq_SessionID r) = '''' \<or> dq_Limit r < 0 \<or> dq_Limit r > 100
      then Inl ''invalid diff request'' else Inr ())"

lemma SearchRequest_limit_bounds:
  "SearchRequest_Validate r = Inr () \<Longrightarrow>
     1 \<le> SearchRequest_EffectiveLimit r \<and> SearchRequest_EffectiveLimit r \<le> MaximumSearchLimit"
  by (auto simp: SearchRequest_Validate_def SearchRequest_EffectiveLimit_def split: if_splits)

lemma DiffRequest_limit_bounds:
  "DiffRequest_Validate r = Inr () \<Longrightarrow>
     1 \<le> DiffRequest_EffectiveLimit r \<and> DiffRequest_EffectiveLimit r \<le> 100"
  by (auto simp: DiffRequest_Validate_def DiffRequest_EffectiveLimit_def split: if_splits)

section \<open>Authority\<close>

text \<open>Arguments: session, scope, project key, life cycle, sensitivity, historical.\<close>

definition MemoryEligible ::
    "session_scope \<Rightarrow> go_string \<Rightarrow> go_string \<Rightarrow> go_string \<Rightarrow> sensitivity \<Rightarrow> bool \<Rightarrow> bool" where
  "MemoryEligible session scope projectKey lifecycle sensitivity historical =
     (if sensitivity \<noteq> SensitivityNormal then False
      else if \<not> historical \<and> lifecycle \<noteq> LifecycleActive then False
      else if scope = ScopeGlobal then True
      else scope = ScopeProject \<and> ss_ProjectKey session \<noteq> '''' \<and> projectKey = ss_ProjectKey session)"

lemma MemoryEligible_iff:
  "MemoryEligible session scope projectKey lifecycle sensitivity historical \<longleftrightarrow>
     sensitivity = SensitivityNormal \<and> (historical \<or> lifecycle = LifecycleActive) \<and>
     (scope = ScopeGlobal \<or>
      scope = ScopeProject \<and> ss_ProjectKey session \<noteq> '''' \<and> projectKey = ss_ProjectKey session)"
  by (auto simp: MemoryEligible_def)

section \<open>Heat\<close>

definition IdentityKind :: "go_string \<Rightarrow> bool" where
  "IdentityKind kind \<longleftrightarrow>
     kind \<in> {KindUserPreference, KindPersonalGoal, KindPersonalConstraint}"

definition heat_tau0 :: "real \<Rightarrow> real" where
  "heat_tau0 base =
     (if base \<ge> 9 / 10 then 90 else if base \<ge> 7 / 10 then 60 else if base \<ge> 1 / 2 then 45
      else if base \<ge> 3 / 10 then 30 else 15)"

definition EffectiveHeat :: "real \<Rightarrow> real \<Rightarrow> int \<Rightarrow> bool \<Rightarrow> real" where
  "EffectiveHeat importance heat sessionsSince identity =
     (let base = importance;
          since = (if identity then 0 else sessionsSince) in
      if heat \<le> base then heat
      else
        (let tau = heat_tau0 base * (1 / 2 + heat) in
         if tau \<le> 0 then base
         else base + (heat - base) * exp (- real_of_int since / tau)))"

definition HeatGrade :: "real \<Rightarrow> real \<Rightarrow> go_string" where
  "HeatGrade importance effectiveHeat =
     (if effectiveHeat \<ge> 7 / 10 then ''hot'' else if effectiveHeat \<ge> 2 / 5 then ''warm'' else ''cold'')"

lemma EffectiveHeat_bounds:
  assumes "0 \<le> importance" "0 \<le> sessionsSince"
  shows "min importance heat \<le> EffectiveHeat importance heat sessionsSince identity"
    and "EffectiveHeat importance heat sessionsSince identity \<le> heat"
proof -
  have damp: "y + (x - y) * exp (- (real_of_int s / t)) \<le> x" if "0 < t" "y < x" "0 \<le> s" for x y t :: real and s
  proof -
    have "exp (- (real_of_int s / t)) \<le> 1" using that by simp
    then have "(x - y) * exp (- (real_of_int s / t)) \<le> (x - y) * 1"
      using that by (intro mult_left_mono) auto
    then show ?thesis by simp
  qed
  show "EffectiveHeat importance heat sessionsSince identity \<le> heat"
    using assms(2) by (simp add: EffectiveHeat_def Let_def not_le damp)
  show "min importance heat \<le> EffectiveHeat importance heat sessionsSince identity"
    by (auto simp: EffectiveHeat_def Let_def)
qed

section \<open>Token estimate\<close>

definition EstimatedTokens :: "go_string \<Rightarrow> nat" where
  "EstimatedTokens value =
     (let cjk = length (filter is_cjk (runes value));
          other = length (filter (\<lambda>r. \<not> is_cjk r) (runes value)) in
      if cjk = 0 \<and> other = 0 then 0
      else (let estimate = cjk + (other + 3) div 4 in if estimate < 1 then 1 else estimate))"

abbreviation ReflexCoreBudget :: nat where "ReflexCoreBudget \<equiv> 400"
abbreviation ReflexProjectBudget :: nat where "ReflexProjectBudget \<equiv> 600"
abbreviation ReflexDeltaBudget :: nat where "ReflexDeltaBudget \<equiv> 500"
abbreviation ReflexImportantBudget :: nat where "ReflexImportantBudget \<equiv> 400"
abbreviation ReflexLoopsBudget :: nat where "ReflexLoopsBudget \<equiv> 300"
abbreviation ReflexHardMaxTokens :: nat where "ReflexHardMaxTokens \<equiv> 2500"
abbreviation ReflexCoreMaxItems :: nat where "ReflexCoreMaxItems \<equiv> 8"
abbreviation ReflexImportantMaxItems :: nat where "ReflexImportantMaxItems \<equiv> 8"

lemma EstimatedTokens_0_iff: "EstimatedTokens value = 0 \<longleftrightarrow> value = []"
proof -
  have "length (filter is_cjk (runes value)) = 0 \<and> length (filter (\<lambda>r. \<not> is_cjk r) (runes value)) = 0
      \<longleftrightarrow> runes value = []"
    by (cases "runes value") auto
  then show ?thesis by (simp add: EstimatedTokens_def Let_def)
qed

section \<open>Continuity cursor\<close>

record cursor_payload =
  cp_Version :: int
  cp_SessionID :: go_string
  cp_ProjectKeyHash :: go_string
  cp_Revision :: int

text \<open>The primitives the cursor rests on: HMAC-SHA-256 by key, base64, and the JSON codec.\<close>

record cursor_env =
  ce_mac :: "go_string \<Rightarrow> go_string \<Rightarrow> go_string"
  ce_b64 :: "go_string \<Rightarrow> go_string"
  ce_unb64 :: "go_string \<Rightarrow> go_string option"
  ce_marshal :: "cursor_payload \<Rightarrow> go_string"
  ce_unmarshal :: "go_string \<Rightarrow> cursor_payload option"
  ce_sha :: "go_string \<Rightarrow> go_string"

definition ProjectHash :: "cursor_env \<Rightarrow> go_string \<Rightarrow> go_string" where
  "ProjectHash env project = ce_b64 env (ce_sha env project)"

definition SignCursor :: "cursor_env \<Rightarrow> go_string \<Rightarrow> cursor_payload \<Rightarrow> go_string res" where
  "SignCursor env key p =
     (if length key < 32 then Inl ''cursor key too short''
      else (let body = ce_marshal env p in Inr (ce_b64 env (body @ ce_mac env key body))))"

definition SignProjectCursor :: "cursor_env \<Rightarrow> go_string \<Rightarrow> go_string \<Rightarrow> int \<Rightarrow> go_string res" where
  "SignProjectCursor env key projectKey revision =
     SignCursor env key
       \<lparr>cp_Version = 2, cp_SessionID = '''', cp_ProjectKeyHash = ProjectHash env projectKey,
        cp_Revision = revision\<rparr>"

definition VerifyCursor :: "cursor_env \<Rightarrow> go_string \<Rightarrow> go_string \<Rightarrow> cursor_payload res" where
  "VerifyCursor env key value =
     (if length key < 32 then Inl ''cursor key too short''
      else case ce_unb64 env value of
        None \<Rightarrow> Inl ''invalid cursor''
      | Some raw \<Rightarrow>
          if length raw \<le> 32 then Inl ''invalid cursor''
          else
            (let body = take (length raw - 32) raw; sig = drop (length raw - 32) raw in
             if sig \<noteq> ce_mac env key body then Inl ''invalid cursor''
             else case ce_unmarshal env body of
               None \<Rightarrow> Inl ''invalid cursor''
             | Some p \<Rightarrow>
                 if cp_ProjectKeyHash p = '''' \<or> cp_Revision p < 0 then Inl ''invalid cursor''
                 else if cp_Version p = 1 then
                   (if cp_SessionID p = '''' then Inl ''invalid cursor'' else Inr p)
                 else if cp_Version p = 2 then Inr p
                 else Inl ''invalid cursor''))"

text \<open>What the cursor relies on of its primitives, for one payload.\<close>

definition cursor_env_ok :: "cursor_env \<Rightarrow> go_string \<Rightarrow> cursor_payload \<Rightarrow> bool" where
  "cursor_env_ok env key p \<longleftrightarrow>
     (\<forall>s. ce_unb64 env (ce_b64 env s) = Some s) \<and>
     (\<forall>s. length (ce_mac env key s) = 32) \<and>
     ce_unmarshal env (ce_marshal env p) = Some p \<and> ce_marshal env p \<noteq> []"

lemma VerifyCursor_SignCursor:
  assumes "cursor_env_ok env key p" "cp_ProjectKeyHash p \<noteq> ''''" "0 \<le> cp_Revision p"
    and "cp_Version p = 1 \<and> cp_SessionID p \<noteq> '''' \<or> cp_Version p = 2"
    and "SignCursor env key p = Inr value"
  shows "VerifyCursor env key value = Inr p"
  using assms by (auto simp: SignCursor_def VerifyCursor_def cursor_env_ok_def Let_def split: if_splits)

lemma VerifyCursor_authentic:
  "VerifyCursor env key value = Inr p \<Longrightarrow>
     \<exists>body. ce_unb64 env value = Some (body @ ce_mac env key body) \<and> ce_unmarshal env body = Some p"
  by (auto simp: VerifyCursor_def Let_def split: if_splits option.splits)
    (metis append_take_drop_id)+

section \<open>Properties\<close>

text \<open>A continuity cursor that was signed for a valid payload verifies under the same key and
  yields that payload, for both versions; and whatever verifies carries the MAC of its own body.\<close>

theorem cursor_round_trip:
  assumes "cursor_env_ok env key p" "cp_ProjectKeyHash p \<noteq> ''''" "0 \<le> cp_Revision p"
    and "cp_Version p = 1 \<and> cp_SessionID p \<noteq> '''' \<or> cp_Version p = 2"
    and "SignCursor env key p = Inr value"
  shows "VerifyCursor env key value = Inr p \<and>
    (\<exists>body. ce_unb64 env value = Some (body @ ce_mac env key body))"
  using VerifyCursor_SignCursor [OF assms] VerifyCursor_authentic by blast

definition sample_cursor_env :: cursor_env where
  "sample_cursor_env =
     \<lparr>ce_mac = \<lambda>key s. take 32 (key @ replicate 32 CHR 0x00), ce_b64 = \<lambda>s. s, ce_unb64 = Some,
      ce_marshal = \<lambda>p. itoa (cp_Revision p),
      ce_unmarshal = \<lambda>s. if s = ''7'' then
        Some \<lparr>cp_Version = 2, cp_SessionID = '''', cp_ProjectKeyHash = ''p'', cp_Revision = 7\<rparr> else None,
      ce_sha = \<lambda>s. s\<rparr>"

lemma cursor_round_trip_witness:
  "VerifyCursor sample_cursor_env (replicate 32 CHR ''k'') (''7'' @ replicate 32 CHR ''k'') =
     Inr \<lparr>cp_Version = 2, cp_SessionID = '''', cp_ProjectKeyHash = ''p'', cp_Revision = 7\<rparr>"
proof -
  let ?p = "\<lparr>cp_Version = 2, cp_SessionID = '''', cp_ProjectKeyHash = ''p'', cp_Revision = 7\<rparr>"
  have seven: "itoa 7 = ''7''" by code_simp
  have "cursor_env_ok sample_cursor_env (replicate 32 CHR ''k'') ?p"
    by (simp add: cursor_env_ok_def sample_cursor_env_def seven)
  moreover have "SignCursor sample_cursor_env (replicate 32 CHR ''k'') ?p =
      Inr (''7'' @ replicate 32 CHR ''k'')"
    by (simp add: SignCursor_def sample_cursor_env_def seven Let_def)
  ultimately show ?thesis using cursor_round_trip [of sample_cursor_env "replicate 32 CHR ''k''" ?p] by simp
qed

end
