(* ===== verification/Mutation_Gate.thy ===== *)
theory Mutation_Gate
  imports Memory_Domain
begin

text \<open>
  \<open>memory/mutation.go\<close>: the deterministic gate every proposed memory change passes.  \<open>verifyMutation\<close>
  returns a decision with its reason and class; \<open>VerifyMutationForReview\<close> is the variant of the review
  endpoint, which overrides the intent cue and nothing else.  The helpers are the cue lists, the
  lexical overlap of a subject with its evidence, and the support of a replacement by the evidence.
\<close>

section \<open>Requests, targets and decisions\<close>

abbreviation MutationRemember :: go_string where "MutationRemember \<equiv> ''REMEMBER''"
abbreviation MutationCorrect :: go_string where "MutationCorrect \<equiv> ''CORRECT''"
abbreviation MutationForget :: go_string where "MutationForget \<equiv> ''FORGET''"

abbreviation MutationApply :: go_string where "MutationApply \<equiv> ''APPLY''"
abbreviation MutationStaged :: go_string where "MutationStaged \<equiv> ''STAGED''"

abbreviation (input) GateNone :: go_string where "GateNone \<equiv> ''''"
abbreviation GateSecurity :: go_string where "GateSecurity \<equiv> ''SECURITY''"
abbreviation GateStructural :: go_string where "GateStructural \<equiv> ''STRUCTURAL''"
abbreviation GateIntent :: go_string where "GateIntent \<equiv> ''INTENT''"

record mutation_request =
  rq_Kind :: go_string
  rq_ClientID :: go_string
  rq_SessionID :: go_string
  rq_MessageID :: go_string
  rq_EvidenceQuote :: go_string
  rq_Subject :: go_string
  rq_Replacement :: go_string
  rq_TargetMemoryID :: go_string

record mutation_target =
  tg_MemoryID :: go_string
  tg_Kind :: go_string
  tg_Subject :: go_string
  tg_Content :: go_string
  tg_Lifecycle :: go_string
  tg_Sensitivity :: sensitivity

record mutation_decision =
  md_Outcome :: go_string
  md_Reason :: go_string
  md_Class :: go_string

definition MutationKind_Validate :: "go_string \<Rightarrow> unit res" where
  "MutationKind_Validate k =
     (if k \<in> {MutationRemember, MutationCorrect, MutationForget} then Inr ()
      else Inl ''invalid mutation kind'')"

definition MutationOutcome_Validate :: "go_string \<Rightarrow> unit res" where
  "MutationOutcome_Validate x =
     (if x \<noteq> MutationApply \<and> x \<noteq> MutationStaged then Inl ''invalid mutation outcome'' else Inr ())"

section \<open>Intent cues\<close>

definition rememberCues :: "go_string list" where
  "rememberCues =
     [''i prefer'', ''my preference'', ''remember that'', ''we will'', ''i want'', ''my goal'',
      ''i need'', ''must '', ''do not '', [CHR 0x64, CHR 0x6F, CHR 0x6E, CHR 0x27, CHR 0x74, CHR 0x20],
      [CHR 0xE8, CHR 0xAE, CHR 0xB0, CHR 0xE4, CHR 0xBD, CHR 0x8F], [CHR 0xE8, CHR 0xAE, CHR 0xB0, CHR 0xE4, CHR 0xB8, CHR 0x80, CHR 0xE4, CHR 0xB8,
         CHR 0x8B], [CHR 0xE4, CHR 0xBB, CHR 0xA5, CHR 0xE5, CHR 0x90, CHR 0x8E], [CHR 0xE6, CHR 0x88, CHR 0x91, CHR 0xE5, CHR 0x96, CHR 0x9C, CHR 0xE6, CHR 0xAC,
         CHR 0xA2], [CHR 0xE6, CHR 0x88, CHR 0x91, CHR 0xE5, CHR 0x81, CHR 0x8F, CHR 0xE5, CHR 0xA5,
         CHR 0xBD], [CHR 0xE6, CHR 0x88, CHR 0x91, CHR 0xE7, CHR 0x9A, CHR 0x84, CHR 0xE5, CHR 0x81,
         CHR 0x8F, CHR 0xE5, CHR 0xA5, CHR 0xBD], [CHR 0xE6, CHR 0x88, CHR 0x91, CHR 0xE7, CHR 0x9A, CHR 0x84, CHR 0xE7, CHR 0x9B,
         CHR 0xAE, CHR 0xE6, CHR 0xA0, CHR 0x87], [CHR 0xE5, CHR 0xBF, CHR 0x85, CHR 0xE9, CHR 0xA1, CHR 0xBB], [CHR 0xE4, CHR 0xBC, CHR 0x98, CHR 0xE5, CHR 0x85, CHR 0x88], [CHR 0xE4, CHR 0xB8, CHR 0x8D, CHR 0xE8, CHR 0xA6, CHR 0x81], [CHR 0xE5, CHR 0x88, CHR 0xAB]]"

definition correctCues :: "go_string list" where
  "correctCues =
     ['' instead'', ''no longer'', ''change '', ''correct '', '' is now '', ''updated to'',
      [CHR 0xE6, CHR 0x94, CHR 0xB9, CHR 0xE6, CHR 0x88, CHR 0x90], [CHR 0xE6, CHR 0x94, CHR 0xB9, CHR 0xE4, CHR 0xB8, CHR 0xBA], [CHR 0xE6, CHR 0x9B, CHR 0xB4, CHR 0xE6, CHR 0xAD, CHR 0xA3], [CHR 0xE7, CHR 0xBA, CHR 0xA0, CHR 0xE6, CHR 0xAD, CHR 0xA3], [CHR 0xE5, CHR 0xBA, CHR 0x94, CHR 0xE8, CHR 0xAF, CHR 0xA5, CHR 0xE6, CHR 0x98,
         CHR 0xAF], [CHR 0xE4, CHR 0xB8, CHR 0x8D, CHR 0xE6, CHR 0x98, CHR 0xAF], [CHR 0xE4, CHR 0xBB, CHR 0xA5, CHR 0xE5, CHR 0x90, CHR 0x8E, CHR 0xE7, CHR 0x94,
         CHR 0xA8], [CHR 0xE6, CHR 0x8D, CHR 0xA2, CHR 0xE6, CHR 0x88, CHR 0x90]]"

definition forgetCues :: "go_string list" where
  "forgetCues =
     [''forget '', ''remove '', ''delete '', [CHR 0x64, CHR 0x6F, CHR 0x6E, CHR 0x27, CHR 0x74, CHR 0x20, CHR 0x72, CHR 0x65,
         CHR 0x6D, CHR 0x65, CHR 0x6D, CHR 0x62, CHR 0x65, CHR 0x72], ''do not remember'',
      [CHR 0xE5, CHR 0xBF, CHR 0x98, CHR 0xE8, CHR 0xAE, CHR 0xB0], [CHR 0xE5, CHR 0xBF, CHR 0x98, CHR 0xE6, CHR 0x8E, CHR 0x89], [CHR 0xE5, CHR 0x88, CHR 0xA0, CHR 0xE6, CHR 0x8E, CHR 0x89], [CHR 0xE5, CHR 0x88, CHR 0xA0, CHR 0xE9, CHR 0x99, CHR 0xA4, CHR 0xE8, CHR 0xBF,
         CHR 0x99, CHR 0xE4, CHR 0xB8, CHR 0xAA, CHR 0xE8, CHR 0xAE, CHR 0xB0, CHR 0xE5,
         CHR 0xBF, CHR 0x86], [CHR 0xE4, CHR 0xB8, CHR 0x8D, CHR 0xE8, CHR 0xA6, CHR 0x81, CHR 0xE8, CHR 0xAE,
         CHR 0xB0, CHR 0xE4, CHR 0xBD, CHR 0x8F], [CHR 0xE4, CHR 0xB8, CHR 0x8D, CHR 0xE7, CHR 0x94, CHR 0xA8, CHR 0xE8, CHR 0xAE,
         CHR 0xB0, CHR 0xE4, CHR 0xBA, CHR 0x86], [CHR 0xE4, CHR 0xB8, CHR 0x8D, CHR 0xE7, CHR 0x94, CHR 0xA8, CHR 0xE8, CHR 0xAE,
         CHR 0xB0], [CHR 0xE5, CHR 0x88, CHR 0xAB, CHR 0xE8, CHR 0xAE, CHR 0xB0, CHR 0xE4, CHR 0xBA,
         CHR 0x86], [CHR 0xE5, CHR 0x88, CHR 0xAB, CHR 0xE8, CHR 0xAE, CHR 0xB0]]"

definition rememberExclusions :: "go_string list" where
  "rememberExclusions =
     [[CHR 0x64, CHR 0x6F, CHR 0x6E, CHR 0x27, CHR 0x74, CHR 0x20, CHR 0x72, CHR 0x65,
         CHR 0x6D, CHR 0x65, CHR 0x6D, CHR 0x62, CHR 0x65, CHR 0x72], ''do not remember'', [CHR 0xE4, CHR 0xB8, CHR 0x8D, CHR 0xE8, CHR 0xA6, CHR 0x81, CHR 0xE8, CHR 0xAE,
         CHR 0xB0, CHR 0xE4, CHR 0xBD, CHR 0x8F], [CHR 0xE4, CHR 0xB8, CHR 0x8D, CHR 0xE7, CHR 0x94, CHR 0xA8, CHR 0xE8, CHR 0xAE,
         CHR 0xB0], [CHR 0xE5, CHR 0x88, CHR 0xAB, CHR 0xE8, CHR 0xAE, CHR 0xB0], [CHR 0xE5, CHR 0xBF, CHR 0x98, CHR 0xE8, CHR 0xAE, CHR 0xB0], [CHR 0xE5, CHR 0xBF, CHR 0x98, CHR 0xE6, CHR 0x8E, CHR 0x89],
      ''someone said'', [CHR 0xE6, CHR 0x9C, CHR 0x89, CHR 0xE4, CHR 0xBA, CHR 0xBA, CHR 0xE8, CHR 0xAF,
         CHR 0xB4],
      ''i want to know'', ''i want to ask'', ''i want to find'', ''i want to check'', ''i wonder'',
      [CHR 0x69, CHR 0x27, CHR 0x64, CHR 0x20, CHR 0x6C, CHR 0x69, CHR 0x6B, CHR 0x65,
         CHR 0x20, CHR 0x74, CHR 0x6F, CHR 0x20, CHR 0x6B, CHR 0x6E, CHR 0x6F, CHR 0x77],
      ''can you tell'', ''do you know'', ''do you remember'', ''tell me about'',
      [CHR 0xE6, CHR 0x88, CHR 0x91, CHR 0xE6, CHR 0x83, CHR 0xB3, CHR 0xE7, CHR 0x9F,
         CHR 0xA5, CHR 0xE9, CHR 0x81, CHR 0x93], [CHR 0xE6, CHR 0x83, CHR 0xB3, CHR 0xE7, CHR 0x9F, CHR 0xA5, CHR 0xE9, CHR 0x81,
         CHR 0x93], [CHR 0xE8, CHR 0xAE, CHR 0xB0, CHR 0xE5, CHR 0xBE, CHR 0x97, CHR 0xE5, CHR 0x90,
         CHR 0x97], [CHR 0xE8, CHR 0xBF, CHR 0x98, CHR 0xE8, CHR 0xAE, CHR 0xB0, CHR 0xE5, CHR 0xBE,
         CHR 0x97], [CHR 0xE4, CHR 0xBD, CHR 0xA0, CHR 0xE8, CHR 0xAE, CHR 0xB0, CHR 0xE5, CHR 0xBE,
         CHR 0x97], [CHR 0xE5, CHR 0x91, CHR 0x8A, CHR 0xE8, CHR 0xAF, CHR 0x89, CHR 0xE6, CHR 0x88,
         CHR 0x91]]"

fun containsAny :: "go_string \<Rightarrow> go_string list \<Rightarrow> bool" where
  "containsAny value [] = False"
| "containsAny value (cue # cues) = (if contains value cue then True else containsAny value cues)"

definition hasCue :: "go_string \<Rightarrow> go_string \<Rightarrow> bool" where
  "hasCue kind value =
     (if kind = MutationRemember \<and> containsAny value rememberExclusions then False
      else if kind = MutationRemember then containsAny value rememberCues
      else if kind = MutationCorrect then containsAny value correctCues
      else if kind = MutationForget then containsAny value forgetCues
      else False)"

definition HasCue :: "go_string \<Rightarrow> go_string \<Rightarrow> bool" where
  "HasCue kind value = hasCue kind (to_lower value)"

lemma containsAny_iff: "containsAny value cues \<longleftrightarrow> (\<exists>cue \<in> set cues. contains value cue)"
  by (induction cues) auto

section \<open>Lexical support\<close>

definition isWordRune :: "rune \<Rightarrow> bool" where
  "isWordRune r \<longleftrightarrow> is_letter r \<or> is_number r \<or> r = 0x5F"

text \<open>\<open>wordPattern\<close> and \<open>replacementWordPattern\<close>: the maximal runs of word runes, of at least three
  runes for the first.\<close>

definition words_of :: "nat \<Rightarrow> go_string \<Rightarrow> go_string list" where
  "words_of n s = map utf8 (filter (\<lambda>w. n \<le> length w) (maximal_runs isWordRune (runes s)))"

definition containsCJK :: "go_string \<Rightarrow> bool" where
  "containsCJK value \<longleftrightarrow> list_ex is_cjk (runes value)"

definition normalizeText :: "go_string \<Rightarrow> go_string" where
  "normalizeText value =
     map_runes (\<lambda>r. if is_letter r \<or> is_number r then Some (rune_to_lower r) else None) value"

text \<open>The scan of \<open>cjkRuns\<close>, with the run it is collecting.\<close>

fun cjk_scan :: "rune list \<Rightarrow> rune list \<Rightarrow> go_string list" where
  "cjk_scan current [] = (if current = [] then [] else [utf8 current])"
| "cjk_scan current (r # rs) =
     (if is_cjk r then cjk_scan (current @ [r]) rs
      else (if current = [] then [] else [utf8 current]) @ cjk_scan [] rs)"

definition cjkRuns :: "go_string \<Rightarrow> go_string list" where
  "cjkRuns value = cjk_scan [] (runes value)"

definition cjkRunOverlap :: "go_string \<Rightarrow> go_string \<Rightarrow> bool" where
  "cjkRunOverlap candidate evidence \<longleftrightarrow>
     list_ex (\<lambda>left.
       if length (runes left) < 3 then False
       else list_ex (\<lambda>right. contains left right \<or> contains right left) (cjkRuns evidence))
       (cjkRuns candidate)"

definition cjkSubstringIn :: "go_string \<Rightarrow> go_string \<Rightarrow> bool" where
  "cjkSubstringIn candidate evidence \<longleftrightarrow>
     (let rs = runes candidate in
      list_ex (\<lambda>i. list_ex (\<lambda>n.
          let sub = utf8 (take n (drop i rs)) in
          if \<not> containsCJK sub then False else contains evidence sub)
        [2..<length rs - i + 1]) [0..<length rs])"

definition isASCIIWord :: "go_string \<Rightarrow> bool" where
  "isASCIIWord value \<longleftrightarrow>
     list_all (\<lambda>r. \<not> ((r < 97 \<or> r > 122) \<and> (r < 48 \<or> r > 57) \<and> r \<noteq> 95)) (runes value)"

definition asciiWordContained :: "go_string \<Rightarrow> go_string \<Rightarrow> bool" where
  "asciiWordContained needle evidence \<longleftrightarrow>
     (let rs = runes evidence; n = length needle in
      list_ex (\<lambda>i.
          if utf8 (take n (drop i rs)) \<noteq> needle then False
          else (i = 0 \<or> \<not> isWordRune (rs ! (i - 1))) \<and>
               (i + n \<ge> length rs \<or> \<not> isWordRune (rs ! (i + n))))
        (if n \<le> length rs then [0..<length rs - n + 1] else []))"

definition shortSubjectStop :: "go_string list" where
  "shortSubjectStop =
     [''to'', ''in'', ''on'', ''of'', ''it'', ''is'', ''at'', ''by'',
      ''be'', ''do'', ''up'', ''us'', ''we'', ''me'', ''he'', ''she'',
      ''so'', ''or'', ''as'', ''an'', ''if'', ''my'']"

definition shortSubjectMatch :: "go_string \<Rightarrow> go_string \<Rightarrow> bool" where
  "shortSubjectMatch candidate evidence =
     (let trimmed = to_lower (trim_space candidate) in
      if length (runes trimmed) \<noteq> 2 then False
      else if isASCIIWord trimmed then
        (if trimmed \<in> set shortSubjectStop then False
         else asciiWordContained trimmed (to_lower evidence))
      else if containsCJK trimmed then contains evidence trimmed
      else False)"

definition overlapStop :: "go_string list" where
  "overlapStop =
     [''that'', ''this'', ''with'', ''from'', ''have'', ''will'',
      ''want'', ''need'', ''prefer'', ''remember'', ''forget'', ''remove'', ''delete'',
      ''change'', ''correct'', ''instead'', ''previous'']"

definition overlaps :: "go_string \<Rightarrow> go_string \<Rightarrow> bool" where
  "overlaps candidate evidence =
     (if list_ex (\<lambda>token. token \<notin> set overlapStop \<and> token \<in> set (words_of 3 (to_lower evidence)))
           (words_of 3 (to_lower candidate)) then True
      else if cjkRunOverlap candidate evidence then True
      else if length (runes (normalizeText candidate)) \<ge> 3 \<and>
              contains (normalizeText evidence) (normalizeText candidate) then True
      else if containsCJK candidate \<and> cjkSubstringIn candidate evidence then True
      else shortSubjectMatch candidate evidence)"

definition SubjectOverlaps :: "go_string \<Rightarrow> go_string \<Rightarrow> bool" where
  "SubjectOverlaps subject evidence = overlaps subject evidence"

definition supportedReplacement :: "go_string \<Rightarrow> go_string \<Rightarrow> bool" where
  "supportedReplacement replacement evidence =
     (if containsCJK replacement then
        (let needle = normalizeText replacement; haystack = normalizeText evidence in
         needle \<noteq> '''' \<and> contains haystack needle)
      else
        (let needle = words_of 1 (to_lower replacement); haystack = words_of 1 (to_lower evidence) in
         if needle = [] \<or> length needle > length haystack then False
         else list_ex (\<lambda>start. take (length needle) (drop start haystack) = needle)
                [0..<length haystack - length needle + 1]))"

lemma cjk_scan_runs:
  "cjk_scan current rs =
     (case maximal_runs is_cjk rs of
        runs \<Rightarrow> if current = [] then map utf8 runs
                else utf8 (current @ takeWhile is_cjk rs) #
                     map utf8 (maximal_runs is_cjk (dropWhile is_cjk rs)))"
  by (induction current rs rule: cjk_scan.induct) auto

text \<open>The collecting loop computes the maximal runs of CJK runes.\<close>

lemma cjkRuns_maximal: "cjkRuns value = map utf8 (maximal_runs is_cjk (runes value))"
  by (simp add: cjkRuns_def cjk_scan_runs)

text \<open>The window search of \<open>supportedReplacement\<close> is the search for a contiguous subsequence.\<close>

lemma window_search:
  "\<not> length ys < length xs \<and>
     list_ex (\<lambda>start. take (length xs) (drop start ys) = xs) [0..<length ys - length xs + 1] \<longleftrightarrow>
     contains ys xs"
proof
  assume "\<not> length ys < length xs \<and>
     list_ex (\<lambda>start. take (length xs) (drop start ys) = xs) [0..<length ys - length xs + 1]"
  then obtain i where "take (length xs) (drop i ys) = xs" unfolding list_ex_iff by blast
  then have "ys = take i ys @ xs @ drop (length xs) (drop i ys)"
    by (metis append_take_drop_id)
  then show "contains ys xs" by (auto simp: contains_iff)
next
  assume "contains ys xs"
  then obtain a b where "ys = a @ xs @ b" by (auto simp: contains_iff)
  then show "\<not> length ys < length xs \<and>
     list_ex (\<lambda>start. take (length xs) (drop start ys) = xs) [0..<length ys - length xs + 1]"
    by (auto simp: list_ex_iff intro!: bexI [of _ "length a"])
qed

lemma supportedReplacement_words:
  assumes "\<not> containsCJK replacement"
  shows "supportedReplacement replacement evidence \<longleftrightarrow>
    words_of 1 (to_lower replacement) \<noteq> [] \<and>
    contains (words_of 1 (to_lower evidence)) (words_of 1 (to_lower replacement))"
  using assms window_search [of "words_of 1 (to_lower evidence)" "words_of 1 (to_lower replacement)"]
  by (auto simp: supportedReplacement_def Let_def)

section \<open>The gate\<close>

definition stage :: "go_string \<Rightarrow> go_string \<Rightarrow> mutation_decision" where
  "stage class reason = \<lparr>md_Outcome = MutationStaged, md_Reason = reason, md_Class = class\<rparr>"

definition applied :: mutation_decision where
  "applied = \<lparr>md_Outcome = MutationApply, md_Reason = ''CURRENT_USER_EVIDENCE_VERIFIED'',
     md_Class = GateNone\<rparr>"

definition policy_flagged :: "go_string \<Rightarrow> bool" where
  "policy_flagged content = (case DetectMessagePolicy content of (secretLike, instructionLike) \<Rightarrow>
     secretLike \<or> instructionLike)"

text \<open>The second half of \<open>verifyMutation\<close>: the branch on the operation and the target.\<close>

definition verify_target :: "mutation_request \<Rightarrow> mutation_target option \<Rightarrow> mutation_decision" where
  "verify_target request target =
     (if rq_Kind request = MutationRemember then
        (if target \<noteq> None \<or> rq_TargetMemoryID request \<noteq> ''''
         then stage GateStructural ''REMEMBER_TARGET_NOT_ALLOWED''
         else if \<not> overlaps (rq_Subject request) (rq_EvidenceQuote request)
         then stage GateStructural ''MEMORY_SUBJECT_NOT_VERIFIED''
         else applied)
      else
        (case target of
           None \<Rightarrow> stage GateStructural ''TARGET_MEMORY_REQUIRED''
         | Some t \<Rightarrow>
             if rq_TargetMemoryID request = '''' then stage GateStructural ''TARGET_MEMORY_REQUIRED''
             else if rq_TargetMemoryID request \<noteq> tg_MemoryID t
             then stage GateStructural ''TARGET_MEMORY_MISMATCH''
             else if Kind_Validate (tg_Kind t) \<noteq> Inr () \<or> tg_Lifecycle t \<noteq> LifecycleActive
             then stage GateStructural ''TARGET_MEMORY_INACTIVE''
             else if tg_Sensitivity t > SensitivityNormal
             then stage GateSecurity ''TARGET_REQUIRES_REVIEW''
             else if policy_flagged (tg_Subject t @ [CHR 0x0A] @ tg_Content t)
             then stage GateSecurity ''TARGET_CONTENT_POLICY_BLOCKED''
             else if \<not> overlaps (tg_Subject t @ '' '' @ tg_Content t) (rq_EvidenceQuote request)
             then stage GateStructural ''TARGET_MEMORY_NOT_VERIFIED''
             else if rq_Kind request = MutationCorrect \<and>
                     \<not> supportedReplacement (rq_Replacement request) (rq_EvidenceQuote request)
             then stage GateStructural ''REPLACEMENT_NOT_VERIFIED''
             else applied))"

definition verifyMutation ::
    "mutation_request \<Rightarrow> message_evidence \<Rightarrow> mutation_target option \<Rightarrow> bool \<Rightarrow> mutation_decision" where
  "verifyMutation request evidence target reviewerAuthorizedIntent =
     (if MutationKind_Validate (rq_Kind request) \<noteq> Inr ()
      then stage GateStructural ''UNSUPPORTED_MUTATION''
      else if rq_MessageID request = '''' \<or> ev_MessageID evidence = '''' \<or>
              ev_MessageID evidence \<noteq> rq_MessageID request
      then stage GateStructural ''CITED_MESSAGE_REQUIRED''
      else if ev_Role evidence \<noteq> RoleUser \<or> ev_ClientID evidence \<noteq> rq_ClientID request \<or>
              ev_SessionID evidence \<noteq> rq_SessionID request
      then stage GateStructural ''USER_EVIDENCE_MISMATCH''
      else if \<not> ev_CurrentUserTurn evidence \<or> ev_Retrieved evidence
      then stage GateStructural ''CURRENT_USER_EVIDENCE_REQUIRED''
      else if ev_Sensitivity evidence > SensitivityNormal \<or> ev_SecretLike evidence \<or>
              ev_InstructionLike evidence
      then stage GateSecurity ''EVIDENCE_REQUIRES_REVIEW''
      else if rq_EvidenceQuote request = '''' \<or>
              \<not> contains (ev_Content evidence) (rq_EvidenceQuote request)
      then stage GateStructural ''EXACT_EVIDENCE_QUOTE_REQUIRED''
      else if policy_flagged (rq_Subject request @ [CHR 0x0A] @ rq_Replacement request)
      then stage GateSecurity ''PROPOSED_CONTENT_POLICY_BLOCKED''
      else if \<not> reviewerAuthorizedIntent \<and>
              \<not> hasCue (rq_Kind request) (to_lower (rq_EvidenceQuote request))
      then stage GateIntent ''EXPLICIT_INTENT_NOT_VERIFIED''
      else verify_target request target)"

definition VerifyMutation ::
    "mutation_request \<Rightarrow> message_evidence \<Rightarrow> mutation_target option \<Rightarrow> mutation_decision" where
  "VerifyMutation request evidence target = verifyMutation request evidence target False"

definition VerifyMutationForReview ::
    "mutation_request \<Rightarrow> message_evidence \<Rightarrow> mutation_target option \<Rightarrow> mutation_decision" where
  "VerifyMutationForReview request evidence target = verifyMutation request evidence target True"

subsection \<open>What an application rests on\<close>

lemma stage_not_applied [simp]: "stage class reason \<noteq> applied" "applied \<noteq> stage class reason"
  by (auto simp: stage_def applied_def)

text \<open>A guard of the gate, seen from an application: it did not fire.\<close>

lemma if_stage_applied: "(if c then stage k r else d) = applied \<longleftrightarrow> \<not> c \<and> d = applied"
  by simp

lemma decision_simps [simp]:
  "md_Outcome applied = MutationApply" "md_Class applied = GateNone"
  "md_Outcome (stage class reason) = MutationStaged" "md_Class (stage class reason) = class"
  "md_Reason (stage class reason) = reason"
  by (simp_all add: stage_def applied_def)

lemma not_above_normal [simp]: "\<not> SensitivityNormal < s \<longleftrightarrow> s = SensitivityNormal"
  by (simp add: word_gt_0)

lemma verify_target_outcome: "md_Outcome (verify_target rq tg) = MutationApply \<longleftrightarrow> verify_target rq tg = applied"
  by (simp add: verify_target_def split: option.split)

lemma outcome_apply_iff:
  "md_Outcome (verifyMutation rq ev tg reviewed) = MutationApply \<longleftrightarrow>
     verifyMutation rq ev tg reviewed = applied"
  by (simp add: verifyMutation_def verify_target_outcome)

text \<open>The evidence side of an application, shared by the three operations.\<close>

definition evidence_authorises :: "mutation_request \<Rightarrow> message_evidence \<Rightarrow> bool" where
  "evidence_authorises rq ev \<longleftrightarrow>
     ev_MessageID ev = rq_MessageID rq \<and> rq_MessageID rq \<noteq> '''' \<and>
     ev_Role ev = RoleUser \<and> ev_ClientID ev = rq_ClientID rq \<and> ev_SessionID ev = rq_SessionID rq \<and>
     ev_CurrentUserTurn ev \<and> \<not> ev_Retrieved ev \<and>
     ev_Sensitivity ev = SensitivityNormal \<and> \<not> ev_SecretLike ev \<and> \<not> ev_InstructionLike ev \<and>
     rq_EvidenceQuote rq \<noteq> '''' \<and> sublist (rq_EvidenceQuote rq) (ev_Content ev) \<and>
     \<not> policy_flagged (rq_Subject rq @ [CHR 0x0A] @ rq_Replacement rq)"

text \<open>The target side: the memory a correction or a deletion names.\<close>

definition target_authorised :: "mutation_request \<Rightarrow> mutation_target \<Rightarrow> bool" where
  "target_authorised rq t \<longleftrightarrow>
     rq_TargetMemoryID rq \<noteq> '''' \<and> tg_MemoryID t = rq_TargetMemoryID rq \<and>
     Kind_Validate (tg_Kind t) = Inr () \<and> tg_Lifecycle t = LifecycleActive \<and>
     tg_Sensitivity t = SensitivityNormal \<and>
     \<not> policy_flagged (tg_Subject t @ [CHR 0x0A] @ tg_Content t) \<and>
     overlaps (tg_Subject t @ '' '' @ tg_Content t) (rq_EvidenceQuote rq)"

lemma verify_target_applied_iff:
  "verify_target rq tg = applied \<longleftrightarrow>
     (if rq_Kind rq = MutationRemember
      then tg = None \<and> rq_TargetMemoryID rq = '''' \<and> overlaps (rq_Subject rq) (rq_EvidenceQuote rq)
      else (\<exists>t. tg = Some t \<and> target_authorised rq t \<and>
              (rq_Kind rq = MutationCorrect \<longrightarrow>
                 supportedReplacement (rq_Replacement rq) (rq_EvidenceQuote rq))))"
  by (cases tg) (auto simp: verify_target_def target_authorised_def)

lemma verifyMutation_applied_iff:
  "verifyMutation rq ev tg reviewed = applied \<longleftrightarrow>
     rq_Kind rq \<in> {MutationRemember, MutationCorrect, MutationForget} \<and>
     evidence_authorises rq ev \<and>
     (reviewed \<or> hasCue (rq_Kind rq) (to_lower (rq_EvidenceQuote rq))) \<and>
     verify_target rq tg = applied"
  unfolding verifyMutation_def evidence_authorises_def MutationKind_Validate_def
    contains_iff_sublist if_stage_applied not_above_normal
  by (auto split: if_split_asm)

lemma verify_target_not_intent: "md_Class (verify_target rq tg) \<noteq> GateIntent"
  by (simp add: verify_target_def split: option.split)

lemma verifyMutation_admitted:
  assumes "rq_Kind rq \<in> {MutationRemember, MutationCorrect, MutationForget}" "evidence_authorises rq ev"
  shows "verifyMutation rq ev tg reviewed =
    (if \<not> reviewed \<and> \<not> hasCue (rq_Kind rq) (to_lower (rq_EvidenceQuote rq))
     then stage GateIntent ''EXPLICIT_INTENT_NOT_VERIFIED'' else verify_target rq tg)"
  using assms
  unfolding verifyMutation_def evidence_authorises_def MutationKind_Validate_def contains_iff_sublist
  by simp

lemma verifyMutation_intent_iff:
  "md_Class (verifyMutation rq ev tg reviewed) = GateIntent \<longleftrightarrow>
     rq_Kind rq \<in> {MutationRemember, MutationCorrect, MutationForget} \<and>
     evidence_authorises rq ev \<and> \<not> reviewed \<and> \<not> hasCue (rq_Kind rq) (to_lower (rq_EvidenceQuote rq))"
proof (cases "rq_Kind rq \<in> {MutationRemember, MutationCorrect, MutationForget} \<and>
    evidence_authorises rq ev")
  case True
  then show ?thesis using verify_target_not_intent [of rq tg] by (simp add: verifyMutation_admitted)
next
  case False
  have "md_Class (verifyMutation rq ev tg reviewed) \<noteq> GateIntent"
  proof
    assume "md_Class (verifyMutation rq ev tg reviewed) = GateIntent"
    then have "rq_Kind rq \<in> {MutationRemember, MutationCorrect, MutationForget} \<and>
        evidence_authorises rq ev"
      unfolding verifyMutation_def evidence_authorises_def MutationKind_Validate_def
      by (simp add: contains_iff_sublist split: if_split_asm)
    then show False using False by simp
  qed
  then show ?thesis using False by blast
qed

lemma review_differs_only_on_intent:
  "md_Class (VerifyMutation rq ev tg) \<noteq> GateIntent \<Longrightarrow>
     VerifyMutationForReview rq ev tg = VerifyMutation rq ev tg"
  by (auto simp: VerifyMutation_def VerifyMutationForReview_def verifyMutation_def)

section \<open>Properties\<close>

text \<open>C1: the gate applies a mutation exactly when the operation is one of the three governed ones, the
  cited message is the current, non-retrieved, unflagged NORMAL-sensitivity turn of the same user,
  client and session, the quote occurs in it verbatim, the proposed text passes the content policy,
  the quote carries an intent cue (or a reviewer stands in for it), and the target is right: none and
  a grounded subject for REMEMBER, otherwise the named active, unflagged, NORMAL memory that overlaps
  the quote, with the replacement supported by the quote for CORRECT.\<close>

theorem verifyMutation_applies:
  "md_Outcome (verifyMutation rq ev tg reviewed) = MutationApply \<longleftrightarrow>
     rq_Kind rq \<in> {MutationRemember, MutationCorrect, MutationForget} \<and>
     evidence_authorises rq ev \<and>
     (reviewed \<or> hasCue (rq_Kind rq) (to_lower (rq_EvidenceQuote rq))) \<and>
     (if rq_Kind rq = MutationRemember
      then tg = None \<and> rq_TargetMemoryID rq = '''' \<and> overlaps (rq_Subject rq) (rq_EvidenceQuote rq)
      else (\<exists>t. tg = Some t \<and> target_authorised rq t \<and>
              (rq_Kind rq \<noteq> MutationCorrect \<or>
                 supportedReplacement (rq_Replacement rq) (rq_EvidenceQuote rq))))"
  unfolding outcome_apply_iff verifyMutation_applied_iff verify_target_applied_iff by auto

text \<open>A remembered preference that passes the whole gate, evaluated.\<close>

definition tea_evidence :: message_evidence where
  "tea_evidence =
     \<lparr>ev_MessageID = ''m1'', ev_ClientID = ''c'', ev_SessionID = ''s'', ev_Role = RoleUser,
      ev_Content = ''Remember that I like green tea.'', ev_ContentHash = '''',
      ev_CurrentUserTurn = True, ev_Retrieved = False, ev_SecretLike = False,
      ev_InstructionLike = False, ev_Sensitivity = SensitivityNormal\<rparr>"

definition tea_request :: mutation_request where
  "tea_request =
     \<lparr>rq_Kind = MutationRemember, rq_ClientID = ''c'', rq_SessionID = ''s'', rq_MessageID = ''m1'',
      rq_EvidenceQuote = ''Remember that I like green tea'', rq_Subject = ''green tea'',
      rq_Replacement = ''I like green tea'', rq_TargetMemoryID = ''''\<rparr>"

lemma verifyMutation_applies_witness:
  "evidence_authorises tea_request tea_evidence \<and> hasCue MutationRemember (to_lower (rq_EvidenceQuote tea_request))"
proof -
  have "md_Outcome (verifyMutation tea_request tea_evidence None False) = MutationApply" by code_simp
  then show ?thesis unfolding verifyMutation_applies by (simp add: tea_request_def)
qed

text \<open>The review endpoint's gate differs from the ordinary one on missing intent only: where the
  ordinary decision is not of class INTENT the two decisions are equal, and where it is, the review
  decision is that of the target checks, which are never of class INTENT.\<close>

theorem review_overrides_intent_only:
  "VerifyMutationForReview rq ev tg =
     (if md_Class (VerifyMutation rq ev tg) = GateIntent then verify_target rq tg
      else VerifyMutation rq ev tg) \<and>
   md_Class (VerifyMutationForReview rq ev tg) \<noteq> GateIntent"
proof -
  have "VerifyMutationForReview rq ev tg = verify_target rq tg"
    if "md_Class (VerifyMutation rq ev tg) = GateIntent"
    using that verifyMutation_intent_iff [of rq ev tg False] verifyMutation_admitted [of rq ev tg True]
    by (simp add: VerifyMutation_def VerifyMutationForReview_def)
  moreover have "md_Class (VerifyMutationForReview rq ev tg) \<noteq> GateIntent"
    using verifyMutation_intent_iff [of rq ev tg True] by (simp add: VerifyMutationForReview_def)
  ultimately show ?thesis using review_differs_only_on_intent by auto
qed

end
