(* ===== verification/Lite_Hash.thy ===== *)
theory Lite_Hash
  imports Mutation_Gate
begin

text \<open>
  \<open>lite/hash.go\<close>: the tuple digest of messages, the content digest, the binding of an evidence quote to
  its unique occurrence in the content of a message, and the text similarity helpers (trigrams, word
  tokens, CJK runs, rounding).  The optimised search of the quote is proved against the set of all
  its occurrences, overlapping ones included.
\<close>

section \<open>Digests\<close>

definition tupleHash :: "(go_string \<Rightarrow> go_string) \<Rightarrow> go_string list \<Rightarrow> go_string" where
  "tupleHash sha values = sha_name sha (frame values)"

definition hashContent :: "(go_string \<Rightarrow> go_string) \<Rightarrow> go_string \<Rightarrow> go_string" where
  "hashContent sha content = sha_name sha content"

definition quoteHash :: "(go_string \<Rightarrow> go_string) \<Rightarrow> go_string \<Rightarrow> go_string" where
  "quoteHash sha quote = sha_name sha quote"

section \<open>Quote binding\<close>

abbreviation reasonExactEvidenceRequired :: go_string where
  "reasonExactEvidenceRequired \<equiv> ''EXACT_EVIDENCE_QUOTE_REQUIRED''"
abbreviation reasonEvidenceAmbiguous :: go_string where
  "reasonEvidenceAmbiguous \<equiv> ''EVIDENCE_AMBIGUOUS''"
abbreviation reasonEvidenceRequiresReview :: go_string where
  "reasonEvidenceRequiresReview \<equiv> ''EVIDENCE_REQUIRES_REVIEW''"

record quote_binding =
  qb_Hash :: go_string
  qb_StartByte :: int
  qb_EndByte :: int
  qb_ReasonCode :: go_string

definition unbound :: "go_string \<Rightarrow> quote_binding" where
  "unbound reason = \<lparr>qb_Hash = '''', qb_StartByte = 0, qb_EndByte = 0, qb_ReasonCode = reason\<rparr>"

definition indexBytes :: "go_string \<Rightarrow> go_string \<Rightarrow> nat option" where
  "indexBytes haystack needle =
     (if length needle \<le> length haystack
      then find (\<lambda>i. take (length needle) (drop i haystack) = needle)
             [0..<length haystack - length needle + 1]
      else None)"

text \<open>The search loop of \<open>bindExactQuote\<close>: \<open>None\<close> when it returns early on a second occurrence,
  otherwise the first occurrence, if there was any.\<close>

function bind_loop :: "go_string \<Rightarrow> go_string \<Rightarrow> nat \<Rightarrow> nat option \<Rightarrow> nat option option" where
  "bind_loop haystack needle offset first =
     (if offset + length needle \<le> length haystack then
        (case indexBytes (drop offset haystack) needle of
           None \<Rightarrow> Some first
         | Some index \<Rightarrow>
             (case first of
                None \<Rightarrow> bind_loop haystack needle (offset + index + 1) (Some (offset + index))
              | Some _ \<Rightarrow> None))
      else Some first)"
  by pat_completeness auto

termination
  by (relation "measure (\<lambda>(haystack, needle, offset, first). Suc (length haystack) - offset)") auto

declare bind_loop.simps [simp del]

definition validateQuote :: "(go_string \<Rightarrow> go_string) \<Rightarrow> go_string \<Rightarrow> int \<Rightarrow> int \<Rightarrow> go_string \<Rightarrow> unit res" where
  "validateQuote sha content startByte endByte quoteHashValue =
     (if startByte < 0 \<or> endByte \<le> startByte \<or> endByte > int (length content)
      then Inl ''quote hash mismatch''
      else if quoteHashValue \<noteq>
                sha_name sha (drop (nat startByte) (take (nat endByte) content))
      then Inl ''quote hash mismatch'' else Inr ())"

definition bindExactQuote :: "(go_string \<Rightarrow> go_string) \<Rightarrow> go_string \<Rightarrow> go_string \<Rightarrow> quote_binding" where
  "bindExactQuote sha content quote =
     (if quote = [] then unbound reasonExactEvidenceRequired
      else case bind_loop content quote 0 None of
        None \<Rightarrow> unbound reasonEvidenceAmbiguous
      | Some None \<Rightarrow> unbound reasonExactEvidenceRequired
      | Some (Some first) \<Rightarrow>
          let result = \<lparr>qb_Hash = quoteHash sha quote, qb_StartByte = int first,
                qb_EndByte = int first + int (length quote), qb_ReasonCode = ''''\<rparr> in
          if validateQuote sha content (qb_StartByte result) (qb_EndByte result) (qb_Hash result)
               \<noteq> Inr ()
          then unbound reasonExactEvidenceRequired else result)"

text \<open>The specification: the positions at which the quote occurs.\<close>

definition occurs_at :: "go_string \<Rightarrow> go_string \<Rightarrow> nat \<Rightarrow> bool" where
  "occurs_at content quote i \<longleftrightarrow>
     i + length quote \<le> length content \<and> take (length quote) (drop i content) = quote"

lemma occurs_at_iff: "occurs_at content quote i \<longleftrightarrow> (\<exists>a b. content = a @ quote @ b \<and> length a = i)"
proof
  assume occ: "occurs_at content quote i"
  let ?a = "take i content" and ?b = "drop (length quote) (drop i content)"
  have "quote @ ?b = drop i content"
    using occ unfolding occurs_at_def by (metis append_take_drop_id)
  then have "content = ?a @ quote @ ?b" by simp
  moreover have "length ?a = i" using occ by (simp add: occurs_at_def)
  ultimately show "\<exists>a b. content = a @ quote @ b \<and> length a = i" by blast
qed (auto simp: occurs_at_def)

lemma contains_occurs: "contains content quote \<longleftrightarrow> (\<exists>i. occurs_at content quote i)"
  by (auto simp: contains_iff occurs_at_iff)

lemma occurs_at_drop: "occurs_at (drop k content) quote i \<longleftrightarrow> occurs_at content quote (k + i)"
  if "k \<le> length content"
  using that by (auto simp: occurs_at_def add.commute)

lemma indexBytes_Some:
  "indexBytes haystack needle = Some i \<longleftrightarrow>
     occurs_at haystack needle i \<and> (\<forall>j < i. \<not> occurs_at haystack needle j)"
  (is "?L \<longleftrightarrow> ?R")
proof
  assume ?L
  then show ?R
    by (auto simp: indexBytes_def find_Some_iff occurs_at_def simp del: upt_Suc split: if_splits)
next
  assume R: ?R
  then have "length needle \<le> length haystack" by (simp add: occurs_at_def)
  moreover have "i < length [0..<length haystack - length needle + 1]"
    using R by (auto simp: occurs_at_def)
  ultimately show ?L using R
    unfolding indexBytes_def by (auto simp: find_Some_iff occurs_at_def simp del: upt_Suc intro!: exI [of _ i])
qed

lemma indexBytes_None:
  "indexBytes haystack needle = None \<longleftrightarrow> (\<forall>i. \<not> occurs_at haystack needle i)"
proof (cases "\<exists>i. occurs_at haystack needle i")
  case True
  then obtain i where "occurs_at haystack needle i \<and> (\<forall>j < i. \<not> occurs_at haystack needle j)"
    using exists_least_iff [of "occurs_at haystack needle"] by blast
  then have "indexBytes haystack needle = Some i" by (simp add: indexBytes_Some)
  then show ?thesis using True by auto
next
  case False
  then have "indexBytes haystack needle \<noteq> Some i" for i by (simp add: indexBytes_Some)
  then show ?thesis using False by (cases "indexBytes haystack needle") auto
qed

text \<open>The second round of the loop, after a first occurrence, decides uniqueness.\<close>

lemma bind_loop_Some:
  "bind_loop haystack needle offset (Some k) =
     (if \<exists>i \<ge> offset. occurs_at haystack needle i then None else Some (Some k))"
proof (cases "offset + length needle \<le> length haystack")
  case True
  then have k: "offset \<le> length haystack" by simp
  show ?thesis
  proof (cases "indexBytes (drop offset haystack) needle")
    case None
    then have "\<not> occurs_at haystack needle i" if "offset \<le> i" for i
      using that occurs_at_drop [OF k, of needle "i - offset"] by (simp add: indexBytes_None)
    then show ?thesis using True None by (auto simp: bind_loop.simps [of _ _ offset])
  next
    case (Some i)
    then have "occurs_at haystack needle (offset + i)"
      using occurs_at_drop [OF k] by (simp add: indexBytes_Some)
    then show ?thesis using True Some by (auto simp: bind_loop.simps [of _ _ offset] intro: le_add1)
  qed
next
  case False
  then show ?thesis by (auto simp: bind_loop.simps [of _ _ offset] occurs_at_def)
qed

lemma bind_loop_None:
  "bind_loop haystack needle 0 None =
     (if \<forall>i. \<not> occurs_at haystack needle i then Some None
      else if \<exists>!i. occurs_at haystack needle i
      then Some (Some (THE i. occurs_at haystack needle i)) else None)"
proof (cases "indexBytes haystack needle")
  case None
  then have "\<forall>i. \<not> occurs_at haystack needle i" by (simp add: indexBytes_None)
  then show ?thesis by (simp add: bind_loop.simps [of haystack needle 0 None] None)
next
  case (Some i)
  then have i: "occurs_at haystack needle i" "\<And>j. j < i \<Longrightarrow> \<not> occurs_at haystack needle j"
    by (auto simp: indexBytes_Some)
  have len: "length needle \<le> length haystack" using i(1) by (simp add: occurs_at_def)
  have step: "bind_loop haystack needle 0 None = bind_loop haystack needle (i + 1) (Some i)"
    using Some len by (simp add: bind_loop.simps [of _ _ 0])
  show ?thesis
  proof (cases "\<exists>j \<ge> i + 1. occurs_at haystack needle j")
    case True
    then obtain j where "occurs_at haystack needle j" "j \<noteq> i" by auto
    then have "\<not> (\<exists>!k. occurs_at haystack needle k)" using i(1) by blast
    then show ?thesis using True i(1) by (simp add: step bind_loop_Some) blast
  next
    case False
    then have u: "occurs_at haystack needle j \<longleftrightarrow> j = i" for j
      using i by (metis Suc_eq_plus1 linorder_neqE_nat Suc_leI)
    then have "occurs_at haystack needle = (\<lambda>j. j = i)" by blast
    then show ?thesis using False by (simp add: step bind_loop_Some)
  qed
qed

lemma validateQuote_occurrence:
  assumes "occurs_at content quote i" "quote \<noteq> []"
  shows "validateQuote sha content (int i) (int i + int (length quote)) (quoteHash sha quote) = Inr ()"
proof -
  have "drop i (take (i + length quote) content) = quote"
    using assms(1) by (simp add: occurs_at_def drop_take)
  moreover have "nat (int i + int (length quote)) = i + length quote" by simp
  ultimately show ?thesis
    using assms by (simp add: validateQuote_def quoteHash_def occurs_at_def)
qed

section \<open>Similarity of texts\<close>

text \<open>\<open>trigrams\<close>: the trigrams of the text padded with two spaces before and one after, as a set.\<close>

definition trigrams :: "go_string \<Rightarrow> go_string set" where
  "trigrams value =
     (let rs = runes value in
      if rs = [] then {}
      else if length rs = 1 then
        {utf8 rs @ ''  '', '' '' @ utf8 rs @ '' '', ''  '' @ utf8 rs}
      else
        (let pr = runes (''  '' @ value @ '' '') in
         set (map (\<lambda>i. utf8 (take 3 (drop i pr))) [0..<length pr - 2])))"

definition trigramSimilarity :: "go_string \<Rightarrow> go_string \<Rightarrow> real" where
  "trigramSimilarity left right =
     (let l = trigrams (to_lower left); r = trigrams (to_lower right) in
      if l = {} \<or> r = {} then 0
      else real (card (l \<inter> r)) / real (card (l \<union> r)))"

text \<open>The scan of \<open>wordTokens\<close> with the token it is collecting; a token has at least two runes.\<close>

fun token_scan :: "rune list \<Rightarrow> rune list \<Rightarrow> go_string list" where
  "token_scan current [] = (if length current \<ge> 2 then [utf8 current] else [])"
| "token_scan current (r # rs) =
     (if is_letter r \<or> is_number r then token_scan (current @ [r]) rs
      else (if length current \<ge> 2 then [utf8 current] else []) @ token_scan [] rs)"

definition wordTokens :: "go_string \<Rightarrow> go_string list" where
  "wordTokens value = token_scan [] (runes value)"

definition tokenSet :: "go_string \<Rightarrow> go_string set" where
  "tokenSet value = set (wordTokens value)"

text \<open>\<open>int64(value * 1e6 + 0.5)\<close> truncates towards zero.\<close>

definition go_trunc :: "real \<Rightarrow> int" where
  "go_trunc x = (if x < 0 then - \<lfloor>- x\<rfloor> else \<lfloor>x\<rfloor>)"

definition round6 :: "real \<Rightarrow> real" where
  "round6 value = real_of_int (go_trunc (value * 1000000 + 1 / 2)) / 1000000"

lemma finite_trigrams [simp]: "finite (trigrams value)"
  by (simp add: trigrams_def Let_def)

lemma trigrams_empty_iff: "trigrams value = {} \<longleftrightarrow> value = []"
proof -
  have pad: "runes (''  '' @ value @ '' '') = [32, 32] @ runes (value @ '' '')"
    by (simp add: runes_ascii)
  have "runes (value @ '' '') \<noteq> []" by simp
  then have "0 < length (runes (value @ '' ''))" by blast
  then have "\<not> length (runes (''  '' @ value @ '' '')) \<le> 2" unfolding pad by simp
  then show ?thesis by (auto simp: trigrams_def Let_def)
qed

lemma trigramSimilarity_commute: "trigramSimilarity a b = trigramSimilarity b a"
  by (auto simp: trigramSimilarity_def Let_def Int_commute Un_commute)

lemma trigramSimilarity_bounds: "0 \<le> trigramSimilarity a b" "trigramSimilarity a b \<le> 1"
proof -
  let ?l = "trigrams (to_lower a)" and ?r = "trigrams (to_lower b)"
  have "card (?l \<inter> ?r) \<le> card (?l \<union> ?r)" by (rule card_mono) auto
  then show "trigramSimilarity a b \<le> 1"
    by (auto simp: trigramSimilarity_def Let_def divide_le_eq_1)
  show "0 \<le> trigramSimilarity a b" by (simp add: trigramSimilarity_def Let_def)
qed

lemma trigramSimilarity_self: "to_lower a \<noteq> [] \<Longrightarrow> trigramSimilarity a a = 1"
  by (simp add: trigramSimilarity_def trigrams_empty_iff)

lemma to_lower_Nil_iff [simp]: "to_lower s = [] \<longleftrightarrow> s = []"
proof -
  have "encode_rune r \<noteq> []" for r by (simp add: encode_rune_def encode_bytes_def)
  then show ?thesis
    by (cases s) (auto simp: to_lower_def map_runes_def map_filter_def utf8_def runes_Cons)
qed

lemma token_scan_runs:
  "token_scan current rs =
     (if current = [] then
        map utf8 (filter (\<lambda>w. 2 \<le> length w) (maximal_runs (\<lambda>r. is_letter r \<or> is_number r) rs))
      else
        map utf8 (filter (\<lambda>w. 2 \<le> length w)
          ((current @ takeWhile (\<lambda>r. is_letter r \<or> is_number r) rs) #
           maximal_runs (\<lambda>r. is_letter r \<or> is_number r)
             (dropWhile (\<lambda>r. is_letter r \<or> is_number r) rs))))"
  by (induction current rs rule: token_scan.induct) auto

lemma wordTokens_runs:
  "wordTokens value =
     map utf8 (filter (\<lambda>w. 2 \<le> length w) (maximal_runs (\<lambda>r. is_letter r \<or> is_number r) (runes value)))"
  by (simp add: wordTokens_def token_scan_runs)

section \<open>Properties\<close>

text \<open>C2: a quote is bound exactly when it is non-empty and occurs at one position of the content,
  overlapping occurrences counted; the binding then is that byte range with the digest of the quote,
  and otherwise its reason says whether the quote is missing or ambiguous.\<close>

theorem bindExactQuote_unique:
  "bindExactQuote sha content quote =
     (if quote = [] \<or> (\<forall>i. \<not> occurs_at content quote i) then unbound reasonExactEvidenceRequired
      else if \<exists>!i. occurs_at content quote i then
        \<lparr>qb_Hash = quoteHash sha quote,
         qb_StartByte = int (THE i. occurs_at content quote i),
         qb_EndByte = int (THE i. occurs_at content quote i) + int (length quote),
         qb_ReasonCode = ''''\<rparr>
      else unbound reasonEvidenceAmbiguous)"
  using theI' [of "occurs_at content quote"]
  by (auto simp: bindExactQuote_def bind_loop_None Let_def validateQuote_occurrence)

text \<open>The similarity used against near-duplicate subjects is a similarity: between 0 and 1,
  symmetric, and 1 on equal non-empty texts.\<close>

theorem trigramSimilarity_metric:
  "0 \<le> trigramSimilarity a b \<and> trigramSimilarity a b \<le> 1 \<and>
   trigramSimilarity a b = trigramSimilarity b a \<and>
   trigramSimilarity (c # a) (c # a) = 1"
  using trigramSimilarity_bounds trigramSimilarity_commute trigramSimilarity_self by simp

end
