(* ===== verification/Go_Sort.thy ===== *)
theory Go_Sort
  imports Prelude
begin

text \<open>
  \<open>sort.SliceStable\<close> with a caller-supplied \<open>less\<close>, and the contract a \<open>less\<close> function needs for the
  result not to depend on the order in which Go happened to range over a map: a strict order that is
  total on elements with different keys.  Every ordering of the program is an interpretation of
  \<open>go_less\<close>, in the theory that defines it.
\<close>

fun insert_by :: "('a \<Rightarrow> 'a \<Rightarrow> bool) \<Rightarrow> 'a \<Rightarrow> 'a list \<Rightarrow> 'a list" where
  "insert_by lt x [] = [x]"
| "insert_by lt x (y # ys) = (if lt y x then y # insert_by lt x ys else x # y # ys)"

definition sort_by :: "('a \<Rightarrow> 'a \<Rightarrow> bool) \<Rightarrow> 'a list \<Rightarrow> 'a list" where
  "sort_by lt xs = foldr (insert_by lt) xs []"

lemma mset_insert_by [simp]: "mset (insert_by lt x ys) = add_mset x (mset ys)"
  by (induction ys) auto

lemma mset_sort_by [simp]: "mset (sort_by lt xs) = mset xs"
  by (induction xs) (auto simp: sort_by_def)

lemma set_sort_by [simp]: "set (sort_by lt xs) = set xs"
  by (metis mset_sort_by set_mset_mset)

lemma set_insert_by [simp]: "set (insert_by lt x ys) = insert x (set ys)"
  by (metis mset_insert_by set_mset_add_mset_insert set_mset_mset)

lemma length_sort_by [simp]: "length (sort_by lt xs) = length xs"
  by (metis mset_sort_by size_mset)

lemma distinct_map_sort_by [simp]: "distinct (map f (sort_by lt xs)) \<longleftrightarrow> distinct (map f xs)"
  by (metis mset_sort_by mset_map distinct_count_atmost_1 set_mset_mset)

locale go_less =
  fixes lt :: "'a \<Rightarrow> 'a \<Rightarrow> bool"
    and key :: "'a \<Rightarrow> 'k"
  assumes asym: "lt x y \<Longrightarrow> \<not> lt y x"
    and trans: "\<lbrakk>lt x y; lt y z\<rbrakk> \<Longrightarrow> lt x z"
    and total: "key x \<noteq> key y \<Longrightarrow> lt x y \<or> lt y x"
begin

lemma irrefl: "\<not> lt x x"
  using asym by blast

lemma insert_sorted:
  "\<lbrakk>sorted_wrt lt ys; \<forall>y \<in> set ys. key y \<noteq> key x\<rbrakk> \<Longrightarrow> sorted_wrt lt (insert_by lt x ys)"
proof (induction ys)
  case (Cons y ys)
  show ?case
  proof (cases "lt y x")
    case True
    then show ?thesis using Cons by auto
  next
    case False
    then have "lt x y" using Cons.prems(2) total [of y x] by auto
    then show ?thesis using Cons.prems False trans by auto
  qed
qed simp

lemma sort_sorted: "distinct (map key xs) \<Longrightarrow> sorted_wrt lt (sort_by lt xs)"
proof (induction xs)
  case (Cons x xs)
  have "\<forall>y \<in> set (sort_by lt xs). key y \<noteq> key x" using Cons.prems by (force simp: image_iff)
  then show ?case using Cons insert_sorted by (simp add: sort_by_def)
qed (simp add: sort_by_def)

lemma sorted_unique:
  "\<lbrakk>sorted_wrt lt xs; sorted_wrt lt ys; mset xs = mset ys\<rbrakk> \<Longrightarrow> xs = ys"
proof (induction xs arbitrary: ys)
  case (Cons x xs)
  then obtain y ys' where ys: "ys = y # ys'" by (cases ys) auto
  have "x = y"
  proof (rule ccontr)
    assume "x \<noteq> y"
    moreover have "x \<in> set ys" "y \<in> set (x # xs)"
      using Cons.prems(3) ys by (metis list.set_intros(1) set_mset_mset)+
    ultimately have "lt y x" "lt x y" using Cons.prems(1,2) ys by auto
    then show False using asym by blast
  qed
  then show ?case using Cons ys by auto
qed simp

text \<open>The order in which the elements arrived does not matter.\<close>

lemma sort_deterministic:
  "\<lbrakk>distinct (map key xs); mset xs = mset ys\<rbrakk> \<Longrightarrow> sort_by lt xs = sort_by lt ys"
  by (rule sorted_unique) (simp_all add: sort_sorted, metis mset_map mset_eq_imp_distinct_iff sort_sorted)

lemma sort_prefix_dominates:
  "\<lbrakk>distinct (map key xs); x \<in> set (take n (sort_by lt xs)); y \<in> set (drop n (sort_by lt xs))\<rbrakk> \<Longrightarrow>
     lt x y"
  using sort_sorted [of xs] sorted_wrt_append [of lt "take n (sort_by lt xs)" "drop n (sort_by lt xs)"]
  by auto

end

text \<open>Orderings that leave elements equivalent: the sort is stable, and no later element is less than an
  earlier one.\<close>

locale go_weak_less =
  fixes lt :: "'a \<Rightarrow> 'a \<Rightarrow> bool"
  assumes weak_asym: "lt x y \<Longrightarrow> \<not> lt y x"
    and weak_split: "lt x z \<Longrightarrow> lt x y \<or> lt y z"
begin

lemma insert_ordered:
  "sorted_wrt (\<lambda>x y. \<not> lt y x) ys \<Longrightarrow> sorted_wrt (\<lambda>x y. \<not> lt y x) (insert_by lt x ys)"
proof (induction ys)
  case (Cons y ys)
  show ?case
  proof (cases "lt y x")
    case True
    then show ?thesis using Cons weak_asym by auto
  next
    case False
    then show ?thesis using Cons.prems weak_split by auto
  qed
qed simp

lemma sort_ordered: "sorted_wrt (\<lambda>x y. \<not> lt y x) (sort_by lt xs)"
  by (induction xs) (simp_all add: sort_by_def insert_ordered)

end

text \<open>Orderings by a time, newest first, then by an identifier, smallest first: the comparison of
  strings is Go's, byte by byte.\<close>

fun bytes_less :: "go_string \<Rightarrow> go_string \<Rightarrow> bool" where
  "bytes_less [] [] = False"
| "bytes_less [] (_ # _) = True"
| "bytes_less (_ # _) [] = False"
| "bytes_less (a # as) (b # bs) =
     (if of_char a < (of_char b :: nat) then True
      else if of_char b < (of_char a :: nat) then False else bytes_less as bs)"

definition newest_first :: "('a \<Rightarrow> time) \<Rightarrow> ('a \<Rightarrow> go_string) \<Rightarrow> 'a \<Rightarrow> 'a \<Rightarrow> bool" where
  "newest_first at ident x y \<longleftrightarrow>
     (if at x \<noteq> at y then at x > at y else bytes_less (ident x) (ident y))"

lemma bytes_less_asym: "bytes_less a b \<Longrightarrow> \<not> bytes_less b a"
  by (induction a b rule: bytes_less.induct) (auto split: if_splits)

lemma bytes_less_trans: "\<lbrakk>bytes_less a b; bytes_less b c\<rbrakk> \<Longrightarrow> bytes_less a c"
proof (induction a b arbitrary: c rule: bytes_less.induct)
  case (4 a as b bs)
  then show ?case by (cases c) (auto split: if_splits)
qed (auto elim: bytes_less.elims)

lemma bytes_less_total: "a \<noteq> b \<Longrightarrow> bytes_less a b \<or> bytes_less b a"
  by (induction a b rule: bytes_less.induct) auto

lemma bytes_less_irrefl [simp]: "\<not> bytes_less a a"
  using bytes_less_asym by blast

interpretation newest: go_less "newest_first at ident" ident for at :: "'a \<Rightarrow> time" and ident
proof unfold_locales
  show "newest_first at ident x y \<Longrightarrow> \<not> newest_first at ident y x" for x y
    by (auto simp: newest_first_def bytes_less_asym split: if_splits)
  show "\<lbrakk>newest_first at ident x y; newest_first at ident y z\<rbrakk> \<Longrightarrow> newest_first at ident x z" for x y z
    by (auto simp: newest_first_def split: if_splits intro: bytes_less_trans)
  show "ident x \<noteq> ident y \<Longrightarrow> newest_first at ident x y \<or> newest_first at ident y x" for x y
    using bytes_less_total by (auto simp: newest_first_def)
qed

end
