(* ===== verification/Store_State.thy ===== *)
theory Store_State
  imports Lite_Hash Retrieval Go_Sort
begin

text \<open>
  The canonical rows and the in-memory state of \<open>lite/store.go\<close>, and the operations of \<open>queries.go\<close> and
  \<open>proposal.go\<close> that touch no journal: sessions, eligibility, proposals, continuity, access and
  feedback, row migration and the on-disk shape of a proposal.  Clock readings and fresh identifiers
  are arguments.  The derived SQLite projection is the record \<open>index\<close>: what \<open>LoadMemory\<close> returns after
  \<open>Upsert\<close>, and the set of rows present in its full-text tables.
\<close>

section \<open>Rows\<close>

record session_row =
  sr_SessionID :: go_string
  sr_ClientKey :: go_string
  sr_ExternalSessionID :: go_string
  sr_Title :: go_string
  sr_ProjectKey :: go_string
  sr_StartedAt :: time
  sr_LastActivityAt :: time
  sr_CreatedAt :: time
  sr_Seq :: int

record message_row =
  ms_SchemaVersion :: int
  ms_MessageID :: go_string
  ms_SessionID :: go_string
  ms_ExternalMessageID :: go_string
  ms_Role :: go_string
  ms_ContentType :: go_string
  ms_Content :: go_string
  ms_ContentHash :: go_string
  ms_ExactContentHash :: go_string
  ms_MessageSeq :: int
  ms_TurnSeq :: int
  ms_OccurredAt :: time
  ms_CreatedAt :: time
  ms_SecretLike :: bool
  ms_InstructionLike :: bool
  ms_Sensitivity :: go_string
  ms_AssistantID :: go_string
  ms_AssistantName :: go_string
  ms_PreviousRecordHash :: go_string
  ms_RecordHash :: go_string

record memory_row =
  mm_SchemaVersion :: int
  mm_MemoryID :: go_string
  mm_Kind :: go_string
  mm_Subject :: go_string
  mm_Content :: go_string
  mm_ContentHash :: go_string
  mm_Lifecycle :: go_string
  mm_EpistemicStatus :: go_string
  mm_Confidence :: real
  mm_Importance :: real
  mm_Sensitivity :: go_string
  mm_SecretLike :: bool
  mm_InstructionLike :: bool
  mm_StateVersion :: int
  mm_SupersedesMemoryID :: go_string
  mm_CreatedAt :: time
  mm_UpdatedAt :: time
  mm_ScopeType :: go_string
  mm_ProjectKey :: go_string
  mm_AccessCount :: int
  mm_LastAccessedAt :: "time option"
  mm_Activation :: real
  mm_Disputed :: bool
  mm_RepeatCount :: int
  mm_LastUsedSeq :: int

record evidence_row =
  er_MemoryID :: go_string
  er_MessageID :: go_string
  er_QuoteHash :: go_string
  er_QuoteStart :: int
  er_QuoteEnd :: int
  er_Relation :: go_string
  er_CreatedAt :: time
  er_MessageContent :: go_string
  er_OccurredAt :: time

record continuity_row =
  cr_RevisionNumber :: int
  cr_EventID :: go_string
  cr_ChangeKind :: go_string
  cr_TargetKind :: go_string
  cr_TargetID :: go_string
  cr_RelatedTargetID :: go_string
  cr_ProjectKey :: go_string
  cr_Sensitivity :: go_string
  cr_TraceID :: go_string
  cr_SafeMetadataJSON :: go_string
  cr_CreatedAt :: time

record project_context_row =
  pc_RevisionID :: go_string
  pc_ProjectKey :: go_string
  pc_Revision :: int
  pc_Objective :: go_string
  pc_CurrentState :: go_string
  pc_Decisions :: go_string
  pc_OpenQuestions :: go_string
  pc_NextActions :: go_string
  pc_Sensitivity :: go_string
  pc_IsCurrent :: bool
  pc_CreatedAt :: time

abbreviation SchemaVersion :: int where "SchemaVersion \<equiv> 4"

section \<open>The store\<close>

record index =
  ix_memories :: "go_string \<rightharpoonup> memory_row"
  ix_searchable :: "go_string set"
  ix_messages :: "go_string \<rightharpoonup> message_row"
  ix_evidence :: "go_string \<times> go_string \<times> go_string \<times> go_string \<rightharpoonup> evidence_row"

record store =
  st_sessions :: "go_string \<rightharpoonup> session_row"
  st_sessionsExt :: "go_string \<rightharpoonup> go_string"
  st_messages :: "go_string \<rightharpoonup> message_row"
  st_memories :: "go_string \<rightharpoonup> memory_row"
  st_evidence :: "go_string \<Rightarrow> evidence_row list"
  st_proposals :: "go_string \<rightharpoonup> proposal"
  st_proposalsHash :: "go_string \<rightharpoonup> go_string"
  st_continuity :: "continuity_row list"
  st_projectCtx :: "go_string \<rightharpoonup> project_context_row"
  st_accessBumps :: "go_string \<rightharpoonup> int"
  st_Index :: index
  st_sessionSeq :: int
  st_messageSeq :: int
  st_turnSeq :: int
  st_mutationEventSeq :: int
  st_integrityKey :: go_string
  st_lastEventHash :: go_string
  st_integrityAnchorHash :: go_string
  st_keyRotationSeq :: int
  st_lastRotationHash :: go_string
  st_lastMessageHash :: go_string
  st_messageSegment :: nat
  st_lowRAM :: bool
  st_eventsFile :: go_string
  st_rotationsFile :: go_string
  st_segments :: "nat \<rightharpoonup> go_string"

definition empty_index :: index where
  "empty_index =
     \<lparr>ix_memories = Map.empty, ix_searchable = {}, ix_messages = Map.empty, ix_evidence = Map.empty\<rparr>"

definition empty_store :: "go_string \<Rightarrow> store" where
  "empty_store key =
     \<lparr>st_sessions = Map.empty, st_sessionsExt = Map.empty, st_messages = Map.empty,
      st_memories = Map.empty, st_evidence = (\<lambda>_. []), st_proposals = Map.empty,
      st_proposalsHash = Map.empty, st_continuity = [], st_projectCtx = Map.empty,
      st_accessBumps = Map.empty, st_Index = empty_index, st_sessionSeq = 0, st_messageSeq = 0,
      st_turnSeq = 0, st_mutationEventSeq = 0, st_integrityKey = key, st_lastEventHash = '''',
      st_integrityAnchorHash = '''', st_keyRotationSeq = 0, st_lastRotationHash = '''',
      st_lastMessageHash = '''', st_messageSegment = 0, st_lowRAM = False, st_eventsFile = [],
      st_rotationsFile = [], st_segments = Map.empty\<rparr>"

text \<open>\<open>EnableLowRAMExperiment\<close> drops the three archive-sized maps; reads go to the index from then on.\<close>

definition EnableLowRAMExperiment :: "store \<Rightarrow> store" where
  "EnableLowRAMExperiment s =
     s\<lparr>st_memories := Map.empty, st_messages := Map.empty, st_evidence := (\<lambda>_. []), st_lowRAM := True\<rparr>"

definition memoryRowLocked :: "store \<Rightarrow> go_string \<Rightarrow> memory_row option" where
  "memoryRowLocked s mid =
     (if st_lowRAM s then ix_memories (st_Index s) mid else st_memories s mid)"

section \<open>Eligibility\<close>

definition policySensitivity :: "go_string \<Rightarrow> sensitivity" where
  "policySensitivity value =
     (if value = ''SENSITIVE'' then SensitivitySensitive
      else if value = ''SECRET'' then SensitivitySecret
      else if value = ''RESTRICTED'' then SensitivityRestricted
      else SensitivityNormal)"

definition memoryRowPolicyAllowed :: "(go_string \<Rightarrow> go_string) \<Rightarrow> memory_row \<Rightarrow> bool" where
  "memoryRowPolicyAllowed sha row =
     (if mm_ContentHash row = '''' \<or> hashContent sha (mm_Content row) \<noteq> mm_ContentHash row then False
      else if mm_SecretLike row \<or> mm_InstructionLike row \<or>
              policy_flagged (mm_Subject row @ [CHR 0x0A] @ mm_Content row) then False
      else mm_Sensitivity row = ''NORMAL'')"

definition memoryRowEligible :: "(go_string \<Rightarrow> go_string) \<Rightarrow> session_scope \<Rightarrow> memory_row \<Rightarrow> bool \<Rightarrow> bool" where
  "memoryRowEligible sha scope row historical =
     (if \<not> memoryRowPolicyAllowed sha row then False
      else MemoryEligible scope (mm_ScopeType row) (mm_ProjectKey row) (mm_Lifecycle row)
             (policySensitivity (mm_Sensitivity row)) historical)"

lemma policySensitivity_NORMAL [simp]: "policySensitivity ''NORMAL'' = SensitivityNormal"
  by (simp add: policySensitivity_def)

section \<open>The index projection\<close>

definition Upsert :: "(go_string \<Rightarrow> go_string) \<Rightarrow> memory_row \<Rightarrow> index \<Rightarrow> index" where
  "Upsert sha row ix =
     ix\<lparr>ix_memories := (ix_memories ix)(mm_MemoryID row \<mapsto> row),
        ix_searchable :=
          (if memoryRowPolicyAllowed sha row \<and> mm_Lifecycle row = ''ACTIVE''
           then insert (mm_MemoryID row) (ix_searchable ix - {mm_MemoryID row})
           else ix_searchable ix - {mm_MemoryID row})\<rparr>"

definition UpsertMessage :: "message_row \<Rightarrow> index \<Rightarrow> index" where
  "UpsertMessage row ix = ix\<lparr>ix_messages := (ix_messages ix)(ms_MessageID row \<mapsto> row)\<rparr>"

definition UpsertEvidence :: "evidence_row \<Rightarrow> index \<Rightarrow> index" where
  "UpsertEvidence row ix =
     ix\<lparr>ix_evidence := (ix_evidence ix)
          ((er_MemoryID row, er_MessageID row, er_QuoteHash row, er_Relation row) \<mapsto> row)\<rparr>"

text \<open>The full-text tables hold exactly the active rows the content policy allows.\<close>

definition index_sound :: "(go_string \<Rightarrow> go_string) \<Rightarrow> index \<Rightarrow> bool" where
  "index_sound sha ix \<longleftrightarrow>
     (\<forall>mid row. ix_memories ix mid = Some row \<longrightarrow> mm_MemoryID row = mid) \<and>
     (\<forall>mid. mid \<in> ix_searchable ix \<longleftrightarrow>
       (\<exists>row. ix_memories ix mid = Some row \<and> memoryRowPolicyAllowed sha row \<and>
              mm_Lifecycle row = ''ACTIVE''))"

lemma index_sound_empty [inv_intros]: "index_sound sha empty_index"
  by (simp add: index_sound_def empty_index_def)

lemma index_sound_Upsert [inv_intros]: "index_sound sha ix \<Longrightarrow> index_sound sha (Upsert sha row ix)"
  by (auto simp: index_sound_def Upsert_def)

lemma index_sound_other [inv_intros]:
  "index_sound sha ix \<Longrightarrow> index_sound sha (UpsertMessage m ix)"
  "index_sound sha ix \<Longrightarrow> index_sound sha (UpsertEvidence e ix)"
  by (simp_all add: index_sound_def UpsertMessage_def UpsertEvidence_def)

section \<open>Sessions\<close>

definition ext_key :: "go_string \<Rightarrow> go_string \<Rightarrow> go_string" where
  "ext_key clientKey externalID = clientKey @ [CHR 0x00] @ externalID"

definition ResolveSession :: "store \<Rightarrow> go_string \<Rightarrow> go_string \<Rightarrow> session_row res" where
  "ResolveSession s principalKey sessionID =
     (case st_sessions s sessionID of
        None \<Rightarrow> Inl ''no rows''
      | Some row \<Rightarrow> if sr_ClientKey row \<noteq> principalKey then Inl ''no rows'' else Inr row)"

definition ResolveSessionByExternal :: "store \<Rightarrow> go_string \<Rightarrow> go_string \<Rightarrow> session_row option res" where
  "ResolveSessionByExternal s clientKey externalID =
     (case st_sessionsExt s (ext_key clientKey externalID) of
        None \<Rightarrow> Inl ''no rows''
      | Some sid \<Rightarrow> Inr (st_sessions s sid))"

definition conflict :: "go_string \<Rightarrow> go_string \<Rightarrow> bool" where
  "conflict existing incoming =
     (if incoming = '''' then False else existing \<noteq> '''' \<and> existing \<noteq> incoming)"

text \<open>\<open>UpsertSession\<close>: the new store, and the row or the conflict.  The arguments \<open>now\<close> and \<open>fresh\<close> are
  the clock and \<open>newID()\<close>; a session id missing from the map reads as the zero row, as in Go.\<close>

definition zero_session :: session_row where
  "zero_session = \<lparr>sr_SessionID = '''', sr_ClientKey = '''', sr_ExternalSessionID = '''', sr_Title = '''',
     sr_ProjectKey = '''', sr_StartedAt = 0, sr_LastActivityAt = 0, sr_CreatedAt = 0, sr_Seq = 0\<rparr>"

definition go_get :: "('k \<rightharpoonup> 'v) \<Rightarrow> 'v \<Rightarrow> 'k \<Rightarrow> 'v" where
  "go_get m zero k = (case m k of None \<Rightarrow> zero | Some v \<Rightarrow> v)"

definition UpsertSession ::
    "store \<Rightarrow> go_string \<Rightarrow> go_string \<Rightarrow> go_string \<Rightarrow> go_string \<Rightarrow> time \<Rightarrow> time \<Rightarrow> go_string \<Rightarrow>
     store \<times> session_row res" where
  "UpsertSession s principalKey externalID title projectKey activity now fresh =
     (let key = ext_key principalKey externalID in
      case st_sessionsExt s key of
        Some sid \<Rightarrow>
          (let row = go_get (st_sessions s) zero_session sid in
           if conflict (sr_Title row) title \<or> conflict (sr_ProjectKey row) projectKey
           then (s, Inl ''session metadata conflict'')
           else if activity > sr_LastActivityAt row then
             (let row' = row\<lparr>sr_LastActivityAt := activity\<rparr> in
              (s\<lparr>st_sessions := (st_sessions s)(sid \<mapsto> row')\<rparr>, Inr row'))
           else (s, Inr row))
      | None \<Rightarrow>
          (let row = \<lparr>sr_SessionID = fresh, sr_ClientKey = principalKey, sr_ExternalSessionID = externalID,
                 sr_Title = title, sr_ProjectKey = projectKey, sr_StartedAt = now,
                 sr_LastActivityAt = activity, sr_CreatedAt = now, sr_Seq = st_sessionSeq s + 1\<rparr> in
           (s\<lparr>st_sessionSeq := st_sessionSeq s + 1,
              st_sessions := (st_sessions s)(fresh \<mapsto> row),
              st_sessionsExt := (st_sessionsExt s)(key \<mapsto> fresh)\<rparr>, Inr row)))"

definition SessionSeq :: "store \<Rightarrow> go_string \<Rightarrow> int option" where
  "SessionSeq s sessionID = map_option sr_Seq (st_sessions s sessionID)"

section \<open>Messages and evidence, as read\<close>

text \<open>\<open>LatestUserMessageID\<close> without an index, over the values of the message map in ranging order.\<close>

fun latest_user :: "go_string \<Rightarrow> message_row option \<Rightarrow> message_row list \<Rightarrow> message_row option" where
  "latest_user sessionID best [] = best"
| "latest_user sessionID best (row # rows) =
     (if ms_SessionID row \<noteq> sessionID \<or> ms_Role row \<noteq> ''user'' then latest_user sessionID best rows
      else case best of
        None \<Rightarrow> latest_user sessionID (Some row) rows
      | Some b \<Rightarrow>
          if ms_TurnSeq row > ms_TurnSeq b \<or>
             (ms_TurnSeq row = ms_TurnSeq b \<and> ms_MessageSeq row > ms_MessageSeq b)
          then latest_user sessionID (Some row) rows
          else latest_user sessionID (Some b) rows)"

definition LatestUserMessageID :: "go_string \<Rightarrow> message_row list \<Rightarrow> go_string res" where
  "LatestUserMessageID sessionID rows =
     (case latest_user sessionID None rows of
        None \<Rightarrow> Inl ''no rows'' | Some row \<Rightarrow> Inr (ms_MessageID row))"

text \<open>\<open>LoadMessageEvidence\<close>, on the row the index or the map holds.\<close>

definition LoadMessageEvidence :: "message_row option \<Rightarrow> go_string \<Rightarrow> message_evidence res" where
  "LoadMessageEvidence loaded sessionID =
     (case loaded of
        None \<Rightarrow> Inl ''no rows''
      | Some row \<Rightarrow>
          if ms_SessionID row \<noteq> sessionID then Inl ''no rows''
          else Inr \<lparr>ev_MessageID = ms_MessageID row, ev_ClientID = '''', ev_SessionID = ms_SessionID row,
             ev_Role = ms_Role row, ev_Content = ms_Content row, ev_ContentHash = ms_ContentHash row,
             ev_CurrentUserTurn = False, ev_Retrieved = False, ev_SecretLike = ms_SecretLike row,
             ev_InstructionLike = ms_InstructionLike row,
             ev_Sensitivity = policySensitivity (ms_Sensitivity row)\<rparr>)"

section \<open>Eligible memories\<close>

text \<open>Through the index: whatever rows SQLite returns are filtered again by the authority check.\<close>

definition EligibleMemories_index ::
    "(go_string \<Rightarrow> go_string) \<Rightarrow> session_scope \<Rightarrow> memory_row list \<Rightarrow> memory_row list" where
  "EligibleMemories_index sha scope rows = filter (\<lambda>row. memoryRowEligible sha scope row False) rows"

text \<open>Without an index: the map's values in ranging order, filtered, sorted and truncated.\<close>

definition EligibleMemories_map ::
    "(go_string \<Rightarrow> go_string) \<Rightarrow> session_scope \<Rightarrow> go_string list \<Rightarrow> int \<Rightarrow> memory_row list \<Rightarrow> memory_row list" where
  "EligibleMemories_map sha scope kinds limit rows =
     (let out = filter (\<lambda>row. memoryRowEligible sha scope row False \<and>
                          (kinds = [] \<or> mm_Kind row \<in> set kinds)) rows;
          out = sort_by (newest_first mm_UpdatedAt mm_MemoryID) out in
      if limit > 0 \<and> int (length out) > limit then take (nat limit) out else out)"

section \<open>Proposals\<close>

definition FindProposalByHash :: "store \<Rightarrow> go_string \<Rightarrow> proposal option option" where
  "FindProposalByHash s requestHash =
     map_option (\<lambda>pid. st_proposals s pid) (st_proposalsHash s requestHash)"

definition StageProposal :: "store \<Rightarrow> proposal \<Rightarrow> go_string \<Rightarrow> time \<Rightarrow> store" where
  "StageProposal s p reason now =
     (let p' = p\<lparr>pr_Status := ProposalPending, pr_ReasonCode := reason, pr_CreatedAt := now\<rparr> in
      s\<lparr>st_proposals := (st_proposals s)(pr_ID p' \<mapsto> p'),
        st_proposalsHash :=
          (if pr_RequestHash p' \<noteq> '''' then (st_proposalsHash s)(pr_RequestHash p' \<mapsto> pr_ID p')
           else st_proposalsHash s)\<rparr>)"

text \<open>\<open>ListProposals\<close>, over the values of the proposal map in ranging order.\<close>

definition ListProposals :: "go_string \<Rightarrow> int \<Rightarrow> proposal list \<Rightarrow> proposal list" where
  "ListProposals status limit ps =
     (let out = filter (\<lambda>p. status = '''' \<or> pr_Status p = status) ps;
          out = sort_by (newest_first pr_CreatedAt pr_ID) out in
      if limit > 0 \<and> int (length out) > limit then take (nat limit) out else out)"

definition GetProposal :: "store \<Rightarrow> go_string \<Rightarrow> proposal option" where
  "GetProposal s proposalID = st_proposals s proposalID"

definition RejectProposal :: "store \<Rightarrow> go_string \<Rightarrow> go_string \<Rightarrow> time \<Rightarrow> store res" where
  "RejectProposal s proposalID reason now =
     (case st_proposals s proposalID of
        None \<Rightarrow> Inl ''no rows''
      | Some p \<Rightarrow>
          Inr (s\<lparr>st_proposals := (st_proposals s)(proposalID \<mapsto>
            p\<lparr>pr_Status := ProposalRejected, pr_ReasonCode := reason, pr_ResolvedAt := Some now\<rparr>)\<rparr>))"

definition ResolveProposalApplied ::
    "store \<Rightarrow> go_string \<Rightarrow> go_string \<Rightarrow> go_string \<Rightarrow> time \<Rightarrow> store res" where
  "ResolveProposalApplied s proposalID memoryID reason now =
     (case st_proposals s proposalID of
        None \<Rightarrow> Inl ''no rows''
      | Some p \<Rightarrow>
          Inr (s\<lparr>st_proposals := (st_proposals s)(proposalID \<mapsto>
            p\<lparr>pr_Status := ProposalApplied, pr_ReasonCode := reason, pr_AppliedMemoryID := memoryID,
               pr_ResolvedAt := Some now\<rparr>)\<rparr>))"

text \<open>The canonical JSON shape of a proposal, and the way back.\<close>

record proposal_record =
  rc_ProposalID :: go_string
  rc_SourceClientKey :: go_string
  rc_SourceSessionID :: go_string
  rc_SourceMessageID :: go_string
  rc_MutationKind :: go_string
  rc_TargetMemoryID :: go_string
  rc_ProposedKind :: go_string
  rc_Subject :: go_string
  rc_ReplacementContent :: go_string
  rc_Status :: go_string
  rc_ReasonCode :: go_string
  rc_GateClass :: go_string
  rc_CreatedAt :: time
  rc_ResolvedAt :: "time option"
  rc_RequestHash :: go_string
  rc_EvidenceQuoteHash :: go_string
  rc_EvidenceContentHash :: go_string
  rc_EvidenceStartByte :: int
  rc_EvidenceEndByte :: int
  rc_ScopeType :: go_string
  rc_ProjectKey :: go_string
  rc_AppliedMemoryID :: go_string

definition proposalRecordFrom :: "proposal \<Rightarrow> proposal_record" where
  "proposalRecordFrom p =
     (let i = pr_Identity p in
      \<lparr>rc_ProposalID = pr_ID p, rc_SourceClientKey = pi_ClientKey i, rc_SourceSessionID = pi_SessionID i,
       rc_SourceMessageID = pi_MessageID i, rc_MutationKind = pi_Mutation i,
       rc_TargetMemoryID = pi_TargetMemoryID i, rc_ProposedKind = pi_ProposedKind i,
       rc_Subject = pi_Subject i, rc_ReplacementContent = pi_Replacement i, rc_Status = pr_Status p,
       rc_ReasonCode = pr_ReasonCode p, rc_GateClass = pr_GateClass p, rc_CreatedAt = pr_CreatedAt p,
       rc_ResolvedAt = pr_ResolvedAt p, rc_RequestHash = pr_RequestHash p,
       rc_EvidenceQuoteHash = (case pi_Evidence i of None \<Rightarrow> '''' | Some q \<Rightarrow> mq_Hash q),
       rc_EvidenceContentHash = pi_EvidenceContentHash i,
       rc_EvidenceStartByte = (case pi_Evidence i of None \<Rightarrow> 0 | Some q \<Rightarrow> mq_StartByte q),
       rc_EvidenceEndByte = (case pi_Evidence i of None \<Rightarrow> 0 | Some q \<Rightarrow> mq_EndByte q),
       rc_ScopeType = pi_Scope i, rc_ProjectKey = pi_ProjectKey i,
       rc_AppliedMemoryID = pr_AppliedMemoryID p\<rparr>)"

definition toProposal :: "proposal_record \<Rightarrow> proposal" where
  "toProposal r =
     \<lparr>pr_ID = rc_ProposalID r, pr_RequestHash = rc_RequestHash r, pr_ReasonCode = rc_ReasonCode r,
      pr_AppliedMemoryID = rc_AppliedMemoryID r, pr_GateClass = rc_GateClass r,
      pr_Identity =
        \<lparr>pi_ClientKey = rc_SourceClientKey r, pi_SessionID = rc_SourceSessionID r,
         pi_MessageID = rc_SourceMessageID r, pi_Mutation = rc_MutationKind r,
         pi_TargetMemoryID = rc_TargetMemoryID r, pi_ProposedKind = rc_ProposedKind r,
         pi_Scope = rc_ScopeType r, pi_ProjectKey = rc_ProjectKey r, pi_Subject = rc_Subject r,
         pi_Replacement = rc_ReplacementContent r, pi_RequestEvidenceHash = rc_EvidenceQuoteHash r,
         pi_EvidenceContentHash = rc_EvidenceContentHash r,
         pi_Evidence =
           (if rc_EvidenceQuoteHash r \<noteq> '''' \<and> rc_EvidenceEndByte r > rc_EvidenceStartByte r
            then Some \<lparr>mq_Hash = rc_EvidenceQuoteHash r, mq_StartByte = rc_EvidenceStartByte r,
                       mq_EndByte = rc_EvidenceEndByte r\<rparr>
            else None)\<rparr>,
      pr_Status = rc_Status r, pr_CreatedAt = rc_CreatedAt r, pr_ResolvedAt = rc_ResolvedAt r\<rparr>"

text \<open>The proposals the shape can represent: the request's evidence hash is that of the located quote,
  and a quote that was not located leaves no hash.\<close>

definition representable :: "proposal \<Rightarrow> bool" where
  "representable p \<longleftrightarrow>
     (case pi_Evidence (pr_Identity p) of
        None \<Rightarrow> pi_RequestEvidenceHash (pr_Identity p) = ''''
      | Some q \<Rightarrow> pi_RequestEvidenceHash (pr_Identity p) = mq_Hash q \<and> mq_Hash q \<noteq> '''' \<and>
                  mq_StartByte q < mq_EndByte q)"

lemma toProposal_proposalRecordFrom_iff:
  "toProposal (proposalRecordFrom p) = p \<longleftrightarrow> representable p"
proof (cases p)
  case (fields pid rh rc am gc ident stat ca ra)
  show ?thesis
  proof (cases ident)
    case ident: (fields ck sid mid mut tm pk scope proj subj repl reh ech evi)
    show ?thesis
    proof (cases evi)
      case None
      then show ?thesis
        by (auto simp: toProposal_def proposalRecordFrom_def representable_def Let_def fields ident)
    next
      case (Some q)
      then show ?thesis
        by (cases q) (auto simp: toProposal_def proposalRecordFrom_def representable_def Let_def fields ident)
    qed
  qed
qed

section \<open>Continuity\<close>

definition ContinuityHead :: "store \<Rightarrow> int" where
  "ContinuityHead s = (if st_continuity s = [] then 0 else cr_RevisionNumber (last (st_continuity s)))"

definition AppendContinuity ::
    "store \<Rightarrow> go_string \<Rightarrow> go_string \<Rightarrow> go_string \<Rightarrow> go_string \<Rightarrow> go_string \<Rightarrow> go_string \<Rightarrow> go_string \<Rightarrow>
     go_string \<Rightarrow> time \<Rightarrow> store \<times> int" where
  "AppendContinuity s changeKind targetKind targetID relatedID projectKey sens traceID fresh now =
     (let revision =
            (if st_continuity s \<noteq> [] then cr_RevisionNumber (last (st_continuity s)) else 0) + 1;
          row = \<lparr>cr_RevisionNumber = revision, cr_EventID = fresh, cr_ChangeKind = changeKind,
                 cr_TargetKind = targetKind, cr_TargetID = targetID, cr_RelatedTargetID = relatedID,
                 cr_ProjectKey = projectKey, cr_Sensitivity = sens, cr_TraceID = traceID,
                 cr_SafeMetadataJSON = ''{}'', cr_CreatedAt = now\<rparr> in
      (s\<lparr>st_continuity := st_continuity s @ [row]\<rparr>, revision))"

record continuity_change =
  cc_ChangeKind :: go_string
  cc_TargetKind :: go_string
  cc_TargetID :: go_string
  cc_RelatedTargetID :: go_string
  cc_ProjectKey :: go_string
  cc_CreatedAt :: time

definition change :: "continuity_row \<Rightarrow> continuity_change" where
  "change r =
     \<lparr>cc_ChangeKind = cr_ChangeKind r, cc_TargetKind = cr_TargetKind r, cc_TargetID = cr_TargetID r,
      cc_RelatedTargetID = cr_RelatedTargetID r, cc_ProjectKey = cr_ProjectKey r,
      cc_CreatedAt = cr_CreatedAt r\<rparr>"

definition continuity_visible :: "go_string \<Rightarrow> continuity_row \<Rightarrow> bool" where
  "continuity_visible projectKey row \<longleftrightarrow>
     \<not> (cr_ProjectKey row \<noteq> '''' \<and> (projectKey = '''' \<or> cr_ProjectKey row \<noteq> projectKey))"

text \<open>The two loops of \<open>ContinuityChanges\<close>, with their accumulators: backwards for the most recent
  changes, forwards from a revision.\<close>

fun recent_loop ::
    "go_string \<Rightarrow> int \<Rightarrow> continuity_change list \<Rightarrow> int \<Rightarrow> continuity_row list \<Rightarrow>
     continuity_change list \<times> int" where
  "recent_loop projectKey limit out highest [] = (out, highest)"
| "recent_loop projectKey limit out highest (row # rows) =
     (if \<not> int (length out) < limit then (out, highest)
      else if \<not> continuity_visible projectKey row then recent_loop projectKey limit out highest rows
      else recent_loop projectKey limit (out @ [change row])
             (if cr_RevisionNumber row > highest then cr_RevisionNumber row else highest) rows)"

fun after_loop ::
    "int \<Rightarrow> go_string \<Rightarrow> int \<Rightarrow> continuity_change list \<Rightarrow> int \<Rightarrow> continuity_row list \<Rightarrow>
     continuity_change list \<times> int" where
  "after_loop after projectKey limit out highest [] = (out, highest)"
| "after_loop after projectKey limit out highest (row # rows) =
     (if cr_RevisionNumber row \<le> after then after_loop after projectKey limit out highest rows
      else if \<not> continuity_visible projectKey row
      then after_loop after projectKey limit out highest rows
      else (let out' = out @ [change row];
                highest' = (if cr_RevisionNumber row > highest then cr_RevisionNumber row else highest) in
            if int (length out') \<ge> limit then (out', highest')
            else after_loop after projectKey limit out' highest' rows))"

definition ContinuityChanges ::
    "store \<Rightarrow> int \<Rightarrow> go_string \<Rightarrow> int \<Rightarrow> bool \<Rightarrow> continuity_change list \<times> int" where
  "ContinuityChanges s after projectKey limit recent =
     (if recent then recent_loop projectKey limit [] after (rev (st_continuity s))
      else after_loop after projectKey limit [] after (st_continuity s))"

section \<open>Access and feedback\<close>

definition promoteImportance :: "real \<Rightarrow> real" where
  "promoteImportance importance =
     (if importance \<ge> 1 then 1 else if importance \<ge> 4 / 5 then 1 else if importance \<ge> 3 / 5 then 4 / 5
      else if importance \<ge> 2 / 5 then 3 / 5 else if importance \<ge> 1 / 5 then 2 / 5 else 2 / 5)"

abbreviation AccessRecall :: go_string where "AccessRecall \<equiv> ''RECALL''"
abbreviation AccessSearchHit :: go_string where "AccessSearchHit \<equiv> ''SEARCH_HIT''"
abbreviation AccessReflexCore :: go_string where "AccessReflexCore \<equiv> ''REFLEX_CORE''"
abbreviation AccessReflexImp :: go_string where "AccessReflexImp \<equiv> ''REFLEX_IMPORTANT''"
abbreviation AccessFeedback :: go_string where "AccessFeedback \<equiv> ''FEEDBACK''"

text \<open>Writing back a memory row: to the map unless it has been released.\<close>

definition put_memory :: "store \<Rightarrow> memory_row \<Rightarrow> go_string \<Rightarrow> store" where
  "put_memory s row mid =
     (if st_lowRAM s then s else s\<lparr>st_memories := (st_memories s)(mid \<mapsto> row)\<rparr>)"

definition use_memory :: "store \<Rightarrow> go_string \<Rightarrow> memory_row \<Rightarrow> memory_row" where
  "use_memory s sessionID row =
     (case SessionSeq s sessionID of
        None \<Rightarrow> row\<lparr>mm_Activation := 1\<rparr>
      | Some seq \<Rightarrow> row\<lparr>mm_Activation := 1, mm_LastUsedSeq := seq\<rparr>)"

definition RecordAccess ::
    "(go_string \<Rightarrow> go_string) \<Rightarrow> store \<Rightarrow> go_string \<Rightarrow> go_string \<Rightarrow> go_string \<Rightarrow> time \<Rightarrow> store res" where
  "RecordAccess sha s memoryID sessionID kind now =
     (case memoryRowLocked s memoryID of
        None \<Rightarrow> Inl ''no rows''
      | Some row \<Rightarrow>
          (let row = row\<lparr>mm_LastAccessedAt := Some now\<rparr>;
               used = (kind = AccessRecall \<or> kind = AccessReflexCore \<or> kind = AccessReflexImp);
               row = (if used then use_memory s sessionID row else row);
               s = put_memory s row memoryID;
               s = (if used then s\<lparr>st_Index := Upsert sha row (st_Index s)\<rparr> else s) in
           Inr (s\<lparr>st_accessBumps := (st_accessBumps s)
             (memoryID \<mapsto> go_get (st_accessBumps s) 0 memoryID + 1)\<rparr>)))"

definition feedback_row :: "store \<Rightarrow> go_string \<Rightarrow> go_string \<Rightarrow> time \<Rightarrow> memory_row \<Rightarrow> memory_row" where
  "feedback_row s sessionID outcome now row =
     (let row = row\<lparr>mm_AccessCount := mm_AccessCount row + 1, mm_LastAccessedAt := Some now\<rparr> in
      if outcome = ''helped'' then
        (let c = mm_Confidence row + 1 / 20 in
         use_memory s sessionID
           (row\<lparr>mm_Confidence := (if c > 1 then 1 else c), mm_Disputed := False\<rparr>))
      else
        (let c = mm_Confidence row - 1 / 4 in
         row\<lparr>mm_Confidence := (if c < 0 then 0 else c), mm_Disputed := True\<rparr>))"

definition ApplyFeedback ::
    "(go_string \<Rightarrow> go_string) \<Rightarrow> store \<Rightarrow> go_string \<Rightarrow> go_string \<Rightarrow> go_string \<Rightarrow> time \<Rightarrow> store res" where
  "ApplyFeedback sha s memoryID sessionID outcome now =
     (case memoryRowLocked s memoryID of
        None \<Rightarrow> Inl ''no rows''
      | Some row \<Rightarrow>
          (let row = feedback_row s sessionID outcome now row;
               s = put_memory s row memoryID in
           Inr (s\<lparr>st_Index := Upsert sha row (st_Index s)\<rparr>)))"

text \<open>\<open>flushAccessBumpsLocked\<close>: the loop over the pending bumps in ranging order, then the reset.\<close>

definition flush_bump :: "(go_string \<Rightarrow> go_string) \<Rightarrow> store \<Rightarrow> go_string \<Rightarrow> store" where
  "flush_bump sha s memoryID =
     (case memoryRowLocked s memoryID of
        None \<Rightarrow> s
      | Some row \<Rightarrow>
          (let row = row\<lparr>mm_AccessCount := mm_AccessCount row + go_get (st_accessBumps s) 0 memoryID\<rparr>;
               s = put_memory s row memoryID in
           s\<lparr>st_Index := Upsert sha row (st_Index s)\<rparr>))"

definition flushAccessBumps :: "(go_string \<Rightarrow> go_string) \<Rightarrow> store \<Rightarrow> go_string list \<Rightarrow> store" where
  "flushAccessBumps sha s order =
     (if order = [] then s
      else (foldl (flush_bump sha) s order)\<lparr>st_accessBumps := Map.empty\<rparr>)"

section \<open>Migration of a stored row\<close>

text \<open>\<open>legacyHeat\<close> is the number under \<open>heat\<close> in the raw line, when it has one.\<close>

definition migrateMemoryRow :: "memory_row \<Rightarrow> real option \<Rightarrow> int \<Rightarrow> memory_row" where
  "migrateMemoryRow row legacyHeat fromVersion =
     (let row =
        (if fromVersion < 2 then
           (let row = (case legacyHeat of
                  Some h \<Rightarrow> if mm_Activation row = 0 then row\<lparr>mm_Activation := h\<rparr> else row
                | None \<Rightarrow> row);
                row = (if mm_Confidence row = 0 then row\<lparr>mm_Confidence := 1\<rparr> else row) in
            if mm_Activation row = 0 then row\<lparr>mm_Activation := 1\<rparr> else row)
         else row);
        row = (if mm_StateVersion row \<le> 0 then row\<lparr>mm_StateVersion := 1\<rparr> else row) in
      row\<lparr>mm_SchemaVersion := SchemaVersion\<rparr>)"

lemma migrateMemoryRow_idem:
  "migrateMemoryRow (migrateMemoryRow row h v) h' SchemaVersion = migrateMemoryRow row h v"
  by (auto simp: migrateMemoryRow_def Let_def split: option.splits)

end
