(* ===== verification/Hash_Chain.thy ===== *)
theory Hash_Chain
  imports Go_Hash
begin

text \<open>
  What the three append-only journals (mutation events, message records, key rotations) share: JSON
  lines on disk, an append that may fail half way, and a chain of records in which each one stores
  the digest of its own bytes and of its predecessor.  The contract of a chain is the locale
  \<open>hash_chain\<close>; each journal interprets it on its own records.
\<close>

section \<open>JSON lines\<close>

abbreviation newline :: char where "newline \<equiv> CHR 0x0A"

text \<open>\<open>bytes.Split(raw, []byte{'\n'})\<close>.\<close>

fun split_newline :: "go_string \<Rightarrow> go_string list" where
  "split_newline [] = [[]]"
| "split_newline (c # cs) =
     (if c = newline then [] # split_newline cs
      else case split_newline cs of l # ls \<Rightarrow> (c # l) # ls | [] \<Rightarrow> [[c]])"

text \<open>The records of a file: its lines, trimmed, without the empty ones.\<close>

definition json_lines :: "go_string \<Rightarrow> go_string list" where
  "json_lines raw = filter (\<lambda>l. l \<noteq> []) (map trim_space (split_newline raw))"

definition complete_file :: "go_string \<Rightarrow> bool" where
  "complete_file raw \<longleftrightarrow> raw = [] \<or> last raw = newline"

text \<open>\<open>readJSONL\<close> scans with a buffer of at most 16 MiB: a longer line is an error.\<close>

abbreviation max_line :: nat where "max_line \<equiv> 16777216"

definition readJSONL :: "go_string \<Rightarrow> go_string list res" where
  "readJSONL raw =
     (if list_ex (\<lambda>l. length l \<ge> max_line) (split_newline raw)
      then Inl ''bufio.Scanner: token too long'' else Inr (json_lines raw))"

definition write_lines :: "go_string list \<Rightarrow> go_string" where
  "write_lines ls = concat (map (\<lambda>l. l @ [newline]) ls)"

text \<open>A line a JSON encoder writes: not empty, no newline in it, nothing to trim.\<close>

definition clean_line :: "go_string \<Rightarrow> bool" where
  "clean_line l \<longleftrightarrow> l \<noteq> [] \<and> newline \<notin> set l \<and> trim_space l = l \<and> length l < max_line"

lemma split_newline_ne: "split_newline s \<noteq> []"
  by (induction s) (auto split: list.splits)

lemma split_newline_append:
  "newline \<notin> set l \<Longrightarrow> split_newline (l @ newline # rest) = l # split_newline rest"
  by (induction l) auto

lemma split_write_lines:
  "\<forall>l \<in> set ls. newline \<notin> set l \<Longrightarrow> split_newline (write_lines ls @ rest) = ls @ split_newline rest"
  by (induction ls) (auto simp: write_lines_def split_newline_append)

lemma json_lines_write:
  assumes "\<forall>l \<in> set ls. clean_line l"
  shows "json_lines (write_lines ls) = ls"
proof -
  have "split_newline (write_lines ls @ []) = ls @ [[]]"
    using assms split_write_lines [of ls "[]"] by (auto simp: clean_line_def)
  moreover have "map trim_space ls = ls" using assms by (intro map_idI) (auto simp: clean_line_def)
  moreover have "filter (\<lambda>l. l \<noteq> []) ls = ls" using assms by (intro filter_True) (auto simp: clean_line_def)
  ultimately show ?thesis by (simp add: json_lines_def)
qed

lemma readJSONL_write:
  assumes "\<forall>l \<in> set ls. clean_line l"
  shows "readJSONL (write_lines ls) = Inr ls"
proof -
  have "split_newline (write_lines ls @ []) = ls @ [[]]"
    using assms split_write_lines [of ls "[]"] by (auto simp: clean_line_def)
  then show ?thesis using assms json_lines_write [OF assms]
    by (auto simp: readJSONL_def list_ex_iff clean_line_def)
qed

lemma complete_write_lines: "complete_file (write_lines ls)"
  by (cases ls rule: rev_cases) (auto simp: complete_file_def write_lines_def)

lemma write_lines_snoc: "write_lines (ls @ [l]) = write_lines ls @ l @ [newline]"
  by (simp add: write_lines_def)

lemma write_lines_Nil [simp]: "write_lines [] = []"
  by (simp add: write_lines_def)

section \<open>Appending\<close>

text \<open>The append of one line: it is written and synced, or the call fails after the given number of
  bytes have reached the file (none when the file could not even be opened, all of them when only the
  sync failed).\<close>

datatype append_io = Appended | Append_Failed nat

definition append_file :: "go_string \<Rightarrow> go_string \<Rightarrow> append_io \<Rightarrow> go_string \<times> bool" where
  "append_file file line io =
     (case io of Appended \<Rightarrow> (file @ line, True) | Append_Failed n \<Rightarrow> (file @ take n line, False))"

section \<open>Chains\<close>

text \<open>\<open>core\<close> is the byte string a record's digest covers, \<open>stored\<close> the digest it carries, \<open>prev\<close> the one
  it carries of its predecessor, \<open>seq\<close> its position.\<close>

fun chain_ok ::
    "(go_string \<Rightarrow> go_string) \<Rightarrow> ('r \<Rightarrow> go_string) \<Rightarrow> ('r \<Rightarrow> go_string) \<Rightarrow> ('r \<Rightarrow> go_string) \<Rightarrow> ('r \<Rightarrow> int) \<Rightarrow>
     int \<Rightarrow> go_string \<Rightarrow> 'r list \<Rightarrow> bool" where
  "chain_ok sha core stored prev seq n h [] = True"
| "chain_ok sha core stored prev seq n h (r # rs) \<longleftrightarrow>
     seq r = n + 1 \<and> prev r = h \<and> stored r = sha_name sha (core r) \<and>
     chain_ok sha core stored prev seq (n + 1) (stored r) rs"

definition chain_head :: "('r \<Rightarrow> go_string) \<Rightarrow> go_string \<Rightarrow> 'r list \<Rightarrow> go_string" where
  "chain_head stored h rs = (if rs = [] then h else stored (last rs))"

lemma chain_head_Nil [simp]: "chain_head stored h [] = h"
  by (simp add: chain_head_def)

lemma chain_head_snoc [simp]: "chain_head stored h (rs @ [r]) = stored r"
  by (simp add: chain_head_def)

lemma chain_head_Cons: "chain_head stored h (r # rs) = chain_head stored (stored r) rs"
  by (simp add: chain_head_def)

lemma chain_ok_snoc:
  "chain_ok sha core stored prev seq n h (rs @ [r]) \<longleftrightarrow>
     chain_ok sha core stored prev seq n h rs \<and> seq r = n + int (length rs) + 1 \<and>
     prev r = chain_head stored h rs \<and> stored r = sha_name sha (core r)"
  by (induction rs arbitrary: n h) (auto simp: chain_head_Cons)

lemma chain_head_append: "chain_head stored h (rs @ qs) = chain_head stored (chain_head stored h rs) qs"
  by (simp add: chain_head_def)

lemma chain_ok_append:
  "chain_ok sha core stored prev seq n h (rs @ qs) \<longleftrightarrow>
     chain_ok sha core stored prev seq n h rs \<and>
     chain_ok sha core stored prev seq (n + int (length rs)) (chain_head stored h rs) qs"
  by (induction rs arbitrary: n h) (auto simp: chain_head_Cons algebra_simps)

lemma sha_name_ne_Nil [simp]: "sha_name sha s \<noteq> []" "[] \<noteq> sha_name sha s"
  by (simp_all add: sha_name_def)

text \<open>The law of a journal: the digested bytes determine the link to the predecessor.\<close>

locale hash_chain =
  fixes core :: "'r \<Rightarrow> go_string"
    and stored :: "'r \<Rightarrow> go_string"
    and prev :: "'r \<Rightarrow> go_string"
    and seq :: "'r \<Rightarrow> int"
    and sane :: "'r \<Rightarrow> bool"
  assumes core_link: "\<lbrakk>sane x; sane y; core x = core y\<rbrakk> \<Longrightarrow> prev x = prev y"
begin

text \<open>Two verified chains with the same head cover the same bytes, record by record, or exhibit a
  collision of the digest.  Removal, insertion, reordering and change are all excluded.\<close>

lemma same_head_same_history:
  assumes "chain_ok sha core stored prev seq n [] xs" "chain_ok sha core stored prev seq n [] ys"
    and "list_all sane xs" "list_all sane ys"
    and "chain_head stored [] xs = chain_head stored [] ys"
  shows "map core xs = map core ys \<or>
    (\<exists>x \<in> set xs. \<exists>y \<in> set ys. collision sha (core x) (core y))"
  using assms
proof (induction xs arbitrary: ys rule: rev_induct)
  case Nil
  then show ?case by (cases ys rule: rev_cases) (auto simp: chain_ok_snoc)
next
  case (snoc x xs)
  then obtain ys' y where ys: "ys = ys' @ [y]"
    by (cases ys rule: rev_cases) (auto simp: chain_ok_snoc)
  have xs: "chain_ok sha core stored prev seq n [] xs" "prev x = chain_head stored [] xs"
      "stored x = sha_name sha (core x)" "sane x" "list_all sane xs"
    using snoc.prems by (auto simp: chain_ok_snoc)
  have ys': "chain_ok sha core stored prev seq n [] ys'" "prev y = chain_head stored [] ys'"
      "stored y = sha_name sha (core y)" "sane y" "list_all sane ys'"
    using snoc.prems ys by (auto simp: chain_ok_snoc)
  have "sha (core x) = sha (core y)"
    using snoc.prems(5) xs(3) ys'(3) by (simp add: ys sha_name_eq_iff)
  then consider "core x = core y" | "collision sha (core x) (core y)"
    by (auto simp: collision_def)
  then show ?case
  proof cases
    case 1
    then have "chain_head stored [] xs = chain_head stored [] ys'"
      using core_link [of x y] xs(2,4) ys'(2,4) by simp
    from snoc.IH [OF xs(1) ys'(1) xs(5) ys'(5) this] show ?thesis using 1 by (auto simp: ys)
  next
    case 2
    then show ?thesis by (auto simp: ys)
  qed
qed

end

end
