(* ===== verification/Event_Journal.thy ===== *)
theory Event_Journal
  imports Store_State Hash_Chain
begin

text \<open>
  \<open>lite/mutation_event.go\<close> and \<open>lite/key_rotation.go\<close>: the signed, hash-chained journal of memory
  mutations.  \<open>CommitMutation\<close> checks the proposal and the target version, appends one event and applies
  it; \<open>loadMutationEvents\<close> verifies the journal at start and replays it over the projections found on
  disk; \<open>SetIntegrityKey\<close> verifies it again under a key; \<open>RotateIntegrityKey\<close> appends a bridge signed by
  both keys.  SHA-256, HMAC and the JSON codecs are the fields of \<open>env\<close>; the clock, fresh identifiers
  and the outcome of each file append are arguments.
\<close>

section \<open>Events\<close>

record mutation_event =
  me_EventVersion :: int
  me_EventSeq :: int
  me_EventID :: go_string
  me_RequestHash :: go_string
  me_Mutation :: go_string
  me_ProposalID :: go_string
  me_Proposal :: "proposal option"
  me_ResolutionReason :: go_string
  me_ReviewAuthorization :: go_string
  me_NewMemory :: "memory_row option"
  me_UpdatedMemory :: "memory_row option"
  me_TargetMemoryID :: go_string
  me_ExpectedTargetVersion :: int
  me_TargetLifecycle :: go_string
  me_Evidence :: evidence_row
  me_Continuity :: continuity_row
  me_PreviousEventHash :: go_string
  me_EventHash :: go_string
  me_KeyID :: go_string
  me_HMAC :: go_string
  me_CreatedAt :: time

record mutation_commit =
  mc_Mutation :: go_string
  mc_ProposalID :: go_string
  mc_RequestHash :: go_string
  mc_ResolutionReason :: go_string
  mc_ReviewAuthorization :: go_string
  mc_NewMemory :: "memory_row option"
  mc_UpdatedMemory :: "memory_row option"
  mc_TargetMemoryID :: go_string
  mc_ExpectedTargetVersion :: int
  mc_TargetLifecycle :: go_string
  mc_Evidence :: evidence_row
  mc_ContinuityKind :: go_string
  mc_RelatedMemoryID :: go_string
  mc_ProjectKey :: go_string
  mc_Sensitivity :: go_string
  mc_TraceID :: go_string

record commit_result =
  mr_MemoryID :: go_string
  mr_Revision :: int
  mr_EventID :: go_string
  mr_ProjectionError :: "go_string option"

record key_rotation =
  kr_Version :: int
  kr_Sequence :: int
  kr_RotationID :: go_string
  kr_PreviousRotationHash :: go_string
  kr_EventHeadHash :: go_string
  kr_PreviousKeyID :: go_string
  kr_NewKeyID :: go_string
  kr_RotationHash :: go_string
  kr_PreviousKeyHMAC :: go_string
  kr_NewKeyHMAC :: go_string
  kr_CreatedAt :: time

text \<open>The primitives of the standard library the journals rest on.\<close>

record env =
  env_sha :: "go_string \<Rightarrow> go_string"
  env_hmac :: "go_string \<Rightarrow> go_string \<Rightarrow> go_string"
  event_json :: "mutation_event \<Rightarrow> go_string"
  event_unjson :: "go_string \<Rightarrow> mutation_event option"
  rotation_json :: "key_rotation \<Rightarrow> go_string"
  rotation_unjson :: "go_string \<Rightarrow> key_rotation option"
  message_json :: "message_row \<Rightarrow> go_string"
  message_unjson :: "go_string \<Rightarrow> message_row option"

definition unsigned_event :: "mutation_event \<Rightarrow> mutation_event" where
  "unsigned_event e = e\<lparr>me_EventHash := '''', me_KeyID := '''', me_HMAC := ''''\<rparr>"

definition mutationEventHash :: "env \<Rightarrow> mutation_event \<Rightarrow> go_string" where
  "mutationEventHash env e = sha_name (env_sha env) (event_json env (unsigned_event e))"

definition mutationEventHMAC :: "env \<Rightarrow> go_string \<Rightarrow> go_string \<Rightarrow> go_string" where
  "mutationEventHMAC env key eventHash = ''hmac-sha256:'' @ hex_encode (env_hmac env key eventHash)"

definition integrityKeyID :: "env \<Rightarrow> go_string \<Rightarrow> go_string" where
  "integrityKeyID env key = hex_encode (take 8 (env_sha env key))"

definition memoryIDForCommit :: "mutation_commit \<Rightarrow> go_string" where
  "memoryIDForCommit c =
     (case mc_NewMemory c of Some m \<Rightarrow> mm_MemoryID m
      | None \<Rightarrow> (case mc_UpdatedMemory c of Some m \<Rightarrow> mm_MemoryID m | None \<Rightarrow> mc_TargetMemoryID c))"

definition memoryIDForEvent :: "mutation_event \<Rightarrow> go_string" where
  "memoryIDForEvent e =
     (case me_NewMemory e of Some m \<Rightarrow> mm_MemoryID m
      | None \<Rightarrow> (case me_UpdatedMemory e of Some m \<Rightarrow> mm_MemoryID m | None \<Rightarrow> me_TargetMemoryID e))"

section \<open>Applying an event\<close>

definition apply_proposal :: "mutation_event \<Rightarrow> store \<Rightarrow> store" where
  "apply_proposal e s =
     (case me_Proposal e of
        None \<Rightarrow> s
      | Some p \<Rightarrow>
          if st_proposals s (pr_ID p) \<noteq> None then s
          else s\<lparr>st_proposals := (st_proposals s)(pr_ID p \<mapsto> p),
                 st_proposalsHash :=
                   (if pr_RequestHash p \<noteq> '''' then (st_proposalsHash s)(pr_RequestHash p \<mapsto> pr_ID p)
                    else st_proposalsHash s)\<rparr>)"

definition retarget :: "mutation_event \<Rightarrow> memory_row \<Rightarrow> memory_row" where
  "retarget e row =
     row\<lparr>mm_Lifecycle := me_TargetLifecycle e, mm_StateVersion := me_ExpectedTargetVersion e + 1,
         mm_UpdatedAt := me_CreatedAt e\<rparr>"

text \<open>The effect on the memory map, which has been released in low-RAM mode.\<close>

definition apply_memories :: "mutation_event \<Rightarrow> (go_string \<rightharpoonup> memory_row) \<Rightarrow> (go_string \<rightharpoonup> memory_row)" where
  "apply_memories e ms =
     (let ms = (case me_NewMemory e of Some m \<Rightarrow> ms(mm_MemoryID m \<mapsto> m) | None \<Rightarrow> ms);
          ms = (case me_UpdatedMemory e of Some m \<Rightarrow> ms(mm_MemoryID m \<mapsto> m) | None \<Rightarrow> ms) in
      if me_TargetMemoryID e \<noteq> '''' \<and> me_TargetLifecycle e \<noteq> '''' then
        (case ms (me_TargetMemoryID e) of
           Some row \<Rightarrow> ms(mm_MemoryID row \<mapsto> retarget e row)
         | None \<Rightarrow> ms)
      else ms)"

definition same_evidence :: "evidence_row \<Rightarrow> evidence_row \<Rightarrow> bool" where
  "same_evidence a b \<longleftrightarrow>
     er_MessageID a = er_MessageID b \<and> er_QuoteHash a = er_QuoteHash b \<and> er_Relation a = er_Relation b"

definition apply_evidence ::
    "mutation_event \<Rightarrow> (go_string \<Rightarrow> evidence_row list) \<Rightarrow> (go_string \<Rightarrow> evidence_row list)" where
  "apply_evidence e evs =
     (let evidenceID = er_MemoryID (me_Evidence e) in
      if evidenceID = '''' then evs
      else if list_ex (\<lambda>x. same_evidence x (me_Evidence e)) (evs evidenceID) then evs
      else evs(evidenceID := evs evidenceID @ [me_Evidence e]))"

definition resolve_proposal :: "mutation_event \<Rightarrow> store \<Rightarrow> store" where
  "resolve_proposal e s =
     (case st_proposals s (me_ProposalID e) of
        None \<Rightarrow> s
      | Some p \<Rightarrow>
          s\<lparr>st_proposals := (st_proposals s)(me_ProposalID e \<mapsto>
            p\<lparr>pr_Status := ProposalApplied, pr_ReasonCode := me_ResolutionReason e,
               pr_AppliedMemoryID := memoryIDForEvent e, pr_ResolvedAt := Some (me_CreatedAt e)\<rparr>)\<rparr>)"

definition apply_continuity :: "mutation_event \<Rightarrow> continuity_row list \<Rightarrow> continuity_row list" where
  "apply_continuity e rows =
     (if list_ex (\<lambda>r. cr_EventID r = cr_EventID (me_Continuity e)) rows then rows
      else rows @ [me_Continuity e])"

definition applyMutationEvent :: "store \<Rightarrow> mutation_event \<Rightarrow> store" where
  "applyMutationEvent s e =
     (let s = apply_proposal e s;
          s = (if st_lowRAM s then s
               else s\<lparr>st_memories := apply_memories e (st_memories s),
                      st_evidence := apply_evidence e (st_evidence s)\<rparr>);
          s = resolve_proposal e s in
      s\<lparr>st_continuity := apply_continuity e (st_continuity s)\<rparr>)"

section \<open>Refreshing the projections\<close>

text \<open>The rewritten JSON files are caches; \<open>flush\<close> is the outcome of writing them, which when it fails
  returns before the index is touched.\<close>

definition index_target :: "store \<Rightarrow> mutation_event \<Rightarrow> index \<Rightarrow> memory_row option" where
  "index_target s e ix =
     (if me_TargetMemoryID e = '''' then None
      else if st_lowRAM s then
        map_option (\<lambda>row. if me_TargetLifecycle e \<noteq> '''' then retarget e row else row)
          (ix_memories ix (me_TargetMemoryID e))
      else st_memories s (me_TargetMemoryID e))"

definition refresh_index :: "env \<Rightarrow> store \<Rightarrow> mutation_event \<Rightarrow> index" where
  "refresh_index env s e =
     (let ix = st_Index s;
          ix = (case me_NewMemory e of Some m \<Rightarrow> Upsert (env_sha env) m ix | None \<Rightarrow> ix);
          ix = (case me_UpdatedMemory e of Some m \<Rightarrow> Upsert (env_sha env) m ix | None \<Rightarrow> ix);
          ix = (case index_target s e ix of
                  Some row \<Rightarrow> if mm_MemoryID row \<noteq> '''' then Upsert (env_sha env) row ix else ix
                | None \<Rightarrow> ix) in
      if er_MemoryID (me_Evidence e) \<noteq> '''' then UpsertEvidence (me_Evidence e) ix else ix)"

definition refreshMutationProjections ::
    "env \<Rightarrow> store \<Rightarrow> mutation_event \<Rightarrow> go_string option \<Rightarrow> store \<times> go_string option" where
  "refreshMutationProjections env s e flush =
     (case flush of
        Some err \<Rightarrow> (s, Some err)
      | None \<Rightarrow> (s\<lparr>st_Index := refresh_index env s e\<rparr>, None))"

section \<open>Committing\<close>

definition appendMutationEvent :: "env \<Rightarrow> store \<Rightarrow> mutation_event \<Rightarrow> append_io \<Rightarrow> store \<times> bool" where
  "appendMutationEvent env s e io =
     (case append_file (st_eventsFile s) (event_json env e @ [newline]) io of
        (file, ok) \<Rightarrow> (s\<lparr>st_eventsFile := file\<rparr>, ok))"

text \<open>The checks before anything is written: the proposal to record with the event, the new memory
  with its defaults filled in, and the refusal of a commit that conflicts.\<close>

definition commit_proposal :: "store \<Rightarrow> mutation_commit \<Rightarrow> proposal option res" where
  "commit_proposal s c =
     (if mc_ProposalID c \<noteq> '''' then
        (case st_proposals s (mc_ProposalID c) of
           None \<Rightarrow> Inl ''proposal state conflict''
         | Some p \<Rightarrow>
             if pr_Status p \<noteq> ProposalPending \<or> pr_RequestHash p \<noteq> mc_RequestHash c
             then Inl ''proposal state conflict'' else Inr (Some p))
      else if mc_ReviewAuthorization c \<noteq> ''ADMIN_RETIRE'' \<or> mc_RequestHash c = ''''
      then Inl ''proposal required'' else Inr None)"

definition new_memory_defaults :: "time \<Rightarrow> memory_row \<Rightarrow> memory_row" where
  "new_memory_defaults now m =
     (let m = (if mm_StateVersion m \<le> 0 then m\<lparr>mm_StateVersion := 1\<rparr> else m);
          m = m\<lparr>mm_SchemaVersion := SchemaVersion\<rparr>;
          m = (if mm_CreatedAt m = 0 then m\<lparr>mm_CreatedAt := now\<rparr> else m) in
      if mm_UpdatedAt m = 0 then m\<lparr>mm_UpdatedAt := now\<rparr> else m)"

definition commit_new_memory :: "store \<Rightarrow> mutation_commit \<Rightarrow> time \<Rightarrow> memory_row option res" where
  "commit_new_memory s c now =
     (case mc_NewMemory c of
        None \<Rightarrow> Inr None
      | Some m \<Rightarrow>
          if memoryRowLocked s (mm_MemoryID m) \<noteq> None then Inl ''new memory already exists''
          else Inr (Some (new_memory_defaults now m)))"

definition commit_target :: "store \<Rightarrow> mutation_commit \<Rightarrow> unit res" where
  "commit_target s c =
     (if (case mc_UpdatedMemory c of None \<Rightarrow> False
          | Some m \<Rightarrow> mc_TargetMemoryID c = '''' \<or> mm_MemoryID m \<noteq> mc_TargetMemoryID c)
      then Inl ''updated memory mismatch''
      else if mc_TargetMemoryID c \<noteq> '''' then
        (case memoryRowLocked s (mc_TargetMemoryID c) of
           None \<Rightarrow> Inl ''target version conflict''
         | Some t \<Rightarrow>
             if mm_Lifecycle t \<noteq> LifecycleActive \<or> mm_StateVersion t \<noteq> mc_ExpectedTargetVersion c
             then Inl ''target version conflict'' else Inr ())
      else Inr ())"

text \<open>The event a commit writes; \<open>eid\<close> and \<open>cid\<close> are its two fresh identifiers.\<close>

definition commit_revision :: "store \<Rightarrow> int" where
  "commit_revision s =
     (if st_continuity s = [] then 1 else cr_RevisionNumber (last (st_continuity s)) + 1)"

definition draft_event ::
    "store \<Rightarrow> mutation_commit \<Rightarrow> proposal option \<Rightarrow> memory_row option \<Rightarrow> time \<Rightarrow> go_string \<Rightarrow> go_string \<Rightarrow>
     mutation_event" where
  "draft_event s c committed newm now eid cid =
     \<lparr>me_EventVersion = 3, me_EventSeq = st_mutationEventSeq s + 1, me_EventID = eid,
      me_RequestHash = mc_RequestHash c, me_Mutation = mc_Mutation c, me_ProposalID = mc_ProposalID c,
      me_Proposal = committed, me_ResolutionReason = mc_ResolutionReason c,
      me_ReviewAuthorization = mc_ReviewAuthorization c, me_NewMemory = newm,
      me_UpdatedMemory = mc_UpdatedMemory c, me_TargetMemoryID = mc_TargetMemoryID c,
      me_ExpectedTargetVersion = mc_ExpectedTargetVersion c, me_TargetLifecycle = mc_TargetLifecycle c,
      me_Evidence =
        (if er_CreatedAt (mc_Evidence c) = 0 then (mc_Evidence c)\<lparr>er_CreatedAt := now\<rparr>
         else mc_Evidence c),
      me_Continuity =
        \<lparr>cr_RevisionNumber = commit_revision s, cr_EventID = cid, cr_ChangeKind = mc_ContinuityKind c,
         cr_TargetKind = ''COGNITIVE_MEMORY'', cr_TargetID = memoryIDForCommit c,
         cr_RelatedTargetID = mc_RelatedMemoryID c, cr_ProjectKey = mc_ProjectKey c,
         cr_Sensitivity = mc_Sensitivity c, cr_TraceID = mc_TraceID c,
         cr_SafeMetadataJSON = ''{}'', cr_CreatedAt = now\<rparr>,
      me_PreviousEventHash = st_lastEventHash s, me_EventHash = '''', me_KeyID = '''', me_HMAC = '''',
      me_CreatedAt = now\<rparr>"

definition sign_event :: "env \<Rightarrow> go_string \<Rightarrow> mutation_event \<Rightarrow> mutation_event" where
  "sign_event env key e =
     (let h = mutationEventHash env e in
      e\<lparr>me_EventHash := h, me_KeyID := integrityKeyID env key, me_HMAC := mutationEventHMAC env key h\<rparr>)"

definition CommitMutation ::
    "env \<Rightarrow> store \<Rightarrow> mutation_commit \<Rightarrow> time \<Rightarrow> go_string \<Rightarrow> go_string \<Rightarrow> append_io \<Rightarrow> go_string option \<Rightarrow>
     store \<times> commit_result res" where
  "CommitMutation env s c now eid cid io flush =
     (if length (st_integrityKey s) < 32 then (s, Inl ''mutation integrity key not configured'')
      else case commit_proposal s c of Inl err \<Rightarrow> (s, Inl err) | Inr committed \<Rightarrow>
      (case commit_new_memory s c now of Inl err \<Rightarrow> (s, Inl err) | Inr newm \<Rightarrow>
      (case commit_target s c of Inl err \<Rightarrow> (s, Inl err) | Inr _ \<Rightarrow>
        (let e = sign_event env (st_integrityKey s) (draft_event s c committed newm now eid cid) in
         case appendMutationEvent env s e io of
           (s', False) \<Rightarrow> (s', Inl ''append failed'')
         | (s', True) \<Rightarrow>
             (let s' = s'\<lparr>st_mutationEventSeq := st_mutationEventSeq s + 1,
                          st_lastEventHash := me_EventHash e\<rparr>;
                  s' = applyMutationEvent s' e in
              case refreshMutationProjections env s' e flush of
                (s'', perr) \<Rightarrow>
                  (s'', Inr \<lparr>mr_MemoryID = memoryIDForEvent e, mr_Revision = commit_revision s,
                            mr_EventID = eid, mr_ProjectionError = perr\<rparr>))))))"

section \<open>Loading and verifying\<close>

definition event_linked :: "env \<Rightarrow> int \<Rightarrow> go_string \<Rightarrow> mutation_event \<Rightarrow> bool" where
  "event_linked env previous previousHash e \<longleftrightarrow>
     (me_EventVersion e = 2 \<or> me_EventVersion e = 3) \<and> me_EventSeq e = previous + 1 \<and>
     me_PreviousEventHash e = previousHash \<and> mutationEventHash env e = me_EventHash e"

definition event_signed :: "env \<Rightarrow> go_string \<Rightarrow> mutation_event \<Rightarrow> bool" where
  "event_signed env key e \<longleftrightarrow>
     mutationEventHMAC env key (me_EventHash e) = me_HMAC e \<and> me_KeyID e = integrityKeyID env key"

text \<open>Replay: what loading does with one verified event.\<close>

definition replay_step :: "store \<Rightarrow> mutation_event \<Rightarrow> store" where
  "replay_step s e =
     applyMutationEvent (s\<lparr>st_mutationEventSeq := me_EventSeq e, st_lastEventHash := me_EventHash e\<rparr>) e"

text \<open>The loop of \<open>loadMutationEvents\<close> over the lines of the file: the previous sequence number and
  hash, whether the key-rotation anchor has been passed, and the store being rebuilt.\<close>

fun load_loop ::
    "env \<Rightarrow> int \<Rightarrow> go_string \<Rightarrow> bool \<Rightarrow> store \<Rightarrow> go_string list \<Rightarrow> (bool \<times> store) res" where
  "load_loop env previous previousHash anchorReached s [] = Inr (anchorReached, s)"
| "load_loop env previous previousHash anchorReached s (line # lines) =
     (case event_unjson env line of
        None \<Rightarrow> Inl ''memory_events.jsonl: decode''
      | Some e \<Rightarrow>
          if \<not> event_linked env previous previousHash e
          then Inl ''memory_events.jsonl: invalid event sequence''
          else if anchorReached \<and> length (st_integrityKey s) > 0 \<and> \<not> event_signed env (st_integrityKey s) e
          then Inl ''memory_events.jsonl: signature invalid''
          else load_loop env (me_EventSeq e) (me_EventHash e)
                 (anchorReached \<or> me_EventHash e = st_integrityAnchorHash s)
                 (replay_step s e) lines)"

definition sameGovernedMemoryVersion :: "memory_row \<Rightarrow> memory_row \<Rightarrow> bool" where
  "sameGovernedMemoryVersion projected replayed \<longleftrightarrow>
     mm_MemoryID projected = mm_MemoryID replayed \<and>
     mm_StateVersion projected = mm_StateVersion replayed \<and>
     mm_ContentHash projected = mm_ContentHash replayed \<and>
     mm_Lifecycle projected = mm_Lifecycle replayed \<and>
     mm_UpdatedAt projected = mm_UpdatedAt replayed"

definition mergeRuntimeMemoryState :: "memory_row \<Rightarrow> memory_row \<Rightarrow> memory_row" where
  "mergeRuntimeMemoryState authoritative projected =
     authoritative\<lparr>mm_AccessCount := mm_AccessCount projected,
       mm_LastAccessedAt := mm_LastAccessedAt projected, mm_Activation := mm_Activation projected,
       mm_Confidence := mm_Confidence projected, mm_Disputed := mm_Disputed projected,
       mm_LastUsedSeq := mm_LastUsedSeq projected\<rparr>"

definition merge_runtime ::
    "(go_string \<rightharpoonup> memory_row) \<Rightarrow> (go_string \<rightharpoonup> memory_row) \<Rightarrow> (go_string \<rightharpoonup> memory_row)" where
  "merge_runtime projected replayed =
     (\<lambda>mid. case replayed mid of
        None \<Rightarrow> None
      | Some r \<Rightarrow>
          (case projected mid of
             Some p \<Rightarrow> if sameGovernedMemoryVersion p r then Some (mergeRuntimeMemoryState r p) else Some r
           | None \<Rightarrow> Some r))"

definition loadMutationEvents :: "env \<Rightarrow> store \<Rightarrow> store res" where
  "loadMutationEvents env s =
     (if \<not> complete_file (st_eventsFile s) then Inl ''memory_events.jsonl: incomplete final record''
      else bindE (readJSONL (st_eventsFile s)) (\<lambda>lines.
        bindE (load_loop env 0 '''' (st_integrityAnchorHash s = '''') s lines) (\<lambda>(anchorReached, s').
          if \<not> anchorReached then Inl ''memory_events.jsonl: key rotation anchor not found''
          else if lines = [] then Inr s'
          else Inr (s'\<lparr>st_memories := merge_runtime (st_memories s) (st_memories s')\<rparr>))))"

section \<open>Key rotation\<close>

definition unsigned_rotation :: "key_rotation \<Rightarrow> key_rotation" where
  "unsigned_rotation r = r\<lparr>kr_RotationHash := '''', kr_PreviousKeyHMAC := '''', kr_NewKeyHMAC := ''''\<rparr>"

definition keyRotationHash :: "env \<Rightarrow> key_rotation \<Rightarrow> go_string" where
  "keyRotationHash env r = sha_name (env_sha env) (rotation_json env (unsigned_rotation r))"

definition keyRotationHMAC :: "env \<Rightarrow> go_string \<Rightarrow> go_string \<Rightarrow> go_string" where
  "keyRotationHMAC env key h = ''hmac-sha256:'' @ hex_encode (env_hmac env key h)"

definition draft_rotation :: "env \<Rightarrow> store \<Rightarrow> go_string \<Rightarrow> go_string \<Rightarrow> time \<Rightarrow> key_rotation" where
  "draft_rotation env s newKey rid now =
     \<lparr>kr_Version = 1, kr_Sequence = st_keyRotationSeq s + 1, kr_RotationID = rid,
      kr_PreviousRotationHash = st_lastRotationHash s, kr_EventHeadHash = st_lastEventHash s,
      kr_PreviousKeyID = integrityKeyID env (st_integrityKey s), kr_NewKeyID = integrityKeyID env newKey,
      kr_RotationHash = '''', kr_PreviousKeyHMAC = '''', kr_NewKeyHMAC = '''', kr_CreatedAt = now\<rparr>"

definition sign_rotation :: "env \<Rightarrow> go_string \<Rightarrow> go_string \<Rightarrow> key_rotation \<Rightarrow> key_rotation" where
  "sign_rotation env oldKey newKey r =
     (let h = keyRotationHash env r in
      r\<lparr>kr_RotationHash := h, kr_PreviousKeyHMAC := keyRotationHMAC env oldKey h,
        kr_NewKeyHMAC := keyRotationHMAC env newKey h\<rparr>)"

definition RotateIntegrityKey ::
    "env \<Rightarrow> store \<Rightarrow> go_string \<Rightarrow> go_string \<Rightarrow> time \<Rightarrow> append_io \<Rightarrow> store \<times> key_rotation res" where
  "RotateIntegrityKey env s newKey rid now io =
     (if length (st_integrityKey s) < 32 \<or> length newKey < 32
      then (s, Inl ''both integrity keys must be at least 32 bytes'')
      else if st_integrityKey s = newKey then (s, Inl ''new integrity key must differ'')
      else
        (let r = sign_rotation env (st_integrityKey s) newKey (draft_rotation env s newKey rid now) in
         case append_file (st_rotationsFile s) (rotation_json env r @ [newline]) io of
           (file, False) \<Rightarrow> (s\<lparr>st_rotationsFile := file\<rparr>, Inl ''append failed'')
         | (file, True) \<Rightarrow>
             (s\<lparr>st_rotationsFile := file, st_integrityKey := newKey,
                st_integrityAnchorHash := kr_EventHeadHash r, st_keyRotationSeq := kr_Sequence r,
                st_lastRotationHash := kr_RotationHash r\<rparr>, Inr r)))"

text \<open>The loop of \<open>loadKeyRotations\<close>: sequence, previous hash and the last record read.\<close>

fun rotation_loop ::
    "env \<Rightarrow> int \<Rightarrow> go_string \<Rightarrow> key_rotation option \<Rightarrow> go_string list \<Rightarrow>
     (int \<times> go_string \<times> key_rotation option) res" where
  "rotation_loop env n previousHash latest [] = Inr (n, previousHash, latest)"
| "rotation_loop env n previousHash latest (line # lines) =
     (case rotation_unjson env line of
        None \<Rightarrow> Inl ''key_rotations.jsonl: invalid rotation''
      | Some r \<Rightarrow>
          if kr_Version r \<noteq> 1 \<or> kr_Sequence r \<noteq> n + 1 \<or> kr_PreviousRotationHash r \<noteq> previousHash \<or>
             keyRotationHash env r \<noteq> kr_RotationHash r
          then Inl ''key_rotations.jsonl: invalid rotation''
          else rotation_loop env (kr_Sequence r) (kr_RotationHash r) (Some r) lines)"

text \<open>An empty file stands for one that does not exist yet.\<close>

definition loadKeyRotations :: "env \<Rightarrow> store \<Rightarrow> store res" where
  "loadKeyRotations env s =
     (if st_rotationsFile s = [] then Inr s
      else if \<not> complete_file (st_rotationsFile s) then Inl ''key_rotations.jsonl: incomplete final record''
      else bindE (rotation_loop env (st_keyRotationSeq s) '''' None (json_lines (st_rotationsFile s)))
        (\<lambda>(n, previousHash, latest).
          let s' = s\<lparr>st_keyRotationSeq := n, st_lastRotationHash := previousHash\<rparr> in
          if n = 0 then Inr s'
          else case latest of
            None \<Rightarrow> Inl ''key_rotations.jsonl: current key does not verify latest rotation''
          | Some r \<Rightarrow>
              if length (st_integrityKey s) < 32 \<or> kr_NewKeyID r \<noteq> integrityKeyID env (st_integrityKey s) \<or>
                 kr_NewKeyHMAC r \<noteq> keyRotationHMAC env (st_integrityKey s) (kr_RotationHash r)
              then Inl ''key_rotations.jsonl: current key does not verify latest rotation''
              else Inr (s'\<lparr>st_integrityAnchorHash := kr_EventHeadHash r\<rparr>)))"

text \<open>The verification loop of \<open>SetIntegrityKey\<close> and of \<open>VerifyDataDir\<close>: the number of events, the
  head hash and whether the anchor was passed.\<close>

fun verify_loop ::
    "env \<Rightarrow> go_string \<Rightarrow> go_string \<Rightarrow> int \<Rightarrow> go_string \<Rightarrow> bool \<Rightarrow> go_string list \<Rightarrow>
     (int \<times> go_string \<times> bool) res" where
  "verify_loop env key anchor previousSeq previousHash anchorReached [] =
     Inr (previousSeq, previousHash, anchorReached)"
| "verify_loop env key anchor previousSeq previousHash anchorReached (line # lines) =
     (case event_unjson env line of
        None \<Rightarrow> Inl ''memory event decode''
      | Some e \<Rightarrow>
          if \<not> event_linked env previousSeq previousHash e then Inl ''memory event hash chain invalid''
          else if anchorReached \<and> \<not> event_signed env key e then Inl ''memory event signature invalid''
          else verify_loop env key anchor (me_EventSeq e) (me_EventHash e)
                 (anchorReached \<or> me_EventHash e = anchor) lines)"

text \<open>A failed call leaves Go's store half updated; the callers stop the process, so only the store of
  a successful call is modelled.\<close>

definition SetIntegrityKey :: "env \<Rightarrow> store \<Rightarrow> go_string \<Rightarrow> store res" where
  "SetIntegrityKey env s key =
     (if length key < 32 then Inl ''integrity key must be at least 32 bytes''
      else bindE (loadKeyRotations env
          (s\<lparr>st_integrityKey := key, st_keyRotationSeq := 0, st_lastRotationHash := '''',
             st_integrityAnchorHash := ''''\<rparr>)) (\<lambda>s'.
        if \<not> complete_file (st_eventsFile s')
        then Inl ''memory event journal has incomplete final record''
        else bindE (readJSONL (st_eventsFile s')) (\<lambda>lines.
          bindE (verify_loop env key (st_integrityAnchorHash s') 0 '''' (st_integrityAnchorHash s' = '''') lines)
            (\<lambda>(n, h, anchorReached).
              if \<not> anchorReached then Inl ''memory event key rotation anchor not found''
              else Inr (s'\<lparr>st_lastEventHash := h\<rparr>)))))"

section \<open>The journal's chain\<close>

abbreviation event_core :: "env \<Rightarrow> mutation_event \<Rightarrow> go_string" where
  "event_core env e \<equiv> event_json env (unsigned_event e)"

abbreviation event_chain :: "env \<Rightarrow> int \<Rightarrow> go_string \<Rightarrow> mutation_event list \<Rightarrow> bool" where
  "event_chain env n h es \<equiv>
     chain_ok (env_sha env) (event_core env) me_EventHash me_PreviousEventHash me_EventSeq n h es"

definition sane_event :: "env \<Rightarrow> mutation_event \<Rightarrow> bool" where
  "sane_event env e \<longleftrightarrow> event_unjson env (event_core env e) = Some (unsigned_event e)"

interpretation events: hash_chain "event_core env" me_EventHash me_PreviousEventHash me_EventSeq "sane_event env"
  for env
proof
  fix x y
  assume "sane_event env x" "sane_event env y" "event_core env x = event_core env y"
  then have "unsigned_event x = unsigned_event y" by (simp add: sane_event_def)
  then have "me_PreviousEventHash (unsigned_event x) = me_PreviousEventHash (unsigned_event y)" by simp
  then show "me_PreviousEventHash x = me_PreviousEventHash y" by (simp add: unsigned_event_def)
qed

text \<open>The fields an application does not touch.\<close>

lemma apply_frame [simp]:
  "st_integrityKey (applyMutationEvent s e) = st_integrityKey s"
  "st_integrityAnchorHash (applyMutationEvent s e) = st_integrityAnchorHash s"
  "st_mutationEventSeq (applyMutationEvent s e) = st_mutationEventSeq s"
  "st_lastEventHash (applyMutationEvent s e) = st_lastEventHash s"
  "st_eventsFile (applyMutationEvent s e) = st_eventsFile s"
  "st_rotationsFile (applyMutationEvent s e) = st_rotationsFile s"
  "st_keyRotationSeq (applyMutationEvent s e) = st_keyRotationSeq s"
  "st_lastRotationHash (applyMutationEvent s e) = st_lastRotationHash s"
  "st_lowRAM (applyMutationEvent s e) = st_lowRAM s"
  "st_Index (applyMutationEvent s e) = st_Index s"
  by (simp_all add: applyMutationEvent_def Let_def apply_proposal_def resolve_proposal_def
    split: option.split)

lemma apply_memories_of [simp]:
  "st_memories (applyMutationEvent s e) =
     (if st_lowRAM s then st_memories s else apply_memories e (st_memories s))"
  "st_evidence (applyMutationEvent s e) =
     (if st_lowRAM s then st_evidence s else apply_evidence e (st_evidence s))"
  "st_continuity (applyMutationEvent s e) = apply_continuity e (st_continuity s)"
  by (simp_all add: applyMutationEvent_def Let_def apply_proposal_def resolve_proposal_def
    split: option.split)

lemma replay_frame [simp]:
  "st_integrityKey (foldl replay_step s es) = st_integrityKey s"
  "st_integrityAnchorHash (foldl replay_step s es) = st_integrityAnchorHash s"
  "st_eventsFile (foldl replay_step s es) = st_eventsFile s"
  "st_lowRAM (foldl replay_step s es) = st_lowRAM s"
  by (induction es arbitrary: s) (simp_all add: replay_step_def)

lemma replay_head:
  "st_lastEventHash (foldl replay_step s es) = chain_head me_EventHash (st_lastEventHash s) es"
  by (induction es arbitrary: s) (simp_all add: replay_step_def chain_head_Cons)

lemma replay_memories:
  "\<not> st_lowRAM s \<Longrightarrow>
     st_memories (foldl replay_step s es) = foldl (\<lambda>ms e. apply_memories e ms) (st_memories s) es"
  by (induction es arbitrary: s) (simp_all add: replay_step_def)

lemma event_linked_iff:
  "event_linked env n h e \<longleftrightarrow>
     (me_EventVersion e = 2 \<or> me_EventVersion e = 3) \<and> me_EventSeq e = n + 1 \<and>
     me_PreviousEventHash e = h \<and> me_EventHash e = sha_name (env_sha env) (event_core env e)"
  by (auto simp: event_linked_def mutationEventHash_def)

text \<open>A successful load decoded every line, verified the chain and replayed it.\<close>

lemma load_loop_replays:
  "load_loop env n h a s lines = Inr (a', s') \<Longrightarrow>
     \<exists>es. map (event_unjson env) lines = map Some es \<and> event_chain env n h es \<and>
          s' = foldl replay_step s es"
proof (induction env n h a s lines rule: load_loop.induct)
  case (2 env previous previousHash anchorReached s line lines)
  from 2 obtain e where e: "event_unjson env line = Some e" "event_linked env previous previousHash e"
    by (auto split: option.splits if_splits)
  from 2 e obtain es where "map (event_unjson env) lines = map Some es"
      "event_chain env (me_EventSeq e) (me_EventHash e) es"
      "s' = foldl replay_step (replay_step s e) es"
    by (auto split: if_splits)
  then show ?case using e
    by (intro exI [of _ "e # es"]) (auto simp: event_linked_iff)
qed auto

section \<open>A journal that verifies\<close>

text \<open>The signature rule of loading, as a property of the list of events: from the anchor on, every event
  is signed by the current key.\<close>

fun signed_after :: "env \<Rightarrow> go_string \<Rightarrow> go_string \<Rightarrow> bool \<Rightarrow> mutation_event list \<Rightarrow> bool" where
  "signed_after env key anchor reached [] = True"
| "signed_after env key anchor reached (e # es) \<longleftrightarrow>
     (reached \<longrightarrow> event_signed env key e) \<and>
     signed_after env key anchor (reached \<or> me_EventHash e = anchor) es"

lemma signed_after_snoc:
  "signed_after env key anchor reached (es @ [e]) \<longleftrightarrow>
     signed_after env key anchor reached es \<and>
     (reached \<or> anchor \<in> me_EventHash ` set es \<longrightarrow> event_signed env key e)"
  by (induction es arbitrary: reached) auto

lemma signed_after_fresh:
  "anchor \<notin> me_EventHash ` set es \<Longrightarrow> signed_after env key anchor False es"
  by (induction es) auto

definition codec_ok :: "env \<Rightarrow> mutation_event list \<Rightarrow> bool" where
  "codec_ok env es \<longleftrightarrow>
     (\<forall>e \<in> set es. clean_line (event_json env e) \<and> event_unjson env (event_json env e) = Some e)"

lemma load_loop_succeeds:
  assumes "event_chain env n h es" "list_all (\<lambda>e. me_EventVersion e = 2 \<or> me_EventVersion e = 3) es"
    and "\<forall>e \<in> set es. event_unjson env (event_json env e) = Some e"
    and "signed_after env (st_integrityKey s) (st_integrityAnchorHash s) a es"
  shows "load_loop env n h a s (map (event_json env) es) =
    Inr (a \<or> st_integrityAnchorHash s \<in> me_EventHash ` set es, foldl replay_step s es)"
  using assms
proof (induction es arbitrary: n h a s)
  case (Cons e es)
  have link: "event_linked env n h e" using Cons.prems(1,2) by (auto simp: event_linked_iff)
  have frame: "st_integrityKey (replay_step s e) = st_integrityKey s"
      "st_integrityAnchorHash (replay_step s e) = st_integrityAnchorHash s"
    using replay_frame(1,2) [of s "[e]"] by simp_all
  have tail: "event_chain env (me_EventSeq e) (me_EventHash e) es"
    using Cons.prems(1) by (metis chain_ok.simps(2))
  have "load_loop env (me_EventSeq e) (me_EventHash e) (a \<or> me_EventHash e = st_integrityAnchorHash s)
      (replay_step s e) (map (event_json env) es) =
      Inr ((a \<or> me_EventHash e = st_integrityAnchorHash s) \<or>
        st_integrityAnchorHash s \<in> me_EventHash ` set es, foldl replay_step (replay_step s e) es)"
    using Cons.IH [OF tail, of "replay_step s e"] Cons.prems(2-4) by (simp add: frame)
  then show ?case using link Cons.prems(3,4) by auto
qed simp

text \<open>The invariant between the state and the journal on disk, with the events \<open>es\<close> it holds.  The
  signature part assumes that no two events of the journal have the same digest.\<close>

definition journal_inv :: "env \<Rightarrow> store \<Rightarrow> mutation_event list \<Rightarrow> bool" where
  "journal_inv env s es \<longleftrightarrow>
     st_eventsFile s = write_lines (map (event_json env) es) \<and>
     event_chain env 0 '''' es \<and>
     list_all (\<lambda>e. me_EventVersion e = 2 \<or> me_EventVersion e = 3) es \<and>
     st_mutationEventSeq s = int (length es) \<and>
     st_lastEventHash s = chain_head me_EventHash '''' es \<and>
     (st_integrityAnchorHash s = '''' \<or> st_integrityAnchorHash s \<in> me_EventHash ` set es) \<and>
     (distinct (map me_EventHash es) \<longrightarrow>
        signed_after env (st_integrityKey s) (st_integrityAnchorHash s) (st_integrityAnchorHash s = '''') es)"

lemma journal_inv_empty: "journal_inv env (empty_store key) []"
  by (simp add: journal_inv_def empty_store_def)

text \<open>What a successful commit did.\<close>

lemma CommitMutation_success:
  assumes "CommitMutation env s c now eid cid io flush = (s', Inr r)"
  obtains committed newm e ix where
    "io = Appended" "32 \<le> length (st_integrityKey s)"
    "commit_proposal s c = Inr committed" "commit_new_memory s c now = Inr newm"
    "commit_target s c = Inr ()"
    "e = sign_event env (st_integrityKey s) (draft_event s c committed newm now eid cid)"
    "s' = (applyMutationEvent
            (s\<lparr>st_eventsFile := st_eventsFile s @ event_json env e @ [newline],
               st_mutationEventSeq := st_mutationEventSeq s + 1, st_lastEventHash := me_EventHash e\<rparr>) e)
          \<lparr>st_Index := ix\<rparr>"
    "r = \<lparr>mr_MemoryID = memoryIDForEvent e, mr_Revision = commit_revision s, mr_EventID = eid,
          mr_ProjectionError = flush\<rparr>"
proof -
  from assms obtain committed newm where
    1: "32 \<le> length (st_integrityKey s)" "commit_proposal s c = Inr committed"
      "commit_new_memory s c now = Inr newm" "commit_target s c = Inr ()"
    by (auto simp: CommitMutation_def split: if_splits sum.splits)
  define e where "e = sign_event env (st_integrityKey s) (draft_event s c committed newm now eid cid)"
  have io: "io = Appended"
    using assms 1 by (auto simp: CommitMutation_def appendMutationEvent_def append_file_def Let_def
      split: append_io.splits)
  define a where "a = applyMutationEvent
      (s\<lparr>st_eventsFile := st_eventsFile s @ event_json env e @ [newline],
         st_mutationEventSeq := st_mutationEventSeq s + 1, st_lastEventHash := me_EventHash e\<rparr>) e"
  have res: "(case refreshMutationProjections env a e flush of (s'', perr) \<Rightarrow>
        (s'', Inr \<lparr>mr_MemoryID = memoryIDForEvent e, mr_Revision = commit_revision s, mr_EventID = eid,
          mr_ProjectionError = perr\<rparr>)) = (s', Inr r :: commit_result res)"
    using assms 1 io by (simp add: CommitMutation_def appendMutationEvent_def append_file_def Let_def e_def a_def)
  obtain ix where "s' = a\<lparr>st_Index := ix\<rparr>" and "r = \<lparr>mr_MemoryID = memoryIDForEvent e,
      mr_Revision = commit_revision s, mr_EventID = eid, mr_ProjectionError = flush\<rparr>"
  proof (cases flush)
    case None
    then show ?thesis using res that [of "refresh_index env a e"]
      by (simp add: refreshMutationProjections_def)
  next
    case (Some err)
    then show ?thesis using res that [of "st_Index a"] by (simp add: refreshMutationProjections_def)
  qed
  then show ?thesis using that [OF io 1 e_def] by (simp add: a_def)
qed

lemma sign_event_fields [simp]:
  "me_EventHash (sign_event env key e) = mutationEventHash env e"
  "me_EventSeq (sign_event env key e) = me_EventSeq e"
  "me_PreviousEventHash (sign_event env key e) = me_PreviousEventHash e"
  "me_EventVersion (sign_event env key e) = me_EventVersion e"
  "unsigned_event (sign_event env key e) = unsigned_event e"
  "me_NewMemory (sign_event env key e) = me_NewMemory e"
  "me_UpdatedMemory (sign_event env key e) = me_UpdatedMemory e"
  "me_TargetMemoryID (sign_event env key e) = me_TargetMemoryID e"
  "me_TargetLifecycle (sign_event env key e) = me_TargetLifecycle e"
  "me_Continuity (sign_event env key e) = me_Continuity e"
  "me_Proposal (sign_event env key e) = me_Proposal e"
  "me_ProposalID (sign_event env key e) = me_ProposalID e"
  by (simp_all add: sign_event_def unsigned_event_def Let_def)

lemma sign_event_signed: "event_signed env key (sign_event env key e)"
  by (simp add: event_signed_def sign_event_def Let_def)

lemma draft_event_fields [simp]:
  "me_EventVersion (draft_event s c committed newm now eid cid) = 3"
  "me_EventSeq (draft_event s c committed newm now eid cid) = st_mutationEventSeq s + 1"
  "me_PreviousEventHash (draft_event s c committed newm now eid cid) = st_lastEventHash s"
  "me_NewMemory (draft_event s c committed newm now eid cid) = newm"
  "me_UpdatedMemory (draft_event s c committed newm now eid cid) = mc_UpdatedMemory c"
  "me_TargetMemoryID (draft_event s c committed newm now eid cid) = mc_TargetMemoryID c"
  "me_TargetLifecycle (draft_event s c committed newm now eid cid) = mc_TargetLifecycle c"
  "me_Proposal (draft_event s c committed newm now eid cid) = committed"
  "me_ProposalID (draft_event s c committed newm now eid cid) = mc_ProposalID c"
  by (simp_all add: draft_event_def)

text \<open>The event a successful commit writes.\<close>

definition commit_event ::
    "env \<Rightarrow> store \<Rightarrow> mutation_commit \<Rightarrow> time \<Rightarrow> go_string \<Rightarrow> go_string \<Rightarrow> mutation_event" where
  "commit_event env s c now eid cid =
     sign_event env (st_integrityKey s)
       (draft_event s c (projr (commit_proposal s c)) (projr (commit_new_memory s c now)) now eid cid)"

lemma journal_inv_commit:
  assumes "journal_inv env s es" "CommitMutation env s c now eid cid io flush = (s', Inr r)"
  shows "journal_inv env s' (es @ [commit_event env s c now eid cid])"
proof -
  from CommitMutation_success [OF assms(2)] obtain committed newm e ix where
    "commit_proposal s c = Inr committed" "commit_new_memory s c now = Inr newm"
    and e: "e = sign_event env (st_integrityKey s) (draft_event s c committed newm now eid cid)"
    and s': "s' = (applyMutationEvent
        (s\<lparr>st_eventsFile := st_eventsFile s @ event_json env e @ [newline],
           st_mutationEventSeq := st_mutationEventSeq s + 1, st_lastEventHash := me_EventHash e\<rparr>) e)
      \<lparr>st_Index := ix\<rparr>"
    by metis
  then have "commit_event env s c now eid cid = e" by (simp add: commit_event_def)
  have inv: "st_eventsFile s = write_lines (map (event_json env) es)" "event_chain env 0 '''' es"
      "st_mutationEventSeq s = int (length es)" "st_lastEventHash s = chain_head me_EventHash '''' es"
    using assms(1) by (simp_all add: journal_inv_def)
  have "event_chain env 0 '''' (es @ [e])"
    unfolding chain_ok_snoc using inv by (simp add: e mutationEventHash_def)
  moreover have "st_eventsFile s' = write_lines (map (event_json env) (es @ [e]))"
    using inv by (simp add: s' write_lines_snoc)
  moreover have "event_signed env (st_integrityKey s) e" by (simp add: e sign_event_signed)
  ultimately have "journal_inv env s' (es @ [e])"
    using assms(1) inv by (auto simp: journal_inv_def s' signed_after_snoc e)
  then show ?thesis by (simp add: \<open>commit_event env s c now eid cid = e\<close>)
qed

lemma journal_inv_rotate:
  assumes "journal_inv env s es" "RotateIntegrityKey env s newKey rid now io = (s', Inr r)"
  shows "journal_inv env s' es"
proof -
  have s': "s' = s\<lparr>st_rotationsFile := st_rotationsFile s', st_integrityKey := newKey,
      st_integrityAnchorHash := st_lastEventHash s, st_keyRotationSeq := st_keyRotationSeq s',
      st_lastRotationHash := st_lastRotationHash s'\<rparr>"
    using assms(2) by (auto simp: RotateIntegrityKey_def append_file_def sign_rotation_def
      draft_rotation_def Let_def split: if_splits append_io.splits)
  have key: "st_integrityKey s' = newKey" and anchor: "st_integrityAnchorHash s' = st_lastEventHash s"
    and rest: "st_eventsFile s' = st_eventsFile s" "st_mutationEventSeq s' = st_mutationEventSeq s"
      "st_lastEventHash s' = st_lastEventHash s"
    by (subst s', simp)+
  show ?thesis
  proof (cases es rule: rev_cases)
    case Nil
    then show ?thesis using assms(1) by (simp add: journal_inv_def key anchor rest)
  next
    case (snoc fs f)
    have "me_EventHash f \<noteq> ''''"
      using assms(1) snoc by (auto simp: journal_inv_def chain_ok_snoc)
    moreover have "signed_after env newKey (me_EventHash f) False es" if "distinct (map me_EventHash es)"
      using that snoc by (auto simp: signed_after_snoc intro!: signed_after_fresh)
    ultimately show ?thesis using assms(1) snoc by (auto simp: journal_inv_def key anchor rest)
  qed
qed

end
