(* ===== verification/Store_Machine.thy ===== *)
theory Store_Machine
  imports Event_Journal
begin

text \<open>
  The store as a state machine: what a memory row keeps across accesses, feedback and restarts, and the
  runs of the store's operations.  The governed part of a row is everything but the six runtime
  counters of \<open>mergeRuntimeMemoryState\<close>; the journal determines it, the operations at run time never
  change it, and a commit changes it for an active row only.
\<close>

section \<open>Governed rows\<close>

definition governed :: "memory_row \<Rightarrow> memory_row" where
  "governed row =
     row\<lparr>mm_AccessCount := 0, mm_LastAccessedAt := None, mm_Activation := 0, mm_Confidence := 0,
         mm_Disputed := False, mm_LastUsedSeq := 0\<rparr>"

definition ids_ok :: "(go_string \<rightharpoonup> memory_row) \<Rightarrow> bool" where
  "ids_ok ms \<longleftrightarrow> (\<forall>mid row. ms mid = Some row \<longrightarrow> mm_MemoryID row = mid)"

abbreviation replay_map :: "(go_string \<rightharpoonup> memory_row) \<Rightarrow> mutation_event list \<Rightarrow> (go_string \<rightharpoonup> memory_row)" where
  "replay_map proj es \<equiv> foldl (\<lambda>ms e. apply_memories e ms) proj es"

abbreviation governed_map :: "(go_string \<rightharpoonup> memory_row) \<Rightarrow> go_string \<Rightarrow> memory_row option" where
  "governed_map ms mid \<equiv> map_option governed (ms mid)"

lemma governed_sel [simp]:
  "mm_MemoryID (governed r) = mm_MemoryID r"
  "mm_Lifecycle (governed r) = mm_Lifecycle r"
  "mm_StateVersion (governed r) = mm_StateVersion r"
  "mm_ContentHash (governed r) = mm_ContentHash r"
  "mm_UpdatedAt (governed r) = mm_UpdatedAt r"
  by (simp_all add: governed_def)

lemma governed_eqD:
  "governed a = governed b \<Longrightarrow> mm_MemoryID a = mm_MemoryID b \<and> mm_Lifecycle a = mm_Lifecycle b \<and>
     mm_StateVersion a = mm_StateVersion b \<and> mm_ContentHash a = mm_ContentHash b \<and>
     mm_UpdatedAt a = mm_UpdatedAt b"
  by (metis governed_sel)

lemma governed_runtime [simp]:
  "governed (r\<lparr>mm_AccessCount := n\<rparr>) = governed r"
  "governed (r\<lparr>mm_LastAccessedAt := t\<rparr>) = governed r"
  "governed (r\<lparr>mm_Activation := x\<rparr>) = governed r"
  "governed (r\<lparr>mm_Confidence := x\<rparr>) = governed r"
  "governed (r\<lparr>mm_Disputed := b\<rparr>) = governed r"
  "governed (r\<lparr>mm_LastUsedSeq := n\<rparr>) = governed r"
  by (simp_all add: governed_def)

lemma governed_retarget: "governed (retarget e r) = retarget e (governed r)"
  by (simp add: governed_def retarget_def)

lemma governed_merge [simp]: "governed (mergeRuntimeMemoryState a p) = governed a"
  by (simp add: governed_def mergeRuntimeMemoryState_def)

lemma merge_governed_eq: "governed a = governed p \<Longrightarrow> mergeRuntimeMemoryState a p = p"
  by (cases a; cases p) (simp add: governed_def mergeRuntimeMemoryState_def)

lemma governed_merge_runtime [simp]: "governed_map (merge_runtime proj ms) mid = governed_map ms mid"
  by (simp add: merge_runtime_def split: option.split)

lemma ids_okD: "ids_ok ms \<Longrightarrow> ms mid = Some row \<Longrightarrow> mm_MemoryID row = mid"
  by (simp add: ids_ok_def)

lemma ids_ok_upd: "ids_ok ms \<Longrightarrow> ids_ok (ms(mm_MemoryID row \<mapsto> row))"
  by (simp add: ids_ok_def)

lemma retarget_id [simp]: "mm_MemoryID (retarget e r) = mm_MemoryID r"
  by (simp add: retarget_def)

lemma ids_ok_retarget:
  assumes "ids_ok ms"
  shows "ids_ok (ms(mm_MemoryID row \<mapsto> retarget e row))"
  using ids_ok_upd [OF assms, of "retarget e row"] by simp

text \<open>The map once the new and the revised row are written, before the lifecycle of the target changes.\<close>

definition written :: "mutation_event \<Rightarrow> (go_string \<rightharpoonup> memory_row) \<Rightarrow> (go_string \<rightharpoonup> memory_row)" where
  "written e ms =
     (let ms = (case me_NewMemory e of Some m \<Rightarrow> ms(mm_MemoryID m \<mapsto> m) | None \<Rightarrow> ms) in
      case me_UpdatedMemory e of Some m \<Rightarrow> ms(mm_MemoryID m \<mapsto> m) | None \<Rightarrow> ms)"

lemma apply_memories_written:
  "apply_memories e ms =
     (if me_TargetMemoryID e \<noteq> '''' \<and> me_TargetLifecycle e \<noteq> '''' then
        (case written e ms (me_TargetMemoryID e) of
           Some row \<Rightarrow> (written e ms)(mm_MemoryID row \<mapsto> retarget e row) | None \<Rightarrow> written e ms)
      else written e ms)"
  by (simp only: apply_memories_def written_def Let_def)

lemma ids_ok_written: "ids_ok ms \<Longrightarrow> ids_ok (written e ms)"
  by (auto simp: written_def Let_def intro: ids_ok_upd split: option.split)

lemma ids_ok_apply_memories: "ids_ok ms \<Longrightarrow> ids_ok (apply_memories e ms)"
  by (auto simp: apply_memories_written intro: ids_ok_written ids_ok_retarget split: option.split)

lemma ids_ok_replay: "ids_ok ms \<Longrightarrow> ids_ok (replay_map ms es)"
  by (induction es arbitrary: ms) (auto intro: ids_ok_apply_memories)

section \<open>An event and the rows it may touch\<close>

definition touched :: "mutation_event \<Rightarrow> go_string set" where
  "touched e =
     (case me_NewMemory e of Some m \<Rightarrow> {mm_MemoryID m} | None \<Rightarrow> {}) \<union>
     (case me_UpdatedMemory e of Some m \<Rightarrow> {mm_MemoryID m} | None \<Rightarrow> {}) \<union>
     (if me_TargetMemoryID e \<noteq> '''' \<and> me_TargetLifecycle e \<noteq> '''' then {me_TargetMemoryID e} else {})"

text \<open>Applying an event, row by row.\<close>

definition row_after :: "mutation_event \<Rightarrow> go_string \<Rightarrow> memory_row option \<Rightarrow> memory_row option" where
  "row_after e mid r =
     (let r = (case me_NewMemory e of Some m \<Rightarrow> if mm_MemoryID m = mid then Some m else r | None \<Rightarrow> r);
          r = (case me_UpdatedMemory e of Some m \<Rightarrow> if mm_MemoryID m = mid then Some m else r | None \<Rightarrow> r) in
      if me_TargetMemoryID e = mid \<and> mid \<noteq> '''' \<and> me_TargetLifecycle e \<noteq> ''''
      then map_option (retarget e) r else r)"

lemma apply_memories_row:
  assumes "ids_ok ms"
  shows "apply_memories e ms mid = row_after e mid (ms mid)"
proof -
  have "written e ms mid =
      (case me_UpdatedMemory e of Some m \<Rightarrow> if mm_MemoryID m = mid then Some m else
         (case me_NewMemory e of Some m \<Rightarrow> if mm_MemoryID m = mid then Some m else ms mid | None \<Rightarrow> ms mid)
       | None \<Rightarrow>
         (case me_NewMemory e of Some m \<Rightarrow> if mm_MemoryID m = mid then Some m else ms mid | None \<Rightarrow> ms mid))"
    by (auto simp: written_def Let_def split: option.split)
  moreover have "apply_memories e ms mid =
      (if me_TargetMemoryID e = mid \<and> mid \<noteq> '''' \<and> me_TargetLifecycle e \<noteq> ''''
       then map_option (retarget e) (written e ms mid) else written e ms mid)"
    using ids_okD [OF ids_ok_written [OF assms], of e "me_TargetMemoryID e"]
    by (auto simp: apply_memories_written split: option.split)
  ultimately show ?thesis by (simp only: row_after_def Let_def)
qed

lemma row_after_untouched: "mid \<notin> touched e \<Longrightarrow> row_after e mid r = r"
  by (auto simp: row_after_def touched_def Let_def split: option.splits if_splits)

lemma governed_row_after:
  "map_option governed r = map_option governed r' \<Longrightarrow>
     map_option governed (row_after e mid r) = map_option governed (row_after e mid r')"
  by (cases r; cases r') (auto simp: row_after_def Let_def governed_retarget split: option.split)


section \<open>Steps\<close>

text \<open>One operation of the store, labelled with the events it wrote.  A failed append is a step only
  when it left nothing in the file; what remains of a longer one makes the journal unreadable.\<close>

inductive store_step :: "env \<Rightarrow> store \<Rightarrow> mutation_event list \<Rightarrow> store \<Rightarrow> bool" for env where
  step_commit:
    "CommitMutation env s c now eid cid Appended flush = (s', Inr r) \<Longrightarrow>
       store_step env s [commit_event env s c now eid cid] s'"
| step_commit_failed:
    "CommitMutation env s c now eid cid io flush = (s', Inl err) \<Longrightarrow> io = Appended \<or> io = Append_Failed 0 \<Longrightarrow>
       store_step env s [] s'"
| step_rotate:
    "RotateIntegrityKey env s newKey rid now Appended = (s', Inr k) \<Longrightarrow> store_step env s [] s'"
| step_stage: "store_step env s [] (StageProposal s p reason now)"
| step_reject: "RejectProposal s pid reason now = Inr s' \<Longrightarrow> store_step env s [] s'"
| step_session:
    "UpsertSession s client ext title project activity now fresh = (s', r) \<Longrightarrow> store_step env s [] s'"
| step_continuity:
    "AppendContinuity s kind tkind tid rid project sens trace fresh now = (s', n) \<Longrightarrow> store_step env s [] s'"
| step_access: "RecordAccess (env_sha env) s mid sid kind now = Inr s' \<Longrightarrow> store_step env s [] s'"
| step_feedback: "ApplyFeedback (env_sha env) s mid sid outcome now = Inr s' \<Longrightarrow> store_step env s [] s'"
| step_flush: "store_step env s [] (flushAccessBumps (env_sha env) s mids)"

inductive_cases store_step_commitE [consumes 1, case_names commit]: "store_step env s [e] s'"
inductive_cases store_step_quietE
  [consumes 1, case_names failed rotate stage reject session continuity access feedback flush]: "store_step env s [] s'"

inductive store_run :: "env \<Rightarrow> store \<Rightarrow> mutation_event list \<Rightarrow> store \<Rightarrow> bool" for env where
  run_refl: "store_run env s [] s"
| run_step: "store_run env s es s' \<Longrightarrow> store_step env s' ws s'' \<Longrightarrow> store_run env s (es @ ws) s''"

text \<open>What the operations other than a commit leave alone.\<close>

definition journal_frame :: "store \<Rightarrow> store \<Rightarrow> bool" where
  "journal_frame s s' \<longleftrightarrow>
     st_eventsFile s' = st_eventsFile s \<and> st_mutationEventSeq s' = st_mutationEventSeq s \<and>
     st_lastEventHash s' = st_lastEventHash s \<and> st_integrityAnchorHash s' = st_integrityAnchorHash s \<and>
     st_integrityKey s' = st_integrityKey s"

definition memory_frame :: "store \<Rightarrow> store \<Rightarrow> bool" where
  "memory_frame s s' \<longleftrightarrow>
     st_lowRAM s' = st_lowRAM s \<and>
     (ids_ok (st_memories s) \<longrightarrow> ids_ok (st_memories s')) \<and>
     (ids_ok (st_memories s) \<longrightarrow> \<not> st_lowRAM s \<longrightarrow>
        (\<forall>mid. governed_map (st_memories s') mid = governed_map (st_memories s) mid))"

lemma journal_frame_inv: "journal_frame s s' \<Longrightarrow> journal_inv env s es \<Longrightarrow> journal_inv env s' es"
  by (simp add: journal_frame_def journal_inv_def)

lemma frame_refl [simp]: "journal_frame s s" "memory_frame s s"
  by (simp_all add: journal_frame_def memory_frame_def)

lemma memory_frame_same:
  "st_memories s' = st_memories s \<Longrightarrow> st_lowRAM s' = st_lowRAM s \<Longrightarrow> memory_frame s s'"
  by (simp add: memory_frame_def)

lemma memory_frame_trans: "memory_frame s s' \<Longrightarrow> memory_frame s' s'' \<Longrightarrow> memory_frame s s''"
  by (auto simp: memory_frame_def)

lemma put_memory_sel [simp]:
  "st_lowRAM (put_memory s r mid) = st_lowRAM s"
  "st_Index (put_memory s r mid) = st_Index s"
  "st_continuity (put_memory s r mid) = st_continuity s"
  "st_accessBumps (put_memory s r mid) = st_accessBumps s"
  "st_memories (put_memory s r mid) = (if st_lowRAM s then st_memories s else (st_memories s)(mid \<mapsto> r))"
  by (simp_all add: put_memory_def)

lemma put_memory_frame:
  assumes "memoryRowLocked s mid = Some row" "governed row' = governed row"
  shows "journal_frame s (put_memory s row' mid)" "memory_frame s (put_memory s row' mid)"
proof -
  show "journal_frame s (put_memory s row' mid)" by (simp add: journal_frame_def put_memory_def)
  have "mm_MemoryID row' = mm_MemoryID row" using governed_eqD [OF assms(2)] by simp
  moreover have "st_memories s mid = Some row" if "\<not> st_lowRAM s"
    using that assms(1) by (simp add: memoryRowLocked_def)
  ultimately show "memory_frame s (put_memory s row' mid)"
    using assms(2) by (auto simp: memory_frame_def ids_ok_def)
qed

lemma frame_other [simp]:
  "journal_frame s (s'\<lparr>st_Index := ix\<rparr>) = journal_frame s s'"
  "journal_frame s (s'\<lparr>st_accessBumps := b\<rparr>) = journal_frame s s'"
  "memory_frame s (s'\<lparr>st_Index := ix\<rparr>) = memory_frame s s'"
  "memory_frame s (s'\<lparr>st_accessBumps := b\<rparr>) = memory_frame s s'"
  by (simp_all add: journal_frame_def memory_frame_def)

lemma governed_use_memory [simp]: "governed (use_memory s sid row) = governed row"
  by (simp add: use_memory_def split: option.split)

lemma governed_feedback_row [simp]: "governed (feedback_row s sid outcome now row) = governed row"
  by (simp add: feedback_row_def Let_def)

lemma RecordAccess_frame:
  "RecordAccess sha s mid sid kind now = Inr s' \<Longrightarrow> journal_frame s s' \<and> memory_frame s s'"
  by (auto simp: RecordAccess_def Let_def intro!: put_memory_frame split: option.splits)

lemma ApplyFeedback_frame:
  "ApplyFeedback sha s mid sid outcome now = Inr s' \<Longrightarrow> journal_frame s s' \<and> memory_frame s s'"
  by (auto simp: ApplyFeedback_def Let_def intro!: put_memory_frame split: option.splits)

lemma flush_bump_frame: "journal_frame s (flush_bump sha s mid) \<and> memory_frame s (flush_bump sha s mid)"
  by (auto simp: flush_bump_def Let_def intro!: put_memory_frame split: option.split)

lemma journal_frame_trans: "journal_frame s s' \<Longrightarrow> journal_frame s' s'' \<Longrightarrow> journal_frame s s''"
  by (simp add: journal_frame_def)

lemma flush_bumps_frame:
  "journal_frame s (foldl (flush_bump sha) s mids) \<and> memory_frame s (foldl (flush_bump sha) s mids)"
proof (induction mids rule: rev_induct)
  case (snoc m ms)
  then show ?case
    using flush_bump_frame [of "foldl (flush_bump sha) s ms" sha m] journal_frame_trans memory_frame_trans
    by simp blast
qed simp

lemma flushAccessBumps_frame:
  "journal_frame s (flushAccessBumps sha s mids) \<and> memory_frame s (flushAccessBumps sha s mids)"
  using flush_bumps_frame [of s sha mids] by (simp add: flushAccessBumps_def)

lemma UpsertSession_frame:
  "UpsertSession s client ext title project activity now fresh = (s', r) \<Longrightarrow>
     journal_frame s s' \<and> memory_frame s s' \<and> st_continuity s' = st_continuity s"
  by (auto simp: UpsertSession_def Let_def journal_frame_def intro: memory_frame_same
    split: option.splits if_split_asm)

lemma AppendContinuity_frame:
  "AppendContinuity s kind tkind tid rid project sens trace fresh now = (s', n) \<Longrightarrow>
     journal_frame s s' \<and> memory_frame s s'"
  by (auto simp: AppendContinuity_def Let_def journal_frame_def intro: memory_frame_same)

lemma RejectProposal_frame:
  "RejectProposal s pid reason now = Inr s' \<Longrightarrow>
     journal_frame s s' \<and> memory_frame s s' \<and> st_continuity s' = st_continuity s"
  by (auto simp: RejectProposal_def journal_frame_def intro: memory_frame_same split: option.splits)

lemma StageProposal_frame:
  "journal_frame s (StageProposal s p reason now) \<and> memory_frame s (StageProposal s p reason now) \<and>
     st_continuity (StageProposal s p reason now) = st_continuity s"
  by (simp add: StageProposal_def Let_def journal_frame_def memory_frame_same)

text \<open>A refused commit changes nothing; one whose append failed leaves only the bytes in the file.\<close>

lemma CommitMutation_failed:
  assumes "CommitMutation env s c now eid cid io flush = (s', Inl err)"
  shows "s' = s \<or> (\<exists>n tail. io = Append_Failed n \<and> length tail \<le> n \<and>
    s' = s\<lparr>st_eventsFile := st_eventsFile s @ tail\<rparr>)"
proof (cases io)
  case Appended
  then show ?thesis using assms
    by (auto simp: CommitMutation_def appendMutationEvent_def append_file_def Let_def
      split: if_split_asm sum.splits prod.splits)
next
  case (Append_Failed n)
  have tail: "\<exists>tail. length tail \<le> n \<and> s\<lparr>st_eventsFile := st_eventsFile s @ take n line\<rparr> =
      s\<lparr>st_eventsFile := st_eventsFile s @ tail\<rparr>" for line
    by (rule exI [of _ "take n line"]) simp
  show ?thesis using assms Append_Failed tail
    by (auto simp: CommitMutation_def appendMutationEvent_def append_file_def Let_def simp del: take_append
      split: if_split_asm sum.splits)
qed

lemma CommitMutation_failed_clean:
  "CommitMutation env s c now eid cid io flush = (s', Inl err) \<Longrightarrow> io = Appended \<or> io = Append_Failed 0 \<Longrightarrow>
     s' = s"
  by (drule CommitMutation_failed) auto

lemma RotateIntegrityKey_sel:
  assumes "RotateIntegrityKey env s newKey rid now io = (s', Inr k)"
  shows "st_memories s' = st_memories s \<and> st_lowRAM s' = st_lowRAM s \<and> st_continuity s' = st_continuity s"
  using assms by (auto simp: RotateIntegrityKey_def append_file_def Let_def split: if_splits append_io.splits)

section \<open>The invariant of the memory map\<close>

text \<open>However stale the projection the replay starts from, the journal determines the governed part of
  every memory of the store, and touches no other.\<close>

definition memory_inv :: "store \<Rightarrow> mutation_event list \<Rightarrow> bool" where
  "memory_inv s es \<longleftrightarrow>
     \<not> st_lowRAM s \<and> ids_ok (st_memories s) \<and>
     (\<forall>proj mid. ids_ok proj \<longrightarrow>
        governed_map (replay_map proj es) mid =
          (if mid \<in> dom (st_memories s) then governed_map (st_memories s) mid else governed_map proj mid))"

lemma memory_inv_empty: "memory_inv (empty_store key) []"
  by (simp add: memory_inv_def empty_store_def ids_ok_def)

lemma memory_frame_inv: "memory_frame s s' \<Longrightarrow> memory_inv s es \<Longrightarrow> memory_inv s' es"
proof -
  assume f: "memory_frame s s'" and i: "memory_inv s es"
  then have g: "governed_map (st_memories s') mid = governed_map (st_memories s) mid" for mid
    by (simp add: memory_frame_def memory_inv_def)
  have "mid \<in> dom (st_memories s') \<longleftrightarrow> mid \<in> dom (st_memories s)" for mid
    by (metis domIff g option.map_disc_iff)
  then show ?thesis using f i g by (simp add: memory_frame_def memory_inv_def)
qed

text \<open>What the checks of a commit guarantee of the event it writes.\<close>

lemma commit_event_fields:
  "me_UpdatedMemory (commit_event env s c now eid cid) = mc_UpdatedMemory c"
  "me_TargetMemoryID (commit_event env s c now eid cid) = mc_TargetMemoryID c"
  "me_NewMemory (commit_event env s c now eid cid) = projr (commit_new_memory s c now)"
  "cr_RevisionNumber (me_Continuity (commit_event env s c now eid cid)) = commit_revision s"
  "me_ProposalID (commit_event env s c now eid cid) = mc_ProposalID c"
  by (simp_all add: commit_event_def) (simp add: draft_event_def)

lemma new_memory_defaults_id [simp]: "mm_MemoryID (new_memory_defaults now m) = mm_MemoryID m"
  by (simp add: new_memory_defaults_def Let_def)

lemma commit_store:
  assumes "CommitMutation env s c now eid cid io flush = (s', Inr r)"
  shows "st_memories s' = (if st_lowRAM s then st_memories s
       else apply_memories (commit_event env s c now eid cid) (st_memories s))"
    and "st_lowRAM s' = st_lowRAM s"
    and "st_continuity s' = apply_continuity (commit_event env s c now eid cid) (st_continuity s)"
proof -
  from CommitMutation_success [OF assms] obtain committed newm e ix where
    "commit_proposal s c = Inr committed" "commit_new_memory s c now = Inr newm"
    and e: "e = sign_event env (st_integrityKey s) (draft_event s c committed newm now eid cid)"
    and s': "s' = (applyMutationEvent
        (s\<lparr>st_eventsFile := st_eventsFile s @ event_json env e @ [newline],
           st_mutationEventSeq := st_mutationEventSeq s + 1, st_lastEventHash := me_EventHash e\<rparr>) e)
      \<lparr>st_Index := ix\<rparr>"
    by metis
  then have "e = commit_event env s c now eid cid" by (simp add: commit_event_def)
  with s' show "st_memories s' = (if st_lowRAM s then st_memories s
       else apply_memories (commit_event env s c now eid cid) (st_memories s))"
    and "st_lowRAM s' = st_lowRAM s"
    and "st_continuity s' = apply_continuity (commit_event env s c now eid cid) (st_continuity s)"
    by simp_all
qed

text \<open>Only a new row and the active target are touched.\<close>

lemma commit_touches:
  assumes "CommitMutation env s c now eid cid io flush = (s', Inr r)" "\<not> st_lowRAM s"
    and "mid \<in> touched (commit_event env s c now eid cid)"
  shows "(st_memories s mid = None \<and>
           (\<exists>m. me_NewMemory (commit_event env s c now eid cid) = Some m \<and> mm_MemoryID m = mid)) \<or>
         (\<exists>row. st_memories s mid = Some row \<and> mm_Lifecycle row = LifecycleActive \<and>
           mid = mc_TargetMemoryID c \<and> mm_StateVersion row = mc_ExpectedTargetVersion c)"
proof -
  from CommitMutation_success [OF assms(1)] obtain newm where
    new: "commit_new_memory s c now = Inr newm" and target: "commit_target s c = Inr ()" by metis
  have "(st_memories s mid = None) \<and> newm \<noteq> None"
    if "newm = Some m" "mm_MemoryID m = mid" for m
    using that new assms(2)
    by (auto simp: commit_new_memory_def memoryRowLocked_def split: option.splits if_splits)
  moreover have "\<exists>row. st_memories s mid = Some row \<and> mm_Lifecycle row = LifecycleActive \<and>
      mm_StateVersion row = mc_ExpectedTargetVersion c"
    if "mid = mc_TargetMemoryID c" "mid \<noteq> ''''"
    using that target assms(2)
    by (auto simp: commit_target_def memoryRowLocked_def split: option.splits if_splits)
  moreover have "mid = mc_TargetMemoryID c \<and> mid \<noteq> ''''"
    if "mc_UpdatedMemory c = Some m" "mm_MemoryID m = mid" for m
    using that target by (auto simp: commit_target_def split: if_splits)
  ultimately show ?thesis using assms(3) new
    by (auto simp: touched_def commit_event_fields split: option.splits if_splits)
qed

lemma memory_inv_commit:
  assumes inv: "memory_inv s es" and c: "CommitMutation env s c now eid cid io flush = (s', Inr r)"
  shows "memory_inv s' (es @ [commit_event env s c now eid cid])"
proof -
  define e where "e = commit_event env s c now eid cid"
  have ram: "\<not> st_lowRAM s" and ids: "ids_ok (st_memories s)" using inv by (simp_all add: memory_inv_def)
  have ms: "st_memories s' = apply_memories e (st_memories s)" "st_lowRAM s' = st_lowRAM s"
    using commit_store [OF c] ram by (simp_all add: e_def)
  have row: "st_memories s' mid = row_after e mid (st_memories s mid)" for mid
    using apply_memories_row [OF ids] by (simp add: ms)
  have "governed_map (replay_map proj (es @ [e])) mid =
      (if mid \<in> dom (st_memories s') then governed_map (st_memories s') mid else governed_map proj mid)"
    if proj: "ids_ok proj" for proj mid
  proof -
    let ?R = "replay_map proj es mid" and ?M = "st_memories s mid"
    have R: "replay_map proj (es @ [e]) mid = row_after e mid ?R"
      using apply_memories_row [OF ids_ok_replay [OF proj]] by simp
    have hyp: "map_option governed ?R = (if mid \<in> dom (st_memories s) then map_option governed ?M
        else governed_map proj mid)"
      using inv proj by (simp add: memory_inv_def)
    show ?thesis
    proof (cases "mid \<in> dom (st_memories s)")
      case True
      then have "row_after e mid ?M \<noteq> None"
        by (auto simp: row_after_def Let_def split: option.splits)
      then show ?thesis using True R row [of mid] governed_row_after [of ?R ?M e mid] hyp by auto
    next
      case False
      show ?thesis
      proof (cases "mid \<in> touched e")
        case True
        then obtain m where "me_NewMemory e = Some m" "mm_MemoryID m = mid"
          using commit_touches [OF c ram, of mid] False by (auto simp: e_def)
        then have same: "row_after e mid r = row_after e mid None" and some: "row_after e mid r \<noteq> None" for r
          by (auto simp: row_after_def Let_def split: option.splits)
        then show ?thesis using R row [of mid] same [of ?R] same [of ?M] by auto
      next
        case untouched: False
        then show ?thesis using False R row [of mid] hyp by (simp add: row_after_untouched domIff)
      qed
    qed
  qed
  then show ?thesis
    using ram ids_ok_apply_memories [OF ids] by (simp add: memory_inv_def ms flip: e_def)
qed

text \<open>The continuity revisions are 1, 2, 3, ...\<close>

definition continuity_inv :: "store \<Rightarrow> bool" where
  "continuity_inv s \<longleftrightarrow>
     map cr_RevisionNumber (st_continuity s) = map (\<lambda>i. int i + 1) [0..<length (st_continuity s)]"

lemma continuity_next:
  assumes "continuity_inv s"
  shows "commit_revision s = int (length (st_continuity s)) + 1"
proof (cases "st_continuity s" rule: rev_cases)
  case (snoc rows r)
  then have "cr_RevisionNumber r = int (length rows) + 1"
    using assms by (simp add: continuity_inv_def)
  then show ?thesis using snoc by (simp add: commit_revision_def)
qed (simp add: commit_revision_def)

lemma continuity_inv_snoc:
  assumes "continuity_inv s" "cr_RevisionNumber r = commit_revision s"
    and "st_continuity s' = st_continuity s \<or> st_continuity s' = st_continuity s @ [r]"
  shows "continuity_inv s'"
  using assms continuity_next [OF assms(1)] by (auto simp: continuity_inv_def)

lemma continuity_inv_commit:
  assumes "continuity_inv s" "CommitMutation env s c now eid cid io flush = (s', Inr r)"
  shows "continuity_inv s'"
  using commit_store(3) [OF assms(2)] commit_event_fields(4) [of env s c now eid cid]
  by (intro continuity_inv_snoc [OF assms(1)]) (auto simp: apply_continuity_def)

lemma continuity_inv_append:
  assumes "continuity_inv s" "AppendContinuity s kind tkind tid rid project sens trace fresh now = (s', n)"
  shows "continuity_inv s'"
  using assms by (auto simp: AppendContinuity_def Let_def commit_revision_def
    intro!: continuity_inv_snoc [OF assms(1), of "last (st_continuity s')"])

lemma runtime_continuity [simp]:
  "RecordAccess sha s mid sid kind now = Inr s' \<Longrightarrow> st_continuity s' = st_continuity s"
  "ApplyFeedback sha s mid sid outcome now = Inr s' \<Longrightarrow> st_continuity s' = st_continuity s"
  by (auto simp: RecordAccess_def ApplyFeedback_def Let_def split: option.splits)

lemma flush_continuity [simp]: "st_continuity (flushAccessBumps sha s mids) = st_continuity s"
proof -
  have "st_continuity (flush_bump sha s m) = st_continuity s" for s m
    by (simp add: flush_bump_def Let_def split: option.split)
  then have "st_continuity (foldl (flush_bump sha) s mids) = st_continuity s"
    by (induction mids arbitrary: s) simp_all
  then show ?thesis by (simp add: flushAccessBumps_def)
qed

section \<open>Every reachable store\<close>

lemma quiet_step_frame:
  assumes "store_step env s [] s'"
  shows "memory_frame s s' \<and> (journal_frame s s' \<or>
    (\<exists>newKey rid now k. RotateIntegrityKey env s newKey rid now Appended = (s', Inr k))) \<and>
    (continuity_inv s \<longrightarrow> continuity_inv s')"
  using assms
proof (cases rule: store_step_quietE)
  case (failed c now eid cid io flush err)
  then show ?thesis using CommitMutation_failed_clean by fastforce
next
  case (rotate newKey rid now k)
  then show ?thesis using RotateIntegrityKey_sel [OF rotate]
    by (auto intro: memory_frame_same simp: continuity_inv_def)
next
  case (stage p reason now)
  then show ?thesis using StageProposal_frame [of s p reason now] by (simp add: continuity_inv_def)
next
  case (reject pid reason now)
  then show ?thesis using RejectProposal_frame [OF reject] by (simp add: continuity_inv_def)
next
  case (session client ext title project activity now fresh r)
  then show ?thesis using UpsertSession_frame [OF session] by (simp add: continuity_inv_def)
next
  case (continuity kind tkind tid rid project sens trace fresh now n)
  then show ?thesis using AppendContinuity_frame [OF continuity] continuity_inv_append [OF _ continuity] by simp
next
  case (access mid sid kind now)
  then show ?thesis using RecordAccess_frame [OF access] runtime_continuity(1) [OF access]
    by (simp add: continuity_inv_def)
next
  case (feedback mid sid outcome now)
  then show ?thesis using ApplyFeedback_frame [OF feedback] runtime_continuity(2) [OF feedback]
    by (simp add: continuity_inv_def)
next
  case (flush mids)
  then show ?thesis using flushAccessBumps_frame [of s "env_sha env" mids] by (simp add: continuity_inv_def)
qed

definition run_inv :: "env \<Rightarrow> store \<Rightarrow> mutation_event list \<Rightarrow> bool" where
  "run_inv env s es \<longleftrightarrow> journal_inv env s es \<and> memory_inv s es \<and> continuity_inv s"

text \<open>A step writes one event or none.\<close>

lemma store_step_label: "store_step env s ws s' \<Longrightarrow> ws = [] \<or> (\<exists>e. ws = [e])"
  by (induction rule: store_step.induct) auto

lemma run_inv_step:
  assumes "run_inv env s es" "store_step env s ws s'"
  shows "run_inv env s' (es @ ws)"
proof -
  consider "ws = []" | e where "ws = [e]" using store_step_label [OF assms(2)] by auto
  then show ?thesis
  proof cases
    case 1
    then have "store_step env s [] s'" using assms(2) by simp
    from quiet_step_frame [OF this] show ?thesis using assms(1) 1
      by (auto simp: run_inv_def intro: memory_frame_inv journal_frame_inv journal_inv_rotate)
  next
    case 2
    with assms(2) have "store_step env s [e] s'" by simp
    then show ?thesis using assms(1)
      by (cases rule: store_step_commitE)
        (auto simp: run_inv_def 2 intro: journal_inv_commit memory_inv_commit continuity_inv_commit)
  qed
qed

lemma run_inv_run: "store_run env s es s' \<Longrightarrow> run_inv env s fs \<Longrightarrow> run_inv env s' (fs @ es)"
proof (induction rule: store_run.induct)
  case (run_step s es s' ws s'')
  then show ?case using run_inv_step [of env s' "fs @ es" ws s''] by simp
qed simp

lemma run_inv_empty: "run_inv env (empty_store key) []"
  using journal_inv_empty memory_inv_empty by (simp add: run_inv_def continuity_inv_def empty_store_def)

lemma reachable_inv: "store_run env (empty_store key) es s \<Longrightarrow> run_inv env s es"
  using run_inv_run [OF _ run_inv_empty] by fastforce

text \<open>Restarting on the files of a reachable store, over any projection of the memories.\<close>

lemma reload:
  assumes inv: "run_inv env s es" and codec: "codec_ok env es" and dist: "distinct (map me_EventHash es)"
    and disk: "st_eventsFile d = st_eventsFile s" "st_integrityKey d = st_integrityKey s"
      "st_integrityAnchorHash d = st_integrityAnchorHash s" "\<not> st_lowRAM d"
  shows "loadMutationEvents env d = Inr (if es = [] then d else
      (foldl replay_step d es)\<lparr>st_memories := merge_runtime (st_memories d) (replay_map (st_memories d) es)\<rparr>)"
proof -
  have j: "journal_inv env s es" using inv by (simp add: run_inv_def)
  have lines: "readJSONL (st_eventsFile d) = Inr (map (event_json env) es)"
    using j codec disk by (auto simp: journal_inv_def codec_ok_def intro!: readJSONL_write)
  have complete: "complete_file (st_eventsFile d)"
    using j disk by (simp add: journal_inv_def complete_write_lines)
  have loop: "load_loop env 0 '''' (st_integrityAnchorHash d = '''') d (map (event_json env) es) =
      Inr (st_integrityAnchorHash d = '''' \<or> st_integrityAnchorHash d \<in> me_EventHash ` set es,
        foldl replay_step d es)"
    using j codec dist disk by (intro load_loop_succeeds) (auto simp: journal_inv_def codec_ok_def)
  have anchor: "st_integrityAnchorHash d = '''' \<or> st_integrityAnchorHash d \<in> me_EventHash ` set es"
    using j disk by (simp add: journal_inv_def)
  show ?thesis
    using lines complete loop anchor disk
    by (auto simp: loadMutationEvents_def replay_memories)
qed

section \<open>What commits and restarts guarantee\<close>

lemma commit_enabled_iff:
  "(\<exists>s' r. CommitMutation env s c now eid cid Appended flush = (s', Inr r)) \<longleftrightarrow>
     32 \<le> length (st_integrityKey s) \<and> (\<exists>p. commit_proposal s c = Inr p) \<and>
     (\<exists>m. commit_new_memory s c now = Inr m) \<and> commit_target s c = Inr ()"
  by (auto simp: CommitMutation_def appendMutationEvent_def append_file_def Let_def
    split: sum.split prod.split)

text \<open>C6: a commit whose append reaches the disk succeeds exactly when the integrity key is set, the
  proposal is pending under the same request hash (or an administrator retires a memory and names the
  request), the new memory is new, the revised memory is the target, and the target is active at the
  version the caller saw.\<close>

theorem CommitMutation_succeeds_iff:
  "(\<exists>s' r. CommitMutation env s c now eid cid Appended flush = (s', Inr r)) \<longleftrightarrow>
     32 \<le> length (st_integrityKey s) \<and>
     (if mc_ProposalID c = '''' then mc_ReviewAuthorization c = ''ADMIN_RETIRE'' \<and> mc_RequestHash c \<noteq> ''''
      else \<exists>p. st_proposals s (mc_ProposalID c) = Some p \<and> pr_Status p = ProposalPending \<and>
               pr_RequestHash p = mc_RequestHash c) \<and>
     (case mc_NewMemory c of None \<Rightarrow> True | Some m \<Rightarrow> memoryRowLocked s (mm_MemoryID m) = None) \<and>
     (case mc_UpdatedMemory c of None \<Rightarrow> True
      | Some m \<Rightarrow> mc_TargetMemoryID c \<noteq> '''' \<and> mm_MemoryID m = mc_TargetMemoryID c) \<and>
     (if mc_TargetMemoryID c = '''' then True
      else \<exists>row. memoryRowLocked s (mc_TargetMemoryID c) = Some row \<and>
             mm_Lifecycle row = LifecycleActive \<and> mm_StateVersion row = mc_ExpectedTargetVersion c)"
  (is "?L \<longleftrightarrow> ?K \<and> ?P \<and> ?N \<and> ?U \<and> ?T")
proof -
  have P: "(\<exists>p. commit_proposal s c = Inr p) \<longleftrightarrow> ?P"
    by (auto simp: commit_proposal_def split: option.splits)
  have N: "(\<exists>m. commit_new_memory s c now = Inr m) \<longleftrightarrow> ?N"
    by (auto simp: commit_new_memory_def split: option.splits)
  have T: "commit_target s c = Inr () \<longleftrightarrow> ?U \<and> ?T"
    by (auto simp: commit_target_def split: option.splits)
  show ?thesis unfolding commit_enabled_iff P N T by blast
qed

text \<open>C8: a commit that does not succeed leaves the store as it was; only the bytes of a failed append
  remain in the journal file.\<close>

theorem CommitMutation_atomic:
  "(\<exists>r. snd (CommitMutation env s c now eid cid io flush) = Inr r) \<or>
   (\<exists>tail. fst (CommitMutation env s c now eid cid io flush) =
      s\<lparr>st_eventsFile := st_eventsFile s @ tail\<rparr> \<and>
      (tail = [] \<or> (\<exists>n. io = Append_Failed n \<and> length tail \<le> n)))"
proof (cases "CommitMutation env s c now eid cid io flush")
  case (Pair s' r)
  show ?thesis
  proof (cases r)
    case (Inl err)
    from CommitMutation_failed [of env s c now eid cid io flush s' err] Pair Inl
    consider "s' = s" | n tail where "io = Append_Failed n" "length tail \<le> n"
      "s' = s\<lparr>st_eventsFile := st_eventsFile s @ tail\<rparr>" by auto
    then show ?thesis
    proof cases
      case 1
      show ?thesis by (rule disjI2, rule exI [of _ "[]"]) (simp add: Pair 1)
    next
      case 2
      then have "fst (CommitMutation env s c now eid cid io flush) = s\<lparr>st_eventsFile := st_eventsFile s @ tail\<rparr>"
        using Pair by simp
      with 2 show ?thesis by blast
    qed
  qed (simp add: Pair)
qed

text \<open>What a successful commit does to the proposals, and what it leaves alone.\<close>

lemma commit_proposals:
  assumes "CommitMutation env s c now eid cid io flush = (s', Inr r)" "mc_ProposalID c \<noteq> ''''"
    and "\<And>pid p. st_proposals s pid = Some p \<Longrightarrow> pr_ID p = pid"
  shows "\<exists>p. st_proposals s (mc_ProposalID c) = Some p \<and>
     st_proposals s' = (st_proposals s)(mc_ProposalID c \<mapsto>
       p\<lparr>pr_Status := ProposalApplied, pr_ReasonCode := mc_ResolutionReason c,
         pr_AppliedMemoryID := mr_MemoryID r, pr_ResolvedAt := Some now\<rparr>) \<and>
     st_proposalsHash s' = st_proposalsHash s"
proof -
  from CommitMutation_success [OF assms(1)] obtain committed newm e ix where
    p: "commit_proposal s c = Inr committed"
    and e: "e = sign_event env (st_integrityKey s) (draft_event s c committed newm now eid cid)"
    and s': "s' = (applyMutationEvent
        (s\<lparr>st_eventsFile := st_eventsFile s @ event_json env e @ [newline],
           st_mutationEventSeq := st_mutationEventSeq s + 1, st_lastEventHash := me_EventHash e\<rparr>) e)
      \<lparr>st_Index := ix\<rparr>"
    and r: "mr_MemoryID r = memoryIDForEvent e"
    by (metis commit_result.select_convs(1))
  obtain q where q: "st_proposals s (mc_ProposalID c) = Some q"
    using p assms(2) by (cases "st_proposals s (mc_ProposalID c)") (simp_all add: commit_proposal_def)
  then have q': "committed = Some q" using p assms(2) by (simp add: commit_proposal_def split: if_split_asm)
  have ef: "me_Proposal e = Some q" "me_ProposalID e = mc_ProposalID c" "pr_ID q = mc_ProposalID c"
      "me_ResolutionReason e = mc_ResolutionReason c" "me_CreatedAt e = now"
    using q q' assms(3) by (simp_all add: e) (simp_all add: sign_event_def draft_event_def Let_def)
  show ?thesis using q ef r
    by (simp add: s' applyMutationEvent_def apply_proposal_def resolve_proposal_def Let_def)
qed

lemma ix_messages_refresh [simp]: "ix_messages (refresh_index env s e) = ix_messages (st_Index s)"
  by (simp add: refresh_index_def Upsert_def UpsertEvidence_def Let_def split: option.split)

lemma apply_event_sessions [simp]: "st_sessions (applyMutationEvent s e) = st_sessions s"
  by (simp add: applyMutationEvent_def apply_proposal_def resolve_proposal_def Let_def split: option.split)

lemma CommitMutation_other:
  "st_sessions (fst (CommitMutation env s c now eid cid io flush)) = st_sessions s"
  "ix_messages (st_Index (fst (CommitMutation env s c now eid cid io flush))) = ix_messages (st_Index s)"
  by (simp_all add: CommitMutation_def appendMutationEvent_def refreshMutationProjections_def Let_def
    split: sum.split prod.split bool.split option.split)

text \<open>After a successful commit under a proposal, that proposal is applied and names the memory, and no
  other proposal has changed.\<close>

theorem commit_resolves_proposal:
  assumes "CommitMutation env s c now eid cid io flush = (s', Inr r)" "mc_ProposalID c \<noteq> ''''"
    and "\<And>pid p. st_proposals s pid = Some p \<Longrightarrow> pr_ID p = pid"
  shows "\<exists>p. st_proposals s (mc_ProposalID c) = Some p \<and>
     st_proposals s' = (st_proposals s)(mc_ProposalID c \<mapsto>
       p\<lparr>pr_Status := ProposalApplied, pr_ReasonCode := mc_ResolutionReason c,
         pr_AppliedMemoryID := mr_MemoryID r, pr_ResolvedAt := Some now\<rparr>)"
  using commit_proposals [OF assms] by blast

text \<open>C7: once a memory of a reachable store is no longer active, no operation ever changes its governed
  part again; it stays in the store.\<close>

theorem retired_is_final:
  assumes "store_run env (empty_store key) es s" "store_run env s es' s'"
    and "st_memories s mid = Some row" "mm_Lifecycle row \<noteq> LifecycleActive"
  shows "governed_map (st_memories s') mid = Some (governed row)"
proof -
  have "run_inv env s' (es @ es') \<and> governed_map (st_memories s') mid = Some (governed row)"
    using assms(2) reachable_inv [OF assms(1)] assms(3,4)
  proof (induction rule: store_run.induct)
    case (run_step s fs s' ws s'')
    then have inv: "run_inv env s' (es @ fs)" and g: "governed_map (st_memories s') mid = Some (governed row)"
      by simp_all
    then obtain row' where row': "st_memories s' mid = Some row'" "governed row' = governed row" by auto
    then have life: "mm_Lifecycle row' \<noteq> LifecycleActive"
      using run_step.prems(3) governed_eqD by metis
    have ram: "\<not> st_lowRAM s'" and ids: "ids_ok (st_memories s')"
      using inv by (simp_all add: run_inv_def memory_inv_def)
    consider "ws = []" | e where "ws = [e]" using store_step_label [OF run_step.hyps(2)] by auto
    then have "governed_map (st_memories s'') mid = governed_map (st_memories s') mid"
    proof cases
      case 1
      then show ?thesis using quiet_step_frame [of env s' s''] run_step.hyps(2) ram ids
        by (simp add: memory_frame_def)
    next
      case 2
      with run_step.hyps(2) have "store_step env s' [e] s''" by simp
      then show ?thesis
      proof (cases rule: store_step_commitE)
        case (commit c now eid cid flush r)
        have "mid \<notin> touched e"
          using commit_touches [OF commit(2) ram, of mid] row' life commit(1) by auto
        then show ?thesis
          using commit_store(1) [OF commit(2)] ram apply_memories_row [OF ids, of e mid] commit(1)
          by (simp add: row_after_untouched)
      qed
    qed
    then show ?case using g run_inv_step [OF inv run_step.hyps(2)] by simp
  qed simp
  then show ?thesis by simp
qed

text \<open>What loading recovers, from any projection of the memories (stale, empty or ahead).\<close>

definition same_disk :: "store \<Rightarrow> store \<Rightarrow> bool" where
  "same_disk d s \<longleftrightarrow>
     st_eventsFile d = st_eventsFile s \<and> st_integrityKey d = st_integrityKey s \<and>
     st_integrityAnchorHash d = st_integrityAnchorHash s \<and> \<not> st_lowRAM d \<and>
     st_mutationEventSeq d = 0 \<and> st_lastEventHash d = '''' \<and> ids_ok (st_memories d)"

definition recovers :: "env \<Rightarrow> store \<Rightarrow> store \<Rightarrow> bool" where
  "recovers env d s \<longleftrightarrow>
     (\<exists>s'. loadMutationEvents env d = Inr s' \<and>
       (\<forall>mid. governed_map (st_memories s') mid =
          (if mid \<in> dom (st_memories s) then governed_map (st_memories s) mid
           else governed_map (st_memories d) mid)) \<and>
       st_mutationEventSeq s' = st_mutationEventSeq s \<and> st_lastEventHash s' = st_lastEventHash s)"

lemma reload_recovers:
  assumes inv: "run_inv env s es" and codec: "codec_ok env es" "distinct (map me_EventHash es)"
    and disk: "same_disk d s"
  shows "recovers env d s"
proof -
  have seq: "st_mutationEventSeq (foldl replay_step d es) = int (length es)"
  proof (cases es rule: rev_cases)
    case (snoc fs f)
    then show ?thesis using inv by (auto simp: run_inv_def journal_inv_def chain_ok_snoc replay_step_def)
  qed (use disk in \<open>simp add: same_disk_def\<close>)
  have mem: "governed_map (replay_map (st_memories d) es) mid =
      (if mid \<in> dom (st_memories s) then governed_map (st_memories s) mid
       else governed_map (st_memories d) mid)" for mid
    using inv disk by (simp add: run_inv_def memory_inv_def same_disk_def)
  have load: "loadMutationEvents env d = Inr (if es = [] then d else
      (foldl replay_step d es)\<lparr>st_memories := merge_runtime (st_memories d) (replay_map (st_memories d) es)\<rparr>)"
    using disk by (intro reload [OF inv codec]) (simp_all add: same_disk_def)
  show ?thesis
    using load seq mem replay_head [of d es] inv disk
    by (cases "es = []") (auto simp: run_inv_def journal_inv_def recovers_def same_disk_def)
qed

text \<open>When the projection on disk is current, a restart restores the memories exactly, runtime
  counters included.\<close>

theorem restart_lossless:
  assumes "store_run env (empty_store key) es s" "codec_ok env es" "distinct (map me_EventHash es)"
    and "st_eventsFile d = st_eventsFile s" "st_integrityKey d = st_integrityKey s"
      "st_integrityAnchorHash d = st_integrityAnchorHash s" "\<not> st_lowRAM d"
      "st_memories d = st_memories s"
  shows "map_option st_memories (case loadMutationEvents env d of Inl _ \<Rightarrow> None | Inr s' \<Rightarrow> Some s') =
    Some (st_memories s)"
proof -
  have inv: "run_inv env s es" by (rule reachable_inv [OF assms(1)])
  have g: "governed_map (replay_map (st_memories s) es) mid = governed_map (st_memories s) mid" for mid
    using inv by (simp add: run_inv_def memory_inv_def)
  have "merge_runtime (st_memories s) (replay_map (st_memories s) es) mid = st_memories s mid" for mid
  proof (cases "st_memories s mid")
    case None
    then show ?thesis using g [of mid] by (simp add: merge_runtime_def)
  next
    case (Some p)
    then obtain r where r: "replay_map (st_memories s) es mid = Some r" "governed r = governed p"
      using g [of mid] by auto
    then show ?thesis using Some governed_eqD [OF r(2)]
      by (simp add: merge_runtime_def sameGovernedMemoryVersion_def merge_governed_eq)
  qed
  then have "merge_runtime (st_memories s) (replay_map (st_memories s) es) = st_memories s" by blast
  then show ?thesis using reload [OF inv assms(2-7)] assms(8) by simp
qed

text \<open>The continuity log of a reachable store numbers its revisions 1, 2, 3 and so on.\<close>

theorem continuity_revisions:
  assumes "store_run env (empty_store key) es s"
  shows "map cr_RevisionNumber (st_continuity s) = map (\<lambda>i. int i + 1) [0..<length (st_continuity s)]"
  using reachable_inv [OF assms] by (simp add: run_inv_def continuity_inv_def)

lemma loaded_chain:
  assumes "loadMutationEvents env d = Inr s" "st_lastEventHash d = ''''"
  obtains es where "map (event_unjson env) (json_lines (st_eventsFile d)) = map Some es"
    "event_chain env 0 '''' es" "st_lastEventHash s = chain_head me_EventHash '''' es"
proof -
  from assms obtain a s' where
    loop: "load_loop env 0 '''' (st_integrityAnchorHash d = '''') d (json_lines (st_eventsFile d)) = Inr (a, s')"
    and head: "st_lastEventHash s = st_lastEventHash s'"
    by (auto simp: loadMutationEvents_def readJSONL_def bindE_def split: if_splits sum.splits)
  from load_loop_replays [OF loop] obtain es where
    "map (event_unjson env) (json_lines (st_eventsFile d)) = map Some es" "event_chain env 0 '''' es"
    "s' = foldl replay_step d es" by blast
  then show ?thesis using that head replay_head [of d es] assms(2) by simp
qed


end
