(* ===== verification/Store_Example.thy ===== *)
theory Store_Example
  imports Store_Machine
begin

text \<open>
  A small history of the store, on which the hypotheses of the store's theorems hold: a proposal is
  staged, committed as a new memory, and the memory is read.  The primitives are concrete: a constant
  digest, and a codec that writes the one event of the journal as a one-byte line.
\<close>

definition demo_row :: memory_row where
  "demo_row =
     \<lparr>mm_SchemaVersion = 4, mm_MemoryID = ''m1'', mm_Kind = ''FACT'', mm_Subject = ''tea'',
      mm_Content = ''likes tea'', mm_ContentHash = '''', mm_Lifecycle = ''RETIRED'',
      mm_EpistemicStatus = ''USER_STATED'', mm_Confidence = 1, mm_Importance = 1,
      mm_Sensitivity = ''NORMAL'', mm_SecretLike = False, mm_InstructionLike = False,
      mm_StateVersion = 1, mm_SupersedesMemoryID = '''', mm_CreatedAt = 5, mm_UpdatedAt = 5,
      mm_ScopeType = ''GLOBAL'', mm_ProjectKey = '''', mm_AccessCount = 0, mm_LastAccessedAt = None,
      mm_Activation = 1, mm_Disputed = False, mm_RepeatCount = 0, mm_LastUsedSeq = 0\<rparr>"

definition demo_evidence :: evidence_row where
  "demo_evidence =
     \<lparr>er_MemoryID = ''m1'', er_MessageID = ''g1'', er_QuoteHash = '''', er_QuoteStart = 0, er_QuoteEnd = 9,
      er_Relation = ''SUPPORTS'', er_CreatedAt = 5, er_MessageContent = '''', er_OccurredAt = 5\<rparr>"

definition demo_proposal :: proposal where
  "demo_proposal =
     \<lparr>pr_ID = ''p1'', pr_RequestHash = ''h1'', pr_ReasonCode = '''', pr_AppliedMemoryID = '''',
      pr_GateClass = '''',
      pr_Identity =
        \<lparr>pi_ClientKey = ''c'', pi_SessionID = ''s'', pi_MessageID = ''g1'', pi_Mutation = ''CREATE'',
         pi_TargetMemoryID = '''', pi_ProposedKind = ''FACT'', pi_Scope = ''GLOBAL'', pi_ProjectKey = '''',
         pi_Subject = ''tea'', pi_Replacement = ''likes tea'', pi_RequestEvidenceHash = '''',
         pi_EvidenceContentHash = '''', pi_Evidence = None\<rparr>,
      pr_Status = '''', pr_CreatedAt = 0, pr_ResolvedAt = None\<rparr>"

definition demo_commit :: mutation_commit where
  "demo_commit =
     \<lparr>mc_Mutation = ''CREATE'', mc_ProposalID = ''p1'', mc_RequestHash = ''h1'',
      mc_ResolutionReason = ''APPLIED'', mc_ReviewAuthorization = '''', mc_NewMemory = Some demo_row,
      mc_UpdatedMemory = None, mc_TargetMemoryID = '''', mc_ExpectedTargetVersion = 0,
      mc_TargetLifecycle = '''', mc_Evidence = demo_evidence, mc_ContinuityKind = ''MEMORY_CREATED'',
      mc_RelatedMemoryID = '''', mc_ProjectKey = '''', mc_Sensitivity = ''NORMAL'', mc_TraceID = ''t''\<rparr>"

definition demo_key :: go_string where
  "demo_key = replicate 32 CHR ''k''"

definition demo_env0 :: env where
  "demo_env0 =
     \<lparr>env_sha = (\<lambda>_. ''d''), env_hmac = (\<lambda>_ _. ''g''),
      event_json = (\<lambda>e. if me_EventHash e = '''' then ''u'' else ''s''), event_unjson = (\<lambda>_. None),
      rotation_json = (\<lambda>_. ''r''), rotation_unjson = (\<lambda>_. None),
      message_json = (\<lambda>_. ''m''), message_unjson = (\<lambda>_. None)\<rparr>"

definition demo_staged :: store where
  "demo_staged = StageProposal (empty_store demo_key) demo_proposal ''REVIEW'' 4"

definition demo_event :: mutation_event where
  "demo_event = commit_event demo_env0 demo_staged demo_commit 5 ''e1'' ''c1''"

definition demo_env :: env where
  "demo_env = demo_env0\<lparr>event_unjson :=
     (\<lambda>l. if l = ''s'' then Some demo_event else if l = ''u'' then Some (unsigned_event demo_event) else None)\<rparr>"

definition demo_committed :: store where
  "demo_committed = fst (CommitMutation demo_env demo_staged demo_commit 5 ''e1'' ''c1'' Appended None)"

lemma demo_env_sel [simp]:
  "env_sha demo_env = (\<lambda>_. ''d'')" "env_hmac demo_env = (\<lambda>_ _. ''g'')"
  "event_json demo_env = (\<lambda>e. if me_EventHash e = '''' then ''u'' else ''s'')"
  by (simp_all add: demo_env_def demo_env0_def)

lemma demo_event_hash [simp]: "me_EventHash demo_event \<noteq> ''''"
  by (simp add: demo_event_def commit_event_def mutationEventHash_def)

lemma demo_event_eq: "commit_event demo_env demo_staged demo_commit 5 ''e1'' ''c1'' = demo_event"
  by (simp add: demo_event_def commit_event_def sign_event_def mutationEventHash_def mutationEventHMAC_def
    integrityKeyID_def Let_def demo_env0_def)

lemma demo_staged_sel [simp]:
  "st_integrityKey demo_staged = demo_key"
  "st_lowRAM demo_staged = False"
  "st_memories demo_staged = Map.empty"
  "st_proposals demo_staged = [''p1'' \<mapsto>
     demo_proposal\<lparr>pr_Status := ProposalPending, pr_ReasonCode := ''REVIEW'', pr_CreatedAt := 4\<rparr>]"
  by (simp_all add: demo_staged_def StageProposal_def empty_store_def Let_def demo_proposal_def)

lemma demo_commit_succeeds:
  "\<exists>r. CommitMutation demo_env demo_staged demo_commit 5 ''e1'' ''c1'' Appended None = (demo_committed, Inr r)"
proof -
  have "\<exists>s' r. CommitMutation demo_env demo_staged demo_commit 5 ''e1'' ''c1'' Appended None = (s', Inr r)"
    unfolding commit_enabled_iff
    by (simp add: demo_key_def commit_proposal_def commit_new_memory_def commit_target_def
      memoryRowLocked_def demo_commit_def demo_proposal_def)
  then show ?thesis by (auto simp: demo_committed_def)
qed


lemma demo_run: "store_run demo_env (empty_store demo_key) [demo_event] demo_committed"
proof -
  have "store_run demo_env (empty_store demo_key) [] demo_staged"
    using run_step [OF run_refl step_stage] by (simp add: demo_staged_def)
  moreover obtain r where
    "CommitMutation demo_env demo_staged demo_commit 5 ''e1'' ''c1'' Appended None = (demo_committed, Inr r)"
    using demo_commit_succeeds by blast
  then have "store_step demo_env demo_staged [demo_event] demo_committed"
    using step_commit [of demo_env demo_staged demo_commit 5 "''e1''" "''c1''" None demo_committed r]
    by (simp only: demo_event_eq)
  ultimately show ?thesis using run_step by fastforce
qed

lemma demo_codec: "codec_ok demo_env [demo_event]"
proof -
  have "clean_line ''s''" by code_simp
  then show ?thesis by (simp add: codec_ok_def) (simp add: demo_env_def)
qed

lemma demo_new_memory:
  "me_NewMemory demo_event = Some demo_row" "me_UpdatedMemory demo_event = None"
  "me_TargetMemoryID demo_event = ''''"
  by (simp_all add: demo_event_def commit_event_def commit_new_memory_def demo_commit_def
    memoryRowLocked_def new_memory_defaults_def demo_row_def)

lemma demo_committed_memories: "st_memories demo_committed = [''m1'' \<mapsto> demo_row]"
proof -
  obtain r where
    r: "CommitMutation demo_env demo_staged demo_commit 5 ''e1'' ''c1'' Appended None = (demo_committed, Inr r)"
    using demo_commit_succeeds by blast
  show ?thesis using commit_store(1) [OF r] demo_new_memory
    by (simp add: demo_event_eq apply_memories_def demo_row_def)
qed


theorem restart_lossless_witness:
  "(case loadMutationEvents demo_env demo_committed of Inl _ \<Rightarrow> None | Inr s' \<Rightarrow> Some (st_memories s')) =
     Some [''m1'' \<mapsto> demo_row]"
proof -
  have "\<not> st_lowRAM demo_committed" using reachable_inv [OF demo_run] by (simp add: run_inv_def memory_inv_def)
  then show ?thesis using restart_lossless [OF demo_run demo_codec, of demo_committed]
    by (simp add: demo_committed_memories split: sum.splits)
qed

theorem retired_is_final_witness:
  "governed_map (st_memories (flushAccessBumps (\<lambda>_. ''d'') demo_committed [''m1''])) ''m1'' =
     Some (governed demo_row)"
proof -
  have "store_run demo_env demo_committed ([] @ [])
      (flushAccessBumps (env_sha demo_env) demo_committed [''m1''])"
    by (rule run_step [OF run_refl step_flush])
  then show ?thesis
    using retired_is_final [OF demo_run, of "[]" "flushAccessBumps (env_sha demo_env) demo_committed [''m1'']"
      "''m1''" demo_row]
    by (simp add: demo_committed_memories) (simp add: demo_row_def)
qed

theorem continuity_revisions_witness:
  "map cr_RevisionNumber (st_continuity demo_committed) =
     map (\<lambda>i. int i + 1) [0..<length (st_continuity demo_committed)]"
  by (rule continuity_revisions [OF demo_run])

theorem commit_resolves_proposal_witness:
  "map_option pr_Status (st_proposals demo_committed ''p1'') = Some ProposalApplied"
proof -
  obtain r where
    r: "CommitMutation demo_env demo_staged demo_commit 5 ''e1'' ''c1'' Appended None = (demo_committed, Inr r)"
    using demo_commit_succeeds by blast
  have pid: "mc_ProposalID demo_commit = ''p1''" by (simp add: demo_commit_def)
  have ids: "pr_ID p = pid" if "st_proposals demo_staged pid = Some p" for pid p
    using that by (auto simp: demo_proposal_def split: if_split_asm)
  show ?thesis using commit_resolves_proposal [OF r _ ids] by (auto simp: pid)
qed

lemma demo_lines: "json_lines (st_eventsFile demo_committed) = [''s'']"
proof -
  have "st_eventsFile demo_committed = write_lines (map (event_json demo_env) [demo_event])"
    using reachable_inv [OF demo_run] by (simp add: run_inv_def journal_inv_def)
  then show ?thesis using demo_codec json_lines_write [of "map (event_json demo_env) [demo_event]"]
    by (simp add: codec_ok_def)
qed


end
