(* ===== verification/Message_Journal.thy ===== *)
theory Message_Journal
  imports Store_Machine
begin

text \<open>
  \<open>lite/message_journal.go\<close>, \<open>InsertMessage\<close> of \<open>queries.go\<close>, \<open>loadMessages\<close> of \<open>store.go\<close> and
  \<open>VerifyDataDir\<close> of \<open>integrity_verify.go\<close>: the message archive, a hash-chained journal split into
  numbered segment files.  \<open>st_segments\<close> maps a segment number to the content of its file; a directory
  listing is the list of file names with their contents, in the order of the names.
\<close>

section \<open>Records and segments\<close>

definition messageRecordHash :: "env \<Rightarrow> message_row \<Rightarrow> go_string" where
  "messageRecordHash env row = sha_name (env_sha env) (message_json env (row\<lparr>ms_RecordHash := ''''\<rparr>))"

definition pad6 :: "nat \<Rightarrow> go_string" where
  "pad6 n = (let s = itoa (int n) in replicate (6 - length s) CHR ''0'' @ s)"

definition segment_name :: "nat \<Rightarrow> go_string" where
  "segment_name n = ''messages-'' @ pad6 n @ ''.jsonl''"

abbreviation messageSegmentMaxBytes :: int where "messageSegmentMaxBytes \<equiv> 268435456"

text \<open>The segment the next record goes to: a new one when the current file exists and the record would
  push it over the limit.\<close>

definition target_segment :: "store \<Rightarrow> go_string \<Rightarrow> nat" where
  "target_segment s line =
     (let n = (if st_messageSegment s = 0 then 1 else st_messageSegment s) in
      case st_segments s n of
        None \<Rightarrow> n
      | Some file \<Rightarrow> if int (length file) + int (length line) > messageSegmentMaxBytes then n + 1 else n)"

definition seal_record :: "env \<Rightarrow> store \<Rightarrow> message_row \<Rightarrow> message_row" where
  "seal_record env s row =
     (let row = row\<lparr>ms_PreviousRecordHash := st_lastMessageHash s\<rparr> in
      row\<lparr>ms_RecordHash := messageRecordHash env row\<rparr>)"

definition appendMessageRecord :: "env \<Rightarrow> store \<Rightarrow> message_row \<Rightarrow> append_io \<Rightarrow> store \<times> message_row res" where
  "appendMessageRecord env s row io =
     (let row = seal_record env s row;
          line = message_json env row @ [newline];
          n = target_segment s line;
          file = (case st_segments s n of None \<Rightarrow> [] | Some f \<Rightarrow> f) in
      case append_file file line io of
        (file', ok) \<Rightarrow>
          (let s = s\<lparr>st_messageSegment := n, st_segments := (st_segments s)(n \<mapsto> file')\<rparr> in
           if ok then (s\<lparr>st_lastMessageHash := ms_RecordHash row\<rparr>, Inr row)
           else (s, Inl ''append failed'')))"

section \<open>Inserting a message\<close>

record checkpoint_message =
  ck_ExternalMessageID :: go_string
  ck_Role :: go_string
  ck_ContentType :: go_string
  ck_Content :: go_string
  ck_OccurredAt :: time
  ck_AssistantID :: go_string
  ck_AssistantName :: go_string
  ck_Hash :: go_string

definition message_differs :: "message_row \<Rightarrow> checkpoint_message \<Rightarrow> bool" where
  "message_differs row m \<longleftrightarrow>
     ms_Role row \<noteq> ck_Role m \<or> ms_ContentType row \<noteq> ck_ContentType m \<or> ms_Content row \<noteq> ck_Content m \<or>
     ms_AssistantID row \<noteq> ck_AssistantID m \<or> ms_AssistantName row \<noteq> ck_AssistantName m"

text \<open>The row a new message becomes; \<open>mid\<close> is its fresh identifier.\<close>

definition new_message_row ::
    "env \<Rightarrow> store \<Rightarrow> go_string \<Rightarrow> checkpoint_message \<Rightarrow> go_string \<Rightarrow> time \<Rightarrow> message_row" where
  "new_message_row env s sessionID m mid now =
     \<lparr>ms_SchemaVersion = 1, ms_MessageID = mid, ms_SessionID = sessionID,
      ms_ExternalMessageID = ck_ExternalMessageID m, ms_Role = ck_Role m,
      ms_ContentType = ck_ContentType m, ms_Content = ck_Content m, ms_ContentHash = ck_Hash m,
      ms_ExactContentHash = hashContent (env_sha env) (ck_Content m),
      ms_MessageSeq = st_messageSeq s + 1,
      ms_TurnSeq = (if ck_Role m = RoleUser then st_turnSeq s + 1 else st_turnSeq s),
      ms_OccurredAt = ck_OccurredAt m, ms_CreatedAt = now,
      ms_SecretLike = fst (DetectMessagePolicy (ck_Content m)),
      ms_InstructionLike = snd (DetectMessagePolicy (ck_Content m)), ms_Sensitivity = ''NORMAL'',
      ms_AssistantID = ck_AssistantID m, ms_AssistantName = ck_AssistantName m,
      ms_PreviousRecordHash = '''', ms_RecordHash = ''''\<rparr>"

text \<open>\<open>existing\<close> is the row found under the session and the external id, in the index or, without one,
  in the map.\<close>

definition InsertMessage ::
    "env \<Rightarrow> store \<Rightarrow> go_string \<Rightarrow> checkpoint_message \<Rightarrow> message_row option \<Rightarrow> go_string \<Rightarrow> time \<Rightarrow> append_io \<Rightarrow>
     store \<times> (go_string \<times> bool) res" where
  "InsertMessage env s sessionID m existing mid now io =
     (case existing of
        Some row \<Rightarrow>
          if message_differs row m then (s, Inl ''message conflict'')
          else (s, Inr (ms_MessageID row, True))
      | None \<Rightarrow>
          (case appendMessageRecord env s (new_message_row env s sessionID m mid now) io of
             (s', Inl err) \<Rightarrow> (s', Inl err)
           | (s', Inr row) \<Rightarrow>
               (let s' = s'\<lparr>st_messageSeq := ms_MessageSeq row, st_turnSeq := ms_TurnSeq row\<rparr>;
                    s' = (if st_lowRAM s' then s'
                          else s'\<lparr>st_messages := (st_messages s')(mid \<mapsto> row)\<rparr>) in
                (s'\<lparr>st_Index := UpsertMessage row (st_Index s')\<rparr>, Inr (mid, False)))))"

definition existing_message :: "store \<Rightarrow> go_string \<Rightarrow> go_string \<Rightarrow> message_row \<Rightarrow> bool" where
  "existing_message s sessionID externalID row \<longleftrightarrow>
     (\<exists>mid. st_messages s mid = Some row) \<and> ms_SessionID row = sessionID \<and>
     ms_ExternalMessageID row = externalID"

section \<open>Loading the segments\<close>

definition last_newline_end :: "go_string \<Rightarrow> nat" where
  "last_newline_end raw = length raw - length (takeWhile (\<lambda>c. c \<noteq> newline) (rev raw))"

text \<open>A segment as read: the part that is kept, and the incomplete tail that is quarantined, which is
  allowed in the last segment only.\<close>

definition repair_segment :: "bool \<Rightarrow> go_string \<Rightarrow> (go_string \<times> go_string) res" where
  "repair_segment is_last raw =
     (if complete_file raw then Inr (raw, '''')
      else if \<not> is_last then Inl ''incomplete interior segment''
      else Inr (take (last_newline_end raw) raw, drop (last_newline_end raw) raw))"

definition record_linked :: "env \<Rightarrow> int \<Rightarrow> go_string \<Rightarrow> message_row \<Rightarrow> bool" where
  "record_linked env previousSeq previousHash row \<longleftrightarrow>
     ms_MessageSeq row = previousSeq + 1 \<and> ms_PreviousRecordHash row = previousHash \<and>
     ms_ExactContentHash row = hashContent (env_sha env) (ms_Content row) \<and>
     messageRecordHash env row = ms_RecordHash row"

definition put_message :: "store \<Rightarrow> message_row \<Rightarrow> store" where
  "put_message s row =
     s\<lparr>st_messages := (st_messages s)(ms_MessageID row \<mapsto> row),
       st_turnSeq := (if ms_TurnSeq row > st_turnSeq s then ms_TurnSeq row else st_turnSeq s)\<rparr>"

fun record_loop ::
    "env \<Rightarrow> int \<Rightarrow> go_string \<Rightarrow> store \<Rightarrow> go_string list \<Rightarrow> (int \<times> go_string \<times> store) res" where
  "record_loop env previousSeq previousHash s [] = Inr (previousSeq, previousHash, s)"
| "record_loop env previousSeq previousHash s (line # lines) =
     (case message_unjson env line of
        None \<Rightarrow> Inl ''invalid interior record''
      | Some row \<Rightarrow>
          if ms_SchemaVersion row \<noteq> 0 \<and> ms_SchemaVersion row \<noteq> 1 then Inl ''unsupported message schema''
          else if \<not> record_linked env previousSeq previousHash row then Inl ''message hash chain invalid''
          else if (case st_messages s (ms_MessageID row) of None \<Rightarrow> False
                   | Some x \<Rightarrow> ms_ExternalMessageID x \<noteq> ms_ExternalMessageID row)
          then Inl ''conflicting message id''
          else record_loop env (ms_MessageSeq row) (ms_RecordHash row) (put_message s row) lines)"

text \<open>The loop over the files, with the number of the segment expected next; the repaired content of a
  file replaces it.\<close>

fun segment_loop ::
    "env \<Rightarrow> nat \<Rightarrow> int \<Rightarrow> go_string \<Rightarrow> store \<Rightarrow> (go_string \<times> go_string) list \<Rightarrow>
     (int \<times> go_string \<times> store) res" where
  "segment_loop env n previousSeq previousHash s [] = Inr (previousSeq, previousHash, s)"
| "segment_loop env n previousSeq previousHash s ((fname, raw) # files) =
     (if fname \<noteq> segment_name n then Inl ''message segment gap''
      else bindE (repair_segment (files = []) raw) (\<lambda>(kept, quarantined).
        bindE (record_loop env previousSeq previousHash s (json_lines kept)) (\<lambda>(q, h, s').
          segment_loop env (n + 1) q h
            (s'\<lparr>st_messageSegment := n, st_segments := (st_segments s')(n \<mapsto> kept)\<rparr>) files)))"

definition loadMessageSegments :: "env \<Rightarrow> store \<Rightarrow> (go_string \<times> go_string) list \<Rightarrow> store res" where
  "loadMessageSegments env s files =
     bindE (segment_loop env 1 0 '''' s files) (\<lambda>(q, h, s').
       Inr (s'\<lparr>st_messageSeq := q, st_lastMessageHash := h\<rparr>))"

section \<open>Migration of a single-file archive\<close>

text \<open>Without segments the rows come from \<open>messages.jsonl\<close>.  Rows without a sequence number are numbered
  after the others, in order of creation, and the journal is then written from all rows.\<close>

fun legacy_loop :: "env \<Rightarrow> store \<Rightarrow> go_string list \<Rightarrow> go_string list \<Rightarrow> (store \<times> go_string list) res" where
  "legacy_loop env s legacy [] = Inr (s, legacy)"
| "legacy_loop env s legacy (line # lines) =
     (case message_unjson env line of
        None \<Rightarrow> Inl ''messages.jsonl: decode''
      | Some row \<Rightarrow>
          (let s = s\<lparr>st_messages := (st_messages s)(ms_MessageID row \<mapsto> row)\<rparr> in
           if ms_MessageSeq row \<le> 0 then legacy_loop env s (legacy @ [ms_MessageID row]) lines
           else legacy_loop env
             (s\<lparr>st_messageSeq := max (st_messageSeq s) (ms_MessageSeq row),
                st_turnSeq := max (st_turnSeq s) (ms_TurnSeq row)\<rparr>) legacy lines))"

definition zero_message :: message_row where
  "zero_message =
     \<lparr>ms_SchemaVersion = 0, ms_MessageID = '''', ms_SessionID = '''', ms_ExternalMessageID = '''',
      ms_Role = '''', ms_ContentType = '''', ms_Content = '''', ms_ContentHash = '''',
      ms_ExactContentHash = '''', ms_MessageSeq = 0, ms_TurnSeq = 0, ms_OccurredAt = 0, ms_CreatedAt = 0,
      ms_SecretLike = False, ms_InstructionLike = False, ms_Sensitivity = '''', ms_AssistantID = '''',
      ms_AssistantName = '''', ms_PreviousRecordHash = '''', ms_RecordHash = ''''\<rparr>"

definition legacy_before :: "store \<Rightarrow> go_string \<Rightarrow> go_string \<Rightarrow> bool" where
  "legacy_before s i j \<longleftrightarrow>
     (let left = go_get (st_messages s) zero_message i; right = go_get (st_messages s) zero_message j in
      if ms_CreatedAt left \<noteq> ms_CreatedAt right then ms_CreatedAt left < ms_CreatedAt right
      else bytes_less (ms_MessageID left) (ms_MessageID right))"

definition number_legacy :: "env \<Rightarrow> store \<Rightarrow> go_string \<Rightarrow> store" where
  "number_legacy env s mid =
     (let row = go_get (st_messages s) zero_message mid;
          turn = (if ms_Role row = RoleUser then st_turnSeq s + 1 else st_turnSeq s);
          row = row\<lparr>ms_MessageSeq := st_messageSeq s + 1, ms_TurnSeq := turn,
                    ms_ExactContentHash :=
                      (if ms_ExactContentHash row = '''' then hashContent (env_sha env) (ms_Content row)
                       else ms_ExactContentHash row)\<rparr> in
      s\<lparr>st_messageSeq := st_messageSeq s + 1, st_turnSeq := turn,
        st_messages := (st_messages s)(mid \<mapsto> row)\<rparr>)"

definition journal_before :: "store \<Rightarrow> go_string \<Rightarrow> go_string \<Rightarrow> bool" where
  "journal_before s i j \<longleftrightarrow>
     (let left = go_get (st_messages s) zero_message i; right = go_get (st_messages s) zero_message j in
      if ms_MessageSeq left \<noteq> ms_MessageSeq right then ms_MessageSeq left < ms_MessageSeq right
      else bytes_less (ms_MessageID left) (ms_MessageID right))"

definition journal_legacy :: "env \<Rightarrow> store \<Rightarrow> go_string \<Rightarrow> store res" where
  "journal_legacy env s mid =
     (let row = go_get (st_messages s) zero_message mid;
          row = (if ms_SchemaVersion row = 0 then row\<lparr>ms_SchemaVersion := 1\<rparr> else row) in
      case appendMessageRecord env s row Appended of
        (s', Inl err) \<Rightarrow> Inl err
      | (s', Inr row) \<Rightarrow> Inr (s'\<lparr>st_messages := (st_messages s')(mid \<mapsto> row)\<rparr>))"

text \<open>\<open>ids\<close> are the keys of the message map, in ranging order.\<close>

definition initializeMessageJournal :: "env \<Rightarrow> store \<Rightarrow> go_string list \<Rightarrow> store res" where
  "initializeMessageJournal env s ids =
     (if ids = [] then Inr s
      else foldl (\<lambda>r mid. bindE r (\<lambda>s. journal_legacy env s mid))
             (Inr (s\<lparr>st_lastMessageHash := '''', st_messageSegment := 0\<rparr>))
             (sort_by (journal_before s) ids))"

definition loadLegacyMessages :: "env \<Rightarrow> store \<Rightarrow> go_string \<Rightarrow> go_string list \<Rightarrow> store res" where
  "loadLegacyMessages env s raw ids =
     bindE (readJSONL raw) (\<lambda>lines.
       bindE (legacy_loop env s [] lines) (\<lambda>(s', legacy).
         initializeMessageJournal env (foldl (number_legacy env) s' (sort_by (legacy_before s') legacy)) ids))"

definition loadMessages ::
    "env \<Rightarrow> store \<Rightarrow> (go_string \<times> go_string) list \<Rightarrow> go_string \<Rightarrow> go_string list \<Rightarrow> store res" where
  "loadMessages env s files raw ids =
     (if files \<noteq> [] then loadMessageSegments env s files else loadLegacyMessages env s raw ids)"

section \<open>Verification of a data directory\<close>

record integrity_report =
  ir_MutationEvents :: int
  ir_MessageRecords :: int
  ir_MessageSegments :: int
  ir_KeyID :: go_string

fun verify_records :: "env \<Rightarrow> int \<Rightarrow> go_string \<Rightarrow> go_string list \<Rightarrow> (int \<times> go_string) res" where
  "verify_records env previousSeq previousHash [] = Inr (previousSeq, previousHash)"
| "verify_records env previousSeq previousHash (line # lines) =
     (case message_unjson env line of
        None \<Rightarrow> Inl ''verification failed''
      | Some row \<Rightarrow>
          if (ms_SchemaVersion row \<noteq> 0 \<and> ms_SchemaVersion row \<noteq> 1) \<or>
             \<not> record_linked env previousSeq previousHash row
          then Inl ''verification failed''
          else verify_records env (ms_MessageSeq row) (ms_RecordHash row) lines)"

fun verify_segments ::
    "env \<Rightarrow> nat \<Rightarrow> int \<Rightarrow> go_string \<Rightarrow> (go_string \<times> go_string) list \<Rightarrow> (int \<times> go_string) res" where
  "verify_segments env n previousSeq previousHash [] = Inr (previousSeq, previousHash)"
| "verify_segments env n previousSeq previousHash ((fname, raw) # files) =
     (if fname \<noteq> segment_name n then Inl ''message segment gap''
      else if \<not> complete_file raw then Inl ''incomplete final record''
      else bindE (verify_records env previousSeq previousHash (json_lines raw)) (\<lambda>(q, h).
        verify_segments env (n + 1) q h files))"

text \<open>The data directory is the rotation file, the event file and the listing of the segments.\<close>

definition VerifyDataDir ::
    "env \<Rightarrow> go_string \<Rightarrow> go_string \<Rightarrow> (go_string \<times> go_string) list \<Rightarrow> go_string \<Rightarrow> integrity_report res" where
  "VerifyDataDir env rotationsRaw eventRaw files key =
     (if length key < 32 then Inl ''integrity key must be at least 32 bytes''
      else bindE (loadKeyRotations env ((empty_store key)\<lparr>st_rotationsFile := rotationsRaw\<rparr>)) (\<lambda>rot.
        if \<not> complete_file eventRaw then Inl ''memory_events.jsonl: incomplete final record''
        else bindE (verify_loop env key (st_integrityAnchorHash rot) 0 ''''
                     (st_integrityAnchorHash rot = '''') (json_lines eventRaw)) (\<lambda>(n, _, anchorReached).
          if \<not> anchorReached then Inl ''memory_events.jsonl: key rotation anchor not found''
          else bindE (verify_segments env 1 0 '''' files) (\<lambda>(m, _).
            Inr \<lparr>ir_MutationEvents = n, ir_MessageRecords = m, ir_MessageSegments = int (length files),
                 ir_KeyID = integrityKeyID env key\<rparr>))))"

section \<open>The message chain\<close>

definition message_core :: "env \<Rightarrow> message_row \<Rightarrow> go_string" where
  "message_core env row = message_json env (row\<lparr>ms_RecordHash := ''''\<rparr>)"

abbreviation message_chain :: "env \<Rightarrow> int \<Rightarrow> go_string \<Rightarrow> message_row list \<Rightarrow> bool" where
  "message_chain env n h rows \<equiv>
     chain_ok (env_sha env) (message_core env) ms_RecordHash ms_PreviousRecordHash ms_MessageSeq n h rows"

definition sane_message :: "env \<Rightarrow> message_row \<Rightarrow> bool" where
  "sane_message env row \<longleftrightarrow> message_unjson env (message_core env row) = Some (row\<lparr>ms_RecordHash := ''''\<rparr>)"

interpretation records: hash_chain "message_core env" ms_RecordHash ms_PreviousRecordHash ms_MessageSeq
    "sane_message env"
  for env
proof
  fix x y
  assume "sane_message env x" "sane_message env y" "message_core env x = message_core env y"
  then have "x\<lparr>ms_RecordHash := ''''\<rparr> = y\<lparr>ms_RecordHash := ''''\<rparr>" by (simp add: sane_message_def)
  then have "ms_PreviousRecordHash (x\<lparr>ms_RecordHash := ''''\<rparr>) = ms_PreviousRecordHash (y\<lparr>ms_RecordHash := ''''\<rparr>)"
    by simp
  then show "ms_PreviousRecordHash x = ms_PreviousRecordHash y" by simp
qed

definition content_ok :: "env \<Rightarrow> message_row \<Rightarrow> bool" where
  "content_ok env row \<longleftrightarrow>
     (ms_SchemaVersion row = 0 \<or> ms_SchemaVersion row = 1) \<and>
     ms_ExactContentHash row = hashContent (env_sha env) (ms_Content row)"

lemma record_linked_iff:
  "record_linked env n h row \<longleftrightarrow>
     ms_MessageSeq row = n + 1 \<and> ms_PreviousRecordHash row = h \<and>
     ms_ExactContentHash row = hashContent (env_sha env) (ms_Content row) \<and>
     ms_RecordHash row = sha_name (env_sha env) (message_core env row)"
  by (auto simp: record_linked_def messageRecordHash_def message_core_def)

lemma upd_fold: "(\<lambda>a. if a = k then v else f a) = f(k := v)"
  by (simp add: fun_eq_iff)

section \<open>The archive on disk\<close>

definition message_codec_ok :: "env \<Rightarrow> message_row list \<Rightarrow> bool" where
  "message_codec_ok env rows \<longleftrightarrow>
     (\<forall>r \<in> set rows. clean_line (message_json env r) \<and> message_unjson env (message_json env r) = Some r)"

definition put_row :: "(go_string \<rightharpoonup> message_row) \<Rightarrow> message_row \<Rightarrow> (go_string \<rightharpoonup> message_row)" where
  "put_row ms r = ms(ms_MessageID r \<mapsto> r)"

lemma put_messages [simp]:
  "st_messages (foldl put_message s rows) = foldl put_row (st_messages s) rows"
  "st_turnSeq (foldl put_message s rows) = foldl max (st_turnSeq s) (map ms_TurnSeq rows)"
  "st_segments (foldl put_message s rows) = st_segments s"
  "st_messageSegment (foldl put_message s rows) = st_messageSegment s"
  by (induction rows arbitrary: s) (simp_all add: put_message_def put_row_def max_def)

lemma dom_put_rows: "dom (foldl put_row ms rows) = dom ms \<union> ms_MessageID ` set rows"
  by (induction rows arbitrary: ms) (auto simp: put_row_def)

lemma record_loop_succeeds:
  assumes "message_chain env q h rows" "list_all (content_ok env) rows" "message_codec_ok env rows"
    and "distinct (map ms_MessageID rows)" "dom (st_messages s) \<inter> ms_MessageID ` set rows = {}"
  shows "record_loop env q h s (map (message_json env) rows) =
    Inr (q + int (length rows), chain_head ms_RecordHash h rows, foldl put_message s rows)"
  using assms
proof (induction rows arbitrary: q h s)
  case (Cons r rows)
  have link: "record_linked env q h r" using Cons.prems(1,2) by (auto simp: record_linked_iff content_ok_def)
  have seq: "ms_MessageSeq r = q + 1" using link by (simp add: record_linked_iff)
  have tail: "message_chain env (q + 1) (ms_RecordHash r) rows"
    using Cons.prems(1) by (metis chain_ok.simps(2))
  have new: "st_messages s (ms_MessageID r) = None" using Cons.prems(5) by auto
  have dec: "message_unjson env (message_json env r) = Some r" "message_codec_ok env rows"
    using Cons.prems(3) by (auto simp: message_codec_ok_def)
  have "dom (st_messages (put_message s r)) \<inter> ms_MessageID ` set rows = {}"
    using Cons.prems(4,5) by (auto simp: put_message_def)
  from Cons.IH [OF tail _ dec(2) _ this] show ?case
    using Cons.prems(2,4) link new dec(1) seq by (auto simp: chain_head_Cons content_ok_def)
qed simp

text \<open>The file of one segment, possibly followed by the beginning of a record that was not finished.\<close>

definition segment_file :: "env \<Rightarrow> message_row list \<Rightarrow> go_string" where
  "segment_file env rows = write_lines (map (message_json env) rows)"

lemma segment_file_snoc: "segment_file env (rows @ [r]) = segment_file env rows @ message_json env r @ [newline]"
  by (simp add: segment_file_def write_lines_snoc)

lemma json_lines_segment: "message_codec_ok env rows \<Longrightarrow> json_lines (segment_file env rows) = map (message_json env) rows"
  by (simp add: segment_file_def message_codec_ok_def json_lines_write)

lemma last_newline_end_complete:
  assumes "complete_file file" "newline \<notin> set tail"
  shows "last_newline_end (file @ tail) = length file"
proof -
  have no: "takeWhile (\<lambda>c. c \<noteq> newline) (rev tail @ rev file) = rev tail @ takeWhile (\<lambda>c. c \<noteq> newline) (rev file)"
    using assms(2) by (intro takeWhile_append2) auto
  have "takeWhile (\<lambda>c. c \<noteq> newline) (rev file) = []"
    using assms(1) by (cases "file" rule: rev_cases) (auto simp: complete_file_def)
  with no show ?thesis by (simp add: last_newline_end_def)
qed

lemma repair_torn:
  assumes "newline \<notin> set tail" "tail = [] \<or> is_last"
  shows "repair_segment is_last (segment_file env rows @ tail) = Inr (segment_file env rows, tail)"
proof (cases "tail = []")
  case True
  then show ?thesis using complete_write_lines by (simp add: repair_segment_def segment_file_def)
next
  case False
  have c: "complete_file (segment_file env rows)" by (simp add: segment_file_def complete_write_lines)
  have "\<not> complete_file (segment_file env rows @ tail)"
    using assms(1) False by (auto simp: complete_file_def) (metis last_in_set)
  then show ?thesis using False assms last_newline_end_complete [OF c assms(1)]
    by (simp add: repair_segment_def)
qed

text \<open>A directory: the listing of the segments of \<open>rss\<close>, numbered from \<open>n\<close>, with \<open>tail\<close> after the last.\<close>

fun files_of :: "env \<Rightarrow> nat \<Rightarrow> message_row list list \<Rightarrow> go_string \<Rightarrow> (go_string \<times> go_string) list" where
  "files_of env n [] tail = []"
| "files_of env n [rows] tail = [(segment_name n, segment_file env rows @ tail)]"
| "files_of env n (rows # rs # rss) tail =
     (segment_name n, segment_file env rows) # files_of env (n + 1) (rs # rss) tail"

definition segment_map :: "env \<Rightarrow> nat \<Rightarrow> message_row list list \<Rightarrow> nat \<Rightarrow> go_string option" where
  "segment_map env n rss i =
     (if n \<le> i \<and> i < n + length rss then Some (segment_file env (rss ! (i - n))) else None)"

lemma segment_loop_succeeds:
  assumes "message_chain env q h (concat rss)" "list_all (content_ok env) (concat rss)"
    and "message_codec_ok env (concat rss)" "distinct (map ms_MessageID (concat rss))"
    and "dom (st_messages s) \<inter> ms_MessageID ` set (concat rss) = {}" "newline \<notin> set tail" "rss \<noteq> []"
  shows "\<exists>s'. segment_loop env n q h s (files_of env n rss tail) =
      Inr (q + int (length (concat rss)), chain_head ms_RecordHash h (concat rss), s') \<and>
    st_messages s' = foldl put_row (st_messages s) (concat rss) \<and>
    st_turnSeq s' = foldl max (st_turnSeq s) (map ms_TurnSeq (concat rss)) \<and>
    st_messageSegment s' = n + length rss - 1 \<and>
    st_segments s' = st_segments s ++ segment_map env n rss"
  using assms
proof (induction rss arbitrary: n q h s)
  case (Cons rows rss)
  have app: "message_chain env q h rows" "message_chain env (q + int (length rows))
      (chain_head ms_RecordHash h rows) (concat rss)"
    using Cons.prems(1) by (simp_all add: chain_ok_append)
  have codec: "message_codec_ok env rows" "message_codec_ok env (concat rss)"
    using Cons.prems(3) by (auto simp: message_codec_ok_def)
  have loop: "record_loop env q h s (map (message_json env) rows) =
      Inr (q + int (length rows), chain_head ms_RecordHash h rows, foldl put_message s rows)"
    using Cons.prems(2,4,5) app codec by (intro record_loop_succeeds) auto
  let ?s = "(foldl put_message s rows)\<lparr>st_messageSegment := n,
      st_segments := (st_segments s)(n \<mapsto> segment_file env rows)\<rparr>"
  show ?case
  proof (cases rss)
    case Nil
    have "st_segments s ++ segment_map env n [rows] = (st_segments s)(n \<mapsto> segment_file env rows)"
      by (auto simp: segment_map_def map_add_def fun_eq_iff)
    moreover have "segment_loop env n q h s (files_of env n (rows # rss) tail) =
        Inr (q + int (length (concat (rows # rss))), chain_head ms_RecordHash h (concat (rows # rss)), ?s)"
      using Nil loop repair_torn [of tail True env rows] Cons.prems(6) codec(1)
      by (simp add: json_lines_segment)
    ultimately show ?thesis by (intro exI [of _ ?s]) (simp add: Nil)
  next
    case (Cons rs rss')
    then have ne: "rss \<noteq> []" by simp
    have "dom (st_messages s) \<inter> ms_MessageID ` set (concat rss) = {}" using Cons.prems(5) by auto
    moreover have "ms_MessageID ` set rows \<inter> ms_MessageID ` set (concat rss) = {}"
      using Cons.prems(4) by simp
    ultimately have "dom (st_messages ?s) \<inter> ms_MessageID ` set (concat rss) = {}"
      by (simp add: dom_put_rows Int_Un_distrib2)
    from Cons.IH [OF app(2) _ codec(2) _ this Cons.prems(6) ne, of "n + 1"] obtain s' where
      s': "segment_loop env (n + 1) (q + int (length rows)) (chain_head ms_RecordHash h rows) ?s
          (files_of env (n + 1) rss tail) =
        Inr (q + int (length rows) + int (length (concat rss)),
          chain_head ms_RecordHash (chain_head ms_RecordHash h rows) (concat rss), s')"
      "st_messages s' = foldl put_row (st_messages ?s) (concat rss)"
      "st_turnSeq s' = foldl max (st_turnSeq ?s) (map ms_TurnSeq (concat rss))"
      "st_messageSegment s' = n + 1 + length rss - 1"
      "st_segments s' = st_segments ?s ++ segment_map env (n + 1) rss"
      using Cons.prems(2,4) by (auto simp: upd_fold)
    have "st_segments ?s ++ segment_map env (n + 1) rss = st_segments s ++ segment_map env n (rows # rss)"
      by (auto simp: segment_map_def map_add_def fun_eq_iff nth_Cons' Suc_diff_le)
    moreover have "files_of env n (rows # rss) tail = (segment_name n, segment_file env rows) #
        files_of env (n + 1) rss tail" and "files_of env (n + 1) rss tail \<noteq> []"
      using Cons by (cases rss'; simp)+
    ultimately show ?thesis using s' loop repair_torn [of "[]" False env rows] codec(1)
      by (auto simp: json_lines_segment chain_head_append)
  qed
qed simp

text \<open>The store and its archive: the records of each segment, in order.\<close>

definition archive_inv :: "env \<Rightarrow> store \<Rightarrow> message_row list list \<Rightarrow> bool" where
  "archive_inv env s rss \<longleftrightarrow>
     \<not> st_lowRAM s \<and>
     st_segments s = segment_map env 1 rss \<and> st_messageSegment s = length rss \<and>
     message_chain env 0 '''' (concat rss) \<and> list_all (content_ok env) (concat rss) \<and>
     st_messageSeq s = int (length (concat rss)) \<and>
     st_lastMessageHash s = chain_head ms_RecordHash '''' (concat rss) \<and>
     st_messages s = foldl put_row Map.empty (concat rss) \<and>
     st_turnSeq s = foldl max 0 (map ms_TurnSeq (concat rss))"

lemma archive_inv_empty: "archive_inv env (empty_store key) []"
  by (auto simp: archive_inv_def empty_store_def segment_map_def)

text \<open>Where the next record goes, in terms of the segments: the last one, or a new one.\<close>

definition extend_segments :: "nat \<Rightarrow> message_row \<Rightarrow> message_row list list \<Rightarrow> message_row list list" where
  "extend_segments n r rss = (if n = length rss then butlast rss @ [last rss @ [r]] else rss @ [[r]])"

lemma target_segment_cases:
  assumes "archive_inv env s rss"
  shows "target_segment s line = length rss \<and> rss \<noteq> [] \<or> target_segment s line = length rss + 1"
  using assms by (auto simp: archive_inv_def target_segment_def segment_map_def Let_def split: option.split)

definition segment_rows :: "nat \<Rightarrow> message_row list list \<Rightarrow> message_row list" where
  "segment_rows n rss = (if n = length rss then last rss else [])"

lemma segment_content:
  assumes "archive_inv env s rss" "n = length rss \<and> rss \<noteq> [] \<or> n = length rss + 1"
  shows "(case st_segments s n of None \<Rightarrow> [] | Some f \<Rightarrow> f) = segment_file env (segment_rows n rss)"
  using assms by (cases rss rule: rev_cases)
    (auto simp: archive_inv_def segment_map_def segment_rows_def segment_file_def)

lemma concat_extend:
  "n = length rss \<and> rss \<noteq> [] \<or> n = length rss + 1 \<Longrightarrow> concat (extend_segments n r rss) = concat rss @ [r]"
  by (cases rss rule: rev_cases) (auto simp: extend_segments_def)

lemma segment_map_extend:
  assumes "n = length rss \<and> rss \<noteq> [] \<or> n = length rss + 1"
  shows "(segment_map env 1 rss)(n \<mapsto> segment_file env (segment_rows n rss @ [r])) =
    segment_map env 1 (extend_segments n r rss)"
proof (cases "n = length rss")
  case True
  then obtain ps p where "rss = ps @ [p]" using assms by (cases rss rule: rev_cases) auto
  then show ?thesis using True
    by (auto simp: segment_map_def segment_rows_def extend_segments_def fun_eq_iff nth_append)
next
  case False
  then have "n = Suc (length rss)" using assms by auto
  then show ?thesis
    by (auto simp: segment_map_def segment_rows_def extend_segments_def fun_eq_iff nth_append)
qed

lemma seal_record_fields [simp]:
  "ms_MessageSeq (seal_record env s r) = ms_MessageSeq r"
  "ms_TurnSeq (seal_record env s r) = ms_TurnSeq r"
  "ms_MessageID (seal_record env s r) = ms_MessageID r"
  "ms_SchemaVersion (seal_record env s r) = ms_SchemaVersion r"
  "ms_Content (seal_record env s r) = ms_Content r"
  "ms_ExactContentHash (seal_record env s r) = ms_ExactContentHash r"
  "ms_PreviousRecordHash (seal_record env s r) = st_lastMessageHash s"
  "ms_RecordHash (seal_record env s r) = sha_name (env_sha env) (message_core env (seal_record env s r))"
  by (simp_all add: seal_record_def Let_def messageRecordHash_def message_core_def)

definition inserted_row ::
    "env \<Rightarrow> store \<Rightarrow> go_string \<Rightarrow> checkpoint_message \<Rightarrow> go_string \<Rightarrow> time \<Rightarrow> message_row" where
  "inserted_row env s sessionID m mid now = seal_record env s (new_message_row env s sessionID m mid now)"

lemma archive_inv_insert:
  assumes inv: "archive_inv env s rss"
    and ins: "InsertMessage env s sessionID m None mid now Appended = (s', r)"
  shows "\<exists>rss'. archive_inv env s' rss' \<and> concat rss' = concat rss @ [inserted_row env s sessionID m mid now]
    \<and> r = Inr (mid, False)"
proof -
  define row where "row = inserted_row env s sessionID m mid now"
  define n where "n = target_segment s (message_json env row @ [newline])"
  have n: "n = length rss \<and> rss \<noteq> [] \<or> n = length rss + 1"
    using target_segment_cases [OF inv] by (simp add: n_def)
  have content: "(case st_segments s n of None \<Rightarrow> [] | Some f \<Rightarrow> f) @ message_json env row @ [newline] =
      segment_file env (segment_rows n rss @ [row])"
    using segment_content [OF inv n] by (simp add: segment_file_snoc)
  have ram: "\<not> st_lowRAM s" using inv by (simp add: archive_inv_def)
  have fields: "ms_MessageID row = mid" "ms_MessageSeq row = st_messageSeq s + 1"
      "ms_SchemaVersion row = 1" "ms_ExactContentHash row = hashContent (env_sha env) (ms_Content row)"
      "ms_TurnSeq row \<ge> st_turnSeq s" "ms_PreviousRecordHash row = st_lastMessageHash s"
      "ms_RecordHash row = sha_name (env_sha env) (message_core env row)"
    by (simp_all add: row_def inserted_row_def new_message_row_def)
  have s': "s' = s\<lparr>st_messageSegment := n,
      st_segments := (st_segments s)(n \<mapsto> segment_file env (segment_rows n rss @ [row])),
      st_lastMessageHash := ms_RecordHash row, st_messageSeq := ms_MessageSeq row,
      st_turnSeq := ms_TurnSeq row, st_messages := (st_messages s)(mid \<mapsto> row),
      st_Index := UpsertMessage row (st_Index s)\<rparr>" and r: "r = Inr (mid, False)"
    using ins ram content
    by (auto simp: InsertMessage_def appendMessageRecord_def append_file_def Let_def n_def row_def
      inserted_row_def)
  have cat: "concat (extend_segments n row rss) = concat rss @ [row]" by (rule concat_extend [OF n])
  have len: "length (extend_segments n row rss) = n" using n by (auto simp: extend_segments_def)
  have "archive_inv env s' (extend_segments n row rss)"
    using inv fields
    by (simp add: archive_inv_def s' cat len chain_ok_snoc content_ok_def put_row_def
      flip: segment_map_extend [OF n, unfolded One_nat_def])
  then show ?thesis using cat r by (auto simp: row_def)
qed

lemma archive_inv_existing:
  "InsertMessage env s sessionID m (Some row) mid now io = (s', r) \<Longrightarrow> s' = s"
  by (auto simp: InsertMessage_def split: if_splits)

lemma files_of_map:
  "files_of env n rss tail =
     map (\<lambda>i. (segment_name i, segment_file env (rss ! (i - n)) @ (if Suc i = n + length rss then tail else [])))
       [n..<n + length rss]"
proof (induction env n rss tail rule: files_of.induct)
  case (3 env n rows rs rss tail)
  let ?f = "\<lambda>n rss i. (segment_name i, segment_file env (rss ! (i - n)) @ (if Suc i = n + length rss then tail else []))"
  have "map (?f n (rows # rs # rss)) [n + 1..<n + length (rows # rs # rss)] =
      map (?f (n + 1) (rs # rss)) [n + 1..<n + 1 + length (rs # rss)]"
    by (intro map_cong) (auto simp: nth_Cons' Suc_diff_le)
  then show ?case using 3 by (simp add: upt_conv_Cons del: upt_Suc)
qed simp_all

inductive archive_run :: "env \<Rightarrow> go_string \<Rightarrow> store \<Rightarrow> message_row list \<Rightarrow> bool" for env key where
  archive_start: "archive_run env key (empty_store key) []"
| archive_insert:
    "archive_run env key s rows \<Longrightarrow> InsertMessage env s sessionID m None mid now Appended = (s', r) \<Longrightarrow>
       archive_run env key s' (rows @ [inserted_row env s sessionID m mid now])"
| archive_repeat:
    "archive_run env key s rows \<Longrightarrow> InsertMessage env s sessionID m (Some row) mid now io = (s', r) \<Longrightarrow>
       archive_run env key s' rows"

lemma archive_run_inv: "archive_run env key s rows \<Longrightarrow> \<exists>rss. archive_inv env s rss \<and> concat rss = rows"
proof (induction rule: archive_run.induct)
  case archive_start
  show ?case using archive_inv_empty [of env key] by (intro exI [of _ "[]"]) simp
next
  case (archive_insert s rows sessionID m mid now s' r)
  then obtain rss where "archive_inv env s rss" "concat rss = rows" by blast
  then show ?case using archive_inv_insert [OF _ archive_insert.hyps(2)] by blast
next
  case (archive_repeat s rows sessionID m row mid now io s' r)
  then show ?case using archive_inv_existing by metis
qed

definition dir_listing :: "store \<Rightarrow> (go_string \<times> go_string) list" where
  "dir_listing s =
     map (\<lambda>n. (segment_name n, case st_segments s n of None \<Rightarrow> [] | Some f \<Rightarrow> f)) [1..<st_messageSegment s + 1]"

text \<open>A failed append: the segments grow by the bytes that reached the disk.\<close>

lemma InsertMessage_torn:
  assumes inv: "archive_inv env s rss"
    and ins: "InsertMessage env s sessionID m None mid now (Append_Failed k) = (s', r)"
  shows "\<exists>rss'. concat rss' = concat rss \<and> rss' \<noteq> [] \<and>
    dir_listing s' = files_of env 1 rss' (take k (message_json env (inserted_row env s sessionID m mid now) @ [newline]))"
proof -
  define line where "line = message_json env (inserted_row env s sessionID m mid now) @ [newline]"
  define n where "n = target_segment s line"
  have n: "n = length rss \<and> rss \<noteq> [] \<or> n = length rss + 1"
    using target_segment_cases [OF inv] by (simp add: n_def)
  have s': "s' = s\<lparr>st_messageSegment := n,
      st_segments := (st_segments s)(n \<mapsto> segment_file env (segment_rows n rss) @ take k line)\<rparr>"
    using ins segment_content [OF inv n]
    by (simp add: InsertMessage_def appendMessageRecord_def append_file_def Let_def n_def line_def inserted_row_def
      split: option.splits)
  define rss' where "rss' = (if n = length rss then rss else rss @ [[]])"
  have len: "length rss' = n" and ne: "rss' \<noteq> []" and cat: "concat rss' = concat rss"
    using n by (auto simp: rss'_def)
  have files: "files_of env 1 rss' tail =
      map (\<lambda>i. (segment_name i, if i = n then segment_file env (segment_rows n rss) @ tail
        else (case st_segments s i of None \<Rightarrow> [] | Some f \<Rightarrow> f))) [1..<n + 1]" for tail
    unfolding files_of_map len using n inv
    by (intro map_cong)
      (auto simp: rss'_def segment_rows_def archive_inv_def segment_map_def nth_append last_conv_nth
        segment_file_def)
  have "dir_listing s' = map (\<lambda>i. (segment_name i, if i = n then segment_file env (segment_rows n rss) @ take k line
        else (case st_segments s i of None \<Rightarrow> [] | Some f \<Rightarrow> f))) [1..<n + 1]"
    unfolding dir_listing_def by (intro map_cong) (auto simp: s')
  then show ?thesis by (intro exI [of _ rss'] conjI cat ne) (simp only: files flip: line_def)
qed

section \<open>What the archive guarantees\<close>

lemma load_listing:
  assumes inv: "archive_inv env s rss" and codec: "message_codec_ok env (concat rss)"
    and dist: "distinct (map ms_MessageID (concat rss))"
    and rss': "concat rss' = concat rss" "rss' \<noteq> []" and tail: "newline \<notin> set tail"
  shows "\<exists>s''. loadMessageSegments env (empty_store key) (files_of env 1 rss' tail) = Inr s'' \<and>
    st_messages s'' = st_messages s \<and> st_messageSeq s'' = st_messageSeq s \<and>
    st_turnSeq s'' = st_turnSeq s \<and> st_lastMessageHash s'' = st_lastMessageHash s \<and>
    st_segments s'' = segment_map env 1 rss' \<and> st_messageSegment s'' = length rss'"
proof -
  have chain: "message_chain env 0 '''' (concat rss')" "list_all (content_ok env) (concat rss')"
    using inv rss' by (simp_all add: archive_inv_def)
  have "\<exists>s'. segment_loop env 1 0 '''' (empty_store key) (files_of env 1 rss' tail) =
      Inr (0 + int (length (concat rss')), chain_head ms_RecordHash '''' (concat rss'), s') \<and>
    st_messages s' = foldl put_row (st_messages (empty_store key)) (concat rss') \<and>
    st_turnSeq s' = foldl max (st_turnSeq (empty_store key)) (map ms_TurnSeq (concat rss')) \<and>
    st_messageSegment s' = 1 + length rss' - 1 \<and>
    st_segments s' = st_segments (empty_store key) ++ segment_map env 1 rss'"
    using chain codec dist tail rss' by (intro segment_loop_succeeds) (simp_all add: empty_store_def)
  then obtain s' where s': "segment_loop env 1 0 '''' (empty_store key) (files_of env 1 rss' tail) =
      Inr (int (length (concat rss)), chain_head ms_RecordHash '''' (concat rss), s')"
    "st_messages s' = foldl put_row (st_messages (empty_store key)) (concat rss)"
    "st_turnSeq s' = foldl max (st_turnSeq (empty_store key)) (map ms_TurnSeq (concat rss))"
    "st_messageSegment s' = length rss'" "st_segments s' = st_segments (empty_store key) ++ segment_map env 1 rss'"
    unfolding rss'(1) by auto
  have "st_messages (empty_store key) = Map.empty" "st_turnSeq (empty_store key) = 0"
      "st_segments (empty_store key) = Map.empty"
    by (simp_all add: empty_store_def)
  with s' show ?thesis using inv
    by (simp add: loadMessageSegments_def archive_inv_def)
qed


lemma record_loop_rows:
  "record_loop env q h s lines = Inr (q', h', s') \<Longrightarrow>
     \<exists>rows. map (message_unjson env) lines = map Some rows \<and> message_chain env q h rows \<and>
       h' = chain_head ms_RecordHash h rows \<and> q' = q + int (length rows)"
proof (induction lines arbitrary: q h s)
  case (Cons line lines)
  then obtain r where r: "message_unjson env line = Some r" "record_linked env q h r"
      "record_loop env (ms_MessageSeq r) (ms_RecordHash r) (put_message s r) lines = Inr (q', h', s')"
    by (auto split: option.splits if_splits)
  from Cons.IH [OF r(3)] obtain rows where rows: "map (message_unjson env) lines = map Some rows"
      "message_chain env (ms_MessageSeq r) (ms_RecordHash r) rows"
      "h' = chain_head ms_RecordHash (ms_RecordHash r) rows" "q' = ms_MessageSeq r + int (length rows)"
    by blast
  show ?case using r rows
    by (intro exI [of _ "r # rows"]) (auto simp: record_linked_iff chain_head_Cons)
qed auto

text \<open>The lines of a directory listing that loading keeps.\<close>

fun kept_lines :: "(go_string \<times> go_string) list \<Rightarrow> go_string list" where
  "kept_lines [] = []"
| "kept_lines ((fname, raw) # files) =
     (case repair_segment (files = []) raw of Inl _ \<Rightarrow> [] | Inr (kept, _) \<Rightarrow> json_lines kept) @ kept_lines files"

lemma segment_loop_rows:
  "segment_loop env n q h s files = Inr (q', h', s') \<Longrightarrow>
     \<exists>rows. map (message_unjson env) (kept_lines files) = map Some rows \<and> message_chain env q h rows \<and>
       h' = chain_head ms_RecordHash h rows"
proof (induction files arbitrary: n q h s)
  case (Cons p files)
  obtain fname raw where p: "p = (fname, raw)" by (cases p)
  from Cons.prems obtain kept tail q1 h1 s1 where
    1: "repair_segment (files = []) raw = Inr (kept, tail)"
      "record_loop env q h s (json_lines kept) = Inr (q1, h1, s1)"
      "segment_loop env (n + 1) q1 h1
         (s1\<lparr>st_messageSegment := n, st_segments := (st_segments s1)(n \<mapsto> kept)\<rparr>) files = Inr (q', h', s')"
    by (auto simp: p split: if_splits)
  obtain rows where rows: "map (message_unjson env) (json_lines kept) = map Some rows"
      "message_chain env q h rows" "h1 = chain_head ms_RecordHash h rows" "q1 = q + int (length rows)"
    using record_loop_rows [OF 1(2)] by blast
  obtain rows' where rows': "map (message_unjson env) (kept_lines files) = map Some rows'"
      "message_chain env q1 h1 rows'" "h' = chain_head ms_RecordHash h1 rows'"
    using Cons.IH [OF 1(3)] by blast
  show ?case using 1(1) rows rows'
    by (intro exI [of _ "rows @ rows'"]) (auto simp: p chain_ok_append chain_head_append)
qed auto

lemma same_core_same_row:
  assumes "sane_message env x" "sane_message env y" "message_core env x = message_core env y"
    and "ms_RecordHash x = ms_RecordHash y"
  shows "x = y"
proof -
  have "x\<lparr>ms_RecordHash := ''''\<rparr> = y\<lparr>ms_RecordHash := ''''\<rparr>" using assms(1-3) by (simp add: sane_message_def)
  then show ?thesis using assms(4) by (cases x; cases y) simp
qed

lemma same_core_same_rows:
  "\<lbrakk>map (message_core env) xs = map (message_core env) ys; message_chain env q h xs; message_chain env q' h' ys;
    list_all (sane_message env) xs; list_all (sane_message env) ys\<rbrakk> \<Longrightarrow> xs = ys"
proof (induction xs ys arbitrary: q h q' h' rule: list_induct2')
  case (4 x xs y ys)
  have "x = y" using 4(2-6) by (intro same_core_same_row) auto
  moreover have "message_chain env (q + 1) (ms_RecordHash x) xs" "message_chain env (q' + 1) (ms_RecordHash y) ys"
    using 4(3,4) by (metis chain_ok.simps(2))+
  ultimately show ?case using 4(1,2,5,6) by auto
qed simp_all

text \<open>Two archives that load and end in the same record hash hold the same messages, record by
  record, or two different byte strings with the same SHA-256 digest have been found.\<close>

theorem message_tamper_evident:
  assumes "loadMessageSegments env s files = Inr d" "loadMessageSegments env s' files' = Inr d'"
    and "st_lastMessageHash d = st_lastMessageHash d'"
    and "\<And>line row. line \<in> set (kept_lines files) \<union> set (kept_lines files') \<Longrightarrow>
           message_unjson env line = Some row \<Longrightarrow> sane_message env row"
  shows "map (message_unjson env) (kept_lines files) = map (message_unjson env) (kept_lines files') \<or>
         (\<exists>x y. collision (env_sha env) x y)"
proof -
  obtain xs where xs: "map (message_unjson env) (kept_lines files) = map Some xs"
      "message_chain env 0 '''' xs" "st_lastMessageHash d = chain_head ms_RecordHash '''' xs"
    using assms(1) by (auto simp: loadMessageSegments_def dest!: segment_loop_rows)
  obtain ys where ys: "map (message_unjson env) (kept_lines files') = map Some ys"
      "message_chain env 0 '''' ys" "st_lastMessageHash d' = chain_head ms_RecordHash '''' ys"
    using assms(2) by (auto simp: loadMessageSegments_def dest!: segment_loop_rows)
  have sane: "list_all (sane_message env) zs"
    if "map (message_unjson env) ls = map Some zs" "set ls \<subseteq> set (kept_lines files) \<union> set (kept_lines files')"
    for ls zs
    unfolding list_all_iff
  proof
    fix z assume "z \<in> set zs"
    then have "Some z \<in> set (map (message_unjson env) ls)" by (simp add: that(1))
    then obtain l where "l \<in> set ls" "message_unjson env l = Some z" by auto
    then show "sane_message env z" using assms(4) [of l z] that(2) by auto
  qed
  have sx: "list_all (sane_message env) xs" and sy: "list_all (sane_message env) ys"
    using sane [OF xs(1)] sane [OF ys(1)] by auto
  have "map (message_core env) xs = map (message_core env) ys \<or> (\<exists>x y. collision (env_sha env) x y)"
    using records.same_head_same_history [OF xs(2) ys(2) sx sy] xs(3) ys(3) assms(3) by auto
  moreover have "xs = ys" if "map (message_core env) xs = map (message_core env) ys"
    using that same_core_same_rows xs(2) ys(2) sx sy by blast
  ultimately show ?thesis using xs(1) ys(1) by auto
qed

end
