(* ===== verification/Message_Example.thy ===== *)
theory Message_Example
  imports Message_Journal
begin

text \<open>
  A concrete archive: one message is inserted, and the append of a second one is cut off after a byte.
  Also a legacy archive whose migration succeeds but whose journal does not load.
\<close>

definition demo_message :: checkpoint_message where
  "demo_message =
     \<lparr>ck_ExternalMessageID = ''x1'', ck_Role = ''user'', ck_ContentType = ''text'', ck_Content = ''hi'',
      ck_OccurredAt = 1, ck_AssistantID = '''', ck_AssistantName = '''', ck_Hash = ''h''\<rparr>"

definition demo_menv0 :: env where
  "demo_menv0 =
     \<lparr>env_sha = (\<lambda>_. ''d''), env_hmac = (\<lambda>_ _. ''g''), event_json = (\<lambda>_. ''e''), event_unjson = (\<lambda>_. None),
      rotation_json = (\<lambda>_. ''r''), rotation_unjson = (\<lambda>_. None),
      message_json = (\<lambda>r. if ms_RecordHash r = '''' then ''u'' else if ms_MessageSeq r = 1 then ''s'' else ''tt''),
      message_unjson = (\<lambda>_. None)\<rparr>"

definition demo_mrow :: message_row where
  "demo_mrow = inserted_row demo_menv0 (empty_store ''k'') ''S'' demo_message ''g1'' 2"

definition demo_menv :: env where
  "demo_menv = demo_menv0\<lparr>message_unjson := (\<lambda>l. if l = ''s'' then Some demo_mrow
     else if l = ''u'' then Some (demo_mrow\<lparr>ms_RecordHash := ''''\<rparr>) else None)\<rparr>"

definition demo_archive :: store where
  "demo_archive = fst (InsertMessage demo_menv (empty_store ''k'') ''S'' demo_message None ''g1'' 2 Appended)"

lemma demo_menv_sel [simp]:
  "env_sha demo_menv = (\<lambda>_. ''d'')"
  "message_json demo_menv =
     (\<lambda>r. if ms_RecordHash r = '''' then ''u'' else if ms_MessageSeq r = 1 then ''s'' else ''tt'')"
  "message_unjson demo_menv = (\<lambda>l. if l = ''s'' then Some demo_mrow
     else if l = ''u'' then Some (demo_mrow\<lparr>ms_RecordHash := ''''\<rparr>) else None)"
  by (simp_all add: demo_menv_def demo_menv0_def)

lemma demo_mrow_eq: "inserted_row demo_menv (empty_store ''k'') ''S'' demo_message ''g1'' 2 = demo_mrow"
  by (simp add: demo_mrow_def inserted_row_def seal_record_def messageRecordHash_def new_message_row_def
    demo_menv0_def Let_def)

lemma demo_mrow_sel [simp]:
  "ms_RecordHash demo_mrow \<noteq> ''''" "ms_MessageSeq demo_mrow = 1" "ms_MessageID demo_mrow = ''g1''"
  unfolding demo_mrow_def inserted_row_def by (simp_all add: new_message_row_def empty_store_def)

lemma demo_archive_run: "archive_run demo_menv ''k'' demo_archive [demo_mrow]"
proof -
  obtain r where "InsertMessage demo_menv (empty_store ''k'') ''S'' demo_message None ''g1'' 2 Appended =
      (demo_archive, r)"
    by (metis demo_archive_def prod.collapse)
  from archive_insert [OF archive_start this] show ?thesis by (simp add: demo_mrow_eq)
qed

lemma demo_linked:
  "record_linked demo_menv 0 '''' demo_mrow" "ms_SchemaVersion demo_mrow = 1"
  by (simp_all add: record_linked_iff flip: demo_mrow_eq)
    (simp_all add: inserted_row_def, simp_all add: new_message_row_def empty_store_def)

lemma demo_clean: "clean_line ''s''" "clean_line ''tt''"
  by code_simp+

lemma demo_mcodec: "message_codec_ok demo_menv [demo_mrow]"
  using demo_clean by (simp add: message_codec_ok_def)


lemma demo_listing: "dir_listing demo_archive = [(segment_name 1, ''s'' @ [newline])]"
  by (simp add: dir_listing_def demo_archive_def InsertMessage_def appendMessageRecord_def append_file_def Let_def
    target_segment_def empty_store_def seal_record_def messageRecordHash_def new_message_row_def)

theorem message_tamper_evident_witness:
  "map (message_unjson demo_menv) (kept_lines (dir_listing demo_archive)) =
     map (message_unjson demo_menv) (kept_lines (dir_listing demo_archive)) \<or>
   (\<exists>x y. collision (env_sha demo_menv) x y)"
proof -
  have lines: "json_lines (''s'' @ [newline]) = [''s'']" by code_simp
  have kept: "kept_lines (dir_listing demo_archive) = [''s'']"
    using lines by (simp add: demo_listing repair_segment_def complete_file_def)
  have "\<exists>d. loadMessageSegments demo_menv (empty_store ''k'') (dir_listing demo_archive) = Inr d"
    using lines demo_linked
    by (simp add: demo_listing loadMessageSegments_def repair_segment_def complete_file_def empty_store_def)
  then obtain d where d: "loadMessageSegments demo_menv (empty_store ''k'') (dir_listing demo_archive) = Inr d" ..
  show ?thesis
    by (rule message_tamper_evident [OF d d refl])
      (auto simp: kept sane_message_def message_core_def)
qed

section \<open>A migration that cannot be read back\<close>

text \<open>A legacy row that carries a sequence number other than the next one is journalled as it is; the
  journal then starts in the middle of the chain, and the next start refuses it.\<close>

definition legacy_row :: message_row where
  "legacy_row = demo_mrow\<lparr>ms_MessageSeq := 2, ms_PreviousRecordHash := '''', ms_RecordHash := ''''\<rparr>"

definition legacy_env0 :: env where
  "legacy_env0 = demo_menv0\<lparr>message_json := (\<lambda>r. if ms_RecordHash r = '''' then ''u'' else ''s'')\<rparr>"

definition legacy_sealed :: message_row where
  "legacy_sealed = seal_record legacy_env0 (empty_store ''k'') legacy_row"

definition legacy_env :: env where
  "legacy_env = legacy_env0\<lparr>message_unjson := (\<lambda>l. if l = ''s'' then Some legacy_sealed
     else if l = ''u'' then Some legacy_row else None)\<rparr>"

theorem migration_unreadable:
  "\<exists>s. loadMessages legacy_env (empty_store ''k'') [] (''u'' @ [newline]) [''g1''] = Inr s \<and>
     loadMessageSegments legacy_env (empty_store ''k'') (dir_listing s) = Inl ''message hash chain invalid''"
proof -
  have read: "readJSONL (''u'' @ [newline]) = Inr [''u'']" by code_simp
  have lines: "json_lines (''s'' @ [newline]) = [''s'']" by code_simp
  have row: "message_unjson legacy_env ''u'' = Some legacy_row" "message_unjson legacy_env ''s'' = Some legacy_sealed"
    by (simp_all add: legacy_env_def)
  have fields: "ms_MessageSeq legacy_row = 2" "ms_MessageID legacy_row = ''g1''" "ms_SchemaVersion legacy_row = 1"
      "ms_MessageSeq legacy_sealed = 2" "ms_SchemaVersion legacy_sealed = 1" "ms_RecordHash legacy_sealed \<noteq> ''''"
    unfolding legacy_sealed_def using demo_linked by (simp_all add: legacy_row_def)
  have seal: "seal_record legacy_env s legacy_row = legacy_sealed" if "st_lastMessageHash s = ''''" for s
    using that by (simp add: legacy_sealed_def seal_record_def messageRecordHash_def legacy_env_def legacy_env0_def
      demo_menv0_def empty_store_def Let_def)
  have json: "message_json legacy_env legacy_sealed = ''s''"
    using fields by (simp add: legacy_env_def legacy_env0_def)
  define S where "S = (empty_store ''k'')\<lparr>st_messages := [''g1'' \<mapsto> legacy_row], st_messageSeq := 2,
      st_turnSeq := max 0 (ms_TurnSeq legacy_row)\<rparr>"
  define T where "T = S\<lparr>st_lastMessageHash := '''', st_messageSegment := 0\<rparr>"
  define U where "U = T\<lparr>st_messageSegment := 1, st_segments := [1 \<mapsto> ''s'' @ [newline]],
      st_lastMessageHash := ms_RecordHash legacy_sealed\<rparr>"
  define s where "s = U\<lparr>st_messages := (st_messages U)(''g1'' \<mapsto> legacy_sealed)\<rparr>"
  have loop: "legacy_loop legacy_env (empty_store ''k'') [] [''u''] = Inr (S, [])"
    using fields by (simp add: row S_def) (simp add: empty_store_def)
  have app: "appendMessageRecord legacy_env T legacy_row Appended = (U, Inr legacy_sealed)"
    using seal [of T] json
    by (simp add: appendMessageRecord_def target_segment_def append_file_def Let_def U_def T_def S_def
      empty_store_def)
  have "st_messages T ''g1'' = Some legacy_row" by (simp add: T_def S_def)
  then have "journal_legacy legacy_env T ''g1'' = Inr s"
    using app fields by (simp add: journal_legacy_def go_get_def s_def)
  then have s: "loadMessages legacy_env (empty_store ''k'') [] (''u'' @ [newline]) [''g1''] = Inr s"
    using loop read by (simp add: loadMessages_def loadLegacyMessages_def sort_by_def initializeMessageJournal_def
      flip: T_def)
  have d: "st_messageSegment s = 1" "st_segments s = [1 \<mapsto> ''s'' @ [newline]]"
    by (simp_all add: s_def U_def)
  have "dir_listing s = [(segment_name 1, ''s'' @ [newline])]" by (simp add: dir_listing_def d)
  then have "loadMessageSegments legacy_env (empty_store ''k'') (dir_listing s) = Inl ''message hash chain invalid''"
    using lines fields
    by (simp add: loadMessageSegments_def repair_segment_def complete_file_def row record_linked_iff)
  with s show ?thesis by blast
qed

end
