(* ===== verification/Rank_Model.thy ===== *)
theory Rank_Model
  imports Store_State
begin

text \<open>
  \<open>lite/model.go\<close>: how a memory matches a query, and the key by which hits are ordered.  Matches are
  classified on a ladder of classes; ranking compares classes first and ends in the memory identifier,
  so that the order is total.  Token sets are HOL sets, floats are reals.
\<close>

section \<open>Activation\<close>

definition ActivationTauSessions :: "real \<Rightarrow> real" where
  "ActivationTauSessions importance =
     (if importance \<ge> 9 / 10 then 90 else if importance \<ge> 7 / 10 then 60
      else if importance \<ge> 1 / 2 then 45 else if importance \<ge> 3 / 10 then 30 else 15)"

definition ActivationEffective :: "real \<Rightarrow> int \<Rightarrow> real \<Rightarrow> real" where
  "ActivationEffective activation sessionsSince tau =
     (if activation \<le> 0 \<or> sessionsSince \<le> 0 then activation
      else if tau \<le> 0 then 0
      else activation * exp (- real_of_int sessionsSince / tau))"

definition ActivationFor :: "go_string \<Rightarrow> real \<Rightarrow> int \<Rightarrow> real \<Rightarrow> real" where
  "ActivationFor kind activation sessionsSince importance =
     (if IdentityKind kind then activation
      else ActivationEffective activation sessionsSince (ActivationTauSessions importance))"

section \<open>Match classes\<close>

datatype match_class =
  MatchNone | MatchSemantic | MatchFuzzy | MatchContent | MatchSubject | MatchExact

fun class_int :: "match_class \<Rightarrow> int" where
  "class_int MatchNone = 0" | "class_int MatchSemantic = 1" | "class_int MatchFuzzy = 2"
| "class_int MatchContent = 3" | "class_int MatchSubject = 4" | "class_int MatchExact = 5"

lemma class_int_eq [simp]: "class_int a = class_int b \<longleftrightarrow> a = b"
  by (cases a; cases b) simp_all

instantiation match_class :: linorder
begin

definition less_eq_match_class :: "match_class \<Rightarrow> match_class \<Rightarrow> bool" where
  "less_eq_match_class a b \<longleftrightarrow> class_int a \<le> class_int b"

definition less_match_class :: "match_class \<Rightarrow> match_class \<Rightarrow> bool" where
  "less_match_class a b \<longleftrightarrow> class_int a < class_int b"

instance
  by standard (auto simp: less_eq_match_class_def less_match_class_def)

end

record match_result =
  mt_Class :: match_class
  mt_Strength :: real

definition lowerTrim :: "go_string \<Rightarrow> go_string" where
  "lowerTrim s = to_lower (trim_space s)"

definition phraseContains :: "go_string \<Rightarrow> go_string \<Rightarrow> bool" where
  "phraseContains haystack needle = (if needle = '''' then False else contains haystack needle)"

definition subjectPhraseContains :: "go_string \<Rightarrow> go_string \<Rightarrow> bool" where
  "subjectPhraseContains subject needle = contains subject needle"

definition contentPhraseContains :: "go_string \<Rightarrow> go_string \<Rightarrow> bool" where
  "contentPhraseContains content needle = contains content needle"

definition mixedTokenSubjectMatch :: "go_string \<Rightarrow> go_string \<Rightarrow> bool" where
  "mixedTokenSubjectMatch subject query =
     (let fs = Go_Text.fields query in
      if length fs < 2 then False else list_all (\<lambda>token. contains subject (to_lower token)) fs)"

section \<open>Retrieval tokens\<close>

definition has_suffix :: "go_string \<Rightarrow> go_string \<Rightarrow> bool" where
  "has_suffix s t = suffix t s"

definition trim_suffix :: "go_string \<Rightarrow> go_string \<Rightarrow> go_string" where
  "trim_suffix s t = (if suffix t s then take (length s - length t) s else s)"

definition trimDoubledFinalASCII :: "go_string \<Rightarrow> go_string" where
  "trimDoubledFinalASCII value =
     (if length value \<ge> 2 \<and> value ! (length value - 1) = value ! (length value - 2)
      then take (length value - 1) value else value)"

definition retrievalStem :: "go_string \<Rightarrow> go_string" where
  "retrievalStem token =
     (if list_ex (\<lambda>r. r < 97 \<or> r > 122) (runes token) then token
      else
        (let stem =
           (if length token > 5 \<and> has_suffix token ''ing''
            then trimDoubledFinalASCII (trim_suffix token ''ing'')
            else if length token > 4 \<and> has_suffix token ''ied'' then trim_suffix token ''ied'' @ ''y''
            else if length token > 4 \<and> has_suffix token ''ed''
            then trimDoubledFinalASCII (trim_suffix token ''ed'')
            else if length token > 3 \<and> has_suffix token ''s'' \<and> \<not> has_suffix token ''ss'' \<and>
                    \<not> has_suffix token ''us'' \<and> \<not> has_suffix token ''is''
            then trim_suffix token ''s'' else token) in
         if length stem < 2 then token else stem))"

definition retrievalStopWords :: "go_string set" where
  "retrievalStopWords = set
     [''about'', ''after'', ''and'', ''are'', ''before'', ''can'', ''could'', ''did'', ''does'', ''for'',
      ''from'', ''how'', ''i'', ''me'', ''my'', ''into'', ''our'', ''should'', ''that'', ''request'',
      ''the'', ''this'', ''was'', ''were'', ''what'', ''when'', ''where'', ''which'', ''will'', ''with'',
      ''would'', ''you'', ''your'']"

definition retrievalSynonyms :: "go_string \<Rightarrow> go_string list" where
  "retrievalSynonyms stem =
     (case map_of
        [(''backup'', [''copy'', ''snapshot'']), (''copy'', [''backup'', ''snapshot'']),
         (''snapshot'', [''backup'', ''copy'']), (''recover'', [''restore'', ''restoration'']),
         (''recovery'', [''restore'', ''restoration'']),
         (''restoration'', [''recover'', ''recovery'', ''restore'']),
         (''restore'', [''recover'', ''recovery'', ''restoration''])] stem of
        None \<Rightarrow> [] | Some l \<Rightarrow> l)"

definition tokenSetHasDigit :: "go_string set \<Rightarrow> bool" where
  "tokenSetHasDigit tokens \<longleftrightarrow> (\<exists>token \<in> tokens. list_ex (\<lambda>r. 48 \<le> r \<and> r \<le> 57) (runes token))"

text \<open>\<open>strings.NewReplacer(old, new, ...)\<close>: at each position the first matching pair is replaced.\<close>

function replacer :: "(go_string \<times> go_string) list \<Rightarrow> go_string \<Rightarrow> go_string" where
  "replacer pairs [] = []"
| "replacer pairs (c # cs) =
     (case find (\<lambda>p. fst p \<noteq> [] \<and> prefix (fst p) (c # cs)) pairs of
        Some (old, new) \<Rightarrow> new @ replacer pairs (drop (length old - 1) cs)
      | None \<Rightarrow> c # replacer pairs cs)"
  by pat_completeness auto
termination by (relation "measure (\<lambda>(_, s). length s)") auto

definition retrievalTokenSet :: "go_string \<Rightarrow> go_string set" where
  "retrievalTokenSet value =
     (let normalized = to_lower value;
          conceptExpansion = tokenSetHasDigit (tokenSet normalized);
          normalized = (if conceptExpansion then
             replacer [(''cannot be changed'', ''cannot be changed immutable''),
                       ([CHR ''c'', CHR ''a'', CHR ''n'', CHR 0x27, CHR ''t''] @ '' be changed'',
                        [CHR ''c'', CHR ''a'', CHR ''n'', CHR 0x27, CHR ''t''] @ '' be changed immutable'')]
               normalized else normalized);
          original = tokenSet normalized;
          filtered = (\<Union>token \<in> original.
             (let stem = retrievalStem token in
              if token \<notin> retrievalStopWords \<and> stem \<notin> retrievalStopWords
              then insert stem (if conceptExpansion then set (retrievalSynonyms stem) else {})
              else {})) in
      if filtered = {} then original else filtered)"

section \<open>Strength of a match\<close>

text \<open>The loop over the start positions of \<open>needle\<close> in \<open>field\<close>, over the runes of both.\<close>

definition model_isWordRune :: "rune \<Rightarrow> bool" where
  "model_isWordRune r \<longleftrightarrow> r = 95 \<or> (97 \<le> r \<and> r \<le> 122) \<or> (65 \<le> r \<and> r \<le> 90) \<or> (48 \<le> r \<and> r \<le> 57)"

definition fieldTokenPresent :: "go_string \<Rightarrow> go_string \<Rightarrow> bool" where
  "fieldTokenPresent field needle =
     (let rs = runes field; n = length (runes needle) in
      if n = 0 then False
      else list_ex (\<lambda>i. i + n \<le> length rs \<and> utf8 (take n (drop i rs)) = needle \<and>
                 (i = 0 \<or> \<not> model_isWordRune (rs ! (i - 1))) \<and>
                 (i + n \<ge> length rs \<or> \<not> model_isWordRune (rs ! (i + n)))) [0..<length rs])"

definition MatchStrength :: "go_string \<Rightarrow> go_string \<Rightarrow> real" where
  "MatchStrength query field =
     (let q = retrievalTokenSet query in
      if q = {} then 0
      else
        (let fieldLower = to_lower field;
             hit = card {token \<in> q. fieldTokenPresent fieldLower token};
             ratio = real hit / real (card q) in
         if ratio = 0 then 0
         else
           (let coverage =
              (if card q > 1 \<or> \<not> containsCJK query then
                 (let c = real (length (to_lower (trim_space query))) / real (max 1 (length fieldLower)) in
                  if c > 1 / 10 then 1 / 10 else c)
               else 0) in
            round6 (ratio * (9 / 10) + coverage * (1 / 10)))))"

definition lite_cjkRuns :: "go_string \<Rightarrow> go_string list" where
  "lite_cjkRuns value = map utf8 (maximal_runs is_cjk (runes value))"

definition overlapStrength :: "go_string \<Rightarrow> go_string \<Rightarrow> real" where
  "overlapStrength query text =
     (let q = retrievalTokenSet query in
      if q = {} then 0
      else
        (let matched = card (q \<inter> retrievalTokenSet text) in
         if matched = 0 then
           (if list_ex (\<lambda>run. length (runes run) \<ge> 2 \<and> contains text run) (lite_cjkRuns query)
            then 3 / 5 else 0)
         else real matched / real (card q)))"

definition ClassifyMatch :: "memory_row \<Rightarrow> go_string \<Rightarrow> match_result" where
  "ClassifyMatch row query =
     (let q = lowerTrim query in
      if q = '''' then \<lparr>mt_Class = MatchNone, mt_Strength = 0\<rparr>
      else
        (let subject = lowerTrim (mm_Subject row);
             content = lowerTrim (mm_Content row);
             sim = trigramSimilarity q (subject @ '' '' @ content);
             overlap = overlapStrength q (subject @ '' '' @ content);
             otherwise =
               (if sim \<ge> 3 / 10 then \<lparr>mt_Class = MatchFuzzy, mt_Strength = sim\<rparr>
                else if overlap > 0
                then \<lparr>mt_Class = MatchFuzzy, mt_Strength = 2 / 5 + 2 / 5 * overlap\<rparr>
                else \<lparr>mt_Class = MatchNone, mt_Strength = 0\<rparr>) in
         if subject = q then \<lparr>mt_Class = MatchExact, mt_Strength = 1\<rparr>
         else if containsCJK q then
           (if subjectPhraseContains subject q
            then \<lparr>mt_Class = MatchSubject, mt_Strength = MatchStrength query subject\<rparr>
            else if contentPhraseContains content q
            then \<lparr>mt_Class = MatchContent, mt_Strength = MatchStrength query content\<rparr>
            else if mixedTokenSubjectMatch subject q
            then \<lparr>mt_Class = MatchSubject, mt_Strength = MatchStrength query subject\<rparr>
            else otherwise)
         else if phraseContains subject q
         then \<lparr>mt_Class = MatchSubject, mt_Strength = MatchStrength query subject\<rparr>
         else if phraseContains content q
         then \<lparr>mt_Class = MatchContent, mt_Strength = MatchStrength query content\<rparr>
         else otherwise))"

section \<open>Scores and keys\<close>

definition confidenceFactor :: "real \<Rightarrow> bool \<Rightarrow> real" where
  "confidenceFactor confidence disputed =
     (if disputed then 1 / 4 else if confidence \<ge> 9 / 10 then 1 else if confidence \<ge> 7 / 10 then 17 / 20
      else if confidence \<ge> 1 / 2 then 3 / 5 else if confidence \<ge> 3 / 10 then 2 / 5 else 1 / 4)"

definition activationFactor :: "real \<Rightarrow> real" where
  "activationFactor activation =
     (if activation \<le> 0 then 1 / 10 else if activation > 1 then 1 else activation)"

definition DisplayScore :: "match_result \<Rightarrow> real \<Rightarrow> real \<Rightarrow> bool \<Rightarrow> bool \<Rightarrow> real" where
  "DisplayScore m activation confidence disputed project =
     (if mt_Class m = MatchNone then 0
      else
        (let base = real_of_int (class_int (mt_Class m)) / 5;
             base = base + 1 / 10 * mt_Strength m;
             base = (if project then base + 1 / 20 else base);
             score = base * confidenceFactor confidence disputed * activationFactor activation in
         round6 (if score > 1 then 1 else score)))"

record rank_key =
  rk_ScopeEligible :: int
  rk_Class :: match_class
  rk_IdentityCoreGlobal :: int
  rk_Strength :: real
  rk_Confidence :: real
  rk_Validity :: int
  rk_Activation :: real
  rk_Importance :: real
  rk_UpdatedAt :: time
  rk_MemoryID :: go_string

definition RankKeyFor :: "memory_row \<Rightarrow> match_result \<Rightarrow> int \<Rightarrow> rank_key" where
  "RankKeyFor row match sessionsSince =
     \<lparr>rk_ScopeEligible = 1, rk_Class = mt_Class match,
      rk_IdentityCoreGlobal =
        (if IdentityKind (mm_Kind row) then (if mm_ScopeType row = ''GLOBAL'' then 2 else 1) else 0),
      rk_Strength = mt_Strength match,
      rk_Confidence = confidenceFactor (mm_Confidence row) (mm_Disputed row),
      rk_Validity =
        (if mm_Lifecycle row = ''ACTIVE'' then (if mm_Disputed row then 1 else 2)
         else if mm_Lifecycle row = ''SUPERSEDED'' then 1 else 0),
      rk_Activation = ActivationFor (mm_Kind row) (mm_Activation row) sessionsSince (mm_Importance row),
      rk_Importance = mm_Importance row, rk_UpdatedAt = mm_UpdatedAt row, rk_MemoryID = mm_MemoryID row\<rparr>"

definition lessKey :: "rank_key \<Rightarrow> rank_key \<Rightarrow> bool" where
  "lessKey a b =
     (if rk_ScopeEligible a \<noteq> rk_ScopeEligible b then rk_ScopeEligible a > rk_ScopeEligible b
      else if rk_Class a \<noteq> rk_Class b then rk_Class a > rk_Class b
      else if rk_IdentityCoreGlobal a \<noteq> rk_IdentityCoreGlobal b
      then rk_IdentityCoreGlobal a > rk_IdentityCoreGlobal b
      else if rk_Strength a \<noteq> rk_Strength b then rk_Strength a > rk_Strength b
      else if rk_Confidence a \<noteq> rk_Confidence b then rk_Confidence a > rk_Confidence b
      else if rk_Validity a \<noteq> rk_Validity b then rk_Validity a > rk_Validity b
      else if rk_Activation a \<noteq> rk_Activation b then rk_Activation a > rk_Activation b
      else if rk_Importance a \<noteq> rk_Importance b then rk_Importance a > rk_Importance b
      else if rk_UpdatedAt a \<noteq> rk_UpdatedAt b then rk_UpdatedAt a > rk_UpdatedAt b
      else bytes_less (rk_MemoryID a) (rk_MemoryID b))"

section \<open>The order of the hits\<close>

text \<open>One field of a lexicographic comparison, larger values first.\<close>

definition desc_by :: "('a \<Rightarrow> 'b::linorder) \<Rightarrow> ('a \<Rightarrow> 'a \<Rightarrow> bool) \<Rightarrow> 'a \<Rightarrow> 'a \<Rightarrow> bool" where
  "desc_by f rest a b = (if f a \<noteq> f b then f a > f b else rest a b)"

lemma desc_by_asymp: "asymp rest \<Longrightarrow> asymp (desc_by f rest)"
  by (auto simp: asymp_on_def desc_by_def split: if_splits)

lemma desc_by_transp: "transp rest \<Longrightarrow> transp (desc_by f rest)"
  by (intro transpI) (auto simp: desc_by_def split: if_splits dest: transpD)

definition total_on_key :: "('a \<Rightarrow> 'k) \<Rightarrow> ('a \<Rightarrow> 'a \<Rightarrow> bool) \<Rightarrow> bool" where
  "total_on_key k rest \<longleftrightarrow> (\<forall>x y. k x \<noteq> k y \<longrightarrow> rest x y \<or> rest y x)"

lemma desc_by_total: "total_on_key k rest \<Longrightarrow> total_on_key k (desc_by f rest)"
  by (auto simp: total_on_key_def desc_by_def)

lemma lessKey_desc_by:
  "lessKey =
     desc_by rk_ScopeEligible (desc_by rk_Class (desc_by rk_IdentityCoreGlobal (desc_by rk_Strength
       (desc_by rk_Confidence (desc_by rk_Validity (desc_by rk_Activation (desc_by rk_Importance
         (desc_by rk_UpdatedAt (\<lambda>a b. bytes_less (rk_MemoryID a) (rk_MemoryID b))))))))))"
  by (intro ext) (simp only: lessKey_def desc_by_def)

lemma lessKey_asymp: "asymp lessKey"
  unfolding lessKey_desc_by by (intro desc_by_asymp) (auto simp: asymp_on_def bytes_less_asym)

lemma lessKey_transp: "transp lessKey"
  unfolding lessKey_desc_by by (intro desc_by_transp) (auto simp: transp_def intro: bytes_less_trans)

lemma lessKey_total: "total_on_key rk_MemoryID lessKey"
  unfolding lessKey_desc_by by (intro desc_by_total) (simp add: total_on_key_def bytes_less_total)

interpretation rank: go_less lessKey rk_MemoryID
proof
  show "lessKey x y \<Longrightarrow> \<not> lessKey y x" for x y by (rule asympD [OF lessKey_asymp])
  show "\<lbrakk>lessKey x y; lessKey y z\<rbrakk> \<Longrightarrow> lessKey x z" for x y z by (rule transpD [OF lessKey_transp])
  show "rk_MemoryID x \<noteq> rk_MemoryID y \<Longrightarrow> lessKey x y \<or> lessKey y x" for x y
    using lessKey_total by (simp add: total_on_key_def)
qed

section \<open>Bounds\<close>

lemma finite_tokenSet [simp]: "finite (tokenSet s)"
  by (simp add: tokenSet_def)

lemma finite_retrievalTokenSet [simp]: "finite (retrievalTokenSet s)"
  by (simp add: retrievalTokenSet_def Let_def)

lemma round6_bounds:
  assumes "0 \<le> x" "x \<le> 1"
  shows "0 \<le> round6 x \<and> round6 x \<le> 1"
proof -
  have "0 \<le> \<lfloor>x * 1000000 + 1 / 2\<rfloor>" using assms by simp
  moreover have "\<lfloor>x * 1000000 + 1 / 2\<rfloor> \<le> \<lfloor>1 * 1000000 + 1 / 2 :: real\<rfloor>"
    using assms by (intro floor_mono) simp
  moreover have "\<lfloor>1 * 1000000 + 1 / 2 :: real\<rfloor> = 1000000" by (rule floor_unique) simp_all
  ultimately show ?thesis using assms by (simp add: round6_def go_trunc_def)
qed

lemma ratio_bounds:
  assumes "finite A" "B \<subseteq> A"
  shows "0 \<le> real (card B) / real (card A) \<and> real (card B) / real (card A) \<le> 1"
  using card_mono [OF assms] by (cases "card A = 0") (simp_all add: divide_le_eq_1)

lemma overlapStrength_bounds: "0 \<le> overlapStrength q t \<and> overlapStrength q t \<le> 1"
  using ratio_bounds [of "retrievalTokenSet q" "retrievalTokenSet q \<inter> retrievalTokenSet t"]
  by (simp add: overlapStrength_def Let_def)

lemma MatchStrength_bounds: "0 \<le> MatchStrength query field \<and> MatchStrength query field \<le> 1"
proof -
  define q where "q = retrievalTokenSet query"
  define ratio where "ratio = real (card {token \<in> q. fieldTokenPresent (to_lower field) token}) / real (card q)"
  define coverage where "coverage = (if card q > 1 \<or> \<not> containsCJK query then
      (let c = real (length (to_lower (trim_space query))) / real (max 1 (length (to_lower field))) in
       if c > 1 / 10 then 1 / 10 else c) else 0)"
  have r: "0 \<le> ratio" "ratio \<le> 1" using ratio_bounds [of q "{token \<in> q. fieldTokenPresent (to_lower field) token}"]
    by (simp_all add: ratio_def q_def)
  have c: "0 \<le> coverage" "coverage \<le> 1 / 10" by (simp_all add: coverage_def Let_def)
  have "MatchStrength query field =
      (if q = {} then 0 else if ratio = 0 then 0 else round6 (ratio * (9 / 10) + coverage * (1 / 10)))"
    by (simp only: MatchStrength_def Let_def q_def ratio_def coverage_def)
  then show ?thesis using round6_bounds [of "ratio * (9 / 10) + coverage * (1 / 10)"] r c by auto
qed

lemma ClassifyMatch_Strength: "0 \<le> mt_Strength (ClassifyMatch row query) \<and> mt_Strength (ClassifyMatch row query) \<le> 1"
proof -
  have o: "0 \<le> 2 / 5 + 2 * overlapStrength q t / 5" "2 / 5 + 2 * overlapStrength q t / 5 \<le> 1" for q t
    using overlapStrength_bounds [of q t] by linarith+
  show ?thesis unfolding ClassifyMatch_def Let_def
    by (simp add: o MatchStrength_bounds trigramSimilarity_bounds)
qed

lemma confidenceFactor_bounds: "1 / 4 \<le> confidenceFactor c d \<and> confidenceFactor c d \<le> 1"
  by (simp add: confidenceFactor_def)

lemma activationFactor_bounds: "0 < activationFactor a \<and> activationFactor a \<le> 1"
  by (simp add: activationFactor_def)

lemma DisplayScore_bounds:
  assumes "0 \<le> mt_Strength m"
  shows "0 \<le> DisplayScore m a c d p \<and> DisplayScore m a c d p \<le> 1"
proof (cases "mt_Class m = MatchNone")
  case False
  define base where "base = real_of_int (class_int (mt_Class m)) / 5 + 1 / 10 * mt_Strength m +
      (if p then 1 / 20 else 0)"
  define score where "score = base * confidenceFactor c d * activationFactor a"
  have "0 \<le> class_int (mt_Class m)" by (cases "mt_Class m") simp_all
  then have "0 \<le> base" using assms by (simp add: base_def)
  then have "0 \<le> score"
    using confidenceFactor_bounds [of c d] activationFactor_bounds [of a] by (simp add: score_def)
  moreover have "DisplayScore m a c d p = round6 (if score > 1 then 1 else score)"
    using False by (simp add: DisplayScore_def Let_def score_def base_def)
  ultimately show ?thesis using round6_bounds [of "if score > 1 then 1 else score"] by auto
qed (simp add: DisplayScore_def)

section \<open>Properties\<close>

text \<open>The class of a match is determined by the first rung of the ladder that holds: no query, the
  subject itself, the query inside the subject, inside the content, similarity or token overlap.\<close>

theorem ClassifyMatch_class:
  "mt_Class (ClassifyMatch row query) =
    (let q = lowerTrim query; subject = lowerTrim (mm_Subject row); content = lowerTrim (mm_Content row);
         text = subject @ '' '' @ content in
     if q = '''' then MatchNone
     else if subject = q then MatchExact
     else if contains subject q then MatchSubject
     else if contains content q then MatchContent
     else if containsCJK q \<and> mixedTokenSubjectMatch subject q then MatchSubject
     else if trigramSimilarity q text \<ge> 3 / 10 \<or> overlapStrength q text > 0 then MatchFuzzy
     else MatchNone)"
proof -
  define q subject content where "q = lowerTrim query" and "subject = lowerTrim (mm_Subject row)"
    and "content = lowerTrim (mm_Content row)"
  define fuzzy where "fuzzy =
      (if trigramSimilarity q (subject @ '' '' @ content) \<ge> 3 / 10
       then \<lparr>mt_Class = MatchFuzzy, mt_Strength = trigramSimilarity q (subject @ '' '' @ content)\<rparr>
       else if overlapStrength q (subject @ '' '' @ content) > 0
       then \<lparr>mt_Class = MatchFuzzy, mt_Strength = 2 / 5 + 2 / 5 * overlapStrength q (subject @ '' '' @ content)\<rparr>
       else \<lparr>mt_Class = MatchNone, mt_Strength = 0\<rparr>)"
  have f: "mt_Class fuzzy = (if trigramSimilarity q (subject @ '' '' @ content) \<ge> 3 / 10 \<or>
      overlapStrength q (subject @ '' '' @ content) > 0 then MatchFuzzy else MatchNone)"
    by (simp add: fuzzy_def)
  have c: "ClassifyMatch row query =
      (if q = '''' then \<lparr>mt_Class = MatchNone, mt_Strength = 0\<rparr>
       else if subject = q then \<lparr>mt_Class = MatchExact, mt_Strength = 1\<rparr>
       else if containsCJK q then
         (if contains subject q then \<lparr>mt_Class = MatchSubject, mt_Strength = MatchStrength query subject\<rparr>
          else if contains content q then \<lparr>mt_Class = MatchContent, mt_Strength = MatchStrength query content\<rparr>
          else if mixedTokenSubjectMatch subject q
          then \<lparr>mt_Class = MatchSubject, mt_Strength = MatchStrength query subject\<rparr> else fuzzy)
       else if phraseContains subject q
       then \<lparr>mt_Class = MatchSubject, mt_Strength = MatchStrength query subject\<rparr>
       else if phraseContains content q
       then \<lparr>mt_Class = MatchContent, mt_Strength = MatchStrength query content\<rparr> else fuzzy)"
    by (simp only: ClassifyMatch_def Let_def q_def subject_def content_def fuzzy_def
      subjectPhraseContains_def contentPhraseContains_def)
  show ?thesis
    unfolding Let_def q_def [symmetric] subject_def [symmetric] content_def [symmetric] f [symmetric] c
    by (auto simp: phraseContains_def)
qed

text \<open>The score on the wire of any row against any query lies between 0 and 1, and so does the strength
  within its class.\<close>

theorem DisplayScore_unit:
  "0 \<le> DisplayScore (ClassifyMatch row query) a c d p \<and> DisplayScore (ClassifyMatch row query) a c d p \<le> 1 \<and>
   0 \<le> mt_Strength (ClassifyMatch row query) \<and> mt_Strength (ClassifyMatch row query) \<le> 1"
  using DisplayScore_bounds ClassifyMatch_Strength by simp

lemma lessKey_by_class:
  "rk_ScopeEligible a = rk_ScopeEligible b \<Longrightarrow> rk_Class b < rk_Class a \<Longrightarrow> lessKey a b"
  by (simp only: lessKey_desc_by desc_by_def [of rk_ScopeEligible] desc_by_def [of rk_Class]) auto

lemma RankKeyFor_head [simp]:
  "rk_ScopeEligible (RankKeyFor row m n) = 1" "rk_Class (RankKeyFor row m n) = mt_Class m"
  by (simp_all add: RankKeyFor_def)

lemma lessKey_class:
  "mt_Class m' < mt_Class m \<Longrightarrow> lessKey (RankKeyFor row m n) (RankKeyFor row' m' n')"
  by (rule lessKey_by_class) simp_all

text \<open>C10: a memory whose subject is the query ranks before every memory whose subject is not, whatever
  their confidence, activation, importance, kind and age.\<close>

theorem exact_subject_protected:
  assumes "lowerTrim query \<noteq> ''''" "lowerTrim (mm_Subject row) = lowerTrim query"
    and "lowerTrim (mm_Subject row') \<noteq> lowerTrim query"
  shows "lessKey (RankKeyFor row (ClassifyMatch row query) n) (RankKeyFor row' (ClassifyMatch row' query) n')"
proof (rule lessKey_class)
  have "mt_Class (ClassifyMatch row query) = MatchExact"
    using assms(1,2) by (simp add: ClassifyMatch_def Let_def)
  moreover have "mt_Class (ClassifyMatch row' query) \<noteq> MatchExact"
    using assms by (simp add: ClassifyMatch_def Let_def)
  ultimately show "mt_Class (ClassifyMatch row' query) < mt_Class (ClassifyMatch row query)"
    by (cases "mt_Class (ClassifyMatch row' query)") (simp_all add: less_match_class_def)
qed

text \<open>Hits with distinct memory identifiers come out in one order, sorted by the key, whatever order
  they arrived in.\<close>

theorem ranking_deterministic:
  assumes "distinct (map rk_MemoryID keys)" "mset keys = mset keys'"
  shows "sort_by lessKey keys = sort_by lessKey keys' \<and> sorted_wrt lessKey (sort_by lessKey keys)"
  using rank.sort_deterministic [OF assms] rank.sort_sorted [OF assms(1)] by simp

text \<open>The activation of a memory that is not an identity kind shrinks with every session it is not used
  and stays positive; an identity memory keeps its activation.\<close>

theorem activation_cools:
  assumes "0 < activation" "0 \<le> n" "n < n'"
  shows "(if IdentityKind kind
          then ActivationFor kind activation n' importance = activation
          else 0 < ActivationFor kind activation n' importance \<and>
               ActivationFor kind activation n' importance < ActivationFor kind activation n importance)"
proof -
  have tau: "0 < ActivationTauSessions importance" by (simp add: ActivationTauSessions_def)
  have "exp (- real_of_int n' / t) < exp (- real_of_int n / t)" if "0 < t" for t :: real
    using assms(3) that by (simp add: divide_strict_right_mono)
  from this [OF tau] show ?thesis using assms tau
    by (auto simp: ActivationFor_def ActivationEffective_def)
qed

definition sample_row :: "go_string \<Rightarrow> memory_row" where
  "sample_row subject =
     \<lparr>mm_SchemaVersion = 4, mm_MemoryID = ''m1'', mm_Kind = ''FACT'', mm_Subject = subject,
      mm_Content = '''', mm_ContentHash = '''', mm_Lifecycle = ''ACTIVE'',
      mm_EpistemicStatus = '''', mm_Confidence = 1, mm_Importance = 1,
      mm_Sensitivity = ''NORMAL'', mm_SecretLike = False, mm_InstructionLike = False,
      mm_StateVersion = 1, mm_SupersedesMemoryID = '''', mm_CreatedAt = 5, mm_UpdatedAt = 5,
      mm_ScopeType = ''GLOBAL'', mm_ProjectKey = '''', mm_AccessCount = 0, mm_LastAccessedAt = None,
      mm_Activation = 1, mm_Disputed = False, mm_RepeatCount = 0, mm_LastUsedSeq = 0\<rparr>"

theorem exact_subject_protected_witness:
  "lessKey (RankKeyFor (sample_row ''Tea'') (ClassifyMatch (sample_row ''Tea'') ''tea'') 0)
           (RankKeyFor (sample_row ''teapot'') (ClassifyMatch (sample_row ''teapot'') ''tea'') 9)"
proof (rule exact_subject_protected)
  have "lowerTrim ''tea'' = ''tea''" "lowerTrim ''Tea'' = ''tea''" "lowerTrim ''teapot'' = ''teapot''"
    by code_simp+
  then show "lowerTrim ''tea'' \<noteq> ''''" "lowerTrim (mm_Subject (sample_row ''Tea'')) = lowerTrim ''tea''"
    "lowerTrim (mm_Subject (sample_row ''teapot'')) \<noteq> lowerTrim ''tea''"
    by (simp_all add: sample_row_def)
qed

definition sample_key :: "go_string \<Rightarrow> rank_key" where
  "sample_key mid = RankKeyFor ((sample_row ''x'')\<lparr>mm_MemoryID := mid\<rparr>) \<lparr>mt_Class = MatchFuzzy, mt_Strength = 1\<rparr> 0"

theorem ranking_deterministic_witness:
  "sort_by lessKey [sample_key ''a'', sample_key ''b''] = sort_by lessKey [sample_key ''b'', sample_key ''a'']"
  using ranking_deterministic [of "[sample_key ''a'', sample_key ''b'']" "[sample_key ''b'', sample_key ''a'']"]
  by (simp add: sample_key_def RankKeyFor_def)

theorem activation_cools_witness: "0 < ActivationFor ''FACT'' 1 3 (1 / 2)"
  using activation_cools [of 1 0 3 "''FACT''" "1 / 2"]
  by (auto simp: IdentityKind_def split: if_split_asm)

end
