(* ===== verification/Http_Api.thy ===== *)
theory Http_Api
  imports Archive Go_Hash
begin

text \<open>
  The edge of the control plane: machine-readable failures (\<open>apperror/error.go\<close>) and their HTTP status
  (\<open>httpapi/response.go\<close>), the credential domains (\<open>auth/auth.go\<close>), and from \<open>lite/server.go\<close> the request
  guards, the rate limiter and the authentication helpers; identifiers of \<open>identity/id.go\<close> and the
  shape check \<open>isUUID\<close>.  Digests are taken with the parameter \<open>sha\<close>; the clock is an argument.
\<close>

section \<open>Failures\<close>

text \<open>An error value: one of \<open>apperror\<close>, one that wraps another, or any other.\<close>

datatype go_error =
    App go_string bool "go_error option"
  | Wrapped go_string go_error
  | Plain go_string

abbreviation AuthRequired :: go_string where "AuthRequired \<equiv> ''AUTH_REQUIRED''"
abbreviation CapabilityDenied :: go_string where "CapabilityDenied \<equiv> ''CAPABILITY_DENIED''"
abbreviation InternalError :: go_string where "InternalError \<equiv> ''INTERNAL_ERROR''"
abbreviation InvalidRequest :: go_string where "InvalidRequest \<equiv> ''INVALID_REQUEST''"
abbreviation SessionMetadataConflict :: go_string where "SessionMetadataConflict \<equiv> ''SESSION_METADATA_CONFLICT''"
abbreviation DatabaseUnavailable :: go_string where "DatabaseUnavailable \<equiv> ''DATABASE_UNAVAILABLE''"
abbreviation MemoryProposalInvalid :: go_string where "MemoryProposalInvalid \<equiv> ''MEMORY_PROPOSAL_INVALID''"
abbreviation MemoryTargetNotFound :: go_string where "MemoryTargetNotFound \<equiv> ''MEMORY_TARGET_NOT_FOUND''"
abbreviation MemoryTargetInactive :: go_string where "MemoryTargetInactive \<equiv> ''MEMORY_TARGET_INACTIVE''"
abbreviation MemoryCurrentTurnRequired :: go_string where
  "MemoryCurrentTurnRequired \<equiv> ''MEMORY_CURRENT_TURN_REQUIRED''"
abbreviation MemoryMutationConflict :: go_string where "MemoryMutationConflict \<equiv> ''MEMORY_MUTATION_CONFLICT''"
abbreviation MemoryEvidenceUnavailable :: go_string where
  "MemoryEvidenceUnavailable \<equiv> ''MEMORY_EVIDENCE_UNAVAILABLE''"
abbreviation ContextSessionNotFound :: go_string where "ContextSessionNotFound \<equiv> ''CONTEXT_SESSION_NOT_FOUND''"
abbreviation ContextQueryInvalid :: go_string where "ContextQueryInvalid \<equiv> ''CONTEXT_QUERY_INVALID''"
abbreviation MemoryReadNotFound :: go_string where "MemoryReadNotFound \<equiv> ''MEMORY_READ_NOT_FOUND''"
abbreviation CursorInvalid :: go_string where "CursorInvalid \<equiv> ''CURSOR_INVALID''"

abbreviation app :: "go_string \<Rightarrow> go_error" where "app code \<equiv> App code False None"

fun Error_text :: "go_error \<Rightarrow> go_string" where
  "Error_text (App code _ None) = code"
| "Error_text (App code _ (Some cause)) = code @ '': '' @ Error_text cause"
| "Error_text (Wrapped msg e) = msg @ Error_text e"
| "Error_text (Plain msg) = msg"

text \<open>\<open>errors.As\<close> with an \<open>*apperror.Error\<close>: the outermost one in the chain.\<close>

fun as_app :: "go_error \<Rightarrow> (go_string \<times> bool) option" where
  "as_app (App code retryable _) = Some (code, retryable)"
| "as_app (Wrapped _ e) = as_app e"
| "as_app (Plain _) = None"

definition Code :: "go_error \<Rightarrow> go_string" where
  "Code err = (case as_app err of Some (code, _) \<Rightarrow> code | None \<Rightarrow> InternalError)"

record error_envelope =
  ee_Code :: go_string
  ee_Message :: go_string
  ee_Retryable :: bool
  ee_TraceID :: go_string

definition publicMessage :: "go_string \<Rightarrow> go_string" where
  "publicMessage code =
     (case map_of
        [(''AUTH_REQUIRED'', ''authentication_required''),
         (''CAPABILITY_DENIED'', ''capability_denied''),
         (''UPLOAD_TOO_LARGE'', ''upload_too_large''),
         (''UPLOAD_NOT_FOUND'', ''upload_not_found''),
         (''UPLOAD_EXPIRED'', ''upload_expired''),
         (''UPLOAD_ALREADY_CLAIMED'', ''upload_already_claimed''),
         (''UPLOAD_TARGET_MISMATCH'', ''upload_target_mismatch''),
         (''IDEMPOTENCY_CONFLICT'', ''idempotency_conflict''),
         (''TOOL_EVENT_IDEMPOTENCY_CONFLICT'', ''tool_event_idempotency_conflict''),
         (''SOURCE_EVENT_IDEMPOTENCY_CONFLICT'', ''source_event_idempotency_conflict''),
         (''SESSION_METADATA_CONFLICT'', ''session_metadata_conflict''),
         (''SCHEMA_MIGRATION_REQUIRED'', ''schema_migration_required''),
         (''SCHEMA_VERSION_TOO_NEW'', ''schema_version_too_new''),
         (''OWNER_IDENTITY_MISMATCH'', ''owner_identity_mismatch''),
         (''DATABASE_UNAVAILABLE'', ''database_unavailable''),
         (''STORAGE_UNAVAILABLE'', ''storage_unavailable''),
         (''INVALID_REQUEST'', ''invalid_request''),
         (''CONTEXT_SESSION_NOT_FOUND'', ''context_session_not_found''),
         (''CONTEXT_QUERY_INVALID'', ''context_query_invalid''),
         (''CONTEXT_RESULT_LIMIT_INVALID'', ''context_result_limit_invalid''),
         (''MEMORY_READ_NOT_FOUND'', ''memory_read_not_found''),
         (''ARTIFACT_SEARCH_INVALID'', ''artifact_search_invalid''),
         (''ARTIFACT_READ_NOT_FOUND'', ''artifact_read_not_found''),
         (''ARTIFACT_CONTENT_UNAVAILABLE'', ''artifact_content_unavailable''),
         (''CURSOR_INVALID'', ''cursor_invalid'')] code of
        Some message \<Rightarrow> message | None \<Rightarrow> ''request_failed'')"

definition error_status :: "go_string \<Rightarrow> int" where
  "error_status code =
     (if code = AuthRequired then 401
      else if code = CapabilityDenied then 403
      else if code = ''UPLOAD_TOO_LARGE'' then 413
      else if code \<in> set [''UPLOAD_NOT_FOUND'', ''WORK_RUN_NOT_FOUND'', ''ARTIFACT_OFFLINE'', MemoryTargetNotFound,
          ContextSessionNotFound, MemoryReadNotFound, ''ARTIFACT_READ_NOT_FOUND''] then 404
      else if code \<in> set [''UPLOAD_EXPIRED'', ''UPLOAD_ALREADY_CLAIMED'', ''UPLOAD_TARGET_MISMATCH'',
          ''IDEMPOTENCY_CONFLICT'', ''TOOL_EVENT_IDEMPOTENCY_CONFLICT'', ''SOURCE_EVENT_IDEMPOTENCY_CONFLICT'',
          SessionMetadataConflict, ''ARTIFACT_VERSION_CONFLICT'', ''PRINCIPAL_IDENTITY_CONFLICT'',
          ''JOB_LEASE_LOST'', ''ARTIFACT_IN_USE'', ''STORAGE_STATE_CONFLICT'', ''ARTIFACT_BYTES_EVICTED'',
          ''ARTIFACT_READ_LEASE_LOST''] then 409
      else if code \<in> set [InvalidRequest, ''TOOL_PAYLOAD_REQUIRES_ARTIFACT'', ''WORK_PRODUCT_PROMOTION_DENIED'',
          ''RETENTION_POLICY_INVALID'', ContextQueryInvalid, ''CONTEXT_RESULT_LIMIT_INVALID'',
          ''ARTIFACT_SEARCH_INVALID'', CursorInvalid, MemoryProposalInvalid, ''MEMORY_EVIDENCE_REQUIRED'',
          ''MEMORY_EVIDENCE_AMBIGUOUS'', MemoryCurrentTurnRequired, ''MEMORY_PROJECT_SCOPE_UNAVAILABLE'',
          MemoryEvidenceUnavailable] then 400
      else if code \<in> set [MemoryTargetInactive, MemoryMutationConflict, ''MEMORY_REVISION_CONFLICT''] then 409
      else if code \<in> set [DatabaseUnavailable, ''STORAGE_UNAVAILABLE'', ''ARTIFACT_STORE_UNAVAILABLE'',
          ''RECONCILIATION_FAILED'', ''STORAGE_RECONCILIATION_FAILED'', ''BLOB_COORDINATION_TIMEOUT'',
          ''BLOB_COORDINATION_FAILED'', ''OWNER_AUTHORITY_MISSING''] then 503
      else 500)"

definition WriteError :: "go_error \<Rightarrow> go_string \<Rightarrow> int \<times> error_envelope" where
  "WriteError err traceID =
     (let code = Code err in
      (error_status code,
       \<lparr>ee_Code = code, ee_Message = publicMessage code,
        ee_Retryable = (case as_app err of Some (_, retryable) \<Rightarrow> retryable | None \<Rightarrow> False),
        ee_TraceID = traceID\<rparr>))"

section \<open>Credentials\<close>

record principal =
  pn_Key :: go_string
  pn_Type :: go_string
  pn_MCPCapabilities :: "go_string list"
  pn_IngestCapabilities :: "go_string list"

abbreviation PrincipalMCP :: go_string where "PrincipalMCP \<equiv> ''MCP''"
abbreviation PrincipalIngestion :: go_string where "PrincipalIngestion \<equiv> ''INGESTION''"

type_synonym credentials = "go_string \<rightharpoonup> principal"

text \<open>A configuration is the list of its entries in ranging order: key, token, capabilities.\<close>

definition NewMCPAuthenticator ::
    "(go_string \<Rightarrow> go_string) \<Rightarrow> (go_string \<times> go_string \<times> go_string list) list \<Rightarrow> credentials" where
  "NewMCPAuthenticator sha principals =
     foldl (\<lambda>m (key, token, caps). m(sha token \<mapsto>
       \<lparr>pn_Key = key, pn_Type = PrincipalMCP, pn_MCPCapabilities = caps, pn_IngestCapabilities = []\<rparr>))
       Map.empty principals"

definition NewIngestionAuthenticator ::
    "(go_string \<Rightarrow> go_string) \<Rightarrow> (go_string \<times> go_string \<times> go_string list) list \<Rightarrow> credentials" where
  "NewIngestionAuthenticator sha principals =
     foldl (\<lambda>m (key, token, caps). m(sha token \<mapsto>
       \<lparr>pn_Key = key, pn_Type = PrincipalIngestion, pn_MCPCapabilities = [], pn_IngestCapabilities = caps\<rparr>))
       Map.empty principals"

text \<open>\<open>match\<close> ranges over the map and returns the entry whose digest equals that of the token.\<close>

definition match :: "(go_string \<Rightarrow> go_string) \<Rightarrow> credentials \<Rightarrow> go_string \<Rightarrow> principal option" where
  "match sha credentials token = credentials (sha token)"

definition matchSingle :: "(go_string \<Rightarrow> go_string) \<Rightarrow> go_string \<Rightarrow> go_string \<Rightarrow> go_error + unit" where
  "matchSingle sha expected token =
     (if sha token \<noteq> expected then Inl (App AuthRequired False (Some (Plain ''credential rejected'')))
      else Inr ())"

definition grant :: "principal \<Rightarrow> go_string list \<Rightarrow> go_string \<Rightarrow> go_error + principal" where
  "grant p caps required = (if required \<in> set caps then Inr p else Inl (app CapabilityDenied))"

definition MCP_Authenticate ::
    "(go_string \<Rightarrow> go_string) \<Rightarrow> credentials \<Rightarrow> go_string \<Rightarrow> go_string \<Rightarrow> go_error + principal" where
  "MCP_Authenticate sha credentials token required =
     (case match sha credentials token of
        None \<Rightarrow> Inl (app AuthRequired)
      | Some p \<Rightarrow> grant p (pn_MCPCapabilities p) required)"

definition Ingestion_Authenticate ::
    "(go_string \<Rightarrow> go_string) \<Rightarrow> credentials \<Rightarrow> go_string \<Rightarrow> go_string \<Rightarrow> go_error + principal" where
  "Ingestion_Authenticate sha credentials token required =
     (case match sha credentials token of
        None \<Rightarrow> Inl (app AuthRequired)
      | Some p \<Rightarrow> grant p (pn_IngestCapabilities p) required)"

text \<open>\<open>auth.Bearer\<close>, and the stricter \<open>bearer\<close> of the server.  \<open>strings.EqualFold\<close> against an ASCII word
  also folds the Kelvin sign and the long s, neither of which folds to a letter of \<open>Bearer\<close>.\<close>

definition Bearer :: "go_string \<Rightarrow> go_error + go_string" where
  "Bearer header =
     (case Go_Text.fields header of
        [scheme, token] \<Rightarrow> if to_lower scheme = ''bearer'' \<and> token \<noteq> '''' then Inr token
          else Inl (app AuthRequired)
      | _ \<Rightarrow> Inl (app AuthRequired))"

definition bearer :: "go_string \<Rightarrow> go_error + go_string" where
  "bearer header =
     (if \<not> has_prefix header ''Bearer '' then Inl (app AuthRequired)
      else Inr (trim_space (drop 7 header)))"

text \<open>What the server's authentication depends on.\<close>

record server_auth =
  sv_Auth :: credentials
  sv_TrustLocal :: bool
  sv_LocalClientKey :: go_string
  sv_AdminToken :: go_string

definition authenticate ::
    "(go_string \<Rightarrow> go_string) \<Rightarrow> server_auth \<Rightarrow> go_string \<Rightarrow> go_string \<Rightarrow> go_error + principal" where
  "authenticate sha s header capability =
     (if sv_TrustLocal s
      then Inr \<lparr>pn_Key = sv_LocalClientKey s, pn_Type = PrincipalMCP, pn_MCPCapabilities = [],
                pn_IngestCapabilities = []\<rparr>
      else bindE (bearer header) (\<lambda>token. MCP_Authenticate sha (sv_Auth s) token capability))"

text \<open>The token is compared byte by byte after a length check; the comparison is equality.\<close>

definition adminAuthorized :: "server_auth \<Rightarrow> go_string \<Rightarrow> bool" where
  "adminAuthorized s presented \<longleftrightarrow>
     sv_AdminToken s \<noteq> '''' \<and> length presented = length (sv_AdminToken s) \<and> presented = sv_AdminToken s"

section \<open>Request guards\<close>

definition body_limit :: "go_string \<Rightarrow> int" where
  "body_limit path =
     (if path = ''/v1/checkpoints'' then 4 * 2 ^ 20
      else if path = ''/v1/memory/mutations'' then 256 * 2 ^ 10
      else if has_prefix path ''/v1/admin/'' then 64 * 2 ^ 10 else 128 * 2 ^ 10)"

definition rate_category :: "go_string \<Rightarrow> go_string \<Rightarrow> go_string \<times> int" where
  "rate_category httpMethod path =
     (if httpMethod = ''POST'' \<and> path = ''/v1/memory/mutations'' then (''mutation'', 120)
      else if has_prefix path ''/v1/admin/'' then (''admin'', 60) else ('''', 0))"

record rate_window =
  rw_started :: time
  rw_count :: int

definition zero_window :: rate_window where "zero_window = \<lparr>rw_started = 0, rw_count = 0\<rparr>"

text \<open>The window a request falls into, and the decision.\<close>

definition current_window :: "rate_window \<Rightarrow> time \<Rightarrow> rate_window" where
  "current_window window now =
     (if rw_started window = 0 \<or> now - rw_started window \<ge> minute then \<lparr>rw_started = now, rw_count = 0\<rparr>
      else window)"

definition allow_window :: "int \<Rightarrow> rate_window \<Rightarrow> time \<Rightarrow> rate_window \<times> bool" where
  "allow_window limit window now =
     (let w = current_window window now in
      if rw_count w \<ge> limit then (window, False)
      else (w\<lparr>rw_count := rw_count w + 1\<rparr>, True))"

definition allowRequest ::
    "(go_string \<rightharpoonup> rate_window) \<Rightarrow> go_string \<Rightarrow> int \<Rightarrow> time \<Rightarrow> (go_string \<rightharpoonup> rate_window) \<times> bool" where
  "allowRequest windows key limit now =
     (let window = (case windows key of Some w \<Rightarrow> w | None \<Rightarrow> zero_window) in
      case allow_window limit window now of
        (w, True) \<Rightarrow> (windows(key \<mapsto> w), True)
      | (_, False) \<Rightarrow> (windows, False))"

text \<open>\<open>requestGuards\<close>: the rate check comes before the handler; \<open>host\<close> is the remote host.\<close>

definition requestGuards ::
    "(go_string \<rightharpoonup> rate_window) \<Rightarrow> go_string \<Rightarrow> go_string \<Rightarrow> go_string \<Rightarrow> time \<Rightarrow> (go_string \<rightharpoonup> rate_window) \<times> bool" where
  "requestGuards windows httpMethod path host now =
     (case rate_category httpMethod path of
        (category, perMinute) \<Rightarrow>
          if category \<noteq> '''' then allowRequest windows (category @ [CHR 0x00] @ host) perMinute now
          else (windows, True))"

section \<open>Identifiers\<close>

text \<open>\<open>formatUUID\<close>, of sixteen bytes.\<close>

definition formatUUID :: "go_string \<Rightarrow> go_string" where
  "formatUUID v =
     hex_encode (take 4 v) @ ''-'' @ hex_encode (take 2 (drop 4 v)) @ ''-'' @
     hex_encode (take 2 (drop 6 v)) @ ''-'' @ hex_encode (take 2 (drop 8 v)) @ ''-'' @
     hex_encode (take 6 (drop 10 v))"

definition byte_of :: "8 word \<Rightarrow> char" where
  "byte_of w = char_of (unat w)"

text \<open>The version and variant bits, set in the seventh and the ninth byte.\<close>

definition stamp7 :: "8 word \<Rightarrow> 8 word" where
  "stamp7 b = or (and b 0x0f) 0x70"

definition stamp9 :: "8 word \<Rightarrow> 8 word" where
  "stamp9 b = or (and b 0x3f) 0x80"

definition millis_bytes :: "64 word \<Rightarrow> 8 word list" where
  "millis_bytes millis =
     [ucast (drop_bit 40 millis), ucast (drop_bit 32 millis), ucast (drop_bit 24 millis),
      ucast (drop_bit 16 millis), ucast (drop_bit 8 millis), ucast millis]"

text \<open>\<open>UUIDv7Generator.New\<close>: \<open>millis\<close> is the clock, \<open>random\<close> the ten bytes read.\<close>

definition UUIDv7_bytes :: "64 word \<Rightarrow> 8 word list \<Rightarrow> 8 word list" where
  "UUIDv7_bytes millis random =
     (let value = millis_bytes millis @ random;
          value = value[6 := stamp7 (value ! 6)] in
      value[8 := stamp9 (value ! 8)])"

definition UUIDv7_New :: "64 word \<Rightarrow> 8 word list \<Rightarrow> go_string" where
  "UUIDv7_New millis random = formatUUID (map byte_of (UUIDv7_bytes millis random))"

definition Deterministic_New :: "64 word \<Rightarrow> 64 word \<times> go_string" where
  "Deterministic_New n =
     (let n' = n + 1;
          value = replicate 8 0 @ map (\<lambda>i. ucast (drop_bit (8 * i) n')) [7, 6, 5, 4, 3, 2, 1, 0];
          value = value[6 := 0x70];
          value = value[8 := stamp9 (value ! 8)] in
      (n', formatUUID (map byte_of value)))"

text \<open>\<open>isUUID\<close>: the loop ranges over byte offsets; only ASCII characters pass.\<close>

definition uuid_char :: "nat \<Rightarrow> char \<Rightarrow> bool" where
  "uuid_char i c \<longleftrightarrow> (if i = 8 \<or> i = 13 \<or> i = 18 \<or> i = 23 then c = CHR ''-'' else lower_hex c)"

definition isUUID :: "go_string \<Rightarrow> bool" where
  "isUUID value \<longleftrightarrow> length value = 36 \<and> list_all (\<lambda>(i, c). uuid_char i c) (List.enumerate 0 value)"

section \<open>The rate limiter\<close>

text \<open>The requests of one key that are admitted, of those that arrive at the times \<open>ts\<close>, and the
  window they leave behind.\<close>

fun admitted :: "int \<Rightarrow> rate_window \<Rightarrow> time list \<Rightarrow> time list" where
  "admitted limit w [] = []"
| "admitted limit w (t # ts) =
     (case allow_window limit w t of
        (w', ok) \<Rightarrow> (if ok then [t] else []) @ admitted limit w' ts)"

fun last_window :: "int \<Rightarrow> rate_window \<Rightarrow> time list \<Rightarrow> rate_window" where
  "last_window limit w [] = w"
| "last_window limit w (t # ts) = last_window limit (fst (allow_window limit w t)) ts"

definition count_before :: "time \<Rightarrow> time list \<Rightarrow> int" where
  "count_before b ts = int (length (filter (\<lambda>t. t < b) ts))"

lemma count_before_Cons [simp]:
  "count_before b (t # ts) = (if t < b then 1 else 0) + count_before b ts"
  "count_before b [] = 0"
  by (simp_all add: count_before_def)

lemma admitted_subset: "set (admitted limit w ts) \<subseteq> set ts"
  by (induction ts arbitrary: w) (auto split: prod.split)

lemma count_before_late: "\<forall>t \<in> set ts. b \<le> t \<Longrightarrow> count_before b (admitted limit w ts) = 0"
  using admitted_subset [of limit w ts] by (fastforce simp: count_before_def filter_empty_conv)

lemma admitted_zero: "0 \<le> rw_count w \<Longrightarrow> admitted 0 w ts = []"
  by (induction ts) (auto simp: allow_window_def current_window_def Let_def)

text \<open>A window admits what is left of its limit, and two windows cover two minutes.\<close>

lemma window_bound:
  assumes "rw_started w \<noteq> 0" "\<forall>t \<in> set ts. rw_started w \<le> t" "sorted ts" "rw_count w \<le> limit"
    and "b \<le> rw_started w + minute"
  shows "count_before b (admitted limit w ts) \<le> limit - rw_count w"
  using assms
proof (induction ts arbitrary: w)
  case (Cons t ts)
  show ?case
  proof (cases "t - rw_started w \<ge> minute")
    case True
    then have "\<forall>u \<in> set (t # ts). b \<le> u" using Cons.prems(3,5) by auto
    then have "count_before b (admitted limit w (t # ts)) = 0" by (rule count_before_late)
    then show ?thesis using Cons.prems(4) by simp
  next
    case False
    then have w: "current_window w t = w" using Cons.prems(1) by (simp add: current_window_def)
    show ?thesis
    proof (cases "rw_count w \<ge> limit")
      case True
      then show ?thesis using Cons.IH [of w] Cons.prems by (simp add: allow_window_def w)
    next
      case False
      then show ?thesis using Cons.IH [of "w\<lparr>rw_count := rw_count w + 1\<rparr>"] Cons.prems
        by (simp add: allow_window_def w)
    qed
  qed
qed simp

lemma two_window_bound:
  assumes "rw_started w \<noteq> 0" "\<forall>t \<in> set ts. rw_started w \<le> t \<and> 0 < t" "sorted ts" "rw_count w \<le> limit"
    and "b \<le> rw_started w + 2 * minute" "0 \<le> limit"
  shows "count_before b (admitted limit w ts) \<le> 2 * limit - rw_count w"
  using assms
proof (induction ts arbitrary: w)
  case (Cons t ts)
  show ?case
  proof (cases "t - rw_started w \<ge> minute")
    case True
    then have w: "current_window w t = \<lparr>rw_started = t, rw_count = 0\<rparr>" by (simp add: current_window_def)
    let ?w = "\<lparr>rw_started = t, rw_count = 0\<rparr>"
    show ?thesis
    proof (cases "limit = 0")
      case True
      then show ?thesis using Cons.IH [of w] Cons.prems by (simp add: allow_window_def w)
    next
      case False
      then have "count_before b (admitted limit (?w\<lparr>rw_count := 1\<rparr>) ts) \<le> limit - 1"
        using window_bound [of "?w\<lparr>rw_count := 1\<rparr>" ts limit b] Cons.prems True by auto
      then show ?thesis using Cons.prems False by (simp add: allow_window_def w)
    qed
  next
    case False
    then have w: "current_window w t = w" using Cons.prems(1) by (simp add: current_window_def)
    show ?thesis
    proof (cases "rw_count w \<ge> limit")
      case True
      then show ?thesis using Cons.IH [of w] Cons.prems by (simp add: allow_window_def w)
    next
      case False
      then show ?thesis using Cons.IH [of "w\<lparr>rw_count := rw_count w + 1\<rparr>"] Cons.prems
        by (simp add: allow_window_def w)
    qed
  qed
qed simp

definition count_minute :: "time \<Rightarrow> time list \<Rightarrow> int" where
  "count_minute a ts = int (length (filter (\<lambda>t. a \<le> t \<and> t < a + minute) ts))"

lemma count_minute_Cons [simp]:
  "count_minute a (t # ts) = (if a \<le> t \<and> t < a + minute then 1 else 0) + count_minute a ts"
  "count_minute a [] = 0"
  by (simp_all add: count_minute_def)

lemma count_minute_from:
  "\<forall>t \<in> set ts. a \<le> t \<Longrightarrow> count_minute a (admitted limit w ts) = count_before (a + minute) (admitted limit w ts)"
  using admitted_subset [of limit w ts]
  by (auto simp: count_minute_def count_before_def intro!: arg_cong [where f = length] filter_cong)

definition window_ok :: "int \<Rightarrow> rate_window \<Rightarrow> time list \<Rightarrow> bool" where
  "window_ok limit w ts \<longleftrightarrow>
     rw_count w \<le> limit \<and> 0 \<le> rw_count w \<and> (\<forall>t \<in> set ts. rw_started w \<le> t) \<and> 0 \<le> rw_started w"

lemma window_ok_step:
  "window_ok limit w (t # ts) \<Longrightarrow> sorted (t # ts) \<Longrightarrow> 0 < t \<Longrightarrow> 0 \<le> limit \<Longrightarrow>
     window_ok limit (fst (allow_window limit w t)) ts"
  by (auto simp: window_ok_def allow_window_def current_window_def Let_def)

lemma minute_bound:
  assumes "window_ok limit w ts" "sorted ts" "\<forall>t \<in> set ts. 0 < t" "0 \<le> limit"
  shows "count_minute a (admitted limit w ts) \<le> 2 * limit"
  using assms
proof (induction ts arbitrary: w)
  case (Cons t ts)
  show ?case
  proof (cases "a \<le> t")
    case False
    have "count_minute a (admitted limit w (t # ts)) = count_minute a (admitted limit (fst (allow_window limit w t)) ts)"
      using False by (auto simp: count_minute_def split: prod.split)
    then show ?thesis using Cons.IH window_ok_step [OF Cons.prems(1,2)] Cons.prems by simp
  next
    case True
    then have from_a: "\<forall>u \<in> set (t # ts). a \<le> u" using Cons.prems(2) by auto
    have two: "count_before (a + minute) (admitted limit v (t # ts)) \<le> 2 * limit"
      if "rw_started v \<noteq> 0" "window_ok limit v (t # ts)" "a \<le> rw_started v + minute" for v
      using two_window_bound [of v "t # ts" limit "a + minute"] that Cons.prems(2-4)
      by (auto simp: window_ok_def)
    show ?thesis
    proof (cases "rw_started w = 0 \<or> t - rw_started w \<ge> minute")
      case True
      let ?v = "\<lparr>rw_started = t, rw_count = 0\<rparr>"
      have "current_window w t = ?v" "current_window ?v t = ?v"
        using True by (auto simp: current_window_def)
      then have "admitted limit w (t # ts) = admitted limit ?v (t # ts) \<or>
          0 \<ge> limit \<and> admitted limit w (t # ts) = admitted limit w ts"
        by (simp add: allow_window_def Let_def)
      moreover have "window_ok limit ?v (t # ts)" using Cons.prems by (auto simp: window_ok_def)
      moreover have "window_ok limit w ts" using Cons.prems(1) by (auto simp: window_ok_def)
      ultimately show ?thesis
        using two [of ?v] count_minute_from [OF from_a, of limit w] Cons.prems \<open>a \<le> t\<close> Cons.IH [of w] by auto
    next
      case False
      then show ?thesis using two [of w] count_minute_from [OF from_a, of limit w] Cons.prems(1) \<open>a \<le> t\<close> by auto
    qed
  qed
qed (simp add: count_minute_def)

text \<open>C15: whatever the arrival times, the limiter never admits more than twice its limit of requests
  of one client within any minute, and never more than its limit within the minute the first request opens.\<close>

theorem rate_limit_holds:
  assumes "sorted ts" "\<forall>t \<in> set ts. 0 < t" "0 \<le> limit"
  shows "count_minute a (admitted limit zero_window ts) \<le> 2 * limit \<and>
    (a = hd ts \<longrightarrow> count_minute a (admitted limit zero_window ts) \<le> limit)"
proof
  have z: "window_ok limit zero_window ts" using assms by (auto simp: window_ok_def zero_window_def)
  show "count_minute a (admitted limit zero_window ts) \<le> 2 * limit"
    using minute_bound [OF z assms] .
  show "a = hd ts \<longrightarrow> count_minute a (admitted limit zero_window ts) \<le> limit"
  proof
    assume a: "a = hd ts"
    show "count_minute a (admitted limit zero_window ts) \<le> limit"
    proof (cases ts)
      case Nil
      then show ?thesis using assms(3) by (simp add: count_minute_def)
    next
      case (Cons t us)
      let ?v = "\<lparr>rw_started = t, rw_count = 1\<rparr>"
      have "count_before (a + minute) (admitted limit ?v us) \<le> limit - 1" if "0 < limit"
        using window_bound [of ?v us limit "a + minute"] assms Cons a that by auto
      moreover have "admitted 0 zero_window ts = []" by (rule admitted_zero) (simp add: zero_window_def)
      ultimately show ?thesis using a Cons assms
        by (cases "limit = 0")
          (auto simp: count_minute_from allow_window_def current_window_def zero_window_def)
    qed
  qed
qed

text \<open>The four requests of one burst, against a limit of two.\<close>

lemma rate_limit_holds_witness:
  "count_minute (5 * second) (admitted 2 zero_window [5 * second, 5 * second, 5 * second, 50 * second]) = 2"
proof -
  let ?ts = "[5 * second, 5 * second, 5 * second, 50 * second]"
  have "admitted 2 zero_window ?ts = [5 * second, 5 * second]" by code_simp
  moreover have "count_minute (5 * second) (admitted 2 zero_window ?ts) \<le> 2 * 2 \<and>
      (5 * second = hd ?ts \<longrightarrow> count_minute (5 * second) (admitted 2 zero_window ?ts) \<le> 2)"
    by (rule rate_limit_holds) simp_all
  ultimately show ?thesis by simp
qed

lemma last_window_started: "rw_started (last_window limit w ts) \<in> insert (rw_started w) (set ts)"
proof (induction ts arbitrary: w)
  case (Cons t ts)
  have "rw_started (fst (allow_window limit w t)) \<in> {rw_started w, t}"
    by (simp add: allow_window_def current_window_def Let_def)
  then show ?case using Cons.IH [of "fst (allow_window limit w t)"] by auto
qed simp

text \<open>Whatever came before, a client that has been quiet for a minute is admitted again.\<close>

theorem rate_limit_recovers:
  assumes "0 < limit" "\<forall>t \<in> set ts. t + minute \<le> now"
  shows "snd (allow_window limit (last_window limit zero_window ts) now)"
proof -
  have "rw_started (last_window limit zero_window ts) \<in> insert 0 (set ts)"
    using last_window_started [of limit zero_window ts] by (simp add: zero_window_def)
  then have "current_window (last_window limit zero_window ts) now = \<lparr>rw_started = now, rw_count = 0\<rparr>"
    using assms(2) by (auto simp: current_window_def)
  then show ?thesis using assms(1) by (simp add: allow_window_def)
qed

lemma rate_limit_recovers_witness:
  "snd (allow_window 1 (last_window 1 zero_window [second, 2 * second]) (62 * second)) \<and>
   \<not> snd (allow_window 1 (last_window 1 zero_window [second, 2 * second]) (60 * second))"
  using rate_limit_recovers [of 1 "[second, 2 * second]" "62 * second"]
  by (simp add: allow_window_def current_window_def zero_window_def)

section \<open>Identifiers are well formed\<close>

lemma lower_hex_digit: "n < 16 \<Longrightarrow> lower_hex (hex_digit n)"
proof -
  have "\<forall>i \<in> set [0..<16]. lower_hex (hex_digit i)" by code_simp
  then show "n < 16 \<Longrightarrow> lower_hex (hex_digit n)" by simp
qed

lemma of_char_lt: "(of_char c :: nat) < 256"
  by (metis nat_of_char_less_256)

lemma hex_encode_lower: "list_all lower_hex (hex_encode s)"
proof -
  have "lower_hex (hex_digit (of_char c div 16))" "lower_hex (hex_digit (of_char c mod 16))" for c
    using of_char_lt [of c] by (auto intro!: lower_hex_digit less_mult_imp_div_less)
  then show ?thesis by (auto simp: hex_encode_def list_all_iff)
qed

lemma length_hex_encode: "length (hex_encode s) = 2 * length s"
  by (induction s) (simp_all add: hex_encode_def)

lemma uuid_chunk:
  "list_all lower_hex xs \<Longrightarrow> \<forall>i \<in> {8, 13, 18, 23}. \<not> (n \<le> i \<and> i < n + length xs) \<Longrightarrow>
     list_all (\<lambda>(i, c). uuid_char i c) (List.enumerate n xs)"
  by (induction xs arbitrary: n) (auto simp: uuid_char_def)

lemma uuid_dash: "i \<in> {8, 13, 18, 23} \<Longrightarrow> list_all (\<lambda>(i, c). uuid_char i c) (List.enumerate i ''-'')"
  by (auto simp: uuid_char_def)

lemma formatUUID_isUUID: "length v = 16 \<Longrightarrow> isUUID (formatUUID v)"
  unfolding isUUID_def formatUUID_def enumerate_append_eq list_all_append length_append length_hex_encode
  by (simp add: length_hex_encode uuid_chunk hex_encode_lower uuid_dash del: enumerate_simps)

lemma formatUUID_nibble:
  assumes "length v = 16"
  shows "formatUUID v ! 14 = hex_digit (of_char (v ! 6) div 16)"
    and "formatUUID v ! 19 = hex_digit (of_char (v ! 8) div 16)"
proof -
  have "hex_encode (take 2 (drop n v)) ! 0 = hex_digit (of_char (v ! n) div 16)" if "n < 16" for n
    using that assms by (cases "drop n v") (auto simp: hex_encode_def nth_via_drop)
  then show "formatUUID v ! 14 = hex_digit (of_char (v ! 6) div 16)"
    and "formatUUID v ! 19 = hex_digit (of_char (v ! 8) div 16)"
    using assms by (simp_all add: formatUUID_def nth_append length_hex_encode)
qed

lemma formatUUID_inj:
  assumes "length v = 16" "length w = 16" "formatUUID v = formatUUID w"
  shows "v = w"
proof -
  have split: "x = take 4 x @ take 2 (drop 4 x) @ take 2 (drop 6 x) @ take 2 (drop 8 x) @ take 6 (drop 10 x)"
    if "length x = 16" for x :: go_string
    using that append_take_drop_id [of 4 x] append_take_drop_id [of 2 "drop 4 x"]
      append_take_drop_id [of 2 "drop 6 x"] append_take_drop_id [of 2 "drop 8 x"] by simp
  have "take 4 v = take 4 w \<and> take 2 (drop 4 v) = take 2 (drop 4 w) \<and> take 2 (drop 6 v) = take 2 (drop 6 w) \<and>
      take 2 (drop 8 v) = take 2 (drop 8 w) \<and> take 6 (drop 10 v) = take 6 (drop 10 w)"
    using assms by (simp add: formatUUID_def length_hex_encode hex_encode_inj)
  then show ?thesis using split [OF assms(1)] split [OF assms(2)] by metis
qed

lemma unat_stamp7: "unat (stamp7 b) div 16 = 7"
proof -
  have "drop_bit 4 (stamp7 b) = or (and (drop_bit 4 b) (drop_bit 4 15)) (drop_bit 4 (112 :: 8 word))"
    by (simp only: stamp7_def drop_bit_or drop_bit_and)
  also have "\<dots> = 7" by simp
  finally have "unat (drop_bit 4 (stamp7 b)) = 7" by simp
  then show ?thesis by (simp add: drop_bit_eq_div unat_div_distrib)
qed

lemma unat_stamp9: "unat (stamp9 b) div 16 \<in> {8, 9, 10, 11}"
proof -
  have "drop_bit 6 (stamp9 b) = or (and (drop_bit 6 b) (drop_bit 6 63)) (drop_bit 6 (128 :: 8 word))"
    by (simp only: stamp9_def drop_bit_or drop_bit_and)
  also have "\<dots> = 2" by simp
  finally have "unat (drop_bit 6 (stamp9 b)) = 2" by simp
  then have "unat (stamp9 b) div 64 = 2" by (simp add: drop_bit_eq_div unat_div_distrib)
  then show ?thesis by auto
qed

lemma of_char_byte_of [simp]: "of_char (byte_of w) = unat w"
proof -
  have "unat w < 256" using unsigned_less [of w, where ?'a = nat] by simp
  then show ?thesis by (simp add: byte_of_def)
qed

lemma length_UUIDv7: "length random = 10 \<Longrightarrow> length (map byte_of (UUIDv7_bytes millis random)) = 16"
  by (simp add: UUIDv7_bytes_def millis_bytes_def)

text \<open>C16: every identifier the server generates has the textual shape \<open>isUUID\<close> accepts, with version 7 and
  the RFC 9562 variant, and the deterministic generator's has it too.\<close>

theorem identifiers_well_formed:
  assumes "length random = 10"
  shows "isUUID (UUIDv7_New millis random) \<and> UUIDv7_New millis random ! 14 = CHR ''7'' \<and>
    UUIDv7_New millis random ! 19 \<in> set ''89ab'' \<and> isUUID (snd (Deterministic_New n))"
proof -
  let ?v = "map byte_of (UUIDv7_bytes millis random)"
  have len: "length ?v = 16" by (rule length_UUIDv7 [OF assms])
  have "?v ! 6 = byte_of (stamp7 (random ! 0))" "?v ! 8 = byte_of (stamp9 (random ! 2))"
    using assms by (simp_all add: UUIDv7_bytes_def millis_bytes_def nth_append Let_def nth_list_update)
  then have "UUIDv7_New millis random ! 14 = hex_digit 7"
    "\<exists>d \<in> {8, 9, 10, 11}. UUIDv7_New millis random ! 19 = hex_digit d"
    using formatUUID_nibble [OF len] unat_stamp7 unat_stamp9 [of "random ! 2"]
    by (auto simp: UUIDv7_New_def)
  moreover have "hex_digit 7 = CHR ''7''" "\<forall>d \<in> {8, 9, 10, 11}. hex_digit d \<in> set ''89ab''" by code_simp+
  ultimately have "UUIDv7_New millis random ! 14 = CHR ''7''" "UUIDv7_New millis random ! 19 \<in> set ''89ab''"
    by metis+
  moreover have "isUUID (UUIDv7_New millis random)" using formatUUID_isUUID [OF len] by (simp only: UUIDv7_New_def)
  moreover have "isUUID (snd (Deterministic_New n))"
    unfolding Deterministic_New_def Let_def snd_conv by (rule formatUUID_isUUID) simp
  ultimately show ?thesis by blast
qed

lemma identifiers_well_formed_witness:
  "isUUID (UUIDv7_New 1700000000000 [1, 2, 3, 4, 5, 6, 7, 8, 9, 10])"
  using identifiers_well_formed [of "[1, 2, 3, 4, 5, 6, 7, 8, 9, 10]" 1700000000000 0] by simp

section \<open>The credential domains\<close>

lemma NewMCPAuthenticator_entry:
  "NewMCPAuthenticator sha ps d = Some p \<Longrightarrow>
     \<exists>key token caps. (key, token, caps) \<in> set ps \<and> sha token = d \<and>
       p = \<lparr>pn_Key = key, pn_Type = PrincipalMCP, pn_MCPCapabilities = caps, pn_IngestCapabilities = []\<rparr>"
proof (induction ps rule: rev_induct)
  case (snoc x ps)
  obtain key token caps where x: "x = (key, token, caps)" by (cases x) auto
  show ?case
  proof (cases "d = sha token")
    case True
    then show ?thesis using snoc.prems by (auto simp: x NewMCPAuthenticator_def)
  next
    case False
    then show ?thesis using snoc by (fastforce simp: x NewMCPAuthenticator_def)
  qed
qed (simp add: NewMCPAuthenticator_def)



end
