(* ===== verification/Server_Mutation.thy ===== *)
theory Server_Mutation
  imports Store_Machine Http_Api
begin

text \<open>
  The mutation handlers of \<open>lite/server.go\<close>: \<open>mutate\<close> with its validation, \<open>applyMutationInternal\<close>
  from the resolution of the session to the commit, the review endpoints that approve and reject a
  staged proposal and retire a memory.  Handlers hold \<open>mutationMu\<close>, so each is one function from the
  store to the store and a result.  The index is present, as in every deployment: memories and
  messages are read from it.  The readings of the clock, the fresh identifiers, the rows a query
  returns and the outcome of the writes of one call are the fields of \<open>ambient\<close>; a failing SQL read
  other than of the duplicate scan, and the operations journal, are not modelled.
\<close>

section \<open>Requests, results and surroundings\<close>

record api_mutation =
  ap_SessionID :: go_string
  ap_MessageID :: go_string
  ap_Mutation :: go_string
  ap_MemoryKind :: go_string
  ap_Scope :: go_string
  ap_Subject :: go_string
  ap_EvidenceQuote :: go_string
  ap_TargetMemoryID :: go_string
  ap_Replacement :: go_string

record mutation_result =
  mu_ProposalID :: go_string
  mu_Outcome :: go_string
  mu_ReasonCode :: go_string
  mu_MemoryID :: go_string
  mu_DuplicateOf :: go_string
  mu_RepeatCount :: int
  mu_Importance :: real
  mu_ContinuityRevision :: int
  mu_Replay :: bool

record ambient =
  am_userRows :: "message_row list"
  am_eligibleRows :: "memory_row list res"
  am_proposalID :: go_string
  am_memoryID :: go_string
  am_eventID :: go_string
  am_continuityID :: go_string
  am_traceID :: go_string
  am_stageTime :: time
  am_updateTime :: time
  am_commitTime :: time
  am_rejectTime :: time
  am_stageWritten :: bool
  am_append :: append_io
  am_flush :: "go_string option"

definition plain :: "'a res \<Rightarrow> go_error + 'a" where
  "plain r = (case r of Inl msg \<Rightarrow> Inl (Plain msg) | Inr x \<Rightarrow> Inr x)"

text \<open>The checks of \<open>mutate\<close> on a decoded request.\<close>

definition valid_mutation :: "api_mutation \<Rightarrow> go_error + unit" where
  "valid_mutation rq =
     (if MutationKind_Validate (ap_Mutation rq) \<noteq> Inr () \<or> trim_space (ap_EvidenceQuote rq) = '''' \<or>
         \<not> isUUID (ap_SessionID rq) \<or> \<not> isUUID (ap_MessageID rq)
      then Inl (app MemoryProposalInvalid)
      else if ap_Mutation rq = MutationRemember \<and>
        (Kind_Validate (ap_MemoryKind rq) \<noteq> Inr () \<or> ScopeType_Validate (ap_Scope rq) \<noteq> Inr () \<or>
         trim_space (ap_Subject rq) = '''' \<or> ap_TargetMemoryID rq \<noteq> '''' \<or> ap_Replacement rq \<noteq> '''')
      then Inl (app MemoryProposalInvalid)
      else if ap_Mutation rq = MutationCorrect \<and>
        (ap_TargetMemoryID rq = '''' \<or> trim_space (ap_Replacement rq) = '''' \<or> ap_MemoryKind rq \<noteq> '''' \<or>
         ap_Scope rq \<noteq> '''' \<or> ap_Subject rq \<noteq> '''' \<or> \<not> isUUID (ap_TargetMemoryID rq))
      then Inl (app MemoryProposalInvalid)
      else if ap_Mutation rq = MutationForget \<and>
        (ap_TargetMemoryID rq = '''' \<or> ap_Replacement rq \<noteq> '''' \<or> ap_MemoryKind rq \<noteq> '''' \<or>
         ap_Scope rq \<noteq> '''' \<or> ap_Subject rq \<noteq> '''' \<or> \<not> isUUID (ap_TargetMemoryID rq))
      then Inl (app MemoryProposalInvalid)
      else Inr ())"

section \<open>Targets and duplicates\<close>

definition LoadMemoryRow :: "store \<Rightarrow> go_string \<Rightarrow> memory_row res" where
  "LoadMemoryRow s memoryID =
     (case ix_memories (st_Index s) memoryID of None \<Rightarrow> Inl ''no rows'' | Some row \<Rightarrow> Inr row)"

definition target_of :: "memory_row \<Rightarrow> mutation_target" where
  "target_of row =
     \<lparr>tg_MemoryID = mm_MemoryID row, tg_Kind = mm_Kind row, tg_Subject = mm_Subject row,
      tg_Content = mm_Content row, tg_Lifecycle = mm_Lifecycle row,
      tg_Sensitivity = policySensitivity (mm_Sensitivity row)\<rparr>"

text \<open>The target and its row, both nil for REMEMBER.\<close>

definition mutationTarget :: "store \<Rightarrow> api_mutation \<Rightarrow> go_error + (mutation_target \<times> memory_row) option" where
  "mutationTarget s rq =
     (if ap_Mutation rq = MutationRemember then Inr None
      else case LoadMemoryRow s (ap_TargetMemoryID rq) of
        Inl _ \<Rightarrow> Inl (app MemoryTargetNotFound)
      | Inr row \<Rightarrow>
          if mm_Lifecycle row \<noteq> LifecycleActive \<or> mm_Sensitivity row \<noteq> ''NORMAL''
          then Inl (app MemoryTargetInactive) else Inr (Some (target_of row, row)))"

definition normalizeForDedupe :: "go_string \<Rightarrow> go_string" where
  "normalizeForDedupe value =
     to_lower (utf8 (filter (\<lambda>r. (97 \<le> r \<and> r \<le> 122) \<or> (65 \<le> r \<and> r \<le> 90) \<or> (48 \<le> r \<and> r \<le> 57) \<or> is_cjk r)
       (runes value)))"

abbreviation duplicateSubjectThreshold :: real where "duplicateSubjectThreshold \<equiv> 3 / 4"

fun dup_loop :: "go_string \<Rightarrow> go_string \<Rightarrow> go_string \<Rightarrow> real \<Rightarrow> memory_row list \<Rightarrow> go_string \<times> real" where
  "dup_loop subjectNorm scope best bestSim [] = (best, bestSim)"
| "dup_loop subjectNorm scope best bestSim (row # rows) =
     (if mm_ScopeType row \<noteq> scope then dup_loop subjectNorm scope best bestSim rows
      else
        (let sim = trigramSimilarity subjectNorm (normalizeForDedupe (mm_Subject row)) in
         if sim > bestSim then dup_loop subjectNorm scope (mm_MemoryID row) sim rows
         else dup_loop subjectNorm scope best bestSim rows))"

definition findDuplicateSubject :: "memory_row list \<Rightarrow> go_string \<Rightarrow> go_string \<Rightarrow> go_string" where
  "findDuplicateSubject rows subject scope =
     (let subject = trim_space subject in
      if subject = '''' then ''''
      else case dup_loop (normalizeForDedupe subject) scope '''' 0 rows of
        (best, bestSim) \<Rightarrow> if bestSim \<ge> duplicateSubjectThreshold then best else '''')"

section \<open>Commits\<close>

definition zero_evidence :: evidence_row where
  "zero_evidence =
     \<lparr>er_MemoryID = '''', er_MessageID = '''', er_QuoteHash = '''', er_QuoteStart = 0, er_QuoteEnd = 0,
      er_Relation = '''', er_CreatedAt = 0, er_MessageContent = '''', er_OccurredAt = 0\<rparr>"

definition evidence_link :: "go_string \<Rightarrow> go_string \<Rightarrow> message_quote \<Rightarrow> go_string \<Rightarrow> evidence_row" where
  "evidence_link memoryID messageID quote relation =
     zero_evidence\<lparr>er_MemoryID := memoryID, er_MessageID := messageID, er_QuoteHash := mq_Hash quote,
       er_QuoteStart := mq_StartByte quote, er_QuoteEnd := mq_EndByte quote, er_Relation := relation\<rparr>"

text \<open>A fresh memory row: what every created memory shares.\<close>

definition accepted_memory ::
    "env \<Rightarrow> go_string \<Rightarrow> go_string \<Rightarrow> go_string \<Rightarrow> go_string \<Rightarrow> go_string \<Rightarrow> memory_row" where
  "accepted_memory env memoryID kind subject content quote =
     \<lparr>mm_SchemaVersion = 0, mm_MemoryID = memoryID, mm_Kind = kind, mm_Subject = subject,
      mm_Content = content, mm_ContentHash = hashContent (env_sha env) content,
      mm_Lifecycle = LifecycleActive, mm_EpistemicStatus = ''USER_ACCEPTED'', mm_Confidence = 1,
      mm_Importance = Importance quote, mm_Sensitivity = '''', mm_SecretLike = False,
      mm_InstructionLike = False, mm_StateVersion = 0, mm_SupersedesMemoryID = '''', mm_CreatedAt = 0,
      mm_UpdatedAt = 0, mm_ScopeType = '''', mm_ProjectKey = '''', mm_AccessCount = 0,
      mm_LastAccessedAt = None, mm_Activation = 1, mm_Disputed = False, mm_RepeatCount = 0,
      mm_LastUsedSeq = 0\<rparr>"

definition base_commit ::
    "env \<Rightarrow> api_mutation \<Rightarrow> go_string \<Rightarrow> proposal_identity \<Rightarrow> message_evidence \<Rightarrow> go_string \<Rightarrow> ambient \<Rightarrow>
     mutation_commit" where
  "base_commit env rq proposalID ident ev reason am =
     \<lparr>mc_Mutation = ap_Mutation rq, mc_ProposalID = proposalID,
      mc_RequestHash = RequestHash (env_sha env) ident, mc_ResolutionReason = reason,
      mc_ReviewAuthorization = (if reason = ''REVIEWER_APPROVED'' then ''ADMIN_INTENT_REVIEW'' else ''''),
      mc_NewMemory = None, mc_UpdatedMemory = None, mc_TargetMemoryID = '''', mc_ExpectedTargetVersion = 0,
      mc_TargetLifecycle = '''', mc_Evidence = zero_evidence, mc_ContinuityKind = '''',
      mc_RelatedMemoryID = '''', mc_ProjectKey = pi_ProjectKey ident,
      mc_Sensitivity = Sensitivity_String (ev_Sensitivity ev), mc_TraceID = am_traceID am\<rparr>"

definition remember_commit ::
    "env \<Rightarrow> api_mutation \<Rightarrow> proposal_identity \<Rightarrow> message_quote \<Rightarrow> message_evidence \<Rightarrow> ambient \<Rightarrow>
     mutation_commit \<Rightarrow> mutation_commit" where
  "remember_commit env rq ident quote ev am c =
     c\<lparr>mc_NewMemory := Some ((accepted_memory env (am_memoryID am) (ap_MemoryKind rq)
            (trim_space (ap_Subject rq)) (ap_EvidenceQuote rq) (ap_EvidenceQuote rq))
          \<lparr>mm_Sensitivity := Sensitivity_String (ev_Sensitivity ev), mm_ScopeType := ap_Scope rq,
           mm_ProjectKey := pi_ProjectKey ident, mm_SecretLike := ev_SecretLike ev,
           mm_InstructionLike := ev_InstructionLike ev\<rparr>),
       mc_Evidence := evidence_link (am_memoryID am) (ap_MessageID rq) quote ''ASSERTS'',
       mc_ContinuityKind := ''MEMORY_CREATED''\<rparr>"

definition correct_commit ::
    "env \<Rightarrow> api_mutation \<Rightarrow> message_quote \<Rightarrow> mutation_target \<Rightarrow> memory_row \<Rightarrow> message_evidence \<Rightarrow> ambient \<Rightarrow>
     mutation_commit \<Rightarrow> mutation_commit" where
  "correct_commit env rq quote target row ev am c =
     (let sens = Sensitivity_String (InheritSensitivity (tg_Sensitivity target) (ev_Sensitivity ev));
          content = tg_Subject target @ '': '' @ trim_space (ap_Replacement rq) in
      c\<lparr>mc_NewMemory := Some ((accepted_memory env (am_memoryID am) (tg_Kind target) (tg_Subject target)
             content (ap_EvidenceQuote rq))
           \<lparr>mm_Sensitivity := sens, mm_ScopeType := mm_ScopeType row, mm_ProjectKey := mm_ProjectKey row,
            mm_SupersedesMemoryID := tg_MemoryID target,
            mm_SecretLike := ev_SecretLike ev \<or> mm_SecretLike row,
            mm_InstructionLike := ev_InstructionLike ev \<or> mm_InstructionLike row\<rparr>),
        mc_TargetMemoryID := tg_MemoryID target, mc_ExpectedTargetVersion := mm_StateVersion row,
        mc_TargetLifecycle := LifecycleSuperseded, mc_RelatedMemoryID := tg_MemoryID target,
        mc_ProjectKey := mm_ProjectKey row, mc_Sensitivity := sens,
        mc_Evidence := evidence_link (am_memoryID am) (ap_MessageID rq) quote ''CORRECTS'',
        mc_ContinuityKind := ''MEMORY_CORRECTED''\<rparr>)"

definition forget_commit ::
    "api_mutation \<Rightarrow> message_quote \<Rightarrow> mutation_target \<Rightarrow> memory_row \<Rightarrow> message_evidence \<Rightarrow> mutation_commit \<Rightarrow>
     mutation_commit" where
  "forget_commit rq quote target row ev c =
     c\<lparr>mc_ProjectKey := mm_ProjectKey row, mc_TargetMemoryID := tg_MemoryID target,
       mc_ExpectedTargetVersion := mm_StateVersion row, mc_TargetLifecycle := LifecycleForgotten,
       mc_Sensitivity := Sensitivity_String (InheritSensitivity (tg_Sensitivity target) (ev_Sensitivity ev)),
       mc_Evidence := evidence_link (tg_MemoryID target) (ap_MessageID rq) quote ''FORGETS'',
       mc_ContinuityKind := ''MEMORY_FORGOTTEN''\<rparr>"

text \<open>Dereferencing a nil target or quote would panic; the gate has excluded both.\<close>

definition apply_commit ::
    "env \<Rightarrow> api_mutation \<Rightarrow> go_string \<Rightarrow> proposal_identity \<Rightarrow> (mutation_target \<times> memory_row) option \<Rightarrow>
     message_evidence \<Rightarrow> go_string \<Rightarrow> ambient \<Rightarrow> go_error + mutation_commit" where
  "apply_commit env rq proposalID ident target ev reason am =
     (case pi_Evidence ident of
        None \<Rightarrow> Inl (Plain ''panic'')
      | Some quote \<Rightarrow>
          (let c = base_commit env rq proposalID ident ev reason am in
           if ap_Mutation rq = MutationRemember then Inr (remember_commit env rq ident quote ev am c)
           else if ap_Mutation rq = MutationCorrect then
             (case target of None \<Rightarrow> Inl (Plain ''panic'')
              | Some (t, row) \<Rightarrow> Inr (correct_commit env rq quote t row ev am c))
           else if ap_Mutation rq = MutationForget then
             (case target of None \<Rightarrow> Inl (Plain ''panic'')
              | Some (t, row) \<Rightarrow> Inr (forget_commit rq quote t row ev c))
           else Inl (app MemoryProposalInvalid)))"

definition commit_io :: "env \<Rightarrow> store \<Rightarrow> mutation_commit \<Rightarrow> ambient \<Rightarrow> store \<times> commit_result res" where
  "commit_io env s c am =
     CommitMutation env s c (am_commitTime am) (am_eventID am) (am_continuityID am) (am_append am) (am_flush am)"

definition apply_mutation ::
    "env \<Rightarrow> store \<Rightarrow> api_mutation \<Rightarrow> go_string \<Rightarrow> proposal_identity \<Rightarrow> (mutation_target \<times> memory_row) option \<Rightarrow>
     message_evidence \<Rightarrow> go_string \<Rightarrow> ambient \<Rightarrow> store \<times> (go_error + commit_result)" where
  "apply_mutation env s rq proposalID ident target ev reason am =
     (case apply_commit env rq proposalID ident target ev reason am of
        Inl err \<Rightarrow> (s, Inl err)
      | Inr c \<Rightarrow> (case commit_io env s c am of (s', r) \<Rightarrow> (s', plain r)))"

section \<open>Applying a mutation\<close>

definition proposalResult :: "proposal \<Rightarrow> bool \<Rightarrow> mutation_result" where
  "proposalResult p replay =
     \<lparr>mu_ProposalID = pr_ID p, mu_Outcome = pr_Status p, mu_ReasonCode = pr_ReasonCode p,
      mu_MemoryID = pr_AppliedMemoryID p, mu_DuplicateOf = '''', mu_RepeatCount = 0, mu_Importance = 0,
      mu_ContinuityRevision = 0, mu_Replay = replay\<rparr>"

definition staged_result :: "go_string \<Rightarrow> go_string \<Rightarrow> mutation_result" where
  "staged_result proposalID reason =
     \<lparr>mu_ProposalID = proposalID, mu_Outcome = ''STAGED'', mu_ReasonCode = reason, mu_MemoryID = '''',
      mu_DuplicateOf = '''', mu_RepeatCount = 0, mu_Importance = 0, mu_ContinuityRevision = 0,
      mu_Replay = False\<rparr>"

text \<open>What the call reads of its session and message: the evidence with the fields the server sets.\<close>

definition cited_evidence ::
    "store \<Rightarrow> go_string \<Rightarrow> api_mutation \<Rightarrow> message_row list \<Rightarrow> go_error + (session_row \<times> message_evidence)" where
  "cited_evidence s principalKey rq userRows =
     (case ResolveSession s principalKey (ap_SessionID rq) of
        Inl _ \<Rightarrow> Inl (app MemoryEvidenceUnavailable)
      | Inr session \<Rightarrow>
          (case LoadMessageEvidence (ix_messages (st_Index s) (ap_MessageID rq)) (ap_SessionID rq) of
             Inl _ \<Rightarrow> Inl (app MemoryEvidenceUnavailable)
           | Inr ev \<Rightarrow>
               Inr (session, ev\<lparr>ev_ClientID := principalKey, ev_SessionID := sr_SessionID session,
                 ev_CurrentUserTurn :=
                   (case LatestUserMessageID (ap_SessionID rq) userRows of
                      Inl _ \<Rightarrow> ev_CurrentUserTurn ev | Inr latest \<Rightarrow> latest = ap_MessageID rq)\<rparr>)))"

definition mutation_identity ::
    "env \<Rightarrow> go_string \<Rightarrow> session_row \<Rightarrow> api_mutation \<Rightarrow> message_evidence \<Rightarrow> quote_binding \<Rightarrow> proposal_identity" where
  "mutation_identity env principalKey session rq ev binding =
     \<lparr>pi_ClientKey = principalKey, pi_SessionID = ap_SessionID rq, pi_MessageID = ap_MessageID rq,
      pi_Mutation = ap_Mutation rq, pi_TargetMemoryID = ap_TargetMemoryID rq,
      pi_ProposedKind = ap_MemoryKind rq, pi_Scope = ap_Scope rq,
      pi_ProjectKey =
        (if ap_Mutation rq = MutationRemember \<and> ap_Scope rq = ScopeProject then sr_ProjectKey session else ''''),
      pi_Subject = trim_space (ap_Subject rq), pi_Replacement = trim_space (ap_Replacement rq),
      pi_RequestEvidenceHash = quoteHash (env_sha env) (ap_EvidenceQuote rq),
      pi_EvidenceContentHash = hashContent (env_sha env) (ev_Content ev),
      pi_Evidence =
        (if qb_ReasonCode binding = ''''
         then Some \<lparr>mq_Hash = qb_Hash binding, mq_StartByte = qb_StartByte binding,
                    mq_EndByte = qb_EndByte binding\<rparr>
         else None)\<rparr>"

definition new_proposal :: "env \<Rightarrow> go_string \<Rightarrow> proposal_identity \<Rightarrow> go_string \<Rightarrow> proposal" where
  "new_proposal env proposalID ident class =
     \<lparr>pr_ID = proposalID, pr_RequestHash = RequestHash (env_sha env) ident, pr_ReasonCode = '''',
      pr_AppliedMemoryID = '''', pr_GateClass = class, pr_Identity = ident, pr_Status = ProposalPending,
      pr_CreatedAt = 0, pr_ResolvedAt = None\<rparr>"

definition domain_request :: "go_string \<Rightarrow> api_mutation \<Rightarrow> mutation_request" where
  "domain_request principalKey rq =
     \<lparr>rq_Kind = ap_Mutation rq, rq_ClientID = principalKey, rq_SessionID = ap_SessionID rq,
      rq_MessageID = ap_MessageID rq, rq_EvidenceQuote = ap_EvidenceQuote rq,
      rq_Subject = trim_space (ap_Subject rq), rq_Replacement = trim_space (ap_Replacement rq),
      rq_TargetMemoryID = ap_TargetMemoryID rq\<rparr>"

text \<open>Staging: the proposal is in the maps even when writing the file fails.\<close>

definition stage_io :: "store \<Rightarrow> proposal \<Rightarrow> go_string \<Rightarrow> ambient \<Rightarrow> store \<times> bool" where
  "stage_io s p reason am = (StageProposal s p reason (am_stageTime am), am_stageWritten am)"

definition promoted :: "ambient \<Rightarrow> memory_row \<Rightarrow> memory_row" where
  "promoted am row =
     row\<lparr>mm_Importance := promoteImportance (mm_Importance row), mm_RepeatCount := mm_RepeatCount row + 1,
         mm_Activation := 1, mm_StateVersion := mm_StateVersion row + 1, mm_UpdatedAt := am_updateTime am\<rparr>"

definition promote_commit ::
    "env \<Rightarrow> api_mutation \<Rightarrow> go_string \<Rightarrow> proposal_identity \<Rightarrow> quote_binding \<Rightarrow> go_string \<Rightarrow> memory_row \<Rightarrow> ambient \<Rightarrow>
     mutation_commit" where
  "promote_commit env rq proposalID ident binding dup row am =
     (let row = promoted am row in
      \<lparr>mc_Mutation = ap_Mutation rq, mc_ProposalID = proposalID,
       mc_RequestHash = RequestHash (env_sha env) ident, mc_ResolutionReason = ''DUPLICATE_PROMOTED'',
       mc_ReviewAuthorization = '''', mc_NewMemory = None, mc_UpdatedMemory = Some row,
       mc_TargetMemoryID = dup, mc_ExpectedTargetVersion = mm_StateVersion row - 1, mc_TargetLifecycle = '''',
       mc_Evidence = zero_evidence\<lparr>er_MemoryID := dup, er_MessageID := ap_MessageID rq,
         er_QuoteHash := qb_Hash binding, er_QuoteStart := qb_StartByte binding,
         er_QuoteEnd := qb_EndByte binding, er_Relation := ''REASSERTS''\<rparr>,
       mc_ContinuityKind = ''MEMORY_REINFORCED'', mc_RelatedMemoryID = '''',
       mc_ProjectKey = mm_ProjectKey row, mc_Sensitivity = mm_Sensitivity row,
       mc_TraceID = am_traceID am\<rparr>)"

text \<open>The duplicate of a REMEMBER proposal among the eligible memories; a failing scan finds none.\<close>

definition duplicate_of :: "env \<Rightarrow> session_row \<Rightarrow> go_string \<Rightarrow> api_mutation \<Rightarrow> ambient \<Rightarrow> go_string" where
  "duplicate_of env session principalKey rq am =
     (if ap_Mutation rq \<noteq> MutationRemember then ''''
      else case am_eligibleRows am of
        Inl _ \<Rightarrow> ''''
      | Inr rows \<Rightarrow>
          findDuplicateSubject
            (EligibleMemories_index (env_sha env)
               \<lparr>ss_SessionID = sr_SessionID session, ss_ClientKey = principalKey, ss_ProjectKey = sr_ProjectKey session\<rparr>
               rows)
            (ap_Subject rq) (ap_Scope rq))"

text \<open>The three ways on from a verified proposal: promotion of a duplicate, or application.\<close>

definition promote_duplicate ::
    "env \<Rightarrow> store \<Rightarrow> api_mutation \<Rightarrow> proposal \<Rightarrow> quote_binding \<Rightarrow> go_string \<Rightarrow> ambient \<Rightarrow>
     store \<times> (go_error + mutation_result)" where
  "promote_duplicate env s rq p binding dup am =
     (case LoadMemoryRow s dup of
        Inl msg \<Rightarrow> (s, Inl (Plain msg))
      | Inr row \<Rightarrow>
          (case stage_io s p '''' am of
             (s', False) \<Rightarrow> (s', Inl (Plain ''write failed''))
           | (s', True) \<Rightarrow>
               (case commit_io env s' (promote_commit env rq (pr_ID p) (pr_Identity p) binding dup row am) am of
                  (s'', Inl msg) \<Rightarrow> (s'', Inl (Plain msg))
                | (s'', Inr r) \<Rightarrow>
                    (s'', Inr \<lparr>mu_ProposalID = pr_ID p, mu_Outcome = ''APPLIED'',
                      mu_ReasonCode = ''DUPLICATE_PROMOTED'', mu_MemoryID = dup, mu_DuplicateOf = dup,
                      mu_RepeatCount = mm_RepeatCount row + 1, mu_Importance = promoteImportance (mm_Importance row),
                      mu_ContinuityRevision = mr_Revision r, mu_Replay = False\<rparr>))))"

definition apply_verified ::
    "env \<Rightarrow> store \<Rightarrow> api_mutation \<Rightarrow> proposal \<Rightarrow> (mutation_target \<times> memory_row) option \<Rightarrow> message_evidence \<Rightarrow>
     go_string \<Rightarrow> ambient \<Rightarrow> store \<times> (go_error + mutation_result)" where
  "apply_verified env s rq p target ev reason am =
     (case stage_io s p '''' am of
        (s', False) \<Rightarrow> (s', Inl (Plain ''write failed''))
      | (s', True) \<Rightarrow>
          (case apply_mutation env s' rq (pr_ID p) (pr_Identity p) target ev reason am of
             (s'', Inl err) \<Rightarrow>
               ((case RejectProposal s'' (pr_ID p) ''COMMIT_FAILED_PRE_EVENT'' (am_rejectTime am) of
                   Inl _ \<Rightarrow> s'' | Inr s''' \<Rightarrow> s'''), Inl err)
           | (s'', Inr r) \<Rightarrow>
               (s'', Inr \<lparr>mu_ProposalID = pr_ID p, mu_Outcome = ''APPLIED'', mu_ReasonCode = reason,
                 mu_MemoryID = mr_MemoryID r, mu_DuplicateOf = '''', mu_RepeatCount = 0, mu_Importance = 0,
                 mu_ContinuityRevision = mr_Revision r, mu_Replay = False\<rparr>)))"

definition stage_only :: "store \<Rightarrow> proposal \<Rightarrow> go_string \<Rightarrow> ambient \<Rightarrow> store \<times> (go_error + mutation_result)" where
  "stage_only s p reason am =
     (case stage_io s p reason am of
        (s', False) \<Rightarrow> (s', Inl (Plain ''write failed''))
      | (s', True) \<Rightarrow> (s', Inr (staged_result (pr_ID p) reason)))"

text \<open>From the identity on: the replay check, the unbound quote, the gate, the duplicate, the application.\<close>

definition decide_mutation ::
    "env \<Rightarrow> store \<Rightarrow> go_string \<Rightarrow> session_row \<Rightarrow> message_evidence \<Rightarrow> api_mutation \<Rightarrow>
     (mutation_target \<times> memory_row) option \<Rightarrow> ambient \<Rightarrow> store \<times> (go_error + mutation_result)" where
  "decide_mutation env s principalKey session ev rq target am =
     (let binding = bindExactQuote (env_sha env) (ev_Content ev) (ap_EvidenceQuote rq);
          ident = mutation_identity env principalKey session rq ev binding;
          requestHash = RequestHash (env_sha env) ident in
      case FindProposalByHash s requestHash of
        Some found \<Rightarrow>
          (s, Inr (proposalResult
             (case found of Some p \<Rightarrow> p
              | None \<Rightarrow> (new_proposal env '''' ident '''')\<lparr>pr_RequestHash := '''', pr_Status := ''''\<rparr>) True))
      | None \<Rightarrow>
          if qb_ReasonCode binding \<noteq> ''''
          then stage_only s (new_proposal env (am_proposalID am) ident GateStructural) (qb_ReasonCode binding) am
          else
            (let decision = VerifyMutation (domain_request principalKey rq) ev (map_option fst target) in
             if md_Outcome decision \<noteq> MutationApply
             then stage_only s (new_proposal env (am_proposalID am) ident (md_Class decision)) (md_Reason decision) am
             else
               (let p = new_proposal env (am_proposalID am) ident '''';
                    dup = duplicate_of env session principalKey rq am in
                if dup \<noteq> '''' then promote_duplicate env s rq p binding dup am
                else apply_verified env s rq p target ev (md_Reason decision) am)))"

definition applyMutationInternal ::
    "env \<Rightarrow> store \<Rightarrow> go_string \<Rightarrow> api_mutation \<Rightarrow> bool \<Rightarrow> ambient \<Rightarrow> store \<times> (go_error + mutation_result)" where
  "applyMutationInternal env s principalKey rq allowOld am =
     (case cited_evidence s principalKey rq (am_userRows am) of
        Inl err \<Rightarrow> (s, Inl err)
      | Inr (session, ev) \<Rightarrow>
          if ev_Role ev \<noteq> RoleUser \<or> (\<not> allowOld \<and> \<not> ev_CurrentUserTurn ev)
          then (s, Inl (app MemoryCurrentTurnRequired))
          else (case mutationTarget s rq of
                  Inl err \<Rightarrow> (s, Inl err)
                | Inr target \<Rightarrow> decide_mutation env s principalKey session ev rq target am))"

definition applyMutation ::
    "env \<Rightarrow> store \<Rightarrow> go_string \<Rightarrow> api_mutation \<Rightarrow> ambient \<Rightarrow> store \<times> (go_error + mutation_result)" where
  "applyMutation env s principalKey rq am = applyMutationInternal env s principalKey rq False am"

definition applyMutationAllowOld ::
    "env \<Rightarrow> store \<Rightarrow> go_string \<Rightarrow> api_mutation \<Rightarrow> ambient \<Rightarrow> store \<times> (go_error + mutation_result)" where
  "applyMutationAllowOld env s principalKey rq am = applyMutationInternal env s principalKey rq True am"

text \<open>The endpoint: authentication, validation, application; the operations journal is left out.\<close>

definition mutate ::
    "env \<Rightarrow> server_auth \<Rightarrow> store \<Rightarrow> go_string \<Rightarrow> api_mutation \<Rightarrow> ambient \<Rightarrow> store \<times> (go_error + mutation_result)" where
  "mutate env sv s header rq am =
     (case authenticate (env_sha env) sv header ''MEMORY_PROPOSE'' of
        Inl err \<Rightarrow> (s, Inl err)
      | Inr p \<Rightarrow>
          (case valid_mutation rq of
             Inl err \<Rightarrow> (s, Inl err)
           | Inr _ \<Rightarrow> applyMutation env s (pn_Key p) rq am))"

section \<open>The review endpoints\<close>

text \<open>The request rebuilt from a staged proposal, with the quote cut out of the evidence.\<close>

definition approved_request :: "proposal_identity \<Rightarrow> go_string \<Rightarrow> api_mutation" where
  "approved_request i quote =
     \<lparr>ap_SessionID = pi_SessionID i, ap_MessageID = pi_MessageID i, ap_Mutation = pi_Mutation i,
      ap_MemoryKind = pi_ProposedKind i, ap_Scope = pi_Scope i, ap_Subject = pi_Subject i,
      ap_EvidenceQuote = quote, ap_TargetMemoryID = pi_TargetMemoryID i, ap_Replacement = pi_Replacement i\<rparr>"

definition review_request :: "api_mutation \<Rightarrow> go_string \<Rightarrow> mutation_request" where
  "review_request rq principalKey =
     \<lparr>rq_Kind = ap_Mutation rq, rq_ClientID = principalKey, rq_SessionID = ap_SessionID rq,
      rq_MessageID = ap_MessageID rq, rq_EvidenceQuote = ap_EvidenceQuote rq, rq_Subject = ap_Subject rq,
      rq_Replacement = ap_Replacement rq, rq_TargetMemoryID = ap_TargetMemoryID rq\<rparr>"

text \<open>Rehydration: the evidence a staged proposal rests on, if it is still what was staged.\<close>

definition rehydrate ::
    "env \<Rightarrow> store \<Rightarrow> proposal_identity \<Rightarrow> go_error + (message_evidence \<times> go_string)" where
  "rehydrate env s i =
     (if (\<exists>err. ResolveSession s (pi_ClientKey i) (pi_SessionID i) = Inl err)
      then Inl (app MemoryEvidenceUnavailable)
      else case (LoadMessageEvidence (ix_messages (st_Index s) (pi_MessageID i)) (pi_SessionID i), pi_Evidence i) of
        (Inr ev, Some ref) \<Rightarrow>
          (let ev = ev\<lparr>ev_ClientID := pi_ClientKey i, ev_SessionID := pi_SessionID i, ev_CurrentUserTurn := True\<rparr>;
               quote = take (nat (mq_EndByte ref - mq_StartByte ref)) (drop (nat (mq_StartByte ref)) (ev_Content ev)) in
           if pi_EvidenceContentHash i = '''' \<or>
              hashContent (env_sha env) (ev_Content ev) \<noteq> pi_EvidenceContentHash i
           then Inl (app MemoryEvidenceUnavailable)
           else if mq_StartByte ref < 0 \<or> mq_EndByte ref > int (length (ev_Content ev)) \<or>
                   mq_StartByte ref \<ge> mq_EndByte ref
           then Inl (app MemoryEvidenceUnavailable)
           else if \<not> valid_utf8 quote \<or> quoteHash (env_sha env) quote \<noteq> mq_Hash ref \<or>
                   mq_Hash ref \<noteq> pi_RequestEvidenceHash i
           then Inl (app MemoryEvidenceUnavailable)
           else Inr (ev, quote))
      | _ \<Rightarrow> Inl (app MemoryEvidenceUnavailable))"

definition adminApproveProposal ::
    "env \<Rightarrow> server_auth \<Rightarrow> store \<Rightarrow> go_string \<Rightarrow> go_string \<Rightarrow> ambient \<Rightarrow> store \<times> (go_error + commit_result)" where
  "adminApproveProposal env sv s token proposalID am =
     (if \<not> adminAuthorized sv token then (s, Inl (app AuthRequired))
      else case GetProposal s proposalID of
        None \<Rightarrow> (s, Inl (app MemoryProposalInvalid))
      | Some p \<Rightarrow>
          if pr_Status p \<noteq> ProposalPending then (s, Inl (app MemoryMutationConflict))
          else if pr_GateClass p \<noteq> GateIntent \<or> pr_ReasonCode p \<noteq> ''EXPLICIT_INTENT_NOT_VERIFIED''
          then (s, Inl (app MemoryMutationConflict))
          else (case rehydrate env s (pr_Identity p) of
            Inl err \<Rightarrow> (s, Inl err)
          | Inr (ev, quote) \<Rightarrow>
              (let rq = approved_request (pr_Identity p) quote in
               case mutationTarget s rq of
                 Inl err \<Rightarrow> (s, Inl err)
               | Inr target \<Rightarrow>
                   if md_Outcome (VerifyMutationForReview (review_request rq (pi_ClientKey (pr_Identity p))) ev
                        (map_option fst target)) \<noteq> MutationApply
                   then (s, Inl (app MemoryMutationConflict))
                   else apply_mutation env s rq proposalID (pr_Identity p) target ev ''REVIEWER_APPROVED'' am)))"

definition adminRejectProposal ::
    "server_auth \<Rightarrow> store \<Rightarrow> go_string \<Rightarrow> go_string \<Rightarrow> go_string \<Rightarrow> ambient \<Rightarrow> store \<times> (go_error + go_string)" where
  "adminRejectProposal sv s token proposalID raw am =
     (if \<not> adminAuthorized sv token then (s, Inl (app AuthRequired))
      else case GetProposal s proposalID of
        None \<Rightarrow> (s, Inl (app MemoryProposalInvalid))
      | Some p \<Rightarrow>
          if pr_Status p \<noteq> ProposalPending then (s, Inl (app MemoryMutationConflict))
          else
            (let reason = (if raw \<noteq> '''' \<and> length raw < 200 then raw else ''REVIEWER_REJECTED'') in
             case RejectProposal s proposalID reason (am_rejectTime am) of
               Inl _ \<Rightarrow> (s, Inl (app InternalError))
             | Inr s' \<Rightarrow> if am_stageWritten am then (s', Inr proposalID) else (s', Inl (app InternalError))))"

definition retire_commit :: "env \<Rightarrow> memory_row \<Rightarrow> go_string \<Rightarrow> ambient \<Rightarrow> mutation_commit" where
  "retire_commit env row memoryID am =
     \<lparr>mc_Mutation = MutationForget, mc_ProposalID = '''',
      mc_RequestHash = hashContent (env_sha env)
        (''admin-retire:'' @ memoryID @ '':'' @ itoa (mm_StateVersion row)),
      mc_ResolutionReason = ''REVIEWER_RETIRED'', mc_ReviewAuthorization = ''ADMIN_RETIRE'',
      mc_NewMemory = None, mc_UpdatedMemory = None, mc_TargetMemoryID = memoryID,
      mc_ExpectedTargetVersion = mm_StateVersion row, mc_TargetLifecycle = LifecycleSuperseded,
      mc_Evidence = zero_evidence, mc_ContinuityKind = ''MEMORY_SUPERSEDED'', mc_RelatedMemoryID = '''',
      mc_ProjectKey = mm_ProjectKey row, mc_Sensitivity = mm_Sensitivity row, mc_TraceID = am_traceID am\<rparr>"

definition adminRetireMemory ::
    "env \<Rightarrow> server_auth \<Rightarrow> store \<Rightarrow> go_string \<Rightarrow> go_string \<Rightarrow> ambient \<Rightarrow> store \<times> (go_error + commit_result)" where
  "adminRetireMemory env sv s token memoryID am =
     (if \<not> adminAuthorized sv token then (s, Inl (app AuthRequired))
      else case LoadMemoryRow s memoryID of
        Inl _ \<Rightarrow> (s, Inl (app MemoryTargetNotFound))
      | Inr row \<Rightarrow>
          if mm_MemoryID row = '''' then (s, Inl (app MemoryTargetNotFound))
          else if mm_Lifecycle row \<noteq> LifecycleActive then (s, Inl (app MemoryMutationConflict))
          else (case commit_io env s (retire_commit env row memoryID am) am of
                  (s', Inl _) \<Rightarrow> (s', Inl (app InternalError))
                | (s', Inr r) \<Rightarrow> (s', Inr r)))"

section \<open>What a call can change\<close>

text \<open>Staging and rejecting touch the two proposal maps and nothing else.\<close>

definition proposals_only :: "store \<Rightarrow> store \<Rightarrow> bool" where
  "proposals_only s s' \<longleftrightarrow>
     s' = s\<lparr>st_proposals := st_proposals s', st_proposalsHash := st_proposalsHash s'\<rparr>"

lemma proposals_only_refl [simp]: "proposals_only s s"
  by (simp add: proposals_only_def)

lemma proposals_only_stage [simp]: "proposals_only s (StageProposal s p reason now)"
  by (simp add: proposals_only_def StageProposal_def Let_def)

lemma fst_stage_io [simp]: "fst (stage_io s p reason am) = StageProposal s p reason (am_stageTime am)"
  by (simp add: stage_io_def)

lemma stage_only_frame: "proposals_only s (fst (stage_only s p reason am))"
  by (simp add: stage_only_def stage_io_def split: bool.split)

text \<open>The gate's view of a call: its evidence, binding and decision.\<close>

definition gate_passed ::
    "env \<Rightarrow> store \<Rightarrow> go_string \<Rightarrow> api_mutation \<Rightarrow> ambient \<Rightarrow> session_row \<Rightarrow> message_evidence \<Rightarrow>
     (mutation_target \<times> memory_row) option \<Rightarrow> bool" where
  "gate_passed env s principalKey rq am session ev target \<longleftrightarrow>
     cited_evidence s principalKey rq (am_userRows am) = Inr (session, ev) \<and>
     mutationTarget s rq = Inr target \<and>
     qb_ReasonCode (bindExactQuote (env_sha env) (ev_Content ev) (ap_EvidenceQuote rq)) = '''' \<and>
     md_Outcome (VerifyMutation (domain_request principalKey rq) ev (map_option fst target)) = MutationApply"

lemma applyMutationInternal_cases:
  assumes "applyMutationInternal env s principalKey rq allowOld am = (s', r)"
  obtains "proposals_only s s'" "\<And>x. r = Inr x \<Longrightarrow> mu_Replay x \<or> mu_Outcome x = ''STAGED''"
  | session ev target p dup where "gate_passed env s principalKey rq am session ev target"
      "p = new_proposal env (am_proposalID am) (mutation_identity env principalKey session rq ev
         (bindExactQuote (env_sha env) (ev_Content ev) (ap_EvidenceQuote rq))) ''''"
      "FindProposalByHash s (pr_RequestHash p) = None"
      "dup = duplicate_of env session principalKey rq am"
      "(s', r) = (if dup \<noteq> ''''
         then promote_duplicate env s rq p
           (bindExactQuote (env_sha env) (ev_Content ev) (ap_EvidenceQuote rq)) dup am
         else apply_verified env s rq p target ev
           (md_Reason (VerifyMutation (domain_request principalKey rq) ev (map_option fst target))) am)"
proof -
  consider err where "(s', r) = (s, Inl err)"
    | session ev target where "cited_evidence s principalKey rq (am_userRows am) = Inr (session, ev)"
      "mutationTarget s rq = Inr target" "decide_mutation env s principalKey session ev rq target am = (s', r)"
    using assms by (auto simp: applyMutationInternal_def split: sum.splits if_splits)
  then show ?thesis
  proof cases
    case 1
    then show ?thesis using that(1) by auto
  next
    case 2
    define binding where "binding = bindExactQuote (env_sha env) (ev_Content ev) (ap_EvidenceQuote rq)"
    define ident where "ident = mutation_identity env principalKey session rq ev binding"
    define d where "d = VerifyMutation (domain_request principalKey rq) ev (map_option fst target)"
    note dec = 2(3) [unfolded decide_mutation_def Let_def, folded binding_def, folded ident_def, folded d_def]
    show ?thesis
    proof (cases "FindProposalByHash s (RequestHash (env_sha env) ident)")
      case (Some found)
      then show ?thesis using dec that(1) by (auto simp: proposalResult_def)
    next
      case None
      note none = None
      show ?thesis
      proof (cases "qb_ReasonCode binding = '''' \<and> md_Outcome d = MutationApply")
        case True
        then have "gate_passed env s principalKey rq am session ev target"
          using 2(1,2) by (simp add: gate_passed_def binding_def d_def)
        moreover have "FindProposalByHash s (pr_RequestHash (new_proposal env (am_proposalID am) ident '''')) = None"
          using none by (simp add: new_proposal_def)
        moreover have "(s', r) =
            (if duplicate_of env session principalKey rq am \<noteq> ''''
             then promote_duplicate env s rq (new_proposal env (am_proposalID am) ident '''') binding
               (duplicate_of env session principalKey rq am) am
             else apply_verified env s rq (new_proposal env (am_proposalID am) ident '''') target ev (md_Reason d) am)"
          using dec none True by auto
        ultimately show ?thesis unfolding ident_def binding_def d_def by (rule that(2) [OF _ refl _ refl])
      next
        case False
        then obtain p reason where "stage_only s p reason am = (s', r)"
          using dec none by (auto split: if_splits)
        then show ?thesis using that(1) stage_only_frame [of s p reason am]
          by (auto simp: stage_only_def stage_io_def staged_result_def split: bool.splits)
      qed
    qed
  qed
qed

text \<open>What passing the gate says of the conversation and of the memories.\<close>

lemma bindExactQuote_bound:
  "qb_ReasonCode (bindExactQuote sha content quote) = '''' \<Longrightarrow> quote \<noteq> [] \<and> (\<exists>!i. occurs_at content quote i)"
  by (auto simp: bindExactQuote_def bind_loop_None Let_def unbound_def split: if_splits option.splits)

lemma cited_evidence_Inr:
  assumes "cited_evidence s principalKey rq userRows = Inr (session, ev)" "ev_CurrentUserTurn ev"
  shows "\<exists>row. st_sessions s (ap_SessionID rq) = Some session \<and> sr_ClientKey session = principalKey \<and>
    ix_messages (st_Index s) (ap_MessageID rq) = Some row \<and> ms_SessionID row = ap_SessionID rq \<and>
    LatestUserMessageID (ap_SessionID rq) userRows = Inr (ap_MessageID rq) \<and>
    ev_Content ev = ms_Content row \<and> ev_Role ev = ms_Role row \<and> ev_SecretLike ev = ms_SecretLike row \<and>
    ev_InstructionLike ev = ms_InstructionLike row"
  using assms
  by (auto simp: cited_evidence_def ResolveSession_def LoadMessageEvidence_def split: sum.splits option.splits if_splits)

lemma mutationTarget_Some:
  "mutationTarget s rq = Inr (Some (t, row)) \<Longrightarrow>
     ix_memories (st_Index s) (ap_TargetMemoryID rq) = Some row \<and> t = target_of row \<and>
     mm_Lifecycle row = LifecycleActive \<and> mm_Sensitivity row = ''NORMAL''"
  by (auto simp: mutationTarget_def LoadMemoryRow_def split: if_splits option.splits)

text \<open>The specification of an authorised change, in terms of the conversation.\<close>

definition authorised_change :: "store \<Rightarrow> go_string \<Rightarrow> api_mutation \<Rightarrow> ambient \<Rightarrow> bool" where
  "authorised_change s principalKey rq am \<longleftrightarrow>
     (\<exists>session row.
        st_sessions s (ap_SessionID rq) = Some session \<and> sr_ClientKey session = principalKey \<and>
        ix_messages (st_Index s) (ap_MessageID rq) = Some row \<and> ms_SessionID row = ap_SessionID rq \<and>
        ms_Role row = RoleUser \<and> \<not> ms_SecretLike row \<and> \<not> ms_InstructionLike row \<and>
        LatestUserMessageID (ap_SessionID rq) (am_userRows am) = Inr (ap_MessageID rq) \<and>
        (\<exists>!i. occurs_at (ms_Content row) (ap_EvidenceQuote rq) i)) \<and>
     hasCue (ap_Mutation rq) (to_lower (ap_EvidenceQuote rq)) \<and>
     (if ap_Mutation rq = MutationRemember
      then ap_TargetMemoryID rq = '''' \<and> overlaps (trim_space (ap_Subject rq)) (ap_EvidenceQuote rq)
      else ap_Mutation rq \<in> {MutationCorrect, MutationForget} \<and>
        (\<exists>t. ix_memories (st_Index s) (ap_TargetMemoryID rq) = Some t \<and>
           mm_Lifecycle t = LifecycleActive \<and> mm_Sensitivity t = ''NORMAL'' \<and>
           overlaps (mm_Subject t @ '' '' @ mm_Content t) (ap_EvidenceQuote rq)))"

lemma gate_passed_authorised:
  assumes "gate_passed env s principalKey rq am session ev target"
  shows "authorised_change s principalKey rq am"
proof -
  let ?d = "domain_request principalKey rq"
  have verified: "verifyMutation ?d ev (map_option fst target) False = applied"
    using assms by (simp add: gate_passed_def VerifyMutation_def outcome_apply_iff)
  then have v: "ap_Mutation rq \<in> {MutationRemember, MutationCorrect, MutationForget}"
      "evidence_authorises ?d ev" "hasCue (ap_Mutation rq) (to_lower (ap_EvidenceQuote rq))"
      "verify_target ?d (map_option fst target) = applied"
    unfolding verifyMutation_applied_iff by (simp_all add: domain_request_def)
  then have ev: "ev_CurrentUserTurn ev" "ev_Role ev = RoleUser" "\<not> ev_SecretLike ev" "\<not> ev_InstructionLike ev"
    by (simp_all add: evidence_authorises_def)
  obtain row where row: "st_sessions s (ap_SessionID rq) = Some session" "sr_ClientKey session = principalKey"
      "ix_messages (st_Index s) (ap_MessageID rq) = Some row" "ms_SessionID row = ap_SessionID rq"
      "LatestUserMessageID (ap_SessionID rq) (am_userRows am) = Inr (ap_MessageID rq)"
      "ev_Content ev = ms_Content row" "ev_Role ev = ms_Role row" "ev_SecretLike ev = ms_SecretLike row"
      "ev_InstructionLike ev = ms_InstructionLike row"
    using assms cited_evidence_Inr [OF _ ev(1)] unfolding gate_passed_def by blast
  have unique: "\<exists>!i. occurs_at (ms_Content row) (ap_EvidenceQuote rq) i"
    using assms bindExactQuote_bound [of "env_sha env"] row(6) unfolding gate_passed_def by metis
  have target: "if ap_Mutation rq = MutationRemember
      then ap_TargetMemoryID rq = '''' \<and> overlaps (trim_space (ap_Subject rq)) (ap_EvidenceQuote rq)
      else ap_Mutation rq \<in> {MutationCorrect, MutationForget} \<and>
        (\<exists>t. ix_memories (st_Index s) (ap_TargetMemoryID rq) = Some t \<and>
           mm_Lifecycle t = LifecycleActive \<and> mm_Sensitivity t = ''NORMAL'' \<and>
           overlaps (mm_Subject t @ '' '' @ mm_Content t) (ap_EvidenceQuote rq))"
  proof (cases "ap_Mutation rq = MutationRemember")
    case True
    then show ?thesis using v(4) by (simp add: verify_target_applied_iff domain_request_def)
  next
    case False
    then obtain t where t: "map_option fst target = Some t" "target_authorised ?d t"
      using v(4) by (auto simp: verify_target_applied_iff domain_request_def)
    then obtain trow where "target = Some (t, trow)" by (cases target) auto
    then have "ix_memories (st_Index s) (ap_TargetMemoryID rq) = Some trow \<and> t = target_of trow \<and>
        mm_Lifecycle trow = LifecycleActive \<and> mm_Sensitivity trow = ''NORMAL''"
      using assms mutationTarget_Some [of s rq t trow] by (simp add: gate_passed_def)
    then show ?thesis using t(2) v(1) False
      by (auto simp: target_authorised_def target_of_def domain_request_def)
  qed
  have "\<exists>session row. st_sessions s (ap_SessionID rq) = Some session \<and> sr_ClientKey session = principalKey \<and>
        ix_messages (st_Index s) (ap_MessageID rq) = Some row \<and> ms_SessionID row = ap_SessionID rq \<and>
        ms_Role row = RoleUser \<and> \<not> ms_SecretLike row \<and> \<not> ms_InstructionLike row \<and>
        LatestUserMessageID (ap_SessionID rq) (am_userRows am) = Inr (ap_MessageID rq) \<and>
        (\<exists>!i. occurs_at (ms_Content row) (ap_EvidenceQuote rq) i)"
    using row ev unique by (intro exI [of _ session] exI [of _ row]) simp
  then show ?thesis unfolding authorised_change_def using target v(3) by (intro conjI)
qed

text \<open>C11: through the mutation endpoint, and through the learner, nothing but the list of proposals
  changes unless the cited message is the latest user turn of a session of the caller, is not flagged,
  contains the quote at exactly one place, the quote carries an intent cue, and the target is an active
  NORMAL memory the quote overlaps (or, for REMEMBER, the subject is grounded in the quote).\<close>

theorem only_authorised_changes:
  "authorised_change s principalKey rq am \<or>
   (\<exists>ps hs. fst (applyMutationInternal env s principalKey rq allowOld am) =
      s\<lparr>st_proposals := ps, st_proposalsHash := hs\<rparr>)"
proof (cases "applyMutationInternal env s principalKey rq allowOld am")
  case (Pair s' r)
  then show ?thesis
  proof (cases rule: applyMutationInternal_cases)
    case 1
    then show ?thesis using Pair by (auto simp: proposals_only_def)
  next
    case (2 session ev target p dup)
    then show ?thesis using gate_passed_authorised by blast
  qed
qed

section \<open>Replays\<close>

lemma RequestHash_nonempty [simp]: "RequestHash sha i \<noteq> ''''"
  by (simp add: RequestHash_def sha_name_def)

lemma new_proposal_sel [simp]:
  "pr_ID (new_proposal env pid ident class) = pid"
  "pr_RequestHash (new_proposal env pid ident class) = RequestHash (env_sha env) ident"
  "pr_Identity (new_proposal env pid ident class) = ident"
  "pr_AppliedMemoryID (new_proposal env pid ident class) = ''''"
  by (simp_all add: new_proposal_def)

lemma StageProposal_sel:
  "st_proposals (StageProposal s (new_proposal env pid ident class) reason now) =
     (st_proposals s)(pid \<mapsto> (new_proposal env pid ident class)
       \<lparr>pr_Status := ProposalPending, pr_ReasonCode := reason, pr_CreatedAt := now\<rparr>)"
  "st_proposalsHash (StageProposal s (new_proposal env pid ident class) reason now) =
     (st_proposalsHash s)(RequestHash (env_sha env) ident \<mapsto> pid)"
  "st_Index (StageProposal s p reason now) = st_Index s"
  "st_sessions (StageProposal s p reason now) = st_sessions s"
  by (simp_all add: StageProposal_def Let_def new_proposal_def)

text \<open>The proposal a call leaves behind under the hash of its identity, as its result reports it.\<close>

definition recorded :: "env \<Rightarrow> store \<Rightarrow> proposal_identity \<Rightarrow> mutation_result \<Rightarrow> bool" where
  "recorded env s ident x \<longleftrightarrow>
     (\<exists>pid p. st_proposalsHash s (RequestHash (env_sha env) ident) = Some pid \<and> st_proposals s pid = Some p \<and>
        pr_ID p = mu_ProposalID x \<and> pr_ReasonCode p = mu_ReasonCode x \<and> pr_AppliedMemoryID p = mu_MemoryID x \<and>
        pr_Status p = (if mu_Outcome x = ''STAGED'' then ProposalPending else mu_Outcome x))"

lemma recorded_stage_only:
  "stage_only s (new_proposal env pid ident class) reason am = (s', Inr x) \<Longrightarrow> recorded env s' ident x"
  by (auto simp: stage_only_def stage_io_def staged_result_def recorded_def StageProposal_sel
    split: bool.splits)

lemma recorded_commit:
  assumes "commit_io env (StageProposal s (new_proposal env pid ident class) reason now) c am = (s', Inr r)"
    and "mc_ProposalID c = pid" "pid \<noteq> ''''" "mc_ResolutionReason c = mu_ReasonCode x"
    and "mu_ProposalID x = pid" "mu_Outcome x = ''APPLIED''" "mu_MemoryID x = mr_MemoryID r"
    and "\<And>q p. st_proposals s q = Some p \<Longrightarrow> pr_ID p = q"
  shows "recorded env s' ident x"
proof -
  let ?s = "StageProposal s (new_proposal env pid ident class) reason now"
  have ids: "st_proposals ?s q = Some p \<Longrightarrow> pr_ID p = q" for q p
    using assms(8) by (auto simp: StageProposal_sel split: if_splits)
  show ?thesis
    using commit_proposals [OF assms(1) [unfolded commit_io_def] _ ids] assms(2-7)
    by (auto simp: recorded_def StageProposal_sel)
qed

text \<open>What \<open>decide_mutation\<close> reads survives it: sessions and messages.\<close>

lemma commit_io_other:
  "st_sessions (fst (commit_io env s c am)) = st_sessions s"
  "ix_messages (st_Index (fst (commit_io env s c am))) = ix_messages (st_Index s)"
  by (simp_all add: commit_io_def CommitMutation_other)

lemma cited_evidence_cong:
  "st_sessions s' = st_sessions s \<Longrightarrow> ix_messages (st_Index s') = ix_messages (st_Index s) \<Longrightarrow>
     cited_evidence s' principalKey rq rows = cited_evidence s principalKey rq rows"
  by (simp add: cited_evidence_def ResolveSession_def cong: sum.case_cong option.case_cong)

lemma decide_recorded:
  fixes rq principalKey session ev env
  defines "ident \<equiv> mutation_identity env principalKey session rq ev
      (bindExactQuote (env_sha env) (ev_Content ev) (ap_EvidenceQuote rq))"
  assumes dec: "decide_mutation env s principalKey session ev rq target am = (s', Inr x)"
    and ids: "\<And>q p. st_proposals s q = Some p \<Longrightarrow> pr_ID p = q" and pid: "am_proposalID am \<noteq> ''''"
    and fresh: "FindProposalByHash s (RequestHash (env_sha env) ident) = None"
  shows "recorded env s' ident x \<and> st_sessions s' = st_sessions s \<and>
    ix_messages (st_Index s') = ix_messages (st_Index s)"
proof -
  define binding where "binding = bindExactQuote (env_sha env) (ev_Content ev) (ap_EvidenceQuote rq)"
  define d where "d = VerifyMutation (domain_request principalKey rq) ev (map_option fst target)"
  define p where "p = new_proposal env (am_proposalID am) ident ''''"
  define dup where "dup = duplicate_of env session principalKey rq am"
  note ident = ident_def [folded binding_def]
  note dec = dec [unfolded decide_mutation_def Let_def, folded binding_def, folded ident, folded d_def dup_def p_def]
  consider reason cls where "stage_only s (new_proposal env (am_proposalID am) ident cls) reason am = (s', Inr x)"
    | "promote_duplicate env s rq p binding dup am = (s', Inr x)"
    | "apply_verified env s rq p target ev (md_Reason d) am = (s', Inr x)"
    using dec fresh by (auto split: if_splits)
  then show ?thesis
  proof cases
    case 1
    then have "recorded env s' ident x" by (rule recorded_stage_only)
    moreover have "st_Index s' = st_Index s \<and> st_sessions s' = st_sessions s"
      using 1 by (auto simp: stage_only_def stage_io_def StageProposal_sel split: bool.splits)
    ultimately show ?thesis by simp
  next
    case 2
    then obtain row r where row: "LoadMemoryRow s dup = Inr row"
      and c: "commit_io env (StageProposal s p '''' (am_stageTime am))
        (promote_commit env rq (pr_ID p) (pr_Identity p) binding dup row am) am = (s', Inr r)"
      and x: "mu_ProposalID x = pr_ID p" "mu_Outcome x = ''APPLIED''" "mu_ReasonCode x = ''DUPLICATE_PROMOTED''"
        "mu_MemoryID x = dup"
      by (auto simp: promote_duplicate_def stage_io_def split: sum.splits bool.splits prod.splits)
    have "mr_MemoryID r = dup"
    proof -
      from CommitMutation_success [OF c [unfolded commit_io_def]] obtain committed newm e where
        "commit_new_memory (StageProposal s p '''' (am_stageTime am))
           (promote_commit env rq (pr_ID p) (pr_Identity p) binding dup row am) (am_commitTime am) = Inr newm"
        "commit_target (StageProposal s p '''' (am_stageTime am))
           (promote_commit env rq (pr_ID p) (pr_Identity p) binding dup row am) = Inr ()"
        "e = sign_event env (st_integrityKey (StageProposal s p '''' (am_stageTime am)))
           (draft_event (StageProposal s p '''' (am_stageTime am))
             (promote_commit env rq (pr_ID p) (pr_Identity p) binding dup row am) committed newm
             (am_commitTime am) (am_eventID am) (am_continuityID am))"
        "mr_MemoryID r = memoryIDForEvent e" by (metis commit_result.select_convs(1))
      then show ?thesis
        by (auto simp: commit_new_memory_def commit_target_def promote_commit_def Let_def memoryIDForEvent_def
          split: if_splits)
    qed
    then have "recorded env s' ident x"
      using recorded_commit [OF c [unfolded p_def]] x pid ids
      by (simp add: promote_commit_def Let_def p_def)
    then show ?thesis using commit_io_other [of env _ "promote_commit env rq (pr_ID p) (pr_Identity p) binding dup row am" am] c
      by (metis StageProposal_sel(3,4) fst_conv)
  next
    case 3
    then obtain c r where ac: "apply_commit env rq (pr_ID p) (pr_Identity p) target ev (md_Reason d) am = Inr c"
      and c: "commit_io env (StageProposal s p '''' (am_stageTime am)) c am = (s', Inr r)"
      and x: "mu_ProposalID x = pr_ID p" "mu_Outcome x = ''APPLIED''" "mu_ReasonCode x = md_Reason d"
        "mu_MemoryID x = mr_MemoryID r"
      by (auto simp: apply_verified_def apply_mutation_def plain_def stage_io_def
        split: sum.splits bool.splits prod.splits)
    have "mc_ProposalID c = pr_ID p \<and> mc_ResolutionReason c = md_Reason d"
      using ac by (auto simp: apply_commit_def base_commit_def remember_commit_def correct_commit_def
        forget_commit_def Let_def split: option.splits if_splits)
    then have "recorded env s' ident x"
      using recorded_commit [OF c [unfolded p_def]] x pid ids by (simp add: p_def)
    then show ?thesis using commit_io_other [of env _ c am] c by (metis StageProposal_sel(3,4) fst_conv)
  qed
qed

text \<open>Sending the same mutation again, while the cited message is still the latest turn and the target
  still passes, changes nothing and answers from the recorded proposal: the same proposal, reason and
  memory, with the status PENDING where the first answer said STAGED.\<close>

theorem mutation_replays:
  assumes "applyMutationInternal env s principalKey rq allowOld am = (s', Inr x)"
    and "\<And>q p. st_proposals s q = Some p \<Longrightarrow> pr_ID p = q" "am_proposalID am \<noteq> ''''"
    and "am_userRows am' = am_userRows am" "mutationTarget s' rq = Inr target'"
  shows "\<exists>y. applyMutationInternal env s' principalKey rq allowOld am' = (s', Inr y) \<and> mu_Replay y \<and>
    mu_ProposalID y = mu_ProposalID x \<and> mu_ReasonCode y = mu_ReasonCode x \<and> mu_MemoryID y = mu_MemoryID x \<and>
    mu_Outcome y = (if mu_Outcome x = ''STAGED'' \<and> \<not> mu_Replay x then ProposalPending else mu_Outcome x)"
proof -
  obtain session ev target where
    cited: "cited_evidence s principalKey rq (am_userRows am) = Inr (session, ev)"
    and role: "\<not> (ev_Role ev \<noteq> RoleUser \<or> (\<not> allowOld \<and> \<not> ev_CurrentUserTurn ev))"
    and target: "mutationTarget s rq = Inr target"
    and dec: "decide_mutation env s principalKey session ev rq target am = (s', Inr x)"
    using assms(1) by (auto simp: applyMutationInternal_def split: sum.splits if_splits)
  let ?ident = "mutation_identity env principalKey session rq ev
      (bindExactQuote (env_sha env) (ev_Content ev) (ap_EvidenceQuote rq))"
  show ?thesis
  proof (cases "FindProposalByHash s (RequestHash (env_sha env) ?ident)")
    case None
    then have rec: "recorded env s' ?ident x" and same: "st_sessions s' = st_sessions s"
        "ix_messages (st_Index s') = ix_messages (st_Index s)"
      using decide_recorded [OF dec assms(2,3)] by auto
    have fresh: "\<not> mu_Replay x"
      using dec None by (auto simp: decide_mutation_def Let_def stage_only_def staged_result_def
        promote_duplicate_def apply_verified_def split: if_splits sum.splits bool.splits prod.splits)
    obtain pid p where p: "st_proposalsHash s' (RequestHash (env_sha env) ?ident) = Some pid"
        "st_proposals s' pid = Some p" "pr_ID p = mu_ProposalID x" "pr_ReasonCode p = mu_ReasonCode x"
        "pr_AppliedMemoryID p = mu_MemoryID x"
        "pr_Status p = (if mu_Outcome x = ''STAGED'' then ProposalPending else mu_Outcome x)"
      using rec unfolding recorded_def by blast
    have "cited_evidence s' principalKey rq (am_userRows am') = Inr (session, ev)"
      using cited cited_evidence_cong [OF same] assms(4) by simp
    then have "applyMutationInternal env s' principalKey rq allowOld am' = (s', Inr (proposalResult p True))"
      using role assms(5) p(1,2)
      by (simp add: applyMutationInternal_def decide_mutation_def FindProposalByHash_def Let_def)
    then show ?thesis using p(3-6) fresh by (simp add: proposalResult_def)
  next
    case (Some found)
    then have s': "s' = s" and x: "mu_Replay x" "x = proposalResult (case found of Some p \<Rightarrow> p
          | None \<Rightarrow> (new_proposal env '''' ?ident '''')\<lparr>pr_RequestHash := '''', pr_Status := ''''\<rparr>) True"
      using dec by (auto simp: decide_mutation_def Let_def proposalResult_def)
    have "applyMutationInternal env s' principalKey rq allowOld am' = (s', Inr x)"
      using cited role target Some assms(4)
      by (simp add: applyMutationInternal_def decide_mutation_def Let_def s' x(2))
    then show ?thesis using x(1) by simp
  qed
qed

section \<open>Changed targets\<close>

text \<open>A commit whose projections are refreshed leaves the retargeted row in the index.\<close>

lemma commit_event_target:
  "me_TargetLifecycle (commit_event env s c now eid cid) = mc_TargetLifecycle c"
  "me_ExpectedTargetVersion (commit_event env s c now eid cid) = mc_ExpectedTargetVersion c"
  by (simp_all add: commit_event_def) (simp_all add: sign_event_def draft_event_def Let_def)

lemma commit_refreshes:
  assumes "CommitMutation env s c now eid cid io None = (s', Inr r)"
  obtains a where "st_Index s' = refresh_index env a (commit_event env s c now eid cid)"
    "st_memories a = st_memories s'" "st_lowRAM a = st_lowRAM s"
  using assms
  by (auto simp: CommitMutation_def appendMutationEvent_def refreshMutationProjections_def Let_def
    commit_event_def split: sum.splits if_splits prod.splits bool.splits)

lemma commit_retargets:
  assumes "CommitMutation env s c now eid cid io None = (s', Inr r)" "\<not> st_lowRAM s"
    and "ids_ok (st_memories s)" "mc_TargetMemoryID c \<noteq> ''''" "mc_TargetLifecycle c \<noteq> ''''"
  shows "\<exists>row. st_memories s' (mc_TargetMemoryID c) = Some row \<and>
    ix_memories (st_Index s') (mc_TargetMemoryID c) = Some row \<and>
    mm_Lifecycle row = mc_TargetLifecycle c \<and> mm_StateVersion row = mc_ExpectedTargetVersion c + 1"
proof -
  let ?e = "commit_event env s c now eid cid" and ?t = "mc_TargetMemoryID c"
  have target: "commit_target s c = Inr ()"
    using CommitMutation_success [OF assms(1)] by metis
  then obtain row where row: "st_memories s ?t = Some row"
    using assms(2,4) by (auto simp: commit_target_def memoryRowLocked_def split: if_splits option.splits)
  have m: "st_memories s' = apply_memories ?e (st_memories s)"
    using commit_store(1) [OF assms(1)] assms(2) by simp
  have some: "\<exists>row'. st_memories s' ?t = Some row' \<and> mm_Lifecycle row' = mc_TargetLifecycle c \<and>
      mm_StateVersion row' = mc_ExpectedTargetVersion c + 1"
    unfolding m apply_memories_row [OF assms(3)] row_after_def
    by (auto simp: row assms(4,5) commit_event_fields commit_event_target retarget_def Let_def split: option.split)
  then obtain row' where row': "st_memories s' ?t = Some row'" "mm_Lifecycle row' = mc_TargetLifecycle c"
      "mm_StateVersion row' = mc_ExpectedTargetVersion c + 1" by blast
  have id: "mm_MemoryID row' = ?t"
    using ids_okD [OF ids_ok_apply_memories [OF assms(3)] row'(1) [unfolded m]] .
  from commit_refreshes [OF assms(1)] obtain a where
    a: "st_Index s' = refresh_index env a ?e" "st_memories a = st_memories s'" "st_lowRAM a = st_lowRAM s" .
  have "index_target a ?e ix = Some row'" for ix
    using a(2,3) assms(2,4) row'(1) by (simp add: index_target_def commit_event_fields)
  then have "ix_memories (st_Index s') ?t = Some row'"
    using id assms(4) by (simp add: a(1) refresh_index_def Let_def Upsert_def UpsertEvidence_def)
  with row' show ?thesis by blast
qed

lemma retarget_commit:
  assumes "apply_commit env rq proposalID ident (Some (t, row)) ev reason am = Inr c"
    and "ap_Mutation rq = MutationCorrect \<or> ap_Mutation rq = MutationForget"
  shows "mc_TargetMemoryID c = tg_MemoryID t \<and>
    mc_TargetLifecycle c = (if ap_Mutation rq = MutationCorrect then LifecycleSuperseded else LifecycleForgotten)"
  using assms by (auto simp: apply_commit_def correct_commit_def forget_commit_def Let_def split: option.splits)

text \<open>An applied correction or deletion is not replayed: its target is no longer active when the same
  request comes again, and the target check, which precedes the look-up of the recorded proposal,
  refuses the repeat.\<close>

theorem retarget_not_replayed:
  assumes "applyMutationInternal env s principalKey rq allowOld am = (s', Inr x)"
    and "mu_Outcome x = ''APPLIED''" "\<not> mu_Replay x" "ap_Mutation rq \<noteq> MutationRemember"
    and "am_flush am = None" "\<not> st_lowRAM s" "ids_ok (st_memories s)" "am_userRows am' = am_userRows am"
  shows "applyMutationInternal env s' principalKey rq allowOld am' = (s', Inl (app MemoryTargetInactive))"
  using assms(1)
proof (cases rule: applyMutationInternal_cases)
  case 1
  then show ?thesis using assms(2,3) by fastforce
next
  case (2 session ev target p dup)
  let ?d = "VerifyMutation (domain_request principalKey rq) ev (map_option fst target)"
  have gate: "verifyMutation (domain_request principalKey rq) ev (map_option fst target) False = applied"
    using 2(1) by (simp add: gate_passed_def VerifyMutation_def outcome_apply_iff)
  then have kind: "ap_Mutation rq = MutationCorrect \<or> ap_Mutation rq = MutationForget"
    and auth: "evidence_authorises (domain_request principalKey rq) ev"
    and t: "\<exists>t. map_option fst target = Some t \<and> target_authorised (domain_request principalKey rq) t"
    using assms(4) unfolding verifyMutation_applied_iff verify_target_applied_iff by (auto simp: domain_request_def)
  then obtain t row where target: "target = Some (t, row)"
    and tid: "tg_MemoryID t = ap_TargetMemoryID rq" "ap_TargetMemoryID rq \<noteq> ''''"
    by (cases target) (auto simp: target_authorised_def domain_request_def)
  have "dup = ''''" using 2(4) assms(4) by (simp add: duplicate_of_def)
  then have av: "apply_verified env s rq p target ev (md_Reason ?d) am = (s', Inr x)" using 2(5) by simp
  define s1 where "s1 = StageProposal s p '''' (am_stageTime am)"
  obtain c r where ac: "apply_commit env rq (pr_ID p) (pr_Identity p) (Some (t, row)) ev (md_Reason ?d) am = Inr c"
    and c: "CommitMutation env s1 c (am_commitTime am) (am_eventID am) (am_continuityID am) (am_append am) None =
      (s', Inr r)"
    using av assms(5) by (auto simp: apply_verified_def apply_mutation_def plain_def stage_io_def commit_io_def
        target s1_def split: sum.splits bool.splits prod.splits)
  have s1: "st_lowRAM s1 = st_lowRAM s" "st_memories s1 = st_memories s" "st_sessions s1 = st_sessions s"
      "ix_messages (st_Index s1) = ix_messages (st_Index s)"
    by (simp_all add: s1_def StageProposal_def Let_def)
  note tc = retarget_commit [OF ac kind]
  obtain row' where row': "ix_memories (st_Index s') (ap_TargetMemoryID rq) = Some row'"
      "mm_Lifecycle row' \<noteq> LifecycleActive"
    using commit_retargets [OF c] assms(6,7) s1(1,2) tc tid by (auto split: if_splits)
  have "cited_evidence s' principalKey rq (am_userRows am') = Inr (session, ev)"
    using 2(1) s1(3,4) CommitMutation_other [of env s1 c] c assms(8)
      cited_evidence_cong [of s' s] by (metis fst_conv gate_passed_def)
  moreover have "mutationTarget s' rq = Inl (app MemoryTargetInactive)"
    using row' assms(4) by (simp add: mutationTarget_def LoadMemoryRow_def)
  ultimately show ?thesis using auth
    by (simp add: applyMutationInternal_def evidence_authorises_def)
qed

section \<open>Review\<close>

lemma rehydrate_Inr:
  assumes "rehydrate env s i = Inr (ev, quote)"
  shows "\<exists>row ref. ix_messages (st_Index s) (pi_MessageID i) = Some row \<and> ms_SessionID row = pi_SessionID i \<and>
    pi_Evidence i = Some ref \<and> hashContent (env_sha env) (ms_Content row) = pi_EvidenceContentHash i \<and>
    quoteHash (env_sha env) quote = pi_RequestEvidenceHash i \<and>
    quote = take (nat (mq_EndByte ref - mq_StartByte ref)) (drop (nat (mq_StartByte ref)) (ms_Content row)) \<and>
    ev_Content ev = ms_Content row \<and> ev_Role ev = ms_Role row \<and> ev_SecretLike ev = ms_SecretLike row \<and>
    ev_InstructionLike ev = ms_InstructionLike row"
  using assms
  by (auto simp: rehydrate_def LoadMessageEvidence_def Let_def split: if_splits sum.splits option.splits)

lemma adminApprove_Inr:
  assumes "adminApproveProposal env sv s token pid am = (s', Inr r)"
  obtains p ev quote target c where "adminAuthorized sv token" "st_proposals s pid = Some p"
    "pr_Status p = ProposalPending" "pr_GateClass p = GateIntent" "pr_ReasonCode p = ''EXPLICIT_INTENT_NOT_VERIFIED''"
    "rehydrate env s (pr_Identity p) = Inr (ev, quote)"
    "mutationTarget s (approved_request (pr_Identity p) quote) = Inr target"
    "md_Outcome (VerifyMutationForReview
       (review_request (approved_request (pr_Identity p) quote) (pi_ClientKey (pr_Identity p))) ev
       (map_option fst target)) = MutationApply"
    "apply_commit env (approved_request (pr_Identity p) quote) pid (pr_Identity p) target ev ''REVIEWER_APPROVED'' am = Inr c"
    "commit_io env s c am = (s', Inr r)"
  using assms
  by (auto simp: adminApproveProposal_def GetProposal_def Let_def apply_mutation_def plain_def
    split: if_splits option.splits sum.splits prod.splits)

lemma apply_commit_proposal:
  "apply_commit env rq proposalID ident target ev reason am = Inr c \<Longrightarrow>
     mc_ProposalID c = proposalID \<and> mc_ResolutionReason c = reason"
  by (auto simp: apply_commit_def base_commit_def remember_commit_def correct_commit_def
    forget_commit_def Let_def split: option.splits if_splits)

text \<open>C13: a reviewer's approval takes effect only with the administrator's credential, on a pending proposal
  that was staged for missing intent and nothing else, whose evidence is byte for byte what was staged
  (or SHA-256 collides), is an unflagged user message that still passes every check of the gate but
  the intent cue; and it marks that proposal, and no other, applied.\<close>

theorem approval_sound:
  assumes "adminApproveProposal env sv s token pid am = (s', Inr r)" "pid \<noteq> ''''"
    and "\<And>q p. st_proposals s q = Some p \<Longrightarrow> pr_ID p = q"
  shows "token = sv_AdminToken sv \<and> token \<noteq> '''' \<and>
    (\<exists>p row quote target. st_proposals s pid = Some p \<and> pr_Status p = ProposalPending \<and>
       pr_GateClass p = GateIntent \<and> pr_ReasonCode p = ''EXPLICIT_INTENT_NOT_VERIFIED'' \<and>
       ix_messages (st_Index s) (pi_MessageID (pr_Identity p)) = Some row \<and>
       ms_SessionID row = pi_SessionID (pr_Identity p) \<and> ms_Role row = RoleUser \<and>
       \<not> ms_SecretLike row \<and> \<not> ms_InstructionLike row \<and> sublist quote (ms_Content row) \<and>
       (\<forall>content. hashContent (env_sha env) content = pi_EvidenceContentHash (pr_Identity p) \<longrightarrow>
          content = ms_Content row \<or> collision (env_sha env) content (ms_Content row)) \<and>
       mutationTarget s (approved_request (pr_Identity p) quote) = Inr target \<and>
       verify_target (review_request (approved_request (pr_Identity p) quote) (pi_ClientKey (pr_Identity p)))
         (map_option fst target) = applied \<and>
       st_proposals s' = (st_proposals s)(pid \<mapsto> p\<lparr>pr_Status := ProposalApplied,
         pr_ReasonCode := ''REVIEWER_APPROVED'', pr_AppliedMemoryID := mr_MemoryID r,
         pr_ResolvedAt := Some (am_commitTime am)\<rparr>))"
  using assms(1)
proof (cases rule: adminApprove_Inr)
  case (1 p ev quote target c)
  let ?rq = "review_request (approved_request (pr_Identity p) quote) (pi_ClientKey (pr_Identity p))"
  obtain row ref where row: "ix_messages (st_Index s) (pi_MessageID (pr_Identity p)) = Some row"
      "ms_SessionID row = pi_SessionID (pr_Identity p)"
      "hashContent (env_sha env) (ms_Content row) = pi_EvidenceContentHash (pr_Identity p)"
      "ev_Content ev = ms_Content row" "ev_Role ev = ms_Role row" "ev_SecretLike ev = ms_SecretLike row"
      "ev_InstructionLike ev = ms_InstructionLike row"
    using rehydrate_Inr [OF 1(6)] by blast
  have "verifyMutation ?rq ev (map_option fst target) True = applied"
    using 1(8) by (simp add: VerifyMutationForReview_def outcome_apply_iff)
  then have v: "evidence_authorises ?rq ev" "verify_target ?rq (map_option fst target) = applied"
    unfolding verifyMutation_applied_iff by simp_all
  have same: "content = ms_Content row \<or> collision (env_sha env) content (ms_Content row)"
    if "hashContent (env_sha env) content = pi_EvidenceContentHash (pr_Identity p)" for content
  proof -
    have "sha_name (env_sha env) content = sha_name (env_sha env) (ms_Content row)"
      using that row(3) by (simp add: hashContent_def)
    then show ?thesis by (auto simp: sha_name_def hex_encode_inj collision_def)
  qed
  have "mc_ProposalID c = pid" "mc_ResolutionReason c = ''REVIEWER_APPROVED''"
    using apply_commit_proposal [OF 1(9)] by simp_all
  then have "st_proposals s' = (st_proposals s)(pid \<mapsto> p\<lparr>pr_Status := ProposalApplied,
         pr_ReasonCode := ''REVIEWER_APPROVED'', pr_AppliedMemoryID := mr_MemoryID r,
         pr_ResolvedAt := Some (am_commitTime am)\<rparr>)"
    using commit_proposals [OF 1(10) [unfolded commit_io_def] _ assms(3)] assms(2) 1(2) by auto
  moreover have "ms_Role row = RoleUser" "\<not> ms_SecretLike row" "\<not> ms_InstructionLike row" "sublist quote (ms_Content row)"
    using v(1) row by (simp_all add: evidence_authorises_def review_request_def approved_request_def)
  ultimately show ?thesis using 1(1-5,7) row(1,2) v(2) same
    by (intro conjI exI [of _ p] exI [of _ row] exI [of _ quote] exI [of _ target])
      (simp_all add: adminAuthorized_def)
qed

end
