(* ===== verification/Server_Machine.thy ===== *)
theory Server_Machine
  imports Server_Mutation Message_Journal
begin

text \<open>
  The control plane as a state machine: the checkpoint handler of \<open>lite/server.go\<close>, and a step
  relation whose steps are whole requests (checkpoints, mutations, learner passes, reviews, retirements,
  recalls, feedback).  Every request is a sequence of operations of the store, so what is proved of the
  store's journal holds of every state a server reaches.
\<close>

section \<open>Checkpoints\<close>

record checkpoint_request =
  cq_ExternalSessionID :: go_string
  cq_Title :: go_string
  cq_ProjectKey :: go_string
  cq_Mode :: go_string
  cq_Messages :: "checkpoint_message list"

record checkpoint_result =
  ct_SessionID :: go_string
  ct_MessageIDs :: "go_string \<rightharpoonup> go_string"
  ct_Replayed :: bool

text \<open>What one insertion reads from outside: the row found under its external id, the fresh identifier,
  the clock and the outcome of the append.\<close>

record insert_io =
  io_existing :: "message_row option"
  io_fresh :: go_string
  io_now :: time
  io_append :: append_io

text \<open>\<open>timestamp\<close> is \<open>archive.FormatCanonicalTimestamp\<close>.\<close>

definition checkpointMessageHash ::
    "(go_string \<Rightarrow> go_string) \<Rightarrow> (time \<Rightarrow> go_string) \<Rightarrow> checkpoint_message \<Rightarrow> go_string" where
  "checkpointMessageHash sha timestamp m =
     tupleHash sha [ck_Role m, ck_ContentType m, ck_Content m, timestamp (ck_OccurredAt m)]"

fun checkpoint_loop ::
    "env \<Rightarrow> (time \<Rightarrow> go_string) \<Rightarrow> store \<Rightarrow> checkpoint_result \<Rightarrow> (checkpoint_message \<times> insert_io) list \<Rightarrow>
     store \<times> (go_error + checkpoint_result)" where
  "checkpoint_loop env timestamp s result [] = (s, Inr result)"
| "checkpoint_loop env timestamp s result ((m, io) # rest) =
     (if ArchiveRole_Validate (ck_Role m) \<noteq> Inr () \<or> trim_space (ck_Content m) = '''' \<or> ck_ExternalMessageID m = ''''
      then (s, Inl (app InvalidRequest))
      else
        (case InsertMessage env s (ct_SessionID result)
            (m\<lparr>ck_Hash := checkpointMessageHash (env_sha env) timestamp m\<rparr>)
            (io_existing io) (io_fresh io) (io_now io) (io_append io) of
           (s', Inl msg) \<Rightarrow>
             (s', Inl (if msg = ''message conflict'' then app InvalidRequest else Plain msg))
         | (s', Inr (mid, replayed)) \<Rightarrow>
             checkpoint_loop env timestamp s'
               (result\<lparr>ct_Replayed := ct_Replayed result \<or> replayed,
                       ct_MessageIDs := (ct_MessageIDs result)(ck_ExternalMessageID m \<mapsto> mid)\<rparr>) rest))"

text \<open>The handler; \<open>fresh\<close> is the identifier of a new session, \<open>bumps\<close> the keys of the access counters
  in ranging order.\<close>

definition checkpoint ::
    "env \<Rightarrow> (time \<Rightarrow> go_string) \<Rightarrow> server_auth \<Rightarrow> store \<Rightarrow> go_string \<Rightarrow> checkpoint_request \<Rightarrow> insert_io list \<Rightarrow>
     time \<Rightarrow> go_string \<Rightarrow> go_string list \<Rightarrow> store \<times> (go_error + checkpoint_result)" where
  "checkpoint env timestamp sv s header rq ios now fresh bumps =
     (case authenticate (env_sha env) sv header ''ARCHIVE_CHECKPOINT'' of
        Inl err \<Rightarrow> (s, Inl err)
      | Inr p \<Rightarrow>
          if cq_Mode rq \<noteq> ''INCREMENTAL'' \<or> cq_Messages rq = [] \<or> length (cq_Messages rq) > 1000
          then (s, Inl (app InvalidRequest))
          else
            (case UpsertSession s (pn_Key p) (cq_ExternalSessionID rq) (cq_Title rq) (cq_ProjectKey rq) now now fresh of
               (s', Inl _) \<Rightarrow> (s', Inl (app SessionMetadataConflict))
             | (s', Inr session) \<Rightarrow>
                 (case checkpoint_loop env timestamp s'
                    \<lparr>ct_SessionID = sr_SessionID session, ct_MessageIDs = Map.empty, ct_Replayed = False\<rparr>
                    (zip (cq_Messages rq) ios) of
                    (s'', Inl err) \<Rightarrow> (s'', Inl err)
                  | (s'', Inr result) \<Rightarrow> (flushAccessBumps (env_sha env) s'' bumps, Inr result))))"

section \<open>Requests as steps\<close>

text \<open>The mutation journal's appends reach the disk or leave nothing, as in the steps of the store.\<close>

definition clean :: "ambient \<Rightarrow> bool" where
  "clean am \<longleftrightarrow> am_append am = Appended \<or> am_append am = Append_Failed 0"

inductive server_step :: "env \<Rightarrow> server_auth \<Rightarrow> store \<Rightarrow> store \<Rightarrow> bool" for env sv where
  serve_checkpoint: "server_step env sv s (fst (checkpoint env timestamp sv s header rq ios now fresh bumps))"
| serve_mutation: "clean am \<Longrightarrow> server_step env sv s (fst (mutate env sv s header api am))"
| serve_learner: "clean am \<Longrightarrow> server_step env sv s (fst (applyMutationAllowOld env s principalKey api am))"
| serve_approve: "clean am \<Longrightarrow> server_step env sv s (fst (adminApproveProposal env sv s token pid am))"
| serve_reject: "server_step env sv s (fst (adminRejectProposal sv s token pid raw am))"
| serve_retire: "clean am \<Longrightarrow> server_step env sv s (fst (adminRetireMemory env sv s token mid am))"
| serve_access: "RecordAccess (env_sha env) s mid sid kind now = Inr s' \<Longrightarrow> server_step env sv s s'"
| serve_feedback: "ApplyFeedback (env_sha env) s mid sid outcome now = Inr s' \<Longrightarrow> server_step env sv s s'"

inductive server_run :: "env \<Rightarrow> server_auth \<Rightarrow> store \<Rightarrow> store \<Rightarrow> bool" for env sv where
  serve_none: "server_run env sv s s"
| serve_next: "server_run env sv s s' \<Longrightarrow> server_step env sv s' s'' \<Longrightarrow> server_run env sv s s''"

text \<open>The invariant of the store, as long as some history of events explains it.\<close>

definition explained :: "env \<Rightarrow> store \<Rightarrow> bool" where
  "explained env s \<longleftrightarrow> (\<exists>es. run_inv env s es)"

lemma explained_step: "store_step env s ws s' \<Longrightarrow> explained env s \<Longrightarrow> explained env s'"
  by (auto simp: explained_def intro: run_inv_step)

lemmas explained_steps =
  explained_step [OF step_stage] explained_step [OF step_reject] explained_step [OF step_session]
  explained_step [OF step_access] explained_step [OF step_feedback] explained_step [OF step_flush]

lemma explained_frame:
  assumes "explained env s" "journal_frame s s'" "memory_frame s s'" "st_continuity s' = st_continuity s"
  shows "explained env s'"
  using assms memory_frame_inv journal_frame_inv unfolding explained_def run_inv_def continuity_inv_def
  by metis

lemma explained_commit:
  assumes "explained env s" "clean am"
  shows "explained env (fst (commit_io env s c am))"
proof (cases "commit_io env s c am")
  case (Pair s' r)
  show ?thesis
  proof (cases r)
    case (Inl err)
    then show ?thesis using explained_step [OF step_commit_failed] assms Pair
      by (auto simp: commit_io_def clean_def)
  next
    case (Inr x)
    then have "am_append am = Appended"
      using Pair CommitMutation_success unfolding commit_io_def by blast
    then show ?thesis using explained_step [OF step_commit] assms(1) Pair Inr
      by (auto simp: commit_io_def)
  qed
qed

lemma explained_apply:
  "explained env s \<Longrightarrow> clean am \<Longrightarrow> explained env (fst (apply_mutation env s rq pid ident target ev reason am))"
  using explained_commit [of env s am]
  by (auto simp: apply_mutation_def split: sum.split prod.split) (metis fst_conv)

lemma explained_proposals:
  assumes "explained env s" "proposals_only s s'"
  shows "explained env s'"
proof -
  obtain ps hs where s': "s' = s\<lparr>st_proposals := ps, st_proposalsHash := hs\<rparr>"
    using assms(2) unfolding proposals_only_def by blast
  show ?thesis using assms(1)
    by (rule explained_frame) (simp_all add: s' journal_frame_def memory_frame_same)
qed

lemma explained_stage: "explained env s \<Longrightarrow> explained env (StageProposal s p reason now)"
  by (rule explained_steps(1))

lemma explained_mutation:
  assumes "explained env s" "clean am"
  shows "explained env (fst (applyMutationInternal env s principalKey rq allowOld am))"
proof (cases "applyMutationInternal env s principalKey rq allowOld am")
  case (Pair s' r)
  then show ?thesis
  proof (cases rule: applyMutationInternal_cases)
    case 1
    then show ?thesis using assms(1) explained_proposals Pair by simp
  next
    case (2 session ev target p dup)
    let ?s = "StageProposal s p '''' (am_stageTime am)"
    have s1: "explained env ?s" using assms(1) by (rule explained_stage)
    have "explained env (fst (promote_duplicate env s rq p binding dup am))" for binding
    proof (cases "LoadMemoryRow s dup")
      case (Inr row)
      let ?c = "promote_commit env rq (pr_ID p) (pr_Identity p) binding dup row am"
      show ?thesis using s1 explained_commit [OF s1 assms(2), of ?c] Inr
        by (cases "commit_io env ?s ?c am")
          (auto simp: promote_duplicate_def stage_io_def split: sum.split bool.split)
    qed (use assms(1) in \<open>simp add: promote_duplicate_def\<close>)
    moreover have "explained env (fst (apply_verified env s rq p target ev reason am))" for reason
    proof -
      let ?r = "apply_mutation env ?s rq (pr_ID p) (pr_Identity p) target ev reason am"
      have a: "explained env (fst ?r)" by (rule explained_apply [OF s1 assms(2)])
      with s1 show ?thesis
        by (cases ?r) (auto simp: apply_verified_def stage_io_def intro: explained_steps(2)
          split: sum.split bool.split)
    qed
    ultimately show ?thesis using 2(5) Pair by (metis fst_conv)
  qed
qed

lemma explained_approve:
  assumes "explained env s" "clean am"
  shows "explained env (fst (adminApproveProposal env sv s token pid am))"
  using assms explained_apply
  by (auto simp: adminApproveProposal_def Let_def split: option.split sum.split)

lemma explained_reject:
  "explained env s \<Longrightarrow> explained env (fst (adminRejectProposal sv s token pid raw am))"
  by (auto simp: adminRejectProposal_def Let_def intro: explained_steps(2) split: option.split sum.split)

lemma explained_retire:
  assumes "explained env s" "clean am"
  shows "explained env (fst (adminRetireMemory env sv s token mid am))"
proof (cases "LoadMemoryRow s mid")
  case (Inr row)
  then show ?thesis using assms explained_commit [OF assms, of "retire_commit env row mid am"]
    by (cases "commit_io env s (retire_commit env row mid am) am")
      (auto simp: adminRetireMemory_def split: sum.split)
qed (use assms(1) in \<open>simp add: adminRetireMemory_def\<close>)

text \<open>The message archive lies outside the mutation journal.\<close>

lemma appendMessageRecord_frame:
  "appendMessageRecord env s row io = (s', r) \<Longrightarrow>
     journal_frame s s' \<and> memory_frame s s' \<and> st_continuity s' = st_continuity s \<and> st_Index s' = st_Index s"
  by (auto simp: appendMessageRecord_def journal_frame_def memory_frame_same Let_def split: prod.splits if_splits)

lemma explained_insert:
  assumes "explained env s"
  shows "explained env (fst (InsertMessage env s sid m existing mid now io))"
proof (cases "existing \<noteq> None")
  case True
  then show ?thesis using assms by (auto simp: InsertMessage_def)
next
  case False
  obtain s1 r where a: "appendMessageRecord env s (new_message_row env s sid m mid now) io = (s1, r)"
    by (cases "appendMessageRecord env s (new_message_row env s sid m mid now) io")
  have s1: "explained env s1" using explained_frame [OF assms] appendMessageRecord_frame [OF a] by blast
  have after: "explained env (s1\<lparr>st_messageSeq := a, st_turnSeq := b, st_messages := ms, st_Index := ix\<rparr>)"
      "explained env (s1\<lparr>st_messageSeq := a, st_turnSeq := b, st_Index := ix\<rparr>)" for a b ms ix
    by (rule explained_frame [OF s1]; simp add: journal_frame_def memory_frame_same)+
  show ?thesis using False a s1 after
    by (cases r) (auto simp: InsertMessage_def Let_def)
qed

lemma explained_checkpoint_loop:
  "explained env s \<Longrightarrow> explained env (fst (checkpoint_loop env timestamp s result ms))"
proof (induction ms arbitrary: s result)
  case (Cons p rest)
  obtain m io where p: "p = (m, io)" by (cases p)
  let ?i = "InsertMessage env s (ct_SessionID result)
      (m\<lparr>ck_Hash := checkpointMessageHash (env_sha env) timestamp m\<rparr>)
      (io_existing io) (io_fresh io) (io_now io) (io_append io)"
  have "explained env (fst ?i)" using Cons.prems by (rule explained_insert)
  then show ?case using Cons.IH Cons.prems
    by (cases ?i) (auto simp: p split: sum.split)
qed simp

lemma explained_checkpoint:
  assumes "explained env s"
  shows "explained env (fst (checkpoint env timestamp sv s header rq ios now fresh bumps))"
proof -
  have up: "explained env (fst (UpsertSession s k e t pk a n f))" for k e t pk a n f
    using explained_steps(3) assms by (cases "UpsertSession s k e t pk a n f") auto
  then have "explained env (fst (checkpoint_loop env timestamp (fst (UpsertSession s k e t pk a n f)) result ms))"
    for k e t pk a n f result ms by (rule explained_checkpoint_loop)
  with up assms show ?thesis
    by (auto simp: checkpoint_def intro!: explained_steps(6) split: sum.split prod.split) (metis fst_conv)+
qed


end
