(* ===== verification/Server_Example.thy ===== *)
theory Server_Example
  imports Server_Machine Store_Example
begin

text \<open>
  Concrete requests on which the hypotheses of the server's theorems hold: a preference that is
  remembered, the same preference forgotten, and a statement without an intent cue that a reviewer
  approves.  The digest is constant, as in \<open>Store_Example\<close>.
\<close>

definition tea_session :: session_row where
  "tea_session = zero_session\<lparr>sr_SessionID := ''s'', sr_ClientKey := ''c'', sr_Seq := 1\<rparr>"

definition tea_row :: "go_string \<Rightarrow> message_row" where
  "tea_row content = zero_message\<lparr>ms_MessageID := ''m1'', ms_SessionID := ''s'', ms_Role := RoleUser,
     ms_Content := content, ms_MessageSeq := 1, ms_TurnSeq := 1, ms_Sensitivity := ''NORMAL''\<rparr>"

definition tea_memory :: memory_row where
  "tea_memory = (accepted_memory demo_env ''mem'' KindUserPreference ''green tea'' ''likes green tea'' '''')
     \<lparr>mm_Sensitivity := ''NORMAL'', mm_StateVersion := 1, mm_ScopeType := ScopeGlobal\<rparr>"

definition tea_store :: "go_string \<Rightarrow> store" where
  "tea_store content = (empty_store demo_key)
     \<lparr>st_sessions := [''s'' \<mapsto> tea_session], st_memories := [''mem'' \<mapsto> tea_memory],
      st_Index := empty_index\<lparr>ix_messages := [''m1'' \<mapsto> tea_row content], ix_memories := [''mem'' \<mapsto> tea_memory]\<rparr>\<rparr>"

definition tea_api :: api_mutation where
  "tea_api =
     \<lparr>ap_SessionID = ''s'', ap_MessageID = ''m1'', ap_Mutation = MutationRemember,
      ap_MemoryKind = KindUserPreference, ap_Scope = ScopeGlobal, ap_Subject = ''green tea'',
      ap_EvidenceQuote = ''Remember that I like green tea'', ap_TargetMemoryID = '''', ap_Replacement = ''''\<rparr>"

definition forget_api :: api_mutation where
  "forget_api =
     \<lparr>ap_SessionID = ''s'', ap_MessageID = ''m1'', ap_Mutation = MutationForget, ap_MemoryKind = '''',
      ap_Scope = '''', ap_Subject = '''', ap_EvidenceQuote = ''forget that I like green tea'',
      ap_TargetMemoryID = ''mem'', ap_Replacement = ''''\<rparr>"

definition tea_am :: "go_string \<Rightarrow> ambient" where
  "tea_am content =
     \<lparr>am_userRows = [tea_row content], am_eligibleRows = Inr [], am_proposalID = ''p1'', am_memoryID = ''new'',
      am_eventID = ''e1'', am_continuityID = ''c1'', am_traceID = ''t'', am_stageTime = 4, am_updateTime = 5,
      am_commitTime = 5, am_rejectTime = 6, am_stageWritten = True, am_append = Appended, am_flush = None\<rparr>"

abbreviation remember_text :: go_string where "remember_text \<equiv> ''Remember that I like green tea.''"
abbreviation forget_text :: go_string where "forget_text \<equiv> ''Please forget that I like green tea.''"

definition tea_ev :: "go_string \<Rightarrow> message_evidence" where
  "tea_ev content =
     \<lparr>ev_MessageID = ''m1'', ev_ClientID = ''c'', ev_SessionID = ''s'', ev_Role = RoleUser,
      ev_Content = content, ev_ContentHash = '''', ev_CurrentUserTurn = True, ev_Retrieved = False,
      ev_SecretLike = False, ev_InstructionLike = False, ev_Sensitivity = SensitivityNormal\<rparr>"

lemma tea_cited:
  "ap_SessionID rq = ''s'' \<Longrightarrow> ap_MessageID rq = ''m1'' \<Longrightarrow>
     cited_evidence (tea_store content) ''c'' rq (am_userRows (tea_am content)) = Inr (tea_session, tea_ev content)"
  by (simp add: cited_evidence_def ResolveSession_def LoadMessageEvidence_def LatestUserMessageID_def tea_store_def
    tea_am_def tea_session_def tea_row_def tea_ev_def zero_message_def)

lemma tea_verified:
  "VerifyMutation (domain_request ''c'' tea_api) (tea_ev remember_text) None = applied"
  by code_simp

lemma tea_bound:
  "bindExactQuote (env_sha demo_env) remember_text (ap_EvidenceQuote tea_api) =
     \<lparr>qb_Hash = sha_name (\<lambda>_. ''d'') [], qb_StartByte = 0, qb_EndByte = 30, qb_ReasonCode = ''''\<rparr>"
  unfolding demo_env_sel by code_simp

text \<open>A verified request whose commit is enabled is applied.\<close>

lemma apply_commit_hash:
  "apply_commit env rq proposalID ident target ev reason am = Inr c \<Longrightarrow>
     mc_ProposalID c = proposalID \<and> mc_RequestHash c = RequestHash (env_sha env) ident"
  by (auto simp: apply_commit_def base_commit_def remember_commit_def correct_commit_def
    forget_commit_def Let_def split: option.splits if_splits)

definition enabled :: "store \<Rightarrow> ambient \<Rightarrow> go_error + mutation_commit \<Rightarrow> bool" where
  "enabled s am c \<longleftrightarrow>
     (case c of Inl _ \<Rightarrow> False
      | Inr c \<Rightarrow> (\<exists>m. commit_new_memory s c (am_commitTime am) = Inr m) \<and> commit_target s c = Inr ())"

lemma memoryRowLocked_stage [simp]:
  "memoryRowLocked (StageProposal s p reason now) = memoryRowLocked s"
  "st_integrityKey (StageProposal s p reason now) = st_integrityKey s"
  by (auto simp: StageProposal_def Let_def memoryRowLocked_def fun_eq_iff)

lemma verified_applies:
  fixes env s k rq am session ev target
  defines "b \<equiv> bindExactQuote (env_sha env) (ev_Content ev) (ap_EvidenceQuote rq)"
  defines "ident \<equiv> mutation_identity env k session rq ev b"
  assumes cited: "cited_evidence s k rq (am_userRows am) = Inr (session, ev)"
      "ev_Role ev = RoleUser" "ev_CurrentUserTurn ev" "mutationTarget s rq = Inr target"
    and new: "st_proposalsHash s = Map.empty" "qb_ReasonCode b = ''''"
      "VerifyMutation (domain_request k rq) ev (map_option fst target) = applied"
      "duplicate_of env session k rq am = ''''"
    and io: "am_stageWritten am" "am_append am = Appended" "32 \<le> length (st_integrityKey s)" "am_proposalID am \<noteq> ''''"
    and en: "enabled s am (apply_commit env rq (am_proposalID am) ident target ev (md_Reason applied) am)"
  shows "\<exists>s' x. applyMutationInternal env s k rq allowOld am = (s', Inr x) \<and> mu_Outcome x = ''APPLIED'' \<and> \<not> mu_Replay x"
proof -
  let ?p = "new_proposal env (am_proposalID am) ident ''''"
  let ?s = "StageProposal s ?p '''' (am_stageTime am)"
  obtain c m where c: "apply_commit env rq (am_proposalID am) ident target ev (md_Reason applied) am = Inr c"
    and m: "commit_new_memory s c (am_commitTime am) = Inr m" and t: "commit_target s c = Inr ()"
    using en by (auto simp: enabled_def split: sum.splits)
  have "commit_proposal ?s c \<noteq> Inl e" for e
    using apply_commit_hash [OF c] io(4) by (simp add: commit_proposal_def StageProposal_sel)
  then have "\<exists>q. commit_proposal ?s c = Inr q" by (cases "commit_proposal ?s c") auto
  moreover have "commit_new_memory ?s c (am_commitTime am) = Inr m"
    using m unfolding commit_new_memory_def memoryRowLocked_stage .
  moreover have "commit_target ?s c = Inr ()"
    using t unfolding commit_target_def memoryRowLocked_stage .
  ultimately obtain s' r where r: "commit_io env ?s c am = (s', Inr r)"
    using commit_enabled_iff [of env ?s c "am_commitTime am" "am_eventID am" "am_continuityID am" "am_flush am"]
      io(2,3) by (auto simp: commit_io_def)
  have "decide_mutation env s k session ev rq target am = apply_verified env s rq ?p target ev (md_Reason applied) am"
    using new by (simp add: decide_mutation_def Let_def FindProposalByHash_def ident_def b_def)
  also have "\<dots> = (s', Inr \<lparr>mu_ProposalID = am_proposalID am, mu_Outcome = ''APPLIED'',
      mu_ReasonCode = md_Reason applied, mu_MemoryID = mr_MemoryID r, mu_DuplicateOf = '''', mu_RepeatCount = 0,
      mu_Importance = 0, mu_ContinuityRevision = mr_Revision r, mu_Replay = False\<rparr>)"
    using io(1) c r by (simp add: apply_verified_def stage_io_def apply_mutation_def plain_def)
  finally show ?thesis using cited by (simp add: applyMutationInternal_def)
qed

lemma tea_applied:
  "\<exists>s' x. applyMutationInternal demo_env (tea_store remember_text) ''c'' tea_api False (tea_am remember_text) =
     (s', Inr x) \<and> mu_Outcome x = ''APPLIED'' \<and> \<not> mu_Replay x"
proof (rule verified_applies)
  show "cited_evidence (tea_store remember_text) ''c'' tea_api (am_userRows (tea_am remember_text)) =
      Inr (tea_session, tea_ev remember_text)"
    by (rule tea_cited) (simp_all add: tea_api_def)
  show "mutationTarget (tea_store remember_text) tea_api = Inr None"
    by (simp add: mutationTarget_def tea_api_def)
  show "VerifyMutation (domain_request ''c'' tea_api) (tea_ev remember_text) (map_option fst None) = applied"
    by (simp add: tea_verified)
  have b: "bindExactQuote (env_sha demo_env) (ev_Content (tea_ev remember_text)) (ap_EvidenceQuote tea_api) =
     \<lparr>qb_Hash = sha_name (\<lambda>_. ''d'') [], qb_StartByte = 0, qb_EndByte = 30, qb_ReasonCode = ''''\<rparr>"
    using tea_bound by (simp add: tea_ev_def)
  then show "qb_ReasonCode (bindExactQuote (env_sha demo_env) (ev_Content (tea_ev remember_text))
      (ap_EvidenceQuote tea_api)) = ''''" by simp
  show "duplicate_of demo_env tea_session ''c'' tea_api (tea_am remember_text) = ''''"
    by (simp add: duplicate_of_def tea_am_def findDuplicateSubject_def EligibleMemories_index_def Let_def)
  show "enabled (tea_store remember_text) (tea_am remember_text)
     (apply_commit demo_env tea_api (am_proposalID (tea_am remember_text))
       (mutation_identity demo_env ''c'' tea_session tea_api (tea_ev remember_text)
         (bindExactQuote (env_sha demo_env) (ev_Content (tea_ev remember_text)) (ap_EvidenceQuote tea_api)))
       None (tea_ev remember_text) (md_Reason applied) (tea_am remember_text))"
    unfolding b by (simp add: enabled_def apply_commit_def mutation_identity_def remember_commit_def base_commit_def
      accepted_memory_def tea_api_def commit_new_memory_def commit_target_def memoryRowLocked_def tea_am_def
      tea_store_def empty_store_def)
qed (simp_all add: tea_ev_def tea_store_def tea_am_def empty_store_def demo_key_def)

theorem mutation_replays_witness:
  "\<exists>s' x y. applyMutationInternal demo_env (tea_store remember_text) ''c'' tea_api False (tea_am remember_text) = (s', Inr x) \<and>
     applyMutationInternal demo_env s' ''c'' tea_api False (tea_am remember_text) = (s', Inr y) \<and>
     mu_Replay y \<and> mu_Outcome y = ''APPLIED'' \<and> mu_MemoryID y = mu_MemoryID x"
proof -
  obtain s' x where a: "applyMutationInternal demo_env (tea_store remember_text) ''c'' tea_api False
      (tea_am remember_text) = (s', Inr x)" "mu_Outcome x = ''APPLIED''"
    using tea_applied by blast
  have "\<exists>y. applyMutationInternal demo_env s' ''c'' tea_api False (tea_am remember_text) = (s', Inr y) \<and> mu_Replay y \<and>
    mu_ProposalID y = mu_ProposalID x \<and> mu_ReasonCode y = mu_ReasonCode x \<and> mu_MemoryID y = mu_MemoryID x \<and>
    mu_Outcome y = (if mu_Outcome x = ''STAGED'' \<and> \<not> mu_Replay x then ProposalPending else mu_Outcome x)"
    by (rule mutation_replays [OF a(1)])
      (simp_all add: tea_store_def empty_store_def tea_am_def mutationTarget_def tea_api_def)
  then obtain y where y: "applyMutationInternal demo_env s' ''c'' tea_api False (tea_am remember_text) = (s', Inr y)"
      "mu_Replay y" "mu_MemoryID y = mu_MemoryID x"
      "mu_Outcome y = (if mu_Outcome x = ''STAGED'' \<and> \<not> mu_Replay x then ProposalPending else mu_Outcome x)"
    by blast
  have "mu_Outcome y = ''APPLIED''" using y(4) a(2) by simp
  then show ?thesis using a(1) y(1-3) by blast
qed

text \<open>The preference forgotten.\<close>

lemma forget_applied:
  "\<exists>s' x. applyMutationInternal demo_env (tea_store forget_text) ''c'' forget_api False (tea_am forget_text) =
     (s', Inr x) \<and> mu_Outcome x = ''APPLIED'' \<and> \<not> mu_Replay x"
proof (rule verified_applies)
  show "cited_evidence (tea_store forget_text) ''c'' forget_api (am_userRows (tea_am forget_text)) =
      Inr (tea_session, tea_ev forget_text)"
    by (rule tea_cited) (simp_all add: forget_api_def)
  show "mutationTarget (tea_store forget_text) forget_api = Inr (Some (target_of tea_memory, tea_memory))"
    by (simp add: mutationTarget_def forget_api_def LoadMemoryRow_def tea_store_def tea_memory_def accepted_memory_def)
  have "target_of tea_memory =
      \<lparr>tg_MemoryID = ''mem'', tg_Kind = KindUserPreference, tg_Subject = ''green tea'',
       tg_Content = ''likes green tea'', tg_Lifecycle = LifecycleActive, tg_Sensitivity = SensitivityNormal\<rparr>"
    by (simp add: target_of_def tea_memory_def accepted_memory_def policySensitivity_def)
  then show "VerifyMutation (domain_request ''c'' forget_api) (tea_ev forget_text)
      (map_option fst (Some (target_of tea_memory, tea_memory))) = applied"
    by simp code_simp
  have b: "bindExactQuote (env_sha demo_env) (ev_Content (tea_ev forget_text)) (ap_EvidenceQuote forget_api) =
     \<lparr>qb_Hash = sha_name (\<lambda>_. ''d'') [], qb_StartByte = 7, qb_EndByte = 35, qb_ReasonCode = ''''\<rparr>"
    unfolding demo_env_sel by code_simp
  then show "qb_ReasonCode (bindExactQuote (env_sha demo_env) (ev_Content (tea_ev forget_text))
      (ap_EvidenceQuote forget_api)) = ''''" by simp
  show "duplicate_of demo_env tea_session ''c'' forget_api (tea_am forget_text) = ''''"
    by (simp add: duplicate_of_def forget_api_def)
  show "enabled (tea_store forget_text) (tea_am forget_text)
     (apply_commit demo_env forget_api (am_proposalID (tea_am forget_text))
       (mutation_identity demo_env ''c'' tea_session forget_api (tea_ev forget_text)
         (bindExactQuote (env_sha demo_env) (ev_Content (tea_ev forget_text)) (ap_EvidenceQuote forget_api)))
       (Some (target_of tea_memory, tea_memory)) (tea_ev forget_text) (md_Reason applied) (tea_am forget_text))"
    unfolding b by (simp add: enabled_def apply_commit_def mutation_identity_def forget_commit_def base_commit_def
      forget_api_def commit_new_memory_def commit_target_def memoryRowLocked_def tea_am_def target_of_def
      tea_store_def empty_store_def tea_memory_def accepted_memory_def)
qed (simp_all add: tea_ev_def tea_store_def tea_am_def empty_store_def demo_key_def)

theorem retarget_not_replayed_witness:
  "\<exists>s' x. applyMutationInternal demo_env (tea_store forget_text) ''c'' forget_api False (tea_am forget_text) = (s', Inr x) \<and>
     applyMutationInternal demo_env s' ''c'' forget_api False (tea_am forget_text) = (s', Inl (app MemoryTargetInactive))"
proof -
  obtain s' x where a: "applyMutationInternal demo_env (tea_store forget_text) ''c'' forget_api False
      (tea_am forget_text) = (s', Inr x)" "mu_Outcome x = ''APPLIED''" "\<not> mu_Replay x"
    using forget_applied by blast
  have "applyMutationInternal demo_env s' ''c'' forget_api False (tea_am forget_text) = (s', Inl (app MemoryTargetInactive))"
    by (rule retarget_not_replayed [OF a])
      (simp_all add: forget_api_def tea_am_def tea_store_def empty_store_def ids_ok_def tea_memory_def accepted_memory_def)
  with a(1) show ?thesis by blast
qed

text \<open>A conversation from an empty directory: the message arrives, the learner remembers it.\<close>

definition tea_sv :: server_auth where
  "tea_sv = \<lparr>sv_Auth = Map.empty, sv_TrustLocal = True, sv_LocalClientKey = ''c'', sv_AdminToken = ''admin''\<rparr>"

definition tea_checkpoint :: "store \<times> (go_error + checkpoint_result)" where
  "tea_checkpoint = checkpoint demo_env (\<lambda>_. ''now'') tea_sv (empty_store demo_key) ''''
     \<lparr>cq_ExternalSessionID = ''x'', cq_Title = '''', cq_ProjectKey = '''', cq_Mode = ''INCREMENTAL'',
      cq_Messages = [\<lparr>ck_ExternalMessageID = ''x1'', ck_Role = RoleUser, ck_ContentType = ''text'',
        ck_Content = remember_text, ck_OccurredAt = 1, ck_AssistantID = '''', ck_AssistantName = '''', ck_Hash = ''''\<rparr>]\<rparr>
     [\<lparr>io_existing = None, io_fresh = ''m1'', io_now = 2, io_append = Appended\<rparr>] 2 ''s'' []"

lemma tea_plain: "DetectMessagePolicy remember_text = (False, False)"
  by code_simp

lemma tea_checkpoint_state:
  fixes s defines "s \<equiv> fst tea_checkpoint"
  shows "\<exists>result. snd tea_checkpoint = Inr result" "st_integrityKey s = demo_key" "st_proposalsHash s = Map.empty"
    "st_memories s = Map.empty" "\<not> st_lowRAM s"
    "\<exists>session. st_sessions s ''s'' = Some session \<and> sr_ClientKey session = ''c'' \<and> sr_SessionID session = ''s'' \<and>
       sr_ProjectKey session = ''''"
    "\<exists>row. ix_messages (st_Index s) ''m1'' = Some row \<and> ms_MessageID row = ''m1'' \<and> ms_SessionID row = ''s'' \<and>
       ms_Role row = RoleUser \<and> ms_Content row = remember_text \<and> \<not> ms_SecretLike row \<and> \<not> ms_InstructionLike row \<and>
       ms_Sensitivity row = ''NORMAL''"
proof -
  have ok: "ArchiveRole_Validate RoleUser = Inr ()" "trim_space remember_text \<noteq> ''''"
    by code_simp+
  show "\<exists>result. snd tea_checkpoint = Inr result" "st_integrityKey s = demo_key" "st_proposalsHash s = Map.empty"
    "st_memories s = Map.empty" "\<not> st_lowRAM s"
    "\<exists>session. st_sessions s ''s'' = Some session \<and> sr_ClientKey session = ''c'' \<and> sr_SessionID session = ''s'' \<and>
       sr_ProjectKey session = ''''"
    "\<exists>row. ix_messages (st_Index s) ''m1'' = Some row \<and> ms_MessageID row = ''m1'' \<and> ms_SessionID row = ''s'' \<and>
       ms_Role row = RoleUser \<and> ms_Content row = remember_text \<and> \<not> ms_SecretLike row \<and> \<not> ms_InstructionLike row \<and>
       ms_Sensitivity row = ''NORMAL''"
    using ok by (simp_all add: s_def tea_checkpoint_def checkpoint_def authenticate_def tea_sv_def UpsertSession_def
      empty_store_def InsertMessage_def ext_key_def Let_def appendMessageRecord_def append_file_def
      flushAccessBumps_def UpsertMessage_def new_message_row_def seal_record_def tea_plain)
qed

definition tea_learn :: "store \<times> (go_error + mutation_result)" where
  "tea_learn = applyMutationAllowOld demo_env (fst tea_checkpoint) ''c'' tea_api
     ((tea_am remember_text)\<lparr>am_userRows := [tea_row remember_text]\<rparr>)"

lemma tea_learned: "\<exists>s' x. tea_learn = (s', Inr x) \<and> mu_Outcome x = ''APPLIED''"
proof -
  let ?s = "fst tea_checkpoint" and ?am = "(tea_am remember_text)\<lparr>am_userRows := [tea_row remember_text]\<rparr>"
  obtain session where session: "st_sessions ?s ''s'' = Some session" "sr_ClientKey session = ''c''"
      "sr_SessionID session = ''s''" "sr_ProjectKey session = ''''"
    using tea_checkpoint_state(6) by blast
  obtain row where row: "ix_messages (st_Index ?s) ''m1'' = Some row" "ms_MessageID row = ''m1''" "ms_SessionID row = ''s''"
      "ms_Role row = RoleUser" "ms_Content row = remember_text" "\<not> ms_SecretLike row" "\<not> ms_InstructionLike row"
      "ms_Sensitivity row = ''NORMAL''"
    using tea_checkpoint_state(7) by blast
  let ?ev = "(tea_ev remember_text)\<lparr>ev_ContentHash := ms_ContentHash row\<rparr>"
  have "\<exists>s' x. applyMutationInternal demo_env ?s ''c'' tea_api True ?am = (s', Inr x) \<and> mu_Outcome x = ''APPLIED'' \<and>
      \<not> mu_Replay x"
  proof (rule verified_applies)
    show "cited_evidence ?s ''c'' tea_api (am_userRows ?am) = Inr (session, ?ev)"
      using session row by (simp add: cited_evidence_def ResolveSession_def LoadMessageEvidence_def tea_api_def
        LatestUserMessageID_def tea_row_def zero_message_def tea_ev_def policySensitivity_def)
    show "mutationTarget ?s tea_api = Inr None"
      by (simp add: mutationTarget_def tea_api_def)
    have "VerifyMutation (domain_request ''c'' tea_api) ?ev None =
        VerifyMutation (domain_request ''c'' tea_api) (tea_ev remember_text) None"
      by (simp add: VerifyMutation_def verifyMutation_def)
    then show "VerifyMutation (domain_request ''c'' tea_api) ?ev (map_option fst None) = applied"
      by (simp add: tea_verified)
    have b: "bindExactQuote (env_sha demo_env) (ev_Content ?ev) (ap_EvidenceQuote tea_api) =
       \<lparr>qb_Hash = sha_name (\<lambda>_. ''d'') [], qb_StartByte = 0, qb_EndByte = 30, qb_ReasonCode = ''''\<rparr>"
      using tea_bound by (simp add: tea_ev_def)
    then show "qb_ReasonCode (bindExactQuote (env_sha demo_env) (ev_Content ?ev) (ap_EvidenceQuote tea_api)) = ''''"
      by simp
    show "duplicate_of demo_env session ''c'' tea_api ?am = ''''"
      by (simp add: duplicate_of_def tea_am_def findDuplicateSubject_def EligibleMemories_index_def Let_def)
    show "enabled ?s ?am (apply_commit demo_env tea_api (am_proposalID ?am)
         (mutation_identity demo_env ''c'' session tea_api ?ev
           (bindExactQuote (env_sha demo_env) (ev_Content ?ev) (ap_EvidenceQuote tea_api)))
         None ?ev (md_Reason applied) ?am)"
      unfolding b by (simp add: enabled_def apply_commit_def mutation_identity_def remember_commit_def base_commit_def
        accepted_memory_def tea_api_def commit_new_memory_def commit_target_def memoryRowLocked_def tea_am_def
        tea_checkpoint_state)
  qed (simp_all add: tea_ev_def tea_checkpoint_state tea_am_def, simp add: demo_key_def)
  then show ?thesis by (auto simp: tea_learn_def applyMutationAllowOld_def)
qed


text \<open>A statement without an intent cue is staged; the reviewer approves it.\<close>

abbreviation plain_text :: go_string where "plain_text \<equiv> ''I like green tea.''"

definition plain_api :: api_mutation where
  "plain_api = tea_api\<lparr>ap_EvidenceQuote := ''I like green tea''\<rparr>"

definition staged_store :: store where
  "staged_store = fst (applyMutation demo_env (tea_store plain_text) ''c'' plain_api (tea_am plain_text))"

definition staged_identity :: proposal_identity where
  "staged_identity = mutation_identity demo_env ''c'' tea_session plain_api (tea_ev plain_text)
     \<lparr>qb_Hash = sha_name (\<lambda>_. ''d'') [], qb_StartByte = 0, qb_EndByte = 16, qb_ReasonCode = ''''\<rparr>"

definition staged_proposal :: proposal where
  "staged_proposal = (new_proposal demo_env ''p1'' staged_identity GateIntent)
     \<lparr>pr_ReasonCode := ''EXPLICIT_INTENT_NOT_VERIFIED'', pr_CreatedAt := 4\<rparr>"

lemma staged:
  "staged_store = StageProposal (tea_store plain_text) (new_proposal demo_env ''p1'' staged_identity GateIntent)
     ''EXPLICIT_INTENT_NOT_VERIFIED'' 4"
proof -
  have cited: "cited_evidence (tea_store plain_text) ''c'' plain_api (am_userRows (tea_am plain_text)) =
      Inr (tea_session, tea_ev plain_text)"
    by (rule tea_cited) (simp_all add: plain_api_def tea_api_def)
  have b: "bindExactQuote (env_sha demo_env) plain_text (ap_EvidenceQuote plain_api) =
     \<lparr>qb_Hash = sha_name (\<lambda>_. ''d'') [], qb_StartByte = 0, qb_EndByte = 16, qb_ReasonCode = ''''\<rparr>"
    unfolding demo_env_sel by code_simp
  have v: "VerifyMutation (domain_request ''c'' plain_api) (tea_ev plain_text) None =
      \<lparr>md_Outcome = MutationStaged, md_Reason = ''EXPLICIT_INTENT_NOT_VERIFIED'', md_Class = GateIntent\<rparr>"
    by code_simp
  have "tea_store plain_text = tea_store plain_text\<lparr>st_proposalsHash := Map.empty\<rparr>"
    by (simp add: tea_store_def empty_store_def)
  then have none: "FindProposalByHash (tea_store plain_text) h = None" for h
    by (simp add: FindProposalByHash_def tea_store_def empty_store_def)
  have t: "mutationTarget (tea_store plain_text) plain_api = Inr None"
    by (simp add: mutationTarget_def plain_api_def tea_api_def)
  have e: "ev_Content (tea_ev plain_text) = plain_text" "ev_Role (tea_ev plain_text) = RoleUser"
      "ev_CurrentUserTurn (tea_ev plain_text)" by (simp_all add: tea_ev_def)
  show ?thesis
    unfolding staged_store_def applyMutation_def applyMutationInternal_def cited decide_mutation_def e(1) b
    by (simp add: t e none v b [simplified] stage_only_def stage_io_def staged_identity_def tea_am_def Let_def)
qed

lemma staged_sel:
  "st_proposals staged_store = [''p1'' \<mapsto> staged_proposal]"
  "st_sessions staged_store = [''s'' \<mapsto> tea_session]"
  "ix_messages (st_Index staged_store) = [''m1'' \<mapsto> tea_row plain_text]"
  "memoryRowLocked staged_store = [''mem'' \<mapsto> tea_memory]"
  "st_integrityKey staged_store = demo_key"
  by (simp_all add: staged StageProposal_sel staged_proposal_def)
    (simp_all add: tea_store_def empty_store_def new_proposal_def memoryRowLocked_def fun_eq_iff)

lemma approved:
  "\<exists>s' r. adminApproveProposal demo_env tea_sv staged_store ''admin'' ''p1'' (tea_am plain_text) = (s', Inr r)"
proof -
  let ?ev = "tea_ev plain_text" and ?quote = "ap_EvidenceQuote plain_api"
  let ?c = "remember_commit demo_env plain_api staged_identity
      \<lparr>mq_Hash = sha_name (\<lambda>_. ''d'') [], mq_StartByte = 0, mq_EndByte = 16\<rparr> ?ev (tea_am plain_text)
      (base_commit demo_env plain_api ''p1'' staged_identity ?ev ''REVIEWER_APPROVED'' (tea_am plain_text))"
  have id: "pr_Identity staged_proposal = staged_identity" "pr_Status staged_proposal = ProposalPending"
      "pr_GateClass staged_proposal = GateIntent" "pr_ReasonCode staged_proposal = ''EXPLICIT_INTENT_NOT_VERIFIED''"
      "pi_ClientKey staged_identity = ''c''"
    by (simp_all add: staged_proposal_def new_proposal_def staged_identity_def mutation_identity_def)
  have q: "valid_utf8 ''I like green tea''" "quoteHash (\<lambda>_. ''d'') ''I like green tea'' = sha_name (\<lambda>_. ''d'') []"
    by code_simp+
  then have rehydrated: "rehydrate demo_env staged_store staged_identity = Inr (?ev, ?quote)"
    by (simp add: rehydrate_def ResolveSession_def LoadMessageEvidence_def staged_sel staged_identity_def
      mutation_identity_def plain_api_def tea_api_def tea_session_def tea_row_def zero_message_def tea_ev_def
      hashContent_def policySensitivity_def Let_def)
  have trimmed: "trim_space ''green tea'' = ''green tea''" "trim_space '''' = ''''" by code_simp+
  then have rq: "approved_request staged_identity ?quote = plain_api"
    by (simp add: approved_request_def staged_identity_def mutation_identity_def plain_api_def tea_api_def)
  have v: "VerifyMutationForReview (review_request plain_api ''c'') ?ev None = applied" by code_simp
  have t: "mutationTarget staged_store plain_api = Inr None"
    by (simp add: mutationTarget_def plain_api_def tea_api_def)
  have ac: "apply_commit demo_env plain_api ''p1'' staged_identity None ?ev ''REVIEWER_APPROVED'' (tea_am plain_text) = Inr ?c"
    by (simp add: apply_commit_def plain_api_def tea_api_def staged_identity_def mutation_identity_def)
  have "\<exists>s' r. commit_io demo_env staged_store ?c (tea_am plain_text) = (s', Inr r)"
    using commit_enabled_iff [of demo_env staged_store ?c 5 "''e1''" "''c1''" None]
    by (simp add: commit_io_def tea_am_def staged_sel commit_proposal_def commit_new_memory_def commit_target_def
      remember_commit_def base_commit_def accepted_memory_def staged_proposal_def new_proposal_def demo_key_def)
  then show ?thesis
    using rehydrated rq v t ac
    by (auto simp: adminApproveProposal_def adminAuthorized_def tea_sv_def GetProposal_def staged_sel id Let_def
      apply_mutation_def plain_def)
qed

theorem approval_sound_witness:
  "\<exists>s' r. adminApproveProposal demo_env tea_sv staged_store ''admin'' ''p1'' (tea_am plain_text) = (s', Inr r) \<and>
     map_option pr_Status (st_proposals s' ''p1'') = Some ProposalApplied"
proof -
  obtain s' r where a: "adminApproveProposal demo_env tea_sv staged_store ''admin'' ''p1'' (tea_am plain_text) = (s', Inr r)"
    using approved by blast
  have ids: "pr_ID p = q" if "st_proposals staged_store q = Some p" for q p
    using that by (auto simp: staged_sel staged_proposal_def split: if_splits)
  show ?thesis using approval_sound [OF a _ ids] a by (intro exI [of _ s'] exI [of _ r]) auto
qed

end
