(* ===== verification/Index_Search.thy ===== *)
theory Index_Search
  imports Rank_Model Go_Sort
begin

text \<open>
  The queries of \<open>lite/index.go\<close>: candidates by BM25 for Latin queries, by trigrams or \<open>LIKE\<close> for the
  others, and the rows read back by identifier.  The tables of the index are lists of rows in the order
  in which SQLite scans them; what its full-text engine matches and how it scores are parameters, and
  so are the errors of a query.  \<open>LIKE\<close>, the filters, the order and the limit of a query are written out.
\<close>

section \<open>The database\<close>

record fts =
  ft_fts :: "memory_row list"
  ft_bm25 :: "memory_row list"
  ft_current :: "memory_row list"
  ft_match :: "go_string \<Rightarrow> memory_row \<Rightarrow> bool"
  ft_bm25_match :: "go_string \<Rightarrow> memory_row \<Rightarrow> bool"
  ft_bm25_score :: "go_string \<Rightarrow> memory_row \<Rightarrow> real"
  ft_fts_error :: "go_string \<Rightarrow> go_string option"
  ft_bm25_error :: "go_string \<Rightarrow> go_string option"
  ft_like_error :: "go_string \<Rightarrow> go_string option"
  ft_current_error :: "go_string option"
  ft_range :: "go_string set \<Rightarrow> go_string list"

record index_candidate =
  ic_MemoryID :: go_string
  ic_Relevance :: real
  ic_BM25 :: bool

text \<open>\<open>text LIKE pattern\<close> without an \<open>ESCAPE\<close> clause: \<open>%\<close> stands for any sequence, \<open>_\<close> for one
  character, every other character for itself up to the case of ASCII letters.\<close>

definition ascii_fold :: "rune \<Rightarrow> rune" where
  "ascii_fold r = (if 65 \<le> r \<and> r \<le> 90 then r + 32 else r)"

fun sql_like :: "rune list \<Rightarrow> rune list \<Rightarrow> bool" where
  "sql_like [] cs = (cs = [])"
| "sql_like (p # ps) [] = (p = 37 \<and> sql_like ps [])"
| "sql_like (p # ps) (c # cs) =
     (if p = 37 then sql_like ps (c # cs) \<or> sql_like (p # ps) cs
      else (p = 95 \<or> ascii_fold p = ascii_fold c) \<and> sql_like ps cs)"

text \<open>The conditions every query adds: active, normal, in scope, of a requested kind.\<close>

definition sql_visible :: "go_string \<Rightarrow> go_string list \<Rightarrow> memory_row \<Rightarrow> bool" where
  "sql_visible projectKey kinds row \<longleftrightarrow>
     mm_Lifecycle row = ''ACTIVE'' \<and> mm_Sensitivity row = ''NORMAL'' \<and>
     (mm_ScopeType row = ''GLOBAL'' \<or> projectKey \<noteq> '''' \<and> mm_ScopeType row = ''PROJECT'' \<and> mm_ProjectKey row = projectKey) \<and>
     (kinds = [] \<or> mm_Kind row \<in> set kinds)"

section \<open>Queries\<close>

definition quoteFTS :: "go_string \<Rightarrow> go_string" where
  "quoteFTS query = [CHR 0x22] @ concat (map (\<lambda>c. if c = CHR 0x22 then [CHR 0x22, CHR 0x22] else [c]) query) @ [CHR 0x22]"

definition replace_char :: "char \<Rightarrow> go_string \<Rightarrow> go_string \<Rightarrow> go_string" where
  "replace_char old new s = concat (map (\<lambda>c. if c = old then new else [c]) s)"

definition escapeLike :: "go_string \<Rightarrow> go_string" where
  "escapeLike value =
     (let value = replace_char (CHR 0x5C) [CHR 0x5C, CHR 0x5C] value;
          value = replace_char (CHR 0x25) [CHR 0x5C, CHR 0x25] value in
      replace_char (CHR 0x5F) [CHR 0x5C, CHR 0x5F] value)"

definition like_pattern :: "go_string \<Rightarrow> go_string" where
  "like_pattern query = [CHR 0x25] @ escapeLike query @ [CHR 0x25]"

definition row_like :: "go_string \<Rightarrow> memory_row \<Rightarrow> bool" where
  "row_like pattern row \<longleftrightarrow>
     sql_like (runes pattern) (runes (mm_Subject row)) \<or> sql_like (runes pattern) (runes (mm_Content row))"

definition likeOnce :: "fts \<Rightarrow> go_string \<Rightarrow> go_string \<Rightarrow> go_string list \<Rightarrow> nat \<Rightarrow> go_string list res" where
  "likeOnce db likeQuery projectKey kinds limit =
     (case ft_like_error db likeQuery of
        Some err \<Rightarrow> Inl err
      | None \<Rightarrow> Inr (map mm_MemoryID (take limit
          (filter (\<lambda>row. row_like (like_pattern likeQuery) row \<and> sql_visible projectKey kinds row) (ft_fts db)))))"

definition like_prefixes :: "go_string \<Rightarrow> go_string list" where
  "like_prefixes query =
     (let rs = runes (concat (lite_cjkRuns query)) in
      if length rs \<ge> 3 then filter (\<lambda>p. p \<noteq> query) (map (\<lambda>n. utf8 (take n rs)) (rev [2..<length rs])) else [])"

fun like_first :: "(go_string \<Rightarrow> go_string list res) \<Rightarrow> go_string option \<Rightarrow> go_string list \<Rightarrow> go_string list res" where
  "like_first once lastErr [] = (case lastErr of Some err \<Rightarrow> Inl err | None \<Rightarrow> Inr [])"
| "like_first once lastErr (q # qs) =
     (case once q of
        Inl err \<Rightarrow> like_first once (Some err) qs
      | Inr ids \<Rightarrow> if ids \<noteq> [] then Inr ids else like_first once lastErr qs)"

definition likeFallback :: "fts \<Rightarrow> go_string \<Rightarrow> go_string \<Rightarrow> go_string list \<Rightarrow> nat \<Rightarrow> go_string list res" where
  "likeFallback db query projectKey kinds limit =
     like_first (\<lambda>q. likeOnce db q projectKey kinds limit) None (query # like_prefixes query)"

definition legacy_match :: "fts \<Rightarrow> go_string \<Rightarrow> memory_row \<Rightarrow> bool" where
  "legacy_match db query row =
     (if length (runes query) \<ge> 3 then ft_match db (quoteFTS query) row else row_like (like_pattern query) row)"

definition legacy_error :: "fts \<Rightarrow> go_string \<Rightarrow> go_string option" where
  "legacy_error db query = (if length (runes query) \<ge> 3 then ft_fts_error db query else ft_like_error db query)"

definition searchLegacyCandidates :: "fts \<Rightarrow> go_string \<Rightarrow> go_string \<Rightarrow> go_string list \<Rightarrow> nat \<Rightarrow> go_string list res" where
  "searchLegacyCandidates db query projectKey kinds limit =
     (let query = trim_space query in
      if query = '''' then Inr []
      else
        (let ids = map mm_MemoryID (take limit (filter (\<lambda>row. legacy_match db query row \<and> sql_visible projectKey kinds row) (ft_fts db))) in
         if legacy_error db query \<noteq> None then likeFallback db query projectKey kinds limit
         else if ids = [] \<and> length (runes query) \<ge> 3 then likeFallback db query projectKey kinds limit else Inr ids))"

text \<open>BM25: the score of SQLite is negative, the better the lower.\<close>

definition normalizeBM25 :: "real \<Rightarrow> real" where
  "normalizeBM25 rawScore = (if rawScore \<ge> 0 then 0 else round6 (- rawScore / (1 + - rawScore)))"

definition ordinal_suffix :: "go_string \<Rightarrow> go_string \<Rightarrow> bool" where
  "ordinal_suffix lower sfx =
     (let p = trim_suffix lower sfx in
      p \<noteq> lower \<and> p \<noteq> '''' \<and> list_all (\<lambda>r. 48 \<le> r \<and> r \<le> 57) (runes p))"

definition mixedAlphaNumeric :: "go_string \<Rightarrow> bool" where
  "mixedAlphaNumeric value =
     (if list_ex (\<lambda>r. 48 \<le> r \<and> r \<le> 57) (runes value) \<and>
         list_ex (\<lambda>r. (97 \<le> r \<and> r \<le> 122) \<or> (65 \<le> r \<and> r \<le> 90)) (runes value)
      then \<not> list_ex (ordinal_suffix (to_lower value)) [''st'', ''nd'', ''rd'', ''th''] else False)"

definition bm25_before :: "fts \<Rightarrow> go_string \<Rightarrow> memory_row \<Rightarrow> memory_row \<Rightarrow> bool" where
  "bm25_before db expr a b \<longleftrightarrow>
     (if ft_bm25_score db expr a \<noteq> ft_bm25_score db expr b then ft_bm25_score db expr a < ft_bm25_score db expr b
      else bytes_less (mm_MemoryID a) (mm_MemoryID b))"

definition queryBM25Candidates :: "fts \<Rightarrow> go_string \<Rightarrow> go_string \<Rightarrow> go_string list \<Rightarrow> nat \<Rightarrow> index_candidate list res" where
  "queryBM25Candidates db expr projectKey kinds limit =
     (case ft_bm25_error db expr of
        Some err \<Rightarrow> Inl err
      | None \<Rightarrow> Inr (map (\<lambda>row. \<lparr>ic_MemoryID = mm_MemoryID row, ic_Relevance = normalizeBM25 (ft_bm25_score db expr row), ic_BM25 = True\<rparr>)
          (take limit (sort_by (bm25_before db expr)
            (filter (\<lambda>row. ft_bm25_match db expr row \<and> sql_visible projectKey kinds row) (ft_bm25 db))))))"

fun join_with :: "go_string \<Rightarrow> go_string list \<Rightarrow> go_string" where
  "join_with sep [] = []"
| "join_with sep [x] = x"
| "join_with sep (x # y # ys) = x @ sep @ join_with sep (y # ys)"

definition searchBM25Candidates :: "fts \<Rightarrow> go_string \<Rightarrow> go_string \<Rightarrow> go_string list \<Rightarrow> nat \<Rightarrow> index_candidate list res" where
  "searchBM25Candidates db query projectKey kinds limit =
     (let terms = filter (\<lambda>t. length (runes t) \<ge> 2) (ft_range db (retrievalTokenSet query)) in
      if terms = [] then Inr []
      else
        (let terms = sort_by bytes_less terms;
             expr = join_with '' OR '' (map quoteFTS terms);
             anchors = map quoteFTS (filter mixedAlphaNumeric terms);
             plain = queryBM25Candidates db expr projectKey kinds limit in
         if anchors = [] then plain
         else
           (case queryBM25Candidates db (''('' @ join_with '' OR '' anchors @ '') AND ('' @ expr @ '')'') projectKey kinds limit of
              Inl err \<Rightarrow> Inl err
            | Inr cs \<Rightarrow> if cs \<noteq> [] then Inr cs else plain)))"

definition SearchRankedCandidates :: "fts \<Rightarrow> go_string \<Rightarrow> go_string \<Rightarrow> go_string list \<Rightarrow> int \<Rightarrow> index_candidate list res" where
  "SearchRankedCandidates db query projectKey kinds limit =
     (let query = trim_space query;
          legacy = bindE (searchLegacyCandidates db query projectKey kinds (nat limit))
            (\<lambda>ids. Inr (map (\<lambda>i. \<lparr>ic_MemoryID = i, ic_Relevance = 0, ic_BM25 = False\<rparr>) ids)) in
      if query = '''' \<or> limit \<le> 0 then Inr []
      else if \<not> containsCJK query
      then (case searchBM25Candidates db query projectKey kinds (nat limit) of Inr cs \<Rightarrow> Inr cs | Inl _ \<Rightarrow> legacy)
      else legacy)"

definition SearchCandidates :: "fts \<Rightarrow> go_string \<Rightarrow> go_string \<Rightarrow> go_string list \<Rightarrow> int \<Rightarrow> go_string list res" where
  "SearchCandidates db query projectKey kinds limit =
     bindE (SearchRankedCandidates db query projectKey kinds limit) (\<lambda>cs. Inr (map ic_MemoryID cs))"

text \<open>The rows of \<open>memories_current\<close>, whose primary key is the identifier.\<close>

definition row_of :: "fts \<Rightarrow> go_string \<Rightarrow> memory_row option" where
  "row_of db memoryID = find (\<lambda>row. mm_MemoryID row = memoryID) (ft_current db)"

definition LoadMemories :: "fts \<Rightarrow> go_string list \<Rightarrow> memory_row list res" where
  "LoadMemories db ids =
     (if ids = [] then Inr []
      else if length ids > 500 then Inl ''too many memory ids''
      else case ft_current_error db of
        Some err \<Rightarrow> Inl err
      | None \<Rightarrow> Inr (List.map_filter (row_of db) ids))"

definition EligibleMemoryRows :: "fts \<Rightarrow> go_string \<Rightarrow> go_string list \<Rightarrow> bool \<Rightarrow> nat \<Rightarrow> memory_row list res" where
  "EligibleMemoryRows db projectKey kinds historical limit =
     (case ft_current_error db of
        Some err \<Rightarrow> Inl err
      | None \<Rightarrow>
          (let rows = filter (\<lambda>row. mm_Sensitivity row = ''NORMAL'' \<and>
                 (mm_ScopeType row = ''GLOBAL'' \<or> projectKey \<noteq> '''' \<and> mm_ScopeType row = ''PROJECT'' \<and> mm_ProjectKey row = projectKey) \<and>
                 (historical \<or> mm_Lifecycle row = ''ACTIVE'') \<and> (kinds = [] \<or> mm_Kind row \<in> set kinds)) (ft_current db);
               rows = sort_by (newest_first mm_UpdatedAt mm_MemoryID) rows in
           Inr (if limit > 0 then take limit rows else rows)))"

section \<open>What the queries return\<close>

definition visible_ids :: "fts \<Rightarrow> go_string \<Rightarrow> go_string list \<Rightarrow> go_string set" where
  "visible_ids db projectKey kinds =
     mm_MemoryID ` {row \<in> set (ft_fts db) \<union> set (ft_bm25 db). sql_visible projectKey kinds row}"

text \<open>A result whose elements have their identifiers in a set, and which is not longer than asked for.\<close>

definition drawn_from :: "('a \<Rightarrow> go_string) \<Rightarrow> go_string set \<Rightarrow> nat \<Rightarrow> 'a list res \<Rightarrow> bool" where
  "drawn_from f ids n r \<longleftrightarrow> (case r of Inl _ \<Rightarrow> True | Inr xs \<Rightarrow> f ` set xs \<subseteq> ids \<and> length xs \<le> n)"

lemma drawn_from_simps [simp]:
  "drawn_from f ids n (Inl e)" "drawn_from f ids n (Inr xs) \<longleftrightarrow> f ` set xs \<subseteq> ids \<and> length xs \<le> n"
  by (simp_all add: drawn_from_def)

lemma visible_taken:
  "mm_MemoryID ` set (take n (filter (\<lambda>row. P row \<and> sql_visible p kinds row) (ft_fts db))) \<subseteq> visible_ids db p kinds"
  "mm_MemoryID ` set (take n (sort_by lt (filter (\<lambda>row. P row \<and> sql_visible p kinds row) (ft_bm25 db)))) \<subseteq> visible_ids db p kinds"
  by (auto simp: visible_ids_def dest!: in_set_takeD)

lemma likeOnce_visible: "drawn_from id (visible_ids db p kinds) limit (likeOnce db q p kinds limit)"
  using visible_taken(1) by (simp add: likeOnce_def split: option.split)

lemma like_first_drawn: "(\<And>q. drawn_from f ids n (once q)) \<Longrightarrow> drawn_from f ids n (like_first once e qs)"
proof (induction qs arbitrary: e)
  case (Cons q qs)
  then show ?case using Cons.prems [of q] Cons.IH [OF Cons.prems] by (cases "once q") simp_all
qed (simp split: option.split)

lemma drawn_from_retry:
  "drawn_from f ids n r \<Longrightarrow> drawn_from f ids n r' \<Longrightarrow>
     drawn_from f ids n (case r of Inl e \<Rightarrow> Inl e | Inr cs \<Rightarrow> if cs \<noteq> [] then Inr cs else r')"
  by (cases r) simp_all

lemma likeFallback_visible: "drawn_from id (visible_ids db p kinds) limit (likeFallback db q p kinds limit)"
  unfolding likeFallback_def by (rule like_first_drawn) (rule likeOnce_visible)

lemma legacy_visible: "drawn_from id (visible_ids db p kinds) limit (searchLegacyCandidates db q p kinds limit)"
  using visible_taken(1) likeFallback_visible by (simp add: searchLegacyCandidates_def Let_def)

lemma bm25_visible: "drawn_from ic_MemoryID (visible_ids db p kinds) limit (queryBM25Candidates db expr p kinds limit)"
  using visible_taken(2) by (simp add: queryBM25Candidates_def image_image split: option.split)

lemma searchBM25_visible: "drawn_from ic_MemoryID (visible_ids db p kinds) limit (searchBM25Candidates db q p kinds limit)"
  by (simp add: searchBM25Candidates_def Let_def bm25_visible drawn_from_retry [OF bm25_visible bm25_visible, simplified])

text \<open>Whatever the full-text engine matches, a candidate of the index is the identifier of an
  indexed row that is active, normal, in the scope of the caller and of a requested kind, and there are
  at most as many as asked for.\<close>

theorem candidates_visible:
  "case SearchRankedCandidates db query projectKey kinds limit of
     Inl _ \<Rightarrow> True
   | Inr cs \<Rightarrow> ic_MemoryID ` set cs \<subseteq> visible_ids db projectKey kinds \<and> length cs \<le> nat limit"
proof -
  let ?legacy = "bindE (searchLegacyCandidates db (trim_space query) projectKey kinds (nat limit))
      (\<lambda>ids. Inr (map (\<lambda>i. \<lparr>ic_MemoryID = i, ic_Relevance = 0, ic_BM25 = False\<rparr>) ids))"
  have "drawn_from ic_MemoryID (visible_ids db projectKey kinds) (nat limit) ?legacy"
    using legacy_visible [of db projectKey kinds "nat limit" "trim_space query"]
    by (cases "searchLegacyCandidates db (trim_space query) projectKey kinds (nat limit)") (simp_all add: image_image)
  then have "drawn_from ic_MemoryID (visible_ids db projectKey kinds) (nat limit) (SearchRankedCandidates db query projectKey kinds limit)"
    using searchBM25_visible [of db projectKey kinds "nat limit" "trim_space query"]
    by (cases "searchBM25Candidates db (trim_space query) projectKey kinds (nat limit)") (simp_all add: SearchRankedCandidates_def Let_def)
  then show ?thesis by (simp add: drawn_from_def)
qed

section \<open>LIKE and its escapes\<close>

lemma continuation_high: "cont b \<Longrightarrow> 0x80 \<le> b" "second_ok b0 b \<Longrightarrow> 0x80 \<le> b"
  by (auto simp: second_ok_def cont_def split: if_splits)

lemma decode_long_swallows:
  "b \<in> set (take (snd (decode_long b0 bs) - 1) bs) \<Longrightarrow> 0x80 \<le> b"
  unfolding decode_long_def
  by (cases bs; cases "tl bs"; cases "tl (tl bs)") (auto dest: continuation_high split: if_split_asm)

lemma runes_keep_ascii:
  "c \<in> set s \<Longrightarrow> of_char c < (0x80 :: nat) \<Longrightarrow> of_char c \<in> set (runes s)"
proof (induction s rule: runes_induct)
  case (Cons d ds)
  let ?n = "snd (decode_rune d ds) - 1"
  show ?case
  proof (cases "c \<in> set (drop ?n ds)")
    case True
    then show ?thesis using Cons by (simp add: runes_Cons)
  next
    case False
    then have "c = d \<or> c \<in> set (take ?n ds)" using Cons.prems(1)
      by (metis append_take_drop_id set_append set_ConsD Un_iff)
    moreover have "0x80 \<le> (of_char c :: nat)" if "c \<in> set (take ?n ds)" "\<not> of_char d < (0x80 :: nat)"
    proof -
      have "snd (decode_rune d ds) \<le> 4" using decode_long_width [of "of_char d" "map of_char (take 3 ds)"]
        by (auto simp: decode_rune_def)
      then have "take ?n ds = take ?n (take 3 ds)" by (simp add: min_absorb1)
      then have "of_char c \<in> set (take ?n (map of_char (take 3 ds)) :: nat list)"
        using that(1) by (simp add: take_map)
      then show ?thesis using that(2) decode_long_swallows [of "of_char c" "of_char d" "map of_char (take 3 ds)"]
        by (simp add: decode_rune_def)
    qed
    moreover have "?n = 0" if "of_char d < (0x80 :: nat)" using that by (simp add: decode_rune_def)
    ultimately show ?thesis using Cons.prems(2) by (cases "of_char d < (0x80 :: nat)") (auto simp: runes_Cons decode_rune_def)
  qed
qed simp

lemma sql_like_literal:
  "sql_like ps cs \<Longrightarrow> 92 \<in> set ps \<Longrightarrow> 92 \<in> set cs"
  by (induction ps cs rule: sql_like.induct) (auto simp: ascii_fold_def split: if_splits)

lemma escapeLike_backslash:
  "CHR 0x25 \<in> set q \<or> CHR 0x5F \<in> set q \<Longrightarrow> CHR 0x5C \<in> set (escapeLike q)"
  by (force simp: escapeLike_def replace_char_def Let_def)

definition demo_fts :: "memory_row list \<Rightarrow> fts" where
  "demo_fts rows =
     \<lparr>ft_fts = rows, ft_bm25 = [], ft_current = rows, ft_match = (\<lambda>_ _. False), ft_bm25_match = (\<lambda>_ _. False),
      ft_bm25_score = (\<lambda>_ _. 0), ft_fts_error = (\<lambda>_. None), ft_bm25_error = (\<lambda>_. None), ft_like_error = (\<lambda>_. None),
      ft_current_error = None, ft_range = (\<lambda>_. [])\<rparr>"

text \<open>\<open>escapeLike\<close> puts a backslash before \<open>%\<close> and \<open>_\<close>, but no query has an \<open>ESCAPE\<close> clause, without
  which a backslash stands for itself: a query with one of these characters finds only rows that
  contain a backslash, not the rows that contain the query.\<close>

theorem like_escape_broken:
  assumes "CHR 0x25 \<in> set query \<or> CHR 0x5F \<in> set query" "likeOnce db query projectKey kinds limit = Inr ids"
  shows "set ids \<subseteq> mm_MemoryID ` {row \<in> set (ft_fts db). 92 \<in> set (runes (mm_Subject row)) \<or> 92 \<in> set (runes (mm_Content row))}"
proof -
  have "CHR 0x5C \<in> set (like_pattern query)" using escapeLike_backslash [OF assms(1)] by (simp add: like_pattern_def)
  then have "of_char (CHR 0x5C) \<in> set (runes (like_pattern query))" by (rule runes_keep_ascii) simp
  then have "92 \<in> set (runes (like_pattern query))" by simp
  then have "92 \<in> set (runes (mm_Subject row)) \<or> 92 \<in> set (runes (mm_Content row))" if "row_like (like_pattern query) row" for row
    using that sql_like_literal by (auto simp: row_like_def)
  then show ?thesis using assms(2) by (auto simp: likeOnce_def dest!: in_set_takeD split: option.splits)
qed

theorem like_escape_broken_witness:
  "likeOnce (demo_fts [sample_row ''a_b'']) ''a_'' '''' [] 40 = Inr []"
proof -
  obtain ids where ids: "likeOnce (demo_fts [sample_row ''a_b'']) ''a_'' '''' [] 40 = Inr ids"
    by (simp add: likeOnce_def demo_fts_def)
  have "set ids \<subseteq> mm_MemoryID ` {row \<in> set (ft_fts (demo_fts [sample_row ''a_b''])). 92 \<in> set (runes (mm_Subject row)) \<or> 92 \<in> set (runes (mm_Content row))}"
    by (rule like_escape_broken [OF _ ids]) simp
  moreover have "92 \<notin> set (runes (mm_Subject (sample_row ''a_b'')))" "92 \<notin> set (runes (mm_Content (sample_row ''a_b'')))"
    by (simp_all add: runes_ascii sample_row_def)
  moreover have "ft_fts (demo_fts [sample_row ''a_b'']) = [sample_row ''a_b'']" by (simp add: demo_fts_def)
  ultimately have "\<And>i. i \<notin> set ids" by auto
  then have "ids = []" by (cases ids) auto
  then show ?thesis using ids by simp
qed

end
