(* ===== verification/Alias_Expander.thy ===== *)
theory Alias_Expander
  imports Mutation_Gate Lite_Hash Go_Sort
begin

text \<open>
  \<open>retrieval/alias.go\<close> and \<open>lite/aliases.go\<close>: the table of entity aliases, the expansion of a query into
  the queries that recall candidates, and the overlay file merged over the built-in table.  The file and
  its JSON are arguments.
\<close>

record alias_entry =
  ae_Canonical :: go_string
  ae_Aliases :: "go_string list"

definition defaultAliases :: "alias_entry list" where
  "defaultAliases =
     [\<lparr>ae_Canonical = [CHR 0xE4, CHR 0xBD, CHR 0x99, CHR 0xE7, CHR 0x83, CHR 0xAC, CHR 0xE6, CHR 0xB0,
         CHR 0xB8, CHR 0xE6, CHR 0xB8, CHR 0xA9], ae_Aliases =
        [''the warmth that waits on the near bank'', ''warmth that waits on the near bank'',
         ''the warmth on the near bank'', ''ember that keeps the warmth'', ''ember keeps the warmth'']\<rparr>,
      \<lparr>ae_Canonical = [CHR 0xE8, CHR 0x96, CHR 0xAA, CHR 0xE5, CHR 0xB0, CHR 0xBD, CHR 0xE7, CHR 0x81,
         CHR 0xAB, CHR 0xE4, CHR 0xBC, CHR 0xA0], ae_Aliases =
        [''fire of the ashes'', ''the fire passes on'', ''the fire is passed on'', ''ashes pass the fire'',
         ''fire passes from the ashes'', ''when the wood is gone the fire lives on'']\<rparr>,
      \<lparr>ae_Canonical = [CHR 0xE4, CHR 0xBD, CHR 0x99, CHR 0xE7, CHR 0x83, CHR 0xAC], ae_Aliases = [''ember'', ''the ember'', ''live ember'']\<rparr>,
      \<lparr>ae_Canonical = ''Ember'', ae_Aliases = [''my name is ember'']\<rparr>,
      \<lparr>ae_Canonical = [CHR 0xE7, CHR 0xA4, CHR 0xBA, CHR 0xE4, CHR 0xBE, CHR 0x8B, CHR 0xE7, CHR 0x94,
         CHR 0xA8, CHR 0xE6, CHR 0x88, CHR 0xB7], ae_Aliases =
        [''example person'', ''exampleperson'', ''example person'' @ [CHR 0x27] @ ''s'']\<rparr>,
      \<lparr>ae_Canonical = [CHR 0xE6, CHR 0x9D, CHR 0xAD, CHR 0xE5, CHR 0xB7, CHR 0x9E], ae_Aliases = [''hangzhou'', ''in hangzhou'']\<rparr>,
      \<lparr>ae_Canonical = [CHR 0xE5, CHR 0xB0, CHR 0x8F, CHR 0xE7, CHR 0xB1, CHR 0xB3, CHR 0xE6, CHR 0x91,
         CHR 0x84, CHR 0xE5, CHR 0x83, CHR 0x8F, CHR 0xE5, CHR 0xA4, CHR 0xB4], ae_Aliases =
        [''mi home cameras'', ''xiaomi cameras'', ''milab cameras'', ''ip cameras at home'', ''home cameras'']\<rparr>,
      \<lparr>ae_Canonical = ''LinkedIn'', ae_Aliases = [''linked in'', ''linkedin account'']\<rparr>,
      \<lparr>ae_Canonical = [CHR 0xE5, CHR 0x8F, CHR 0x8C, CHR 0xE8, CHR 0xAF, CHR 0xAD, CHR 0xE5, CHR 0xAE,
         CHR 0x9D, CHR 0xE5, CHR 0xAE, CHR 0x9D], ae_Aliases = [''bilingual child'', ''bilingual baby'']\<rparr>,
      \<lparr>ae_Canonical = [CHR 0xE7, CHR 0x99, CHR 0xBD, CHR 0xE6, CHR 0x98, CHR 0xBC, CHR 0xE7, CHR 0x89,
         CHR 0x88, CHR 0xE4, CHR 0xBA, CHR 0xBA, CHR 0xE5, CHR 0x83, CHR 0x8F], ae_Aliases =
        [''daylight portrait'', ''day portrait'', ''daytime portrait'']\<rparr>]"

text \<open>A nil table means the built-in one; an empty one expands nothing.\<close>

definition NewAliasExpander :: "alias_entry list option \<Rightarrow> alias_entry list" where
  "NewAliasExpander entries = (case entries of None \<Rightarrow> defaultAliases | Some es \<Rightarrow> es)"

section \<open>Matching an alias\<close>

definition tokensSubset :: "go_string list \<Rightarrow> go_string list \<Rightarrow> bool" where
  "tokensSubset needle haystack =
     (if needle = [] \<or> haystack = [] then False else set needle \<subseteq> set haystack)"

definition alias_matches :: "go_string \<Rightarrow> go_string \<Rightarrow> bool" where
  "alias_matches lowerQuery alias =
     (let a = to_lower (trim_space alias); queryTokens = Go_Text.fields lowerQuery in
      if a = '''' then False
      else if containsCJK a then contains lowerQuery a
      else
        (let aliasTokens = Go_Text.fields a in
         if length aliasTokens = 1 then length queryTokens = 1 \<and> queryTokens ! 0 = aliasTokens ! 0
         else contains lowerQuery a \<or> (length aliasTokens \<ge> 3 \<and> tokensSubset aliasTokens queryTokens)))"

definition aliasMatches :: "go_string \<Rightarrow> go_string list \<Rightarrow> bool" where
  "aliasMatches lowerQuery aliases = list_ex (alias_matches lowerQuery) aliases"

definition canonicalTokenMatch :: "go_string \<Rightarrow> go_string \<Rightarrow> bool" where
  "canonicalTokenMatch lowerQuery canonical =
     (let canon = to_lower canonical; canonTokens = Go_Text.fields canon in
      if canon = '''' then False
      else if length canonTokens = 1 \<and> \<not> containsCJK canon
      then list_ex (\<lambda>token. token = canonTokens ! 0) (Go_Text.fields lowerQuery)
      else contains lowerQuery canon)"

section \<open>Overlapping names\<close>

record occurrence =
  oc_entry :: nat
  oc_start :: nat
  oc_end :: nat

text \<open>The occurrences of one canonical name, overlapping ones included; \<open>canon\<close> is not empty.\<close>

function occurrences_from :: "nat \<Rightarrow> go_string \<Rightarrow> go_string \<Rightarrow> nat \<Rightarrow> occurrence list" where
  "occurrences_from i query canon offset =
     (if \<not> offset < length query then []
      else case index_of (drop offset query) canon of
        None \<Rightarrow> []
      | Some n \<Rightarrow>
          \<lparr>oc_entry = i, oc_start = offset + n, oc_end = offset + n + length canon\<rparr> #
            occurrences_from i query canon (offset + n + 1))"
  by pat_completeness auto
termination by (relation "measure (\<lambda>(_, query, _, offset). length query - offset)") auto

declare occurrences_from.simps [simp del]

definition entry_occurrences :: "go_string \<Rightarrow> nat \<Rightarrow> alias_entry \<Rightarrow> occurrence list" where
  "entry_occurrences query i entry =
     (let canon = to_lower (trim_space (ae_Canonical entry)) in
      if canon = '''' \<or> \<not> containsCJK canon \<or> \<not> canonicalTokenMatch query canon then []
      else occurrences_from i query canon 0)"

definition oc_overlap :: "occurrence \<Rightarrow> occurrence \<Rightarrow> bool" where
  "oc_overlap candidate prior \<longleftrightarrow> oc_start candidate < oc_end prior \<and> oc_start prior < oc_end candidate"

definition longer :: "occurrence \<Rightarrow> occurrence \<Rightarrow> bool" where
  "longer a b \<longleftrightarrow> int (oc_end a) - int (oc_start a) > int (oc_end b) - int (oc_start b)"

fun select_occurrences :: "occurrence list \<Rightarrow> occurrence list \<Rightarrow> occurrence list" where
  "select_occurrences selected [] = selected"
| "select_occurrences selected (candidate # rest) =
     (if list_ex (oc_overlap candidate) selected then select_occurrences selected rest
      else select_occurrences (selected @ [candidate]) rest)"

definition selected_occurrences :: "alias_entry list \<Rightarrow> go_string \<Rightarrow> occurrence list" where
  "selected_occurrences entries query =
     select_occurrences []
       (sort_by longer (concat (map (\<lambda>(i, e). entry_occurrences query i e) (List.enumerate 0 entries))))"

definition canonicalMatches :: "alias_entry list \<Rightarrow> go_string \<Rightarrow> nat set" where
  "canonicalMatches entries query = oc_entry ` set (selected_occurrences entries query)"

section \<open>Expansion\<close>

text \<open>\<open>strings.Trim\<close> with a set of runes to cut.\<close>

definition trim_cutset :: "rune set \<Rightarrow> go_string \<Rightarrow> go_string" where
  "trim_cutset rs s =
     concat (map snd (rev (dropWhile (\<lambda>c. fst c \<in> rs) (rev (dropWhile (\<lambda>c. fst c \<in> rs) (rune_chunks s))))))"

definition name_punctuation :: "rune set" where
  "name_punctuation = set (runes ([CHR 0xE3, CHR 0x80, CHR 0x82, CHR 0xEF, CHR 0xBC, CHR 0x81, CHR 0xEF, CHR 0xBC,
         CHR 0x9F, CHR 0x21, CHR 0x3F, CHR 0x2E, CHR 0x2C, CHR 0xEF, CHR 0xBC, CHR 0x8C,
         CHR 0xE3, CHR 0x80, CHR 0x81] @ [CHR 0x22, CHR 0x27] @ [CHR 0x28, CHR 0x29, CHR 0xEF, CHR 0xBC, CHR 0x88, CHR 0xEF, CHR 0xBC, CHR 0x89]))"

text \<open>The map of seen values is the set of the values expanded so far.\<close>

definition add_query :: "go_string \<Rightarrow> go_string list \<Rightarrow> go_string list" where
  "add_query v expanded = (if v \<noteq> '''' \<and> v \<notin> set expanded then expanded @ [v] else expanded)"

definition long_alias :: "go_string \<Rightarrow> bool" where
  "long_alias alias \<longleftrightarrow> \<not> (length (Go_Text.fields alias) < 2 \<and> length (runes alias) < 6)"

definition expand_entry ::
    "go_string \<Rightarrow> nat set \<Rightarrow> nat \<times> alias_entry \<Rightarrow> go_string list \<Rightarrow> go_string list" where
  "expand_entry lower matches = (\<lambda>(i, entry) expanded.
     (let canonical = ae_Canonical entry in
      if canonical = '''' then expanded
      else if aliasMatches lower (ae_Aliases entry) then add_query canonical expanded
      else if \<not> containsCJK canonical \<or> i \<notin> matches then expanded
      else
        (let expanded = add_query canonical expanded in
         if trim_cutset name_punctuation (trim_space lower) \<noteq> to_lower canonical then expanded
         else fold add_query (filter long_alias (ae_Aliases entry)) expanded)))"

definition Expand :: "alias_entry list \<Rightarrow> go_string \<Rightarrow> go_string list" where
  "Expand entries query =
     (if entries = [] then [query]
      else
        (let lower = to_lower (trim_space query) in
         if lower = '''' then [query]
         else fold (expand_entry lower (canonicalMatches entries lower)) (List.enumerate 0 entries) [query]))"

section \<open>The overlay\<close>

text \<open>\<open>positions\<close> maps the lower-case canonical name to its index; of two built-in entries with the same
  name the later wins, as in the loop.\<close>

definition merge_aliases :: "go_string list \<Rightarrow> go_string list \<Rightarrow> go_string list" where
  "merge_aliases old new =
     fst (fold (\<lambda>alias (aliases, seen).
       if to_lower alias \<notin> seen then (aliases @ [alias], insert (to_lower alias) seen) else (aliases, seen))
       new (old, to_lower ` set old))"

definition overlay_entry :: "alias_entry \<Rightarrow> alias_entry res" where
  "overlay_entry entry =
     (let canonical = trim_space (ae_Canonical entry); aliases = map trim_space (ae_Aliases entry) in
      if canonical = '''' \<or> length canonical > 1024 \<or> ae_Aliases entry = [] \<or> length (ae_Aliases entry) > 100
      then Inl ''invalid alias entry''
      else if list_ex (\<lambda>alias. trim_space alias = '''' \<or> length alias > 4096) (ae_Aliases entry)
      then Inl ''invalid alias phrase'' else Inr \<lparr>ae_Canonical = canonical, ae_Aliases = aliases\<rparr>)"

fun overlay_loop ::
    "alias_entry list \<Rightarrow> (go_string \<rightharpoonup> nat) \<Rightarrow> alias_entry list \<Rightarrow> alias_entry list res" where
  "overlay_loop merged positions [] = Inr merged"
| "overlay_loop merged positions (entry # rest) =
     (case overlay_entry entry of
        Inl err \<Rightarrow> Inl err
      | Inr entry \<Rightarrow>
          (let key = to_lower (ae_Canonical entry) in
           case positions key of
             Some i \<Rightarrow>
               overlay_loop
                 (merged[i := (merged ! i)\<lparr>ae_Aliases := merge_aliases (ae_Aliases (merged ! i)) (ae_Aliases entry)\<rparr>])
                 positions rest
           | None \<Rightarrow>
               overlay_loop
                 (merged @ [\<lparr>ae_Canonical = ae_Canonical entry, ae_Aliases = merge_aliases [] (ae_Aliases entry)\<rparr>])
                 (positions(key \<mapsto> length merged)) rest))"

definition default_positions :: "alias_entry list \<Rightarrow> (go_string \<rightharpoonup> nat)" where
  "default_positions entries =
     fold (\<lambda>(i, e) m. m(to_lower (ae_Canonical e) \<mapsto> i)) (List.enumerate 0 entries) Map.empty"

text \<open>What the file system yields: no file, an error, or bytes with their decoding; \<open>None\<close> is a decoding
  error or a literal \<open>null\<close>.\<close>

datatype alias_file = No_File | Unreadable go_string | Alias_Bytes nat "alias_entry list option"

fun readAliasOverlay :: "alias_file \<Rightarrow> alias_entry list res" where
  "readAliasOverlay No_File = Inr defaultAliases"
| "readAliasOverlay (Unreadable reason) = Inl reason"
| "readAliasOverlay (Alias_Bytes n decoded) =
     (if n > 2 ^ 20 then Inl ''alias file unreadable or exceeds 1 MiB''
      else case decoded of
        None \<Rightarrow> Inl ''alias file must be a JSON array''
      | Some overlay \<Rightarrow>
          if length overlay > 1000 then Inl ''alias file exceeds 1000 entries''
          else overlay_loop defaultAliases (default_positions defaultAliases) overlay)"

definition LoadAliases :: "alias_file \<Rightarrow> alias_entry list" where
  "LoadAliases f = (case readAliasOverlay f of Inl _ \<Rightarrow> NewAliasExpander None | Inr es \<Rightarrow> NewAliasExpander (Some es))"

section \<open>Longest names first\<close>

interpretation longer_first: go_weak_less longer
  by unfold_locales (auto simp: longer_def)

lemma occurs_index:
  "index_of s sub = Some i \<longleftrightarrow> occurs_at s sub i \<and> (\<forall>j < i. \<not> occurs_at s sub j)"
proof
  assume i: "index_of s sub = Some i"
  have "\<not> occurs_at s sub j" if "j < i" for j
    using index_of_Some [OF i] that by (auto simp: occurs_at_def)
  then show "occurs_at s sub i \<and> (\<forall>j < i. \<not> occurs_at s sub j)"
    using index_of_Some [OF i] by (auto simp: occurs_at_def)
next
  assume i: "occurs_at s sub i \<and> (\<forall>j < i. \<not> occurs_at s sub j)"
  then have "contains s sub" by (auto simp: contains_occurs)
  then obtain k where k: "index_of s sub = Some k" using index_of_None by fastforce
  then have "occurs_at s sub k" "\<forall>j < k. \<not> occurs_at s sub j"
    using index_of_Some [OF k] by (auto simp: occurs_at_def)
  with i have "k = i" by (metis linorder_neqE_nat)
  with k show "index_of s sub = Some i" by simp
qed

lemma occurrences_from_set:
  "canon \<noteq> [] \<Longrightarrow> set (occurrences_from i query canon offset) =
    (\<lambda>p. \<lparr>oc_entry = i, oc_start = p, oc_end = p + length canon\<rparr>) ` {p. offset \<le> p \<and> occurs_at query canon p}"
proof (induction i query canon offset rule: occurrences_from.induct)
  case (1 i query canon offset)
  have start: "p < length query" if "occurs_at query canon p" for p
    using that "1.prems" by (cases canon) (auto simp: occurs_at_def)
  show ?case
  proof (cases "offset < length query")
    case False
    then show ?thesis using start by (fastforce simp: occurrences_from.simps [of i query canon offset])
  next
    case inside: True
    then have off: "occurs_at (drop offset query) canon j \<longleftrightarrow> occurs_at query canon (offset + j)" for j
      by (simp add: occurs_at_drop)
    show ?thesis
    proof (cases "index_of (drop offset query) canon")
      case None
      then have "\<not> occurs_at query canon (offset + j)" for j
        using off by (simp add: index_of_None contains_occurs)
      then have "{p. offset \<le> p \<and> occurs_at query canon p} = {}" by (auto simp: le_iff_add)
      then show ?thesis using inside None by (simp add: occurrences_from.simps [of i query canon offset])
    next
      case (Some n)
      then have n: "occurs_at query canon (offset + n)" "\<forall>j < n. \<not> occurs_at query canon (offset + j)"
        by (simp_all add: occurs_index off)
      have "p = offset + n \<or> offset + n + 1 \<le> p" if "offset \<le> p" "occurs_at query canon p" for p
      proof (rule ccontr)
        assume "\<not> (p = offset + n \<or> offset + n + 1 \<le> p)"
        then have "p - offset < n" "p = offset + (p - offset)" using that(1) by arith+
        then show False using n(2) that(2) by metis
      qed
      then have "{p. offset \<le> p \<and> occurs_at query canon p} =
          insert (offset + n) {p. offset + n + 1 \<le> p \<and> occurs_at query canon p}"
        using n(1) by fastforce
      then show ?thesis using "1.IH" [OF _ Some "1.prems"] inside Some
        by (simp add: occurrences_from.simps [of i query canon offset])
    qed
  qed
qed

text \<open>The occurrences of every name of the table.\<close>

definition all_occurrences :: "alias_entry list \<Rightarrow> go_string \<Rightarrow> occurrence list" where
  "all_occurrences entries query = concat (map (\<lambda>(i, e). entry_occurrences query i e) (List.enumerate 0 entries))"

lemma entry_occurrence:
  "c \<in> set (entry_occurrences query i e) \<Longrightarrow>
     oc_entry c = i \<and> oc_end c = oc_start c + length (to_lower (trim_space (ae_Canonical e))) \<and>
     to_lower (trim_space (ae_Canonical e)) \<noteq> '''' \<and>
     occurs_at query (to_lower (trim_space (ae_Canonical e))) (oc_start c)"
  by (auto simp: entry_occurrences_def Let_def occurrences_from_set split: if_splits)

lemma select_occurrences_set: "set (select_occurrences sel cs) \<subseteq> set sel \<union> set cs \<and> set sel \<subseteq> set (select_occurrences sel cs)"
  by (induction sel cs rule: select_occurrences.induct) auto

lemma oc_overlap_sym: "oc_overlap a b \<longleftrightarrow> oc_overlap b a"
  by (auto simp: oc_overlap_def)

lemma select_occurrences_disjoint:
  "pairwise (\<lambda>a b. \<not> oc_overlap a b) (set sel) \<Longrightarrow>
     pairwise (\<lambda>a b. \<not> oc_overlap a b) (set (select_occurrences sel cs))"
proof (induction sel cs rule: select_occurrences.induct)
  case (2 sel c rest)
  show ?case
  proof (cases "list_ex (oc_overlap c) sel")
    case False
    then have "pairwise (\<lambda>a b. \<not> oc_overlap a b) (set (sel @ [c]))"
      using "2.prems" oc_overlap_sym by (auto simp: pairwise_insert list_ex_iff)
    then show ?thesis using 2 False by simp
  qed (use 2 in simp)
qed simp

lemma select_occurrences_covers:
  "sorted_wrt (\<lambda>x y. \<not> longer y x) cs \<Longrightarrow> \<forall>s \<in> set sel. \<forall>c \<in> set cs. \<not> longer c s \<Longrightarrow> c \<in> set cs \<Longrightarrow>
     c \<in> set (select_occurrences sel cs) \<or>
     (\<exists>p \<in> set (select_occurrences sel cs). oc_overlap c p \<and> \<not> longer c p)"
proof (induction sel cs rule: select_occurrences.induct)
  case (2 sel d rest)
  show ?case
  proof (cases "list_ex (oc_overlap d) sel")
    case True
    show ?thesis
    proof (cases "c = d")
      case True
      then show ?thesis using \<open>list_ex (oc_overlap d) sel\<close> "2.prems" select_occurrences_set [of sel rest]
        by (auto simp: list_ex_iff)
    next
      case False
      then show ?thesis using 2 True by auto
    qed
  next
    case False
    show ?thesis
    proof (cases "c = d")
      case True
      then show ?thesis using False select_occurrences_set [of "sel @ [d]" rest] by auto
    next
      case other: False
      then show ?thesis using "2.IH"(2) [OF False] "2.prems" False by auto
    qed
  qed
qed simp

text \<open>C17: the names a query is found to mention are occurrences of canonical names in the query that do
  not overlap; every other occurrence overlaps a mentioned one that is at least as long, whatever the
  order of the table.\<close>

theorem names_resolved:
  fixes entries query
  defines "sel \<equiv> set (selected_occurrences entries query)"
  shows "pairwise (\<lambda>a b. \<not> oc_overlap a b) sel \<and>
    set (all_occurrences entries query) \<subseteq> sel \<union> {c. \<exists>p \<in> sel. oc_overlap c p \<and> \<not> longer c p} \<and>
    sel \<subseteq> {c. \<exists>e. (oc_entry c, e) \<in> set (List.enumerate 0 entries) \<and>
      occurs_at query (to_lower (trim_space (ae_Canonical e))) (oc_start c)}"
proof (intro conjI)
  let ?all = "sort_by longer (all_occurrences entries query)"
  have sel: "sel = set (select_occurrences [] ?all)"
    by (simp add: sel_def selected_occurrences_def all_occurrences_def)
  show "pairwise (\<lambda>a b. \<not> oc_overlap a b) sel"
    unfolding sel by (rule select_occurrences_disjoint) simp
  show "set (all_occurrences entries query) \<subseteq> sel \<union> {c. \<exists>p \<in> sel. oc_overlap c p \<and> \<not> longer c p}"
    using select_occurrences_covers [OF longer_first.sort_ordered, where sel = "[]"]
    unfolding sel by auto
  show "sel \<subseteq> {c. \<exists>e. (oc_entry c, e) \<in> set (List.enumerate 0 entries) \<and>
      occurs_at query (to_lower (trim_space (ae_Canonical e))) (oc_start c)}"
    using select_occurrences_set [of "[]" ?all] entry_occurrence
    unfolding sel by (fastforce simp: all_occurrences_def)
qed

section \<open>What a query expands to\<close>

lemma set_add_query: "set (add_query v expanded) \<subseteq> insert v (set expanded)"
  by (auto simp: add_query_def)

lemma set_fold_add: "set (fold add_query vs expanded) \<subseteq> set expanded \<union> set vs"
proof (induction vs arbitrary: expanded)
  case (Cons v vs)
  then show ?case using set_add_query [of v expanded] Cons.IH [of "add_query v expanded"] by auto
qed simp

lemma distinct_add_query: "distinct expanded \<Longrightarrow> distinct (add_query v expanded)"
  by (simp add: add_query_def)

lemma prefix_add_query: "prefix expanded (add_query v expanded)"
  by (simp add: add_query_def)

lemma distinct_fold_add: "distinct expanded \<Longrightarrow> distinct (fold add_query vs expanded)"
  by (induction vs arbitrary: expanded) (simp_all add: distinct_add_query)

lemma prefix_fold_add: "prefix expanded (fold add_query vs expanded)"
  by (induction vs arbitrary: expanded) (auto intro: prefix_order.trans prefix_add_query)

lemma expand_entry_frame:
  "prefix expanded (expand_entry lower m p expanded) \<and>
   (distinct expanded \<longrightarrow> distinct (expand_entry lower m p expanded)) \<and>
   set (expand_entry lower m p expanded) \<subseteq>
     set expanded \<union> insert (ae_Canonical (snd p)) (set (ae_Aliases (snd p)))"
proof (cases p)
  case (Pair i e)
  have "set (fold add_query (filter long_alias (ae_Aliases e)) (add_query c expanded)) \<subseteq>
      set expanded \<union> insert c (set (ae_Aliases e))" for c
    using set_fold_add [of "filter long_alias (ae_Aliases e)" "add_query c expanded"] set_add_query [of c expanded]
    by auto
  moreover have "prefix expanded (fold add_query vs (add_query c expanded))" for vs c
    by (rule prefix_order.trans [OF prefix_add_query prefix_fold_add])
  ultimately show ?thesis using Pair set_add_query [of "ae_Canonical e" expanded]
    by (auto simp: expand_entry_def Let_def distinct_add_query distinct_fold_add prefix_add_query subset_iff)
qed

text \<open>The expansion of a query starts with the query, repeats nothing, and otherwise holds canonical
  names and aliases of the table only.\<close>

theorem expansion_bounded:
  "hd (Expand entries query) = query \<and> distinct (Expand entries query) \<and>
   set (tl (Expand entries query)) \<subseteq> (\<Union>e \<in> set entries. insert (ae_Canonical e) (set (ae_Aliases e)))"
proof -
  have "prefix [query] (fold (expand_entry lower m) ps acc) \<and> distinct (fold (expand_entry lower m) ps acc) \<and>
      set (tl (fold (expand_entry lower m) ps acc)) \<subseteq>
        set (tl acc) \<union> (\<Union>p \<in> set ps. insert (ae_Canonical (snd p)) (set (ae_Aliases (snd p))))"
    if "prefix [query] acc" "distinct acc" for lower m ps acc
    using that
  proof (induction ps arbitrary: acc)
    case (Cons p ps)
    let ?a = "expand_entry lower m p acc"
    note f = expand_entry_frame [of acc lower m p]
    have a: "prefix [query] ?a" "distinct ?a" using f Cons.prems prefix_order.trans by blast+
    have "hd ?a = hd acc" "acc \<noteq> []" using f Cons.prems by (auto simp: prefix_def)
    then have "set (tl ?a) \<subseteq> set (tl acc) \<union> insert (ae_Canonical (snd p)) (set (ae_Aliases (snd p)))"
      using f a Cons.prems(2) by (cases acc; cases ?a) auto
    then show ?case using Cons.IH [OF a] by auto
  qed simp
  note step = this
  have "(\<Union>p \<in> set (List.enumerate 0 entries). insert (ae_Canonical (snd p)) (set (ae_Aliases (snd p)))) =
      (\<Union>e \<in> snd ` set (List.enumerate 0 entries). insert (ae_Canonical e) (set (ae_Aliases e)))" by simp
  also have "snd ` set (List.enumerate 0 entries) = set entries"
    by (metis list.set_map map_snd_enumerate)
  finally show ?thesis
    using step [of "[query]" "to_lower (trim_space query)" "canonicalMatches entries (to_lower (trim_space query))"
      "List.enumerate 0 entries"]
    by (auto simp: Expand_def Let_def prefix_def)
qed

end
