(* ===== verification/Query_Cache.thy ===== *)
theory Query_Cache
  imports Go_Text Go_Hash
begin

text \<open>
  \<open>lite/query_cache.go\<close>: the bounded cache of query embeddings, least recently used first out, emptied
  when the vector generation changes and closed to text that looks like a secret or an instruction.
  The linked list is a list, most recently used first; the map of its elements is the set of their
  keys.  Vectors are opaque.  The two detectors are those of \<open>lite/importer.go\<close>.
\<close>

section \<open>The detectors\<close>

definition detectSecretLike :: "go_string \<Rightarrow> bool" where
  "detectSecretLike content = list_ex (contains (to_lower content))
     [''password'', ''api key'', ''secret'', ''token '', ''private key'', [CHR 0xE5, CHR 0x8F, CHR 0xA3, CHR 0xE4, CHR 0xBB, CHR 0xA4], [CHR 0xE5, CHR 0xAF, CHR 0x86, CHR 0xE7, CHR 0xA0, CHR 0x81], [CHR 0xE5, CHR 0xAF, CHR 0x86, CHR 0xE9, CHR 0x92, CHR 0xA5],
      ''access key'', ''authorization:'']"

definition detectInstructionLike :: "go_string \<Rightarrow> bool" where
  "detectInstructionLike content = list_ex (contains (to_lower content))
     [''system prompt'', ''instruction:'', ''you are an ai'', [CHR 0xE4, CHR 0xBD, CHR 0xA0, CHR 0xE7, CHR 0x9A, CHR 0x84, CHR 0xE7, CHR 0xB3,
         CHR 0xBB, CHR 0xE7, CHR 0xBB, CHR 0x9F, CHR 0xE6, CHR 0x8F, CHR 0x90, CHR 0xE7,
         CHR 0xA4, CHR 0xBA], [CHR 0xE7, CHR 0xB3, CHR 0xBB, CHR 0xE7, CHR 0xBB, CHR 0x9F, CHR 0xE6, CHR 0x8F,
         CHR 0x90, CHR 0xE7, CHR 0xA4, CHR 0xBA, CHR 0xE8, CHR 0xAF, CHR 0x8D],
      ''ignore previous instructions'', ''ignore all previous'']"

section \<open>The cache\<close>

record 'v query_cache =
  qc_capacity :: int
  qc_generation :: go_string
  qc_order :: "(go_string \<times> 'v) list"
  qc_entries :: "go_string set"

definition newQueryVectorCache :: "int \<Rightarrow> 'v query_cache" where
  "newQueryVectorCache capacity =
     (let capacity = (if capacity < 1 then 1 else capacity);
          capacity = (if capacity > 4096 then 4096 else capacity) in
      \<lparr>qc_capacity = capacity, qc_generation = '''', qc_order = [], qc_entries = {}\<rparr>)"

fun join_space :: "go_string list \<Rightarrow> go_string" where
  "join_space [] = []"
| "join_space [w] = w"
| "join_space (w # ws) = w @ '' '' @ join_space ws"

definition normalizedQueryHash :: "(go_string \<Rightarrow> go_string) \<Rightarrow> go_string \<Rightarrow> go_string" where
  "normalizedQueryHash sha query = sha_name sha (to_lower (join_space (Go_Text.fields query)))"

definition switchGeneration :: "'v query_cache \<Rightarrow> go_string \<Rightarrow> 'v query_cache" where
  "switchGeneration c generation =
     (if qc_generation c = generation then c
      else c\<lparr>qc_generation := generation, qc_order := [], qc_entries := {}\<rparr>)"

text \<open>\<open>MoveToFront\<close> of the element with a key, with its value.\<close>

definition move_front :: "go_string \<Rightarrow> 'v \<Rightarrow> (go_string \<times> 'v) list \<Rightarrow> (go_string \<times> 'v) list" where
  "move_front key v order = (key, v) # filter (\<lambda>e. fst e \<noteq> key) order"

definition cache_get ::
    "(go_string \<Rightarrow> go_string) \<Rightarrow> 'v query_cache \<Rightarrow> go_string \<Rightarrow> go_string \<Rightarrow> 'v query_cache \<times> 'v option" where
  "cache_get sha c generation query =
     (let c = switchGeneration c generation; key = normalizedQueryHash sha query in
      if key \<notin> qc_entries c then (c, None)
      else case map_of (qc_order c) key of
        None \<Rightarrow> (c, None)
      | Some v \<Rightarrow> (c\<lparr>qc_order := move_front key v (qc_order c)\<rparr>, Some v))"

text \<open>The eviction loop.\<close>

fun evict :: "'v query_cache \<Rightarrow> (go_string \<times> 'v) list \<Rightarrow> 'v query_cache" where
  "evict c [] = c\<lparr>qc_order := []\<rparr>"
| "evict c (e # rs) =
     (if int (length (e # rs)) > qc_capacity c
      then evict (c\<lparr>qc_entries := qc_entries c - {fst e}\<rparr>) rs
      else c\<lparr>qc_order := rev (e # rs)\<rparr>)"

definition cache_put ::
    "(go_string \<Rightarrow> go_string) \<Rightarrow> 'v query_cache \<Rightarrow> go_string \<Rightarrow> go_string \<Rightarrow> 'v \<Rightarrow> 'v query_cache" where
  "cache_put sha c generation query v =
     (if trim_space query = '''' \<or> detectSecretLike query \<or> detectInstructionLike query then c
      else
        (let c = switchGeneration c generation; key = normalizedQueryHash sha query in
         if key \<in> qc_entries c then c\<lparr>qc_order := move_front key v (qc_order c)\<rparr>
         else (let c = c\<lparr>qc_order := (key, v) # qc_order c, qc_entries := insert key (qc_entries c)\<rparr> in
               evict c (rev (qc_order c)))))"

section \<open>The contract of a bounded cache\<close>

text \<open>What a client of the cache relies on: a bound on its size, a stored value found again under the
  same generation, nothing found under another, and nothing stored for queries that may not be kept.\<close>

locale bounded_cache =
  fixes inv :: "'c \<Rightarrow> bool"
    and size_of :: "'c \<Rightarrow> nat"
    and cap :: "'c \<Rightarrow> nat"
    and get :: "'c \<Rightarrow> 'g \<Rightarrow> 'q \<Rightarrow> 'c \<times> 'v option"
    and put :: "'c \<Rightarrow> 'g \<Rightarrow> 'q \<Rightarrow> 'v \<Rightarrow> 'c"
    and admissible :: "'q \<Rightarrow> bool"
    and holds :: "'c \<Rightarrow> 'g \<Rightarrow> 'q \<Rightarrow> 'v option"
  assumes bound: "inv c \<Longrightarrow> size_of c \<le> cap c"
    and get_inv: "inv c \<Longrightarrow> inv (fst (get c g q))"
    and put_inv: "inv c \<Longrightarrow> inv (put c g q v)"
    and cap_get: "cap (fst (get c g q)) = cap c"
    and cap_put: "cap (put c g q v) = cap c"
    and get_value: "inv c \<Longrightarrow> snd (get c g q) = holds c g q"
    and get_keeps: "inv c \<Longrightarrow> holds (fst (get c g q)) g' q' = (if g' = g then holds c g' q' else None)"
    and put_holds: "\<lbrakk>inv c; admissible q\<rbrakk> \<Longrightarrow> holds (put c g q v) g q = Some v"
    and put_refused: "\<not> admissible q \<Longrightarrow> put c g q v = c"
begin

text \<open>A run of the cache, and what it keeps.\<close>

inductive cache_run :: "'c \<Rightarrow> 'c \<Rightarrow> bool" where
  cache_none: "cache_run c c"
| cache_got: "cache_run c c' \<Longrightarrow> cache_run c (fst (get c' g q))"
| cache_stored: "cache_run c c' \<Longrightarrow> cache_run c (put c' g q v)"

lemma run_keeps: "cache_run c c' \<Longrightarrow> inv c \<Longrightarrow> inv c' \<and> cap c' = cap c"
  by (induction rule: cache_run.induct) (auto simp: get_inv put_inv cap_get cap_put)

lemma run_bounded: "\<lbrakk>cache_run c c'; inv c\<rbrakk> \<Longrightarrow> size_of c' \<le> cap c"
  using run_keeps bound by metis

lemma stored_found: "\<lbrakk>inv c; admissible q\<rbrakk> \<Longrightarrow> snd (get (put c g q v) g q) = Some v"
  by (simp add: get_value put_inv put_holds)

lemma found_again: "\<lbrakk>inv c; snd (get c g q) = Some v\<rbrakk> \<Longrightarrow> snd (get (fst (get c g q)) g q) = Some v"
  by (simp add: get_value get_inv get_keeps)

end

section \<open>The invariant\<close>

definition cache_inv :: "'v query_cache \<Rightarrow> bool" where
  "cache_inv c \<longleftrightarrow>
     distinct (map fst (qc_order c)) \<and> qc_entries c = fst ` set (qc_order c) \<and>
     int (length (qc_order c)) \<le> qc_capacity c \<and> 1 \<le> qc_capacity c"

text \<open>What a cache holds, and the queries it accepts.\<close>

definition cache_holds ::
    "(go_string \<Rightarrow> go_string) \<Rightarrow> 'v query_cache \<Rightarrow> go_string \<Rightarrow> go_string \<Rightarrow> 'v option" where
  "cache_holds sha c generation query =
     (if qc_generation c = generation then map_of (qc_order c) (normalizedQueryHash sha query) else None)"

definition cacheable :: "go_string \<Rightarrow> bool" where
  "cacheable query \<longleftrightarrow> trim_space query \<noteq> '''' \<and> \<not> detectSecretLike query \<and> \<not> detectInstructionLike query"

text \<open>The eviction keeps the most recently used entries.\<close>

lemma evict_take:
  assumes "distinct (map fst rs)" "qc_entries c = fst ` set rs"
  shows "evict c rs = c\<lparr>qc_order := take (nat (qc_capacity c)) (rev rs),
    qc_entries := fst ` set (take (nat (qc_capacity c)) (rev rs))\<rparr>"
  using assms
proof (induction c rs rule: evict.induct)
  case (2 c e rs)
  show ?case
  proof (cases "int (length (e # rs)) > qc_capacity c")
    case True
    have "fst ` set (e # rs) - {fst e} = fst ` set rs" using "2.prems"(1) by auto
    then have "evict c (e # rs) = (c\<lparr>qc_entries := qc_entries c - {fst e}\<rparr>)
        \<lparr>qc_order := take (nat (qc_capacity c)) (rev rs), qc_entries := fst ` set (take (nat (qc_capacity c)) (rev rs))\<rparr>"
      using 2 True by simp
    then show ?thesis using True by simp
  qed (use 2 in \<open>simp add: take_all\<close>)
qed simp

lemma move_front_props:
  assumes "distinct (map fst order)" "key \<in> fst ` set order"
  shows "distinct (map fst (move_front key v order))" "fst ` set (move_front key v order) = fst ` set order"
    "length (move_front key v order) = length order"
    "map_of (move_front key v order) k = (if k = key then Some v else map_of order k)"
proof -
  show "distinct (map fst (move_front key v order))"
    using assms(1) by (force simp: move_front_def distinct_map_filter)
  show "fst ` set (move_front key v order) = fst ` set order"
    using assms(2) by (auto simp: move_front_def)
  show "length (move_front key v order) = length order"
  proof -
    have "length (filter (\<lambda>e. fst e \<noteq> key) xs) + 1 = length xs"
      if "distinct (map fst xs)" "key \<in> fst ` set xs" for xs :: "(char list \<times> 'b) list"
      using that
    proof (induction xs)
      case (Cons x xs)
      show ?case
      proof (cases "fst x = key")
        case True
        then have "\<forall>e \<in> set xs. fst e \<noteq> key" using Cons.prems by (auto simp: image_iff)
        then have "filter (\<lambda>e. fst e \<noteq> key) xs = xs" by (simp add: filter_id_conv)
        then show ?thesis using True by simp
      qed (use Cons in auto)
    qed simp
    then show ?thesis using assms by (simp add: move_front_def)
  qed
  show "map_of (move_front key v order) k = (if k = key then Some v else map_of order k)"
    by (induction order) (auto simp: move_front_def)
qed

lemma switch_inv: "cache_inv c \<Longrightarrow> cache_inv (switchGeneration c g)"
  by (simp add: cache_inv_def switchGeneration_def)

lemma switch_sel [simp]:
  "qc_capacity (switchGeneration c g) = qc_capacity c" "qc_generation (switchGeneration c g) = g"
  by (simp_all add: switchGeneration_def)

lemma switch_holds:
  "map_of (qc_order (switchGeneration c g)) (normalizedQueryHash sha q) = cache_holds sha c g q"
  by (simp add: switchGeneration_def cache_holds_def)

lemma cache_inv_lookup: "cache_inv c \<Longrightarrow> key \<in> qc_entries c \<longleftrightarrow> map_of (qc_order c) key \<noteq> None"
  by (simp add: cache_inv_def map_of_eq_None_iff)

lemma cache_holds_hash:
  "normalizedQueryHash sha q' = normalizedQueryHash sha q \<Longrightarrow> cache_holds sha c g q' = cache_holds sha c g q"
  by (simp add: cache_holds_def)

lemma evict_capacity: "qc_capacity (evict c rs) = qc_capacity c"
  by (induction c rs rule: evict.induct) simp_all

text \<open>A look-up moves its entry to the front.\<close>

lemma cache_get_spec:
  assumes "cache_inv c"
  shows "cache_get sha c g q =
    (case cache_holds sha c g q of
       None \<Rightarrow> (switchGeneration c g, None)
     | Some v \<Rightarrow> ((switchGeneration c g)\<lparr>qc_order :=
         move_front (normalizedQueryHash sha q) v (qc_order (switchGeneration c g))\<rparr>, Some v))"
  using cache_inv_lookup [OF switch_inv [OF assms], of "normalizedQueryHash sha q" g]
  by (auto simp: cache_get_def Let_def switch_holds split: option.split)

text \<open>An insertion keeps the new entry and the most recently used others.\<close>

lemma cache_put_order:
  assumes "cache_inv c" "cacheable q"
  shows "qc_order (cache_put sha c g q v) = take (nat (qc_capacity c))
    (move_front (normalizedQueryHash sha q) v (qc_order (switchGeneration c g)))"
    "cache_inv (cache_put sha c g q v)" "qc_generation (cache_put sha c g q v) = g"
    "qc_capacity (cache_put sha c g q v) = qc_capacity c"
proof -
  let ?c = "switchGeneration c g" and ?k = "normalizedQueryHash sha q"
  have inv: "cache_inv ?c" by (rule switch_inv [OF assms(1)])
  then have i: "distinct (map fst (qc_order ?c))" "qc_entries ?c = fst ` set (qc_order ?c)"
      "length (qc_order ?c) \<le> nat (qc_capacity c)" "1 \<le> qc_capacity c"
    by (auto simp: cache_inv_def)
  have "qc_order (cache_put sha c g q v) = take (nat (qc_capacity c)) (move_front ?k v (qc_order ?c)) \<and>
    cache_inv (cache_put sha c g q v) \<and> qc_generation (cache_put sha c g q v) = g \<and>
    qc_capacity (cache_put sha c g q v) = qc_capacity c"
  proof (cases "?k \<in> qc_entries ?c")
    case True
    then have put: "cache_put sha c g q v = ?c\<lparr>qc_order := move_front ?k v (qc_order ?c)\<rparr>"
      using assms(2) by (simp add: cache_put_def cacheable_def Let_def)
    have m: "?k \<in> fst ` set (qc_order ?c)" using True i(2) by simp
    show ?thesis using move_front_props [OF i(1) m] i m unfolding put
      by (simp add: cache_inv_def take_all)
  next
    case False
    let ?d = "?c\<lparr>qc_order := (?k, v) # qc_order ?c, qc_entries := insert ?k (qc_entries ?c)\<rparr>"
    have put: "cache_put sha c g q v = evict ?d (rev (qc_order ?d))"
      using assms(2) False by (simp add: cache_put_def cacheable_def Let_def)
    have fresh: "?k \<notin> fst ` set (qc_order ?c)" using False i(2) by simp
    then have "filter (\<lambda>e. fst e \<noteq> ?k) (qc_order ?c) = qc_order ?c" by (force simp: filter_id_conv)
    then have mf: "move_front ?k v (qc_order ?c) = (?k, v) # qc_order ?c" by (simp add: move_front_def)
    have ev: "evict ?d (rev (qc_order ?d)) = ?d\<lparr>qc_order := take (nat (qc_capacity ?d)) (rev (rev (qc_order ?d))),
        qc_entries := fst ` set (take (nat (qc_capacity ?d)) (rev (rev (qc_order ?d))))\<rparr>"
      by (rule evict_take) (use i fresh in \<open>auto simp: rev_map [symmetric]\<close>)
    have "distinct (map fst (take n ((?k, v) # qc_order ?c)))" for n
      using i(1) fresh by (metis distinct_take list.simps(9) distinct.simps(2) fst_conv list.set_map take_map)
    then show ?thesis using i unfolding put ev mf by (simp add: cache_inv_def)
  qed
  then show "qc_order (cache_put sha c g q v) = take (nat (qc_capacity c)) (move_front ?k v (qc_order ?c))"
    "cache_inv (cache_put sha c g q v)" "qc_generation (cache_put sha c g q v) = g"
    "qc_capacity (cache_put sha c g q v) = qc_capacity c" by simp_all
qed

lemma cache_put_refused: "\<not> cacheable q \<Longrightarrow> cache_put sha c g q v = c"
  by (auto simp: cache_put_def cacheable_def)

interpretation lru: bounded_cache cache_inv "\<lambda>c. length (qc_order c)" "\<lambda>c. nat (qc_capacity c)"
  "cache_get sha" "cache_put sha" cacheable "cache_holds sha" for sha
proof unfold_locales
  fix c :: "'v query_cache" and g g' q q' v
  show "cache_inv c \<Longrightarrow> length (qc_order c) \<le> nat (qc_capacity c)" by (auto simp: cache_inv_def)
  have got: "cache_inv (fst (cache_get sha c g q)) \<and>
      cache_holds sha (fst (cache_get sha c g q)) g' q' = (if g' = g then cache_holds sha c g' q' else None)"
    if inv: "cache_inv c"
  proof (cases "cache_holds sha c g q")
    case None
    then show ?thesis using switch_inv [OF inv, of g]
      by (auto simp: cache_get_spec [OF inv] cache_holds_def [of sha "switchGeneration c g"] switch_holds)
  next
    case (Some w)
    let ?c = "switchGeneration c g" and ?k = "normalizedQueryHash sha q"
    have c: "cache_inv ?c" by (rule switch_inv [OF inv])
    have "map_of (qc_order ?c) ?k = Some w" using Some by (simp add: switch_holds)
    then have k: "?k \<in> fst ` set (qc_order ?c)" by (metis domI dom_map_of_conv_image_fst)
    have d: "distinct (map fst (qc_order ?c))" using c by (simp add: cache_inv_def)
    note m = move_front_props [OF d k, of w]
    show ?thesis using c m \<open>map_of (qc_order ?c) ?k = Some w\<close> Some
      by (auto simp: cache_get_spec [OF inv] cache_inv_def cache_holds_def [of sha "_\<lparr>qc_order := _\<rparr>"] switch_holds
        dest: cache_holds_hash [of sha q' q c g])
  qed
  show "cache_inv c \<Longrightarrow> cache_inv (fst (cache_get sha c g q))" using got by simp
  show "cache_inv c \<Longrightarrow> cache_holds sha (fst (cache_get sha c g q)) g' q' =
      (if g' = g then cache_holds sha c g' q' else None)" using got by simp
  show "cache_inv c \<Longrightarrow> cache_inv (cache_put sha c g q v)"
    by (cases "cacheable q") (simp_all add: cache_put_order(2) cache_put_refused)
  show "nat (qc_capacity (fst (cache_get sha c g q))) = nat (qc_capacity c)"
    by (simp add: cache_get_def Let_def split: option.split)
  show "nat (qc_capacity (cache_put sha c g q v)) = nat (qc_capacity c)"
    by (simp add: cache_put_def Let_def evict_capacity)
  show "cache_inv c \<Longrightarrow> snd (cache_get sha c g q) = cache_holds sha c g q"
    by (simp add: cache_get_spec split: option.split)
  show "\<lbrakk>cache_inv c; cacheable q\<rbrakk> \<Longrightarrow> cache_holds sha (cache_put sha c g q v) g q = Some v"
    by (cases "nat (qc_capacity c)")
      (auto simp: cache_holds_def cache_put_order move_front_def cache_inv_def)
  show "\<not> cacheable q \<Longrightarrow> cache_put sha c g q v = c" by (rule cache_put_refused)
qed

lemma new_cache_inv: "cache_inv (newQueryVectorCache n)"
  by (simp add: cache_inv_def newQueryVectorCache_def Let_def)



end
