(* ===== verification/Vector_Format.thy ===== *)
theory Vector_Format
  imports Complex_Main Go_Hash "HOL-Library.Word"
begin

text \<open>
  \<open>lite/vectorstore/format.go\<close>: the 64-byte header of a vector file, with its fields at their widths,
  the offset of a record, and the encoding of a normalised vector.  A float32 is a real or one of the
  values that are not numbers; its bit pattern is a parameter.
\<close>

section \<open>Little-endian bytes\<close>

fun le_bytes :: "nat \<Rightarrow> nat \<Rightarrow> go_string" where
  "le_bytes 0 n = []"
| "le_bytes (Suc k) n = char_of (n mod 256) # le_bytes k (n div 256)"

fun le_nat :: "go_string \<Rightarrow> nat" where
  "le_nat [] = 0"
| "le_nat (c # cs) = of_char c + 256 * le_nat cs"

lemma length_le_bytes [simp]: "length (le_bytes k n) = k"
  by (induction k arbitrary: n) simp_all

lemma le_nat_bytes [simp]: "n < 256 ^ k \<Longrightarrow> le_nat (le_bytes k n) = n"
proof (induction k arbitrary: n)
  case (Suc k)
  then have "n div 256 < 256 ^ k" by (simp add: div_less_iff_less_mult mult.commute)
  then show ?case using Suc.IH by simp
qed simp

section \<open>The header\<close>

abbreviation FormatVersion :: "16 word" where "FormatVersion \<equiv> 1"
abbreviation HeaderSize :: nat where "HeaderSize \<equiv> 64"
abbreviation DTypeFloat32LE :: "8 word" where "DTypeFloat32LE \<equiv> 1"
abbreviation MaxInt64 :: int where "MaxInt64 \<equiv> 2 ^ 63 - 1"

record header =
  hd_Version :: "16 word"
  hd_DType :: "8 word"
  hd_Normalized :: bool
  hd_Dimensions :: "32 word"
  hd_CommittedCount :: "64 word"
  hd_RecordSize :: "64 word"

definition NewHeader :: "int \<Rightarrow> header res" where
  "NewHeader dimensions =
     (if dimensions \<le> 0 \<or> dimensions > 2 ^ 20 then Inl ''invalid vector dimensions''
      else Inr \<lparr>hd_Version = FormatVersion, hd_DType = DTypeFloat32LE, hd_Normalized = True,
        hd_Dimensions = word_of_int dimensions, hd_CommittedCount = 0,
        hd_RecordSize = word_of_int dimensions * 4\<rparr>)"

definition Header_Validate :: "header \<Rightarrow> unit res" where
  "Header_Validate h =
     (if hd_Version h \<noteq> FormatVersion then Inl ''unsupported vector format''
      else if hd_DType h \<noteq> DTypeFloat32LE then Inl ''unsupported vector dtype''
      else if \<not> hd_Normalized h \<or> hd_Dimensions h = 0 \<or> hd_RecordSize h \<noteq> ucast (hd_Dimensions h) * 4
      then Inl ''inconsistent vector header'' else Inr ())"

abbreviation format_magic :: go_string where "format_magic \<equiv> ''MMVEC001''"

definition header_bytes :: "header \<Rightarrow> go_string" where
  "header_bytes h =
     format_magic @ le_bytes 2 (unat (hd_Version h)) @ [char_of (unat (hd_DType h)), CHR 0x01] @
     le_bytes 4 (unat (hd_Dimensions h)) @ le_bytes 8 (unat (hd_CommittedCount h)) @
     le_bytes 8 (unat (hd_RecordSize h)) @ replicate 32 (CHR 0x00)"

definition Encode :: "header \<Rightarrow> go_string res" where
  "Encode h = (case Header_Validate h of Inl err \<Rightarrow> Inl err | Inr _ \<Rightarrow> Inr (header_bytes h))"

text \<open>The bytes from \<open>a\<close> up to \<open>b\<close>.\<close>

definition sub_bytes :: "nat \<Rightarrow> nat \<Rightarrow> 'a list \<Rightarrow> 'a list" where
  "sub_bytes a b xs = take (b - a) (drop a xs)"

definition DecodeHeader :: "go_string \<Rightarrow> header res" where
  "DecodeHeader b =
     (if length b < HeaderSize \<or> take 8 b \<noteq> format_magic then Inl ''invalid vector magic''
      else
        (let h = \<lparr>hd_Version = word_of_nat (le_nat (sub_bytes 8 10 b)), hd_DType = word_of_nat (of_char (b ! 10)),
               hd_Normalized = (of_char (b ! 11) = (1 :: nat)),
               hd_Dimensions = word_of_nat (le_nat (sub_bytes 12 16 b)),
               hd_CommittedCount = word_of_nat (le_nat (sub_bytes 16 24 b)),
               hd_RecordSize = word_of_nat (le_nat (sub_bytes 24 32 b))\<rparr> in
         case Header_Validate h of Inl err \<Rightarrow> Inl err | Inr _ \<Rightarrow> Inr h))"

text \<open>The product is taken in 64 bits after the bound has been checked.\<close>

definition VectorOffset :: "header \<Rightarrow> 64 word \<Rightarrow> int res" where
  "VectorOffset h ordinal =
     (case Header_Validate h of
        Inl err \<Rightarrow> Inl err
      | Inr _ \<Rightarrow>
          if ordinal > word_of_int (MaxInt64 - int HeaderSize) div hd_RecordSize h
          then Inl ''vector offset overflow''
          else Inr (int HeaderSize + sint (ordinal * hd_RecordSize h)))"

section \<open>Vectors\<close>

datatype float32 = Number real | Not_Finite

definition normalizeEncode :: "(real \<Rightarrow> 32 word) \<Rightarrow> float32 list \<Rightarrow> int \<Rightarrow> go_string res" where
  "normalizeEncode bits vector dimensions =
     (if int (length vector) \<noteq> dimensions then Inl ''vector dimensions''
      else if Not_Finite \<in> set vector then Inl ''invalid vector value''
      else
        (let values = map (\<lambda>v. case v of Number x \<Rightarrow> x | Not_Finite \<Rightarrow> 0) vector;
             sum = (\<Sum>x \<leftarrow> values. x * x) in
         if sum = 0 then Inl ''zero-norm vector''
         else Inr (concat (map (\<lambda>x. le_bytes 4 (unat (bits (x / sqrt sum)))) values))))"

section \<open>Properties\<close>

lemma length_header_bytes [simp]: "length (header_bytes h) = HeaderSize"
  by (simp add: header_bytes_def)

lemma sub_bytes_append: "length a = m \<Longrightarrow> length b = n - m \<Longrightarrow> sub_bytes m n (a @ b @ c) = b"
  by (simp add: sub_bytes_def)

lemma unat_of_nat_le: "(word_of_nat (unat (w :: 'a::len word)) :: 'a word) = w"
  by simp

lemma header_fields:
  "take 8 (header_bytes h) = format_magic"
  "sub_bytes 8 10 (header_bytes h) = le_bytes 2 (unat (hd_Version h))"
  "header_bytes h ! 10 = char_of (unat (hd_DType h))"
  "header_bytes h ! 11 = CHR 0x01"
  "sub_bytes 12 16 (header_bytes h) = le_bytes 4 (unat (hd_Dimensions h))"
  "sub_bytes 16 24 (header_bytes h) = le_bytes 8 (unat (hd_CommittedCount h))"
  "sub_bytes 24 32 (header_bytes h) = le_bytes 8 (unat (hd_RecordSize h))"
  by (simp_all add: header_bytes_def sub_bytes_def nth_append)

lemma unat_byte: "unat (w :: 8 word) < 256" "unat (v :: 16 word) < 256 ^ 2"
    "unat (x :: 32 word) < 256 ^ 4" "unat (y :: 64 word) < 256 ^ 8"
  using unsigned_less [of w, where 'a = nat] unsigned_less [of v, where 'a = nat]
    unsigned_less [of x, where 'a = nat] unsigned_less [of y, where 'a = nat] by simp_all

lemma header_round:
  "Header_Validate h = Inr () \<Longrightarrow> DecodeHeader (header_bytes h @ rest) = Inr h"
proof -
  assume v: "Header_Validate h = Inr ()"
  then have n: "hd_Normalized h" by (auto simp: Header_Validate_def split: if_splits)
  have app: "take 8 (header_bytes h @ rest) = take 8 (header_bytes h)"
    "sub_bytes a b (header_bytes h @ rest) = sub_bytes a b (header_bytes h)" if "b \<le> 64" for a b
    using that by (simp_all add: sub_bytes_def)
  have nth: "(header_bytes h @ rest) ! k = header_bytes h ! k" if "k < 64" for k
    using that by (simp add: nth_append)
  have eq: "\<lparr>hd_Version = hd_Version h, hd_DType = hd_DType h, hd_Normalized = True, hd_Dimensions = hd_Dimensions h,
      hd_CommittedCount = hd_CommittedCount h, hd_RecordSize = hd_RecordSize h\<rparr> = h"
    using n by simp
  have d: "unat (w :: 8 word) mod 256 = unat w" for w using unat_byte(1) [of w] by simp
  show ?thesis using v eq
    by (simp add: DecodeHeader_def app nth header_fields unat_byte(2-4) [simplified] d Let_def)
qed

lemma uint_size: "Header_Validate h = Inr () \<Longrightarrow>
    uint (hd_RecordSize h) = uint (hd_Dimensions h) * 4 \<and> 0 < uint (hd_RecordSize h)"
proof -
  assume v: "Header_Validate h = Inr ()"
  let ?d = "hd_Dimensions h"
  have rs: "hd_RecordSize h = ucast ?d * 4" "?d \<noteq> 0"
    using v by (auto simp: Header_Validate_def split: if_splits)
  have d: "0 < uint ?d" "uint ?d < 2 ^ 32"
    using rs(2) unsigned_less [of ?d, where 'a = int]
      by (simp_all add: less_le unsigned_eq_0_iff)
  have "uint (ucast ?d :: 64 word) = uint ?d" using d by (simp add: unsigned_ucast_eq take_bit_int_eq_self)
  then have "uint (hd_RecordSize h) = uint ?d * 4"
    using d by (simp add: rs(1) uint_mult_lem uint_word_ariths(3))
  then show ?thesis using d by simp
qed

lemma offset_bound:
  assumes "Header_Validate h = Inr ()"
  shows "ordinal > word_of_int (MaxInt64 - int HeaderSize) div hd_RecordSize h \<longleftrightarrow>
    MaxInt64 - int HeaderSize < uint ordinal * uint (hd_RecordSize h)"
proof -
  let ?r = "uint (hd_RecordSize h)" and ?c = "MaxInt64 - int HeaderSize"
  have r: "0 < ?r" using uint_size [OF assms] by simp
  have "uint (word_of_int ?c :: 64 word) = ?c" by (simp add: unsigned_of_int)
  then have "uint (word_of_int ?c div hd_RecordSize h) = ?c div ?r" by (simp add: uint_div)
  then have "ordinal > word_of_int ?c div hd_RecordSize h \<longleftrightarrow> ?c div ?r < uint ordinal"
    by (simp add: word_less_def)
  also have "\<dots> \<longleftrightarrow> ?c < uint ordinal * ?r"
  proof
    assume "?c div ?r < uint ordinal"
    then have "(?c div ?r + 1) * ?r \<le> uint ordinal * ?r" using r by (intro mult_right_mono) simp_all
    moreover have "?c = ?c div ?r * ?r + ?c mod ?r" "?c mod ?r < ?r" using r by simp_all
    ultimately show "?c < uint ordinal * ?r" by (simp only: distrib_right)
  next
    assume lt: "?c < uint ordinal * ?r"
    show "?c div ?r < uint ordinal"
    proof (rule ccontr)
      assume "\<not> ?c div ?r < uint ordinal"
      then have "uint ordinal * ?r \<le> ?c div ?r * ?r" using r by (intro mult_right_mono) simp_all
      also have "\<dots> \<le> ?c" using r by (simp add: minus_mod_eq_div_mult [symmetric])
      finally show False using lt by simp
    qed
  qed
  finally show ?thesis .
qed

lemma sint_product:
  fixes v w :: "64 word"
  assumes "uint v * uint w < 2 ^ 63"
  shows "sint (v * w) = uint v * uint w"
proof -
  let ?p = "uint v * uint w"
  have p: "0 \<le> ?p" by simp
  then have "uint (v * w) = ?p" using assms by (simp add: uint_word_ariths(3))
  moreover have "signed_take_bit 63 ?p = ?p"
  proof (rule signed_take_bit_int_eq_self)
    show "- (2 ^ 63) \<le> ?p" by (rule order.trans [OF _ p]) simp
  qed (rule assms)
  ultimately show ?thesis by (simp add: sint_uint)
qed

lemma VectorOffset_eq:
  assumes "Header_Validate h = Inr ()"
  shows "VectorOffset h ordinal =
    (if MaxInt64 - int HeaderSize < uint ordinal * uint (hd_RecordSize h) then Inl ''vector offset overflow''
     else Inr (int HeaderSize + uint ordinal * uint (hd_RecordSize h)))"
proof -
  have "sint (ordinal * hd_RecordSize h) = uint ordinal * uint (hd_RecordSize h)"
    if "\<not> MaxInt64 - int HeaderSize < uint ordinal * uint (hd_RecordSize h)"
    using that by (intro sint_product) simp
  then show ?thesis using assms offset_bound [OF assms, of ordinal] by (simp add: VectorOffset_def)
qed

text \<open>What \<open>Encode\<close> writes is 64 bytes, and decodes to the header whatever follows it in the file;
  a header that does not validate is neither written nor accepted.\<close>

theorem header_round_trip:
  "(case Encode h of Inl _ \<Rightarrow> Header_Validate h \<noteq> Inr ()
    | Inr b \<Rightarrow> length b = HeaderSize \<and> DecodeHeader (b @ rest) = Inr h) \<and>
   (case DecodeHeader b of Inl _ \<Rightarrow> True | Inr h' \<Rightarrow> Header_Validate h' = Inr ())"
proof -
  have "Header_Validate h' = Inr ()" if "DecodeHeader b = Inr h'" for h'
    using that by (auto simp: DecodeHeader_def Let_def split: if_splits sum.splits)
  then show ?thesis by (auto simp: Encode_def header_round split: sum.split)
qed

text \<open>The offset of a record never wraps: it is the header size plus the product of the ordinal and
  the record size over the integers, at most \<open>MaxInt64\<close>, or it is refused; and records do not overlap.\<close>

theorem offsets_exact:
  assumes "VectorOffset h i = Inr a" "VectorOffset h j = Inr b" "i < j"
  shows "a = int HeaderSize + uint i * uint (hd_RecordSize h) \<and> a + uint (hd_RecordSize h) \<le> b \<and> b \<le> MaxInt64"
proof -
  have v: "Header_Validate h = Inr ()" using assms(1) by (auto simp: VectorOffset_def split: sum.splits)
  have "uint i + 1 \<le> uint j" using assms(3) by (simp add: word_less_def)
  then have "(uint i + 1) * uint (hd_RecordSize h) \<le> uint j * uint (hd_RecordSize h)"
    by (intro mult_right_mono) simp_all
  then show ?thesis using assms(1,2) by (auto simp: VectorOffset_eq [OF v] distrib_right split: if_splits)
qed

theorem offsets_exact_witness: "VectorOffset
    \<lparr>hd_Version = 1, hd_DType = 1, hd_Normalized = True, hd_Dimensions = 2, hd_CommittedCount = 0, hd_RecordSize = 8\<rparr> 3 = Inr 88"
proof -
  let ?h = "\<lparr>hd_Version = 1, hd_DType = 1, hd_Normalized = True, hd_Dimensions = 2, hd_CommittedCount = 0, hd_RecordSize = 8\<rparr>"
  have v: "Header_Validate ?h = Inr ()" by (simp add: Header_Validate_def)
  have "VectorOffset ?h 3 = Inr 88" "VectorOffset ?h 4 = Inr 96" by (simp_all add: VectorOffset_eq [OF v])
  from offsets_exact [OF this] this(1) show ?thesis by simp
qed

end
