(* ===== verification/Vector_Store.thy ===== *)
theory Vector_Store
  imports Vector_Format Hash_Chain
begin

text \<open>
  \<open>lite/vectorstore/store.go\<close>: a generation of vectors as a file of fixed-size records after a header, a
  map of one JSON line per record and a manifest.  A record counts once the header's count covers it:
  appending writes the record, then its line, then the count, then the manifest, and opening a
  generation cuts the two files back to the count.  An append can stop at every one of these points,
  with a part of the bytes written; the eight bytes of the count, which lie in one sector, and the
  manifest, which is replaced by a rename, are written completely or not at all.  SHA-256, the JSON of a
  map line and the bits of a float are parameters; clocks are arguments.
\<close>

section \<open>State\<close>

record vector_ref =
  vr_Generation :: go_string
  vr_Ordinal :: "64 word"
  vr_SourceType :: go_string
  vr_SourceID :: go_string
  vr_EmbeddingInputHash :: go_string
  vr_VectorChecksum :: go_string
  vr_CreatedAt :: go_string

record vector_env =
  ve_sha :: "go_string \<Rightarrow> go_string"
  ve_bits :: "real \<Rightarrow> 32 word"
  ve_json :: "vector_ref \<Rightarrow> go_string"
  ve_unjson :: "go_string \<Rightarrow> vector_ref option"

record manifest =
  vm_FormatVersion :: int
  vm_Generation :: go_string
  vm_State :: go_string
  vm_ModelName :: go_string
  vm_ModelDigest :: go_string
  vm_Dimensions :: int
  vm_DType :: go_string
  vm_Normalized :: bool
  vm_NormalizationVersion :: int
  vm_EmbeddingInputVersion :: int
  vm_CommittedVectors :: "64 word"
  vm_CreatedAt :: go_string
  vm_UpdatedAt :: go_string

text \<open>The files of a generation; the manifest as decoded, \<open>None\<close> when it is missing or not JSON.\<close>

record vector_disk =
  vd_vectors :: go_string
  vd_map :: go_string
  vd_manifest :: "manifest option"

record vector_store =
  vs_header :: header
  vs_manifest :: manifest
  vs_refs :: "vector_ref list"
  vs_bySource :: "go_string \<rightharpoonup> nat"
  vs_mapped :: nat
  vs_closed :: bool
  vs_disk :: vector_disk

definition source_key :: "go_string \<Rightarrow> go_string \<Rightarrow> go_string" where
  "source_key sourceID inputHash = sourceID @ [CHR 0x00] @ inputHash"

abbreviation ref_key :: "vector_ref \<Rightarrow> go_string" where
  "ref_key r \<equiv> source_key (vr_SourceID r) (vr_EmbeddingInputHash r)"

definition Has :: "vector_store \<Rightarrow> go_string \<Rightarrow> go_string \<Rightarrow> bool" where
  "Has s sourceID inputHash \<longleftrightarrow> vs_bySource s (source_key sourceID inputHash) \<noteq> None"

section \<open>Creating a generation\<close>

record generation_spec =
  gs_Name :: go_string
  gs_ModelName :: go_string
  gs_ModelDigest :: go_string
  gs_Dimensions :: int
  gs_DType :: "8 word"
  gs_NormalizationVersion :: int
  gs_InputVersion :: int
  gs_FormatVersion :: int

abbreviation SpecFormatVersion :: int where "SpecFormatVersion \<equiv> uint FormatVersion"

definition generationName :: "(go_string \<Rightarrow> go_string) \<Rightarrow> generation_spec \<Rightarrow> go_string" where
  "generationName sha spec =
     ''gen-'' @ hex_encode (take 6 (sha (gs_ModelName spec @ [CHR 0x00] @ gs_ModelDigest spec))) @ ''-'' @
     itoa (gs_Dimensions spec) @ ''-f32-v1''"

definition prepareSpec :: "(go_string \<Rightarrow> go_string) \<Rightarrow> generation_spec \<Rightarrow> generation_spec" where
  "prepareSpec sha spec =
     (let spec = (if gs_FormatVersion spec = 0 then spec\<lparr>gs_FormatVersion := SpecFormatVersion\<rparr> else spec);
          spec = (if gs_DType spec = 0 then spec\<lparr>gs_DType := DTypeFloat32LE\<rparr> else spec);
          spec = (if gs_InputVersion spec = 0 then spec\<lparr>gs_InputVersion := 1\<rparr> else spec);
          spec = (if gs_NormalizationVersion spec = 0 then spec\<lparr>gs_NormalizationVersion := 1\<rparr> else spec) in
      if gs_Name spec = '''' then spec\<lparr>gs_Name := generationName sha spec\<rparr> else spec)"

definition fresh_manifest :: "generation_spec \<Rightarrow> bool \<Rightarrow> go_string \<Rightarrow> manifest" where
  "fresh_manifest spec activate now =
     \<lparr>vm_FormatVersion = SpecFormatVersion, vm_Generation = gs_Name spec,
      vm_State = (if activate then ''READY'' else ''BUILDING''), vm_ModelName = gs_ModelName spec,
      vm_ModelDigest = gs_ModelDigest spec, vm_Dimensions = gs_Dimensions spec,
      vm_DType = ''FLOAT32_LE'', vm_Normalized = True,
      vm_NormalizationVersion = gs_NormalizationVersion spec,
      vm_EmbeddingInputVersion = gs_InputVersion spec, vm_CommittedVectors = 0, vm_CreatedAt = now,
      vm_UpdatedAt = now\<rparr>"

text \<open>\<open>createGeneration\<close> in a directory that has no such generation yet.\<close>

definition create_fresh :: "generation_spec \<Rightarrow> bool \<Rightarrow> go_string \<Rightarrow> vector_store res" where
  "create_fresh spec activate now =
     (if gs_FormatVersion spec \<noteq> SpecFormatVersion \<or> gs_DType spec \<noteq> DTypeFloat32LE
      then Inl ''unsupported generation spec''
      else bindE (NewHeader (gs_Dimensions spec)) (\<lambda>header.
        Inr \<lparr>vs_header = header, vs_manifest = fresh_manifest spec activate now, vs_refs = [],
             vs_bySource = Map.empty, vs_mapped = 0, vs_closed = False,
             vs_disk = \<lparr>vd_vectors = header_bytes header, vd_map = [],
               vd_manifest = Some (fresh_manifest spec activate now)\<rparr>\<rparr>))"

section \<open>Opening a generation\<close>

text \<open>The lines of the map as \<open>bufio.Scanner\<close> yields them, up to the first one that is not JSON; a line
  of a MiB is an error.\<close>

definition drop_cr :: "go_string \<Rightarrow> go_string" where
  "drop_cr l = (if l \<noteq> [] \<and> last l = CHR 0x0D then butlast l else l)"

definition scan_lines :: "go_string \<Rightarrow> go_string list" where
  "scan_lines raw = (let ls = split_newline raw in if last ls = [] then butlast ls else ls)"

fun scan_refs :: "(go_string \<Rightarrow> vector_ref option) \<Rightarrow> go_string list \<Rightarrow> (vector_ref list \<times> bool) res" where
  "scan_refs unjson [] = Inr ([], False)"
| "scan_refs unjson (l # ls) =
     (if length l \<ge> 2 ^ 20 then Inl ''bufio.Scanner: token too long''
      else case unjson (drop_cr l) of
        None \<Rightarrow> Inr ([], True)
      | Some ref \<Rightarrow> bindE (scan_refs unjson ls) (\<lambda>(refs, malformed). Inr (ref # refs, malformed)))"

text \<open>The check of the mapping, with the keys seen so far in the map it builds.\<close>

fun index_refs :: "go_string \<Rightarrow> nat \<Rightarrow> (go_string \<rightharpoonup> nat) \<Rightarrow> vector_ref list \<Rightarrow> (go_string \<rightharpoonup> nat) res" where
  "index_refs generation i m [] = Inr m"
| "index_refs generation i m (ref # refs) =
     (if unat (vr_Ordinal ref) \<noteq> i \<or> vr_Generation ref \<noteq> generation \<or> vr_SourceID ref = '''' \<or>
         m (ref_key ref) \<noteq> None
      then Inl ''vector generation corrupt: invalid mapping''
      else index_refs generation (i + 1) (m(ref_key ref \<mapsto> i)) refs)"

definition map_bytes :: "vector_env \<Rightarrow> vector_ref list \<Rightarrow> go_string" where
  "map_bytes env refs = write_lines (map (ve_json env) refs)"

definition recoverLocked :: "vector_env \<Rightarrow> vector_disk \<Rightarrow> go_string \<Rightarrow> vector_store res" where
  "recoverLocked env d now =
     bindE (DecodeHeader (take HeaderSize (vd_vectors d))) (\<lambda>h.
     case vd_manifest d of
       None \<Rightarrow> Inl ''vector generation corrupt: inconsistent manifest''
     | Some manifest \<Rightarrow>
         if vm_Dimensions manifest \<noteq> uint (hd_Dimensions h)
         then Inl ''vector generation corrupt: inconsistent manifest''
         else bindE (scan_refs (ve_unjson env) (scan_lines (vd_map d))) (\<lambda>(all_refs, malformed).
           let count = unat (hd_CommittedCount h) in
           if length all_refs < count then Inl ''vector generation corrupt: mapping shorter than commit''
           else bindE (index_refs (vm_Generation manifest) 0 Map.empty (take count all_refs)) (\<lambda>bySource.
             let refs = take count all_refs;
                 expected = int HeaderSize + sint (hd_CommittedCount h * hd_RecordSize h) in
             if int (length (vd_vectors d)) < expected
             then Inl ''vector generation corrupt: vector file shorter than commit''
             else
               (let vectors = take (nat expected) (vd_vectors d);
                    mapping = (if length all_refs > count \<or> malformed then map_bytes env refs else vd_map d);
                    manifest =
                      (if vm_CommittedVectors manifest \<noteq> hd_CommittedCount h
                       then manifest\<lparr>vm_CommittedVectors := hd_CommittedCount h, vm_UpdatedAt := now\<rparr>
                       else manifest) in
                Inr \<lparr>vs_header = h, vs_manifest = manifest, vs_refs = refs, vs_bySource = bySource,
                     vs_mapped = length vectors, vs_closed = False,
                     vs_disk = \<lparr>vd_vectors = vectors, vd_map = mapping, vd_manifest = Some manifest\<rparr>\<rparr>))))"

section \<open>Reading and verifying\<close>

definition readRecordLocked :: "vector_store \<Rightarrow> 64 word \<Rightarrow> go_string res" where
  "readRecordLocked s ordinal =
     bindE (VectorOffset (vs_header s) ordinal) (\<lambda>offset.
       let size = unat (hd_RecordSize (vs_header s)) in
       if vs_mapped s > 0
       then (if nat offset + size > vs_mapped s then Inl ''vector generation corrupt: record bounds''
             else Inr (take size (drop (nat offset) (vd_vectors (vs_disk s)))))
       else if nat offset + size > length (vd_vectors (vs_disk s)) then Inl ''EOF''
       else Inr (take size (drop (nat offset) (vd_vectors (vs_disk s)))))"

fun verify_indices :: "vector_env \<Rightarrow> vector_store \<Rightarrow> nat list \<Rightarrow> unit res" where
  "verify_indices env s [] = Inr ()"
| "verify_indices env s (i # is) =
     bindE (readRecordLocked s (word_of_nat i)) (\<lambda>r.
       if sha_name (ve_sha env) r \<noteq> vr_VectorChecksum (vs_refs s ! i)
       then Inl ''vector generation corrupt: checksum'' else verify_indices env s is)"

text \<open>The sample of a quick check is sorted and loses its repetitions.\<close>

definition Verify :: "vector_env \<Rightarrow> vector_store \<Rightarrow> bool \<Rightarrow> unit res" where
  "Verify env s full =
     (let n = length (vs_refs s) in
      verify_indices env s
        (if full then [0..<n] else if n > 0 then remdups_adj (sort [0, n div 2, n - 1]) else []))"

section \<open>Appending\<close>

definition write_at :: "go_string \<Rightarrow> nat \<Rightarrow> go_string \<Rightarrow> go_string" where
  "write_at f offset b =
     take offset (f @ replicate (offset - length f) (CHR 0x00)) @ b @ drop (offset + length b) f"

text \<open>Where a call of \<open>Append\<close> stops with an error, and how much of the write at hand has reached the file.\<close>

datatype append_stop =
  Record_Failed nat | Map_Failed nat | Count_Failed | Count_Unsynced | Manifest_Failed | Remap_Failed | Completed

definition new_ref :: "vector_env \<Rightarrow> vector_store \<Rightarrow> go_string \<Rightarrow> go_string \<Rightarrow> go_string \<Rightarrow> go_string \<Rightarrow> go_string \<Rightarrow> vector_ref" where
  "new_ref env s sourceType sourceID inputHash rbytes now =
     \<lparr>vr_Generation = vm_Generation (vs_manifest s), vr_Ordinal = hd_CommittedCount (vs_header s),
      vr_SourceType = sourceType, vr_SourceID = sourceID, vr_EmbeddingInputHash = inputHash,
      vr_VectorChecksum = sha_name (ve_sha env) rbytes, vr_CreatedAt = now\<rparr>"

text \<open>The writes of \<open>Append\<close>, from the record at its offset on.  A file does not grow beyond \<open>MaxInt64\<close> bytes.\<close>

definition append_writes ::
    "vector_env \<Rightarrow> vector_store \<Rightarrow> vector_ref \<Rightarrow> go_string \<Rightarrow> nat \<Rightarrow> go_string \<Rightarrow> append_stop \<Rightarrow>
     vector_store \<times> vector_ref res" where
  "append_writes env s ref rbytes offset now stop =
     (let d = vs_disk s; line = ve_json env ref @ [newline]; count = hd_CommittedCount (vs_header s) + 1;
          torn = (\<lambda>k. s\<lparr>vs_disk := d\<lparr>vd_vectors := write_at (vd_vectors d) offset (take k rbytes)\<rparr>\<rparr>);
          d = d\<lparr>vd_vectors := write_at (vd_vectors d) offset rbytes\<rparr>;
          torn_map = (\<lambda>k. s\<lparr>vs_disk := d\<lparr>vd_map := vd_map d @ take k line\<rparr>\<rparr>);
          d = d\<lparr>vd_map := vd_map d @ line\<rparr>;
          header = (vs_header s)\<lparr>hd_CommittedCount := count\<rparr>;
          uncounted = s\<lparr>vs_header := header, vs_disk := d\<rparr>;
          d = d\<lparr>vd_vectors := write_at (vd_vectors d) 16 (le_bytes 8 (unat count))\<rparr>;
          unsynced = s\<lparr>vs_header := header, vs_disk := d\<rparr>;
          manifest = (vs_manifest s)\<lparr>vm_CommittedVectors := count, vm_UpdatedAt := now\<rparr>;
          counted = s\<lparr>vs_header := header, vs_manifest := manifest, vs_refs := vs_refs s @ [ref],
            vs_bySource := (vs_bySource s)(ref_key ref \<mapsto> unat (vr_Ordinal ref)), vs_disk := d\<rparr>;
          written = counted\<lparr>vs_disk := d\<lparr>vd_manifest := Some manifest\<rparr>\<rparr> in
      case stop of
        Record_Failed k \<Rightarrow> (torn k, Inl ''write failed'')
      | Map_Failed k \<Rightarrow> (torn_map k, Inl ''write failed'')
      | Count_Failed \<Rightarrow> (uncounted, Inl ''write failed'')
      | Count_Unsynced \<Rightarrow> (unsynced, Inl ''sync failed'')
      | Manifest_Failed \<Rightarrow> (counted, Inl ''write failed'')
      | Remap_Failed \<Rightarrow> (written\<lparr>vs_mapped := 0\<rparr>, Inl ''mmap failed'')
      | Completed \<Rightarrow> (written\<lparr>vs_mapped := length (vd_vectors (vs_disk written))\<rparr>, Inr ref))"

definition vector_Append ::
    "vector_env \<Rightarrow> vector_store \<Rightarrow> go_string \<Rightarrow> go_string \<Rightarrow> go_string \<Rightarrow> float32 list \<Rightarrow> go_string \<Rightarrow> append_stop \<Rightarrow>
     vector_store \<times> vector_ref res" where
  "vector_Append env s sourceType sourceID inputHash vector now stop =
     (if vs_closed s then (s, Inl ''file already closed'')
      else case vs_bySource s (source_key sourceID inputHash) of
        Some ordinal \<Rightarrow> (s, if ordinal < length (vs_refs s) then Inr (vs_refs s ! ordinal) else Inl ''panic'')
      | None \<Rightarrow>
          (case normalizeEncode (ve_bits env) vector (uint (hd_Dimensions (vs_header s))) of
             Inl err \<Rightarrow> (s, Inl err)
           | Inr rbytes \<Rightarrow>
               (case VectorOffset (vs_header s) (hd_CommittedCount (vs_header s)) of
                  Inl err \<Rightarrow> (s, Inl err)
                | Inr offset \<Rightarrow>
                    if offset + int (length rbytes) > MaxInt64 then (s, Inl ''file too large'')
                    else append_writes env s (new_ref env s sourceType sourceID inputHash rbytes now) rbytes
                           (nat offset) now stop)))"

definition vector_Close :: "vector_store \<Rightarrow> vector_store" where
  "vector_Close s = s\<lparr>vs_closed := True\<rparr>"

section \<open>What a generation on disk is\<close>

definition line_ok :: "vector_env \<Rightarrow> vector_ref \<Rightarrow> bool" where
  "line_ok env r \<longleftrightarrow> ve_unjson env (ve_json env r) = Some r \<and> newline \<notin> set (ve_json env r) \<and>
     length (ve_json env r) < 2 ^ 20 \<and> drop_cr (ve_json env r) = ve_json env r \<and> ve_json env r \<noteq> []"

text \<open>The files of a generation that holds \<open>refs\<close> with the records \<open>recs\<close>.\<close>

definition files_hold :: "vector_env \<Rightarrow> header \<Rightarrow> go_string \<Rightarrow> vector_ref list \<Rightarrow> go_string list \<Rightarrow> bool" where
  "files_hold env h generation refs recs \<longleftrightarrow>
     Header_Validate h = Inr () \<and> unat (hd_CommittedCount h) = length refs \<and> length recs = length refs \<and>
     (\<forall>r \<in> set recs. length r = unat (hd_RecordSize h)) \<and>
     int HeaderSize + int (length refs) * uint (hd_RecordSize h) \<le> MaxInt64 \<and>
     (\<forall>r \<in> set refs. line_ok env r) \<and>
     (\<exists>m. index_refs generation 0 Map.empty refs = Inr m)"

definition checksums_ok :: "vector_env \<Rightarrow> vector_ref list \<Rightarrow> go_string list \<Rightarrow> bool" where
  "checksums_ok env refs recs \<longleftrightarrow> map vr_VectorChecksum refs = map (sha_name (ve_sha env)) recs"

definition vstore_shape :: "vector_env \<Rightarrow> vector_store \<Rightarrow> go_string list \<Rightarrow> bool" where
  "vstore_shape env s recs \<longleftrightarrow>
     files_hold env (vs_header s) (vm_Generation (vs_manifest s)) (vs_refs s) recs \<and>
     index_refs (vm_Generation (vs_manifest s)) 0 Map.empty (vs_refs s) = Inr (vs_bySource s) \<and>
     vm_Dimensions (vs_manifest s) = uint (hd_Dimensions (vs_header s)) \<and>
     vm_CommittedVectors (vs_manifest s) = hd_CommittedCount (vs_header s) \<and>
     vs_disk s = \<lparr>vd_vectors = header_bytes (vs_header s) @ concat recs, vd_map = map_bytes env (vs_refs s),
       vd_manifest = Some (vs_manifest s)\<rparr> \<and>
     (vs_mapped s = 0 \<or> vs_mapped s = length (vd_vectors (vs_disk s)))"

definition vstore_inv :: "vector_env \<Rightarrow> vector_store \<Rightarrow> go_string list \<Rightarrow> bool" where
  "vstore_inv env s recs \<longleftrightarrow> vstore_shape env s recs \<and> checksums_ok env (vs_refs s) recs"

subsection \<open>The map file\<close>

lemma scan_lines_write:
  "\<forall>l \<in> set ls. newline \<notin> set l \<Longrightarrow> scan_lines (write_lines ls @ rest) = ls @ scan_lines rest"
  by (simp add: scan_lines_def split_write_lines Let_def split_newline_ne butlast_append)

lemma split_newline_none: "newline \<notin> set l \<Longrightarrow> split_newline l = [l]"
  by (induction l) auto

lemma scan_lines_fragment:
  "newline \<notin> set l \<Longrightarrow> scan_lines (take k (l @ [newline])) =
     (if k = 0 \<or> l = [] \<and> k = 0 then [] else if k \<le> length l then (if take k l = [] then [] else [take k l]) else [l])"
  for l :: go_string
proof -
  assume nl: "newline \<notin> set l"
  then have "newline \<notin> set (take k l)" by (auto dest: in_set_takeD)
  then show ?thesis using nl split_newline_append [OF nl, of "[]"]
    by (auto simp: scan_lines_def split_newline_none)
qed

lemma scan_refs_append:
  "\<forall>r \<in> set refs. line_ok env r \<Longrightarrow> scan_refs (ve_unjson env) (map (ve_json env) refs @ ls) =
     bindE (scan_refs (ve_unjson env) ls) (\<lambda>(rs, malformed). Inr (refs @ rs, malformed))"
  by (induction refs) (auto simp: line_ok_def bindE_def split: sum.splits)

lemma scan_map_bytes:
  assumes "\<forall>r \<in> set refs. line_ok env r" "line_ok env ref"
  shows "\<exists>extra malformed. scan_refs (ve_unjson env) (scan_lines (map_bytes env refs @ take k (ve_json env ref @ [newline]))) =
     Inr (refs @ extra, malformed) \<and> (extra = [] \<and> \<not> malformed \<longrightarrow> k = 0)"
proof -
  let ?l = "ve_json env ref"
  have nl: "\<forall>l \<in> set (map (ve_json env) refs). newline \<notin> set l" "newline \<notin> set ?l"
    using assms by (auto simp: line_ok_def)
  have l: "length (take k ?l) < 2 ^ 20" "length ?l < 2 ^ 20" "?l \<noteq> []"
    using assms(2) by (auto simp: line_ok_def)
  obtain ls where ls: "scan_lines (take k (?l @ [newline])) = ls" "\<forall>x \<in> set ls. length x < 2 ^ 20"
      "length ls \<le> 1" "ls = [] \<longrightarrow> k = 0"
    using scan_lines_fragment [OF nl(2), of k] l by fastforce
  have "scan_lines (map_bytes env refs @ take k (?l @ [newline])) = map (ve_json env) refs @ ls"
    using scan_lines_write [OF nl(1)] ls(1) by (simp only: map_bytes_def)
  moreover have "\<exists>extra malformed. scan_refs (ve_unjson env) ls = Inr (extra, malformed) \<and> (extra = [] \<and> \<not> malformed \<longrightarrow> k = 0)"
    using ls(2-4) by (cases ls) (auto split: option.split)
  ultimately show ?thesis using scan_refs_append [OF assms(1)] by fastforce
qed

subsection \<open>The mapping\<close>

lemma index_refs_snoc:
  "index_refs g i m (refs @ [r]) = bindE (index_refs g i m refs) (\<lambda>m'.
     if unat (vr_Ordinal r) \<noteq> i + length refs \<or> vr_Generation r \<noteq> g \<or> vr_SourceID r = '''' \<or> m' (ref_key r) \<noteq> None
     then Inl ''vector generation corrupt: invalid mapping''
     else Inr (m'(ref_key r \<mapsto> i + length refs)))"
  by (induction refs arbitrary: i m) (auto cong: if_cong)

lemma dom_index_refs: "index_refs g i m refs = Inr m' \<Longrightarrow> dom m' = dom m \<union> ref_key ` set refs"
  by (induction refs arbitrary: i m) (auto split: if_splits)

subsection \<open>Writes\<close>

lemma write_at_end: "offset = length f \<Longrightarrow> write_at f offset b = f @ b"
  by (simp add: write_at_def)

lemma write_at_inside: "length b' = length b \<Longrightarrow> write_at (a @ b @ c) (length a) b' = a @ b' @ c"
  by (simp add: write_at_def)

lemma write_count:
  "write_at (header_bytes h @ rest) 16 (le_bytes 8 (unat c)) = header_bytes (h\<lparr>hd_CommittedCount := c\<rparr>) @ rest"
proof -
  let ?pre = "format_magic @ le_bytes 2 (unat (hd_Version h)) @ [char_of (unat (hd_DType h)), CHR 0x01] @
      le_bytes 4 (unat (hd_Dimensions h))"
  let ?post = "le_bytes 8 (unat (hd_RecordSize h)) @ replicate 32 (CHR 0x00)"
  have "header_bytes (h\<lparr>hd_CommittedCount := n\<rparr>) = ?pre @ le_bytes 8 (unat n) @ ?post" for n
    by (simp add: header_bytes_def)
  from this [of c] this [of "hd_CommittedCount h"]
  show ?thesis using write_at_inside [of "le_bytes 8 (unat c)" "le_bytes 8 (unat (hd_CommittedCount h))" ?pre "?post @ rest"]
    by simp
qed

lemma length_normalizeEncode:
  "normalizeEncode bits v d = Inr b \<Longrightarrow> int (length b) = 4 * d"
proof -
  assume n: "normalizeEncode bits v d = Inr b"
  have "length (concat (map (\<lambda>x. le_bytes 4 (f x)) ws)) = 4 * length ws" for f :: "real \<Rightarrow> nat" and ws
    by (induction ws) simp_all
  then show ?thesis using n by (auto simp: normalizeEncode_def Let_def simp del: map_map split: if_splits)
qed

section \<open>Opening restores what was counted\<close>

lemma length_records: "\<forall>r \<in> set recs. length r = n \<Longrightarrow> length (concat recs) = length recs * n"
  by (induction recs) simp_all

lemma nth_records:
  "\<lbrakk>\<forall>r \<in> set recs. length r = n; i < length recs\<rbrakk> \<Longrightarrow> take n (drop (i * n) (concat recs)) = recs ! i"
proof (induction recs arbitrary: i)
  case (Cons r recs)
  then show ?case by (cases i) (simp_all add: add.commute)
qed simp



lemma files_size:
  assumes "files_hold env h g refs recs"
  shows "int HeaderSize + sint (hd_CommittedCount h * hd_RecordSize h) = int (length (header_bytes h @ concat recs))"
proof -
  have n: "unat (hd_CommittedCount h) = length refs" "length recs = length refs"
    using assms by (simp_all add: files_hold_def)
  then have c: "uint (hd_CommittedCount h) = int (length refs)" by (simp only: uint_nat)
  have r: "\<forall>r \<in> set recs. length r = unat (hd_RecordSize h)" using assms by (simp add: files_hold_def)
  have "sint (hd_CommittedCount h * hd_RecordSize h) = uint (hd_CommittedCount h) * uint (hd_RecordSize h)"
    using assms by (intro sint_product) (simp add: files_hold_def c)
  then show ?thesis using length_records [OF r] c n by simp
qed

text \<open>What opening the files finds.\<close>

definition reopens ::
    "vector_env \<Rightarrow> vector_disk \<Rightarrow> go_string \<Rightarrow> vector_ref list \<Rightarrow> go_string list \<Rightarrow> bool" where
  "reopens env d generation refs recs \<longleftrightarrow>
     (\<forall>now. \<exists>s. recoverLocked env d now = Inr s \<and> vstore_shape env s recs \<and> vs_refs s = refs \<and> \<not> vs_closed s \<and>
        vm_Generation (vs_manifest s) = generation)"

lemma recover_files:
  assumes f: "files_hold env h (vm_Generation m) refs recs"
    and m: "vm_Dimensions m = uint (hd_Dimensions h)"
    and d: "vd_vectors d = header_bytes h @ concat recs @ junk" "vd_map d = mapping" "vd_manifest d = Some m"
    and map: "scan_refs (ve_unjson env) (scan_lines mapping) = Inr (refs @ extra, malformed)"
      "extra = [] \<and> \<not> malformed \<longrightarrow> mapping = map_bytes env refs"
  shows "reopens env d (vm_Generation m) refs recs"
  unfolding reopens_def
proof
  fix now
  obtain b where b: "index_refs (vm_Generation m) 0 Map.empty refs = Inr b" using f by (auto simp: files_hold_def)
  have v: "Header_Validate h = Inr ()" and c: "unat (hd_CommittedCount h) = length refs"
    using f by (simp_all add: files_hold_def)
  have h: "DecodeHeader (take HeaderSize (header_bytes h @ rest)) = Inr h" for rest
    using header_round [OF v, of "[]"] by simp
  let ?m = "if vm_CommittedVectors m \<noteq> hd_CommittedCount h
    then m\<lparr>vm_CommittedVectors := hd_CommittedCount h, vm_UpdatedAt := now\<rparr> else m"
  let ?s = "\<lparr>vs_header = h, vs_manifest = ?m, vs_refs = refs, vs_bySource = b,
    vs_mapped = length (header_bytes h @ concat recs), vs_closed = False,
    vs_disk = \<lparr>vd_vectors = header_bytes h @ concat recs, vd_map = map_bytes env refs, vd_manifest = Some ?m\<rparr>\<rparr>"
  define n where "n = length (concat recs)"
  have e: "64 + sint (hd_CommittedCount h * hd_RecordSize h) = int (64 + n)"
    using files_size [OF f] by (simp add: n_def)
  have t: "take (64 + n) (header_bytes h @ concat recs @ junk) = header_bytes h @ concat recs"
      "length (header_bytes h @ concat recs) = 64 + n" "length (header_bytes h @ concat recs @ junk) = 64 + n + length junk"
    by (simp_all add: n_def)
  have mp: "(if length (refs @ extra) > length refs \<or> malformed then map_bytes env refs else mapping) = map_bytes env refs"
    using map(2) by auto
  have "recoverLocked env d now = Inr ?s"
    using b map(2) by (simp add: recoverLocked_def h m d map(1) c e t mp Let_def
        del: length_append take_append of_nat_add bindE_eq_Inr_iff) (auto simp: n_def)
  moreover have "vstore_shape env ?s recs" using f m b by (simp add: vstore_shape_def)
  ultimately show "\<exists>s. recoverLocked env d now = Inr s \<and> vstore_shape env s recs \<and> vs_refs s = refs \<and> \<not> vs_closed s \<and>
      vm_Generation (vs_manifest s) = vm_Generation m" by simp
qed

lemma read_record:
  assumes inv: "vstore_shape env s recs" and i: "i < length (vs_refs s)"
  shows "readRecordLocked s (word_of_nat i) = Inr (recs ! i)"
proof -
  let ?h = "vs_header s" and ?n = "unat (hd_RecordSize (vs_header s))"
  have f: "files_hold env ?h (vm_Generation (vs_manifest s)) (vs_refs s) recs"
    and d: "vd_vectors (vs_disk s) = header_bytes ?h @ concat recs"
    and mp: "vs_mapped s = 0 \<or> vs_mapped s = HeaderSize + length (concat recs)"
    using inv by (auto simp: vstore_shape_def)
  have v: "Header_Validate ?h = Inr ()" and n: "unat (hd_CommittedCount ?h) = length (vs_refs s)"
    "length recs = length (vs_refs s)" and r: "\<forall>r \<in> set recs. length r = ?n"
    and sz: "int HeaderSize + int (length (vs_refs s)) * uint (hd_RecordSize ?h) \<le> MaxInt64"
    using f by (simp_all add: files_hold_def)
  have "i < 2 ^ 64" using i n(1) unsigned_less [of "hd_CommittedCount ?h", where 'a = nat] by simp
  then have u: "uint (word_of_nat i :: 64 word) = int i"
    by (simp add: unsigned_of_nat take_bit_nat_eq_self flip: of_nat_power)
  have le: "Suc i * ?n \<le> length (concat recs)"
    unfolding length_records [OF r] using i n(2) by (intro mult_le_mono1) simp
  have "int i * uint (hd_RecordSize ?h) \<le> int (length (vs_refs s)) * uint (hd_RecordSize ?h)"
    using i by (intro mult_right_mono) simp_all
  then obtain off where o: "VectorOffset ?h (word_of_nat i) = Inr off" "nat off = HeaderSize + i * ?n"
    using sz by (simp add: VectorOffset_eq [OF v] u nat_add_distrib nat_mult_distrib)
  have t: "take ?n (drop (HeaderSize + i * ?n) (header_bytes ?h @ concat recs)) = recs ! i"
    using nth_records [OF r, of i] i n(2) by simp
  show ?thesis using mp le by (auto simp: readRecordLocked_def o d t Let_def simp del: take_append drop_append)
qed

lemma verify_indices_ok:
  assumes "vstore_inv env s recs" "\<forall>i \<in> set is. i < length (vs_refs s)"
  shows "verify_indices env s is = Inr ()"
  using assms(2)
proof (induction "is")
  case (Cons i "is")
  then have i: "i < length (vs_refs s)" by simp
  have shape: "vstore_shape env s recs" and sums: "checksums_ok env (vs_refs s) recs"
    using assms(1) by (simp_all add: vstore_inv_def)
  have "length (vs_refs s) = length recs"
    using arg_cong [OF sums [unfolded checksums_ok_def], of length] by simp
  then have "sha_name (ve_sha env) (recs ! i) = vr_VectorChecksum (vs_refs s ! i)"
    using i sums nth_map [of i recs "sha_name (ve_sha env)"] nth_map [of i "vs_refs s" vr_VectorChecksum]
    by (simp add: checksums_ok_def)
  then show ?case using Cons by (simp add: read_record [OF shape i])
qed simp

lemma verify_ok: "vstore_inv env s recs \<Longrightarrow> Verify env s full = Inr ()"
  unfolding Verify_def Let_def by (rule verify_indices_ok) auto

section \<open>An append that stops anywhere\<close>

lemma files_extend:
  assumes f: "files_hold env h g refs recs"
    and b: "length b = unat (hd_RecordSize h)"
    and sz: "int HeaderSize + int (length refs) * uint (hd_RecordSize h) + int (length b) \<le> MaxInt64"
    and ref: "line_ok env ref" "index_refs g 0 Map.empty (refs @ [ref]) = Inr m"
  shows "files_hold env (h\<lparr>hd_CommittedCount := hd_CommittedCount h + 1\<rparr>) g (refs @ [ref]) (recs @ [b])"
proof -
  have v: "Header_Validate h = Inr ()" using f by (simp add: files_hold_def)
  have n: "unat (hd_CommittedCount h) = length refs" "length recs = length refs" using f by (simp_all add: files_hold_def)
  have r: "int (length b) = uint (hd_RecordSize h)" by (simp only: b uint_nat)
  have "1 \<le> uint (hd_RecordSize h)" using uint_size [OF v] by linarith
  then have "int (length refs) * 1 \<le> int (length refs) * uint (hd_RecordSize h)" by (intro mult_left_mono) simp_all
  then have "unat (hd_CommittedCount h) + 1 < 2 ^ 64" using sz n(1) by simp
  then have c: "unat (hd_CommittedCount h + 1) = length refs + 1" using n(1) by (simp add: unat_word_ariths)
  have v': "Header_Validate (h\<lparr>hd_CommittedCount := c\<rparr>) = Inr ()" for c
    using v by (auto simp: Header_Validate_def split: if_splits)
  show ?thesis unfolding files_hold_def using f b ref sz r v' c n(2)
    by (simp add: files_hold_def distrib_right)
qed

lemma scan_written:
  assumes "\<forall>r \<in> set refs. line_ok env r"
  shows "scan_refs (ve_unjson env) (scan_lines (map_bytes env refs)) = Inr (refs, False)"
proof -
  have nl: "\<forall>l \<in> set (map (ve_json env) refs). newline \<notin> set l" using assms by (auto simp: line_ok_def)
  have "scan_lines (map_bytes env refs @ []) = map (ve_json env) refs @ []"
    unfolding map_bytes_def scan_lines_write [OF nl] by (simp add: scan_lines_def)
  then show ?thesis using scan_refs_append [OF assms, of "[]"] by simp
qed



lemma reopens_self: "vstore_shape env s recs \<Longrightarrow> reopens env (vs_disk s) (vm_Generation (vs_manifest s)) (vs_refs s) recs"
proof -
  assume inv: "vstore_shape env s recs"
  then have f: "files_hold env (vs_header s) (vm_Generation (vs_manifest s)) (vs_refs s) recs"
    and d: "vd_vectors (vs_disk s) = header_bytes (vs_header s) @ concat recs @ []"
      "vd_map (vs_disk s) = map_bytes env (vs_refs s)" "vd_manifest (vs_disk s) = Some (vs_manifest s)"
    and m: "vm_Dimensions (vs_manifest s) = uint (hd_Dimensions (vs_header s))"
    by (simp_all add: vstore_shape_def)
  have "scan_refs (ve_unjson env) (scan_lines (map_bytes env (vs_refs s))) = Inr (vs_refs s @ [], False)"
    using f by (simp add: scan_written files_hold_def)
  from recover_files [OF f m d this] show ?thesis by simp
qed

text \<open>The stops that come after the write of the count, and the files after each of them.\<close>

definition counted :: "append_stop \<Rightarrow> bool" where
  "counted stop \<longleftrightarrow> (case stop of Record_Failed _ \<Rightarrow> False | Map_Failed _ \<Rightarrow> False | Count_Failed \<Rightarrow> False | _ \<Rightarrow> True)"

lemma append_disk:
  fixes ref :: vector_ref
  assumes inv: "vstore_shape env s recs" and off: "offset = length (header_bytes (vs_header s) @ concat recs)"
  defines "h \<equiv> vs_header s" and "m \<equiv> vs_manifest s" and "c \<equiv> hd_CommittedCount (vs_header s) + 1"
    and "line \<equiv> ve_json env ref @ [newline]"
  shows "vs_disk (fst (append_writes env s ref b offset now stop)) =
    \<lparr>vd_vectors = header_bytes (if counted stop then h\<lparr>hd_CommittedCount := c\<rparr> else h) @ concat recs @
       (case stop of Record_Failed k \<Rightarrow> take k b | _ \<Rightarrow> b),
     vd_map = map_bytes env (vs_refs s) @ take (case stop of Record_Failed _ \<Rightarrow> 0 | Map_Failed k \<Rightarrow> k | _ \<Rightarrow> length line) line,
     vd_manifest = Some (case stop of Remap_Failed \<Rightarrow> m\<lparr>vm_CommittedVectors := c, vm_UpdatedAt := now\<rparr>
       | Completed \<Rightarrow> m\<lparr>vm_CommittedVectors := c, vm_UpdatedAt := now\<rparr> | _ \<Rightarrow> m)\<rparr>"
proof -
  have d: "vs_disk s = \<lparr>vd_vectors = header_bytes h @ concat recs, vd_map = map_bytes env (vs_refs s), vd_manifest = Some m\<rparr>"
    using inv by (simp add: vstore_shape_def h_def m_def)
  have o: "offset = length (header_bytes h @ concat recs)" using off by (simp add: h_def)
  have w: "write_at (header_bytes h @ concat recs) offset x = header_bytes h @ concat recs @ x" for x
    using write_at_end [OF o, of x] by simp
  show ?thesis unfolding append_writes_def Let_def d
    by (cases stop) (simp_all add: w write_count counted_def h_def [symmetric] m_def [symmetric] c_def line_def)
qed

lemma new_ref_extends:
  fixes ty now b' :: go_string
  assumes inv: "vstore_shape env s recs" and off: "offset = length (header_bytes (vs_header s) @ concat recs)"
    and b: "normalizeEncode bits vector (uint (hd_Dimensions (vs_header s))) = Inr b"
    and sz: "int offset + int (length b) \<le> MaxInt64"
    and key: "vs_bySource s (source_key sid ih) = None" "sid \<noteq> ''''"
  defines "ref \<equiv> new_ref env s ty sid ih b' now" and "g \<equiv> vm_Generation (vs_manifest s)"
  assumes ok: "line_ok env ref"
  shows "index_refs g 0 Map.empty (vs_refs s @ [ref]) = Inr ((vs_bySource s)(ref_key ref \<mapsto> unat (vr_Ordinal ref)))"
    and "files_hold env ((vs_header s)\<lparr>hd_CommittedCount := hd_CommittedCount (vs_header s) + 1\<rparr>) g (vs_refs s @ [ref]) (recs @ [b])"
proof -
  let ?h = "vs_header s" and ?refs = "vs_refs s"
  have f: "files_hold env ?h g ?refs recs" and ix: "index_refs g 0 Map.empty ?refs = Inr (vs_bySource s)"
    using inv by (simp_all add: vstore_shape_def g_def)
  have v: "Header_Validate ?h = Inr ()" and n: "unat (hd_CommittedCount ?h) = length ?refs" "length recs = length ?refs"
    and r: "\<forall>r \<in> set recs. length r = unat (hd_RecordSize ?h)"
    using f by (simp_all add: files_hold_def)
  have "int (length b) = uint (hd_RecordSize ?h)" using uint_size [OF v] length_normalizeEncode [OF b] by simp
  then have lb: "length b = unat (hd_RecordSize ?h)" by (simp only: uint_nat of_nat_eq_iff)
  show ix': "index_refs g 0 Map.empty (?refs @ [ref]) = Inr ((vs_bySource s)(ref_key ref \<mapsto> unat (vr_Ordinal ref)))"
    using ix key n by (simp add: index_refs_snoc ref_def new_ref_def g_def)
  have "int offset = int HeaderSize + int (length ?refs) * uint (hd_RecordSize ?h)"
    by (simp add: off length_records [OF r] n)
  then show "files_hold env (?h\<lparr>hd_CommittedCount := hd_CommittedCount ?h + 1\<rparr>) g (?refs @ [ref]) (recs @ [b])"
    using sz by (intro files_extend [OF f lb _ ok ix']) simp
qed

lemma append_writes_reopens:
  fixes ty now :: go_string
  assumes inv: "vstore_shape env s recs" and off: "offset = length (header_bytes (vs_header s) @ concat recs)"
    and b: "normalizeEncode (ve_bits env) vector (uint (hd_Dimensions (vs_header s))) = Inr b"
    and sz: "int offset + int (length b) \<le> MaxInt64"
    and key: "vs_bySource s (source_key sid ih) = None" "sid \<noteq> ''''"
  defines "ref \<equiv> new_ref env s ty sid ih b now" and "g \<equiv> vm_Generation (vs_manifest s)"
  assumes ok: "line_ok env ref"
  shows "reopens env (vs_disk (fst (append_writes env s ref b offset now stop))) g
    (if counted stop then vs_refs s @ [ref] else vs_refs s) (if counted stop then recs @ [b] else recs)"
    and "stop = Completed \<Longrightarrow> vstore_shape env (fst (append_writes env s ref b offset now stop)) (recs @ [b])"
proof -
  let ?h = "vs_header s" and ?m = "vs_manifest s" and ?refs = "vs_refs s"
  let ?h' = "?h\<lparr>hd_CommittedCount := hd_CommittedCount ?h + 1\<rparr>"
  have f: "files_hold env ?h g ?refs recs" and ix: "index_refs g 0 Map.empty ?refs = Inr (vs_bySource s)"
    and dims: "vm_Dimensions ?m = uint (hd_Dimensions ?h)"
    and d: "vs_disk s = \<lparr>vd_vectors = header_bytes ?h @ concat recs, vd_map = map_bytes env ?refs, vd_manifest = Some ?m\<rparr>"
    using inv by (simp_all add: vstore_shape_def g_def)
  have oks: "\<forall>r \<in> set ?refs. line_ok env r" using f by (simp add: files_hold_def)
  note ix' = new_ref_extends(1) [OF inv off b sz key ok [unfolded ref_def], folded ref_def g_def]
    and f' = new_ref_extends(2) [OF inv off b sz key ok [unfolded ref_def], folded ref_def g_def]
  have line: "map_bytes env ?refs @ ve_json env ref @ [newline] = map_bytes env (?refs @ [ref])"
    by (simp add: map_bytes_def write_lines_snoc)
  show "reopens env (vs_disk (fst (append_writes env s ref b offset now stop))) g
    (if counted stop then ?refs @ [ref] else ?refs) (if counted stop then recs @ [b] else recs)"
  proof (cases "counted stop")
    case False
    define k where "k = (case stop of Record_Failed _ \<Rightarrow> 0 | Map_Failed k \<Rightarrow> k | _ \<Rightarrow> length (ve_json env ref @ [newline]))"
    obtain extra malformed where sc: "scan_refs (ve_unjson env) (scan_lines (map_bytes env ?refs @ take k (ve_json env ref @ [newline])))
        = Inr (?refs @ extra, malformed)" "extra = [] \<and> \<not> malformed \<longrightarrow> k = 0"
      using scan_map_bytes [OF oks ok] by blast
    have m: "(case stop of Remap_Failed \<Rightarrow> x | Completed \<Rightarrow> x | _ \<Rightarrow> ?m) = ?m" for x
      using False by (cases stop) (simp_all add: counted_def)
    have "reopens env (vs_disk (fst (append_writes env s ref b offset now stop))) (vm_Generation ?m) ?refs recs"
      using False sc(2) by (intro recover_files [OF f [unfolded g_def] dims _ _ _ sc(1)])
        (simp_all add: append_disk [OF inv off] k_def [symmetric] m)
    then show ?thesis using False by (simp add: g_def)
  next
    case True
    then have k: "(case stop of Record_Failed _ \<Rightarrow> 0 | Map_Failed k \<Rightarrow> k | _ \<Rightarrow> length (ve_json env ref @ [newline])) =
        length (ve_json env ref @ [newline])" "(case stop of Record_Failed k \<Rightarrow> take k b | _ \<Rightarrow> b) = b"
      by (cases stop; simp add: counted_def)+
    have oks': "\<forall>r \<in> set (?refs @ [ref]). line_ok env r" using oks ok by simp
    define m' where "m' = (case stop of Remap_Failed \<Rightarrow> ?m\<lparr>vm_CommittedVectors := hd_CommittedCount ?h + 1, vm_UpdatedAt := now\<rparr>
       | Completed \<Rightarrow> ?m\<lparr>vm_CommittedVectors := hd_CommittedCount ?h + 1, vm_UpdatedAt := now\<rparr> | _ \<Rightarrow> ?m)"
    have m': "vm_Generation m' = g" "vm_Dimensions m' = uint (hd_Dimensions ?h')"
      using dims by (cases stop; simp add: m'_def g_def)+
    have sc: "scan_refs (ve_unjson env) (scan_lines (map_bytes env (?refs @ [ref]))) = Inr ((?refs @ [ref]) @ [], False)"
      by (simp add: scan_written [OF oks'])
    have "reopens env (vs_disk (fst (append_writes env s ref b offset now stop))) (vm_Generation m') (?refs @ [ref]) (recs @ [b])"
      using True by (intro recover_files [OF f' [folded m'(1)] m'(2) _ _ _ sc, where junk = "[]"])
        (simp_all add: append_disk [OF inv off] k m'_def [symmetric] line)
    then show ?thesis using True by (simp add: m'(1))
  qed
  show "vstore_shape env (fst (append_writes env s ref b offset now stop)) (recs @ [b])" if "stop = Completed"
    using f' ix' dims d line that write_at_end [OF off, of b]
    by (simp add: vstore_shape_def append_disk [OF inv off] append_writes_def Let_def g_def counted_def write_count)
qed

lemma next_offset:
  assumes inv: "vstore_shape env s recs" and "VectorOffset (vs_header s) (hd_CommittedCount (vs_header s)) = Inr off"
  shows "off = int (length (header_bytes (vs_header s) @ concat recs))"
proof -
  have f: "files_hold env (vs_header s) (vm_Generation (vs_manifest s)) (vs_refs s) recs" using inv by (simp add: vstore_shape_def)
  have vh: "Header_Validate (vs_header s) = Inr ()" and rs: "\<forall>r \<in> set recs. length r = unat (hd_RecordSize (vs_header s))"
    and n: "unat (hd_CommittedCount (vs_header s)) = length (vs_refs s)" "length recs = length (vs_refs s)"
    using f by (simp_all add: files_hold_def)
  have "uint (hd_CommittedCount (vs_header s)) = int (length (vs_refs s))" by (simp only: uint_nat n)
  then have "off = int HeaderSize + int (length (vs_refs s)) * uint (hd_RecordSize (vs_header s))"
    using assms(2) by (simp add: VectorOffset_eq [OF vh] split: if_splits)
  then show ?thesis by (simp add: length_records [OF rs] n)
qed

lemma append_cases:
  assumes inv: "vstore_shape env s recs"
    and app: "vector_Append env s ty sid ih v now stop = (s', r)"
    and sid: "sid \<noteq> ''''" and ok: "\<And>b. line_ok env (new_ref env s ty sid ih b now)"
  obtains (unchanged) "s' = s" "\<forall>ref. r = Inr ref \<longrightarrow> ref \<in> set (vs_refs s)"
  | (written) b where "normalizeEncode (ve_bits env) v (uint (hd_Dimensions (vs_header s))) = Inr b"
      "vs_bySource s (source_key sid ih) = None"
      "reopens env (vs_disk s') (vm_Generation (vs_manifest s))
        (if counted stop then vs_refs s @ [new_ref env s ty sid ih b now] else vs_refs s) (if counted stop then recs @ [b] else recs)"
      "stop = Completed \<longrightarrow> vstore_shape env s' (recs @ [b]) \<and> vs_refs s' = vs_refs s @ [new_ref env s ty sid ih b now] \<and>
         r = Inr (new_ref env s ty sid ih b now)"
      "stop \<noteq> Completed \<longrightarrow> (\<exists>e. r = Inl e)"
proof -
  let ?h = "vs_header s"
  consider "s' = s" "\<forall>ref. r = Inr ref \<longrightarrow> ref \<in> set (vs_refs s)"
    | b off where "vs_bySource s (source_key sid ih) = None"
        "normalizeEncode (ve_bits env) v (uint (hd_Dimensions ?h)) = Inr b"
        "VectorOffset ?h (hd_CommittedCount ?h) = Inr off" "off + int (length b) \<le> MaxInt64"
        "(s', r) = append_writes env s (new_ref env s ty sid ih b now) b (nat off) now stop"
    using app by (auto simp: vector_Append_def split: if_splits option.splits sum.splits)
  then show thesis
  proof cases
    case 1
    then show thesis by (rule unchanged)
  next
    case 2
    from next_offset [OF inv 2(3)] have o: "nat off = length (header_bytes ?h @ concat recs)" "int (nat off) + int (length b) \<le> MaxInt64"
      using 2(4) by simp_all
    have s': "s' = fst (append_writes env s (new_ref env s ty sid ih b now) b (nat off) now stop)"
        "r = snd (append_writes env s (new_ref env s ty sid ih b now) b (nat off) now stop)"
      using 2(5) by (metis fst_conv, metis snd_conv)
    note w = append_writes_reopens [OF inv o(1) 2(2) o(2) 2(1) sid ok]
    show thesis
    proof (rule written [OF 2(2,1)])
      show "reopens env (vs_disk s') (vm_Generation (vs_manifest s))
        (if counted stop then vs_refs s @ [new_ref env s ty sid ih b now] else vs_refs s) (if counted stop then recs @ [b] else recs)"
        unfolding s' by (rule w(1))
      show "stop = Completed \<longrightarrow> vstore_shape env s' (recs @ [b]) \<and> vs_refs s' = vs_refs s @ [new_ref env s ty sid ih b now] \<and>
         r = Inr (new_ref env s ty sid ih b now)"
        using w(2) by (simp add: s' append_writes_def Let_def)
      show "stop \<noteq> Completed \<longrightarrow> (\<exists>e. r = Inl e)"
        by (cases stop) (simp_all add: s'(2) append_writes_def Let_def)
    qed
  qed
qed

lemma checksums_snoc:
  "checksums_ok env refs recs \<Longrightarrow> checksums_ok env (refs @ [new_ref env s ty sid ih b now]) (recs @ [b])"
  by (simp add: checksums_ok_def new_ref_def)

text \<open>C19: wherever an append stops - in the middle of the record, of its line in the map, before
  or after the count, at the manifest - opening the generation again succeeds and finds every record
  that was there, readable and with its checksum, and at most the appended one besides; an append that
  reported success is among them.\<close>

theorem append_crash_safe:
  assumes "vstore_inv env s recs" "vector_Append env s ty sid ih v now stop = (s', r)" "sid \<noteq> ''''"
    and "\<And>b. line_ok env (new_ref env s ty sid ih b now)"
  shows "\<exists>s'' recs''. recoverLocked env (vs_disk s') later = Inr s'' \<and> vstore_inv env s'' recs'' \<and>
    (vs_refs s'' = vs_refs s \<and> recs'' = recs \<or>
     (\<exists>b. normalizeEncode (ve_bits env) v (uint (hd_Dimensions (vs_header s))) = Inr b \<and>
        vs_refs s'' = vs_refs s @ [new_ref env s ty sid ih b now] \<and> recs'' = recs @ [b])) \<and>
    (\<forall>ref. r = Inr ref \<longrightarrow> ref \<in> set (vs_refs s''))"
proof -
  have inv: "vstore_shape env s recs" and sums: "checksums_ok env (vs_refs s) recs"
    using assms(1) by (simp_all add: vstore_inv_def)
  from inv assms(2-4) show ?thesis
  proof (cases rule: append_cases)
    case unchanged
    then show ?thesis using reopens_self [OF inv] sums unfolding reopens_def vstore_inv_def by fastforce
  next
    case (written b)
    then show ?thesis using sums checksums_snoc [OF sums, of s ty sid ih b now]
      unfolding reopens_def vstore_inv_def by (cases "counted stop") (fastforce simp: counted_def)+
  qed
qed

section \<open>Generations in use\<close>

text \<open>A generation from its creation on, with the references its appends have reported: appends that run to
  their end, and crashes in the middle of an append followed by opening the files again.\<close>

definition acknowledge :: "vector_ref list \<Rightarrow> vector_ref res \<Rightarrow> vector_ref list" where
  "acknowledge acks r = (case r of Inl _ \<Rightarrow> acks | Inr ref \<Rightarrow> acks @ [ref])"

inductive vector_run :: "vector_env \<Rightarrow> vector_store \<Rightarrow> vector_ref list \<Rightarrow> bool" for env where
  created: "create_fresh spec activate now = Inr s \<Longrightarrow> vector_run env s []"
| appended: "\<lbrakk>vector_run env s acks; vector_Append env s ty sid ih v now Completed = (s', r); sid \<noteq> '''';
    \<And>b. line_ok env (new_ref env s ty sid ih b now)\<rbrakk> \<Longrightarrow> vector_run env s' (acknowledge acks r)"
| restarted: "\<lbrakk>vector_run env s acks; vector_Append env s ty sid ih v now stop = (s', r); sid \<noteq> '''';
    \<And>b. line_ok env (new_ref env s ty sid ih b now); recoverLocked env (vs_disk s') later = Inr s''\<rbrakk>
    \<Longrightarrow> vector_run env s'' (acknowledge acks r)"

lemma set_acknowledge: "set (acknowledge acks r) = set acks \<union> (case r of Inl _ \<Rightarrow> {} | Inr ref \<Rightarrow> {ref})"
  by (auto simp: acknowledge_def split: sum.split)

lemma NewHeader_valid:
  assumes "NewHeader d = Inr h"
  shows "Header_Validate h = Inr ()" "hd_CommittedCount h = 0" "uint (hd_Dimensions h) = d"
proof -
  have d: "0 < d" "d \<le> 2 ^ 20" and h: "h = \<lparr>hd_Version = FormatVersion, hd_DType = DTypeFloat32LE, hd_Normalized = True,
        hd_Dimensions = word_of_int d, hd_CommittedCount = 0, hd_RecordSize = word_of_int d * 4\<rparr>"
    using assms by (auto simp: NewHeader_def split: if_splits)
  have u: "uint (word_of_int d :: 32 word) = d" using d by (simp add: unsigned_of_int take_bit_int_eq_self)
  then have "(word_of_int d :: 32 word) \<noteq> 0" using d(1) by auto
  moreover have "(ucast (word_of_int d :: 32 word) :: 64 word) = word_of_int d"
    using d by (simp add: ucast_eq u [simplified])
  ultimately show "Header_Validate h = Inr ()" "hd_CommittedCount h = 0" "uint (hd_Dimensions h) = d"
    using u by (simp_all add: h Header_Validate_def)
qed

lemma create_inv: "create_fresh spec activate now = Inr s \<Longrightarrow> vstore_inv env s []"
proof -
  assume c: "create_fresh spec activate now = Inr s"
  then obtain h where h: "NewHeader (gs_Dimensions spec) = Inr h"
    and s: "s = \<lparr>vs_header = h, vs_manifest = fresh_manifest spec activate now, vs_refs = [],
             vs_bySource = Map.empty, vs_mapped = 0, vs_closed = False,
             vs_disk = \<lparr>vd_vectors = header_bytes h, vd_map = [],
               vd_manifest = Some (fresh_manifest spec activate now)\<rparr>\<rparr>"
    by (auto simp: create_fresh_def split: if_splits)
  show ?thesis using NewHeader_valid [OF h]
    by (simp add: s vstore_inv_def vstore_shape_def files_hold_def checksums_ok_def map_bytes_def fresh_manifest_def)
qed

lemma reopens_recovered:
  "\<lbrakk>reopens env d g refs recs; recoverLocked env d now = Inr s\<rbrakk> \<Longrightarrow> vstore_shape env s recs \<and> vs_refs s = refs"
  unfolding reopens_def by (metis sum.inject(2))

lemma append_keeps:
  assumes "vstore_inv env s recs" "vector_Append env s ty sid ih v now stop = (s', r)" "sid \<noteq> ''''"
    and "\<And>b. line_ok env (new_ref env s ty sid ih b now)"
  shows "stop = Completed \<Longrightarrow> \<exists>recs'. vstore_inv env s' recs' \<and> set (vs_refs s) \<subseteq> set (vs_refs s') \<and> (\<forall>ref. r = Inr ref \<longrightarrow> ref \<in> set (vs_refs s'))"
    and "recoverLocked env (vs_disk s') later = Inr s'' \<Longrightarrow>
      \<exists>recs''. vstore_inv env s'' recs'' \<and> set (vs_refs s) \<subseteq> set (vs_refs s'') \<and> (\<forall>ref. r = Inr ref \<longrightarrow> ref \<in> set (vs_refs s''))"
proof -
  have inv: "vstore_shape env s recs" and sums: "checksums_ok env (vs_refs s) recs"
    using assms(1) by (simp_all add: vstore_inv_def)
  note sums' = sums checksums_snoc [OF sums, of s ty sid ih _ now]
  show "\<exists>recs'. vstore_inv env s' recs' \<and> set (vs_refs s) \<subseteq> set (vs_refs s') \<and> (\<forall>ref. r = Inr ref \<longrightarrow> ref \<in> set (vs_refs s'))"
    if "stop = Completed"
    using inv assms(2-4) by (cases rule: append_cases) (use assms(1) sums' that in \<open>auto simp: vstore_inv_def\<close>)
  show "\<exists>recs''. vstore_inv env s'' recs'' \<and> set (vs_refs s) \<subseteq> set (vs_refs s'') \<and> (\<forall>ref. r = Inr ref \<longrightarrow> ref \<in> set (vs_refs s''))"
    if rec: "recoverLocked env (vs_disk s') later = Inr s''"
    using inv assms(2-4)
  proof (cases rule: append_cases)
    case unchanged
    from unchanged(1) rec have "recoverLocked env (vs_disk s) later = Inr s''" by simp
    from reopens_recovered [OF reopens_self [OF inv] this] sums unchanged(2) show ?thesis
      by (auto simp: vstore_inv_def)
  next
    case (written b)
    have "r = Inr ref \<Longrightarrow> ref = new_ref env s ty sid ih b now \<and> counted stop" for ref
      using written(4,5) by (cases "stop = Completed") (auto simp: counted_def)
    with reopens_recovered [OF written(3) rec] sums sums'(2) [of b] show ?thesis
      by (cases "counted stop") (auto simp: vstore_inv_def)
  qed
qed

lemma vector_run_inv: "vector_run env s acks \<Longrightarrow> \<exists>recs. vstore_inv env s recs \<and> set acks \<subseteq> set (vs_refs s)"
proof (induction rule: vector_run.induct)
  case (created spec activate now s)
  then show ?case using create_inv by fastforce
next
  case (appended s acks ty sid ih v now s' r)
  then obtain recs where inv: "vstore_inv env s recs" and acks: "set acks \<subseteq> set (vs_refs s)" by blast
  from append_keeps(1) [OF inv appended.hyps(2-4) refl] show ?case using acks
    by (auto simp: set_acknowledge split: sum.splits)
next
  case (restarted s acks ty sid ih v now stop s' r later s'')
  then obtain recs where inv: "vstore_inv env s recs" and acks: "set acks \<subseteq> set (vs_refs s)" by blast
  from append_keeps(2) [OF inv restarted.hyps(2-5)] show ?case using acks
    by (auto simp: set_acknowledge split: sum.splits)
qed

text \<open>In whatever way a generation has been filled and restarted, it holds every vector whose
  append reported success, passes both checks of \<open>Verify\<close>, and opens again with the same mapping.\<close>

theorem generation_durable:
  assumes "vector_run env s acks"
  shows "set acks \<subseteq> set (vs_refs s) \<and> Verify env s full = Inr () \<and>
    (\<exists>s'. recoverLocked env (vs_disk s) now = Inr s' \<and> vs_refs s' = vs_refs s)"
proof -
  obtain recs where "vstore_inv env s recs" "set acks \<subseteq> set (vs_refs s)" using vector_run_inv [OF assms] by blast
  then show ?thesis using verify_ok reopens_self unfolding vstore_inv_def reopens_def by blast
qed

section \<open>An append that fails while the daemon runs on\<close>

text \<open>An append that has written its line and then fails (the sync or the close of the map
  reports an error) leaves the line behind.  If the daemon goes on and the next append, of another source,
  succeeds, then after a restart the vector of the second source is filed under the first, and the second
  source is gone although its append was acknowledged.\<close>

theorem failed_append_misassigns:
  assumes inv: "vstore_inv env s recs"
    and failed: "vector_Append env s ty sid ih v now (Map_Failed (Suc (length (ve_json env (new_ref env s ty sid ih b now))))) = (s1, r1)"
      "normalizeEncode (ve_bits env) v (uint (hd_Dimensions (vs_header s))) = Inr b"
    and later: "vector_Append env s1 ty' sid' ih' v' now' Completed = (s2, Inr ref')"
    and fresh: "\<not> Has s sid ih" "\<not> Has s sid' ih'" "source_key sid' ih' \<noteq> source_key sid ih" "sid \<noteq> ''''"
    and ok: "\<And>b. line_ok env (new_ref env s ty sid ih b now)" "\<And>b. line_ok env (new_ref env s ty' sid' ih' b now')"
  shows "\<exists>s3 b'. recoverLocked env (vs_disk s2) t = Inr s3 \<and> vs_refs s3 = vs_refs s @ [new_ref env s ty sid ih b now] \<and>
    normalizeEncode (ve_bits env) v' (uint (hd_Dimensions (vs_header s))) = Inr b' \<and>
    readRecordLocked s3 (word_of_nat (length (vs_refs s))) = Inr b' \<and> \<not> Has s3 sid' ih'"
proof -
  let ?ref = "new_ref env s ty sid ih b now" and ?h = "vs_header s" and ?g = "vm_Generation (vs_manifest s)"
  let ?h' = "?h\<lparr>hd_CommittedCount := hd_CommittedCount ?h + 1\<rparr>"
  have shape: "vstore_shape env s recs" using inv by (simp add: vstore_inv_def)
  have key: "vs_bySource s (source_key sid ih) = None" "vs_bySource s (source_key sid' ih') = None"
    using fresh(1,2) by (simp_all add: Has_def)
  have f: "files_hold env ?h ?g (vs_refs s) recs" and dims: "vm_Dimensions (vs_manifest s) = uint (hd_Dimensions ?h)"
    and d: "vs_disk s = \<lparr>vd_vectors = header_bytes ?h @ concat recs, vd_map = map_bytes env (vs_refs s),
      vd_manifest = Some (vs_manifest s)\<rparr>"
    using shape by (simp_all add: vstore_shape_def)
  have same: "vs_header s1 = ?h" "vs_closed s1 = vs_closed s" "vs_bySource s1 = vs_bySource s" "vs_manifest s1 = vs_manifest s"
      "vs_refs s1 = vs_refs s"
    using failed by (auto simp: vector_Append_def append_writes_def key Let_def split: if_splits option.splits sum.splits)
  obtain b' off where enc: "normalizeEncode (ve_bits env) v' (uint (hd_Dimensions ?h)) = Inr b'"
      and off: "VectorOffset ?h (hd_CommittedCount ?h) = Inr off" "off + int (length b') \<le> MaxInt64" "\<not> vs_closed s"
      and w2: "(s2, Inr ref') = append_writes env s1 (new_ref env s1 ty' sid' ih' b' now') b' (nat off) now' Completed"
    using later by (auto simp: vector_Append_def key same split: if_splits sum.splits)
  have lens: "length b = length b'" using length_normalizeEncode [OF enc] length_normalizeEncode [OF failed(2)] by simp
  have o: "nat off = length (header_bytes ?h @ concat recs)" "int (nat off) + int (length b') \<le> MaxInt64"
    using next_offset [OF shape off(1)] off(2) by simp_all
  have s1: "vs_disk s1 = \<lparr>vd_vectors = (header_bytes ?h @ concat recs) @ b, vd_map = map_bytes env (vs_refs s @ [?ref]),
      vd_manifest = Some (vs_manifest s)\<rparr>"
    using failed off o(2) lens write_at_end [OF o(1), of b]
    by (auto simp: vector_Append_def key append_writes_def Let_def d map_bytes_def write_lines_snoc)
  let ?ref' = "new_ref env s ty' sid' ih' b' now'"
  let ?m = "(vs_manifest s)\<lparr>vm_CommittedVectors := hd_CommittedCount ?h + 1, vm_UpdatedAt := now'\<rparr>"
  have nr: "new_ref env s1 ty' sid' ih' b' now' = ?ref'" by (simp add: new_ref_def same)
  have s2: "vs_disk s2 = \<lparr>vd_vectors = header_bytes ?h' @ concat (recs @ [b']) @ [], vd_map = map_bytes env ((vs_refs s @ [?ref]) @ [?ref']),
      vd_manifest = Some ?m\<rparr>"
    using w2 write_at_inside [OF lens [symmetric], of "header_bytes ?h @ concat recs" "[]"] o(1)
    by (simp add: nr append_writes_def Let_def s1 same write_count map_bytes_def write_lines_def)
  note f' = new_ref_extends(2) [OF shape o(1) enc o(2) key(1) fresh(4) ok(1) [of b]]
    and ix' = new_ref_extends(1) [OF shape o(1) enc o(2) key(1) fresh(4) ok(1) [of b]]
  have oks: "\<forall>r \<in> set ((vs_refs s @ [?ref]) @ [?ref']). line_ok env r" using f ok by (simp add: files_hold_def)
  have "reopens env (vs_disk s2) (vm_Generation ?m) (vs_refs s @ [?ref]) (recs @ [b'])"
    using f' dims scan_written [OF oks] by (intro recover_files [where extra = "[?ref']" and malformed = False]) (simp_all add: s2)
  then obtain s3 where s3: "recoverLocked env (vs_disk s2) t = Inr s3" "vstore_shape env s3 (recs @ [b'])" "vs_refs s3 = vs_refs s @ [?ref]"
      "vm_Generation (vs_manifest s3) = ?g"
    unfolding reopens_def by auto
  have "readRecordLocked s3 (word_of_nat (length (vs_refs s))) = Inr ((recs @ [b']) ! length (vs_refs s))"
    using read_record [OF s3(2), of "length (vs_refs s)"] s3(3) by simp
  moreover have "length recs = length (vs_refs s)" using f by (simp add: files_hold_def)
  moreover have "vs_bySource s3 = (vs_bySource s)(ref_key ?ref \<mapsto> unat (vr_Ordinal ?ref))"
    using s3 ix' by (simp add: vstore_shape_def)
  then have "\<not> Has s3 sid' ih'" using key(2) fresh(3) by (simp add: Has_def new_ref_def)
  ultimately show ?thesis using s3 enc by (auto simp: nth_append)
qed

end
