(* ===== verification/Go_Heap.thy ===== *)
theory Go_Heap
  imports Prelude
begin

text \<open>
  \<open>container/heap\<close> of Go's library on a slice whose \<open>Less\<close> compares a key: \<open>heap.Push\<close> and \<open>heap.Pop\<close>
  with the sifts \<open>up\<close> and \<open>down\<close> as the library writes them, and the priority queue they implement.
\<close>

section \<open>The operations\<close>

definition swap :: "'a list \<Rightarrow> nat \<Rightarrow> nat \<Rightarrow> 'a list" where
  "swap h i j = h[i := h ! j, j := h ! i]"

abbreviation parent :: "nat \<Rightarrow> nat" where "parent j \<equiv> (j - 1) div 2"

function sift_up :: "('a \<Rightarrow> 'k::linorder) \<Rightarrow> 'a list \<Rightarrow> nat \<Rightarrow> 'a list" where
  "sift_up key h j =
     (if parent j = j \<or> \<not> key (h ! j) < key (h ! parent j) then h
      else sift_up key (swap h (parent j) j) (parent j))"
  by pat_completeness auto
termination by (relation "measure (\<lambda>(_, _, j). j)") auto

declare sift_up.simps [simp del]

definition smaller_child :: "('a \<Rightarrow> 'k::linorder) \<Rightarrow> 'a list \<Rightarrow> nat \<Rightarrow> nat \<Rightarrow> nat" where
  "smaller_child key h i n =
     (if 2 * i + 2 < n \<and> key (h ! (2 * i + 2)) < key (h ! (2 * i + 1)) then 2 * i + 2 else 2 * i + 1)"

function sift_down :: "('a \<Rightarrow> 'k::linorder) \<Rightarrow> 'a list \<Rightarrow> nat \<Rightarrow> nat \<Rightarrow> 'a list" where
  "sift_down key h i n =
     (if 2 * i + 1 \<ge> n then h
      else if \<not> key (h ! smaller_child key h i n) < key (h ! i) then h
      else sift_down key (swap h i (smaller_child key h i n)) (smaller_child key h i n) n)"
  by pat_completeness auto
termination by (relation "measure (\<lambda>(_, _, i, n). n - i)") (auto simp: smaller_child_def)

declare sift_down.simps [simp del]

definition heap_push :: "('a \<Rightarrow> 'k::linorder) \<Rightarrow> 'a list \<Rightarrow> 'a \<Rightarrow> 'a list" where
  "heap_push key h x = sift_up key (h @ [x]) (length h)"

definition heap_pop :: "('a \<Rightarrow> 'k::linorder) \<Rightarrow> 'a list \<Rightarrow> 'a list \<times> 'a" where
  "heap_pop key h =
     (let n = length h - 1; h = sift_down key (swap h 0 n) 0 n in (take n h, h ! n))"

section \<open>The interface of a priority queue\<close>

locale priority_queue =
  fixes key :: "'a \<Rightarrow> 'k::linorder"
    and queue :: "'q \<Rightarrow> bool"
    and bag :: "'q \<Rightarrow> 'a multiset"
    and void :: "'q"
    and push :: "'q \<Rightarrow> 'a \<Rightarrow> 'q"
    and pop :: "'q \<Rightarrow> 'q \<times> 'a"
    and peek :: "'q \<Rightarrow> 'a"
  assumes void_queue: "queue void" and void_bag: "bag void = {#}"
    and push_queue: "queue q \<Longrightarrow> queue (push q x)" and push_bag: "queue q \<Longrightarrow> bag (push q x) = add_mset x (bag q)"
    and pop_queue: "\<lbrakk>queue q; bag q \<noteq> {#}\<rbrakk> \<Longrightarrow> queue (fst (pop q))"
    and pop_bag: "\<lbrakk>queue q; bag q \<noteq> {#}\<rbrakk> \<Longrightarrow> bag q = add_mset (snd (pop q)) (bag (fst (pop q)))"
    and pop_peek: "\<lbrakk>queue q; bag q \<noteq> {#}\<rbrakk> \<Longrightarrow> snd (pop q) = peek q"
    and peek_least: "\<lbrakk>queue q; x \<in># bag q\<rbrakk> \<Longrightarrow> key (peek q) \<le> key x"
begin

text \<open>The client of the queue: the best \<open>limit\<close> elements of a stream, kept in a queue whose least element
  makes room for a better one.\<close>

definition offer :: "nat \<Rightarrow> 'q \<Rightarrow> 'a \<Rightarrow> 'q" where
  "offer limit q x =
     (if size (bag q) < limit then push q x
      else if key x > key (peek q) then push (fst (pop q)) x else q)"

text \<open>\<open>kept\<close> of the elements seen so far: as many as fit, and none of the others is better.\<close>

definition best_of :: "nat \<Rightarrow> 'a multiset \<Rightarrow> 'a multiset \<Rightarrow> bool" where
  "best_of limit seen kept \<longleftrightarrow>
     kept \<subseteq># seen \<and> size kept = min limit (size seen) \<and>
     (\<forall>x. \<forall>y. x \<in># kept \<longrightarrow> y \<in># seen - kept \<longrightarrow> key y \<le> key x)"

lemma offer_best:
  assumes q: "queue q" and best: "best_of limit seen (bag q)" and "0 < limit"
  shows "queue (offer limit q x) \<and> best_of limit (add_mset x seen) (bag (offer limit q x))"
proof -
  obtain rest where seen: "seen = bag q + rest"
    using best by (metis best_of_def subset_mset.le_iff_add)
  have dom: "key y \<le> key z" if "z \<in># bag q" "y \<in># rest" for y z
    using best that by (auto simp: best_of_def seen)
  have sz: "size (bag q) = min limit (size seen)" using best unfolding best_of_def by blast
  consider (room) "size (bag q) < limit" | (better) "size (bag q) = limit" "key x > key (peek q)"
    | (worse) "size (bag q) = limit" "\<not> key x > key (peek q)"
    using sz by linarith
  then show ?thesis
  proof cases
    case room
    have "size seen = size (bag q)" using sz room by linarith
    moreover have "size seen = size (bag q) + size rest" unfolding seen by simp
    ultimately have "rest = {#}" by simp
    then have "add_mset x (bag q) = add_mset x seen" "size (add_mset x seen) \<le> limit"
      using room by (simp_all add: seen)
    then show ?thesis using room q by (simp add: offer_def push_queue push_bag best_of_def)
  next
    case better
    have ne: "bag q \<noteq> {#}" using better(1) assms(3) by auto
    let ?p = "fst (pop q)" and ?m = "snd (pop q)"
    have m: "bag q = add_mset ?m (bag ?p)" "queue ?p" "?m = peek q"
      using pop_bag [OF q ne] pop_queue [OF q ne] pop_peek [OF q ne] .
    have least: "key ?m \<le> key z" if "z \<in># bag q" for z using peek_least [OF q that] m(3) by simp
    have "key y \<le> key z" if "z \<in># add_mset x (bag ?p)" "y \<in># add_mset ?m rest" for y z
    proof -
      have "key ?m \<le> key z" using that(1) better(2) least [of z] m by auto
      moreover have "key y \<le> key ?m" using that(2) dom [of ?m y] m(1) by auto
      ultimately show ?thesis by simp
    qed
    moreover have "add_mset x seen - add_mset x (bag ?p) = add_mset ?m rest"
      by (subst seen, subst m(1)) simp
    moreover have "add_mset x (bag ?p) \<subseteq># add_mset x seen" by (subst seen, subst m(1)) simp
    moreover have "size (add_mset x (bag ?p)) = limit" using m(1) better(1) by (metis size_add_mset)
    moreover have "limit \<le> size seen" using better(1) by (simp add: seen)
    ultimately show ?thesis using better m(2)
      by (simp add: offer_def push_queue push_bag best_of_def)
  next
    case worse
    have ne: "bag q \<noteq> {#}" using worse(1) assms(3) by auto
    have "key x \<le> key z" if "z \<in># bag q" for z
      using peek_least [OF q that] worse(2) by simp
    moreover have "add_mset x seen - bag q = add_mset x rest" by (simp add: seen)
    moreover have "size (bag q) = min limit (size (add_mset x seen))"
      using worse(1) sz by (simp only: size_add_mset)
    moreover have "bag q \<subseteq># add_mset x seen" by (simp add: seen subset_mset.add_increasing)
    ultimately show ?thesis using worse q dom
      by (auto simp: offer_def best_of_def)
  qed
qed

lemma offers_best:
  "queue q \<Longrightarrow> best_of limit seen (bag q) \<Longrightarrow> 0 < limit \<Longrightarrow>
     queue (foldl (offer limit) q xs) \<and> best_of limit (mset xs + seen) (bag (foldl (offer limit) q xs))"
proof (induction xs arbitrary: q seen)
  case (Cons x xs)
  then show ?case using Cons.IH [of "offer limit q x" "add_mset x seen"] offer_best [of q limit seen x] by simp
qed simp

lemma best_of_void: "best_of limit {#} (bag void)"
  by (simp add: best_of_def void_bag)

end

section \<open>The heap order\<close>

definition heap_below :: "('a \<Rightarrow> 'k::linorder) \<Rightarrow> 'a list \<Rightarrow> nat \<Rightarrow> bool" where
  "heap_below key h n \<longleftrightarrow> (\<forall>k < n. 0 < k \<longrightarrow> key (h ! parent k) \<le> key (h ! k))"

abbreviation is_heap :: "('a \<Rightarrow> 'k::linorder) \<Rightarrow> 'a list \<Rightarrow> bool" where
  "is_heap key h \<equiv> heap_below key h (length h)"

lemma length_swap [simp]: "length (swap h i j) = length h"
  by (simp add: swap_def)

lemma swap_nth: "i < length h \<Longrightarrow> j < length h \<Longrightarrow> k < length h \<Longrightarrow>
    swap h i j ! k = (if k = j then h ! i else if k = i then h ! j else h ! k)"
  by (auto simp: swap_def nth_list_update)

lemma mset_swap_idx: "i < length h \<Longrightarrow> j < length h \<Longrightarrow> mset (swap h i j) = mset h"
  unfolding swap_def by (rule mset_swap)

lemma heap_root:
  assumes "heap_below key h n" "k < n"
  shows "key (h ! 0) \<le> key (h ! k)"
  using assms(2)
proof (induction k rule: less_induct)
  case (less k)
  show ?case
  proof (cases "k = 0")
    case False
    then have "key (h ! 0) \<le> key (h ! parent k)" using less by simp
    also have "\<dots> \<le> key (h ! k)" using assms(1) less.prems False by (simp add: heap_below_def)
    finally show ?thesis .
  qed simp
qed

text \<open>The heap order but for the element that moves up, and for the one that moves down.\<close>

definition up_inv :: "('a \<Rightarrow> 'k::linorder) \<Rightarrow> 'a list \<Rightarrow> nat \<Rightarrow> bool" where
  "up_inv key h j \<longleftrightarrow> j < length h \<and>
     (\<forall>k < length h. 0 < k \<longrightarrow> k \<noteq> j \<longrightarrow> key (h ! parent k) \<le> key (h ! k)) \<and>
     (\<forall>k < length h. 0 < k \<longrightarrow> 0 < j \<longrightarrow> parent k = j \<longrightarrow> key (h ! parent j) \<le> key (h ! k))"

definition down_inv :: "('a \<Rightarrow> 'k::linorder) \<Rightarrow> 'a list \<Rightarrow> nat \<Rightarrow> nat \<Rightarrow> bool" where
  "down_inv key h i n \<longleftrightarrow> n \<le> length h \<and>
     (\<forall>k < n. 0 < k \<longrightarrow> parent k \<noteq> i \<longrightarrow> key (h ! parent k) \<le> key (h ! k)) \<and>
     (\<forall>k < n. 0 < k \<longrightarrow> 0 < i \<longrightarrow> parent k = i \<longrightarrow> key (h ! parent i) \<le> key (h ! k))"

lemma parent_less: "0 < k \<Longrightarrow> parent k < k"
  by simp

lemma sift_up_mset: "j < length h \<Longrightarrow> mset (sift_up key h j) = mset h \<and> length (sift_up key h j) = length h"
proof (induction key h j rule: sift_up.induct)
  case (1 key h j)
  then show ?case
    by (subst (1 2) sift_up.simps) (auto simp: mset_swap_idx)
qed

lemma sift_up_heap: "up_inv key h j \<Longrightarrow> is_heap key (sift_up key h j)"
proof (induction key h j rule: sift_up.induct)
  case (1 key h j)
  let ?i = "parent j"
  have inv: "j < length h"
    "\<And>k. \<lbrakk>k < length h; 0 < k; k \<noteq> j\<rbrakk> \<Longrightarrow> key (h ! parent k) \<le> key (h ! k)"
    "\<And>k. \<lbrakk>k < length h; 0 < k; 0 < j; parent k = j\<rbrakk> \<Longrightarrow> key (h ! parent j) \<le> key (h ! k)"
    using "1.prems" unfolding up_inv_def by blast+
  show ?case
  proof (cases "?i = j \<or> \<not> key (h ! j) < key (h ! ?i)")
    case True
    then have "key (h ! parent k) \<le> key (h ! k)" if "k < length h" "0 < k" for k
      using that inv(2) [OF that] by (cases "k = j") auto
    then show ?thesis using True by (simp add: sift_up.simps [of key h j] heap_below_def)
  next
    case False
    then have j: "0 < j" "?i < j" "key (h ! j) < key (h ! ?i)" by auto
    let ?h = "swap h ?i j"
    have nth: "?h ! k = (if k = j then h ! ?i else if k = ?i then h ! j else h ! k)" if "k < length h" for k
      using that inv(1) j(2) by (simp add: swap_nth)
    have "up_inv key ?h ?i"
      unfolding up_inv_def
    proof (intro conjI allI impI)
      show "?i < length ?h" using inv(1) j(2) by simp
    next
      fix k assume k: "k < length ?h" "0 < k" "k \<noteq> ?i"
      then have kl: "k < length h" "parent k < length h" using parent_less [of k] by auto
      show "key (?h ! parent k) \<le> key (?h ! k)"
      proof (cases "k = j")
        case True
        then have "?h ! k = h ! ?i" "?h ! parent k = h ! j" using nth [of j] nth [of ?i] kl j by auto
        then show ?thesis using j(3) by simp
      next
        case other: False
        show ?thesis
        proof (cases "parent k = j")
          case True
          then have "?h ! parent k = h ! ?i" "?h ! k = h ! k" using nth [of j] nth [of k] kl k(3) other inv(1) by auto
          then show ?thesis using inv(3) [OF kl(1) k(2) j(1) True] by simp
        next
          case False
          have "key (h ! parent k) \<le> key (h ! k)" using inv(2) kl(1) k(2) other by blast
          moreover have "?h ! k = h ! k" using nth [of k] kl k(3) other by auto
          moreover have "?h ! parent k = (if parent k = ?i then h ! j else h ! parent k)"
            using nth [of "parent k"] kl False by auto
          ultimately show ?thesis using j(3) by (cases "parent k = ?i") auto
        qed
      qed
    next
      fix k assume k: "k < length ?h" "0 < k" "0 < ?i" "parent k = ?i"
      then have kl: "k < length h" "?i < length h" using inv(1) j(2) by auto
      have kp: "parent ?i < length h" using parent_less [OF k(3)] kl(2) by linarith
      have up: "key (h ! parent ?i) \<le> key (h ! ?i)"
        using inv(2) [of ?i] kl(2) k(3) j(2) by simp
      have "key (h ! ?i) \<le> key (h ! k)" if "k \<noteq> j" using inv(2) [of k] kl(1) k(2,4) that by simp
      moreover have "?h ! parent ?i = h ! parent ?i"
        using nth [OF kp] parent_less [OF k(3)] j(2) by auto
      moreover have "?h ! k = (if k = j then h ! ?i else h ! k)"
        using nth [OF kl(1)] k(2,4) parent_less [OF k(2)] by auto
      ultimately show "key (?h ! parent ?i) \<le> key (?h ! k)"
        using up by (cases "k = j") auto
    qed
    then show ?thesis using "1.IH" [OF False] False by (simp add: sift_up.simps [of key h j])
  qed
qed

lemma smaller_child_cases:
  assumes "2 * i + 1 < n"
  shows "smaller_child key h i n < n" "parent (smaller_child key h i n) = i" "0 < smaller_child key h i n"
    "i < smaller_child key h i n"
    "\<And>k. \<lbrakk>k < n; 0 < k; parent k = i\<rbrakk> \<Longrightarrow> key (h ! smaller_child key h i n) \<le> key (h ! k)"
proof -
  show "smaller_child key h i n < n" "parent (smaller_child key h i n) = i" "0 < smaller_child key h i n"
    "i < smaller_child key h i n" using assms by (auto simp: smaller_child_def)
  fix k assume k: "k < n" "0 < k" "parent k = i"
  then have "k = 2 * i + 1 \<or> k = 2 * i + 2" by arith
  then show "key (h ! smaller_child key h i n) \<le> key (h ! k)" using k(1) by (auto simp: smaller_child_def)
qed

lemma sift_down_mset:
  "i < n \<Longrightarrow> n \<le> length h \<Longrightarrow> mset (sift_down key h i n) = mset h \<and> length (sift_down key h i n) = length h \<and>
     drop n (sift_down key h i n) = drop n h"
proof (induction key h i n rule: sift_down.induct)
  case (1 key h i n)
  show ?case
  proof (cases "2 * i + 1 \<ge> n \<or> \<not> key (h ! smaller_child key h i n) < key (h ! i)")
    case True
    then show ?thesis by (auto simp: sift_down.simps [of key h i n])
  next
    case False
    let ?j = "smaller_child key h i n"
    have j: "?j < n" using False smaller_child_cases by (metis not_le)
    have "mset (swap h i ?j) = mset h" using j "1.prems" by (intro mset_swap_idx) auto
    moreover have "drop n (swap h i ?j) = drop n h" using j "1.prems" by (simp add: swap_def)
    ultimately show ?thesis using "1.IH" False j "1.prems" by (simp add: sift_down.simps [of key h i n])
  qed
qed

lemma sift_down_heap: "down_inv key h i n \<Longrightarrow> i < n \<Longrightarrow> heap_below key (sift_down key h i n) n"
proof (induction key h i n rule: sift_down.induct)
  case (1 key h i n)
  let ?j = "smaller_child key h i n"
  have inv: "n \<le> length h"
    "\<And>k. \<lbrakk>k < n; 0 < k; parent k \<noteq> i\<rbrakk> \<Longrightarrow> key (h ! parent k) \<le> key (h ! k)"
    "\<And>k. \<lbrakk>k < n; 0 < k; 0 < i; parent k = i\<rbrakk> \<Longrightarrow> key (h ! parent i) \<le> key (h ! k)"
    using "1.prems"(1) unfolding down_inv_def by blast+
  show ?case
  proof (cases "2 * i + 1 < n")
    case False
    then have "parent k \<noteq> i" if "k < n" "0 < k" for k using that by arith
    then show ?thesis using False inv(2) by (simp add: sift_down.simps [of key h i n] heap_below_def)
  next
    case child: True
    note sc = smaller_child_cases [OF child, where key = key and h = h]
    show ?thesis
    proof (cases "key (h ! ?j) < key (h ! i)")
      case False
      have "key (h ! parent k) \<le> key (h ! k)" if "k < n" "0 < k" for k
        using inv(2) [OF that] sc(5) [OF that] False by (cases "parent k = i") auto
      then show ?thesis using child False by (simp add: sift_down.simps [of key h i n] heap_below_def)
    next
      case True
      let ?h = "swap h i ?j"
      have nth: "?h ! k = (if k = ?j then h ! i else if k = i then h ! ?j else h ! k)" if "k < n" for k
        using that inv(1) sc(1) "1.prems"(2) by (simp add: swap_nth)
      have pk: "parent k < n" if "k < n" for k using that by arith
      have "down_inv key ?h ?j n"
        unfolding down_inv_def
      proof (intro conjI allI impI)
        show "n \<le> length ?h" using inv(1) by simp
      next
        fix k assume k: "k < n" "0 < k" "parent k \<noteq> ?j"
        show "key (?h ! parent k) \<le> key (?h ! k)"
        proof (cases "parent k = i")
          case parent: True
          have "k \<noteq> i" using k(2) parent parent_less [of k] by auto
          then have "?h ! k = (if k = ?j then h ! i else h ! k)" using nth [OF k(1)] by simp
          moreover have "?h ! parent k = h ! ?j" using nth [OF pk [OF k(1)]] parent sc(4) by simp
          ultimately show ?thesis using True sc(5) [OF k(1,2) parent] by auto
        next
          case other: False
          have kj: "k \<noteq> ?j" using other sc(2) by auto
          have "?h ! parent k = h ! parent k" using nth [OF pk [OF k(1)]] other k(3) by simp
          moreover have "key (h ! parent k) \<le> key (h ! k)" using inv(2) [OF k(1,2) other] .
          moreover have "key (h ! parent i) \<le> key (h ! ?j)" if "k = i"
            using inv(3) [OF sc(1,3) _ sc(2)] that k(2) by simp
          ultimately show ?thesis using nth [OF k(1)] kj by (cases "k = i") auto
        qed
      next
        fix k assume k: "k < n" "0 < k" "0 < ?j" "parent k = ?j"
        have ki: "k \<noteq> i" "k \<noteq> ?j" using k(2,4) sc(4) parent_less [of k] by auto
        have "?h ! parent ?j = h ! ?j" using nth [OF "1.prems"(2)] sc(2,4) by simp
        moreover have "?h ! k = h ! k" using nth [OF k(1)] ki by simp
        moreover have "key (h ! parent k) \<le> key (h ! k)" using inv(2) [OF k(1,2)] k(4) sc(4) by simp
        ultimately show "key (?h ! parent ?j) \<le> key (?h ! k)" using k(4) by simp
      qed
      then show ?thesis using "1.IH" [of] child True sc(1) by (simp add: sift_down.simps [of key h i n])
    qed
  qed
qed

lemma heap_push_spec: "is_heap key h \<Longrightarrow> is_heap key (heap_push key h x) \<and> mset (heap_push key h x) = add_mset x (mset h)"
proof -
  assume heap: "is_heap key h"
  have "up_inv key (h @ [x]) (length h)"
    using heap by (auto simp: up_inv_def heap_below_def nth_append)
  then show ?thesis using sift_up_heap [of key "h @ [x]" "length h"] sift_up_mset [of "length h" "h @ [x]" key]
    by (simp add: heap_push_def)
qed

lemma heap_pop_spec:
  assumes heap: "is_heap key h" and ne: "h \<noteq> []"
  shows "is_heap key (fst (heap_pop key h))" "mset h = add_mset (snd (heap_pop key h)) (mset (fst (heap_pop key h)))"
    "snd (heap_pop key h) = h ! 0"
proof -
  let ?n = "length h - 1" and ?s = "swap h 0 (length h - 1)"
  let ?d = "sift_down key ?s 0 ?n"
  have n: "?n < length h" "length h = Suc ?n" using ne by auto
  have last: "?s ! ?n = h ! 0" using ne by (simp add: swap_nth)
  have nth: "?s ! k = h ! k" if "k < ?n" "0 < k" for k
    using that n by (subst swap_nth) auto
  have d: "mset ?d = mset h" "length ?d = length h" "?d ! ?n = h ! 0"
  proof -
    have m: "mset ?s = mset h" using ne by (simp add: mset_swap_idx)
    have "mset ?d = mset ?s \<and> length ?d = length ?s \<and> drop ?n ?d = drop ?n ?s"
      using sift_down_mset [of 0 ?n ?s key] by (cases "?n = 0") (auto simp: sift_down.simps [of key _ 0 0])
    moreover from this have "?d ! ?n = ?s ! ?n" using n by (metis Cons_nth_drop_Suc length_swap list.inject)
    ultimately show "mset ?d = mset h" "length ?d = length h" "?d ! ?n = h ! 0" using m last by simp_all
  qed
  have pop: "heap_pop key h = (take ?n ?d, ?d ! ?n)" by (simp add: heap_pop_def Let_def)
  have "?d = take ?n ?d @ [?d ! ?n]" using d(2) n by (metis lessI take_Suc_conv_app_nth take_all order.refl)
  then have "mset ?d = add_mset (?d ! ?n) (mset (take ?n ?d))"
    by (metis mset.simps(2) mset_append union_mset_add_mset_right add.right_neutral mset.simps(1))
  then show "mset h = add_mset (snd (heap_pop key h)) (mset (fst (heap_pop key h)))" using d(1) pop by simp
  show "snd (heap_pop key h) = h ! 0" using pop d(3) by simp
  have below: "heap_below key ?d ?n"
  proof (cases "?n = 0")
    case False
    have "down_inv key ?s 0 ?n"
      using heap nth by (auto simp: down_inv_def heap_below_def)
    then show ?thesis using sift_down_heap False by blast
  qed (simp add: heap_below_def)
  have "key (take ?n ?d ! parent k) \<le> key (take ?n ?d ! k)" if "k < ?n" "0 < k" for k
    using below that parent_less [of k] by (simp add: heap_below_def)
  then show "is_heap key (fst (heap_pop key h))" using pop d(2) by (simp add: heap_below_def)
qed

text \<open>A slice under these operations is a priority queue; its clients interpret the interface with this rule.\<close>

lemma heap_priority_queue:
  fixes key :: "'a \<Rightarrow> 'k::linorder"
  shows "priority_queue key (is_heap key) mset [] (heap_push key) (heap_pop key) (\<lambda>h. h ! 0)"
proof unfold_locales
  show "is_heap key []" "mset [] = {#}" by (simp_all add: heap_below_def)
  fix h :: "'a list" and x
  show "is_heap key (heap_push key h x)" "mset (heap_push key h x) = add_mset x (mset h)" if "is_heap key h"
    using heap_push_spec [OF that] by simp_all
  show "is_heap key (fst (heap_pop key h))"
    "mset h = add_mset (snd (heap_pop key h)) (mset (fst (heap_pop key h)))" "snd (heap_pop key h) = h ! 0"
    if heap: "is_heap key h" and ne: "mset h \<noteq> {#}"
  proof -
    have "h \<noteq> []" using ne by simp
    note spec = heap_pop_spec [OF heap this]
    show "is_heap key (fst (heap_pop key h))" "snd (heap_pop key h) = h ! 0" using spec(1,3) .
    show "mset h = add_mset (snd (heap_pop key h)) (mset (fst (heap_pop key h)))" by (rule spec(2))
  qed
  show "key (h ! 0) \<le> key x" if heap: "is_heap key h" and mem: "x \<in># mset h"
  proof -
    obtain k where "k < length h" "x = h ! k" using mem by (auto simp: in_set_conv_nth)
    then show ?thesis using heap_root [OF heap] by simp
  qed
qed

end
