(* ===== verification/Vector_Search.thy ===== *)
theory Vector_Search
  imports Vector_Store Go_Heap Go_Sort
begin

text \<open>
  \<open>Store.Search\<close> of \<open>lite/vectorstore/search.go\<close>: the cosine of the query and every record as a scalar
  product of normalised vectors, a bounded heap of the best candidates, and the final order.  Reading a
  float from its bits is a parameter, scores are reals; the state of the context, asked for once in 256
  records, is an argument.
\<close>

section \<open>The search\<close>

record candidate =
  ca_Ordinal :: "64 word"
  ca_SourceType :: go_string
  ca_SourceID :: go_string
  ca_EmbeddingInputHash :: go_string
  ca_Score :: real

record search_options =
  so_Limit :: int
  so_MinimumScore :: real
  so_AllowedOrdinal :: "(64 word \<Rightarrow> bool) option"

definition float_at :: "(32 word \<Rightarrow> real) \<Rightarrow> go_string \<Rightarrow> nat \<Rightarrow> real" where
  "float_at of_bits b d = of_bits (word_of_nat (le_nat (sub_bytes (4 * d) (4 * d + 4) b)))"

definition score_of :: "(32 word \<Rightarrow> real) \<Rightarrow> go_string \<Rightarrow> nat \<Rightarrow> go_string \<Rightarrow> real" where
  "score_of of_bits q n record = (\<Sum>d \<leftarrow> [0..<n]. float_at of_bits q d * float_at of_bits record d)"

definition candidate_at :: "(32 word \<Rightarrow> real) \<Rightarrow> go_string \<Rightarrow> nat \<Rightarrow> go_string \<Rightarrow> nat \<times> vector_ref \<Rightarrow> candidate" where
  "candidate_at of_bits q n record = (\<lambda>(i, ref).
     \<lparr>ca_Ordinal = word_of_nat i, ca_SourceType = vr_SourceType ref, ca_SourceID = vr_SourceID ref,
      ca_EmbeddingInputHash = vr_EmbeddingInputHash ref, ca_Score = score_of of_bits q n record\<rparr>)"

definition keep_best :: "nat \<Rightarrow> candidate list \<Rightarrow> candidate \<Rightarrow> candidate list" where
  "keep_best limit kept c =
     (if length kept < limit then heap_push ca_Score kept c
      else if ca_Score c > ca_Score (kept ! 0) then heap_push ca_Score (fst (heap_pop ca_Score kept)) c else kept)"

fun search_loop ::
    "(32 word \<Rightarrow> real) \<Rightarrow> vector_store \<Rightarrow> search_options \<Rightarrow> (nat \<Rightarrow> go_string option) \<Rightarrow> go_string \<Rightarrow> nat \<Rightarrow>
     candidate list \<Rightarrow> (nat \<times> vector_ref) list \<Rightarrow> candidate list res" where
  "search_loop of_bits s options ctx q n kept [] = Inr kept"
| "search_loop of_bits s options ctx q n kept ((i, ref) # refs) =
     (case (if i mod 256 = 0 then ctx i else None) of
        Some err \<Rightarrow> Inl err
      | None \<Rightarrow>
          if (case so_AllowedOrdinal options of None \<Rightarrow> False | Some allowed \<Rightarrow> \<not> allowed (word_of_nat i))
          then search_loop of_bits s options ctx q n kept refs
          else bindE (readRecordLocked s (word_of_nat i)) (\<lambda>record.
            let c = candidate_at of_bits q n record (i, ref) in
            search_loop of_bits s options ctx q n
              (if ca_Score c < so_MinimumScore options then kept else keep_best (nat (so_Limit options)) kept c) refs))"

fun drain :: "nat \<Rightarrow> candidate list \<Rightarrow> candidate list \<Rightarrow> candidate list" where
  "drain 0 kept out = out"
| "drain (Suc k) kept out = (let (kept, c) = heap_pop ca_Score kept in drain k kept (c # out))"

definition candidate_before :: "candidate \<Rightarrow> candidate \<Rightarrow> bool" where
  "candidate_before a b \<longleftrightarrow>
     (if ca_Score a = ca_Score b then bytes_less (ca_SourceID a) (ca_SourceID b) else ca_Score a > ca_Score b)"

definition vector_Search ::
    "vector_env \<Rightarrow> (32 word \<Rightarrow> real) \<Rightarrow> vector_store \<Rightarrow> float32 list \<Rightarrow> search_options \<Rightarrow> (nat \<Rightarrow> go_string option) \<Rightarrow>
     candidate list res" where
  "vector_Search env of_bits s query options ctx =
     (if vs_closed s then Inl ''vector store closed''
      else if so_Limit options \<le> 0 \<or> vs_refs s = [] then Inr []
      else bindE (normalizeEncode (ve_bits env) query (uint (hd_Dimensions (vs_header s)))) (\<lambda>q.
        bindE (search_loop of_bits s options ctx q (length query) [] (List.enumerate 0 (vs_refs s))) (\<lambda>kept.
          Inr (sort_by candidate_before (drain (length kept) kept [])))))"

section \<open>The best candidates\<close>

text \<open>What there is to choose from: the allowed records that reach the minimum score.\<close>

definition matching ::
    "(32 word \<Rightarrow> real) \<Rightarrow> search_options \<Rightarrow> go_string \<Rightarrow> nat \<Rightarrow> go_string list \<Rightarrow> (nat \<times> vector_ref) list \<Rightarrow> candidate list" where
  "matching of_bits options q n recs refs =
     filter (\<lambda>c. \<not> ca_Score c < so_MinimumScore options)
       (map (\<lambda>(i, ref). candidate_at of_bits q n (recs ! i) (i, ref))
         (filter (\<lambda>(i, ref). case so_AllowedOrdinal options of None \<Rightarrow> True | Some allowed \<Rightarrow> allowed (word_of_nat i)) refs))"

interpretation candidates: go_weak_less candidate_before
proof unfold_locales
  show "candidate_before x y \<Longrightarrow> \<not> candidate_before y x" for x y
    by (auto simp: candidate_before_def bytes_less_asym split: if_splits)
  show "candidate_before x y \<Longrightarrow> candidate_before x z \<or> candidate_before z y" for x y z
  proof -
    assume xy: "candidate_before x y"
    consider "ca_Score z < ca_Score x" | "ca_Score x < ca_Score z" | "ca_Score z = ca_Score x" by linarith
    then show ?thesis
    proof cases
      case 3
      then show ?thesis using xy bytes_less_trans [of "ca_SourceID z" "ca_SourceID x" "ca_SourceID y"]
          bytes_less_total [of "ca_SourceID x" "ca_SourceID z"]
        by (cases "ca_SourceID x = ca_SourceID z") (auto simp: candidate_before_def split: if_splits)
    qed (use xy in \<open>auto simp: candidate_before_def split: if_splits\<close>)
  qed
qed

interpretation best_candidates: priority_queue "ca_Score :: candidate \<Rightarrow> real" "is_heap ca_Score" mset "[]"
    "heap_push ca_Score" "heap_pop ca_Score" "\<lambda>h. h ! 0"
  by (rule heap_priority_queue)

lemma keep_best_offer: "keep_best limit = best_candidates.offer limit"
  by (intro ext) (simp add: keep_best_def best_candidates.offer_def)

lemma search_loop_matching:
  assumes "vstore_shape env s recs" "\<forall>i. ctx i = None" "\<forall>(i, ref) \<in> set refs. i < length (vs_refs s)"
  shows "search_loop of_bits s options ctx q n kept refs =
    Inr (foldl (keep_best (nat (so_Limit options))) kept (matching of_bits options q n recs refs))"
  using assms(3)
proof (induction refs arbitrary: kept)
  case (Cons p refs)
  obtain i ref where p: "p = (i, ref)" by (cases p)
  have "readRecordLocked s (word_of_nat i) = Inr (recs ! i)" using Cons.prems p by (intro read_record [OF assms(1)]) auto
  then show ?case using Cons assms(2) by (auto simp: p matching_def Let_def split: option.split)
qed (simp add: matching_def)

lemma mset_drain: "is_heap ca_Score kept \<Longrightarrow> k = length kept \<Longrightarrow> mset (drain k kept out) = mset kept + mset out"
proof (induction k arbitrary: kept out)
  case (Suc k)
  then have ne: "kept \<noteq> []" by auto
  note spec = heap_pop_spec [OF Suc.prems(1) ne]
  obtain kept' c where p: "heap_pop ca_Score kept = (kept', c)" by (cases "heap_pop ca_Score kept")
  have "length kept = Suc (length kept')" using arg_cong [OF spec(2), of size] by (simp add: p)
  then show ?case using Suc.IH [of kept' "c # out"] Suc.prems spec by (simp add: p)
qed simp

text \<open>C20: on a consistent generation a search returns the best candidates among the allowed records that
  reach the minimum score: as many as there are up to the limit, none left out that scores better than
  one returned, best first and ties by source, whatever the heap did on the way.\<close>

theorem search_top_k:
  fixes of_bits :: "32 word \<Rightarrow> real"
  assumes "vstore_inv env s recs" "\<not> vs_closed s" "\<forall>i. ctx i = None" "0 < so_Limit options"
    and "normalizeEncode (ve_bits env) query (uint (hd_Dimensions (vs_header s))) = Inr q"
  defines "all \<equiv> matching of_bits options q (length query) recs (List.enumerate 0 (vs_refs s))"
  shows "\<exists>out. vector_Search env of_bits s query options ctx = Inr out \<and>
    mset out \<subseteq># mset all \<and> length out = min (nat (so_Limit options)) (length all) \<and>
    (\<forall>x y. x \<in> set out \<longrightarrow> y \<in># mset all - mset out \<longrightarrow> ca_Score y \<le> ca_Score x) \<and>
    sorted_wrt (\<lambda>a b. \<not> candidate_before b a) out"
proof -
  let ?limit = "nat (so_Limit options)" and ?refs = "List.enumerate 0 (vs_refs s)"
  have shape: "vstore_shape env s recs" using assms(1) by (simp add: vstore_inv_def)
  define kept where "kept = foldl (best_candidates.offer ?limit) [] all"
  have heap: "is_heap ca_Score kept" and "best_candidates.best_of ?limit (mset all) (mset kept)"
    using best_candidates.offers_best [OF best_candidates.void_queue best_candidates.best_of_void, of ?limit all] assms(4)
    by (simp_all add: kept_def)
  then have best: "mset kept \<subseteq># mset all" "length kept = min ?limit (length all)"
      "\<forall>x y. x \<in> set kept \<longrightarrow> y \<in># mset all - mset kept \<longrightarrow> ca_Score y \<le> ca_Score x"
    by (simp_all add: best_candidates.best_of_def)
  have "\<forall>(i, ref) \<in> set ?refs. i < length (vs_refs s)" by (auto simp: set_zip enumerate_eq_zip)
  from search_loop_matching [OF shape assms(3) this, of of_bits options q "length query" "[]"]
  have loop: "search_loop of_bits s options ctx q (length query) [] ?refs = Inr kept"
    by (simp add: kept_def all_def keep_best_offer)
  show ?thesis
  proof (cases "vs_refs s = []")
    case True
    then have "all = []" by (simp add: all_def matching_def)
    then show ?thesis using True assms(2) best by (simp add: vector_Search_def kept_def)
  next
    case False
    then have "vector_Search env of_bits s query options ctx = Inr (sort_by candidate_before (drain (length kept) kept []))"
      using assms(2,4,5) loop by (simp add: vector_Search_def)
    moreover have "mset (sort_by candidate_before (drain (length kept) kept [])) = mset kept"
      using mset_drain [OF heap refl, of "[]"] by simp
    moreover from this have "length (sort_by candidate_before (drain (length kept) kept [])) = length kept"
      "set (sort_by candidate_before (drain (length kept) kept [])) = set kept"
      by (metis size_mset, metis set_mset_mset)
    ultimately show ?thesis using best candidates.sort_ordered by simp
  qed
qed

end
