(* ===== verification/Search.thy ===== *)
theory Search
  imports Index_Search Alias_Expander Query_Cache Vector_Search
begin

text \<open>
  \<open>Server.searchMemories\<close> of \<open>lite/server.go\<close> with what it calls: candidates from the index for every
  expansion of the query, their classes and scores, the vector candidates and the four ways of merging
  them, the order, the two limits and the recorded accesses.  The embedder, the database of
  \<open>Index_Search\<close>, the clock and the state of the context are parameters.
\<close>

section \<open>Hits\<close>

record memory_hit =
  mh_MemoryID :: go_string
  mh_Kind :: go_string
  mh_Subject :: go_string
  mh_Content :: go_string
  mh_Scope :: go_string
  mh_ProjectKey :: go_string
  mh_EpistemicStatus :: go_string
  mh_Score :: real
  mh_Importance :: real
  mh_Heat :: real
  mh_EffectiveHeat :: real
  mh_AccessCount :: int
  mh_RepeatCount :: int
  mh_Grade :: go_string
  mh_UpdatedAt :: time
  mh_MatchClass :: int
  mh_MatchStrength :: real

record ranked =
  rd_row :: memory_row
  rd_key :: rank_key
  rd_hit :: memory_hit

definition sessionsSince :: "store \<Rightarrow> go_string \<Rightarrow> memory_row \<Rightarrow> int" where
  "sessionsSince s sessionID row =
     (case SessionSeq s sessionID of
        None \<Rightarrow> 0
      | Some cur \<Rightarrow>
          (let last = (if mm_LastUsedSeq row \<le> 0 then 1 else mm_LastUsedSeq row) in
           if cur \<le> last then 0 else cur - last))"

definition toHit :: "memory_row \<Rightarrow> int \<Rightarrow> real \<Rightarrow> match_result \<Rightarrow> memory_hit" where
  "toHit row since score match =
     (let eff = ActivationFor (mm_Kind row) (mm_Activation row) since (mm_Importance row) in
      \<lparr>mh_MemoryID = mm_MemoryID row, mh_Kind = mm_Kind row, mh_Subject = mm_Subject row, mh_Content = mm_Content row,
       mh_Scope = mm_ScopeType row, mh_ProjectKey = mm_ProjectKey row, mh_EpistemicStatus = mm_EpistemicStatus row,
       mh_Score = score, mh_Importance = mm_Importance row, mh_Heat = mm_Activation row, mh_EffectiveHeat = eff,
       mh_AccessCount = mm_AccessCount row, mh_RepeatCount = mm_RepeatCount row,
       mh_Grade = HeatGrade (mm_Importance row) eff, mh_UpdatedAt = mm_UpdatedAt row,
       mh_MatchClass = class_int (mt_Class match), mh_MatchStrength = mt_Strength match\<rparr>)"

definition display_score :: "memory_row \<Rightarrow> match_result \<Rightarrow> int \<Rightarrow> real" where
  "display_score row match since =
     DisplayScore match (ActivationFor (mm_Kind row) (mm_Activation row) since (mm_Importance row))
       (mm_Confidence row) (mm_Disputed row) (mm_ScopeType row = ''PROJECT'')"

section \<open>Configuration and state\<close>

record embedder =
  em_contract :: "unit res"
  em_Embed :: "go_string \<Rightarrow> float32 list list res"

record search_config =
  sc_Aliases :: "alias_entry list"
  sc_sha :: "go_string \<Rightarrow> go_string"
  sc_Index :: "fts option"
  sc_vectors :: vector_env
  sc_float :: "32 word \<Rightarrow> real"
  sc_Embedder :: "embedder option"
  sc_SemanticSearch :: "bool option"
  sc_semanticBlocked :: bool
  sc_QueryInstruction :: go_string
  sc_SemanticOnly :: bool
  sc_MinimumScore :: "real option"
  sc_RRFFusion :: bool
  sc_RRFWeight :: real
  sc_VectorFirst :: bool
  sc_HighScore :: real
  sc_MinimumMargin :: real
  sc_OnlyOnEmpty :: bool
  sc_TopOne :: bool

text \<open>\<open>se_vector_refs\<close> are the rows of the table \<open>vector_refs\<close> that are not stale.\<close>

record search_server =
  se_Store :: store
  se_VectorStore :: "vector_store option"
  se_vector_refs :: "vector_ref list"
  se_queryCache :: "float32 list query_cache option"

definition semanticEnabled :: "search_config \<Rightarrow> bool" where
  "semanticEnabled cfg =
     (if sc_semanticBlocked cfg then False else case sc_SemanticSearch cfg of Some b \<Rightarrow> b | None \<Rightarrow> False)"

text \<open>\<open>Store.LoadMemoryRow\<close> and \<open>Store.EligibleMemories\<close> with an index or without one, where the rows come
  in the order in which Go ranges over the map.\<close>

definition load_row :: "search_config \<Rightarrow> store \<Rightarrow> go_string \<Rightarrow> memory_row option" where
  "load_row cfg s memoryID =
     (case sc_Index cfg of
        Some db \<Rightarrow> if ft_current_error db = None then row_of db memoryID else None
      | None \<Rightarrow> st_memories s memoryID)"

definition EligibleMemories :: "search_config \<Rightarrow> memory_row list \<Rightarrow> session_scope \<Rightarrow> go_string list \<Rightarrow> int \<Rightarrow> memory_row list res" where
  "EligibleMemories cfg ranging scope kinds limit =
     (case sc_Index cfg of
        Some db \<Rightarrow> bindE (EligibleMemoryRows db (ss_ProjectKey scope) kinds False (nat limit))
                     (\<lambda>rows. Inr (EligibleMemories_index (sc_sha cfg) scope rows))
      | None \<Rightarrow> Inr (EligibleMemories_map (sc_sha cfg) scope kinds limit ranging))"

definition memoryKindRequested :: "memory_row \<Rightarrow> go_string list \<Rightarrow> bool" where
  "memoryKindRequested row kinds \<longleftrightarrow> kinds = [] \<or> mm_Kind row \<in> set kinds"

section \<open>Lexical candidates\<close>

record candidate_row =
  cw_row :: memory_row
  cw_query :: go_string
  cw_relevance :: real
  cw_bm25 :: bool

text \<open>The rows of one expansion that are new, eligible and of a requested kind.\<close>

fun new_rows ::
    "search_config \<Rightarrow> session_scope \<Rightarrow> search_request \<Rightarrow> go_string \<Rightarrow> (go_string \<Rightarrow> index_candidate option) \<Rightarrow>
     memory_row list \<Rightarrow> go_string set \<Rightarrow> candidate_row list \<times> go_string set" where
  "new_rows cfg scope rq q byID [] seen = ([], seen)"
| "new_rows cfg scope rq q byID (row # rows) seen =
     (if mm_MemoryID row \<in> seen \<or> \<not> memoryRowEligible (sc_sha cfg) scope row False \<or> \<not> memoryKindRequested row (sq_Kinds rq)
      then new_rows cfg scope rq q byID rows seen
      else
        (let c = (case byID (mm_MemoryID row) of
                    Some i \<Rightarrow> \<lparr>cw_row = row, cw_query = q, cw_relevance = ic_Relevance i, cw_bm25 = ic_BM25 i\<rparr>
                  | None \<Rightarrow> \<lparr>cw_row = row, cw_query = q, cw_relevance = 0, cw_bm25 = False\<rparr>);
             (cs, seen) = new_rows cfg scope rq q byID rows (insert (mm_MemoryID row) seen) in
         (c # cs, seen)))"

definition candidate_limit :: "search_request \<Rightarrow> int" where
  "candidate_limit rq = min 200 (max 40 (SearchRequest_EffectiveLimit rq * 5))"

text \<open>The loop over the expansions; \<open>ctx i\<close> is the state of the context when it is asked the \<open>i\<close>-th time.\<close>

fun recall_loop ::
    "search_config \<Rightarrow> fts \<Rightarrow> session_scope \<Rightarrow> search_request \<Rightarrow> (nat \<Rightarrow> go_string option) \<Rightarrow> nat \<Rightarrow> go_string list \<Rightarrow>
     go_string set \<Rightarrow> bool \<Rightarrow> (candidate_row list \<times> bool) res" where
  "recall_loop cfg db scope rq ctx i [] seen succeeded = Inr ([], succeeded)"
| "recall_loop cfg db scope rq ctx i (q # qs) seen succeeded =
     (case ctx i of
        Some err \<Rightarrow> Inl err
      | None \<Rightarrow>
          (case SearchRankedCandidates db q (ss_ProjectKey scope) (sq_Kinds rq) (candidate_limit rq) of
             Inl _ \<Rightarrow> recall_loop cfg db scope rq ctx (i + 1) qs seen succeeded
           | Inr indexed \<Rightarrow>
               (case LoadMemories db (map ic_MemoryID indexed) of
                  Inl _ \<Rightarrow> recall_loop cfg db scope rq ctx (i + 1) qs seen True
                | Inr rows \<Rightarrow>
                    (let byID = map_of (rev (map (\<lambda>c. (ic_MemoryID c, c)) indexed));
                         (cs, seen) = new_rows cfg scope rq q byID rows seen in
                     bindE (recall_loop cfg db scope rq ctx (i + 1) qs seen True)
                       (\<lambda>(cs', succeeded). Inr (cs @ cs', succeeded))))))"

definition lexical_candidates ::
    "search_config \<Rightarrow> memory_row list \<Rightarrow> session_scope \<Rightarrow> search_request \<Rightarrow> (nat \<Rightarrow> go_string option) \<Rightarrow> candidate_row list res" where
  "lexical_candidates cfg ranging scope rq ctx =
     bindE (case sc_Index cfg of
         None \<Rightarrow> Inr ([], False)
       | Some db \<Rightarrow> recall_loop cfg db scope rq ctx 0 (Expand (sc_Aliases cfg) (sq_Query rq)) {} False)
       (\<lambda>(candidates, succeeded).
         if candidates = [] \<and> \<not> succeeded
         then bindE (EligibleMemories cfg ranging scope (sq_Kinds rq) 0)
                (\<lambda>rows. Inr (map (\<lambda>row. \<lparr>cw_row = row, cw_query = sq_Query rq, cw_relevance = 0, cw_bm25 = False\<rparr>) rows))
         else Inr candidates)"

section \<open>Scoring\<close>

definition strongerMatch :: "match_result \<Rightarrow> match_result \<Rightarrow> bool" where
  "strongerMatch a b = (if mt_Class a \<noteq> mt_Class b then mt_Class a > mt_Class b else mt_Strength a > mt_Strength b)"

definition cjkPrefixes :: "go_string \<Rightarrow> go_string list" where
  "cjkPrefixes query =
     (let rs = runes (concat (lite_cjkRuns query)) in
      if length rs < 3 then [] else map (\<lambda>n. utf8 (take n rs)) (rev [2..<length rs]))"

definition isAllCJK :: "go_string \<Rightarrow> bool" where
  "isAllCJK query =
     (if list_ex (\<lambda>r. r \<notin> {32, 9, 10} \<and> \<not> is_cjk r) (runes query) then False else length (trim_space query) > 0)"

definition prefix_match :: "memory_row \<Rightarrow> go_string \<Rightarrow> match_result \<Rightarrow> match_result" where
  "prefix_match row p match =
     (let m = ClassifyMatch row p in
      if mt_Class m \<noteq> MatchNone \<and> (mt_Class match = MatchNone \<or> strongerMatch m match) then m else match)"

definition candidate_match :: "go_string \<Rightarrow> candidate_row \<Rightarrow> match_result" where
  "candidate_match query c =
     (let row = cw_row c;
          match = ClassifyMatch row query;
          match = (if mt_Class match = MatchNone
            then (let alt = ClassifyMatch row (cw_query c) in if mt_Class alt \<noteq> MatchNone then alt else match)
            else match);
          match = (if mt_Class match = MatchFuzzy \<and> cw_bm25 c \<and> cw_relevance c > 0
            then match\<lparr>mt_Strength := cw_relevance c\<rparr> else match) in
      if mt_Class match = MatchNone \<and> isAllCJK query
      then fold (prefix_match row) (cjkPrefixes query) match else match)"

definition ranked_of :: "store \<Rightarrow> session_scope \<Rightarrow> memory_row \<Rightarrow> match_result \<Rightarrow> (real \<Rightarrow> real) \<Rightarrow> ranked" where
  "ranked_of s scope row match rounded =
     (let since = sessionsSince s (ss_SessionID scope) row in
      \<lparr>rd_row = row, rd_key = RankKeyFor row match since,
       rd_hit = toHit row since (rounded (display_score row match since)) match\<rparr>)"

fun score_loop ::
    "store \<Rightarrow> session_scope \<Rightarrow> go_string \<Rightarrow> (nat \<Rightarrow> go_string option) \<Rightarrow> nat \<Rightarrow> candidate_row list \<Rightarrow> ranked list res" where
  "score_loop s scope query ctx i [] = Inr []"
| "score_loop s scope query ctx i (c # cs) =
     (case ctx i of
        Some err \<Rightarrow> Inl err
      | None \<Rightarrow>
          bindE (score_loop s scope query ctx (i + 1) cs) (\<lambda>rs.
            let match = candidate_match query c in
            Inr (if mt_Class match = MatchNone then rs else ranked_of s scope (cw_row c) match (\<lambda>x. x) # rs)))"

section \<open>Vector candidates\<close>

abbreviation semanticMinimumThreshold :: real where "semanticMinimumThreshold \<equiv> 68 / 100"
abbreviation semanticStrongThreshold :: real where "semanticStrongThreshold \<equiv> 78 / 100"

definition query_input :: "search_config \<Rightarrow> go_string \<Rightarrow> go_string" where
  "query_input cfg query =
     (let instruction = trim_space (sc_QueryInstruction cfg) in
      if instruction \<noteq> '''' then ''Instruct: '' @ instruction @ [CHR 0x0A] @ ''Query: '' @ query else query)"

definition ResolveVectorCandidates ::
    "fts \<Rightarrow> vector_ref list \<Rightarrow> go_string \<Rightarrow> go_string \<Rightarrow> candidate list \<Rightarrow> (go_string \<rightharpoonup> go_string) res" where
  "ResolveVectorCandidates db refs generation projectKey cs =
     (if cs = [] then Inr Map.empty
      else if length cs > 200 then Inl ''too many vector candidates''
      else case ft_current_error db of
        Some err \<Rightarrow> Inl err
      | None \<Rightarrow> Inr (map_of (rev (map (\<lambda>r. (vr_SourceID r, vr_EmbeddingInputHash r))
          (filter (\<lambda>r. vr_Generation r = generation \<and> vr_SourceID r \<in> ca_SourceID ` set cs \<and>
             (case row_of db (vr_SourceID r) of None \<Rightarrow> False | Some row \<Rightarrow> sql_visible projectKey [] row)) refs)))))"

definition EmbeddingInput :: "memory_row \<Rightarrow> go_string" where
  "EmbeddingInput row = trim_space (mm_Subject row) @ [CHR 0x0A] @ trim_space (mm_Content row)"

definition EmbeddingInputHash :: "(go_string \<Rightarrow> go_string) \<Rightarrow> memory_row \<Rightarrow> go_string" where
  "EmbeddingInputHash sha row = sha_name sha (''embedding-input-v1'' @ [CHR 0x00] @ EmbeddingInput row)"

definition vector_hit ::
    "search_config \<Rightarrow> store \<Rightarrow> session_scope \<Rightarrow> (go_string \<rightharpoonup> go_string) \<Rightarrow> candidate \<Rightarrow> ranked option" where
  "vector_hit cfg s scope resolved c =
     (case load_row cfg s (ca_SourceID c) of
        None \<Rightarrow> None
      | Some row \<Rightarrow>
          if \<not> memoryRowEligible (sc_sha cfg) scope row False then None
          else if go_get resolved '''' (ca_SourceID c) \<noteq> ca_EmbeddingInputHash c \<or>
                  EmbeddingInputHash (sc_sha cfg) row \<noteq> ca_EmbeddingInputHash c then None
          else Some (ranked_of s scope row
            \<lparr>mt_Class = (if ca_Score c \<ge> semanticStrongThreshold then MatchContent else MatchSemantic), mt_Strength = ca_Score c\<rparr> round6))"

text \<open>Ambiguous results are dropped when the margin experiment asks for it.\<close>

definition ambiguous :: "search_config \<Rightarrow> candidate list \<Rightarrow> bool" where
  "ambiguous cfg cs =
     (case cs of
        [] \<Rightarrow> False
      | c # rest \<Rightarrow> sc_MinimumMargin cfg > 0 \<and> sc_HighScore cfg > 0 \<and> ca_Score c < sc_HighScore cfg \<and>
          (case rest of [] \<Rightarrow> True | d # _ \<Rightarrow> ca_Score c - ca_Score d < sc_MinimumMargin cfg))"

definition query_vector ::
    "search_config \<Rightarrow> search_server \<Rightarrow> embedder \<Rightarrow> go_string \<Rightarrow> go_string \<Rightarrow> search_server \<times> float32 list option res" where
  "query_vector cfg sv emb generation input =
     (let cache = (case se_queryCache sv of None \<Rightarrow> newQueryVectorCache 256 | Some c \<Rightarrow> c);
          (cache, cached) = cache_get (sc_sha cfg) cache generation input in
      case cached of
        Some v \<Rightarrow> (sv\<lparr>se_queryCache := Some cache\<rparr>, Inr (Some v))
      | None \<Rightarrow>
          (case em_Embed emb input of
             Inl err \<Rightarrow> (sv\<lparr>se_queryCache := Some cache\<rparr>, Inl err)
           | Inr [] \<Rightarrow> (sv\<lparr>se_queryCache := Some cache\<rparr>, Inr None)
           | Inr (v # _) \<Rightarrow> (sv\<lparr>se_queryCache := Some (cache_put (sc_sha cfg) cache generation input v)\<rparr>, Inr (Some v))))"

definition vectorHits ::
    "search_config \<Rightarrow> search_server \<Rightarrow> session_scope \<Rightarrow> search_request \<Rightarrow> (nat \<Rightarrow> go_string option) \<Rightarrow> search_server \<times> ranked list res" where
  "vectorHits cfg sv scope rq ctx =
     (case (sc_Embedder cfg, se_VectorStore sv) of
        (Some emb, Some vs) \<Rightarrow>
          (case em_contract emb of
             Inl err \<Rightarrow> (sv, Inl err)
           | Inr _ \<Rightarrow>
               (let generation = vm_Generation (vs_manifest vs);
                    (sv, v) = query_vector cfg sv emb generation (query_input cfg (sq_Query rq)) in
                (sv, bindE v (\<lambda>v. case v of
                  None \<Rightarrow> Inr []
                | Some vector \<Rightarrow>
                    bindE (vector_Search (sc_vectors cfg) (sc_float cfg) vs vector
                        \<lparr>so_Limit = SearchRequest_EffectiveLimit rq * 3,
                         so_MinimumScore = (case sc_MinimumScore cfg of Some m \<Rightarrow> m | None \<Rightarrow> semanticMinimumThreshold),
                         so_AllowedOrdinal = None\<rparr> ctx) (\<lambda>cs.
                      if ambiguous cfg cs then Inr []
                      else bindE (case sc_Index cfg of
                            Some db \<Rightarrow> ResolveVectorCandidates db (se_vector_refs sv) generation (ss_ProjectKey scope) cs
                          | None \<Rightarrow> Inr (map_of (rev (map (\<lambda>c. (ca_SourceID c, ca_EmbeddingInputHash c)) cs)))) (\<lambda>resolved.
                        Inr (List.map_filter (vector_hit cfg (se_Store sv) scope resolved) cs)))))))
      | _ \<Rightarrow> (sv, Inl ''semantic embedding provider unavailable''))"

section \<open>Merging\<close>

definition by_key :: "ranked \<Rightarrow> ranked \<Rightarrow> bool" where
  "by_key a b \<longleftrightarrow> lessKey (rd_key a) (rd_key b)"

text \<open>The candidates whose memory has not been seen, each memory once.\<close>

fun merge_new :: "go_string set \<Rightarrow> ranked list \<Rightarrow> ranked list" where
  "merge_new seen [] = []"
| "merge_new seen (r # rs) =
     (if mm_MemoryID (rd_row r) \<in> seen then merge_new seen rs
      else r # merge_new (insert (mm_MemoryID (rd_row r)) seen) rs)"

text \<open>Reciprocal rank fusion, over a table of the candidates with their scores.  Its final sort ends in
  the identifier, so the order in which Go ranges over the table does not matter.\<close>

record fused =
  fu_candidate :: ranked
  fu_score :: real

definition fused_put :: "(go_string \<times> fused) list \<Rightarrow> ranked \<Rightarrow> fused \<Rightarrow> (go_string \<times> fused) list" where
  "fused_put table r f = (mm_MemoryID (rd_row r), f) # filter (\<lambda>(k, _). k \<noteq> mm_MemoryID (rd_row r)) table"

fun fuse_lexical :: "real \<Rightarrow> nat \<Rightarrow> ranked list \<Rightarrow> (go_string \<times> fused) list \<Rightarrow> (go_string \<times> fused) list" where
  "fuse_lexical w i [] table = table"
| "fuse_lexical w i (r # rs) table =
     fuse_lexical w (i + 1) rs (fused_put table r \<lparr>fu_candidate = r, fu_score = w / real (60 + i + 1)\<rparr>)"

fun fuse_semantic :: "real \<Rightarrow> nat \<Rightarrow> ranked list \<Rightarrow> (go_string \<times> fused) list \<Rightarrow> (go_string \<times> fused) list" where
  "fuse_semantic w i [] table = table"
| "fuse_semantic w i (r # rs) table =
     (let entry = (case map_of table (mm_MemoryID (rd_row r)) of
            None \<Rightarrow> \<lparr>fu_candidate = r, fu_score = 0\<rparr>
          | Some f \<Rightarrow> if lessKey (rd_key r) (rd_key (fu_candidate f)) then f\<lparr>fu_candidate := r\<rparr> else f) in
      fuse_semantic w (i + 1) rs (fused_put table r (entry\<lparr>fu_score := fu_score entry + w / real (60 + i + 1)\<rparr>)))"

definition fused_before :: "fused \<Rightarrow> fused \<Rightarrow> bool" where
  "fused_before a b =
     (if fu_score a = fu_score b then by_key (fu_candidate a) (fu_candidate b) else fu_score a > fu_score b)"

definition fuseRankedCandidates :: "ranked list \<Rightarrow> ranked list \<Rightarrow> real \<Rightarrow> real \<Rightarrow> ranked list" where
  "fuseRankedCandidates lexical semantic lexicalWeight semanticWeight =
     map fu_candidate (sort_by fused_before (map snd
       (fuse_semantic semanticWeight 0 semantic (fuse_lexical lexicalWeight 0 (sort_by by_key lexical) []))))"

text \<open>The four ways in which vector candidates join; the flag says that the order is final.\<close>

definition merge_semantic :: "search_config \<Rightarrow> ranked list \<Rightarrow> ranked list \<Rightarrow> ranked list \<times> bool" where
  "merge_semantic cfg lexical semantic =
     (if sc_TopOne cfg then (merge_new {} (take 1 semantic @ sort_by by_key lexical), True)
      else if sc_VectorFirst cfg then (merge_new {} (semantic @ sort_by by_key lexical), True)
      else if sc_RRFFusion cfg
      then (fuseRankedCandidates lexical semantic 1 (if sc_RRFWeight cfg \<le> 0 then 2 else sc_RRFWeight cfg), True)
      else (lexical @ merge_new ((\<lambda>r. mm_MemoryID (rd_row r)) ` set lexical) semantic, False))"

section \<open>The search\<close>

definition effective_mode :: "search_config \<Rightarrow> search_request \<Rightarrow> go_string" where
  "effective_mode cfg rq =
     (if sq_Mode rq = '''' then (if semanticEnabled cfg then ''SEMANTIC_FALLBACK'' else ''LEXICAL'') else sq_Mode rq)"

definition run_semantic :: "search_config \<Rightarrow> go_string \<Rightarrow> ranked list \<Rightarrow> bool" where
  "run_semantic cfg mode lexical =
     (let strong = list_ex (\<lambda>r. mh_MatchClass (rd_hit r) \<ge> class_int MatchContent) lexical in
      if mode = ''SEMANTIC_FALLBACK'' \<and> sc_OnlyOnEmpty cfg then lexical = []
      else mode = ''SEMANTIC'' \<or> mode = ''SEMANTIC_FALLBACK'' \<and> \<not> strong)"

text \<open>Hits of identity memories that match in the subject are kept beyond the limit of the caller.\<close>

definition identity_hit :: "memory_hit \<Rightarrow> bool" where
  "identity_hit h \<longleftrightarrow> IdentityKind (mh_Kind h) \<and> mh_MatchClass h \<ge> class_int MatchSubject"

fun cap_hits :: "nat \<Rightarrow> nat \<Rightarrow> nat \<Rightarrow> memory_hit list \<Rightarrow> memory_hit list" where
  "cap_hits limit identityKept otherKept [] = []"
| "cap_hits limit identityKept otherKept (h # hs) =
     (if identity_hit h
      then (if identityKept < IdentityHitsMax then h # cap_hits limit (identityKept + 1) otherKept hs
            else cap_hits limit identityKept otherKept hs)
      else if otherKept < limit then h # cap_hits limit identityKept (otherKept + 1) hs
      else cap_hits limit identityKept otherKept hs)"

definition record_access :: "(go_string \<Rightarrow> go_string) \<Rightarrow> go_string \<Rightarrow> go_string \<Rightarrow> time \<Rightarrow> memory_hit \<Rightarrow> store \<Rightarrow> store" where
  "record_access sha sessionID kind now h s =
     (case RecordAccess sha s (mh_MemoryID h) sessionID kind now of Inl _ \<Rightarrow> s | Inr s' \<Rightarrow> s')"

definition searchMemories ::
    "search_config \<Rightarrow> search_server \<Rightarrow> memory_row list \<Rightarrow> session_scope \<Rightarrow> search_request \<Rightarrow> bool \<Rightarrow>
     (nat \<Rightarrow> go_string option) \<Rightarrow> (nat \<Rightarrow> go_string option) \<Rightarrow> (nat \<Rightarrow> go_string option) \<Rightarrow> time \<Rightarrow>
     search_server \<times> memory_hit list res" where
  "searchMemories cfg sv ranging scope rq recordAccess ctx1 ctx2 ctx3 now =
     (case bindE (lexical_candidates cfg ranging scope rq ctx1) (score_loop (se_Store sv) scope (sq_Query rq) ctx2 0) of
        Inl err \<Rightarrow> (sv, Inl err)
      | Inr lexical \<Rightarrow>
          (let mode = effective_mode cfg rq;
               run = run_semantic cfg mode lexical;
               lexical = (if mode = ''SEMANTIC'' \<and> sc_SemanticOnly cfg then [] else lexical);
               ready = (run \<and> semanticEnabled cfg \<and>
                 (case se_VectorStore sv of None \<Rightarrow> False | Some vs \<Rightarrow> length (vs_refs vs) > 0));
               (sv, semantic) = (if ready then vectorHits cfg sv scope rq ctx3 else (sv, Inl ''''));
               (rs, final) = (case semantic of Inl _ \<Rightarrow> (lexical, False) | Inr ss \<Rightarrow> merge_semantic cfg lexical ss);
               rs = (if final then rs else sort_by by_key rs);
               hits = cap_hits (nat (SearchRequest_EffectiveLimit rq)) 0 0 (map rd_hit rs);
               s = (if recordAccess then fold (record_access (sc_sha cfg) (ss_SessionID scope) AccessSearchHit now) hits (se_Store sv)
                    else se_Store sv) in
           (sv\<lparr>se_Store := s\<rparr>, Inr hits)))"

section \<open>What a search returns\<close>

definition eligible_row :: "search_config \<Rightarrow> session_scope \<Rightarrow> go_string list \<Rightarrow> memory_row \<Rightarrow> bool" where
  "eligible_row cfg scope kinds row \<longleftrightarrow> memoryRowEligible (sc_sha cfg) scope row False \<and> memoryKindRequested row kinds"

text \<open>What a hit shows of its row.\<close>

definition shown :: "memory_row \<Rightarrow> go_string \<times> go_string \<times> go_string \<times> go_string \<times> go_string" where
  "shown row = (mm_MemoryID row, mm_Kind row, mm_Subject row, mm_Content row, mm_ScopeType row)"

definition hit_shows :: "memory_hit \<Rightarrow> go_string \<times> go_string \<times> go_string \<times> go_string \<times> go_string" where
  "hit_shows h = (mh_MemoryID h, mh_Kind h, mh_Subject h, mh_Content h, mh_Scope h)"

definition ranked_ok :: "search_config \<Rightarrow> session_scope \<Rightarrow> go_string list \<Rightarrow> ranked \<Rightarrow> bool" where
  "ranked_ok cfg scope kinds r \<longleftrightarrow> eligible_row cfg scope kinds (rd_row r) \<and> hit_shows (rd_hit r) = shown (rd_row r)"

lemma new_rows_eligible:
  "fst (new_rows cfg scope rq q byID rows seen) = cs \<Longrightarrow> \<forall>c \<in> set cs. eligible_row cfg scope (sq_Kinds rq) (cw_row c)"
proof (induction rows arbitrary: seen cs)
  case (Cons row rows)
  show ?case
  proof (cases "mm_MemoryID row \<in> seen \<or> \<not> memoryRowEligible (sc_sha cfg) scope row False \<or> \<not> memoryKindRequested row (sq_Kinds rq)")
    case True
    then have "new_rows cfg scope rq q byID (row # rows) seen = new_rows cfg scope rq q byID rows seen" by simp
    then have "fst (new_rows cfg scope rq q byID rows seen) = cs" using Cons.prems by (simp only:)
    then show ?thesis by (rule Cons.IH)
  next
    case False
    then show ?thesis using Cons.prems Cons.IH [OF refl, of "insert (mm_MemoryID row) seen"]
      by (auto simp: Let_def eligible_row_def split: prod.splits option.splits)
  qed
qed simp

lemma recall_loop_eligible:
  "recall_loop cfg db scope rq ctx i qs seen ok = Inr (cs, ok') \<Longrightarrow> \<forall>c \<in> set cs. eligible_row cfg scope (sq_Kinds rq) (cw_row c)"
proof (induction qs arbitrary: i seen ok cs)
  case (Cons q qs)
  from Cons.prems consider
      (skip) ok'' where "recall_loop cfg db scope rq ctx (i + 1) qs seen ok'' = Inr (cs, ok')"
    | (found) byID rows cs1 seen' cs2 where "new_rows cfg scope rq q byID rows seen = (cs1, seen')"
        "recall_loop cfg db scope rq ctx (i + 1) qs seen' True = Inr (cs2, ok')" "cs = cs1 @ cs2"
    by (auto simp: Let_def split: option.splits sum.splits prod.splits)
  then show ?case
  proof cases
    case found
    from new_rows_eligible [of cfg scope rq q byID rows seen cs1] found Cons.IH [OF found(2)] show ?thesis by auto
  qed (rule Cons.IH)
qed simp

lemma EligibleMemories_eligible:
  "EligibleMemories cfg ranging scope kinds limit = Inr rows \<Longrightarrow> \<forall>row \<in> set rows. eligible_row cfg scope kinds row"
  by (auto simp: EligibleMemories_def EligibleMemories_index_def EligibleMemories_map_def EligibleMemoryRows_def eligible_row_def
      memoryKindRequested_def Let_def dest!: in_set_takeD split: option.splits if_splits)

lemma lexical_eligible:
  "lexical_candidates cfg ranging scope rq ctx = Inr cs \<Longrightarrow> \<forall>c \<in> set cs. eligible_row cfg scope (sq_Kinds rq) (cw_row c)"
  using recall_loop_eligible EligibleMemories_eligible
  by (fastforce simp: lexical_candidates_def split: option.splits if_splits prod.splits)

lemma ranked_of_shows: "hit_shows (rd_hit (ranked_of s scope row match f)) = shown row" "rd_row (ranked_of s scope row match f) = row"
  by (simp_all add: ranked_of_def toHit_def hit_shows_def shown_def Let_def)

lemma score_loop_ok:
  "\<lbrakk>score_loop s scope query ctx i cs = Inr rs; \<forall>c \<in> set cs. eligible_row cfg scope kinds (cw_row c)\<rbrakk>
     \<Longrightarrow> \<forall>r \<in> set rs. ranked_ok cfg scope kinds r"
  by (induction cs arbitrary: i rs) (auto simp: Let_def ranked_ok_def ranked_of_shows split: option.splits if_splits)

lemma vectorHits_ok:
  "snd (vectorHits cfg sv scope rq ctx) = Inr rs \<Longrightarrow> \<forall>r \<in> set rs. ranked_ok cfg scope [] r"
proof -
  have "ranked_ok cfg scope [] r" if "vector_hit cfg s scope resolved c = Some r" for s resolved c r
    using that by (auto simp: vector_hit_def ranked_ok_def eligible_row_def memoryKindRequested_def ranked_of_shows split: option.splits if_splits)
  then have "\<forall>r \<in> set (List.map_filter (vector_hit cfg s scope resolved) cs). ranked_ok cfg scope [] r" for s resolved cs
    by (auto simp: List.map_filter_def)
  then show "snd (vectorHits cfg sv scope rq ctx) = Inr rs \<Longrightarrow> \<forall>r \<in> set rs. ranked_ok cfg scope [] r"
    by (auto simp: vectorHits_def Let_def split: option.splits sum.splits prod.splits if_splits)
qed

lemma set_merge_new: "set (merge_new seen rs) \<subseteq> set rs"
  by (induction rs arbitrary: seen) auto

definition table_from :: "ranked set \<Rightarrow> (go_string \<times> fused) list \<Rightarrow> bool" where
  "table_from rs table \<longleftrightarrow> (\<forall>(k, f) \<in> set table. fu_candidate f \<in> rs)"

lemma table_put: "\<lbrakk>table_from R table; fu_candidate f \<in> R\<rbrakk> \<Longrightarrow> table_from R (fused_put table r f)"
  by (auto simp: table_from_def fused_put_def)

lemma fuse_lexical_from: "\<lbrakk>table_from R table; set rs \<subseteq> R\<rbrakk> \<Longrightarrow> table_from R (fuse_lexical w i rs table)"
  by (induction rs arbitrary: i table) (simp_all add: table_put)

lemma fuse_semantic_from: "\<lbrakk>table_from R table; set rs \<subseteq> R\<rbrakk> \<Longrightarrow> table_from R (fuse_semantic w i rs table)"
proof (induction rs arbitrary: i table)
  case (Cons r rs)
  have "fu_candidate f \<in> R" if "map_of table k = Some f" for k f
    using Cons.prems(1) map_of_SomeD [OF that] by (auto simp: table_from_def)
  then have "table_from R (fused_put table r (entry\<lparr>fu_score := x\<rparr>))"
    if "entry = (case map_of table (mm_MemoryID (rd_row r)) of
            None \<Rightarrow> \<lparr>fu_candidate = r, fu_score = 0\<rparr>
          | Some f \<Rightarrow> if lessKey (rd_key r) (rd_key (fu_candidate f)) then f\<lparr>fu_candidate := r\<rparr> else f)" for entry x
    using that Cons.prems by (auto simp: table_from_def fused_put_def split: option.splits)
  then show ?case using Cons by (simp add: Let_def)
qed simp

lemma set_fuseRanked: "set (fuseRankedCandidates lexical semantic lw sw) \<subseteq> set lexical \<union> set semantic"
proof -
  let ?R = "set lexical \<union> set semantic"
  have "table_from ?R (fuse_semantic sw 0 semantic (fuse_lexical lw 0 (sort_by by_key lexical) []))"
    by (intro fuse_semantic_from fuse_lexical_from) (auto simp: table_from_def)
  then show ?thesis by (auto simp: fuseRankedCandidates_def table_from_def)
qed

lemma set_merge_semantic: "set (fst (merge_semantic cfg lexical semantic)) \<subseteq> set lexical \<union> set semantic"
proof -
  have new: "x \<in> set rs" if "x \<in> set (merge_new seen rs)" for x seen rs
    using that set_merge_new by auto
  show ?thesis
    using set_fuseRanked by (auto simp: merge_semantic_def dest!: new dest: in_set_takeD split: if_splits)
qed

lemma set_cap_hits: "set (cap_hits limit i j hs) \<subseteq> set hs"
  by (induction hs arbitrary: i j) auto

lemma length_cap_hits: "i \<le> IdentityHitsMax \<Longrightarrow> j \<le> limit \<Longrightarrow> i + j + length (cap_hits limit i j hs) \<le> limit + IdentityHitsMax"
proof (induction hs arbitrary: i j)
  case (Cons h hs)
  consider "identity_hit h" "i < IdentityHitsMax" | "identity_hit h" "\<not> i < IdentityHitsMax"
    | "\<not> identity_hit h" "j < limit" | "\<not> identity_hit h" "\<not> j < limit" by blast
  then show ?case
    by cases (use Cons.prems Cons.IH [of i j] Cons.IH [of "Suc i" j] Cons.IH [of i "Suc j"] in simp_all)
qed simp


text \<open>The vector candidates are not filtered by kind: a semantic search may return kinds that were not asked for.\<close>

lemma vectorHits_ignore_kinds:
  "snd (vectorHits cfg sv scope (rq\<lparr>sq_Kinds := kinds\<rparr>) ctx) = snd (vectorHits cfg sv scope rq ctx)"
proof -
  have same: "sq_Query (rq\<lparr>sq_Kinds := kinds\<rparr>) = sq_Query rq"
    "SearchRequest_EffectiveLimit (rq\<lparr>sq_Kinds := kinds\<rparr>) = SearchRequest_EffectiveLimit rq"
    by (simp_all add: SearchRequest_EffectiveLimit_def)
  show ?thesis unfolding vectorHits_def same by (rule refl)
qed

end
