(* ===== verification/Vector_Example.thy ===== *)
theory Vector_Example
  imports Vector_Search
begin

text \<open>A generation of one-dimensional vectors on which the properties of the vector store are applied.\<close>

definition demo_spec :: generation_spec where
  "demo_spec = \<lparr>gs_Name = ''g'', gs_ModelName = ''m'', gs_ModelDigest = ''d'', gs_Dimensions = 1, gs_DType = 0,
     gs_NormalizationVersion = 0, gs_InputVersion = 0, gs_FormatVersion = 0\<rparr>"

definition demo_ref :: "go_string \<Rightarrow> vector_ref" where
  "demo_ref sid = \<lparr>vr_Generation = ''g'', vr_Ordinal = 0, vr_SourceType = ''MEMORY'', vr_SourceID = sid,
     vr_EmbeddingInputHash = ''h'', vr_VectorChecksum = sha_name (\<lambda>_. ''ab'') [], vr_CreatedAt = ''now''\<rparr>"

definition demo_vectors :: vector_env where
  "demo_vectors = \<lparr>ve_sha = (\<lambda>_. ''ab''), ve_bits = (\<lambda>x. if x = 1 then 0x3f800000 else 0xbf800000), ve_json = vr_SourceID,
     ve_unjson = (\<lambda>l. Some (demo_ref l))\<rparr>"

definition demo_store :: vector_store where
  "demo_store = (case create_fresh (prepareSpec (\<lambda>_. ''ab'') demo_spec) True ''now'' of Inr s \<Rightarrow> s)"

lemmas demo_store_simps = demo_store_def demo_spec_def prepareSpec_def create_fresh_def NewHeader_def fresh_manifest_def

lemma demo_created: "create_fresh (prepareSpec (\<lambda>_. ''ab'') demo_spec) True ''now'' = Inr demo_store"
  by (simp add: demo_store_simps)

lemma demo_inv: "vstore_inv demo_vectors demo_store []"
  by (rule create_inv [OF demo_created])

lemma demo_new_ref: "new_ref demo_vectors demo_store ''MEMORY'' sid ''h'' b ''now'' = demo_ref sid"
  by (simp add: new_ref_def demo_store_simps demo_vectors_def demo_ref_def sha_name_def)

lemma demo_vector_lines: "line_ok demo_vectors (demo_ref ''one'')" "line_ok demo_vectors (demo_ref ''two'')"
  by (simp_all add: line_ok_def demo_vectors_def demo_ref_def drop_cr_def)

lemma demo_encode:
  "normalizeEncode (ve_bits demo_vectors) [Number 1] (uint (hd_Dimensions (vs_header demo_store))) = Inr (le_bytes 4 0x3f800000)"
  "normalizeEncode (ve_bits demo_vectors) [Number (-2)] (uint (hd_Dimensions (vs_header demo_store))) = Inr (le_bytes 4 0xbf800000)"
  by (simp_all add: normalizeEncode_def demo_vectors_def demo_store_simps real_sqrt_mult_self)

lemma demo_offset:
  "VectorOffset (vs_header demo_store) (hd_CommittedCount (vs_header demo_store)) = Inr 64"
proof -
  have "Header_Validate (vs_header demo_store) = Inr ()"
    using demo_inv by (simp add: vstore_inv_def vstore_shape_def files_hold_def)
  then show ?thesis by (simp add: VectorOffset_eq) (simp add: demo_store_simps)
qed

abbreviation demo_append :: "append_stop \<Rightarrow> vector_store \<times> vector_ref res" where
  "demo_append \<equiv> vector_Append demo_vectors demo_store ''MEMORY'' ''one'' ''h'' [Number 1] ''now''"

lemma demo_fresh: "vs_bySource demo_store k = None" "\<not> vs_closed demo_store" "vs_refs demo_store = []"
  by (simp_all add: demo_store_simps)

lemma demo_append_writes:
  "demo_append stop = append_writes demo_vectors demo_store (demo_ref ''one'') (le_bytes 4 0x3f800000) 64 ''now'' stop"
  unfolding vector_Append_def by (simp add: demo_fresh demo_encode demo_offset demo_new_ref del: le_bytes.simps)

lemma demo_ok: "line_ok demo_vectors (new_ref demo_vectors demo_store ''MEMORY'' ''one'' ''h'' b ''now'')"
  by (simp add: demo_new_ref demo_vector_lines)

theorem append_crash_safe_witness:
  "\<exists>s recs. recoverLocked demo_vectors (vs_disk (fst (demo_append (Map_Failed 2)))) ''later'' = Inr s \<and> vstore_inv demo_vectors s recs"
proof -
  have p: "demo_append (Map_Failed 2) = (fst (demo_append (Map_Failed 2)), snd (demo_append (Map_Failed 2)))" by simp
  show ?thesis using append_crash_safe [OF demo_inv p _ demo_ok] by blast
qed

theorem generation_durable_witness:
  "\<exists>s. demo_ref ''one'' \<in> set (vs_refs s) \<and> Verify demo_vectors s True = Inr ()"
proof -
  define s where "s = fst (demo_append Completed)"
  have a: "demo_append Completed = (s, Inr (demo_ref ''one''))"
    unfolding s_def demo_append_writes by (simp add: append_writes_def Let_def)
  have "vector_run demo_vectors s (acknowledge [] (Inr (demo_ref ''one'')))"
    by (rule vector_run.appended [OF vector_run.created [OF demo_created] a _ demo_ok]) simp
  from generation_durable [OF this, of True] show ?thesis by (auto simp: acknowledge_def)
qed

theorem failed_append_misassigns_witness:
  "\<exists>s. vs_refs s = [demo_ref ''one''] \<and> readRecordLocked s 0 = Inr (le_bytes 4 0xbf800000)"
proof -
  let ?stop = "Map_Failed (Suc (length (ve_json demo_vectors (new_ref demo_vectors demo_store ''MEMORY'' ''one'' ''h'' (le_bytes 4 0x3f800000) ''now''))))"
  obtain s1 r1 where a: "demo_append ?stop = (s1, r1)" by (cases "demo_append ?stop")
  have s1: "vs_header s1 = vs_header demo_store" "vs_manifest s1 = vs_manifest demo_store"
      "vs_refs s1 = []" "vs_bySource s1 k = None" "\<not> vs_closed s1" for k
    using a unfolding demo_append_writes by (auto simp: append_writes_def Let_def demo_fresh)
  obtain s2 ref' where b: "vector_Append demo_vectors s1 ''MEMORY'' ''two'' ''h'' [Number (-2)] ''now'' Completed = (s2, Inr ref')"
    by (simp add: vector_Append_def s1 demo_encode demo_offset append_writes_def Let_def del: le_bytes.simps)
  have ok: "line_ok demo_vectors (new_ref demo_vectors demo_store ''MEMORY'' ''two'' ''h'' b ''now'')" for b
    by (simp add: demo_new_ref demo_vector_lines)
  have "\<not> Has demo_store ''one'' ''h''" "\<not> Has demo_store ''two'' ''h''"
    "source_key ''two'' ''h'' \<noteq> source_key ''one'' ''h''" "''one'' \<noteq> []"
    by (simp_all add: Has_def demo_fresh source_key_def)
  from failed_append_misassigns [OF demo_inv a demo_encode(1) b this demo_ok ok]
  show ?thesis unfolding demo_new_ref demo_encode demo_fresh by auto
qed

theorem search_top_k_witness:
  "\<exists>out. vector_Search demo_vectors (\<lambda>w. if w = 0x3f800000 then 1 else - 1) (fst (demo_append Completed)) [Number (- 2)]
     \<lparr>so_Limit = 3, so_MinimumScore = - 2, so_AllowedOrdinal = None\<rparr> (\<lambda>_. None) = Inr out \<and> length out = 1"
proof -
  let ?s = "fst (demo_append Completed)" and ?o = "\<lparr>so_Limit = 3, so_MinimumScore = - 2, so_AllowedOrdinal = None\<rparr>"
  have s: "vs_header ?s = (vs_header demo_store)\<lparr>hd_CommittedCount := 1\<rparr>" "\<not> vs_closed ?s" "vs_refs ?s = [demo_ref ''one'']"
    unfolding demo_append_writes by (simp_all add: append_writes_def Let_def demo_fresh) (simp add: demo_store_simps)
  have "demo_append Completed = (?s, snd (demo_append Completed))" by simp
  from append_keeps(1) [OF demo_inv this _ demo_ok refl] obtain recs where inv: "vstore_inv demo_vectors ?s recs" by auto
  have enc: "normalizeEncode (ve_bits demo_vectors) [Number (- 2)] (uint (hd_Dimensions (vs_header ?s))) = Inr (le_bytes 4 0xbf800000)"
    using demo_encode(2) by (simp add: s del: le_bytes.simps)
  have score: "- 2 \<le> score_of (\<lambda>w. if w = 0x3f800000 then 1 else - 1) q (Suc 0) r" for q r
    by (simp add: score_of_def float_at_def)
  have "\<forall>i. (\<lambda>_. None) i = None" "0 < so_Limit ?o" by simp_all
  from search_top_k [OF inv s(2) this enc, of "\<lambda>w. if w = 0x3f800000 then 1 else - 1"]
  show ?thesis using score by (simp add: s(3) matching_def candidate_at_def del: le_bytes.simps) (force simp: not_less)
qed
end
