(* ===== verification/Packets.thy ===== *)
theory Packets
  imports Search Http_Api "HOL-Library.Sublist"
begin

text \<open>
  The packets of context the server hands out: \<open>explicitPacket\<close> and \<open>reflexPacket\<close> of
  \<open>lite/server.go\<close>, the relevance packet of \<open>lite/relevance.go\<close>, and the table of memories already
  surfaced in a session.  The five loops that fill a packet up to a budget share one contract, stated
  as a locale and interpreted on each of them.  JSON and RFC 3339 are parameters.
\<close>

section \<open>State\<close>

record project_context =
  pj_Revision :: int
  pj_Objective :: go_string
  pj_CurrentState :: go_string
  pj_Decisions :: go_string
  pj_OpenQuestions :: go_string
  pj_NextActions :: go_string

record context_packet =
  cx_Session :: session_scope
  cx_ContinuityCursor :: go_string
  cx_ProjectContext :: "project_context option"
  cx_Memories :: "memory_hit list"
  cx_Core :: "memory_hit list"
  cx_Important :: "memory_hit list"
  cx_OpenLoops :: "go_string list"
  cx_Delta :: "continuity_change list"
  cx_Truncated :: bool
  cx_ReturnedChars :: int

record packet_env =
  pe_search :: search_config
  pe_cursor :: cursor_env
  pe_key :: go_string
  pe_json :: "project_context \<Rightarrow> go_string"
  pe_strings :: "go_string \<Rightarrow> go_string list"
  pe_rfc3339 :: "time \<Rightarrow> go_string"

text \<open>The server with the ephemeral table \<open>surfaced\<close> of the store.\<close>

record packet_server =
  pk_search :: search_server
  pk_surfaced :: "go_string \<Rightarrow> (go_string \<rightharpoonup> time)"

definition MarkSurfaced :: "packet_server \<Rightarrow> go_string \<Rightarrow> go_string list \<Rightarrow> time \<Rightarrow> packet_server" where
  "MarkSurfaced sv sessionID memoryIDs now =
     sv\<lparr>pk_surfaced := (pk_surfaced sv)(sessionID :=
       (\<lambda>i. if i \<in> set memoryIDs \<and> i \<noteq> '''' then Some now else pk_surfaced sv sessionID i))\<rparr>"

definition Surfaced :: "packet_server \<Rightarrow> go_string \<Rightarrow> (go_string \<rightharpoonup> time)" where
  "Surfaced sv sessionID = pk_surfaced sv sessionID"

definition sessionScope :: "store \<Rightarrow> go_string \<Rightarrow> go_string \<Rightarrow> go_error + session_scope" where
  "sessionScope s principalKey sessionID =
     (case ResolveSession s principalKey sessionID of
        Inl _ \<Rightarrow> Inl (app ContextSessionNotFound)
      | Inr row \<Rightarrow> Inr \<lparr>ss_SessionID = sr_SessionID row, ss_ClientKey = sr_ClientKey row, ss_ProjectKey = sr_ProjectKey row\<rparr>)"

definition projectContext :: "store \<Rightarrow> go_string \<Rightarrow> project_context option" where
  "projectContext s projectKey =
     (if projectKey = '''' then None
      else map_option (\<lambda>row. \<lparr>pj_Revision = pc_Revision row, pj_Objective = pc_Objective row,
        pj_CurrentState = pc_CurrentState row, pj_Decisions = pc_Decisions row,
        pj_OpenQuestions = pc_OpenQuestions row, pj_NextActions = pc_NextActions row\<rparr>) (st_projectCtx s projectKey))"

section \<open>Recent memories\<close>

text \<open>The hits that were used most recently come first.\<close>

definition recent_before :: "memory_hit \<Rightarrow> memory_hit \<Rightarrow> bool" where
  "recent_before a b =
     (if mh_EffectiveHeat a \<noteq> mh_EffectiveHeat b then mh_EffectiveHeat a > mh_EffectiveHeat b
      else if mh_UpdatedAt a \<noteq> mh_UpdatedAt b then mh_UpdatedAt a > mh_UpdatedAt b
      else bytes_less (mh_MemoryID a) (mh_MemoryID b))"

definition recent_hit :: "store \<Rightarrow> session_scope \<Rightarrow> memory_row \<Rightarrow> memory_hit" where
  "recent_hit s scope row =
     (let since = sessionsSince s (ss_SessionID scope) row;
          eff = ActivationFor (mm_Kind row) (mm_Activation row) since (mm_Importance row) in
      toHit row since (round6 eff) \<lparr>mt_Class = MatchNone, mt_Strength = 0\<rparr>)"

definition recentMemories ::
    "search_config \<Rightarrow> store \<Rightarrow> memory_row list \<Rightarrow> session_scope \<Rightarrow> go_string \<Rightarrow> nat \<Rightarrow> memory_hit list res" where
  "recentMemories cfg s ranging scope scopeType limit =
     bindE (EligibleMemories cfg ranging scope [] 0)
       (\<lambda>rows. Inr (take limit (sort_by recent_before
          (map (recent_hit s scope) (filter (\<lambda>row. mm_ScopeType row = scopeType) rows)))))"

section \<open>The explicit packet\<close>

text \<open>At most eight hits of the project, then at most four global ones.\<close>

fun split_scopes :: "nat \<Rightarrow> nat \<Rightarrow> memory_hit list \<Rightarrow> memory_hit list \<times> memory_hit list" where
  "split_scopes p g [] = ([], [])"
| "split_scopes p g (h # hs) =
     (if mh_Scope h = ''PROJECT'' \<and> p < 8 then map_prod (Cons h) id (split_scopes (p + 1) g hs)
      else if mh_Scope h = ''GLOBAL'' \<and> g < 4 then map_prod id (Cons h) (split_scopes p (g + 1) hs)
      else split_scopes p g hs)"

definition hit_chars :: "memory_hit \<Rightarrow> nat" where
  "hit_chars h = length (mh_Subject h) + length (mh_Content h)"

text \<open>The hits that fit, whether one did not, and how many bytes they take.\<close>

fun fit_chars :: "int \<Rightarrow> memory_hit list \<Rightarrow> memory_hit list \<times> bool \<times> int" where
  "fit_chars budget [] = ([], False, 0)"
| "fit_chars budget (h # hs) =
     (let n = int (hit_chars h) in
      if n > budget then (let (kept, _, used) = fit_chars budget hs in (kept, True, used))
      else (let (kept, truncated, used) = fit_chars (budget - n) hs in (h # kept, truncated, used + n)))"

definition hitsSurfaced :: "memory_hit list \<Rightarrow> go_string list" where
  "hitsSurfaced hits = filter (\<lambda>i. i \<noteq> '''') (map mh_MemoryID hits)"

definition packet_hits ::
    "packet_env \<Rightarrow> packet_server \<Rightarrow> memory_row list \<Rightarrow> session_scope \<Rightarrow> context_request \<Rightarrow> (nat \<Rightarrow> nat \<Rightarrow> go_string option) \<Rightarrow>
     time \<Rightarrow> packet_server \<times> memory_hit list res" where
  "packet_hits env sv ranging scope rq ctx now =
     (if cq_Query rq \<noteq> ''''
      then
        (let (s, r) = searchMemories (pe_search env) (pk_search sv) ranging scope
               \<lparr>sq_SessionID = cq_SessionID rq, sq_Query = cq_Query rq, sq_Limit = 12, sq_Kinds = [], sq_Mode = ''LEXICAL''\<rparr>
               True (ctx 0) (ctx 1) (ctx 2) now in
         (sv\<lparr>pk_search := s\<rparr>, bindE r (\<lambda>hits. let (project, glob) = split_scopes 0 0 hits in Inr (project @ glob))))
      else
        (let s = se_Store (pk_search sv) in
         (sv, case (recentMemories (pe_search env) s ranging scope ''PROJECT'' 8, recentMemories (pe_search env) s ranging scope ''GLOBAL'' 4) of
            (Inr project, Inr glob) \<Rightarrow> Inr (project @ glob)
          | _ \<Rightarrow> Inr [])))"

definition explicitPacket ::
    "packet_env \<Rightarrow> packet_server \<Rightarrow> memory_row list \<Rightarrow> session_scope \<Rightarrow> context_request \<Rightarrow> (nat \<Rightarrow> nat \<Rightarrow> go_string option) \<Rightarrow>
     time \<Rightarrow> packet_server \<times> context_packet res" where
  "explicitPacket env sv ranging scope rq ctx now =
     (let s = se_Store (pk_search sv); pc = projectContext s (ss_ProjectKey scope) in
      case SignCursor (pe_cursor env) (pe_key env)
             \<lparr>cp_Version = 1, cp_SessionID = ss_SessionID scope,
              cp_ProjectKeyHash = ProjectHash (pe_cursor env) (ss_ProjectKey scope), cp_Revision = ContinuityHead s\<rparr> of
        Inl err \<Rightarrow> (sv, Inl err)
      | Inr cursor \<Rightarrow>
          (case packet_hits env sv ranging scope rq ctx now of
             (sv, Inl err) \<Rightarrow> (sv, Inl err)
           | (sv, Inr hits) \<Rightarrow>
               (let budget = ContextRequest_EffectiveMaxChars rq;
                    size = (case pc of None \<Rightarrow> 0 | Some c \<Rightarrow> int (length (pe_json env c)));
                    (shown, dropped, used) = (if size > budget then (None, True, 0) else (pc, False, size));
                    (kept, truncated, chars) = fit_chars (budget - used) hits in
                (MarkSurfaced sv (ss_SessionID scope) (hitsSurfaced kept) now,
                 Inr \<lparr>cx_Session = scope, cx_ContinuityCursor = cursor, cx_ProjectContext = shown, cx_Memories = kept,
                   cx_Core = [], cx_Important = [], cx_OpenLoops = [], cx_Delta = [],
                   cx_Truncated = (dropped \<or> truncated), cx_ReturnedChars = used + chars\<rparr>))))"

section \<open>The reflex packet\<close>

definition reflexIdentityKind :: "go_string \<Rightarrow> bool" where
  "reflexIdentityKind kind \<longleftrightarrow> kind \<in> {KindUserPreference, KindPersonalGoal, KindPersonalConstraint}"

definition reflexImportantKind :: "go_string \<Rightarrow> bool" where
  "reflexImportantKind kind \<longleftrightarrow> kind \<in> {KindProjectDecision, KindPersonalGoal, KindLesson}"

definition hit_tokens :: "memory_hit \<Rightarrow> nat" where
  "hit_tokens h = EstimatedTokens (mh_Subject h @ '' '' @ mh_Content h)"

text \<open>One section: the hits of the wanted kinds, at most \<open>max\<close> of them, within a budget of tokens.\<close>

fun fill_section :: "(go_string \<Rightarrow> bool) \<Rightarrow> nat \<Rightarrow> nat \<Rightarrow> int \<Rightarrow> memory_hit list \<Rightarrow> memory_hit list \<times> bool" where
  "fill_section wanted limit n budget [] = ([], False)"
| "fill_section wanted limit n budget (h # hs) =
     (if \<not> wanted (mh_Kind h) then fill_section wanted limit n budget hs
      else if n \<ge> limit then ([], True)
      else if int (hit_tokens h) > budget then (fst (fill_section wanted limit n budget hs), True)
      else map_prod (Cons h) id (fill_section wanted limit (n + 1) (budget - int (hit_tokens h)) hs))"

fun reflexLoops :: "int \<Rightarrow> go_string list \<Rightarrow> go_string list \<times> bool" where
  "reflexLoops budget [] = ([], False)"
| "reflexLoops budget (v # vs) =
     (if trim_space v = '''' then reflexLoops budget vs
      else if int (EstimatedTokens v) > budget then (fst (reflexLoops budget vs), True)
      else map_prod (Cons v) id (reflexLoops (budget - int (EstimatedTokens v)) vs))"

definition reflexChangeTokens :: "(time \<Rightarrow> go_string) \<Rightarrow> continuity_change \<Rightarrow> nat" where
  "reflexChangeTokens rfc3339 c =
     EstimatedTokens (cc_ChangeKind c @ '' '' @ cc_TargetKind c @ '' '' @ cc_ProjectKey c @ '' '' @ rfc3339 (cc_CreatedAt c)) + 14"

definition anonymous :: "continuity_change \<Rightarrow> continuity_change" where
  "anonymous c = c\<lparr>cc_TargetID := '''', cc_RelatedTargetID := ''''\<rparr>"

fun reflex_delta :: "(time \<Rightarrow> go_string) \<Rightarrow> go_string set \<Rightarrow> int \<Rightarrow> continuity_change list \<Rightarrow> continuity_change list \<times> bool" where
  "reflex_delta rfc3339 surfaced budget [] = ([], False)"
| "reflex_delta rfc3339 surfaced budget (c # cs) =
     (if cc_TargetKind c = ''COGNITIVE_MEMORY'' \<and> cc_TargetID c \<in> surfaced then reflex_delta rfc3339 surfaced budget cs
      else (let used = int (reflexChangeTokens rfc3339 (anonymous c)) in
        if used > budget then (fst (reflex_delta rfc3339 surfaced budget cs), True)
        else map_prod (Cons (anonymous c)) id (reflex_delta rfc3339 surfaced (budget - used) cs)))"

definition project_tokens :: "project_context \<Rightarrow> nat" where
  "project_tokens pc =
     EstimatedTokens (pj_Objective pc @ '' '' @ pj_CurrentState pc @ pj_Decisions pc @ pj_OpenQuestions pc @ pj_NextActions pc)"

definition reflex_loops :: "packet_env \<Rightarrow> project_context option \<Rightarrow> go_string list \<times> bool" where
  "reflex_loops env pc =
     (case pc of
        None \<Rightarrow> ([], False)
      | Some c \<Rightarrow> reflexLoops (int ReflexLoopsBudget) (pe_strings env (pj_OpenQuestions c) @ pe_strings env (pj_NextActions c)))"

definition reflex_project :: "project_context option \<Rightarrow> project_context option" where
  "reflex_project pc = (case pc of None \<Rightarrow> None | Some c \<Rightarrow> if project_tokens c \<le> ReflexProjectBudget then Some c else None)"

text \<open>The packet compiled from what the store answered.\<close>

definition reflex_compile ::
    "packet_env \<Rightarrow> session_scope \<Rightarrow> go_string \<Rightarrow> project_context option \<Rightarrow> memory_hit list \<Rightarrow> memory_hit list \<Rightarrow>
     continuity_change list \<Rightarrow> context_packet" where
  "reflex_compile env scope cursor pc glob project changes =
     (let (core, t1) = fill_section reflexIdentityKind ReflexCoreMaxItems 0 (int ReflexCoreBudget) glob;
          (important, t2) = fill_section reflexImportantKind ReflexImportantMaxItems 0 (int ReflexImportantBudget) project;
          (loops, t3) = reflex_loops env pc;
          (delta, t4) = reflex_delta (pe_rfc3339 env) (mh_MemoryID ` set (core @ important)) (int ReflexDeltaBudget) (rev changes) in
      \<lparr>cx_Session = scope, cx_ContinuityCursor = cursor, cx_ProjectContext = reflex_project pc, cx_Memories = [],
       cx_Core = core, cx_Important = important, cx_OpenLoops = loops, cx_Delta = delta,
       cx_Truncated = (reflex_project pc \<noteq> pc \<or> t1 \<or> t2 \<or> t3 \<or> t4), cx_ReturnedChars = 0\<rparr>)"

definition reflexPacket ::
    "packet_env \<Rightarrow> packet_server \<Rightarrow> memory_row list \<Rightarrow> session_scope \<Rightarrow> time \<Rightarrow> packet_server \<times> context_packet res" where
  "reflexPacket env sv ranging scope now =
     (let s = se_Store (pk_search sv);
          packet =
            bindE (SignProjectCursor (pe_cursor env) (pe_key env) (ss_ProjectKey scope) (ContinuityHead s)) (\<lambda>cursor.
            bindE (recentMemories (pe_search env) s ranging scope ''GLOBAL'' 50) (\<lambda>glob.
            bindE (recentMemories (pe_search env) s ranging scope ''PROJECT'' 50) (\<lambda>project.
              Inr (reflex_compile env scope cursor (projectContext s (ss_ProjectKey scope)) glob project
                (fst (ContinuityChanges s 0 (ss_ProjectKey scope) 25 True)))))) in
      (case packet of
         Inl err \<Rightarrow> (sv, Inl err)
       | Inr out \<Rightarrow> (MarkSurfaced sv (ss_SessionID scope) (map mh_MemoryID (cx_Core out @ cx_Important out)) now, Inr out)))"
section \<open>The contract of the packing loops\<close>

text \<open>A loop that keeps items up to a budget: it passes over the items that are not wanted, stops with the
  flag set when it is full, passes over the items that are not fresh, drops with the flag set what
  does not fit, and keeps the rest.\<close>

locale packing =
  fixes run :: "nat \<Rightarrow> int \<Rightarrow> 'a list \<Rightarrow> 'b list \<times> bool"
    and wanted :: "'a \<Rightarrow> bool"
    and full :: "nat \<Rightarrow> bool"
    and fresh :: "'a \<Rightarrow> bool"
    and cost :: "'b \<Rightarrow> nat"
    and img :: "'a \<Rightarrow> 'b"
  assumes run_void: "run n b [] = ([], False)"
    and run_pass: "\<not> wanted x \<Longrightarrow> run n b (x # xs) = run n b xs"
    and run_full: "\<lbrakk>wanted x; full n\<rbrakk> \<Longrightarrow> run n b (x # xs) = ([], True)"
    and run_stale: "\<lbrakk>wanted x; \<not> full n; \<not> fresh x\<rbrakk> \<Longrightarrow> run n b (x # xs) = run n b xs"
    and run_drop: "\<lbrakk>wanted x; \<not> full n; fresh x; b < int (cost (img x))\<rbrakk> \<Longrightarrow> run n b (x # xs) = (fst (run n b xs), True)"
    and run_keep: "\<lbrakk>wanted x; \<not> full n; fresh x; int (cost (img x)) \<le> b\<rbrakk>
      \<Longrightarrow> run n b (x # xs) = map_prod (Cons (img x)) id (run (n + 1) (b - int (cost (img x))) xs)"
begin

text \<open>Case analysis on the first item.\<close>

lemma run_cases:
  obtains (pass) "\<not> wanted x \<or> \<not> fresh x" "run n b (x # xs) = run n b xs"
  | (full) "wanted x" "full n" "run n b (x # xs) = ([], True)"
  | (drop) "run n b (x # xs) = (fst (run n b xs), True)"
  | (keep) "wanted x" "fresh x" "\<not> full n" "int (cost (img x)) \<le> b"
      "run n b (x # xs) = (img x # fst (run (n + 1) (b - int (cost (img x))) xs), snd (run (n + 1) (b - int (cost (img x))) xs))"
proof -
  consider "\<not> wanted x" | "wanted x" "full n" | "wanted x" "\<not> full n" "\<not> fresh x"
    | "wanted x" "\<not> full n" "fresh x" "b < int (cost (img x))"
    | "wanted x" "\<not> full n" "fresh x" "int (cost (img x)) \<le> b" by linarith
  then show thesis
  proof cases
    case 5
    then show thesis using run_keep [OF 5] by (intro keep) (auto simp: map_prod_def split: prod.split)
  qed (use pass full drop in \<open>auto simp: run_pass run_full run_stale run_drop\<close>)
qed

lemma run_fits: "0 \<le> b \<Longrightarrow> int (sum_list (map cost (fst (run n b xs)))) \<le> b"
proof (induction xs arbitrary: n b)
  case (Cons x xs)
  show ?case
  proof (cases rule: run_cases [of x n b xs])
    case keep
    then show ?thesis using Cons.IH [of "b - int (cost (img x))" "n + 1"] by simp
  qed (use Cons in simp_all)
qed (simp add: run_void)

lemma run_selects: "subseq (fst (run n b xs)) (map img (filter (\<lambda>x. wanted x \<and> fresh x) xs))"
proof (induction xs arbitrary: n b)
  case (Cons x xs)
  show ?case by (cases rule: run_cases [of x n b xs]) (use Cons in auto)
qed (simp add: run_void)

lemma run_complete: "\<not> snd (run n b xs) \<Longrightarrow> fst (run n b xs) = map img (filter (\<lambda>x. wanted x \<and> fresh x) xs)"
proof (induction xs arbitrary: n b)
  case (Cons x xs)
  show ?case by (cases rule: run_cases [of x n b xs]) (use Cons in auto)
qed (simp add: run_void)

end

locale capped_packing = packing run wanted "\<lambda>n. limit \<le> n" fresh cost img
  for run :: "nat \<Rightarrow> int \<Rightarrow> 'a list \<Rightarrow> 'b list \<times> bool" and wanted limit fresh cost and img :: "'a \<Rightarrow> 'b"
begin

lemma run_capped: "n \<le> limit \<Longrightarrow> n + length (fst (run n b xs)) \<le> limit"
proof (induction xs arbitrary: n b)
  case (Cons x xs)
  show ?case
  proof (cases rule: run_cases [of x n b xs])
    case keep
    then show ?thesis using Cons.IH [of "n + 1" "b - int (cost (img x))"] by simp
  qed (use Cons in simp_all)
qed (simp add: run_void)

end

text \<open>The loops of the packets are packings.\<close>

interpretation chars: packing "\<lambda>_ b hs. (fst (fit_chars b hs), fst (snd (fit_chars b hs)))" "\<lambda>_. True" "\<lambda>_. False" "\<lambda>_. True" hit_chars "\<lambda>h. h"
  by unfold_locales (auto simp: Let_def split: prod.split)

interpretation sect: capped_packing "fill_section wanted limit" "\<lambda>h. wanted (mh_Kind h)" limit "\<lambda>_. True" hit_tokens "\<lambda>h. h"
  for wanted limit
  by unfold_locales auto

interpretation loops: packing "\<lambda>_. reflexLoops" "\<lambda>v. trim_space v \<noteq> ''''" "\<lambda>_. False" "\<lambda>_. True" EstimatedTokens "\<lambda>v. v"
  by unfold_locales auto

interpretation delta: packing "\<lambda>_. reflex_delta rfc3339 surfaced" "\<lambda>c. \<not> (cc_TargetKind c = ''COGNITIVE_MEMORY'' \<and> cc_TargetID c \<in> surfaced)"
  "\<lambda>_. False" "\<lambda>_. True" "reflexChangeTokens rfc3339" anonymous
  for rfc3339 surfaced
  by unfold_locales (auto simp: Let_def)

section \<open>Bounds\<close>

lemma recentMemories_eligible:
  assumes "recentMemories cfg s ranging scope scopeType limit = Inr hits"
  shows "hit_shows ` set hits \<subseteq> shown ` {row. eligible_row cfg scope [] row}"
proof -
  obtain rows where rows: "EligibleMemories cfg ranging scope [] 0 = Inr rows"
    and hits: "hits = take limit (sort_by recent_before (map (recent_hit s scope) (filter (\<lambda>row. mm_ScopeType row = scopeType) rows)))"
    using assms by (auto simp: recentMemories_def)
  have hits: "set hits \<subseteq> recent_hit s scope ` set rows" unfolding hits by (auto dest!: in_set_takeD)
  have "hit_shows (recent_hit s scope row) = shown row" for row
    by (simp add: recent_hit_def toHit_def hit_shows_def shown_def Let_def)
  then show ?thesis using hits EligibleMemories_eligible [OF rows] by (auto simp: image_iff subset_iff) (metis image_eqI)
qed

definition section_tokens :: "memory_hit list \<Rightarrow> nat" where
  "section_tokens hs = sum_list (map hit_tokens hs)"

definition packet_tokens :: "packet_env \<Rightarrow> context_packet \<Rightarrow> nat" where
  "packet_tokens env out =
     section_tokens (cx_Core out) + section_tokens (cx_Important out) + sum_list (map EstimatedTokens (cx_OpenLoops out)) +
     sum_list (map (reflexChangeTokens (pe_rfc3339 env)) (cx_Delta out)) +
     (case cx_ProjectContext out of None \<Rightarrow> 0 | Some c \<Rightarrow> project_tokens c)"

lemma section_bound: "section_tokens (fst (fill_section wanted limit 0 (int b) hs)) \<le> b"
  using sect.run_fits [of "int b" wanted limit 0 hs] by (simp add: section_tokens_def)

lemma section_size: "length (fst (fill_section wanted limit 0 b hs)) \<le> limit"
  using sect.run_capped [of 0 limit wanted b hs] by simp

lemma section_within: "set (fst (fill_section wanted limit 0 b hs)) \<subseteq> set hs"
proof
  fix h
  assume "h \<in> set (fst (fill_section wanted limit 0 b hs))"
  from list_emb_set [OF sect.run_selects this] show "h \<in> set hs" by (auto simp: map_idI)
qed

lemma loops_bound: "sum_list (map EstimatedTokens (fst (reflex_loops env pc))) \<le> 300"
proof (cases pc)
  case (Some c)
  then show ?thesis
    using loops.run_fits [of 300 "pe_strings env (pj_OpenQuestions c) @ pe_strings env (pj_NextActions c)"]
    by (simp add: reflex_loops_def)
qed (simp add: reflex_loops_def)

lemma delta_bound: "sum_list (map (reflexChangeTokens f) (fst (reflex_delta f ids 500 cs))) \<le> 500"
  using delta.run_fits [of 500 f ids cs] by simp

lemma reflex_compile_bounds:
  assumes out_def: "out = reflex_compile env scope cursor pc glob project changes"
  shows "section_tokens (cx_Core out) \<le> 400" "section_tokens (cx_Important out) \<le> 400"
    and "length (cx_Core out) \<le> 8" "length (cx_Important out) \<le> 8"
    and "set (cx_Core out) \<subseteq> set glob" "set (cx_Important out) \<subseteq> set project"
    and "packet_tokens env out \<le> 2200"
proof -
  have sections: "cx_Core out = fst (fill_section reflexIdentityKind 8 0 400 glob)"
    "cx_Important out = fst (fill_section reflexImportantKind 8 0 400 project)"
    "cx_OpenLoops out = fst (reflex_loops env pc)"
    "cx_Delta out = fst (reflex_delta (pe_rfc3339 env) (mh_MemoryID ` set (cx_Core out @ cx_Important out)) 500 (rev changes))"
    "cx_ProjectContext out = reflex_project pc"
    by (simp_all add: out_def reflex_compile_def Let_def split_beta)
  show core: "section_tokens (cx_Core out) \<le> 400" and important: "section_tokens (cx_Important out) \<le> 400"
    using section_bound [of _ _ 400] by (simp_all add: sections)
  show "length (cx_Core out) \<le> 8" "length (cx_Important out) \<le> 8" by (simp_all add: sections section_size)
  show "set (cx_Core out) \<subseteq> set glob" "set (cx_Important out) \<subseteq> set project" by (simp_all add: sections section_within)
  have "sum_list (map EstimatedTokens (cx_OpenLoops out)) \<le> 300"
    "sum_list (map (reflexChangeTokens (pe_rfc3339 env)) (cx_Delta out)) \<le> 500"
    using loops_bound delta_bound by (simp_all only: sections)
  moreover have "(case cx_ProjectContext out of None \<Rightarrow> 0 | Some c \<Rightarrow> project_tokens c) \<le> 600"
    by (auto simp: sections reflex_project_def split: option.split)
  ultimately show "packet_tokens env out \<le> 2200" using core important by (simp add: packet_tokens_def)
qed

lemma fit_chars_used: "snd (snd (fit_chars b hs)) = int (sum_list (map hit_chars (fst (fit_chars b hs))))"
  by (induction hs arbitrary: b) (simp_all add: Let_def split_beta)

lemma fit_chars_negative: "b < 0 \<Longrightarrow> fst (fit_chars b hs) = []"
  by (induction hs) (simp_all add: Let_def split_beta)

lemma fit_chars_bound: "snd (snd (fit_chars b hs)) \<le> max 0 b"
  using chars.run_fits [of b hs] fit_chars_negative [of b hs] by (cases "0 \<le> b") (simp_all add: fit_chars_used)

lemma explicit_chars:
  assumes "snd (explicitPacket env sv ranging scope rq ctx now) = Inr out"
  shows "cx_ReturnedChars out \<le> max 0 (ContextRequest_EffectiveMaxChars rq)"
proof -
  define budget where "budget = ContextRequest_EffectiveMaxChars rq"
  have "used + snd (snd (fit_chars (budget - used) hits)) \<le> max 0 budget" if "0 \<le> used" "used = 0 \<or> used \<le> budget" for used hits
    using that fit_chars_bound [of "budget - used" hits] by auto
  then have bound: "(if budget < n then 0 else n) + snd (snd (fit_chars (budget - (if budget < n then 0 else n)) hits)) \<le> max 0 budget"
    if "0 \<le> n" for n hits using that by simp
  define size where "size pc = (case pc of None \<Rightarrow> 0 | Some c \<Rightarrow> int (length (pe_json env c)))" for pc
  have "0 \<le> size pc" for pc by (auto simp: size_def split: option.split)
  then show ?thesis
    using assms bound [of "size (projectContext (se_Store (pk_search sv)) (ss_ProjectKey scope))"]
    by (auto simp: explicitPacket_def Let_def split_beta budget_def [symmetric] size_def [symmetric] split: sum.splits if_splits)
qed


end
