(* ===== verification/Context_Api.thy ===== *)
theory Context_Api
  imports Packets Server_Mutation
begin

text \<open>
  The read side of the server: the handlers for sessions, search, packets, relevance, recall,
  feedback, continuity diffs and the empty artifact store, from \<open>lite/server.go\<close> and
  \<open>lite/relevance.go\<close>.  A handler takes the decoded request; the operations journal is left out.
\<close>

section \<open>Relevance\<close>

record relevance_request =
  rl_SessionID :: go_string
  rl_Query :: go_string
  rl_MaxChars :: int
  rl_MaxMemories :: int
  rl_StrongOnly :: bool

record relevance_response =
  rp_SessionID :: go_string
  rp_ProjectKey :: go_string
  rp_Query :: go_string
  rp_Memories :: "memory_hit list"
  rp_Truncated :: bool

definition canonical_token :: "go_string \<Rightarrow> go_string" where
  "canonical_token token =
     (if token \<in> {''keep'', ''put'', ''store''} then ''place''
      else if token \<in> {''cash'', ''money'', ''fund'', ''funds''} then ''funds'' else token)"

definition automaticRelevanceCoverage :: "go_string \<Rightarrow> go_string \<Rightarrow> real" where
  "automaticRelevanceCoverage query text =
     (let q = canonical_token ` retrievalTokenSet query; t = canonical_token ` retrievalTokenSet text in
      if q = {} then 0 else real (card (q \<inter> t)) / real (card q))"

definition strongAutomaticMatch :: "memory_hit \<Rightarrow> go_string \<Rightarrow> bool" where
  "strongAutomaticMatch hit query =
     (if mh_MatchClass hit \<ge> class_int MatchContent then True
      else if mh_MatchClass hit \<noteq> class_int MatchFuzzy then False
      else automaticRelevanceCoverage query (mh_Subject hit @ '' '' @ mh_Content hit) \<ge> 7 / 10)"

definition relevance_chars :: "relevance_request \<Rightarrow> int" where
  "relevance_chars rq = (if rl_MaxChars rq \<le> 0 then 1200 else if rl_MaxChars rq > 4000 then 4000 else rl_MaxChars rq)"

definition relevance_limit :: "relevance_request \<Rightarrow> int" where
  "relevance_limit rq = (if rl_MaxMemories rq \<le> 0 then 5 else if rl_MaxMemories rq > 12 then 12 else rl_MaxMemories rq)"

definition valid_relevance :: "relevance_request \<Rightarrow> bool" where
  "valid_relevance rq \<longleftrightarrow>
     (let query = trim_space (rl_Query rq) in
      isUUID (rl_SessionID rq) \<and> query \<noteq> '''' \<and> valid_utf8 query \<and> length query \<le> MaximumQueryBytes)"

fun fill_relevance ::
    "(memory_hit \<Rightarrow> bool) \<Rightarrow> (go_string \<rightharpoonup> time) \<Rightarrow> nat \<Rightarrow> nat \<Rightarrow> int \<Rightarrow> memory_hit list \<Rightarrow> memory_hit list \<times> bool" where
  "fill_relevance wanted surfaced limit n budget [] = ([], False)"
| "fill_relevance wanted surfaced limit n budget (h # hs) =
     (if \<not> wanted h then fill_relevance wanted surfaced limit n budget hs
      else if n \<ge> limit then ([], True)
      else if surfaced (mh_MemoryID h) \<noteq> None then fill_relevance wanted surfaced limit n budget hs
      else if int (hit_chars h) > budget then (fst (fill_relevance wanted surfaced limit n budget hs), True)
      else map_prod (Cons h) id (fill_relevance wanted surfaced limit (n + 1) (budget - int (hit_chars h)) hs))"

definition relevance ::
    "packet_env \<Rightarrow> server_auth \<Rightarrow> packet_server \<Rightarrow> go_string \<Rightarrow> relevance_request \<Rightarrow> memory_row list \<Rightarrow> (nat \<Rightarrow> nat \<Rightarrow> go_string option) \<Rightarrow>
     time \<Rightarrow> packet_server \<times> (go_error + relevance_response)" where
  "relevance env au sv header rq ranging ctx now =
     (case authenticate (sc_sha (pe_search env)) au header ''CONTEXT_READ'' of
        Inl err \<Rightarrow> (sv, Inl err)
      | Inr p \<Rightarrow>
          (let query = trim_space (rl_Query rq); limit = relevance_limit rq in
           if \<not> valid_relevance rq then (sv, Inl (app ContextQueryInvalid))
           else case sessionScope (se_Store (pk_search sv)) (pn_Key p) (rl_SessionID rq) of
             Inl err \<Rightarrow> (sv, Inl err)
           | Inr scope \<Rightarrow>
               (case searchMemories (pe_search env) (pk_search sv) ranging scope
                       \<lparr>sq_SessionID = rl_SessionID rq, sq_Query = query, sq_Limit = limit * 2, sq_Kinds = [], sq_Mode = ''LEXICAL''\<rparr>
                       False (ctx 0) (ctx 1) (ctx 2) now of
                  (s, Inl err) \<Rightarrow> (sv\<lparr>pk_search := s\<rparr>, Inl (Plain err))
                | (s, Inr hits) \<Rightarrow>
                    (let sv = sv\<lparr>pk_search := s\<rparr>;
                         (kept, truncated) = fill_relevance (\<lambda>h. \<not> (rl_StrongOnly rq \<and> \<not> strongAutomaticMatch h query))
                           (Surfaced sv (ss_SessionID scope)) (nat limit) 0 (relevance_chars rq) hits in
                     (MarkSurfaced sv (ss_SessionID scope) (map mh_MemoryID kept) now,
                      Inr \<lparr>rp_SessionID = ss_SessionID scope, rp_ProjectKey = ss_ProjectKey scope, rp_Query = query,
                        rp_Memories = kept, rp_Truncated = truncated\<rparr>)))))"

interpretation rel: capped_packing "fill_relevance wanted surfaced limit" wanted limit "\<lambda>h. surfaced (mh_MemoryID h) = None" hit_chars "\<lambda>h. h"
  for wanted surfaced limit
  by unfold_locales auto

section \<open>Search and packets\<close>

definition search_handler ::
    "packet_env \<Rightarrow> server_auth \<Rightarrow> packet_server \<Rightarrow> go_string \<Rightarrow> search_request \<Rightarrow> memory_row list \<Rightarrow> (nat \<Rightarrow> nat \<Rightarrow> go_string option) \<Rightarrow>
     time \<Rightarrow> packet_server \<times> (go_error + memory_hit list)" where
  "search_handler env au sv header rq ranging ctx now =
     (case authenticate (sc_sha (pe_search env)) au header ''CONTEXT_READ'' of
        Inl err \<Rightarrow> (sv, Inl err)
      | Inr p \<Rightarrow>
          if SearchRequest_Validate rq \<noteq> Inr () then (sv, Inl (app ContextQueryInvalid))
          else case sessionScope (se_Store (pk_search sv)) (pn_Key p) (sq_SessionID rq) of
            Inl err \<Rightarrow> (sv, Inl err)
          | Inr scope \<Rightarrow>
              (case searchMemories (pe_search env) (pk_search sv) ranging scope rq True (ctx 0) (ctx 1) (ctx 2) now of
                 (s, Inl _) \<Rightarrow> (sv\<lparr>pk_search := s\<rparr>, Inl (app DatabaseUnavailable))
               | (s, Inr hits) \<Rightarrow> (sv\<lparr>pk_search := s\<rparr>, Inr hits)))"

definition contextPacket ::
    "packet_env \<Rightarrow> server_auth \<Rightarrow> packet_server \<Rightarrow> go_string \<Rightarrow> go_string \<Rightarrow> context_request \<Rightarrow> memory_row list \<Rightarrow>
     (nat \<Rightarrow> nat \<Rightarrow> go_string option) \<Rightarrow> time \<Rightarrow> packet_server \<times> (go_error + context_packet)" where
  "contextPacket env au sv forcedMode header rq ranging ctx now =
     (case authenticate (sc_sha (pe_search env)) au header ''CONTEXT_READ'' of
        Inl err \<Rightarrow> (sv, Inl err)
      | Inr p \<Rightarrow>
          (let rq = (if cq_Mode rq = '''' then rq\<lparr>cq_Mode := forcedMode\<rparr> else rq) in
           if ContextRequest_Validate rq \<noteq> Inr () then (sv, Inl (app ContextQueryInvalid))
           else case sessionScope (se_Store (pk_search sv)) (pn_Key p) (cq_SessionID rq) of
             Inl err \<Rightarrow> (sv, Inl err)
           | Inr scope \<Rightarrow>
               (let (sv, out) = (if ContextRequest_EffectiveMode rq = ReflexMode then reflexPacket env sv ranging scope now
                                 else explicitPacket env sv ranging scope rq ctx now) in
                (sv, plain out))))"

section \<open>Recall\<close>

record quote_evidence =
  qe_Relation :: go_string
  qe_MessageID :: go_string
  qe_Quote :: go_string
  qe_OccurredAt :: go_string
  qe_QuoteHash :: go_string
  qe_Availability :: go_string

record memory_recall =
  mr_MemoryID :: go_string
  mr_Kind :: go_string
  mr_Subject :: go_string
  mr_Content :: go_string
  mr_Scope :: go_string
  mr_ProjectKey :: go_string
  mr_EpistemicStatus :: go_string
  mr_Lifecycle :: go_string
  mr_SupersedesMemoryID :: go_string
  mr_ContentAvailability :: go_string
  mr_Importance :: real
  mr_Heat :: real
  mr_EffectiveHeat :: real
  mr_AccessCount :: int
  mr_RepeatCount :: int
  mr_Grade :: go_string
  mr_MessageEvidence :: "quote_evidence list"

text \<open>\<open>EvidenceFor\<close>: the links of a memory joined with their messages, oldest first; \<open>scan\<close> are the rows
  of the table in the order of the scan.\<close>

definition join_message :: "index \<Rightarrow> evidence_row \<Rightarrow> evidence_row" where
  "join_message ix e =
     (case ix_messages ix (er_MessageID e) of
        None \<Rightarrow> e
      | Some m \<Rightarrow> e\<lparr>er_MessageContent := ms_Content m, er_OccurredAt := ms_OccurredAt m\<rparr>)"

definition EvidenceFor :: "index \<Rightarrow> evidence_row list \<Rightarrow> go_string \<Rightarrow> evidence_row list" where
  "EvidenceFor ix scan memoryID =
     map (join_message ix) (sort_by (\<lambda>a b. er_CreatedAt a < er_CreatedAt b) (filter (\<lambda>e. er_MemoryID e = memoryID) scan))"

text \<open>A quote is shown only if its range lies in the message, its bytes are those that were hashed and
  they are valid UTF-8.\<close>

definition quote_of :: "(go_string \<Rightarrow> go_string) \<Rightarrow> (time \<Rightarrow> go_string) \<Rightarrow> evidence_row \<Rightarrow> quote_evidence" where
  "quote_of sha micros e =
     (let out = \<lparr>qe_Relation = er_Relation e, qe_MessageID = er_MessageID e, qe_Quote = '''',
            qe_OccurredAt = micros (er_OccurredAt e), qe_QuoteHash = er_QuoteHash e, qe_Availability = ''''\<rparr> in
      if er_QuoteStart e \<ge> 0 \<and> er_QuoteEnd e \<le> int (length (er_MessageContent e)) \<and> er_QuoteStart e < er_QuoteEnd e
      then
        (let quote = sub_bytes (nat (er_QuoteStart e)) (nat (er_QuoteEnd e)) (er_MessageContent e) in
         if hashContent sha quote = er_QuoteHash e \<and> valid_utf8 quote
         then out\<lparr>qe_Quote := quote, qe_Availability := ''ONLINE''\<rparr>
         else out\<lparr>qe_Availability := ''CONTENT_UNAVAILABLE''\<rparr>)
      else out\<lparr>qe_Availability := ''CONTENT_RESTRICTED''\<rparr>)"

definition activationEffective :: "store \<Rightarrow> go_string \<Rightarrow> memory_row \<Rightarrow> real" where
  "activationEffective s sessionID row =
     ActivationFor (mm_Kind row) (mm_Activation row) (sessionsSince s sessionID row) (mm_Importance row)"

definition recall_of ::
    "(go_string \<Rightarrow> go_string) \<Rightarrow> (time \<Rightarrow> go_string) \<Rightarrow> store \<Rightarrow> go_string \<Rightarrow> memory_row \<Rightarrow> evidence_row list \<Rightarrow> memory_recall" where
  "recall_of sha micros s sessionID row evidence =
     (let eff = activationEffective s sessionID row in
      \<lparr>mr_MemoryID = mm_MemoryID row, mr_Kind = mm_Kind row, mr_Subject = mm_Subject row, mr_Content = mm_Content row,
       mr_Scope = mm_ScopeType row, mr_ProjectKey = mm_ProjectKey row, mr_EpistemicStatus = mm_EpistemicStatus row,
       mr_Lifecycle = mm_Lifecycle row, mr_SupersedesMemoryID = mm_SupersedesMemoryID row,
       mr_ContentAvailability = (if evidence = [] then ''AVAILABLE'' else ''ONLINE''),
       mr_Importance = mm_Importance row, mr_Heat = mm_Activation row, mr_EffectiveHeat = eff,
       mr_AccessCount = mm_AccessCount row, mr_RepeatCount = mm_RepeatCount row, mr_Grade = HeatGrade (mm_Importance row) eff,
       mr_MessageEvidence = map (quote_of sha micros) evidence\<rparr>)"

text \<open>The row is read before the access is recorded, and the answer is built from it.\<close>

definition recall ::
    "(go_string \<Rightarrow> go_string) \<Rightarrow> (time \<Rightarrow> go_string) \<Rightarrow> server_auth \<Rightarrow> store \<Rightarrow> go_string \<Rightarrow> go_string \<Rightarrow> go_string \<Rightarrow> evidence_row list \<Rightarrow>
     time \<Rightarrow> store \<times> (go_error + memory_recall)" where
  "recall sha micros au s header memoryID sessionID scan now =
     (case authenticate sha au header ''CONTEXT_READ'' of
        Inl err \<Rightarrow> (s, Inl err)
      | Inr p \<Rightarrow>
          (case sessionScope s (pn_Key p) sessionID of
             Inl err \<Rightarrow> (s, Inl err)
           | Inr scope \<Rightarrow>
               (case LoadMemoryRow s memoryID of
                  Inl _ \<Rightarrow> (s, Inl (app MemoryReadNotFound))
                | Inr row \<Rightarrow>
                    if \<not> memoryRowEligible sha scope row True then (s, Inl (app MemoryReadNotFound))
                    else
                      (let s = (case RecordAccess sha s memoryID (ss_SessionID scope) AccessRecall now of Inl _ \<Rightarrow> s | Inr s \<Rightarrow> s) in
                       (s, Inr (recall_of sha micros s (ss_SessionID scope) row (EvidenceFor (st_Index s) scan memoryID)))))))"

section \<open>Feedback\<close>

definition feedback ::
    "(go_string \<Rightarrow> go_string) \<Rightarrow> server_auth \<Rightarrow> store \<Rightarrow> go_string \<Rightarrow> feedback_request \<Rightarrow> time \<Rightarrow> store \<times> (go_error + bool)" where
  "feedback sha au s header rq now =
     (case authenticate sha au header ''CONTEXT_READ'' of
        Inl err \<Rightarrow> (s, Inl err)
      | Inr p \<Rightarrow>
          if FeedbackRequest_Validate rq \<noteq> Inr () then (s, Inl (app ContextQueryInvalid))
          else case sessionScope s (pn_Key p) (fq_SessionID rq) of
            Inl err \<Rightarrow> (s, Inl err)
          | Inr scope \<Rightarrow>
              (case LoadMemoryRow s (fq_MemoryID rq) of
                 Inl _ \<Rightarrow> (s, Inl (app MemoryReadNotFound))
               | Inr row \<Rightarrow>
                   if \<not> memoryRowEligible sha scope row False then (s, Inl (app MemoryReadNotFound))
                   else (case ApplyFeedback sha s (fq_MemoryID rq) (ss_SessionID scope) (fq_Outcome rq) now of Inl _ \<Rightarrow> s | Inr s \<Rightarrow> s,
                         Inr True)))"

section \<open>Continuity diffs\<close>

record diff_result =
  df_Changes :: "continuity_change list"
  df_NextCursor :: go_string

text \<open>Where a diff starts: at a revision, or with the most recent changes when there is no cursor.\<close>

definition diff_start :: "cursor_env \<Rightarrow> go_string \<Rightarrow> session_scope \<Rightarrow> go_string \<Rightarrow> go_error + int" where
  "diff_start env key scope cursor =
     (if cursor = '''' then Inr 0
      else case VerifyCursor env key cursor of
        Inl _ \<Rightarrow> Inl (app CursorInvalid)
      | Inr p \<Rightarrow>
          if cp_ProjectKeyHash p \<noteq> ProjectHash env (ss_ProjectKey scope) \<or>
             cp_Version p = 1 \<and> cp_SessionID p \<noteq> ss_SessionID scope
          then Inl (app CursorInvalid) else Inr (cp_Revision p))"

definition diff ::
    "(go_string \<Rightarrow> go_string) \<Rightarrow> cursor_env \<Rightarrow> go_string \<Rightarrow> server_auth \<Rightarrow> store \<Rightarrow> go_string \<Rightarrow> diff_request \<Rightarrow> go_error + diff_result" where
  "diff sha env key au s header rq =
     bindE (authenticate sha au header ''CONTEXT_READ'') (\<lambda>p.
       if DiffRequest_Validate rq \<noteq> Inr () then Inl (app CursorInvalid)
       else
         bindE (sessionScope s (pn_Key p) (dq_SessionID rq)) (\<lambda>scope.
         bindE (diff_start env key scope (dq_Cursor rq)) (\<lambda>after.
           (let (changes, highest) = ContinuityChanges s after (ss_ProjectKey scope) (DiffRequest_EffectiveLimit rq) (dq_Cursor rq = '''');
                highest = (if highest < after then after else highest) in
            bindE (plain (SignProjectCursor env key (ss_ProjectKey scope) highest)) (\<lambda>next.
              Inr \<lparr>df_Changes = changes, df_NextCursor = next\<rparr>)))))"

section \<open>Sessions, artifacts and health\<close>

record turn_scope =
  tu_Session :: session_scope
  tu_MessageID :: go_string
  tu_IsCurrentUser :: bool

datatype session_answer = Session_Scope session_scope | Turn_Scope turn_scope

text \<open>\<open>messages\<close> are the messages of the store in the order of the scan, \<open>loaded\<close> the one with the
  identifier asked for.\<close>

definition session ::
    "(go_string \<Rightarrow> go_string) \<Rightarrow> server_auth \<Rightarrow> store \<Rightarrow> go_string \<Rightarrow> go_string \<Rightarrow> go_string \<Rightarrow> go_string \<Rightarrow> message_row list \<Rightarrow>
     message_row option \<Rightarrow> go_error + session_answer" where
  "session sha au s header sessionID latest messageID messages loaded =
     bindE (authenticate sha au header ''CONTEXT_READ'') (\<lambda>p.
     bindE (sessionScope s (pn_Key p) sessionID) (\<lambda>scope.
       if latest = ''1'' then
         (case LatestUserMessageID sessionID messages of
            Inl _ \<Rightarrow> Inl (app ContextSessionNotFound)
          | Inr m \<Rightarrow> Inr (Turn_Scope \<lparr>tu_Session = scope, tu_MessageID = m, tu_IsCurrentUser = True\<rparr>))
       else if messageID \<noteq> '''' then
         (case LoadMessageEvidence loaded sessionID of
            Inl _ \<Rightarrow> Inl (app ContextSessionNotFound)
          | Inr evidence \<Rightarrow>
              (let latest = (case LatestUserMessageID sessionID messages of Inl _ \<Rightarrow> '''' | Inr m \<Rightarrow> m) in
               Inr (Turn_Scope \<lparr>tu_Session = scope, tu_MessageID = messageID,
                 tu_IsCurrentUser = (latest = messageID \<and> ev_Role evidence = ''user'')\<rparr>)))
       else Inr (Session_Scope scope)))"

definition artifactSearch :: "(go_string \<Rightarrow> go_string) \<Rightarrow> server_auth \<Rightarrow> go_string \<Rightarrow> artifact_search_request \<Rightarrow> go_error + unit list" where
  "artifactSearch sha au header rq =
     bindE (authenticate sha au header ''ARTIFACT_SEARCH'') (\<lambda>_.
       if ArtifactSearchRequest_Validate rq \<noteq> Inr () then Inl (app ''ARTIFACT_SEARCH_INVALID'') else Inr [])"

definition artifactRead :: "(go_string \<Rightarrow> go_string) \<Rightarrow> server_auth \<Rightarrow> go_string \<Rightarrow> go_error + unit" where
  "artifactRead sha au header =
     bindE (authenticate sha au header ''ARTIFACT_READ'') (\<lambda>_. Inl (app ''ARTIFACT_READ_NOT_FOUND''))"

definition healthReady :: "bool \<Rightarrow> go_string option \<Rightarrow> go_string \<times> (go_string \<times> go_string) list" where
  "healthReady integrityError embeddings =
     (let components = [(''artifact_store'', ''healthy''), (''owner'', ''healthy''),
            (''store'', if integrityError then ''unavailable'' else ''healthy''), (''schema'', ''current''),
            (''staging'', ''healthy'')] @ (case embeddings of None \<Rightarrow> [] | Some e \<Rightarrow> [(''embeddings'', to_lower e)]) in
      (if list_ex (\<lambda>(_, v). v = ''unavailable'' \<or> v = ''not_ready'') components then ''not_ready'' else ''ready'', components))"

section \<open>Reading the continuity page by page\<close>

definition pending :: "store \<Rightarrow> go_string \<Rightarrow> int \<Rightarrow> continuity_row list" where
  "pending s projectKey after =
     filter (\<lambda>r. after < cr_RevisionNumber r \<and> continuity_visible projectKey r) (st_continuity s)"

fun diff_pages :: "(go_string \<Rightarrow> go_error + diff_result) \<Rightarrow> nat \<Rightarrow> go_string \<Rightarrow> go_error + continuity_change list list" where
  "diff_pages call 0 cursor = Inr []"
| "diff_pages call (Suc n) cursor =
     bindE (call cursor) (\<lambda>r. bindE (diff_pages call n (df_NextCursor r)) (\<lambda>ps. Inr (df_Changes r # ps)))"

text \<open>The forward loop takes what is pending up to the limit, and ends at the last revision it took.\<close>

definition page_end :: "int \<Rightarrow> continuity_row list \<Rightarrow> int" where
  "page_end after rows = (if rows = [] then after else cr_RevisionNumber (last rows))"

lemma after_loop_page:
  assumes "sorted_wrt (<) (map cr_RevisionNumber rows)" "int (length out) < limit"
    and "list_all (\<lambda>r. highest \<le> cr_RevisionNumber r \<or> cr_RevisionNumber r \<le> after) rows"
    and "page = take (nat limit - length out) (filter (\<lambda>r. after < cr_RevisionNumber r \<and> continuity_visible projectKey r) rows)"
  shows "after_loop after projectKey limit out highest rows = (out @ map change page, page_end highest page)"
  using assms
proof (induction rows arbitrary: out highest page)
  case (Cons row rows)
  note sorted = Cons.prems(1) and room = Cons.prems(2) and above = Cons.prems(3) and page = Cons.prems(4)
  consider (skip) "cr_RevisionNumber row \<le> after \<or> \<not> continuity_visible projectKey row"
    | (take) "after < cr_RevisionNumber row" "continuity_visible projectKey row" by linarith
  then show ?case
  proof cases
    case skip
    then show ?thesis using Cons.IH [of out highest page] sorted room above page by auto
  next
    case take
    define rest where "rest = take (nat limit - Suc (length out))
      (filter (\<lambda>r. after < cr_RevisionNumber r \<and> continuity_visible projectKey r) rows)"
    obtain k where k: "nat limit - length out = Suc k" using room by (metis Suc_diff_Suc zless_nat_eq_int_zless)
    then have k': "nat limit - Suc (length out) = k" by simp
    have "page = row # rest" using page take by (simp add: rest_def k k')
    moreover have "highest \<le> cr_RevisionNumber row" using above take by auto
    moreover have "after_loop after projectKey limit (out @ [change row]) (cr_RevisionNumber row) rows
        = ((out @ [change row]) @ map change rest, page_end (cr_RevisionNumber row) rest)"
      if "int (length (out @ [change row])) < limit"
    proof (rule Cons.IH)
      show "sorted_wrt (<) (map cr_RevisionNumber rows)" using sorted by simp
      show "list_all (\<lambda>r. cr_RevisionNumber row \<le> cr_RevisionNumber r \<or> cr_RevisionNumber r \<le> after) rows"
        using sorted by (auto simp: list_all_iff less_imp_le)
    qed (use that in \<open>auto simp: rest_def\<close>)
    moreover have "rest = []" if "\<not> int (length (out @ [change row])) < limit"
      using that by (simp add: rest_def)
    ultimately show ?thesis using take by (auto simp: Let_def page_end_def)
  qed
qed (simp add: page_end_def)

lemma filter_beyond_last:
  assumes "sorted_wrt (<) (map f xs)" "take k xs \<noteq> []"
  shows "filter (\<lambda>x. (f (last (take k xs)) :: int) < f x) xs = drop k xs"
proof -
  let ?m = "last (take k xs)"
  have "sorted_wrt (<) (map f (take k xs) @ map f (drop k xs))"
    using assms(1) by (simp only: map_append [symmetric] append_take_drop_id)
  then have low: "sorted_wrt (<) (map f (take k xs))" and high: "\<forall>x \<in> set (take k xs). \<forall>y \<in> set (drop k xs). f x < f y"
    by (auto simp: sorted_wrt_append)
  have "f x \<le> f ?m" if "x \<in> set (take k xs)" for x
  proof -
    have "take k xs = butlast (take k xs) @ [?m]" using assms(2) by simp
    then obtain init where init: "take k xs = init @ [?m]" by blast
    have "sorted_wrt (<) (map f (init @ [?m]))" using low by (simp only: init [symmetric])
    moreover have "x \<in> set (init @ [?m])" using that by (simp only: init [symmetric])
    ultimately show ?thesis by (auto simp: sorted_wrt_append)
  qed
  then have "filter (\<lambda>x. f ?m < f x) (take k xs) = []" by (auto simp: filter_empty_conv not_less)
  moreover have "filter (\<lambda>x. f ?m < f x) (drop k xs) = drop k xs"
    using high assms(2) by (simp add: filter_id_conv)
  ultimately show ?thesis by (metis append_take_drop_id filter_append append_Nil)
qed

lemma pending_page:
  assumes "sorted_wrt (<) (map cr_RevisionNumber (st_continuity s))" "0 < limit"
    and page_def: "page = take (nat limit) (pending s projectKey after)"
  shows "ContinuityChanges s after projectKey limit False = (map change page, page_end after page)"
    and "pending s projectKey (page_end after page) = drop (nat limit) (pending s projectKey after)"
    and "after \<le> page_end after page"
proof -
  have page: "page = take (nat limit - length ([] :: continuity_change list)) (pending s projectKey after)" by (simp add: page_def)
  show "ContinuityChanges s after projectKey limit False = (map change page, page_end after page)"
  proof -
    have "list_all (\<lambda>r. after \<le> cr_RevisionNumber r \<or> cr_RevisionNumber r \<le> after) (st_continuity s)"
      by (auto simp: list_all_iff)
    from after_loop_page [OF assms(1) _ this page [unfolded pending_def]] show ?thesis
      using assms(2) by (simp add: ContinuityChanges_def)
  qed
  have above: "\<forall>r \<in> set (pending s projectKey after). after < cr_RevisionNumber r" by (simp add: pending_def)
  show le: "after \<le> page_end after page"
  proof (cases "page = []")
    case False
    then have "last page \<in> set page" by (rule last_in_set)
    then have "last page \<in> set (pending s projectKey after)" unfolding page_def by (rule in_set_takeD)
    then show ?thesis using above False by (simp add: page_end_def less_imp_le)
  qed (simp add: page_end_def)
  show "pending s projectKey (page_end after page) = drop (nat limit) (pending s projectKey after)"
  proof (cases "page = []")
    case True
    then have "pending s projectKey after = []" using assms(2) by (auto simp: page_def)
    then show ?thesis using True by (simp add: page_end_def)
  next
    case False
    have "sorted_wrt (<) (map cr_RevisionNumber (pending s projectKey after))"
      using assms(1) sorted_wrt_filter by (auto simp: pending_def sorted_wrt_map)
    from filter_beyond_last [OF this, of "nat limit"] False
    have "filter (\<lambda>r. page_end after page < cr_RevisionNumber r) (pending s projectKey after) = drop (nat limit) (pending s projectKey after)"
      by (simp add: page_def page_end_def)
    moreover have "filter (\<lambda>r. page_end after page < cr_RevisionNumber r) (pending s projectKey after) = pending s projectKey (page_end after page)"
      unfolding pending_def filter_filter using le by (intro filter_cong) auto
    ultimately show ?thesis by simp
  qed
qed

text \<open>What a project cursor relies on of its primitives.\<close>

definition project_cursors_ok :: "cursor_env \<Rightarrow> go_string \<Rightarrow> go_string \<Rightarrow> bool" where
  "project_cursors_ok env key projectKey \<longleftrightarrow>
     32 \<le> length key \<and> ProjectHash env projectKey \<noteq> '''' \<and> (\<forall>x. ce_b64 env x = '''' \<longrightarrow> x = '''') \<and>
     (\<forall>r \<ge> 0. cursor_env_ok env key \<lparr>cp_Version = 2, cp_SessionID = '''', cp_ProjectKeyHash = ProjectHash env projectKey, cp_Revision = r\<rparr>)"

lemma project_cursor:
  assumes "project_cursors_ok env key (ss_ProjectKey scope)" "0 \<le> r"
  obtains c where "SignProjectCursor env key (ss_ProjectKey scope) r = Inr c" "c \<noteq> ''''" "diff_start env key scope c = Inr r"
proof -
  let ?p = "\<lparr>cp_Version = 2, cp_SessionID = '''', cp_ProjectKeyHash = ProjectHash env (ss_ProjectKey scope), cp_Revision = r\<rparr>"
  have ok: "cursor_env_ok env key ?p" and key: "\<not> length key < 32" and b64: "\<And>x. ce_b64 env x = '''' \<Longrightarrow> x = ''''"
    and hash: "ProjectHash env (ss_ProjectKey scope) \<noteq> ''''"
    using assms by (auto simp: project_cursors_ok_def)
  define c where "c = ce_b64 env (ce_marshal env ?p @ ce_mac env key (ce_marshal env ?p))"
  have sign: "SignCursor env key ?p = Inr c" using key by (simp add: SignCursor_def c_def Let_def)
  have "c \<noteq> ''''" using b64 ok by (auto simp: c_def cursor_env_ok_def)
  moreover have "VerifyCursor env key c = Inr ?p" by (rule VerifyCursor_SignCursor [OF ok]) (use hash assms(2) sign in auto)
  ultimately show ?thesis using that sign by (simp add: SignProjectCursor_def diff_start_def)
qed

text \<open>The requests a client makes with one identifier and one limit, for every cursor.\<close>

abbreviation diff_call ::
    "(go_string \<Rightarrow> go_string) \<Rightarrow> cursor_env \<Rightarrow> go_string \<Rightarrow> server_auth \<Rightarrow> store \<Rightarrow> go_string \<Rightarrow> go_string \<Rightarrow> int \<Rightarrow> go_string \<Rightarrow>
     go_error + diff_result" where
  "diff_call sha env key au s header sessionID limit cursor \<equiv>
     diff sha env key au s header \<lparr>dq_SessionID = sessionID, dq_Cursor = cursor, dq_Limit = limit\<rparr>"

lemma diff_page:
  assumes "authenticate sha au header ''CONTEXT_READ'' = Inr p" "sessionScope s (pn_Key p) sessionID = Inr scope"
    and "trim_space sessionID \<noteq> ''''" "0 < limit" "limit \<le> 100"
    and "project_cursors_ok env key (ss_ProjectKey scope)" "sorted_wrt (<) (map cr_RevisionNumber (st_continuity s))"
    and "cursor \<noteq> ''''" "diff_start env key scope cursor = Inr after" "0 \<le> after"
    and page: "page = take (nat limit) (pending s (ss_ProjectKey scope) after)"
  obtains c where "diff_call sha env key au s header sessionID limit cursor = Inr \<lparr>df_Changes = map change page, df_NextCursor = c\<rparr>"
    "c \<noteq> ''''" "diff_start env key scope c = Inr (page_end after page)" "0 \<le> page_end after page"
proof -
  note step = pending_page [OF assms(7) assms(4) page]
  have end0: "0 \<le> page_end after page" using step(3) assms(10) by simp
  from project_cursor [OF assms(6) end0] obtain c where
    c: "SignProjectCursor env key (ss_ProjectKey scope) (page_end after page) = Inr c" "c \<noteq> ''''"
       "diff_start env key scope c = Inr (page_end after page)" .
  have "diff_call sha env key au s header sessionID limit cursor = Inr \<lparr>df_Changes = map change page, df_NextCursor = c\<rparr>"
    using assms(1-5,8,9) step(1,3) c(1)
    by (simp add: diff_def DiffRequest_Validate_def DiffRequest_EffectiveLimit_def plain_def Let_def)
  then show ?thesis using that c end0 by blast
qed

text \<open>C23: a client that starts from a cursor of its session and keeps sending the cursor of
  the last answer reads, in \<open>n\<close> requests, exactly the first \<open>n\<close> times \<open>limit\<close> changes behind its cursor that its
  project may see: none is skipped, none comes twice and none is out of order, so that it has read
  everything and sees an empty page as soon as \<open>n\<close> times \<open>limit\<close> exceeds their number.\<close>

theorem diff_reads_everything:
  assumes "authenticate sha au header ''CONTEXT_READ'' = Inr p" "sessionScope s (pn_Key p) sessionID = Inr scope"
    and "trim_space sessionID \<noteq> ''''" "0 < limit" "limit \<le> 100"
    and "project_cursors_ok env key (ss_ProjectKey scope)" "sorted_wrt (<) (map cr_RevisionNumber (st_continuity s))"
    and "cursor \<noteq> ''''" "diff_start env key scope cursor = Inr after" "0 \<le> after"
  shows "map_sum id concat (diff_pages (diff_call sha env key au s header sessionID limit) n cursor) =
    Inr (map change (take (n * nat limit) (pending s (ss_ProjectKey scope) after)))"
  using assms(8-10)
proof (induction n arbitrary: cursor after)
  case (Suc n)
  define page where "page = take (nat limit) (pending s (ss_ProjectKey scope) after)"
  from diff_page [OF assms(1-7) Suc.prems page_def] obtain c where
    c: "diff_call sha env key au s header sessionID limit cursor = Inr \<lparr>df_Changes = map change page, df_NextCursor = c\<rparr>"
       "c \<noteq> ''''" "diff_start env key scope c = Inr (page_end after page)" "0 \<le> page_end after page" .
  obtain ps where ps: "diff_pages (diff_call sha env key au s header sessionID limit) n c = Inr ps"
    and concat: "concat ps = map change (take (n * nat limit) (drop (nat limit) (pending s (ss_ProjectKey scope) after)))"
    using Suc.IH [OF c(2-4)] pending_page(2) [OF assms(7) assms(4) page_def]
    by (cases "diff_pages (diff_call sha env key au s header sessionID limit) n c") auto
  show ?case using c(1) ps concat by (simp add: page_def take_add flip: map_append)
qed simp

section \<open>Nothing is injected twice\<close>

text \<open>The calls that touch the table of surfaced memories, between arbitrary changes of the rest of the
  server, and what they show: the session, the memories and whether they were injected unasked.\<close>

datatype context_call =
    Relevance go_string relevance_request "memory_row list" "nat \<Rightarrow> nat \<Rightarrow> go_string option" time
  | Packet go_string go_string context_request "memory_row list" "nat \<Rightarrow> nat \<Rightarrow> go_string option" time
  | Other search_server

record shown_event =
  sw_session :: go_string
  sw_ids :: "go_string set"
  sw_injected :: bool

definition packet_ids :: "context_packet \<Rightarrow> go_string set" where
  "packet_ids out = mh_MemoryID ` set (cx_Memories out @ cx_Core out @ cx_Important out) - {''''}"

fun serve :: "packet_env \<Rightarrow> server_auth \<Rightarrow> packet_server \<Rightarrow> context_call \<Rightarrow> packet_server \<times> shown_event option" where
  "serve env au sv (Relevance header rq ranging ctx now) =
     (let (sv', r) = relevance env au sv header rq ranging ctx now in
      (sv', case r of Inl _ \<Rightarrow> None
            | Inr out \<Rightarrow> Some \<lparr>sw_session = rp_SessionID out, sw_ids = mh_MemoryID ` set (rp_Memories out) - {''''}, sw_injected = True\<rparr>))"
| "serve env au sv (Packet forced header rq ranging ctx now) =
     (let (sv', r) = contextPacket env au sv forced header rq ranging ctx now in
      (sv', case r of Inl _ \<Rightarrow> None
            | Inr out \<Rightarrow> Some \<lparr>sw_session = ss_SessionID (cx_Session out), sw_ids = packet_ids out, sw_injected = False\<rparr>))"
| "serve env au sv (Other s) = (sv\<lparr>pk_search := s\<rparr>, None)"

fun shown_events :: "packet_env \<Rightarrow> server_auth \<Rightarrow> packet_server \<Rightarrow> context_call list \<Rightarrow> shown_event list" where
  "shown_events env au sv [] = []"
| "shown_events env au sv (c # cs) =
     (let (sv', e) = serve env au sv c in
      (case e of None \<Rightarrow> [] | Some e \<Rightarrow> [e]) @ shown_events env au sv' cs)"

text \<open>No injected memory has been shown in the same session before.\<close>

fun fresh_injections :: "shown_event list \<Rightarrow> bool" where
  "fresh_injections [] = True"
| "fresh_injections (e # es) =
     (list_all (\<lambda>f. \<not> sw_injected f \<or> sw_session f \<noteq> sw_session e \<or> sw_ids f \<inter> sw_ids e = {}) es \<and> fresh_injections es)"

definition surfaced_ids :: "packet_server \<Rightarrow> go_string \<Rightarrow> go_string set" where
  "surfaced_ids sv sessionID = dom (pk_surfaced sv sessionID)"

lemma surfaced_mark [simp]:
  "surfaced_ids (MarkSurfaced sv sid ids now) sid' = surfaced_ids sv sid' \<union> (if sid' = sid then set ids - {''''} else {})"
  by (auto simp: surfaced_ids_def MarkSurfaced_def split: if_splits)

lemma surfaced_search [simp]: "surfaced_ids (sv\<lparr>pk_search := s\<rparr>) sid = surfaced_ids sv sid"
  by (simp add: surfaced_ids_def)

text \<open>A call marks what it shows, and nothing when it fails.\<close>

definition marks :: "('a \<Rightarrow> go_string) \<Rightarrow> ('a \<Rightarrow> go_string set) \<Rightarrow> packet_server \<Rightarrow> packet_server \<times> ('e + 'a) \<Rightarrow> bool" where
  "marks sess ids sv res \<longleftrightarrow> (\<forall>sid. surfaced_ids (fst res) sid = surfaced_ids sv sid \<union>
     (case snd res of Inl _ \<Rightarrow> {} | Inr out \<Rightarrow> if sid = sess out then ids out else {}))"

lemma marks_simps [simp]:
  "marks sess ids sv (sv, Inl e)" "marks sess ids sv (sv\<lparr>pk_search := s\<rparr>, Inl e)"
  "marks sess ids sv (MarkSurfaced sv sid xs now, Inr out) \<longleftrightarrow>
     (\<forall>sid'. surfaced_ids sv sid' \<union> (if sid' = sid then set xs - {''''} else {}) =
        surfaced_ids sv sid' \<union> (if sid' = sess out then ids out else {}))"
  "marks sess ids sv (MarkSurfaced (sv\<lparr>pk_search := s\<rparr>) sid xs now, Inr out) \<longleftrightarrow>
     marks sess ids sv (MarkSurfaced sv sid xs now, Inr out)"
  by (simp_all add: marks_def)

lemma marks_plain [simp]: "marks sess ids sv (sv', plain r) \<longleftrightarrow> marks sess ids sv (sv', r)"
  by (cases r) (simp_all add: marks_def plain_def)

lemma relevance_marks:
  "marks rp_SessionID (\<lambda>out. mh_MemoryID ` set (rp_Memories out) - {''''}) sv (relevance env au sv header rq ranging ctx now)"
  by (auto simp: relevance_def Let_def split_beta marks_def split: sum.split)

lemma relevance_fresh:
  assumes "relevance env au sv header rq ranging ctx now = (sv', Inr out)"
  shows "mh_MemoryID ` set (rp_Memories out) \<inter> surfaced_ids sv (rp_SessionID out) = {}"
proof -
  have stale: "surfaced (mh_MemoryID h) = None" if "h \<in> set (fst (fill_relevance wanted surfaced limit n b hs))"
    for wanted surfaced limit n b hs h
    using list_emb_set [OF rel.run_selects that] by auto
  have "\<exists>wanted limit b hs. rp_Memories out = fst (fill_relevance wanted (pk_surfaced sv (rp_SessionID out)) limit 0 b hs)"
    using assms by (force simp: relevance_def Let_def split_beta Surfaced_def split: sum.splits if_splits)
  then show ?thesis using stale by (fastforce simp: surfaced_ids_def)
qed

lemma packet_hits_marks: "surfaced_ids (fst (packet_hits env sv ranging scope rq ctx now)) = surfaced_ids sv"
  by (auto simp: packet_hits_def Let_def split_beta)

lemma explicit_marks: "marks (\<lambda>out. ss_SessionID (cx_Session out)) packet_ids sv (explicitPacket env sv ranging scope rq ctx now)"
proof -
  obtain sv1 r1 where hits: "packet_hits env sv ranging scope rq ctx now = (sv1, r1)" by (rule prod.exhaust)
  then have "surfaced_ids sv1 = surfaced_ids sv" using packet_hits_marks by (metis fst_conv)
  then show ?thesis
    by (auto simp: explicitPacket_def Let_def split_beta hits packet_ids_def hitsSurfaced_def marks_def split: sum.split)
qed
lemma reflex_marks: "marks (\<lambda>out. ss_SessionID (cx_Session out)) packet_ids sv (reflexPacket env sv ranging scope now)"
  by (auto simp: reflexPacket_def Let_def packet_ids_def reflex_compile_def split_beta split: sum.split)

lemma contextPacket_marks:
  "marks (\<lambda>out. ss_SessionID (cx_Session out)) packet_ids sv (contextPacket env au sv forced header rq ranging ctx now)"
proof -
  have "marks (\<lambda>out. ss_SessionID (cx_Session out)) packet_ids sv (case p of (sv, out) \<Rightarrow> (sv, plain out))"
    if "marks (\<lambda>out. ss_SessionID (cx_Session out)) packet_ids sv p" for p
    using that by (cases p) simp
  then show ?thesis by (simp add: contextPacket_def Let_def explicit_marks reflex_marks split: sum.split)
qed


section \<open>An instance\<close>

text \<open>Three changes, one of them of another project, read one at a time.\<close>

definition demo_change :: "int \<Rightarrow> go_string \<Rightarrow> continuity_row" where
  "demo_change revision project =
     \<lparr>cr_RevisionNumber = revision, cr_EventID = '''', cr_ChangeKind = ''MEMORY_CREATED'', cr_TargetKind = ''COGNITIVE_MEMORY'',
      cr_TargetID = itoa revision, cr_RelatedTargetID = '''', cr_ProjectKey = project, cr_Sensitivity = ''NORMAL'',
      cr_TraceID = '''', cr_SafeMetadataJSON = ''{}'', cr_CreatedAt = revision\<rparr>"

definition demo_history :: store where
  "demo_history = (empty_store '''')
     \<lparr>st_sessions := [''s'' \<mapsto> zero_session\<lparr>sr_SessionID := ''s'', sr_ClientKey := ''claude'', sr_ProjectKey := ''tea''\<rparr>],
      st_continuity := [demo_change 1 ''tea'', demo_change 2 ''coffee'', demo_change 3 '''']\<rparr>"

text \<open>Cursors whose body is the revision in unary.\<close>

definition unary_cursors :: cursor_env where
  "unary_cursors =
     \<lparr>ce_mac = (\<lambda>key s. take 32 (key @ replicate 32 CHR 0x00)), ce_b64 = (\<lambda>s. s), ce_unb64 = Some,
      ce_marshal = (\<lambda>p. replicate (Suc (nat (cp_Revision p))) CHR ''r''),
      ce_unmarshal = (\<lambda>s. Some \<lparr>cp_Version = 2, cp_SessionID = '''', cp_ProjectKeyHash = ''tea'', cp_Revision = int (length s) - 1\<rparr>),
      ce_sha = (\<lambda>s. s)\<rparr>"

abbreviation demo_key :: go_string where "demo_key \<equiv> replicate 32 CHR ''k''"

lemma unary_cursors_ok: "project_cursors_ok unary_cursors demo_key ''tea''"
  by (simp add: project_cursors_ok_def cursor_env_ok_def unary_cursors_def ProjectHash_def)

lemma diff_reads_everything_witness:
  "\<exists>c. map_sum id concat (diff_pages (diff_call (\<lambda>s. s) unary_cursors demo_key
        \<lparr>sv_Auth = Map.empty, sv_TrustLocal = True, sv_LocalClientKey = ''claude'', sv_AdminToken = ''''\<rparr>
        demo_history '''' ''s'' 1) 3 c) = Inr [change (demo_change 1 ''tea''), change (demo_change 3 '''')]"
proof -
  let ?au = "\<lparr>sv_Auth = Map.empty, sv_TrustLocal = True, sv_LocalClientKey = ''claude'', sv_AdminToken = ''''\<rparr>"
  let ?p = "\<lparr>pn_Key = ''claude'', pn_Type = PrincipalMCP, pn_MCPCapabilities = [], pn_IngestCapabilities = []\<rparr>"
  let ?scope = "\<lparr>ss_SessionID = ''s'', ss_ClientKey = ''claude'', ss_ProjectKey = ''tea''\<rparr>"
  have auth: "authenticate (\<lambda>s. s) ?au '''' ''CONTEXT_READ'' = Inr ?p" by (simp add: authenticate_def)
  have scope: "sessionScope demo_history (pn_Key ?p) ''s'' = Inr ?scope"
    by (simp add: sessionScope_def ResolveSession_def demo_history_def zero_session_def)
  have trim: "trim_space ''s'' \<noteq> ''''" by code_simp
  have ok: "project_cursors_ok unary_cursors demo_key (ss_ProjectKey ?scope)" using unary_cursors_ok by simp
  have sorted: "sorted_wrt (<) (map cr_RevisionNumber (st_continuity demo_history))"
    by (simp add: demo_history_def demo_change_def)
  obtain c where c: "c \<noteq> ''''" "diff_start unary_cursors demo_key ?scope c = Inr 0"
    using project_cursor [OF ok, of 0] by auto
  have "take (3 * nat 1) (pending demo_history (ss_ProjectKey ?scope) 0) = [demo_change 1 ''tea'', demo_change 3 '''']"
    by (simp add: pending_def demo_history_def demo_change_def continuity_visible_def)
  then show ?thesis using diff_reads_everything [OF auth scope trim _ _ ok sorted c, of 1 3] by auto
qed

end
