(* ===== verification/Passive_Learner.thy ===== *)
theory Passive_Learner
  imports Server_Machine
begin

text \<open>
  The passive learner of \<open>lite/learner.go\<close>: archived user turns that carry an explicit cue are proposed as
  memories on the path of every other mutation.  The messages and links of the store are listed in the
  order of the scan; each proposal has the surroundings of its own call.
\<close>

section \<open>Candidates\<close>

record learner_candidate =
  lc_sessionID :: go_string
  lc_messageID :: go_string
  lc_content :: go_string
  lc_occurredAt :: time

record learner_outcome =
  lo_MemoryID :: go_string
  lo_ProposalID :: go_string
  lo_Outcome :: go_string
  lo_Reason :: go_string

record learner_summary =
  ls_Scanned :: nat
  ls_Applied :: nat
  ls_Staged :: nat
  ls_Skipped :: nat
  ls_Failed :: nat
  ls_Outcomes :: "learner_outcome list"

definition newest_candidate :: "learner_candidate \<Rightarrow> learner_candidate \<Rightarrow> bool" where
  "newest_candidate a b =
     (if lc_occurredAt a \<noteq> lc_occurredAt b then lc_occurredAt a > lc_occurredAt b
      else bytes_less (lc_messageID b) (lc_messageID a))"

definition learner_eligible :: "message_row \<Rightarrow> bool" where
  "learner_eligible row \<longleftrightarrow> ms_Role row = ''user'' \<and> ms_Sensitivity row = ''NORMAL'' \<and> \<not> ms_SecretLike row \<and> \<not> ms_InstructionLike row"

definition candidate_of :: "message_row \<Rightarrow> learner_candidate" where
  "candidate_of row = \<lparr>lc_sessionID = ms_SessionID row, lc_messageID = ms_MessageID row,
     lc_content = ms_Content row, lc_occurredAt = ms_OccurredAt row\<rparr>"

text \<open>The query of the index applies the limit before the policy, newest message first.\<close>

definition LearnerMessages :: "message_row list \<Rightarrow> evidence_row list \<Rightarrow> nat \<Rightarrow> learner_candidate list" where
  "LearnerMessages messages evidence limit =
     map candidate_of (filter learner_eligible
       (take limit (sort_by (\<lambda>a b. ms_MessageSeq a > ms_MessageSeq b)
         (filter (\<lambda>row. ms_Role row = ''user'' \<and> ms_MessageID row \<notin> er_MessageID ` set evidence) messages))))"

definition eligibleLearnerMessages :: "bool \<Rightarrow> message_row list \<Rightarrow> evidence_row list \<Rightarrow> nat \<Rightarrow> learner_candidate list" where
  "eligibleLearnerMessages lowRAM messages evidence limit =
     (if lowRAM then LearnerMessages messages evidence limit
      else take limit (sort_by newest_candidate (map candidate_of
        (filter (\<lambda>row. learner_eligible row \<and> ms_MessageID row \<notin> er_MessageID ` set evidence) messages))))"

section \<open>Proposing\<close>

text \<open>The leading cue is looked for in the lower-cased text and cut off the original by its length; the
  letters of these prefixes have no lower-case form longer than themselves.\<close>

definition subject_prefixes :: "go_string list" where
  "subject_prefixes =
     [''remember that '', ''remember '', ''i want '', ''i prefer '', ''my goal is '', ''my preference is '',
      [CHR 0xE8, CHR 0xAE, CHR 0xB0, CHR 0xE4, CHR 0xBD, CHR 0x8F, CHR 0x20], [CHR 0xE8, CHR 0xAE, CHR 0xB0, CHR 0xE4, CHR 0xB8, CHR 0x80, CHR 0xE4, CHR 0xB8,
         CHR 0x8B, CHR 0x20], [CHR 0xE5, CHR 0x88, CHR 0xAB, CHR 0xE5, CHR 0xBF, CHR 0x98, CHR 0xE4, CHR 0xBA,
         CHR 0x86], [CHR 0xE4, CHR 0xBB, CHR 0xA5, CHR 0xE5, CHR 0x90, CHR 0x8E, CHR 0x20], [CHR 0xE6, CHR 0x88, CHR 0x91, CHR 0xE7, CHR 0x9A, CHR 0x84, CHR 0xE7, CHR 0x9B,
         CHR 0xAE, CHR 0xE6, CHR 0xA0, CHR 0x87, CHR 0xE6, CHR 0x98, CHR 0xAF], [CHR 0xE6, CHR 0x88, CHR 0x91, CHR 0xE5, CHR 0x81, CHR 0x8F, CHR 0xE5, CHR 0xA5,
         CHR 0xBD], [CHR 0xE6, CHR 0x88, CHR 0x91, CHR 0xE5, CHR 0x96, CHR 0x9C, CHR 0xE6, CHR 0xAC,
         CHR 0xA2], [CHR 0xE5, CHR 0xBF, CHR 0x85, CHR 0xE9, CHR 0xA1, CHR 0xBB, CHR 0xE8, CHR 0xAE,
         CHR 0xB0, CHR 0xE4, CHR 0xBD, CHR 0x8F], [CHR 0xE5, CHR 0x8A, CHR 0xA1, CHR 0xE5, CHR 0xBF, CHR 0x85, CHR 0xE8, CHR 0xAE,
         CHR 0xB0, CHR 0xE4, CHR 0xBD, CHR 0x8F], [CHR 0xE4, CHR 0xBC, CHR 0x98, CHR 0xE5, CHR 0x85, CHR 0x88]]"

definition deriveSubject :: "go_string \<Rightarrow> go_string" where
  "deriveSubject content =
     (let text = trim_space content; lower = to_lower text;
          text = (case find (has_prefix lower) subject_prefixes of
            Some p \<Rightarrow> trim_space (drop (length p) text) | None \<Rightarrow> text) in
      if length (runes text) > 48 then utf8 (take 48 (runes text)) else text)"

definition skipped :: "go_string \<Rightarrow> learner_outcome" where
  "skipped reason = \<lparr>lo_MemoryID = '''', lo_ProposalID = '''', lo_Outcome = ''SKIPPED'', lo_Reason = reason\<rparr>"

definition learner_request :: "learner_candidate \<Rightarrow> api_mutation" where
  "learner_request c =
     \<lparr>ap_SessionID = lc_sessionID c, ap_MessageID = lc_messageID c, ap_Mutation = MutationRemember,
      ap_MemoryKind = KindUserPreference, ap_Scope = ScopeGlobal, ap_Subject = deriveSubject (trim_space (lc_content c)),
      ap_EvidenceQuote = trim_space (lc_content c), ap_TargetMemoryID = '''', ap_Replacement = ''''\<rparr>"

definition learnerPropose ::
    "env \<Rightarrow> store \<Rightarrow> go_string \<Rightarrow> learner_candidate \<Rightarrow> ambient \<Rightarrow> store \<times> (go_error + learner_outcome)" where
  "learnerPropose env s principalKey c am =
     (let content = trim_space (lc_content c) in
      if content = '''' \<or> \<not> HasCue MutationRemember content then (s, Inr (skipped ''NO_CUE''))
      else if \<not> SubjectOverlaps (deriveSubject content) content then (s, Inr (skipped ''SUBJECT_NOT_GROUNDED''))
      else (case applyMutationAllowOld env s principalKey (learner_request c) am of
              (s, Inl err) \<Rightarrow> (s, Inl err)
            | (s, Inr r) \<Rightarrow> (s, Inr \<lparr>lo_MemoryID = mu_MemoryID r, lo_ProposalID = mu_ProposalID r,
                lo_Outcome = mu_Outcome r, lo_Reason = mu_ReasonCode r\<rparr>)))"

text \<open>One turn of the loop over the summary.\<close>

definition count_outcome :: "go_error + learner_outcome \<Rightarrow> learner_summary \<Rightarrow> learner_summary" where
  "count_outcome r sm =
     (case r of
        Inl err \<Rightarrow> sm\<lparr>ls_Failed := ls_Failed sm + 1, ls_Outcomes := ls_Outcomes sm @
          [\<lparr>lo_MemoryID = '''', lo_ProposalID = '''', lo_Outcome = ''FAILED'', lo_Reason = Error_text err\<rparr>]\<rparr>
      | Inr o' \<Rightarrow>
          (let sm = sm\<lparr>ls_Outcomes := ls_Outcomes sm @ [o']\<rparr> in
           if lo_Outcome o' = ''APPLIED'' then sm\<lparr>ls_Applied := ls_Applied sm + 1\<rparr>
           else if lo_Outcome o' = ''STAGED'' then sm\<lparr>ls_Staged := ls_Staged sm + 1\<rparr>
           else sm\<lparr>ls_Skipped := ls_Skipped sm + 1\<rparr>))"

fun learner_loop ::
    "env \<Rightarrow> go_string \<Rightarrow> (learner_candidate \<Rightarrow> ambient) \<Rightarrow> store \<Rightarrow> learner_summary \<Rightarrow> learner_candidate list \<Rightarrow> store \<times> learner_summary" where
  "learner_loop env key ams s sm [] = (s, sm)"
| "learner_loop env key ams s sm (c # cs) =
     (case learnerPropose env s key c (ams c) of
        (s', r) \<Rightarrow> learner_loop env key ams s' (count_outcome r sm) cs)"

definition learner_limit :: "int \<Rightarrow> nat" where
  "learner_limit maxMessages = (if maxMessages \<le> 0 \<or> maxMessages > 500 then 50 else nat maxMessages)"

definition LearnerExtract ::
    "env \<Rightarrow> store \<Rightarrow> principal \<Rightarrow> int \<Rightarrow> message_row list \<Rightarrow> evidence_row list \<Rightarrow> (learner_candidate \<Rightarrow> ambient) \<Rightarrow>
     store \<times> (go_error + learner_summary)" where
  "LearnerExtract env s p maxMessages messages evidence ams =
     (if pn_Type p \<noteq> PrincipalMCP \<or> pn_Key p = '''' then (s, Inl (app MemoryProposalInvalid))
      else
        (let cs = eligibleLearnerMessages (st_lowRAM s) messages evidence (learner_limit maxMessages);
             (s, sm) = learner_loop env (pn_Key p) ams s
               \<lparr>ls_Scanned = length cs, ls_Applied = 0, ls_Staged = 0, ls_Skipped = 0, ls_Failed = 0, ls_Outcomes = []\<rparr> cs in
         (s, Inr sm)))"

definition adminLearnerExtract ::
    "env \<Rightarrow> server_auth \<Rightarrow> store \<Rightarrow> go_string \<Rightarrow> go_string \<Rightarrow> int option \<Rightarrow> message_row list \<Rightarrow> evidence_row list \<Rightarrow>
     (learner_candidate \<Rightarrow> ambient) \<Rightarrow> store \<times> (go_error + learner_summary)" where
  "adminLearnerExtract env sv s learnerKey token requested messages evidence ams =
     (if \<not> adminAuthorized sv token then (s, Inl (app AuthRequired))
      else
        (let limit = (case requested of Some n \<Rightarrow> if n > 0 \<and> n \<le> 500 then n else 50 | None \<Rightarrow> 50) in
         case LearnerExtract env s \<lparr>pn_Key = learnerKey, pn_Type = PrincipalMCP, pn_MCPCapabilities = [], pn_IngestCapabilities = []\<rparr>
                limit messages evidence ams of
           (s, Inl _) \<Rightarrow> (s, Inl (app InternalError))
         | (s, Inr sm) \<Rightarrow> (s, Inr sm)))"

section \<open>What a pass does\<close>

text \<open>Every candidate is counted once.\<close>

definition counted :: "learner_summary \<Rightarrow> nat" where
  "counted sm = ls_Applied sm + ls_Staged sm + ls_Skipped sm + ls_Failed sm"

lemma counted_outcome:
  "counted (count_outcome r sm) = counted sm + 1" "length (ls_Outcomes (count_outcome r sm)) = length (ls_Outcomes sm) + 1"
  "ls_Scanned (count_outcome r sm) = ls_Scanned sm"
  by (auto simp: counted_def count_outcome_def Let_def split: sum.split)

lemma learner_loop_counts:
  "learner_loop env key ams s sm cs = (s', sm') \<Longrightarrow>
     counted sm' = counted sm + length cs \<and> length (ls_Outcomes sm') = length (ls_Outcomes sm) + length cs \<and> ls_Scanned sm' = ls_Scanned sm"
  by (induction cs arbitrary: s sm) (auto simp: counted_outcome split: prod.splits)

text \<open>The proposals of a pass are steps of the server, on candidates within the limit.\<close>

lemma learnerPropose_step:
  assumes "server_run env sv s0 s" "clean am"
  shows "server_run env sv s0 (fst (learnerPropose env s key c am))"
proof -
  have "server_run env sv s0 (fst (applyMutationAllowOld env s key (learner_request c) am))"
    using assms by (blast intro: serve_next serve_learner)
  then show ?thesis using assms(1)
    by (cases "applyMutationAllowOld env s key (learner_request c) am") (auto simp: learnerPropose_def Let_def split: sum.split)
qed

lemma learner_loop_run:
  assumes "\<forall>c. clean (ams c)"
  shows "server_run env sv s0 s \<Longrightarrow> server_run env sv s0 (fst (learner_loop env key ams s sm cs))"
proof (induction cs arbitrary: s sm)
  case (Cons c cs)
  then show ?case
    using learnerPropose_step [OF Cons.prems, of "ams c" key c] assms by (auto split: prod.split)
qed simp

lemma eligible_bounded: "length (eligibleLearnerMessages lowRAM messages evidence limit) \<le> limit"
proof (cases lowRAM)
  case True
  have "length (filter P (take limit xs)) \<le> limit" for P :: "message_row \<Rightarrow> bool" and xs
    by (rule order.trans [OF length_filter_le]) simp
  then show ?thesis using True by (simp add: eligibleLearnerMessages_def LearnerMessages_def)
qed (simp add: eligibleLearnerMessages_def)

text \<open>A message that is not the latest of its session is staged at most.\<close>

lemma proposals_only_trans: "proposals_only s s' \<Longrightarrow> proposals_only s' s'' \<Longrightarrow> proposals_only s s''"
  unfolding proposals_only_def by (metis (no_types, lifting) store.surjective store.update_convs(6) store.update_convs(7))

lemma learnerPropose_old:
  assumes "LatestUserMessageID (lc_sessionID c) (am_userRows am) \<noteq> Inr (lc_messageID c)"
  shows "proposals_only s (fst (learnerPropose env s key c am))"
proof -
  have "\<not> gate_passed env s key (learner_request c) am session ev target" for session ev target
    using assms gate_passed_authorised [of env s key "learner_request c" am]
    by (auto simp: authorised_change_def learner_request_def)
  then have "proposals_only s (fst (applyMutationAllowOld env s key (learner_request c) am))"
    using applyMutationInternal_cases [of env s key "learner_request c" True am]
    by (metis applyMutationAllowOld_def prod.collapse)
  then show ?thesis
    by (cases "applyMutationAllowOld env s key (learner_request c) am") (auto simp: learnerPropose_def Let_def split: sum.split)
qed

lemma learner_loop_old:
  "\<forall>c \<in> set cs. LatestUserMessageID (lc_sessionID c) (am_userRows (ams c)) \<noteq> Inr (lc_messageID c) \<Longrightarrow>
     proposals_only s (fst (learner_loop env key ams s sm cs))"
proof (induction cs arbitrary: s sm)
  case (Cons c cs)
  obtain s' r where p: "learnerPropose env s key c (ams c) = (s', r)" by (rule prod.exhaust)
  have "proposals_only s s'" using learnerPropose_old [of c "ams c" s env key] Cons.prems p by simp
  moreover have "proposals_only s' (fst (learner_loop env key ams s' sm' cs))" for sm' using Cons by simp
  ultimately show ?case using p by (auto intro: proposals_only_trans)
qed simp

text \<open>C25: a pass of the learner is a sequence of steps of the server; it looks at no more messages than its
  limit and counts each of them once, as applied, staged, skipped or failed; and if none of them is the
  latest user turn of its session, it changes nothing but the list of proposals.\<close>

theorem learner_pass:
  assumes "server_run env sv s0 s" "\<forall>c. clean (ams c)" "LearnerExtract env s p n messages evidence ams = (s', Inr sm)"
  shows "server_run env sv s0 s' \<and> counted sm = ls_Scanned sm \<and> length (ls_Outcomes sm) = ls_Scanned sm \<and>
    ls_Scanned sm \<le> learner_limit n \<and>
    ((\<exists>c \<in> set (eligibleLearnerMessages (st_lowRAM s) messages evidence (learner_limit n)).
        LatestUserMessageID (lc_sessionID c) (am_userRows (ams c)) = Inr (lc_messageID c)) \<or> proposals_only s s')"
proof -
  let ?cs = "eligibleLearnerMessages (st_lowRAM s) messages evidence (learner_limit n)"
  let ?sm = "\<lparr>ls_Scanned = length ?cs, ls_Applied = 0, ls_Staged = 0, ls_Skipped = 0, ls_Failed = 0, ls_Outcomes = []\<rparr>"
  have loop: "learner_loop env (pn_Key p) ams s ?sm ?cs = (s', sm)"
    using assms(3) by (auto simp: LearnerExtract_def Let_def split: if_splits prod.splits)
  have "server_run env sv s0 s'" using learner_loop_run [OF assms(2,1), of "pn_Key p" ?sm ?cs] loop by simp
  moreover have "counted sm = ls_Scanned sm" "length (ls_Outcomes sm) = ls_Scanned sm" "ls_Scanned sm \<le> learner_limit n"
    using learner_loop_counts [OF loop] eligible_bounded by (auto simp: counted_def)
  moreover have "proposals_only s s'"
    if "\<not> (\<exists>c \<in> set ?cs. LatestUserMessageID (lc_sessionID c) (am_userRows (ams c)) = Inr (lc_messageID c))"
    using learner_loop_old [of ?cs ams s env "pn_Key p" ?sm] that loop by auto
  ultimately show ?thesis by blast
qed

definition hello_row :: message_row where
  "hello_row =
     \<lparr>ms_SchemaVersion = 4, ms_MessageID = ''m1'', ms_SessionID = ''s'', ms_ExternalMessageID = '''', ms_Role = ''user'',
      ms_ContentType = ''text/plain'', ms_Content = ''hello'', ms_ContentHash = '''', ms_ExactContentHash = '''',
      ms_MessageSeq = 1, ms_TurnSeq = 1, ms_OccurredAt = 5, ms_CreatedAt = 5, ms_SecretLike = False,
      ms_InstructionLike = False, ms_Sensitivity = ''NORMAL'', ms_AssistantID = '''', ms_AssistantName = '''',
      ms_PreviousRecordHash = '''', ms_RecordHash = ''''\<rparr>"

definition quiet :: ambient where
  "quiet = \<lparr>am_userRows = [], am_eligibleRows = Inr [], am_proposalID = '''', am_memoryID = '''', am_eventID = '''',
     am_continuityID = '''', am_traceID = '''', am_stageTime = 0, am_updateTime = 0, am_commitTime = 0, am_rejectTime = 0,
     am_stageWritten = True, am_append = Appended, am_flush = None\<rparr>"

theorem learner_pass_witness:
  "\<forall>env sv. \<exists>sm. LearnerExtract env (empty_store ''k'') \<lparr>pn_Key = ''claude'', pn_Type = PrincipalMCP, pn_MCPCapabilities = [],
       pn_IngestCapabilities = []\<rparr> 10 [hello_row] [] (\<lambda>_. quiet) = (empty_store ''k'', Inr sm) \<and>
     server_run env sv (empty_store ''k'') (empty_store ''k'') \<and> counted sm = ls_Scanned sm"
proof (intro allI)
  fix env sv
  let ?p = "\<lparr>pn_Key = ''claude'', pn_Type = PrincipalMCP, pn_MCPCapabilities = [], pn_IngestCapabilities = []\<rparr>"
  have skip: "learnerPropose env (empty_store ''k'') ''claude'' (candidate_of hello_row) quiet = (empty_store ''k'', Inr (skipped ''NO_CUE''))"
  proof -
    have "trim_space ''hello'' = ''hello''" "HasCue MutationRemember ''hello'' = False" by code_simp+
    then show ?thesis by (simp add: learnerPropose_def candidate_of_def hello_row_def)
  qed
  have one: "eligibleLearnerMessages (st_lowRAM (empty_store ''k'')) [hello_row] [] (learner_limit 10) = [candidate_of hello_row]"
    by (simp add: eligibleLearnerMessages_def empty_store_def learner_limit_def sort_by_def learner_eligible_def hello_row_def)
  obtain sm where sm: "LearnerExtract env (empty_store ''k'') ?p 10 [hello_row] [] (\<lambda>_. quiet) = (empty_store ''k'', Inr sm)"
    by (simp add: LearnerExtract_def one skip)
  from learner_pass [OF serve_none _ sm, of sv] have "counted sm = ls_Scanned sm" by (simp add: clean_def quiet_def)
  then show "\<exists>sm. LearnerExtract env (empty_store ''k'') ?p 10 [hello_row] [] (\<lambda>_. quiet) = (empty_store ''k'', Inr sm) \<and>
      server_run env sv (empty_store ''k'') (empty_store ''k'') \<and> counted sm = ls_Scanned sm"
    using sm serve_none by blast
qed

end
