(* ===== verification/Ops_Journal.thy ===== *)
theory Ops_Journal
  imports Go_Sort Http_Api Vector_Store
begin

text \<open>
  The operations journal of \<open>lite/ops.go\<close>: events appended to a file, and the searches kept in a ring of
  the last 512, which \<open>Recent\<close> merges by time; and the check of diagnostic events of \<open>debugnode/event.go\<close>.
  The JSON codec is a parameter.
\<close>

section \<open>The journal\<close>

record ops_event =
  oe_Time :: go_string
  oe_Event :: go_string
  oe_Principal :: go_string
  oe_SessionID :: go_string
  oe_Outcome :: go_string
  oe_Reason :: go_string
  oe_ResourceID :: go_string
  oe_DurationMS :: int
  oe_Details :: go_string

record ops_log =
  ol_open :: bool
  ol_bytes :: go_string
  ol_ring :: "ops_event list"
  ol_ringAt :: nat
  ol_ringN :: nat
  ol_events :: nat

definition opsRingCapacity :: nat where "opsRingCapacity = 512"
definition opsMaxFileBytes :: nat where "opsMaxFileBytes = 8 * 2 ^ 20"

definition zero_ops_event :: ops_event where
  "zero_ops_event = \<lparr>oe_Time = '''', oe_Event = '''', oe_Principal = '''', oe_SessionID = '''', oe_Outcome = '''', oe_Reason = '''',
     oe_ResourceID = '''', oe_DurationMS = 0, oe_Details = ''''\<rparr>"

definition OpenOps :: "go_string \<Rightarrow> ops_log" where
  "OpenOps existing = \<lparr>ol_open = True, ol_bytes = existing, ol_ring = [], ol_ringAt = 0, ol_ringN = 0, ol_events = 0\<rparr>"

definition pushRing :: "ops_log \<Rightarrow> ops_event \<Rightarrow> ops_log" where
  "pushRing o' e =
     (let ring = (if length (ol_ring o') \<noteq> opsRingCapacity then replicate opsRingCapacity zero_ops_event else ol_ring o') in
      o'\<lparr>ol_ring := ring[ol_ringAt o' := e], ol_ringAt := (ol_ringAt o' + 1) mod opsRingCapacity,
         ol_ringN := (if ol_ringN o' < opsRingCapacity then ol_ringN o' + 1 else ol_ringN o')\<rparr>)"

text \<open>\<open>Record\<close>; \<open>now\<close> is the rendered clock, \<open>written\<close> the number of bytes the write got to the file.\<close>

definition ops_Record :: "(ops_event \<Rightarrow> go_string option) \<Rightarrow> ops_log \<Rightarrow> ops_event \<Rightarrow> go_string \<Rightarrow> nat \<Rightarrow> ops_log" where
  "ops_Record json o' e now written =
     (if \<not> ol_open o' then o'
      else
        (let e = (if oe_Time e = '''' then e\<lparr>oe_Time := now\<rparr> else e) in
         if oe_Event e = ''SEARCH'' then pushRing o' e
         else case json e of
           None \<Rightarrow> o'
         | Some line \<Rightarrow>
             (let bytes = (if length (ol_bytes o') > opsMaxFileBytes then '''' else ol_bytes o') in
              o'\<lparr>ol_bytes := bytes @ take written (line @ [newline]), ol_events := ol_events o' + 1\<rparr>)))"

definition ops_Close :: "ops_log \<Rightarrow> ops_log" where
  "ops_Close o' = o'\<lparr>ol_open := False\<rparr>"

text \<open>The ring read from its oldest entry.\<close>

definition ring_events :: "ops_log \<Rightarrow> ops_event list" where
  "ring_events o' =
     (if ol_ringN o' > 0
      then
        (let start = int (ol_ringAt o') - int (ol_ringN o');
             start = nat (if start < 0 then start + int opsRingCapacity else start) in
         map (\<lambda>i. ol_ring o' ! ((start + i) mod opsRingCapacity)) [0..<ol_ringN o'])
      else [])"

text \<open>The events of the file: the scanner refuses a line of 4 MiB or more, empty lines and lines that do
  not decode are passed over.\<close>

definition ops_lines :: "(go_string \<Rightarrow> ops_event option) \<Rightarrow> go_string \<Rightarrow> ops_event list res" where
  "ops_lines unjson bytes =
     (if list_ex (\<lambda>l. length l \<ge> 4 * 2 ^ 20) (split_newline bytes) then Inl ''bufio.Scanner: token too long''
      else Inr (List.map_filter unjson (filter (\<lambda>l. l \<noteq> []) (map drop_cr (split_newline bytes)))))"

definition ops_Recent :: "(go_string \<Rightarrow> ops_event option) \<Rightarrow> ops_log \<Rightarrow> int \<Rightarrow> ops_event list res" where
  "ops_Recent unjson o' n =
     bindE (ops_lines unjson (ol_bytes o')) (\<lambda>persisted.
       (let all = sort_by (\<lambda>a b. bytes_less (oe_Time a) (oe_Time b)) (persisted @ ring_events o');
            n = (if n \<le> 0 \<or> n > int (length all) then length all else nat n) in
        Inr (drop (length all - n) all)))"

definition adminOps ::
    "(go_string \<Rightarrow> go_string) \<Rightarrow> (go_string \<Rightarrow> ops_event option) \<Rightarrow> server_auth \<Rightarrow> ops_log \<Rightarrow> go_string \<Rightarrow> go_string \<Rightarrow> int option \<Rightarrow>
     go_error + ops_event list" where
  "adminOps sha unjson sv o' token header requested =
     (if \<not> adminAuthorized sv token \<and> (case authenticate sha sv header ''OPS_READ'' of Inl _ \<Rightarrow> True | Inr _ \<Rightarrow> False)
      then Inl (app AuthRequired)
      else
        (let limit = (case requested of Some n \<Rightarrow> if n > 0 \<and> n \<le> 500 then n else 50 | None \<Rightarrow> 50) in
         case ops_Recent unjson o' limit of Inl _ \<Rightarrow> Inl (app InternalError) | Inr es \<Rightarrow> Inr es))"

section \<open>Diagnostic events\<close>

record debug_event =
  de_Node :: go_string
  de_TraceID :: go_string
  de_Status :: go_string
  de_ReasonCode :: go_string
  de_ResourceID :: go_string
  de_ContentHash :: go_string
  de_Tool :: go_string

text \<open>The pattern admits up to 256 letters, digits and \<open>_.:/-\<close>.\<close>

definition safe_char :: "char \<Rightarrow> bool" where
  "safe_char c \<longleftrightarrow> (let n = (of_char c :: nat) in
     65 \<le> n \<and> n \<le> 90 \<or> 97 \<le> n \<and> n \<le> 122 \<or> 48 \<le> n \<and> n \<le> 57 \<or> n \<in> {95, 46, 58, 47, 45})"

definition safeMetadata :: "go_string \<Rightarrow> bool" where
  "safeMetadata v \<longleftrightarrow> length v \<le> 256 \<and> list_all safe_char v"

definition debug_Validate :: "debug_event \<Rightarrow> unit res" where
  "debug_Validate e =
     (if de_Node e = '''' \<or> trim_space (de_Status e) = '''' \<or> \<not> safeMetadata (de_Node e) \<or> \<not> safeMetadata (de_Status e)
      then Inl ''debug node and status are required''
      else if list_ex (\<lambda>v. CHR 0x0D \<in> set v \<or> CHR 0x0A \<in> set v \<or> \<not> safeMetadata v)
          [de_TraceID e, de_ReasonCode e, de_ResourceID e, de_ContentHash e, de_Tool e]
      then Inl ''debug metadata is malformed'' else Inr ())"

section \<open>The ring is the last 512 searches\<close>

text \<open>A ring in use: as many slots as its capacity, the next slot within it, and all of the older slots
  before it until it is full.\<close>

definition ring_ok :: "ops_log \<Rightarrow> bool" where
  "ring_ok o' \<longleftrightarrow>
     (ol_ringN o' = 0 \<and> ol_ringAt o' = 0 \<or> length (ol_ring o') = opsRingCapacity) \<and>
     ol_ringAt o' < opsRingCapacity \<and> ol_ringN o' \<le> opsRingCapacity \<and>
     (ol_ringN o' = opsRingCapacity \<or> ol_ringAt o' = ol_ringN o')"

lemma capacity_pos [simp]: "0 < opsRingCapacity" "opsRingCapacity \<noteq> 0"
  by (simp_all add: opsRingCapacity_def)

text \<open>The slots of the ring, oldest first.\<close>

lemma ring_events_not_full:
  "ring_ok o' \<Longrightarrow> ol_ringN o' < opsRingCapacity \<Longrightarrow> ring_events o' = take (ol_ringN o') (ol_ring o')"
  by (rule nth_equalityI) (auto simp: ring_events_def ring_ok_def Let_def)

lemma ring_events_full:
  assumes "ring_ok o'" "ol_ringN o' = opsRingCapacity"
  shows "ring_events o' = drop (ol_ringAt o') (ol_ring o') @ take (ol_ringAt o') (ol_ring o')"
proof -
  have slots: "length (ol_ring o') = opsRingCapacity" "ol_ringAt o' < opsRingCapacity" using assms by (auto simp: ring_ok_def)
  have start: "nat (if int (ol_ringAt o') - int opsRingCapacity < 0 then int (ol_ringAt o') - int opsRingCapacity + int opsRingCapacity
      else int (ol_ringAt o') - int opsRingCapacity) = ol_ringAt o'"
    using slots(2) by simp
  have "ring_events o' = map (\<lambda>i. ol_ring o' ! ((ol_ringAt o' + i) mod opsRingCapacity)) [0..<opsRingCapacity]"
    unfolding ring_events_def Let_def assms(2) start by simp
  also have "\<dots> = drop (ol_ringAt o') (ol_ring o') @ take (ol_ringAt o') (ol_ring o')"
    using slots by (intro nth_equalityI) (auto simp: nth_append mod_if add.commute)
  finally show ?thesis .
qed

lemma pushRing_slots:
  assumes "ring_ok o'"
  shows "length (ol_ring (pushRing o' e)) = opsRingCapacity"
    and "ol_ringAt (pushRing o' e) = (ol_ringAt o' + 1) mod opsRingCapacity"
    and "ol_ringN (pushRing o' e) = min opsRingCapacity (ol_ringN o' + 1)"
  using assms by (auto simp: pushRing_def Let_def ring_ok_def min_def)

lemma pushRing_ok:
  assumes "ring_ok o'"
  shows "ring_ok (pushRing o' e)"
  using assms unfolding ring_ok_def pushRing_slots [OF assms] by (auto simp: min_def mod_if)

lemma take_Suc_update: "n < length xs \<Longrightarrow> take (Suc n) (xs[n := x]) = take n xs @ [x]"
  by (simp add: take_Suc_conv_app_nth)

lemma pushRing_events_filling:
  assumes "ring_ok o'" "ol_ringN o' < opsRingCapacity"
  shows "ring_events (pushRing o' e) = ring_events o' @ [e]"
proof -
  define ring where "ring = (if length (ol_ring o') \<noteq> opsRingCapacity then replicate opsRingCapacity zero_ops_event else ol_ring o')"
  have n: "ol_ringAt o' = ol_ringN o'" "length ring = opsRingCapacity" using assms by (auto simp: ring_ok_def ring_def)
  have old: "ring_events o' = take (ol_ringN o') ring"
    using assms ring_events_not_full [OF assms] by (auto simp: ring_def ring_ok_def)
  have new: "ol_ring (pushRing o' e) = ring[ol_ringN o' := e]" by (simp add: pushRing_def Let_def ring_def n(1))
  note pushed = pushRing_slots [OF assms(1), of e] pushRing_ok [OF assms(1), of e]
  show ?thesis
  proof (cases "ol_ringN o' + 1 < opsRingCapacity")
    case True
    then show ?thesis
      using ring_events_not_full [OF pushed(4)] pushed(3) new old n assms(2) by (simp add: take_Suc_update)
  next
    case False
    then have full: "ol_ringN (pushRing o' e) = opsRingCapacity" "ol_ringAt (pushRing o' e) = 0" "Suc (ol_ringN o') = opsRingCapacity"
      using pushed(2, 3) n(1) assms(2) by (auto simp: Suc_lessI mod_if)
    have "ring_events (pushRing o' e) = take (Suc (ol_ringN o')) (ring[ol_ringN o' := e])"
      unfolding ring_events_full [OF pushed(4) full(1)] full(2) new by (simp add: n(2) full(3))
    then show ?thesis using old n(2) assms(2) by (simp add: take_Suc_update)
  qed
qed

lemma pushRing_events_full:
  assumes "ring_ok o'" "ol_ringN o' = opsRingCapacity"
  shows "ring_events (pushRing o' e) = tl (ring_events o') @ [e]"
proof -
  have len: "length (ol_ring o') = opsRingCapacity" "ol_ringAt o' < opsRingCapacity" using assms by (auto simp: ring_ok_def)
  have new: "ol_ring (pushRing o' e) = (ol_ring o')[ol_ringAt o' := e]" using len(1) by (simp add: pushRing_def Let_def)
  note pushed = pushRing_slots [OF assms(1), of e] pushRing_ok [OF assms(1), of e]
  have n: "ol_ringN (pushRing o' e) = opsRingCapacity" using pushed(3) assms(2) by simp
  have tl_old: "tl (ring_events o') = drop (Suc (ol_ringAt o')) (ol_ring o') @ take (ol_ringAt o') (ol_ring o')"
    using len by (simp add: ring_events_full [OF assms] drop_Suc tl_drop)
  show ?thesis
  proof (cases "Suc (ol_ringAt o') < opsRingCapacity")
    case True
    then show ?thesis
      using ring_events_full [OF pushed(4) n] pushed(2) new tl_old len by (simp add: take_Suc_update)
  next
    case False
    then have at: "Suc (ol_ringAt o') = opsRingCapacity" using len(2) by simp
    have "ring_events (pushRing o' e) = take (Suc (ol_ringAt o')) ((ol_ring o')[ol_ringAt o' := e])"
      using ring_events_full [OF pushed(4) n] pushed(2) new at len(1) by simp
    then have "ring_events (pushRing o' e) = take (ol_ringAt o') (ol_ring o') @ [e]"
      using len by (simp only: take_Suc_update)
    then show ?thesis using tl_old len at by simp
  qed
qed

text \<open>The bounded history the ring stands for: what is pushed goes to the end, and the newest 512 stay.\<close>

definition last_of :: "nat \<Rightarrow> 'a list \<Rightarrow> 'a list" where
  "last_of n xs = drop (length xs - n) xs"

lemma last_of_push: "last_of n (last_of n xs @ [x]) = last_of n (xs @ [x])"
  by (cases "length xs < n") (auto simp: last_of_def Suc_diff_le)

lemma ring_events_length: "length (ring_events o') = ol_ringN o'"
  by (simp add: ring_events_def Let_def)

lemma pushRing_events:
  assumes "ring_ok o'"
  shows "ring_events (pushRing o' e) = last_of opsRingCapacity (ring_events o' @ [e])"
proof (cases "ol_ringN o' < opsRingCapacity")
  case True
  then show ?thesis using pushRing_events_filling [OF assms True] by (simp add: last_of_def ring_events_length)
next
  case False
  then have n: "ol_ringN o' = opsRingCapacity" using assms by (simp add: ring_ok_def)
  have len: "length (ring_events o') = opsRingCapacity" by (simp add: ring_events_length n)
  then have "ring_events o' \<noteq> []" by auto
  then show ?thesis
    using pushRing_events_full [OF assms n, of e] len by (simp add: last_of_def drop_Suc Suc_leI)
qed

section \<open>Recording a history\<close>

type_synonym ops_record = "ops_event \<times> go_string \<times> nat"

definition stamped :: "ops_record \<Rightarrow> ops_event" where
  "stamped r = (case r of (e, now, _) \<Rightarrow> if oe_Time e = '''' then e\<lparr>oe_Time := now\<rparr> else e)"

fun record_all :: "(ops_event \<Rightarrow> go_string option) \<Rightarrow> ops_record list \<Rightarrow> ops_log \<Rightarrow> ops_log" where
  "record_all json [] l = l"
| "record_all json ((e, now, written) # rs) l = record_all json rs (ops_Record json l e now written)"

definition searches :: "ops_record list \<Rightarrow> ops_event list" where
  "searches rs = filter (\<lambda>e. oe_Event e = ''SEARCH'') (map stamped rs)"

lemma ops_Record_search:
  assumes "ol_open l" "oe_Event e = ''SEARCH''"
  shows "ops_Record json l e now written = pushRing l (stamped (e, now, written))"
  using assms by (simp add: ops_Record_def stamped_def)

lemma ops_Record_other:
  assumes "oe_Event e \<noteq> ''SEARCH''"
  shows "ol_ring (ops_Record json l e now written) = ol_ring l"
    and "ol_ringAt (ops_Record json l e now written) = ol_ringAt l"
    and "ol_ringN (ops_Record json l e now written) = ol_ringN l"
    and "ol_open (ops_Record json l e now written) = ol_open l"
  using assms by (simp_all add: ops_Record_def Let_def split: option.split)

lemma ring_view_cong:
  assumes "ol_ring a = ol_ring b" "ol_ringAt a = ol_ringAt b" "ol_ringN a = ol_ringN b"
  shows "ring_ok a = ring_ok b" and "ring_events a = ring_events b"
  using assms by (simp_all add: ring_ok_def ring_events_def)

lemma pushRing_keeps [simp]:
  "ol_open (pushRing l e) = ol_open l" "ol_bytes (pushRing l e) = ol_bytes l" "ol_events (pushRing l e) = ol_events l"
  by (simp_all add: pushRing_def Let_def)

lemma record_all_ring:
  assumes "ring_ok l" "ol_open l" "ring_events l = last_of opsRingCapacity h"
  shows "ring_ok (record_all json rs l) \<and> ring_events (record_all json rs l) = last_of opsRingCapacity (h @ searches rs)"
  using assms
proof (induction rs arbitrary: l h)
  case Nil
  then show ?case by (simp add: searches_def)
next
  case (Cons r rs)
  obtain e now written where r: "r = (e, now, written)" by (cases r) auto
  let ?l = "ops_Record json l e now written"
  show ?case
  proof (cases "oe_Event e = ''SEARCH''")
    case True
    then have l: "?l = pushRing l (stamped r)" by (simp add: ops_Record_search [OF Cons.prems(2)] r)
    have s: "searches (r # rs) = stamped r # searches rs" using True by (simp add: searches_def stamped_def r)
    have "ring_events ?l = last_of opsRingCapacity (h @ [stamped r])"
      by (simp add: l pushRing_events [OF Cons.prems(1)] Cons.prems(3) last_of_push)
    moreover have "ring_ok ?l" "ol_open ?l" by (simp_all add: l pushRing_ok [OF Cons.prems(1)] Cons.prems(2))
    ultimately show ?thesis using Cons.IH [of ?l "h @ [stamped r]"] by (simp add: r s [unfolded r])
  next
    case False
    then have s: "searches (r # rs) = searches rs" by (simp add: searches_def stamped_def r)
    note same = ops_Record_other [OF False, of json l now written]
    show ?thesis using Cons.IH [of ?l h] Cons.prems ring_view_cong [OF same(1-3)] same(4) by (simp add: r s [unfolded r])
  qed
qed

text \<open>The in-memory ring of \<open>ops.go\<close> is a faithful bounded history.
  After any sequence of \<open>Record\<close> calls on a freshly opened journal, whatever else was recorded between them
  and however the file writes went, the entries \<open>Recent\<close> reads from the ring are exactly the last 512
  recorded searches, oldest first.\<close>

theorem ring_refines_history:
  "ring_events (record_all json rs (OpenOps existing)) = last_of opsRingCapacity (searches rs)"
proof -
  have "ring_ok (OpenOps existing)" "ol_open (OpenOps existing)" "ring_events (OpenOps existing) = last_of opsRingCapacity []"
    by (simp_all add: OpenOps_def ring_ok_def ring_events_def last_of_def)
  from record_all_ring [OF this] show ?thesis by simp
qed

end
