(* ===== verification/Provider.thy ===== *)
theory Provider
  imports Go_Sort Go_Text Vector_Format
begin

text \<open>
  Embedding providers: the contract of \<open>lite/provider_contract.go\<close> with its certification, and the two
  clients of \<open>lite/embed.go\<close>, which send texts in batches of sixteen.  The HTTP exchange is a
  parameter that answers a request; so are \<open>url.Parse\<close> with \<open>Hostname\<close> and the test for loopback addresses.
\<close>

section \<open>The contract\<close>

record provider_contract =
  pv_ContractVersion :: go_string
  pv_Provider :: go_string
  pv_Surface :: go_string
  pv_Locality :: go_string
  pv_ModelName :: go_string
  pv_ModelDigest :: go_string
  pv_Dimensions :: int
  pv_SupportsSemantic :: bool
  pv_SupportsBatch :: bool
  pv_MaximumBatchSize :: int
  pv_SendsContentOffDevice :: bool
  pv_ReadsCanonical :: bool
  pv_MutatesCanonical :: bool

definition RetrievalProviderContractVersion :: go_string where
  "RetrievalProviderContractVersion = ''mindmory.retrieval-provider/v1''"

definition contract_Validate :: "provider_contract \<Rightarrow> unit res" where
  "contract_Validate c =
     (if pv_ContractVersion c \<noteq> RetrievalProviderContractVersion then Inl ''retrieval provider contract version is unsupported''
      else if trim_space (pv_Provider c) = '''' \<or> trim_space (pv_ModelName c) = ''''
      then Inl ''retrieval provider and model identity are required''
      else if pv_Surface c \<noteq> ''embedding'' then Inl ''retrieval provider surface is unsupported''
      else if pv_Locality c \<noteq> ''local'' \<and> pv_Locality c \<noteq> ''remote'' then Inl ''retrieval provider locality is unsupported''
      else if \<not> pv_SupportsSemantic c \<or> \<not> pv_SupportsBatch c \<or> pv_MaximumBatchSize c < 1 \<or> pv_MaximumBatchSize c > 1024
      then Inl ''retrieval provider capabilities are incomplete''
      else if pv_Dimensions c < 0 \<or> pv_Dimensions c > 65536 then Inl ''retrieval provider dimensions are invalid''
      else if pv_ReadsCanonical c \<or> pv_MutatesCanonical c then Inl ''retrieval providers may not access canonical authority''
      else if pv_Locality c = ''remote'' \<and> \<not> pv_SendsContentOffDevice c
      then Inl ''remote retrieval providers must declare content disclosure''
      else if pv_Locality c = ''local'' \<and> pv_SendsContentOffDevice c
      then Inl ''local retrieval providers cannot declare remote disclosure''
      else Inr ())"

text \<open>The interface \<open>Embedder\<close>; a provider without \<open>ModelName\<close> is called unknown.\<close>

record provider =
  pr_contract :: provider_contract
  pr_ModelName :: "go_string option"
  pr_ModelDigest :: "go_string option"
  pr_Embed :: "go_string list \<Rightarrow> float32 list list res"

definition embeddingModelName :: "provider \<Rightarrow> go_string" where
  "embeddingModelName p = (case pr_ModelName p of Some n \<Rightarrow> n | None \<Rightarrow> ''unknown'')"

definition embeddingModelDigest :: "provider \<Rightarrow> go_string" where
  "embeddingModelDigest p = (case pr_ModelDigest p of Some d \<Rightarrow> d | None \<Rightarrow> '''')"

section \<open>Certification\<close>

record certification_check =
  cb_Name :: go_string
  cb_Passed :: bool
  cb_Detail :: go_string

record certification_report =
  cn_Contract :: "provider_contract option"
  cn_ProbeRun :: bool
  cn_Passed :: bool
  cn_Checks :: "certification_check list"

definition passed_check :: "go_string \<Rightarrow> go_string \<Rightarrow> certification_check" where
  "passed_check name detail = \<lparr>cb_Name = name, cb_Passed = True, cb_Detail = detail\<rparr>"

definition fail_check :: "certification_report \<Rightarrow> go_string \<Rightarrow> go_string \<Rightarrow> certification_report" where
  "fail_check report name detail =
     report\<lparr>cn_Passed := False, cn_Checks := cn_Checks report @ [\<lparr>cb_Name = name, cb_Passed = False, cb_Detail = detail\<rparr>]\<rparr>"

text \<open>The first vector of the probe that is not like the first one, or not finite.\<close>

fun probe_vectors :: "nat \<Rightarrow> float32 list list \<Rightarrow> (go_string \<times> go_string) option" where
  "probe_vectors dimensions [] = None"
| "probe_vectors dimensions (v # vs) =
     (if length v \<noteq> dimensions then Some (''dimensions'', ''provider changed dimensions within one batch'')
      else if Not_Finite \<in> set v then Some (''finite_vectors'', ''provider returned NaN or infinity'')
      else probe_vectors dimensions vs)"

definition CertifyEmbeddingProvider :: "provider option \<Rightarrow> bool \<Rightarrow> certification_report" where
  "CertifyEmbeddingProvider embedder probe =
     (let report = \<lparr>cn_Contract = None, cn_ProbeRun = probe, cn_Passed = True, cn_Checks = []\<rparr> in
      case embedder of
        None \<Rightarrow> fail_check report ''provider_present'' ''embedding provider is disabled''
      | Some p \<Rightarrow>
          (let report = report\<lparr>cn_Contract := Some (pr_contract p)\<rparr> in
           case contract_Validate (pr_contract p) of
             Inl err \<Rightarrow> fail_check report ''contract'' err
           | Inr _ \<Rightarrow>
               (let report = report\<lparr>cn_Checks := [passed_check ''contract'' '''', passed_check ''canonical_authority_isolated'' '''',
                      passed_check ''privacy_disclosure_consistent'' '''']\<rparr> in
                if \<not> probe then report
                else case pr_Embed p [''synthetic provider certification alpha'', ''synthetic provider certification beta''] of
                  Inl err \<Rightarrow> fail_check report ''synthetic_probe'' err
                | Inr vectors \<Rightarrow>
                    if length vectors \<noteq> 2
                    then fail_check report ''cardinality'' (''got '' @ itoa (int (length vectors)) @ '' vectors for 2 inputs'')
                    else if length (hd vectors) = 0 then fail_check report ''dimensions'' ''provider returned an empty vector''
                    else case probe_vectors (length (hd vectors)) vectors of
                      Some (name, detail) \<Rightarrow> fail_check report name detail
                    | None \<Rightarrow>
                        (let dimensions = int (length (hd vectors)); expected = pv_Dimensions (pr_contract p) in
                         if expected > 0 \<and> dimensions \<noteq> expected
                         then fail_check report ''configured_dimensions''
                           (''got '' @ itoa dimensions @ '' dimensions, expected '' @ itoa expected)
                         else report\<lparr>cn_Checks := cn_Checks report @ [passed_check ''cardinality'' '''',
                           passed_check ''dimensions'' (itoa dimensions), passed_check ''finite_vectors'' '''']\<rparr>))))"

section \<open>The HTTP exchange\<close>

text \<open>A request of an embedding client and what comes back: no answer, a status outside 200 to 299, a body
  that does not decode, or the decoded vectors with their positions (Ollama sends none, and its client reads none).\<close>

record embed_request =
  eq_URL :: go_string
  eq_Model :: go_string
  eq_Input :: "go_string list"
  eq_Dimensions :: int
  eq_Authorization :: "go_string option"

datatype embed_reply =
  Transport_Error go_string | Bad_Status int | Undecodable go_string | Decoded "(int \<times> float32 list) list"

definition batch_size :: nat where "batch_size = 16"

definition trim_right_slash :: "go_string \<Rightarrow> go_string" where
  "trim_right_slash s = rev (dropWhile (\<lambda>c. c = CHR 0x2F) (rev s))"

text \<open>\<open>strings.EqualFold\<close> against a lower-case ASCII text: a rune folds to its lower-case ASCII letter, the long s
  to s and the Kelvin sign to k.\<close>

definition fold_ascii :: "rune \<Rightarrow> rune" where
  "fold_ascii r = (if 65 \<le> r \<and> r \<le> 90 then r + 32 else if r = 0x17F then 115 else if r = 0x212A then 107 else r)"

definition equal_fold :: "go_string \<Rightarrow> go_string \<Rightarrow> bool" where
  "equal_fold s lower \<longleftrightarrow> map fold_ascii (runes s) = runes lower"

section \<open>Ollama\<close>

record ollama_embedder =
  oa_Endpoint :: go_string
  oa_Model :: go_string
  oa_Digest :: go_string
  oa_Path :: go_string
  oa_APIKey :: go_string
  oa_Dimensions :: int

definition EndpointURL :: "ollama_embedder \<Rightarrow> go_string" where
  "EndpointURL e = (if oa_Endpoint e = '''' then ''http://localhost:11434'' else oa_Endpoint e)"

definition ollama_ModelName :: "ollama_embedder \<Rightarrow> go_string" where
  "ollama_ModelName e = (if oa_Model e = '''' then ''qwen3-embedding:0.6b'' else oa_Model e)"

definition ollama_ModelDigest :: "ollama_embedder \<Rightarrow> go_string" where
  "ollama_ModelDigest e = trim_space (oa_Digest e)"

text \<open>\<open>hostname\<close> is the host of a URL that parses, \<open>loopback\<close> whether it is a loopback address.\<close>

definition retrievalProviderLocality ::
    "(go_string \<Rightarrow> go_string option) \<Rightarrow> (go_string \<Rightarrow> bool) \<Rightarrow> go_string \<Rightarrow> go_string \<times> bool" where
  "retrievalProviderLocality hostname loopback endpoint =
     (case hostname endpoint of
        Some host \<Rightarrow> if equal_fold host ''localhost'' \<or> loopback host then (''local'', False) else (''remote'', True)
      | None \<Rightarrow> (''remote'', True))"

definition provider_contract_of ::
    "go_string \<Rightarrow> go_string \<times> bool \<Rightarrow> go_string \<Rightarrow> go_string \<Rightarrow> int \<Rightarrow> provider_contract" where
  "provider_contract_of name locality model digest dimensions =
     \<lparr>pv_ContractVersion = RetrievalProviderContractVersion, pv_Provider = name, pv_Surface = ''embedding'',
      pv_Locality = fst locality, pv_ModelName = model, pv_ModelDigest = digest, pv_Dimensions = dimensions,
      pv_SupportsSemantic = True, pv_SupportsBatch = True, pv_MaximumBatchSize = 16,
      pv_SendsContentOffDevice = snd locality, pv_ReadsCanonical = False, pv_MutatesCanonical = False\<rparr>"

definition ollama_Contract :: "(go_string \<Rightarrow> go_string option) \<Rightarrow> (go_string \<Rightarrow> bool) \<Rightarrow> ollama_embedder \<Rightarrow> provider_contract" where
  "ollama_Contract hostname loopback e =
     provider_contract_of ''ollama'' (retrievalProviderLocality hostname loopback (EndpointURL e)) (ollama_ModelName e)
       (ollama_ModelDigest e) (oa_Dimensions e)"

definition ollama_request :: "ollama_embedder \<Rightarrow> go_string list \<Rightarrow> embed_request" where
  "ollama_request e texts =
     \<lparr>eq_URL = trim_right_slash (EndpointURL e) @ (if oa_Path e = '''' then ''/api/embed'' else oa_Path e),
      eq_Model = ollama_ModelName e, eq_Input = texts, eq_Dimensions = oa_Dimensions e,
      eq_Authorization = (if oa_APIKey e = '''' then None else Some (''Bearer '' @ oa_APIKey e))\<rparr>"

text \<open>One answer of Ollama.\<close>

definition ollama_vectors :: "embed_reply \<Rightarrow> float32 list list res" where
  "ollama_vectors reply =
     (case reply of
        Transport_Error err \<Rightarrow> Inl (''ollama embed: '' @ err)
      | Bad_Status code \<Rightarrow> Inl (''ollama embed: HTTP '' @ itoa code)
      | Undecodable err \<Rightarrow> Inl err
      | Decoded items \<Rightarrow> Inr (map snd items))"

text \<open>The loop over the batches, with the requests it has sent.\<close>

function batch_loop ::
    "(go_string list \<Rightarrow> embed_request) \<Rightarrow> (embed_request \<Rightarrow> embed_reply) \<Rightarrow> (nat \<Rightarrow> embed_reply \<Rightarrow> float32 list list res) \<Rightarrow>
     embed_request list \<Rightarrow> float32 list list \<Rightarrow> go_string list \<Rightarrow> embed_request list \<times> float32 list list res" where
  "batch_loop request http answer sent out texts =
     (if texts = [] then (sent, Inr out)
      else
        (let rq = request (take batch_size texts) in
         case answer (length (take batch_size texts)) (http rq) of
           Inl err \<Rightarrow> (sent @ [rq], Inl err)
         | Inr vs \<Rightarrow> batch_loop request http answer (sent @ [rq]) (out @ vs) (drop batch_size texts)))"
  by pat_completeness auto
termination
  by (relation "measure (\<lambda>(_, _, _, _, _, texts). length texts)") (auto simp: batch_size_def)

definition ollama_Embed ::
    "ollama_embedder \<Rightarrow> (embed_request \<Rightarrow> embed_reply) \<Rightarrow> go_string list \<Rightarrow> embed_request list \<times> float32 list list res" where
  "ollama_Embed e http texts =
     (case batch_loop (ollama_request e) http (\<lambda>_. ollama_vectors) [] [] texts of
        (sent, r) \<Rightarrow> (sent, bindE r (\<lambda>out. if length out \<noteq> length texts then Inl ''ollama embed count mismatch'' else Inr out)))"

section \<open>OpenAI-compatible services\<close>

record compatible_embedder =
  ob_Endpoint :: go_string
  ob_Path :: go_string
  ob_Model :: go_string
  ob_Digest :: go_string
  ob_APIKey :: go_string
  ob_Dimensions :: int

definition compatible_Contract :: "(go_string \<Rightarrow> go_string option) \<Rightarrow> (go_string \<Rightarrow> bool) \<Rightarrow> compatible_embedder \<Rightarrow> provider_contract" where
  "compatible_Contract hostname loopback e =
     provider_contract_of ''openai-compatible'' (retrievalProviderLocality hostname loopback (ob_Endpoint e)) (ob_Model e)
       (ob_Digest e) (ob_Dimensions e)"

definition compatible_request :: "compatible_embedder \<Rightarrow> go_string list \<Rightarrow> embed_request" where
  "compatible_request e texts =
     \<lparr>eq_URL = trim_right_slash (ob_Endpoint e) @ (if ob_Path e = '''' then ''/v1/embeddings'' else ob_Path e),
      eq_Model = ob_Model e, eq_Input = texts, eq_Dimensions = ob_Dimensions e,
      eq_Authorization = Some (''Bearer '' @ ob_APIKey e)\<rparr>"

text \<open>One answer: the items in the order of their indices, which must be those of the batch, each with a vector.\<close>

fun in_place :: "nat \<Rightarrow> (int \<times> float32 list) list \<Rightarrow> bool" where
  "in_place i [] = True"
| "in_place i ((k, v) # items) = (k = int i \<and> v \<noteq> [] \<and> in_place (i + 1) items)"

definition compatible_vectors :: "nat \<Rightarrow> embed_reply \<Rightarrow> float32 list list res" where
  "compatible_vectors n reply =
     (case reply of
        Transport_Error err \<Rightarrow> Inl (''external embed: '' @ err)
      | Bad_Status code \<Rightarrow> Inl (''external embed: HTTP '' @ itoa code)
      | Undecodable err \<Rightarrow> Inl (''external embed response: '' @ err)
      | Decoded items \<Rightarrow>
          (let items = sort_by (\<lambda>a b. fst a < fst b) items in
           if length items \<noteq> n then Inl ''external embed count mismatch''
           else if \<not> in_place 0 items then Inl ''external embed invalid index/vector''
           else Inr (map snd items)))"

definition compatible_Embed ::
    "compatible_embedder \<Rightarrow> (embed_request \<Rightarrow> embed_reply) \<Rightarrow> go_string list \<Rightarrow> embed_request list \<times> float32 list list res" where
  "compatible_Embed e http texts =
     (if texts = [] then ([], Inr []) else batch_loop (compatible_request e) http compatible_vectors [] [] texts)"

section \<open>The configured provider\<close>

record embedding_config =
  ey_Provider :: go_string
  ey_Endpoint :: go_string
  ey_Path :: go_string
  ey_Model :: go_string
  ey_ModelDigest :: go_string
  ey_APIKey :: go_string
  ey_Dimensions :: int
  ey_Timeout :: time
  ey_AllowRemote :: bool

definition ollama_of :: "embedding_config \<Rightarrow> ollama_embedder" where
  "ollama_of cfg = \<lparr>oa_Endpoint = ey_Endpoint cfg, oa_Model = ey_Model cfg, oa_Digest = ey_ModelDigest cfg, oa_Path = ey_Path cfg,
     oa_APIKey = ey_APIKey cfg, oa_Dimensions = ey_Dimensions cfg\<rparr>"

definition compatible_of :: "embedding_config \<Rightarrow> compatible_embedder" where
  "compatible_of cfg = \<lparr>ob_Endpoint = ey_Endpoint cfg, ob_Path = ey_Path cfg, ob_Model = ey_Model cfg, ob_Digest = ey_ModelDigest cfg,
     ob_APIKey = ey_APIKey cfg, ob_Dimensions = ey_Dimensions cfg\<rparr>"

definition NewConfiguredEmbedder ::
    "(go_string \<Rightarrow> go_string option) \<Rightarrow> (go_string \<Rightarrow> bool) \<Rightarrow> (embed_request \<Rightarrow> embed_reply) \<Rightarrow> embedding_config \<Rightarrow> provider option res" where
  "NewConfiguredEmbedder hostname loopback http cfg =
     (if ey_Provider cfg = ''disabled'' then Inr None
      else
        bindE (if ey_Provider cfg = ''ollama''
               then (let e = ollama_of cfg in
                 Inr \<lparr>pr_contract = ollama_Contract hostname loopback e, pr_ModelName = Some (ollama_ModelName e),
                   pr_ModelDigest = Some (ollama_ModelDigest e), pr_Embed = (\<lambda>texts. snd (ollama_Embed e http texts))\<rparr>)
               else if ey_Provider cfg = ''openai-compatible''
               then (let e = compatible_of cfg in
                 Inr \<lparr>pr_contract = compatible_Contract hostname loopback e, pr_ModelName = Some (ob_Model e),
                   pr_ModelDigest = Some (ob_Digest e), pr_Embed = (\<lambda>texts. snd (compatible_Embed e http texts))\<rparr>)
               else Inl ''unsupported embedding provider'') (\<lambda>p.
        case contract_Validate (pr_contract p) of
          Inl err \<Rightarrow> Inl (''embedding provider contract: '' @ err)
        | Inr _ \<Rightarrow> Inr (Some p)))"

section \<open>Every text gets its vector\<close>

declare batch_loop.simps [simp del]

text \<open>What the loop sends is the texts cut into batches, and what it answers are the answers to them in order.\<close>

lemma batch_loop_sends:
  "batch_loop request http answer sent out texts = (sent', r) \<Longrightarrow>
     \<exists>new. sent' = sent @ map request new \<and> length new \<le> (length texts + 15) div 16 \<and>
       (\<forall>b \<in> set new. b \<noteq> [] \<and> length b \<le> 16) \<and> prefix (concat new) texts \<and>
       (\<forall>vs. r = Inr vs \<longrightarrow> concat new = texts \<and>
          (\<exists>vss. list_all2 (\<lambda>b v. answer (length b) (http (request b)) = Inr v) new vss \<and> vs = out @ concat vss))"
proof (induction request http answer sent out texts rule: batch_loop.induct)
  case (1 request http answer sent out texts)
  let ?b = "take batch_size texts"
  show ?case
  proof (cases "texts = []")
    case True
    then show ?thesis using "1.prems" by (intro exI [of _ "[]"]) (auto simp: batch_loop.simps)
  next
    case False
    have b: "?b \<noteq> []" "length ?b \<le> 16" "concat [?b] = ?b" "prefix ?b texts"
      using False by (auto simp: batch_size_def take_is_prefix)
    have n: "(length (drop batch_size texts) + 15) div 16 + 1 \<le> (length texts + 15) div 16"
      using False by (cases texts) (auto simp: batch_size_def)
    show ?thesis
    proof (cases "answer (length ?b) (http (request ?b))")
      case (Inl err)
      then have "sent' = sent @ [request ?b]" "r = Inl err" using "1.prems" False by (simp_all add: batch_loop.simps Let_def)
      then show ?thesis using b n by (intro exI [of _ "[?b]"]) auto
    next
      case (Inr vs)
      then have "batch_loop request http answer (sent @ [request ?b]) (out @ vs) (drop batch_size texts) = (sent', r)"
        using "1.prems" False by (simp add: batch_loop.simps [of _ _ _ sent] Let_def)
      from "1.IH" [OF False refl Inr this] obtain new where new: "sent' = (sent @ [request ?b]) @ map request new"
          "length new \<le> (length (drop batch_size texts) + 15) div 16" "\<forall>b \<in> set new. b \<noteq> [] \<and> length b \<le> 16"
          "prefix (concat new) (drop batch_size texts)"
          "\<forall>ws. r = Inr ws \<longrightarrow> concat new = drop batch_size texts \<and>
             (\<exists>vss. list_all2 (\<lambda>b v. answer (length b) (http (request b)) = Inr v) new vss \<and> ws = (out @ vs) @ concat vss)"
        by blast
      have "prefix (concat (?b # new)) texts" using new(4) by (metis append_take_drop_id concat.simps(2) same_prefix_prefix)
      moreover have "concat (?b # new) = texts \<and> (\<exists>vss. list_all2 (\<lambda>b v. answer (length b) (http (request b)) = Inr v) (?b # new) vss \<and>
          ws = out @ concat vss)" if r: "r = Inr ws" for ws
      proof -
        obtain vss where "list_all2 (\<lambda>b v. answer (length b) (http (request b)) = Inr v) new vss" "ws = (out @ vs) @ concat vss"
          "concat new = drop batch_size texts" using new(5) r by blast
        then show ?thesis using Inr by (intro conjI exI [of _ "vs # vss"]) simp_all
      qed
      ultimately show ?thesis using new(1-3) b n by (intro exI [of _ "?b # new"]) auto
    qed
  qed
qed

lemma in_place_nth: "in_place i items \<Longrightarrow> j < length items \<Longrightarrow> fst (items ! j) = int (i + j) \<and> snd (items ! j) \<noteq> []"
  by (induction i items arbitrary: j rule: in_place.induct) (auto simp: nth_Cons split: nat.split)

text \<open>An accepted answer gives each text of its batch the vector that was sent under its position.\<close>

lemma compatible_vectors_placed:
  assumes "compatible_vectors n reply = Inr vs"
  shows "length vs = n" "\<And>j. j < n \<Longrightarrow> vs ! j \<noteq> [] \<and> (\<exists>items. reply = Decoded items \<and> (int j, vs ! j) \<in> set items)"
proof -
  obtain items where items: "reply = Decoded items" "length items = n" "in_place 0 (sort_by (\<lambda>a b. fst a < fst b) items)"
      "vs = map snd (sort_by (\<lambda>a b. fst a < fst b) items)"
    using assms by (auto simp: compatible_vectors_def Let_def split: embed_reply.splits if_splits)
  show "length vs = n" using items by simp
  fix j assume j: "j < n"
  let ?x = "sort_by (\<lambda>a b. fst a < fst b) items ! j"
  have "fst ?x = int j \<and> snd ?x \<noteq> []" using in_place_nth [OF items(3), of j] j items(2) by simp
  moreover have "?x \<in> set items" using j items(2) nth_mem [of j "sort_by (\<lambda>a b. fst a < fst b) items"] by simp
  moreover have "vs ! j = snd ?x" using j items by simp
  ultimately show "vs ! j \<noteq> [] \<and> (\<exists>items. reply = Decoded items \<and> (int j, vs ! j) \<in> set items)"
    using items(1) by (metis prod.collapse)
qed

lemma length_answers:
  assumes "list_all2 (\<lambda>b v. compatible_vectors (length b) (http (request b)) = Inr v) new vss"
  shows "length (concat vss) = length (concat new)"
  using assms by (induction rule: list_all2_induct) (simp_all add: compatible_vectors_placed(1))

text \<open>C26: embedding any number of texts ends after at most one request per sixteen
  texts, whatever the service answers.  Each request carries between one and sixteen of the texts, in their order, to the
  configured address, and a call that succeeds has sent all of them and returns exactly one vector per text.\<close>

theorem embedding_ends:
  "(case ollama_Embed e http texts of (sent, r) \<Rightarrow>
     length sent \<le> (length texts + 15) div 16 \<and> set (map eq_URL sent) \<subseteq> {eq_URL (ollama_request e [])} \<and>
     length ` eq_Input ` set sent \<subseteq> {1..16} \<and> prefix (concat (map eq_Input sent)) texts \<and>
     (case r of Inl _ \<Rightarrow> True | Inr vs \<Rightarrow> concat (map eq_Input sent) = texts \<and> length vs = length texts)) \<and>
   (case compatible_Embed e' http texts of (sent, r) \<Rightarrow>
     length sent \<le> (length texts + 15) div 16 \<and> set (map eq_URL sent) \<subseteq> {eq_URL (compatible_request e' [])} \<and>
     length ` eq_Input ` set sent \<subseteq> {1..16} \<and> prefix (concat (map eq_Input sent)) texts \<and>
     (case r of Inl _ \<Rightarrow> True | Inr vs \<Rightarrow> concat (map eq_Input sent) = texts \<and> length vs = length texts))"
proof -
  have bounds: "length ` set new \<subseteq> {1..16}" if "\<forall>b \<in> set new. b \<noteq> [] \<and> length b \<le> 16" for new :: "go_string list list"
    using that by (auto simp: Suc_le_eq)
  obtain sent r where a: "batch_loop (ollama_request e) http (\<lambda>_. ollama_vectors) [] [] texts = (sent, r)" by (rule prod.exhaust)
  from batch_loop_sends [OF this] obtain new where new: "sent = map (ollama_request e) new" "length new \<le> (length texts + 15) div 16"
      "\<forall>b \<in> set new. b \<noteq> [] \<and> length b \<le> 16" "prefix (concat new) texts" "\<forall>vs. r = Inr vs \<longrightarrow> concat new = texts"
    by auto
  have "map eq_Input sent = new" by (simp add: new(1) ollama_request_def comp_def)
  then have ollama: "case ollama_Embed e http texts of (sent, r) \<Rightarrow>
     length sent \<le> (length texts + 15) div 16 \<and> set (map eq_URL sent) \<subseteq> {eq_URL (ollama_request e [])} \<and>
     length ` eq_Input ` set sent \<subseteq> {1..16} \<and> prefix (concat (map eq_Input sent)) texts \<and>
     (case r of Inl _ \<Rightarrow> True | Inr vs \<Rightarrow> concat (map eq_Input sent) = texts \<and> length vs = length texts)"
    using new bounds [OF new(3)] a
    by (auto simp: ollama_Embed_def image_image ollama_request_def bindE_def split: sum.split)
  have "case compatible_Embed e' http texts of (sent, r) \<Rightarrow>
     length sent \<le> (length texts + 15) div 16 \<and> set (map eq_URL sent) \<subseteq> {eq_URL (compatible_request e' [])} \<and>
     length ` eq_Input ` set sent \<subseteq> {1..16} \<and> prefix (concat (map eq_Input sent)) texts \<and>
     (case r of Inl _ \<Rightarrow> True | Inr vs \<Rightarrow> concat (map eq_Input sent) = texts \<and> length vs = length texts)"
  proof (cases "texts = []")
    case False
    obtain sent r where b: "batch_loop (compatible_request e') http compatible_vectors [] [] texts = (sent, r)" by (rule prod.exhaust)
    from batch_loop_sends [OF this] obtain new where new: "sent = map (compatible_request e') new" "length new \<le> (length texts + 15) div 16"
        "\<forall>b \<in> set new. b \<noteq> [] \<and> length b \<le> 16" "prefix (concat new) texts"
        "\<forall>vs. r = Inr vs \<longrightarrow> concat new = texts \<and>
          (\<exists>vss. list_all2 (\<lambda>b v. compatible_vectors (length b) (http (compatible_request e' b)) = Inr v) new vss \<and> vs = concat vss)"
      by auto
    have "map eq_Input sent = new" by (simp add: new(1) compatible_request_def comp_def)
    moreover have "concat new = texts \<and> length vs = length texts" if "r = Inr vs" for vs
      using new(5) that length_answers by blast
    ultimately show ?thesis using False new bounds [OF new(3)] b
      by (auto simp: compatible_Embed_def image_image compatible_request_def split: sum.split)
  qed (simp add: compatible_Embed_def)
  with ollama show ?thesis by (rule conjI)
qed

end
