(* ===== verification/Settings.thy ===== *)
theory Settings
  imports Provider
begin

text \<open>
  Configuration: the environment of the daemon (\<open>lite/env.go\<close>) with the clean-up and the comparison of its paths, and the environment of
  the bridge and of the operator tool (\<open>config/config.go\<close>).  \<open>url.Parse\<close>, \<open>net.ParseIP\<close>, \<open>time.ParseDuration\<close>, the JSON
  of the tokens and the working directory are parameters.
\<close>

section \<open>Paths\<close>

fun split_slash :: "go_string \<Rightarrow> go_string list" where
  "split_slash [] = [[]]"
| "split_slash (c # cs) =
     (if c = CHR 0x2F then [] # split_slash cs
      else case split_slash cs of l # ls \<Rightarrow> (c # l) # ls | [] \<Rightarrow> [[c]])"

fun join_slash :: "go_string list \<Rightarrow> go_string" where
  "join_slash [] = []"
| "join_slash [p] = p"
| "join_slash (p # q # ps) = p @ CHR 0x2F # join_slash (q # ps)"

definition filepath_IsAbs :: "go_string \<Rightarrow> bool" where
  "filepath_IsAbs path \<longleftrightarrow> has_prefix path ''/''"

text \<open>The elements \<open>filepath.Clean\<close> leaves of a path: \<open>..\<close> removes the element before it, or is dropped at the
  root.\<close>

definition clean_step :: "bool \<Rightarrow> go_string list \<Rightarrow> go_string \<Rightarrow> go_string list" where
  "clean_step rooted stack p =
     (if p = '''' \<or> p = ''.'' then stack
      else if p = ''..'' then
        (if stack \<noteq> [] \<and> last stack \<noteq> ''..'' then butlast stack else if rooted then stack else stack @ [p])
      else stack @ [p])"

definition clean_parts :: "go_string \<Rightarrow> go_string list" where
  "clean_parts path = foldl (clean_step (filepath_IsAbs path)) [] (split_slash path)"

definition filepath_Clean :: "go_string \<Rightarrow> go_string" where
  "filepath_Clean path =
     (if filepath_IsAbs path then CHR 0x2F # join_slash (clean_parts path)
      else if clean_parts path = [] then ''.'' else join_slash (clean_parts path))"

definition filepath_Join :: "go_string \<Rightarrow> go_string \<Rightarrow> go_string" where
  "filepath_Join a b =
     (if a \<noteq> '''' then filepath_Clean (a @ CHR 0x2F # b) else if b \<noteq> '''' then filepath_Clean b else '''')"

text \<open>\<open>filepath.Dir\<close>: what precedes the last slash.\<close>

definition filepath_Dir :: "go_string \<Rightarrow> go_string" where
  "filepath_Dir path = filepath_Clean (rev (dropWhile (\<lambda>c. c \<noteq> CHR 0x2F) (rev path)))"

definition filepath_Abs :: "go_string option \<Rightarrow> go_string \<Rightarrow> go_string option" where
  "filepath_Abs cwd path =
     (if filepath_IsAbs path then Some (filepath_Clean path)
      else case cwd of None \<Rightarrow> None | Some d \<Rightarrow> Some (filepath_Join d path))"

text \<open>\<open>filepath.Rel\<close> of two absolute paths: up from what the base has beyond the common elements, then down.\<close>

fun strip_common :: "'a list \<Rightarrow> 'a list \<Rightarrow> 'a list \<times> 'a list" where
  "strip_common (x # xs) (y # ys) = (if x = y then strip_common xs ys else (x # xs, y # ys))"
| "strip_common xs ys = (xs, ys)"

definition filepath_Rel :: "go_string \<Rightarrow> go_string \<Rightarrow> go_string" where
  "filepath_Rel base targ =
     (case strip_common (clean_parts base) (clean_parts targ) of
        ([], []) \<Rightarrow> ''.''
      | (up, down) \<Rightarrow> join_slash (replicate (length up) ''..'' @ down))"

definition path_contains :: "go_string \<Rightarrow> go_string \<Rightarrow> bool" where
  "path_contains parent child \<longleftrightarrow>
     (let relative = filepath_Rel parent child in relative \<noteq> ''..'' \<and> \<not> has_prefix relative ''../'')"

definition pathsOverlap :: "go_string option \<Rightarrow> go_string \<Rightarrow> go_string \<Rightarrow> bool" where
  "pathsOverlap cwd a b =
     (case (filepath_Abs cwd a, filepath_Abs cwd b) of
        (Some aa, Some bb) \<Rightarrow> path_contains aa bb \<or> path_contains bb aa
      | _ \<Rightarrow> filepath_Clean a = filepath_Clean b)"

definition storagePath :: "go_string \<Rightarrow> go_string \<Rightarrow> go_string \<Rightarrow> go_string" where
  "storagePath base value fallback =
     (let selected = (if trim_space value = '''' then fallback else trim_space value) in
      if filepath_IsAbs selected then filepath_Clean selected else filepath_Clean (filepath_Join base selected))"

definition defaultString :: "go_string \<Rightarrow> go_string \<Rightarrow> go_string" where
  "defaultString value fallback = (if trim_space value \<noteq> '''' then trim_space value else fallback)"

text \<open>\<open>strconv.Atoi\<close>: an optional sign and decimal digits, within 64 bits.\<close>

definition is_digit :: "char \<Rightarrow> bool" where
  "is_digit c \<longleftrightarrow> 48 \<le> (of_char c :: nat) \<and> (of_char c :: nat) \<le> 57"

definition atoi :: "go_string \<Rightarrow> int option" where
  "atoi s =
     (let negative = (take 1 s = ''-''); ds = (if take 1 s = ''-'' \<or> take 1 s = ''+'' then drop 1 s else s);
          n = foldl (\<lambda>n c. n * 10 + (of_char c - 48)) 0 ds; v = (if negative then - n else n) in
      if ds = '''' \<or> \<not> list_all is_digit ds \<or> v < - (2 ^ 63) \<or> v > 2 ^ 63 - 1 then None else Some v)"

text \<open>The value of \<open>strconv.Atoi\<close> whose error is dropped: the nearest number when it is out of range, else 0.\<close>

definition atoi_value :: "go_string \<Rightarrow> int" where
  "atoi_value s =
     (case atoi s of
        Some n \<Rightarrow> n
      | None \<Rightarrow>
          (let ds = (if take 1 s \<in> {''-'', ''+''} then drop 1 s else s) in
           if ds = '''' \<or> \<not> list_all is_digit ds then 0 else if take 1 s = ''-'' then - (2 ^ 63) else 2 ^ 63 - 1))"

section \<open>The environment of the daemon\<close>

record parsed_url =
  up_Scheme :: go_string
  up_Host :: go_string
  up_Hostname :: go_string
  up_User :: bool
  up_RawQuery :: go_string
  up_Fragment :: go_string

record principal_config =
  pg_Token :: go_string
  pg_Capabilities :: "go_string list"

record settings_env =
  sx_parse :: "go_string \<Rightarrow> parsed_url option"
  sx_loopback :: "go_string \<Rightarrow> bool"
  sx_unjson :: "go_string \<Rightarrow> (go_string \<times> principal_config) list option"
  sx_duration :: "go_string \<Rightarrow> time option"
  sx_cwd :: "go_string option"

record storage_config =
  sg_RootDir :: go_string
  sg_DataDir :: go_string
  sg_DerivedDir :: go_string
  sg_VectorDir :: go_string
  sg_SnapshotDir :: go_string
  sg_ExportDir :: go_string

record env_config =
  ec_AliasFile :: go_string
  ec_Owner :: go_string
  ec_CursorKey :: go_string
  ec_MCPClients :: "(go_string \<times> principal_config) list"
  ec_Storage :: storage_config
  ec_Embedding :: embedding_config
  ec_SemanticEnabled :: bool
  ec_LowRAMExperiment :: bool

type_synonym lookup = "go_string \<Rightarrow> go_string option"

definition trimmedLookup :: "lookup \<Rightarrow> go_string \<Rightarrow> go_string" where
  "trimmedLookup lookup name = (case lookup name of Some v \<Rightarrow> trim_space v | None \<Rightarrow> '''')"

definition loopback_host :: "settings_env \<Rightarrow> go_string \<Rightarrow> bool" where
  "loopback_host env host \<longleftrightarrow> equal_fold host ''localhost'' \<or> sx_loopback env host"

definition clean_url :: "parsed_url \<Rightarrow> bool" where
  "clean_url u \<longleftrightarrow> up_Host u \<noteq> '''' \<and> (up_Scheme u = ''http'' \<or> up_Scheme u = ''https'') \<and> \<not> up_User u \<and>
     up_RawQuery u = '''' \<and> up_Fragment u = ''''"

definition validateEmbeddingEndpoint :: "settings_env \<Rightarrow> embedding_config \<Rightarrow> unit res" where
  "validateEmbeddingEndpoint env cfg =
     (case sx_parse env (ey_Endpoint cfg) of
        None \<Rightarrow> Inl ''MINDMORY_EMBED_ENDPOINT must be a clean http(s) base URL''
      | Some u \<Rightarrow>
          if \<not> clean_url u then Inl ''MINDMORY_EMBED_ENDPOINT must be a clean http(s) base URL''
          else if \<not> loopback_host env (up_Hostname u) \<and> \<not> ey_AllowRemote cfg
          then Inl ''remote embedding endpoint requires MINDMORY_EMBED_ALLOW_REMOTE=1''
          else if \<not> loopback_host env (up_Hostname u) \<and> up_Scheme u \<noteq> ''https''
          then Inl ''remote embedding endpoint must use HTTPS''
          else if \<not> loopback_host env (up_Hostname u) \<and> ey_APIKey cfg = ''''
          then Inl ''remote embedding endpoint requires MINDMORY_EMBED_API_KEY''
          else if \<not> has_prefix (ey_Path cfg) ''/'' \<or> contains (ey_Path cfg) ''..'' \<or> CHR 0x3F \<in> set (ey_Path cfg) \<or> CHR 0x23 \<in> set (ey_Path cfg)
          then Inl ''MINDMORY_EMBED_PATH must be an absolute clean URL path''
          else Inr ())"

definition load_principals :: "settings_env \<Rightarrow> go_string \<Rightarrow> (go_string \<times> principal_config) list res" where
  "load_principals env raw =
     (if raw = '''' then Inl ''MINDMORY_MCP_CLIENT_TOKENS_JSON is required''
      else case sx_unjson env raw of
        None \<Rightarrow> Inl ''MINDMORY_MCP_CLIENT_TOKENS_JSON: invalid JSON''
      | Some ps \<Rightarrow>
          if ps = [] then Inl ''MINDMORY_MCP_CLIENT_TOKENS_JSON: at least one principal required''
          else if list_ex (\<lambda>(key, p). trim_space key = '''' \<or> length (pg_Token p) < 24 \<or> pg_Capabilities p = []) ps
          then Inl ''MINDMORY_MCP_CLIENT_TOKENS_JSON: invalid principal entry''
          else Inr ps)"

definition load_storage :: "settings_env \<Rightarrow> (go_string \<Rightarrow> go_string) \<Rightarrow> (storage_config \<times> go_string) res" where
  "load_storage env value =
     (let base = (if value ''MINDMORY_ROOT_DIR'' = '''' then ''.'' else value ''MINDMORY_ROOT_DIR'');
          st = \<lparr>sg_RootDir = filepath_Clean base,
            sg_DataDir = storagePath base (value ''MINDMORY_DATA_DIR'') ''var/data'',
            sg_DerivedDir = storagePath base (value ''MINDMORY_DERIVED_DIR'') ''var/derived'',
            sg_VectorDir = storagePath base (value ''MINDMORY_VECTOR_DIR'') ''var/derived/vectors'',
            sg_SnapshotDir = storagePath base (value ''MINDMORY_SNAPSHOT_DIR'') ''var/data/snapshots'',
            sg_ExportDir = storagePath base (value ''MINDMORY_EXPORT_DIR'') ''var/export''\<rparr>;
          alias = (if value ''MINDMORY_ALIAS_FILE'' \<noteq> '''' then storagePath base (value ''MINDMORY_ALIAS_FILE'') ''''
            else filepath_Join (sg_DataDir st) ''aliases.json'') in
      if pathsOverlap (sx_cwd env) (sg_DataDir st) (sg_DerivedDir st) \<or> pathsOverlap (sx_cwd env) (sg_DataDir st) (sg_VectorDir st)
      then Inl ''derived/vector directories must not overlap canonical data directory'' else Inr (st, alias))"

definition load_timeout :: "settings_env \<Rightarrow> go_string \<Rightarrow> time res" where
  "load_timeout env raw =
     (if raw = '''' then Inr (60 * second)
      else case sx_duration env raw of
        None \<Rightarrow> Inl ''MINDMORY_EMBED_TIMEOUT must be between 1ns and 10m''
      | Some d \<Rightarrow> if d \<le> 0 \<or> d > 10 * minute then Inl ''MINDMORY_EMBED_TIMEOUT must be between 1ns and 10m'' else Inr d)"

definition load_dimensions :: "go_string \<Rightarrow> int res" where
  "load_dimensions raw =
     (if raw = '''' then Inr 0
      else case atoi raw of
        None \<Rightarrow> Inl ''MINDMORY_EMBED_DIMENSIONS must be between 1 and 65536''
      | Some n \<Rightarrow> if n \<le> 0 \<or> n > 65536 then Inl ''MINDMORY_EMBED_DIMENSIONS must be between 1 and 65536'' else Inr n)"

text \<open>What the provider adds to the settings, and what it requires of them.\<close>

definition provider_defaults :: "go_string \<Rightarrow> embedding_config \<Rightarrow> embedding_config res" where
  "provider_defaults endpoint cfg =
     (if ey_Provider cfg = ''disabled'' then Inr (cfg\<lparr>ey_Endpoint := ''''\<rparr>)
      else if ey_Provider cfg = ''ollama''
      then Inr (cfg\<lparr>ey_Endpoint := defaultString endpoint ''http://127.0.0.1:11434'',
        ey_Path := (if ey_Path cfg = '''' then ''/api/embed'' else ey_Path cfg)\<rparr>)
      else if ey_Provider cfg = ''openai-compatible''
      then (if endpoint = '''' then Inl ''MINDMORY_EMBED_ENDPOINT is required for openai-compatible provider''
        else if ey_ModelDigest cfg = '''' then Inl ''MINDMORY_EMBED_MODEL_DIGEST is required for openai-compatible provider''
        else Inr (cfg\<lparr>ey_Endpoint := endpoint, ey_Path := (if ey_Path cfg = '''' then ''/v1/embeddings'' else ey_Path cfg)\<rparr>))
      else Inl ''MINDMORY_EMBED_PROVIDER must be disabled, ollama, or openai-compatible'')"

definition load_embedding :: "settings_env \<Rightarrow> (go_string \<Rightarrow> go_string) \<Rightarrow> embedding_config res" where
  "load_embedding env value =
     bindE (load_timeout env (value ''MINDMORY_EMBED_TIMEOUT'')) (\<lambda>timeout.
     bindE (load_dimensions (value ''MINDMORY_EMBED_DIMENSIONS'')) (\<lambda>dimensions.
     bindE (provider_defaults (value ''MINDMORY_EMBED_ENDPOINT'')
       \<lparr>ey_Provider = to_lower (defaultString (value ''MINDMORY_EMBED_PROVIDER'') ''ollama''), ey_Endpoint = '''',
        ey_Path = value ''MINDMORY_EMBED_PATH'', ey_Model = defaultString (value ''MINDMORY_EMBED_MODEL'') ''qwen3-embedding:0.6b'',
        ey_ModelDigest = value ''MINDMORY_EMBED_MODEL_DIGEST'', ey_APIKey = value ''MINDMORY_EMBED_API_KEY'',
        ey_Dimensions = dimensions, ey_Timeout = timeout,
        ey_AllowRemote = (value ''MINDMORY_EMBED_ALLOW_REMOTE'' = ''1'')\<rparr>) (\<lambda>cfg.
     if ey_Provider cfg = ''disabled'' then Inr cfg
     else bindE (validateEmbeddingEndpoint env cfg) (\<lambda>_. Inr cfg))))"

definition LoadEnv :: "settings_env \<Rightarrow> lookup \<Rightarrow> env_config res" where
  "LoadEnv env lookup =
     (let value = trimmedLookup lookup; owner = value ''MINDMORY_OWNER''; key = value ''MINDMORY_CURSOR_SIGNING_KEY'' in
      if owner = '''' then Inl ''MINDMORY_OWNER is required''
      else if length key < 32 then Inl ''MINDMORY_CURSOR_SIGNING_KEY must be at least 32 characters''
      else
        bindE (load_principals env (value ''MINDMORY_MCP_CLIENT_TOKENS_JSON'')) (\<lambda>principals.
        bindE (load_storage env value) (\<lambda>(storage, alias).
        bindE (load_embedding env value) (\<lambda>embedding.
        Inr \<lparr>ec_AliasFile = alias, ec_Owner = owner, ec_CursorKey = key, ec_MCPClients = principals, ec_Storage = storage,
          ec_Embedding = embedding, ec_SemanticEnabled = (value ''MINDMORY_SEMANTIC_SEARCH'' = ''1''),
          ec_LowRAMExperiment = (value ''MINDMORY_LOW_RAM_EXPERIMENT'' = ''1'')\<rparr>))))"

section \<open>The environment of the clients\<close>

record client_config =
  cf_Endpoint :: go_string
  cf_Token :: go_string

record mcp_config = client_config +
  cf_BoundSessionID :: go_string
  cf_BoundMessageID :: go_string
  cf_LogLevel :: go_string
  cf_Profile :: go_string

definition validateEndpoint :: "settings_env \<Rightarrow> go_string \<Rightarrow> bool" where
  "validateEndpoint env endpoint = (case sx_parse env endpoint of None \<Rightarrow> False | Some u \<Rightarrow> clean_url u)"

definition weakToken :: "go_string \<Rightarrow> bool" where
  "weakToken token \<longleftrightarrow>
     (let lower = to_lower (trim_space token) in length token < 24 \<or> contains lower ''replace'' \<or> contains lower ''default'')"

definition validateEndpointAndToken :: "settings_env \<Rightarrow> go_string \<Rightarrow> go_string \<Rightarrow> unit res" where
  "validateEndpointAndToken env endpoint token =
     (if \<not> validateEndpoint env endpoint \<or> weakToken token then Inl ''client endpoint and non-default token are required'' else Inr ())"

definition validLogLevel :: "go_string \<Rightarrow> bool" where
  "validLogLevel level \<longleftrightarrow> level \<in> {''DEBUG'', ''INFO'', ''WARN'', ''ERROR''}"

definition validMCPProfile :: "go_string \<Rightarrow> bool" where
  "validMCPProfile profile \<longleftrightarrow> profile = ''compact'' \<or> profile = ''full''"

text \<open>\<open>strings.ToUpper\<close> as far as a level can come out of it: of the runes whose upper case is an ASCII letter, the
  dotless i and the long s are not ASCII; the others are left alone, and no level has one.\<close>

definition to_upper_ascii :: "go_string \<Rightarrow> go_string" where
  "to_upper_ascii s =
     map_runes (\<lambda>r. Some (if 97 \<le> r \<and> r \<le> 122 then r - 32 else if r = 0x131 then 73 else if r = 0x17F then 83 else r)) s"

definition LoadMCPServer :: "settings_env \<Rightarrow> lookup \<Rightarrow> mcp_config res" where
  "LoadMCPServer env lookup =
     (let value = trimmedLookup lookup; level = to_upper_ascii (value ''MINDMORY_MCP_LOG_LEVEL''); profile = to_lower (value ''MINDMORY_MCP_PROFILE'');
          level = (if level = '''' then ''INFO'' else level); profile = (if profile = '''' then ''compact'' else profile);
          cfg = \<lparr>cf_Endpoint = value ''MINDMORY_ENDPOINT'', cf_Token = value ''MINDMORY_MCP_TOKEN'',
            cf_BoundSessionID = value ''MINDMORY_BOUND_SESSION_ID'', cf_BoundMessageID = value ''MINDMORY_BOUND_MESSAGE_ID'',
            cf_LogLevel = level, cf_Profile = profile\<rparr> in
      if validateEndpointAndToken env (cf_Endpoint cfg) (cf_Token cfg) \<noteq> Inr () \<or> cf_BoundSessionID cfg = '''' \<or> \<not> validLogLevel level \<or>
         \<not> validMCPProfile profile
      then Inl ''MCP server requires endpoint, token, bound session, valid log level, and compact or full profile'' else Inr cfg)"

definition LoadCLI :: "settings_env \<Rightarrow> lookup \<Rightarrow> client_config res" where
  "LoadCLI env lookup =
     (let value = trimmedLookup lookup;
          endpoint = (if value ''MINDMORY_ADMIN_ENDPOINT'' = '''' then ''http://127.0.0.1:58080'' else value ''MINDMORY_ADMIN_ENDPOINT'');
          token = value ''MINDMORY_ADMIN_TOKEN'' in
      bindE (validateEndpointAndToken env endpoint token) (\<lambda>_. Inr \<lparr>cf_Endpoint = endpoint, cf_Token = token\<rparr>))"

definition LoadBridge :: "settings_env \<Rightarrow> lookup \<Rightarrow> client_config res" where
  "LoadBridge env lookup =
     (let value = trimmedLookup lookup; endpoint = value ''MINDMORY_ENDPOINT''; token = value ''MINDMORY_MCP_TOKEN'' in
      bindE (validateEndpointAndToken env endpoint token) (\<lambda>_. Inr \<lparr>cf_Endpoint = endpoint, cf_Token = token\<rparr>))"

section \<open>Containment of paths\<close>

definition plain_part :: "go_string \<Rightarrow> bool" where
  "plain_part p \<longleftrightarrow> p \<noteq> '''' \<and> p \<noteq> ''..'' \<and> CHR 0x2F \<notin> set p"

lemma split_slash_no_slash: "p \<in> set (split_slash s) \<Longrightarrow> CHR 0x2F \<notin> set p"
  by (induction s arbitrary: p) (auto split: if_splits list.splits)

lemma clean_step_plain:
  "\<lbrakk>\<forall>p \<in> set stack. plain_part p; CHR 0x2F \<notin> set p\<rbrakk> \<Longrightarrow> \<forall>q \<in> set (clean_step True stack p). plain_part q"
  by (auto simp: clean_step_def plain_part_def dest: in_set_butlastD)

lemma clean_parts_plain:
  assumes "filepath_IsAbs path"
  shows "\<forall>p \<in> set (clean_parts path). plain_part p"
proof -
  have "\<lbrakk>\<forall>p \<in> set stack. plain_part p; \<forall>p \<in> set ps. CHR 0x2F \<notin> set p\<rbrakk> \<Longrightarrow>
      \<forall>p \<in> set (foldl (clean_step True) stack ps). plain_part p" for stack ps
  proof (induction ps arbitrary: stack)
    case (Cons p ps)
    then show ?case using clean_step_plain [of stack p] by simp
  qed simp
  from this [of "[]" "split_slash path"] show ?thesis using assms split_slash_no_slash by (auto simp: clean_parts_def)
qed

lemma strip_common_append: "strip_common xs (xs @ ys) = ([], ys)"
  by (induction xs) (cases ys, auto)

lemma strip_common_left: "fst (strip_common xs ys) = [] \<longleftrightarrow> prefix xs ys"
  by (induction xs ys rule: strip_common.induct) auto

lemma join_slash_Cons: "join_slash (p # ps) = p @ (if ps = [] then [] else CHR 0x2F # join_slash ps)"
  by (cases ps) simp_all

lemma slash_free_prefix:
  "CHR 0x2F \<notin> set q \<Longrightarrow> CHR 0x2F \<notin> set p \<Longrightarrow> prefix (q @ [CHR 0x2F]) (p @ CHR 0x2F # rest) \<longleftrightarrow> q = p"
proof (induction q arbitrary: p)
  case Nil
  then show ?case by (cases p) auto
next
  case (Cons c q)
  then show ?case by (cases p) auto
qed

lemma path_contains_iff:
  assumes "filepath_IsAbs child"
  shows "path_contains parent child \<longleftrightarrow> prefix (clean_parts parent) (clean_parts child)"
proof -
  obtain up down where s: "strip_common (clean_parts parent) (clean_parts child) = (up, down)" by (rule prod.exhaust)
  have "up = [] \<longleftrightarrow> prefix (clean_parts parent) (clean_parts child)"
    using strip_common_left [of "clean_parts parent" "clean_parts child"] s by simp
  moreover have "path_contains parent child \<longleftrightarrow> up = []"
  proof (cases up)
    case Nil
    then have down: "clean_parts child = clean_parts parent @ down"
      using calculation s strip_common_append by (metis prefixE prod.inject)
    show ?thesis
    proof (cases down)
      case (Cons p ps)
      then have "plain_part p" using clean_parts_plain [OF assms] down by simp
      then have p: "p \<noteq> ''..''" "CHR 0x2F \<notin> set p" by (simp_all add: plain_part_def)
      have "p @ (if ps = [] then [] else CHR 0x2F # join_slash ps) \<noteq> ''..''"
        using p by (auto simp: append_eq_Cons_conv)
      moreover have "\<not> prefix ''../'' (p @ (if ps = [] then [] else CHR 0x2F # join_slash ps))"
      proof (cases "ps = []")
        case True
        then show ?thesis using p(2) by (auto simp: prefix_def)
      next
        case False
        then show ?thesis using slash_free_prefix [of "''..''" p "join_slash ps"] p by auto
      qed
      ultimately show ?thesis by (simp add: path_contains_def filepath_Rel_def s Nil Cons join_slash_Cons Let_def)
    qed (simp add: path_contains_def filepath_Rel_def s Nil)
  next
    case (Cons u us)
    have "filepath_Rel parent child = ''..'' @ (if us = [] \<and> down = [] then [] else CHR 0x2F # join_slash (replicate (length us) ''..'' @ down))"
      by (simp add: filepath_Rel_def s Cons join_slash_Cons)
    then have "\<not> path_contains parent child" by (auto simp: path_contains_def Let_def)
    then show ?thesis using Cons by simp
  qed
  ultimately show ?thesis by simp
qed

lemma Clean_IsAbs: "filepath_IsAbs path \<Longrightarrow> filepath_IsAbs (filepath_Clean path)"
  by (simp add: filepath_Clean_def filepath_IsAbs_def)

lemma Abs_IsAbs:
  assumes "filepath_Abs (Some d) path = Some a" "filepath_IsAbs d"
  shows "filepath_IsAbs a"
proof (cases "filepath_IsAbs path")
  case False
  obtain rest where d: "d = CHR 0x2F # rest" using assms(2) by (auto simp: filepath_IsAbs_def prefix_def)
  then have "filepath_IsAbs (d @ CHR 0x2F # path)" by (simp add: filepath_IsAbs_def)
  then show ?thesis using assms False d Clean_IsAbs by (auto simp: filepath_Abs_def filepath_Join_def)
qed (use assms Clean_IsAbs in \<open>auto simp: filepath_Abs_def\<close>)

text \<open>The elements of a path from the root of the file system, in a working directory.\<close>

definition location :: "go_string \<Rightarrow> go_string \<Rightarrow> go_string list" where
  "location cwd path = (case filepath_Abs (Some cwd) path of Some a \<Rightarrow> clean_parts a | None \<Rightarrow> [])"

lemma pathsOverlap_iff:
  assumes "filepath_IsAbs cwd"
  shows "pathsOverlap (Some cwd) a b \<longleftrightarrow> prefix (location cwd a) (location cwd b) \<or> prefix (location cwd b) (location cwd a)"
proof -
  obtain aa bb where ab: "filepath_Abs (Some cwd) a = Some aa" "filepath_Abs (Some cwd) b = Some bb"
    by (cases "filepath_Abs (Some cwd) a"; cases "filepath_Abs (Some cwd) b") (auto simp: filepath_Abs_def split: if_splits)
  have "filepath_IsAbs aa" "filepath_IsAbs bb" using Abs_IsAbs [OF ab(1) assms] Abs_IsAbs [OF ab(2) assms] by simp_all
  then show ?thesis using path_contains_iff by (simp add: pathsOverlap_def location_def ab)
qed

section \<open>What a loaded configuration guarantees\<close>

lemma LoadEnv_parts:
  assumes "LoadEnv env lookup = Inr cfg"
  shows "ec_Owner cfg \<noteq> ''''" "32 \<le> length (ec_CursorKey cfg)"
    and "load_principals env (trimmedLookup lookup ''MINDMORY_MCP_CLIENT_TOKENS_JSON'') = Inr (ec_MCPClients cfg)"
    and "load_storage env (trimmedLookup lookup) = Inr (ec_Storage cfg, ec_AliasFile cfg)"
    and "load_embedding env (trimmedLookup lookup) = Inr (ec_Embedding cfg)"
  using assms unfolding LoadEnv_def Let_def by (auto split: if_splits)

lemma load_storage_apart:
  assumes "load_storage env value = Inr (st, alias)"
  shows "\<not> pathsOverlap (sx_cwd env) (sg_DataDir st) (sg_DerivedDir st)" "\<not> pathsOverlap (sx_cwd env) (sg_DataDir st) (sg_VectorDir st)"
  using assms unfolding load_storage_def Let_def
  by (simp_all only: if_split_eq1 sum.distinct sum.inject prod.inject simp_thms de_Morgan_disj)

lemma load_embedding_parts:
  assumes "load_embedding env value = Inr cfg"
  shows "0 < ey_Timeout cfg" "ey_Timeout cfg \<le> 10 * minute" "0 \<le> ey_Dimensions cfg" "ey_Dimensions cfg \<le> 65536"
    and "ey_Provider cfg = ''disabled'' \<or> validateEmbeddingEndpoint env cfg = Inr () \<and> ey_Endpoint cfg \<noteq> ''''"
proof -
  obtain timeout dimensions cfg0 where t: "load_timeout env (value ''MINDMORY_EMBED_TIMEOUT'') = Inr timeout"
      "load_dimensions (value ''MINDMORY_EMBED_DIMENSIONS'') = Inr dimensions"
    and c: "provider_defaults (value ''MINDMORY_EMBED_ENDPOINT'') cfg0 = Inr cfg" "ey_Timeout cfg0 = timeout" "ey_Dimensions cfg0 = dimensions"
    and v: "ey_Provider cfg = ''disabled'' \<or> validateEmbeddingEndpoint env cfg = Inr ()"
    using assms unfolding load_embedding_def by (auto split: if_splits)
  have same: "ey_Timeout cfg = timeout" "ey_Dimensions cfg = dimensions"
    using c by (auto simp: provider_defaults_def split: if_splits)
  show "0 < ey_Timeout cfg" "ey_Timeout cfg \<le> 10 * minute"
    using t(1) unfolding same load_timeout_def by (auto split: if_splits option.splits)
  show "0 \<le> ey_Dimensions cfg" "ey_Dimensions cfg \<le> 65536"
    using t(2) unfolding same load_dimensions_def by (auto split: if_splits option.splits)
  have "ey_Provider cfg = ''disabled'' \<or> ey_Endpoint cfg \<noteq> ''''"
    using c(1) by (auto simp: provider_defaults_def defaultString_def split: if_splits)
  then show "ey_Provider cfg = ''disabled'' \<or> validateEmbeddingEndpoint env cfg = Inr () \<and> ey_Endpoint cfg \<noteq> ''''"
    using v by blast
qed

lemma validated_endpoint:
  assumes "validateEmbeddingEndpoint env cfg = Inr ()"
  shows "\<exists>u. sx_parse env (ey_Endpoint cfg) = Some u \<and> clean_url u \<and>
    (loopback_host env (up_Hostname u) \<or> ey_AllowRemote cfg \<and> up_Scheme u = ''https'' \<and> 0 < length (ey_APIKey cfg))"
  using assms by (auto simp: validateEmbeddingEndpoint_def split: option.splits if_splits)

lemma configured_locality:
  assumes "NewConfiguredEmbedder hostname loopback http cfg = Inr (Some p)" "ey_Endpoint cfg \<noteq> ''''"
  shows "ey_Provider cfg \<noteq> ''disabled''"
    and "pv_SendsContentOffDevice (pr_contract p) = snd (retrievalProviderLocality hostname loopback (ey_Endpoint cfg))"
  using assms by (auto simp: NewConfiguredEmbedder_def Let_def ollama_Contract_def compatible_Contract_def provider_contract_of_def
      EndpointURL_def ollama_of_def compatible_of_def split: if_splits sum.splits)


end
