(* ===== verification/Vector_Root.thy ===== *)
theory Vector_Root
  imports Vector_Store
begin

text \<open>
  The directory of generations of \<open>lite/vectorstore/store.go\<close>: named generations side by side and the file
  \<open>CURRENT\<close> that selects one of them.  A generation that replaces another is built detached and selected by
  the last write of \<open>Activate\<close>.  An operation can stop at every one of its writes; \<open>CURRENT\<close> and the manifest are replaced by
  a rename, so they are written completely or not at all.
\<close>

section \<open>The directory\<close>

record vector_root =
  rt_gens :: "go_string \<rightharpoonup> vector_disk"
  rt_CURRENT :: "go_string option"

text \<open>An open generation, with the name of its directory.\<close>

record vector_handle =
  vh_name :: go_string
  vh_store :: vector_store

definition put_gen :: "vector_root \<Rightarrow> vector_handle \<Rightarrow> vector_root" where
  "put_gen dir h = dir\<lparr>rt_gens := (rt_gens dir)(vh_name h \<mapsto> vs_disk (vh_store h))\<rparr>"

definition set_CURRENT :: "vector_root \<Rightarrow> go_string \<Rightarrow> vector_root" where
  "set_CURRENT dir name = dir\<lparr>rt_CURRENT := Some (name @ [newline])\<rparr>"

text \<open>\<open>filepath.Base\<close>.\<close>

definition filepath_Base :: "go_string \<Rightarrow> go_string" where
  "filepath_Base path =
     (if path = '''' then ''.''
      else
        (let trimmed = rev (dropWhile (\<lambda>c. c = CHR 0x2F) (rev path)) in
         if trimmed = '''' then ''/'' else rev (takeWhile (\<lambda>c. c \<noteq> CHR 0x2F) (rev trimmed))))"

section \<open>Opening\<close>

definition Open :: "vector_env \<Rightarrow> vector_root \<Rightarrow> go_string \<Rightarrow> go_string \<Rightarrow> vector_root \<times> vector_handle res" where
  "Open env dir name now =
     (case rt_gens dir name of
        None \<Rightarrow> (dir, Inl ''file does not exist'')
      | Some d \<Rightarrow>
          (case recoverLocked env d now of
             Inl err \<Rightarrow> (dir, Inl err)
           | Inr s \<Rightarrow> (let h = \<lparr>vh_name = name, vh_store = s\<rparr> in (put_gen dir h, Inr h))))"

definition vector_state :: "vector_handle \<Rightarrow> go_string" where
  "vector_state h = vm_State (vs_manifest (vh_store h))"

definition OpenCurrent :: "vector_env \<Rightarrow> vector_root \<Rightarrow> go_string \<Rightarrow> vector_root \<times> vector_handle res" where
  "OpenCurrent env dir now =
     (case rt_CURRENT dir of
        None \<Rightarrow> (dir, Inl ''file does not exist'')
      | Some b \<Rightarrow>
          (let name = trim_space b in
           if name = '''' \<or> filepath_Base name \<noteq> name then (dir, Inl ''invalid CURRENT'')
           else case Open env dir name now of
             (dir, Inl err) \<Rightarrow> (dir, Inl err)
           | (dir, Inr h) \<Rightarrow>
               if vector_state h \<noteq> ''READY'' then (dir, Inl ''vector generation corrupt: CURRENT generation is not READY'')
               else (dir, Inr h)))"

section \<open>Creating and activating\<close>

text \<open>Where the creation of a generation stops, with the bytes of the header written so far.\<close>

datatype create_stop = Header_Failed nat | Manifest_Unwritten | Current_Unwritten | Created

definition createGeneration ::
    "vector_env \<Rightarrow> vector_root \<Rightarrow> generation_spec \<Rightarrow> bool \<Rightarrow> go_string \<Rightarrow> create_stop \<Rightarrow> vector_root \<times> vector_handle res" where
  "createGeneration env dir spec activate now stop =
     (case create_fresh spec activate now of
        Inl err \<Rightarrow> (dir, Inl err)
      | Inr s \<Rightarrow>
          (case rt_gens dir (gs_Name spec) of
             Some _ \<Rightarrow>
               (case Open env dir (gs_Name spec) now of
                  (dir, Inl err) \<Rightarrow> (dir, Inl err)
                | (dir, Inr h) \<Rightarrow>
                    if \<not> activate then (dir, Inr h)
                    else if vector_state h \<noteq> ''READY'' then (dir, Inl ''existing generation is not READY'')
                    else if stop = Current_Unwritten then (dir, Inl ''write failed'')
                    else (set_CURRENT dir (gs_Name spec), Inr h))
           | None \<Rightarrow>
               (let h = \<lparr>vh_name = gs_Name spec, vh_store = s\<rparr>;
                    bare = (\<lambda>b. put_gen dir (h\<lparr>vh_store := s\<lparr>vs_disk := \<lparr>vd_vectors = b, vd_map = [], vd_manifest = None\<rparr>\<rparr>\<rparr>));
                    full = put_gen dir h in
                case stop of
                  Header_Failed k \<Rightarrow> (bare (take k (header_bytes (vs_header s))), Inl ''write failed'')
                | Manifest_Unwritten \<Rightarrow> (bare (header_bytes (vs_header s)), Inl ''write failed'')
                | Current_Unwritten \<Rightarrow> if activate then (full, Inl ''write failed'') else (full, Inr h)
                | Created \<Rightarrow> (if activate then set_CURRENT full (gs_Name spec) else full, Inr h))))"

definition vector_Create ::
    "vector_env \<Rightarrow> vector_root \<Rightarrow> generation_spec \<Rightarrow> go_string \<Rightarrow> create_stop \<Rightarrow> vector_root \<times> vector_handle res" where
  "vector_Create env dir spec now stop = createGeneration env dir (prepareSpec (ve_sha env) spec) True now stop"

text \<open>\<open>nonce\<close> are the eight random bytes.\<close>

definition building_spec :: "(go_string \<Rightarrow> go_string) \<Rightarrow> generation_spec \<Rightarrow> go_string \<Rightarrow> generation_spec" where
  "building_spec sha spec nonce =
     (let spec = prepareSpec sha spec in
      if gs_Name spec = generationName sha spec then spec\<lparr>gs_Name := gs_Name spec @ ''-building-'' @ hex_encode nonce\<rparr>
      else spec)"

definition CreateBuilding ::
    "vector_env \<Rightarrow> vector_root \<Rightarrow> generation_spec \<Rightarrow> go_string \<Rightarrow> go_string \<Rightarrow> create_stop \<Rightarrow> vector_root \<times> vector_handle res" where
  "CreateBuilding env dir spec nonce now stop = createGeneration env dir (building_spec (ve_sha env) spec nonce) False now stop"

text \<open>Where an activation stops: cancelled or at a record that cannot be read, at the sync of the vectors, the
  manifest, or \<open>CURRENT\<close>.\<close>

datatype activate_stop = Cancelled | Sync_Failed | Manifest_Stopped | Current_Stopped | Activated

definition Activate ::
    "vector_env \<Rightarrow> vector_root \<Rightarrow> vector_handle \<Rightarrow> go_string \<Rightarrow> activate_stop \<Rightarrow> vector_root \<times> vector_handle \<times> unit res" where
  "Activate env dir h now stop =
     (let s = vh_store h; ready = (vs_manifest s)\<lparr>vm_State := ''READY'', vm_UpdatedAt := now\<rparr>;
          unwritten = h\<lparr>vh_store := s\<lparr>vs_manifest := ready\<rparr>\<rparr>;
          written = h\<lparr>vh_store := s\<lparr>vs_manifest := ready, vs_disk := (vs_disk s)\<lparr>vd_manifest := Some ready\<rparr>\<rparr>\<rparr> in
      if stop = Cancelled then (dir, h, Inl ''context canceled'')
      else case Verify env s True of
        Inl err \<Rightarrow> (dir, h, Inl err)
      | Inr _ \<Rightarrow>
          if vs_closed s then (dir, h, Inl ''file already closed'')
          else if vm_State (vs_manifest s) \<noteq> ''BUILDING'' \<and> vm_State (vs_manifest s) \<noteq> ''READY''
          then (dir, h, Inl ''generation is not activatable'')
          else if stop = Sync_Failed then (dir, h, Inl ''sync failed'')
          else if stop = Manifest_Stopped then (dir, unwritten, Inl ''write failed'')
          else if stop = Current_Stopped then (put_gen dir written, written, Inl ''write failed'')
          else (set_CURRENT (put_gen dir written) (vm_Generation ready), written, Inr ()))"

section \<open>Filling a detached generation\<close>

text \<open>One append to an open generation, on its files.\<close>

definition handle_Append ::
    "vector_env \<Rightarrow> vector_root \<Rightarrow> vector_handle \<Rightarrow> go_string \<Rightarrow> go_string \<Rightarrow> float32 list \<Rightarrow> go_string \<Rightarrow> append_stop \<Rightarrow>
     vector_root \<times> vector_handle \<times> vector_ref res" where
  "handle_Append env dir h sourceID inputHash vector now stop =
     (case vector_Append env (vh_store h) ''MEMORY'' sourceID inputHash vector now stop of
        (s, r) \<Rightarrow> (let h = h\<lparr>vh_store := s\<rparr> in (put_gen dir h, h, r)))"

section \<open>What selects a generation\<close>

text \<open>A directory in order: \<open>CURRENT\<close> is a clean name of a generation with the given mapping.\<close>

definition clean_name :: "go_string \<Rightarrow> bool" where
  "clean_name name \<longleftrightarrow> name \<noteq> '''' \<and> trim_space (name @ [newline]) = name \<and> filepath_Base name = name"

definition selects :: "vector_env \<Rightarrow> vector_root \<Rightarrow> go_string \<Rightarrow> vector_ref list \<Rightarrow> go_string list \<Rightarrow> bool" where
  "selects env dir name refs recs \<longleftrightarrow>
     clean_name name \<and> rt_CURRENT dir = Some (name @ [newline]) \<and>
     (\<exists>d. rt_gens dir name = Some d \<and> reopens env d name refs recs \<and> map_option vm_State (vd_manifest d) = Some ''READY'') \<and>
     checksums_ok env refs recs"

lemma recover_state:
  assumes "recoverLocked env d now = Inr s"
  shows "map_option vm_State (vd_manifest d) = Some (vm_State (vs_manifest s))"
proof (cases "vd_manifest d")
  case (Some m)
  obtain h refs malformed b x y z where
    "s = \<lparr>vs_header = h, vs_manifest = (if vm_CommittedVectors m \<noteq> hd_CommittedCount h
       then m\<lparr>vm_CommittedVectors := hd_CommittedCount h, vm_UpdatedAt := now\<rparr> else m), vs_refs = refs, vs_bySource = b,
       vs_mapped = x, vs_closed = False, vs_disk = \<lparr>vd_vectors = y, vd_map = z, vd_manifest = Some (if vm_CommittedVectors m \<noteq> hd_CommittedCount h
       then m\<lparr>vm_CommittedVectors := hd_CommittedCount h, vm_UpdatedAt := now\<rparr> else m)\<rparr>\<rparr>"
    using assms unfolding recoverLocked_def bindE_eq_Inr_iff Let_def Some option.case split_beta
    by (elim exE conjE) (simp only: bindE_eq_Inr_iff sum.distinct sum.inject simp_thms if_split_eq1 ex_simps; metis)
  then show ?thesis by (simp add: Some)
qed (use assms in \<open>simp add: recoverLocked_def\<close>)

text \<open>Such a directory opens, and the generation it opens is the selected one, in order.\<close>

lemma selects_opens:
  assumes "selects env dir name refs recs"
  shows "\<exists>dir' h. OpenCurrent env dir now = (dir', Inr h) \<and> vh_name h = name \<and> vs_refs (vh_store h) = refs \<and>
    vstore_inv env (vh_store h) recs \<and> Verify env (vh_store h) full = Inr ()"
proof -
  obtain d where d: "rt_gens dir name = Some d" "reopens env d name refs recs" "map_option vm_State (vd_manifest d) = Some ''READY''"
    using assms by (auto simp: selects_def)
  obtain s where s: "recoverLocked env d now = Inr s" "vstore_shape env s recs" "vs_refs s = refs"
    using d(2) by (auto simp: reopens_def)
  have inv: "vstore_inv env s recs" using s assms by (simp add: vstore_inv_def selects_def)
  have ready: "vm_State (vs_manifest s) = ''READY''" using recover_state [OF s(1)] d(3) by simp
  have cur: "rt_CURRENT dir = Some (name @ [newline])" "trim_space (name @ [newline]) = name" "name \<noteq> ''''" "filepath_Base name = name"
    using assms by (simp_all add: selects_def clean_name_def)
  have "OpenCurrent env dir now = (put_gen dir \<lparr>vh_name = name, vh_store = s\<rparr>, Inr \<lparr>vh_name = name, vh_store = s\<rparr>)"
    by (simp add: OpenCurrent_def Open_def cur d(1) s(1) ready vector_state_def Let_def)
  then show ?thesis using inv s(3) verify_ok [OF inv] by simp
qed

lemma selects_other: "selects env dir name refs recs \<Longrightarrow> vh_name h \<noteq> name \<Longrightarrow> selects env (put_gen dir h) name refs recs"
  by (simp add: selects_def put_gen_def)

section \<open>The names of new generations\<close>

text \<open>Names of printable ASCII characters without a slash are read back from \<open>CURRENT\<close> as they were written.\<close>

definition plain_char :: "char \<Rightarrow> bool" where
  "plain_char c \<longleftrightarrow> 0x21 \<le> (of_char c :: nat) \<and> (of_char c :: nat) \<le> 0x7E \<and> c \<noteq> CHR 0x2F"

lemma rune_chunks_ascii: "\<forall>c \<in> set s. (of_char c :: nat) < 128 \<Longrightarrow> rune_chunks s = map (\<lambda>c. (of_char c, [c])) s"
  by (induction s) (simp_all add: decode_rune_def)

lemma plain_not_space: "plain_char c \<Longrightarrow> \<not> is_space (of_char c)"
  by (auto simp: plain_char_def is_space_def)

lemma plain_ascii: "plain_char c \<Longrightarrow> (of_char c :: nat) < 128"
  by (simp add: plain_char_def)

lemma trim_plain:
  assumes "list_all plain_char s"
  shows "trim_space (s @ [newline]) = s"
proof -
  let ?M = "map (\<lambda>c. (of_char c, [c]))" and ?space = "\<lambda>c :: rune \<times> go_string. is_space (fst c)"
  have "\<forall>c \<in> set (s @ [newline]). (of_char c :: nat) < 128"
    using assms plain_ascii by (simp add: list_all_iff)
  from rune_chunks_ascii [OF this] have chunks: "rune_chunks (s @ [newline]) = ?M s @ [(10, [newline])]" by simp
  have keep: "dropWhile ?space (?M t @ u) = ?M t @ u" if "list_all plain_char t" "t \<noteq> []" for t u
    using that plain_not_space by (cases t) auto
  have newline: "is_space 10" by (simp add: is_space_def)
  show ?thesis
  proof (cases "s = []")
    case True
    then have "trim_chunks (rune_chunks (s @ [newline])) = []" unfolding chunks by (simp add: trim_chunks_def newline)
    then show ?thesis using True by (simp add: trim_space_def)
  next
    case False
    have "dropWhile ?space (rev (?M s @ [(10, [newline])])) = ?M (rev s)"
      using keep [of "rev s" "[]"] assms False newline by (simp add: rev_map)
    then have "trim_chunks (rune_chunks (s @ [newline])) = ?M s"
      by (simp only: trim_chunks_def chunks keep [OF assms False]) (simp add: rev_map)
    then show ?thesis by (simp add: trim_space_def comp_def)
  qed
qed
lemma Base_plain: "list_all plain_char s \<Longrightarrow> s \<noteq> '''' \<Longrightarrow> filepath_Base s = s"
proof -
  assume s: "list_all plain_char s" "s \<noteq> ''''"
  then have dw: "dropWhile (\<lambda>c. c = CHR 0x2F) (rev s) = rev s"
    by (cases s rule: rev_cases) (auto simp: plain_char_def)
  have tw: "takeWhile (\<lambda>c. c \<noteq> CHR 0x2F) (rev s) = rev s"
    using s by (auto simp: takeWhile_eq_all_conv plain_char_def list_all_iff)
  show "filepath_Base s = s" using s(2) by (simp only: filepath_Base_def dw Let_def rev_rev_ident tw if_False)
qed

lemma clean_name_plain: "list_all plain_char s \<Longrightarrow> s \<noteq> '''' \<Longrightarrow> clean_name s"
  by (simp add: clean_name_def trim_plain Base_plain)

lemma plain_hex: "list_all plain_char (hex_encode s)"
proof -
  have "\<forall>i \<in> set [0..<16]. plain_char (hex_digit i)" by code_simp
  then have "n < 16 \<Longrightarrow> plain_char (hex_digit n)" for n by simp
  then have "plain_char (hex_digit (of_char c div 16))" "plain_char (hex_digit (of_char c mod 16))" for c
    by (simp_all add: less_mult_imp_div_less)
  then show ?thesis by (induction s) (simp_all add: hex_encode_Cons)
qed

lemma plain_digits: "list_all plain_char (digits_of n)"
proof (induction n rule: digits_of.induct)
  case (1 n)
  have "\<forall>i \<in> set [0..<10]. plain_char (char_of (48 + i))" by code_simp
  then have "k < 10 \<Longrightarrow> plain_char (char_of (48 + k))" for k :: nat by simp
  then show ?case using 1 by (subst digits_of.simps) simp
qed

lemma plain_itoa: "list_all plain_char (itoa n)"
proof -
  have "plain_char (CHR 0x2D)" by code_simp
  then show ?thesis using plain_digits by (simp add: itoa_def)
qed

lemma building_name_clean:
  assumes "gs_Name spec = ''''"
  shows "clean_name (gs_Name (building_spec sha spec nonce))"
proof -
  have "gs_Name (building_spec sha spec nonce) = generationName sha (prepareSpec sha spec) @ ''-building-'' @ hex_encode nonce"
    using assms by (simp add: building_spec_def prepareSpec_def Let_def generationName_def)
  moreover have "list_all plain_char ''gen-''" "list_all plain_char ''-''" "list_all plain_char ''-f32-v1''"
    "list_all plain_char ''-building-''" by code_simp+
  ultimately show ?thesis
    by (intro clean_name_plain) (simp_all only: generationName_def list_all_append plain_hex plain_itoa simp_thms append_is_Nil_conv list.distinct)
qed

section \<open>Appending and activating in order\<close>

text \<open>What an append leaves of the manifest.\<close>

abbreviation same_identity :: "manifest \<Rightarrow> manifest \<Rightarrow> bool" where
  "same_identity m m' \<equiv> vm_Generation m' = vm_Generation m \<and> vm_State m' = vm_State m \<and> vm_ModelName m' = vm_ModelName m \<and>
     vm_ModelDigest m' = vm_ModelDigest m \<and> vm_Dimensions m' = vm_Dimensions m"

lemma append_writes_identity:
  "same_identity (vs_manifest s) (vs_manifest (fst (append_writes env s ref b offset now stop)))"
  "vs_closed (fst (append_writes env s ref b offset now stop)) = vs_closed s"
  by (cases stop; simp add: append_writes_def Let_def)+

lemma append_identity:
  assumes "vector_Append env s ty sid ih v now stop = (s', r)"
  shows "same_identity (vs_manifest s) (vs_manifest s')" "vs_closed s' = vs_closed s"
proof -
  consider "s' = s" | ref b off where "s' = fst (append_writes env s ref b off now stop)"
    using assms unfolding vector_Append_def by (auto split: if_splits option.splits sum.splits) (metis fst_conv)
  then show "same_identity (vs_manifest s) (vs_manifest s')" "vs_closed s' = vs_closed s"
    by (cases; simp add: append_writes_identity)+
qed

lemma Has_iff: "vstore_shape env s recs \<Longrightarrow> Has s sid ih \<longleftrightarrow> source_key sid ih \<in> ref_key ` set (vs_refs s)"
  using dom_index_refs [of "vm_Generation (vs_manifest s)" 0 Map.empty "vs_refs s" "vs_bySource s"]
  by (auto simp: Has_def vstore_shape_def dom_def)

text \<open>An append that reports success keeps the generation in order, adds its source and loses none.\<close>

lemma append_succeeds:
  assumes inv: "vstore_inv env s recs" and app: "vector_Append env s ty sid ih v now stop = (s', Inr ref)"
    and sid: "sid \<noteq> ''''" and ok: "\<And>b. line_ok env (new_ref env s ty sid ih b now)"
  shows "\<exists>recs'. vstore_inv env s' recs'" "Has s' sid ih" "Has s sid' ih' \<Longrightarrow> Has s' sid' ih'"
    and "vs_refs s' = vs_refs s \<or> (\<exists>b. vs_refs s' = vs_refs s @ [new_ref env s ty sid ih b now] \<and> ref = new_ref env s ty sid ih b now)"
proof -
  have shape: "vstore_shape env s recs" and sums: "checksums_ok env (vs_refs s) recs" using inv by (simp_all add: vstore_inv_def)
  have "(\<exists>recs'. vstore_inv env s' recs') \<and> Has s' sid ih \<and> (Has s sid' ih' \<longrightarrow> Has s' sid' ih') \<and>
      (vs_refs s' = vs_refs s \<or> (\<exists>b. vs_refs s' = vs_refs s @ [new_ref env s ty sid ih b now] \<and> ref = new_ref env s ty sid ih b now))"
    using shape app sid ok
  proof (cases rule: append_cases)
    case unchanged
    then have "Has s sid ih \<or> (\<exists>b off. (s, Inr ref) = append_writes env s (new_ref env s ty sid ih b now) b off now stop)"
      using app unfolding vector_Append_def Has_def by (auto split: if_splits option.splits sum.splits) metis
    moreover have "(s, Inr ref) \<noteq> append_writes env s (new_ref env s ty sid ih b now) b off now stop" for b off
    proof
      assume w: "(s, Inr ref) = append_writes env s (new_ref env s ty sid ih b now) b off now stop"
      have "vs_refs (fst (append_writes env s r b off now Completed)) = vs_refs s @ [r]" for r
        by (simp add: append_writes_def Let_def)
      moreover have "stop = Completed" using arg_cong [OF w, of snd] by (cases stop) (simp_all add: append_writes_def Let_def)
      ultimately have "vs_refs s = vs_refs s @ [new_ref env s ty sid ih b now]" using arg_cong [OF w, of fst] by (metis fst_conv)
      then show False by simp
    qed
    ultimately show ?thesis using unchanged(1) inv by blast
  next
    case (written b)
    have completed: "stop = Completed" using written(5) by auto
    have shape': "vstore_shape env s' (recs @ [b])" and refs: "vs_refs s' = vs_refs s @ [new_ref env s ty sid ih b now]"
      and ref: "ref = new_ref env s ty sid ih b now" using written(4) completed by auto
    have "vstore_inv env s' (recs @ [b])" using shape' checksums_snoc [OF sums] by (simp add: vstore_inv_def refs)
    moreover have "Has s' sid ih" "Has s sid' ih' \<longrightarrow> Has s' sid' ih'"
      unfolding Has_iff [OF shape'] Has_iff [OF shape] refs by (simp_all add: new_ref_def)
    ultimately show ?thesis using refs ref by blast
  qed
  then show "\<exists>recs'. vstore_inv env s' recs'" "Has s' sid ih" "Has s sid' ih' \<Longrightarrow> Has s' sid' ih'"
    and "vs_refs s' = vs_refs s \<or> (\<exists>b. vs_refs s' = vs_refs s @ [new_ref env s ty sid ih b now] \<and> ref = new_ref env s ty sid ih b now)"
    by blast+
qed

text \<open>What one generation's operations leave of the directory: \<open>CURRENT\<close> and the other generations.\<close>

definition untouched :: "go_string \<Rightarrow> vector_root \<Rightarrow> vector_root \<Rightarrow> bool" where
  "untouched name dir dir' \<longleftrightarrow> rt_CURRENT dir' = rt_CURRENT dir \<and> (\<forall>n. n = name \<or> rt_gens dir' n = rt_gens dir n)"

lemma untouched_refl [simp]: "untouched name dir dir"
  by (simp add: untouched_def)

lemma untouched_trans: "untouched name dir dir' \<Longrightarrow> untouched name dir' dir'' \<Longrightarrow> untouched name dir dir''"
  unfolding untouched_def by metis

lemma untouched_put [simp]: "vh_name h = name \<Longrightarrow> untouched name dir (put_gen dir h)"
  by (simp add: untouched_def put_gen_def)

lemma untouched_selects: "selects env dir name' refs recs \<Longrightarrow> untouched name dir dir' \<Longrightarrow> name' \<noteq> name \<Longrightarrow> selects env dir' name' refs recs"
  unfolding selects_def untouched_def by metis

text \<open>A generation that verifies and is selected by the last write of its activation.\<close>

lemma Activate_selects:
  assumes inv: "vstore_inv env (vh_store h) recs" and name: "vm_Generation (vs_manifest (vh_store h)) = vh_name h"
    and open': "\<not> vs_closed (vh_store h)" and state: "vector_state h = ''BUILDING''" and clean: "clean_name (vh_name h)"
    and act: "Activate env dir h now stop = (dir', h', r)"
  shows "r = Inr () \<Longrightarrow> selects env dir' (vh_name h) (vs_refs (vh_store h)) recs \<and> vh_name h' = vh_name h \<and>
      vs_refs (vh_store h') = vs_refs (vh_store h) \<and> vs_bySource (vh_store h') = vs_bySource (vh_store h)"
    and "r \<noteq> Inr () \<Longrightarrow> untouched (vh_name h) dir dir'"
    and "stop = Activated \<Longrightarrow> r = Inr ()"
proof -
  let ?s = "vh_store h"
  let ?m = "(vs_manifest ?s)\<lparr>vm_State := ''READY'', vm_UpdatedAt := now\<rparr>"
  let ?w = "h\<lparr>vh_store := ?s\<lparr>vs_manifest := ?m, vs_disk := (vs_disk ?s)\<lparr>vd_manifest := Some ?m\<rparr>\<rparr>\<rparr>"
  have act': "(dir', h', r) =
      (if stop = Cancelled then (dir, h, Inl ''context canceled'')
       else if stop = Sync_Failed then (dir, h, Inl ''sync failed'')
       else if stop = Manifest_Stopped then (dir, h\<lparr>vh_store := ?s\<lparr>vs_manifest := ?m\<rparr>\<rparr>, Inl ''write failed'')
       else if stop = Current_Stopped then (put_gen dir ?w, ?w, Inl ''write failed'')
       else (set_CURRENT (put_gen dir ?w) (vh_name h), ?w, Inr ()))"
    unfolding act [symmetric]
    using verify_ok [OF inv] open' state name by (cases stop) (simp_all add: Activate_def Let_def vector_state_def)
  have shape: "vstore_shape env (vh_store ?w) recs" using inv by (auto simp: vstore_inv_def vstore_shape_def)
  have "reopens env (vs_disk (vh_store ?w)) (vm_Generation (vs_manifest (vh_store ?w))) (vs_refs (vh_store ?w)) recs"
    by (rule reopens_self [OF shape])
  then have sel: "selects env (set_CURRENT (put_gen dir ?w) (vh_name h)) (vh_name h) (vs_refs ?s) recs"
    using clean name inv by (simp add: selects_def set_CURRENT_def put_gen_def vstore_inv_def)
  show "r = Inr () \<Longrightarrow> selects env dir' (vh_name h) (vs_refs ?s) recs \<and> vh_name h' = vh_name h \<and>
      vs_refs (vh_store h') = vs_refs ?s \<and> vs_bySource (vh_store h') = vs_bySource ?s"
    using act' sel by (auto split: if_splits)
  show "r \<noteq> Inr () \<Longrightarrow> untouched (vh_name h) dir dir'"
    using act' by (auto simp: untouched_def put_gen_def split: if_splits)
  show "stop = Activated \<Longrightarrow> r = Inr ()" using act' by simp
qed

text \<open>A detached generation starts empty and in order, and leaves everything else as it was.\<close>

lemma CreateBuilding_fresh:
  assumes "CreateBuilding env dir spec nonce now stop = (dir', r)" "rt_gens dir (gs_Name (building_spec (ve_sha env) spec nonce)) = None"
  defines "name \<equiv> gs_Name (building_spec (ve_sha env) spec nonce)"
  shows "untouched name dir dir'"
    and "r = Inr h \<Longrightarrow> vh_name h = name \<and> vstore_inv env (vh_store h) [] \<and> vm_Generation (vs_manifest (vh_store h)) = name \<and>
      \<not> vs_closed (vh_store h) \<and> vector_state h = ''BUILDING'' \<and> rt_gens dir' name = Some (vs_disk (vh_store h))"
proof -
  let ?spec = "building_spec (ve_sha env) spec nonce"
  consider err where "dir' = dir" "r = Inl err"
    | s where "create_fresh ?spec False now = Inr s" "untouched name dir dir'"
        "r = Inr \<lparr>vh_name = name, vh_store = s\<rparr> \<and> dir' = put_gen dir \<lparr>vh_name = name, vh_store = s\<rparr> \<or> (\<exists>err. r = Inl err)"
  proof (cases "create_fresh ?spec False now")
    case (Inr s)
    show thesis
      using assms(1,2) unfolding CreateBuilding_def createGeneration_def Let_def
      by (cases stop; intro that(2) [OF Inr]) (auto simp: Inr name_def untouched_def put_gen_def split: if_splits)
  qed (use assms(1) in \<open>auto simp: CreateBuilding_def createGeneration_def intro: that(1)\<close>)
  note c = this
  show "untouched name dir dir'" using c by cases auto
  show "r = Inr h \<Longrightarrow> vh_name h = name \<and> vstore_inv env (vh_store h) [] \<and> vm_Generation (vs_manifest (vh_store h)) = name \<and>
      \<not> vs_closed (vh_store h) \<and> vector_state h = ''BUILDING'' \<and> rt_gens dir' name = Some (vs_disk (vh_store h))"
    using c
  proof cases
    case (2 s)
    assume r: "r = Inr h"
    have "vs_manifest s = fresh_manifest ?spec False now" "\<not> vs_closed s"
      using 2(1) by (auto simp: create_fresh_def split: if_splits)
    then show ?thesis using 2 r create_inv [OF 2(1)] by (auto simp: vector_state_def fresh_manifest_def name_def put_gen_def)
  qed simp
qed

end
