(* ===== verification/Vector_Sync.thy ===== *)
theory Vector_Sync
  imports Search Vector_Root Provider
begin

text \<open>
  The semantic projection of the store: \<open>Store.SyncVectors\<close>, \<open>openVectors\<close> and the import of the older projection of
  \<open>lite/store.go\<close>, \<open>lite/vector_projection.go\<close>, the table of references of \<open>lite/index.go\<close>, and \<open>Store.VectorStatus\<close> of
  \<open>lite/vector_admin.go\<close> in its two forms.  A sync reads the memories twice, before and after the provider
  was asked, without the lock in between; what it reads the second time, and the generation it then finds open, are arguments.
\<close>

section \<open>The table of references\<close>

text \<open>Rows of \<open>vector_refs\<close> under their key of generation and ordinal.  A generation, a source and a hash are unique besides; a
  violation is an error, which the callers ignore.  No statement of the program sets \<open>stale\<close>.\<close>

abbreviation same_slot :: "vector_ref \<Rightarrow> vector_ref \<Rightarrow> bool" where
  "same_slot a b \<equiv> vr_Generation a = vr_Generation b \<and> vr_Ordinal a = vr_Ordinal b"

abbreviation same_source :: "vector_ref \<Rightarrow> vector_ref \<Rightarrow> bool" where
  "same_source a b \<equiv> vr_Generation a = vr_Generation b \<and> vr_SourceType a = vr_SourceType b \<and>
     vr_SourceID a = vr_SourceID b \<and> vr_EmbeddingInputHash a = vr_EmbeddingInputHash b"

definition UpsertVectorRef :: "vector_ref \<Rightarrow> vector_ref list \<Rightarrow> vector_ref list res" where
  "UpsertVectorRef ref rows =
     (if list_ex (\<lambda>r. same_source r ref \<and> \<not> same_slot r ref) rows then Inl ''UNIQUE constraint failed''
      else if list_ex (\<lambda>r. same_slot r ref) rows then Inr (map (\<lambda>r. if same_slot r ref then ref else r) rows)
      else Inr (rows @ [ref]))"

definition upserted :: "vector_ref \<Rightarrow> vector_ref list \<Rightarrow> vector_ref list" where
  "upserted ref rows = (case UpsertVectorRef ref rows of Inl _ \<Rightarrow> rows | Inr rows \<Rightarrow> rows)"

text \<open>The inserts of \<open>ReplaceVectorRefs\<close>, each under both constraints.\<close>

fun insert_refs :: "vector_ref list \<Rightarrow> vector_ref list \<Rightarrow> vector_ref list res" where
  "insert_refs rows [] = Inr rows"
| "insert_refs rows (ref # refs) =
     (if list_ex (\<lambda>r. same_slot r ref \<or> same_source r ref) rows then Inl ''UNIQUE constraint failed''
      else insert_refs (rows @ [ref]) refs)"

definition ReplaceVectorRefs :: "vector_ref list \<Rightarrow> vector_ref list \<Rightarrow> vector_ref list res" where
  "ReplaceVectorRefs refs rows =
     (if refs = [] then Inr rows
      else insert_refs (filter (\<lambda>r. vr_Generation r \<noteq> vr_Generation (hd refs)) rows) refs)"

section \<open>State\<close>

record vector_side =
  vx_root :: vector_root
  vx_store :: "vector_handle option"
  vx_issue :: go_string
  vx_refs :: "vector_ref list"

record sync_summary =
  sy_Scanned :: nat
  sy_ImportedLegacy :: nat
  sy_AlreadyCurrent :: nat
  sy_Embedded :: nat
  sy_SkippedInactive :: nat
  sy_Failed :: nat

record pending =
  pq_id :: go_string
  pq_inputHash :: go_string
  pq_text :: go_string

text \<open>What a sync depends on besides the state: clocks, and where its writes stop.\<close>

record sync_ambient =
  sa_now :: "nat \<Rightarrow> go_string"
  sa_appends :: "nat \<Rightarrow> append_stop"
  sa_create :: create_stop
  sa_nonce :: go_string
  sa_activate :: activate_stop

abbreviation zero_summary :: sync_summary where
  "zero_summary \<equiv> \<lparr>sy_Scanned = 0, sy_ImportedLegacy = 0, sy_AlreadyCurrent = 0, sy_Embedded = 0, sy_SkippedInactive = 0, sy_Failed = 0\<rparr>"

definition vector_eligible :: "memory_row \<Rightarrow> bool" where
  "vector_eligible row \<longleftrightarrow>
     mm_Lifecycle row = ''ACTIVE'' \<and> mm_Sensitivity row = ''NORMAL'' \<and> \<not> mm_SecretLike row \<and> \<not> mm_InstructionLike row"

abbreviation handle_manifest :: "vector_handle \<Rightarrow> manifest" where
  "handle_manifest h \<equiv> vs_manifest (vh_store h)"

section \<open>SyncVectors\<close>

definition model_current :: "go_string \<Rightarrow> go_string \<Rightarrow> manifest \<Rightarrow> bool" where
  "model_current model digest m \<longleftrightarrow> vm_ModelName m = model \<and> (digest = '''' \<or> vm_ModelDigest m = digest)"

text \<open>The first look at the memories: who needs a vector.\<close>

fun sync_scan ::
    "(go_string \<Rightarrow> go_string) \<Rightarrow> vector_handle option \<Rightarrow> go_string \<Rightarrow> go_string \<Rightarrow> sync_summary \<Rightarrow> memory_row list \<Rightarrow>
     sync_summary \<times> pending list" where
  "sync_scan sha vs model digest summary [] = (summary, [])"
| "sync_scan sha vs model digest summary (row # rows) =
     (let summary = summary\<lparr>sy_Scanned := sy_Scanned summary + 1\<rparr>; h = EmbeddingInputHash sha row in
      if \<not> vector_eligible row
      then sync_scan sha vs model digest (summary\<lparr>sy_SkippedInactive := sy_SkippedInactive summary + 1\<rparr>) rows
      else if (case vs of None \<Rightarrow> False
             | Some g \<Rightarrow> model_current model digest (handle_manifest g) \<and> Has (vh_store g) (mm_MemoryID row) h)
      then sync_scan sha vs model digest (summary\<lparr>sy_AlreadyCurrent := sy_AlreadyCurrent summary + 1\<rparr>) rows
      else
        (case sync_scan sha vs model digest summary rows of
           (summary, queue) \<Rightarrow> (summary, \<lparr>pq_id = mm_MemoryID row, pq_inputHash = h, pq_text = EmbeddingInput row\<rparr> # queue)))"

text \<open>The answer of the provider: as many vectors as texts, all of one positive dimension.\<close>

definition check_vectors :: "nat \<Rightarrow> float32 list list \<Rightarrow> unit res" where
  "check_vectors n vectors =
     (if length vectors \<noteq> n then Inl ''embed count mismatch''
      else if hd vectors = [] then Inl ''embedding provider returned empty vectors''
      else if list_ex (\<lambda>v. length v \<noteq> length (hd vectors)) (tl vectors)
      then Inl ''embedding provider changed dimensions during one sync'' else Inr ())"

definition needs_generation :: "vector_handle option \<Rightarrow> go_string \<Rightarrow> go_string \<Rightarrow> nat \<Rightarrow> bool" where
  "needs_generation vs model digest dimensions \<longleftrightarrow>
     (case vs of None \<Rightarrow> True
      | Some h \<Rightarrow> vm_ModelName (handle_manifest h) \<noteq> model \<or> digest \<noteq> '''' \<and> vm_ModelDigest (handle_manifest h) \<noteq> digest \<or>
          vm_Dimensions (handle_manifest h) \<noteq> int dimensions)"

text \<open>The second look: the memory a vector was made for is still the same.\<close>

definition still_current :: "(go_string \<Rightarrow> go_string) \<Rightarrow> (go_string \<rightharpoonup> memory_row) \<Rightarrow> pending \<Rightarrow> bool" where
  "still_current sha rows p =
     (case rows (pq_id p) of None \<Rightarrow> False
      | Some row \<Rightarrow> mm_Lifecycle row = ''ACTIVE'' \<and> EmbeddingInputHash sha row = pq_inputHash p)"

fun build_loop ::
    "vector_env \<Rightarrow> (go_string \<rightharpoonup> memory_row) \<Rightarrow> sync_ambient \<Rightarrow> nat \<Rightarrow> vector_root \<Rightarrow> vector_handle \<Rightarrow> vector_ref list \<Rightarrow>
     (pending \<times> float32 list) list \<Rightarrow> vector_root \<times> vector_handle \<times> vector_ref list res" where
  "build_loop env rows amb i dir h refs [] = (dir, h, Inr refs)"
| "build_loop env rows amb i dir h refs ((p, v) # ps) =
     (if \<not> still_current (ve_sha env) rows p
      then (dir, h, Inl ''canonical memory changed during vector generation build; retry sync'')
      else case handle_Append env dir h (pq_id p) (pq_inputHash p) v (sa_now amb i) (sa_appends amb i) of
        (dir, h, Inl err) \<Rightarrow> (dir, h, Inl err)
      | (dir, h, Inr ref) \<Rightarrow> build_loop env rows amb (i + 1) dir h (refs @ [ref]) ps)"

text \<open>A new generation: built detached, then selected.\<close>

definition sync_generation ::
    "vector_env \<Rightarrow> (go_string \<rightharpoonup> memory_row) \<Rightarrow> sync_ambient \<Rightarrow> generation_spec \<Rightarrow> vector_side \<Rightarrow> sync_summary \<Rightarrow>
     (pending \<times> float32 list) list \<Rightarrow> vector_side \<times> sync_summary \<times> unit res" where
  "sync_generation env rows amb spec side summary ps =
     (case CreateBuilding env (vx_root side) spec (sa_nonce amb) (sa_now amb 0) (sa_create amb) of
        (dir, Inl err) \<Rightarrow> (side\<lparr>vx_root := dir\<rparr>, summary, Inl err)
      | (dir, Inr h) \<Rightarrow>
          (case build_loop env rows amb 1 dir h [] ps of
             (dir, h, Inl err) \<Rightarrow> (side\<lparr>vx_root := dir\<rparr>, summary, Inl err)
           | (dir, h, Inr refs) \<Rightarrow>
               (case Activate env dir h (sa_now amb 0) (sa_activate amb) of
                  (dir, h, Inl err) \<Rightarrow> (side\<lparr>vx_root := dir\<rparr>, summary, Inl err)
                | (dir, h, Inr _) \<Rightarrow>
                    (\<lparr>vx_root = dir, vx_store = Some h, vx_issue = '''', vx_refs = fold upserted refs (vx_refs side)\<rparr>,
                     summary\<lparr>sy_Embedded := sy_Embedded summary + length refs\<rparr>, Inr ()))))"

text \<open>Appends to the open generation; a memory that has changed and an append that fails are counted and passed over.\<close>

fun sync_appends ::
    "vector_env \<Rightarrow> (go_string \<rightharpoonup> memory_row) \<Rightarrow> sync_ambient \<Rightarrow> nat \<Rightarrow> vector_side \<Rightarrow> vector_handle \<Rightarrow> sync_summary \<Rightarrow>
     (pending \<times> float32 list) list \<Rightarrow> vector_side \<times> sync_summary" where
  "sync_appends env rows amb i side h summary [] = (side\<lparr>vx_store := Some h\<rparr>, summary)"
| "sync_appends env rows amb i side h summary ((p, v) # ps) =
     (if \<not> still_current (ve_sha env) rows p
      then sync_appends env rows amb (i + 1) side h (summary\<lparr>sy_Failed := sy_Failed summary + 1\<rparr>) ps
      else case handle_Append env (vx_root side) h (pq_id p) (pq_inputHash p) v (sa_now amb i) (sa_appends amb i) of
        (dir, h, Inl _) \<Rightarrow>
          sync_appends env rows amb (i + 1) (side\<lparr>vx_root := dir\<rparr>) h (summary\<lparr>sy_Failed := sy_Failed summary + 1\<rparr>) ps
      | (dir, h, Inr ref) \<Rightarrow>
          sync_appends env rows amb (i + 1) (side\<lparr>vx_root := dir, vx_refs := upserted ref (vx_refs side)\<rparr>) h
            (summary\<lparr>sy_Embedded := sy_Embedded summary + 1\<rparr>) ps)"

text \<open>\<open>SyncVectors\<close>; \<open>before\<close> are the memories and the generation of the first look.\<close>

definition SyncVectors ::
    "vector_env \<Rightarrow> provider option \<Rightarrow> memory_row list \<times> vector_handle option \<Rightarrow> (go_string \<rightharpoonup> memory_row) \<Rightarrow> sync_ambient \<Rightarrow>
     vector_side \<Rightarrow> vector_side \<times> sync_summary \<times> unit res" where
  "SyncVectors env embedder before rows amb side =
     (case embedder of
        None \<Rightarrow> (side, zero_summary, Inl ''embedding provider unavailable'')
      | Some p \<Rightarrow>
          (case contract_Validate (pr_contract p) of
             Inl err \<Rightarrow> (side, zero_summary, Inl (''embedding provider contract: '' @ err))
           | Inr _ \<Rightarrow>
               (let model = embeddingModelName p; digest = embeddingModelDigest p;
                    (summary, queue) = sync_scan (ve_sha env) (snd before) model digest zero_summary (fst before) in
                if queue = [] then (side, summary, Inr ())
                else case pr_Embed p (map pq_text queue) of
                  Inl err \<Rightarrow> (side, summary, Inl err)
                | Inr vectors \<Rightarrow>
                    (case check_vectors (length queue) vectors of
                       Inl err \<Rightarrow> (side, summary, Inl err)
                     | Inr _ \<Rightarrow>
                         (let spec = \<lparr>gs_Name = '''', gs_ModelName = model, gs_ModelDigest = digest,
                            gs_Dimensions = int (length (hd vectors)), gs_DType = 0, gs_NormalizationVersion = 0,
                            gs_InputVersion = 0, gs_FormatVersion = 0\<rparr> in
                          case (if needs_generation (vx_store side) model digest (length (hd vectors)) then None else vx_store side) of
                            None \<Rightarrow> sync_generation env rows amb spec side summary (zip queue vectors)
                          | Some h \<Rightarrow>
                              (case sync_appends env rows amb 0 side h summary (zip queue vectors) of
                                 (side, summary) \<Rightarrow> (side, summary, Inr ())))))))"
definition EmbedAll ::
    "vector_env \<Rightarrow> provider option \<Rightarrow> memory_row list \<times> vector_handle option \<Rightarrow> (go_string \<rightharpoonup> memory_row) \<Rightarrow> sync_ambient \<Rightarrow>
     vector_side \<Rightarrow> vector_side \<times> nat \<times> unit res" where
  "EmbedAll env embedder before rows amb side =
     (case SyncVectors env embedder before rows amb side of (side, summary, r) \<Rightarrow> (side, sy_Embedded summary, r))"

section \<open>The projection of older versions\<close>

record projection_row =
  vj_MemoryID :: go_string
  vj_ContentHash :: go_string
  vj_Model :: go_string
  vj_Dimensions :: int
  vj_Vector :: "float32 list"

definition projection_valid :: "(go_string \<rightharpoonup> memory_row) \<Rightarrow> projection_row \<Rightarrow> bool" where
  "projection_valid memories row \<longleftrightarrow>
     vj_MemoryID row \<noteq> '''' \<and> vj_ContentHash row \<noteq> '''' \<and> vj_Model row \<noteq> '''' \<and> vj_Dimensions row > 0 \<and>
     vj_Dimensions row = int (length (vj_Vector row)) \<and>
     (case memories (vj_MemoryID row) of None \<Rightarrow> False | Some m \<Rightarrow> mm_ContentHash m = vj_ContentHash row)"

text \<open>\<open>loadVectorProjection\<close> on the lines of the file as they decode; \<open>None\<close> when the file cannot be read.\<close>

definition loadVectorProjection ::
    "(go_string \<rightharpoonup> memory_row) \<Rightarrow> projection_row option list option \<Rightarrow> (go_string \<rightharpoonup> projection_row) \<Rightarrow> (go_string \<rightharpoonup> projection_row)" where
  "loadVectorProjection memories lines old =
     (case lines of
        None \<Rightarrow> old
      | Some ls \<Rightarrow> foldl (\<lambda>m row. m(vj_MemoryID row \<mapsto> row)) Map.empty
          (filter (projection_valid memories) (List.map_filter id ls)))"

definition flushVectorProjection :: "(projection_row \<Rightarrow> go_string) \<Rightarrow> projection_row list \<Rightarrow> go_string" where
  "flushVectorProjection json rows = write_lines (map json (sort_by (\<lambda>a b. bytes_less (vj_MemoryID a) (vj_MemoryID b)) rows))"

definition vectorForMemory :: "(go_string \<rightharpoonup> projection_row) \<Rightarrow> go_string \<Rightarrow> go_string \<Rightarrow> float32 list option" where
  "vectorForMemory rows memoryID contentHash =
     (case rows memoryID of
        None \<Rightarrow> None
      | Some row \<Rightarrow> if vj_ContentHash row \<noteq> contentHash \<or> vj_Vector row = [] then None else Some (vj_Vector row))"

text \<open>\<open>importLegacyVectorProjection\<close>; \<open>ranging\<close> are the rows in the order of the map, whose first one names the model.\<close>

definition importable :: "(go_string \<rightharpoonup> memory_row) \<Rightarrow> projection_row \<Rightarrow> projection_row \<Rightarrow> memory_row option" where
  "importable memories first row =
     (case memories (vj_MemoryID row) of
        None \<Rightarrow> None
      | Some m \<Rightarrow>
          if vj_Model row \<noteq> vj_Model first \<or> vj_Dimensions row \<noteq> vj_Dimensions first \<or> vj_ContentHash row \<noteq> mm_ContentHash m \<or>
             \<not> vector_eligible m
          then None else Some m)"

fun import_loop ::
    "vector_env \<Rightarrow> (go_string \<rightharpoonup> memory_row) \<Rightarrow> projection_row \<Rightarrow> sync_ambient \<Rightarrow> nat \<Rightarrow> vector_side \<Rightarrow> vector_handle \<Rightarrow>
     projection_row list \<Rightarrow> vector_side \<times> vector_handle res" where
  "import_loop env memories first amb i side h [] = (side, Inr h)"
| "import_loop env memories first amb i side h (row # rows) =
     (case importable memories first row of
        None \<Rightarrow> import_loop env memories first amb (i + 1) side h rows
      | Some m \<Rightarrow>
          (case handle_Append env (vx_root side) h (vj_MemoryID row) (EmbeddingInputHash (ve_sha env) m) (vj_Vector row)
              (sa_now amb i) (sa_appends amb i) of
             (dir, h, Inl err) \<Rightarrow> (side\<lparr>vx_root := dir\<rparr>, Inl err)
           | (dir, h, Inr ref) \<Rightarrow>
               import_loop env memories first amb (i + 1) (side\<lparr>vx_root := dir, vx_refs := upserted ref (vx_refs side)\<rparr>) h rows))"

definition importLegacyVectorProjection ::
    "vector_env \<Rightarrow> (go_string \<rightharpoonup> memory_row) \<Rightarrow> projection_row list \<Rightarrow> sync_ambient \<Rightarrow> vector_side \<Rightarrow> vector_side \<times> unit res" where
  "importLegacyVectorProjection env memories ranging amb side =
     (case ranging of
        [] \<Rightarrow> (side, Inl ''file does not exist'')
      | first # _ \<Rightarrow>
          if vj_Model first = '''' \<or> vj_Dimensions first \<le> 0 then (side, Inl ''file does not exist'')
          else (case vector_Create env (vx_root side)
              \<lparr>gs_Name = '''', gs_ModelName = vj_Model first, gs_ModelDigest = '''', gs_Dimensions = vj_Dimensions first,
               gs_DType = 0, gs_NormalizationVersion = 0, gs_InputVersion = 0, gs_FormatVersion = 0\<rparr> (sa_now amb 0) (sa_create amb) of
            (dir, Inl err) \<Rightarrow> (side\<lparr>vx_root := dir\<rparr>, Inl err)
          | (dir, Inr h) \<Rightarrow>
              (case import_loop env memories first amb 1 (side\<lparr>vx_root := dir\<rparr>) h
                  (sort_by (\<lambda>a b. bytes_less (vj_MemoryID a) (vj_MemoryID b)) ranging) of
                 (side, Inl err) \<Rightarrow> (side, Inl err)
               | (side, Inr h) \<Rightarrow> (side\<lparr>vx_store := Some h\<rparr>, Inr ()))))"

text \<open>\<open>openVectors\<close>, and what \<open>openStore\<close> makes of its errors: everything but a missing generation is an incident.\<close>

definition openVectors ::
    "vector_env \<Rightarrow> (go_string \<rightharpoonup> memory_row) \<Rightarrow> projection_row list \<Rightarrow> sync_ambient \<Rightarrow> vector_side \<Rightarrow> vector_side \<times> unit res" where
  "openVectors env memories legacy amb side =
     (case OpenCurrent env (vx_root side) (sa_now amb 0) of
        (dir, Inl err) \<Rightarrow>
          if err = ''file does not exist'' \<and> legacy \<noteq> []
          then importLegacyVectorProjection env memories legacy amb (side\<lparr>vx_root := dir\<rparr>)
          else (side\<lparr>vx_root := dir\<rparr>, Inl err)
      | (dir, Inr h) \<Rightarrow>
          (case Verify env (vh_store h) False of
             Inl err \<Rightarrow> (side\<lparr>vx_root := dir\<rparr>, Inl err)
           | Inr _ \<Rightarrow>
               (side\<lparr>vx_root := dir, vx_store := Some h,
                  vx_refs := (case ReplaceVectorRefs (vs_refs (vh_store h)) (vx_refs side) of Inl _ \<Rightarrow> vx_refs side | Inr rows \<Rightarrow> rows)\<rparr>,
                Inr ())))"

definition open_side ::
    "vector_env \<Rightarrow> (go_string \<rightharpoonup> memory_row) \<Rightarrow> projection_row list \<Rightarrow> sync_ambient \<Rightarrow> vector_side \<Rightarrow> vector_side" where
  "open_side env memories legacy amb side =
     (case openVectors env memories legacy amb side of
        (side, Inl err) \<Rightarrow> if err = ''file does not exist'' then side else side\<lparr>vx_issue := ''VECTOR_GENERATION_CORRUPT''\<rparr>
      | (side, Inr _) \<Rightarrow> side)"

section \<open>The state of the projection\<close>

record vector_status =
  vu_Generation :: go_string
  vu_State :: go_string
  vu_Vectors :: nat
  vu_CurrentActiveMemories :: nat
  vu_Missing :: nat
  vu_Stale :: nat
  vu_Tombstoned :: nat
  vu_Dimensions :: int
  vu_DType :: go_string
  vu_ModelName :: go_string
  vu_ModelDigest :: go_string
  vu_EmbeddingInputVersion :: int
  vu_NormalizationVersion :: int

abbreviation degraded_status :: vector_status where
  "degraded_status \<equiv> \<lparr>vu_Generation = '''', vu_State = ''DEGRADED'', vu_Vectors = 0, vu_CurrentActiveMemories = 0, vu_Missing = 0,
     vu_Stale = 0, vu_Tombstoned = 0, vu_Dimensions = 0, vu_DType = '''', vu_ModelName = '''', vu_ModelDigest = '''',
     vu_EmbeddingInputVersion = 0, vu_NormalizationVersion = 0\<rparr>"

text \<open>The fields copied from the manifest.\<close>

definition manifest_status :: "vector_handle \<Rightarrow> vector_status \<Rightarrow> vector_status" where
  "manifest_status h st =
     (let m = handle_manifest h in
      st\<lparr>vu_Generation := vm_Generation m, vu_State := ''ACTIVE'', vu_Vectors := length (vs_refs (vh_store h)),
         vu_Dimensions := vm_Dimensions m, vu_DType := vm_DType m, vu_ModelName := vm_ModelName m,
         vu_ModelDigest := vm_ModelDigest m, vu_EmbeddingInputVersion := vm_EmbeddingInputVersion m,
         vu_NormalizationVersion := vm_NormalizationVersion m\<rparr>)"

record vector_counts =
  vn_Active :: nat
  vn_Missing :: nat
  vn_Stale :: nat
  vn_Tombstoned :: nat

text \<open>The counting queries of the index over the rows of \<open>memories_current\<close> and \<open>vector_refs\<close>.\<close>

definition VectorCounts :: "(go_string \<Rightarrow> go_string) \<Rightarrow> memory_row list \<Rightarrow> vector_ref list \<Rightarrow> go_string \<Rightarrow> vector_counts" where
  "VectorCounts sha current refs generation =
     (let active = filter vector_eligible current;
          here = filter (\<lambda>r. vr_Generation r = generation \<and> vr_SourceType r = ''MEMORY'') refs in
      if generation = '''' then \<lparr>vn_Active = length active, vn_Missing = length active, vn_Stale = 0, vn_Tombstoned = 0\<rparr>
      else \<lparr>vn_Active = length active,
        vn_Missing = length (filter (\<lambda>m. \<not> list_ex (\<lambda>r. vr_SourceID r = mm_MemoryID m \<and>
           vr_EmbeddingInputHash r = EmbeddingInputHash sha m) here) active),
        vn_Stale = length (filter (\<lambda>(r, m). vr_SourceID r = mm_MemoryID m \<and> vr_EmbeddingInputHash r \<noteq> EmbeddingInputHash sha m)
           (List.product here active)),
        vn_Tombstoned = length (filter (\<lambda>r. \<not> list_ex (\<lambda>m. mm_MemoryID m = vr_SourceID r) active) here)\<rparr>)"

text \<open>\<open>VectorStatus\<close> in low-memory mode, where the index answers, and from the maps of the store.\<close>

definition VectorStatus_lowRAM :: "(go_string \<Rightarrow> go_string) \<Rightarrow> memory_row list \<Rightarrow> vector_ref list \<Rightarrow> vector_handle option \<Rightarrow> vector_status" where
  "VectorStatus_lowRAM sha current refs vs =
     (case vs of
        None \<Rightarrow> (let c = VectorCounts sha current refs '''' in
          degraded_status\<lparr>vu_CurrentActiveMemories := vn_Active c, vu_Missing := vn_Missing c\<rparr>)
      | Some h \<Rightarrow> (let c = VectorCounts sha current refs (vm_Generation (handle_manifest h)) in
          (manifest_status h degraded_status)\<lparr>vu_CurrentActiveMemories := vn_Active c, vu_Missing := vn_Missing c,
             vu_Stale := vn_Stale c, vu_Tombstoned := vn_Tombstoned c\<rparr>))"

definition VectorStatus_maps :: "(go_string \<Rightarrow> go_string) \<Rightarrow> memory_row list \<Rightarrow> vector_handle option \<Rightarrow> vector_status" where
  "VectorStatus_maps sha rows vs =
     (let active = length (filter vector_eligible rows); byID = map_of (rev (map (\<lambda>r. (mm_MemoryID r, r)) rows)) in
      case vs of
        None \<Rightarrow> degraded_status\<lparr>vu_CurrentActiveMemories := active, vu_Missing := active\<rparr>
      | Some h \<Rightarrow>
          (let refs = vs_refs (vh_store h) in
           (manifest_status h degraded_status)\<lparr>vu_CurrentActiveMemories := active,
             vu_Missing := length (filter (\<lambda>row. vector_eligible row \<and> \<not> Has (vh_store h) (mm_MemoryID row) (EmbeddingInputHash sha row)) rows),
             vu_Tombstoned := length (filter (\<lambda>ref. case byID (vr_SourceID ref) of None \<Rightarrow> True | Some row \<Rightarrow> \<not> vector_eligible row) refs),
             vu_Stale := length (filter (\<lambda>ref. case byID (vr_SourceID ref) of None \<Rightarrow> False
                | Some row \<Rightarrow> vector_eligible row \<and> vr_EmbeddingInputHash ref \<noteq> EmbeddingInputHash sha row) refs)\<rparr>))"

definition VectorStatus :: "bool \<Rightarrow> (go_string \<Rightarrow> go_string) \<Rightarrow> memory_row list \<Rightarrow> vector_side \<Rightarrow> vector_status" where
  "VectorStatus lowRAM sha rows side =
     (if lowRAM then VectorStatus_lowRAM sha rows (vx_refs side) (vx_store side) else VectorStatus_maps sha rows (vx_store side))"

definition VerifyVectors :: "vector_env \<Rightarrow> vector_side \<Rightarrow> bool \<Rightarrow> unit res" where
  "VerifyVectors env side full =
     (case vx_store side of None \<Rightarrow> Inl ''vector generation corrupt'' | Some h \<Rightarrow> Verify env (vh_store h) full)"

section \<open>A generation is replaced as a whole\<close>

text \<open>The lines of the map file for the memories of a queue, in a generation of a name.\<close>

definition lines_ok :: "vector_env \<Rightarrow> sync_ambient \<Rightarrow> go_string \<Rightarrow> pending \<Rightarrow> bool" where
  "lines_ok env amb name p \<longleftrightarrow> pq_id p \<noteq> '''' \<and>
     (\<forall>s b i. vm_Generation (vs_manifest s) = name \<longrightarrow>
       line_ok env (new_ref env s ''MEMORY'' (pq_id p) (pq_inputHash p) b (sa_now amb i)))"

text \<open>A detached generation in the making.\<close>

definition building :: "vector_env \<Rightarrow> vector_handle \<Rightarrow> bool" where
  "building env h \<longleftrightarrow> (\<exists>recs. vstore_inv env (vh_store h) recs) \<and> vm_Generation (handle_manifest h) = vh_name h \<and>
     \<not> vs_closed (vh_store h) \<and> vector_state h = ''BUILDING''"

abbreviation has_pending :: "vector_handle \<Rightarrow> pending \<Rightarrow> bool" where
  "has_pending h p \<equiv> Has (vh_store h) (pq_id p) (pq_inputHash p)"

lemma handle_Append_builds:
  assumes b: "building env h" and ok: "lines_ok env amb (vh_name h) p"
    and app: "handle_Append env dir h (pq_id p) (pq_inputHash p) v (sa_now amb i) stop = (dir', h', r)"
  shows "vh_name h' = vh_name h" "untouched (vh_name h) dir dir'"
    and "r = Inr ref \<Longrightarrow> building env h' \<and> has_pending h' p \<and> (has_pending h q \<longrightarrow> has_pending h' q)"
proof -
  obtain s where s: "vector_Append env (vh_store h) ''MEMORY'' (pq_id p) (pq_inputHash p) v (sa_now amb i) stop = (s, r)"
      "h' = h\<lparr>vh_store := s\<rparr>" "dir' = put_gen dir h'"
    using app by (auto simp: handle_Append_def Let_def split: prod.splits)
  show "vh_name h' = vh_name h" "untouched (vh_name h) dir dir'" using s(2,3) by simp_all
  obtain recs where inv: "vstore_inv env (vh_store h) recs" using b by (auto simp: building_def)
  have line: "line_ok env (new_ref env (vh_store h) ''MEMORY'' (pq_id p) (pq_inputHash p) b (sa_now amb i))" "pq_id p \<noteq> ''''" for b
    using b ok by (simp_all add: building_def lines_ok_def)
  show "r = Inr ref \<Longrightarrow> building env h' \<and> has_pending h' p \<and> (has_pending h q \<longrightarrow> has_pending h' q)"
    using append_succeeds [OF inv _ line(2,1)] append_identity [OF s(1)] s b unfolding building_def vector_state_def by auto
qed

lemma build_loop_builds:
  "\<lbrakk>build_loop env rows amb i dir h refs ps = (dir', h', r); building env h; \<forall>x \<in> set ps. lines_ok env amb (vh_name h) (fst x)\<rbrakk> \<Longrightarrow>
     vh_name h' = vh_name h \<and> untouched (vh_name h) dir dir' \<and>
     (\<forall>refs'. r = Inr refs' \<longrightarrow> building env h' \<and> length refs' = length refs + length ps \<and>
        (\<forall>q. has_pending h q \<longrightarrow> has_pending h' q) \<and> (\<forall>x \<in> set ps. has_pending h' (fst x) \<and> still_current (ve_sha env) rows (fst x)))"
proof (induction ps arbitrary: i dir h refs)
  case (Cons x ps)
  obtain p v where x: "x = (p, v)" by (cases x) auto
  have ok: "lines_ok env amb (vh_name h) p" "\<forall>y \<in> set ps. lines_ok env amb (vh_name h) (fst y)"
    using Cons.prems(3) by (simp_all add: x)
  show ?case
  proof (cases "still_current (ve_sha env) rows p")
    case False
    then show ?thesis using Cons.prems(1) by (auto simp: x)
  next
    case True
    obtain dir1 h1 r1 where app: "handle_Append env dir h (pq_id p) (pq_inputHash p) v (sa_now amb i) (sa_appends amb i) = (dir1, h1, r1)"
      by (metis prod.exhaust)
    note step = handle_Append_builds [OF Cons.prems(2) ok(1) app]
    show ?thesis
    proof (cases r1)
      case (Inl err)
      then show ?thesis using Cons.prems(1) True step(1,2) by (auto simp: x app)
    next
      case (Inr ref)
      have b1: "building env h1" "has_pending h1 p" "has_pending h q \<Longrightarrow> has_pending h1 q" for q using step(3) [OF Inr] by blast+
      have loop: "build_loop env rows amb (i + 1) dir1 h1 (refs @ [ref]) ps = (dir', h', r)"
        using Cons.prems(1) True by (simp add: x app Inr)
      have "\<forall>y \<in> set ps. lines_ok env amb (vh_name h1) (fst y)" using ok(2) step(1) by simp
      from Cons.IH [OF loop b1(1) this] show ?thesis
        using True b1(2,3) step(1,2) untouched_trans [of "vh_name h" dir dir1 dir'] by (auto simp: x)
    qed
  qed
qed auto


section \<open>What a sync leaves missing\<close>

definition current_in :: "(go_string \<Rightarrow> go_string) \<Rightarrow> vector_handle option \<Rightarrow> go_string \<Rightarrow> go_string \<Rightarrow> memory_row \<Rightarrow> bool" where
  "current_in sha vs model digest row \<longleftrightarrow>
     (case vs of None \<Rightarrow> False
      | Some h \<Rightarrow> model_current model digest (handle_manifest h) \<and> Has (vh_store h) (mm_MemoryID row) (EmbeddingInputHash sha row))"

definition pending_of :: "(go_string \<Rightarrow> go_string) \<Rightarrow> memory_row \<Rightarrow> pending" where
  "pending_of sha row = \<lparr>pq_id = mm_MemoryID row, pq_inputHash = EmbeddingInputHash sha row, pq_text = EmbeddingInput row\<rparr>"

lemma sync_scan_queue:
  "sync_scan sha vs model digest summary rows = (summary', queue) \<Longrightarrow>
     queue = map (pending_of sha) (filter (\<lambda>r. vector_eligible r \<and> \<not> current_in sha vs model digest r) rows) \<and>
     sy_Failed summary' = sy_Failed summary \<and> sy_Embedded summary' = sy_Embedded summary"
  by (induction rows arbitrary: summary summary' queue)
    (auto simp: Let_def pending_of_def current_in_def split: if_splits prod.splits option.splits)

text \<open>A run of appends in which nothing failed.\<close>

lemma sync_appends_failed: "sync_appends env rows amb i side h summary ps = (side', summary') \<Longrightarrow> sy_Failed summary \<le> sy_Failed summary'"
  by (induction env rows amb i side h summary ps rule: sync_appends.induct)
    (auto simp: Let_def split: if_splits prod.splits sum.splits, fastforce+)

end
