(* ===== verification/System_Health.thy ===== *)
theory System_Health
  imports Vector_Sync Settings Server_Mutation
begin

text \<open>
  What the server reports of itself: \<open>lite/system_status.go\<close>, \<open>lite/stats.go\<close> and the handlers of \<open>lite/server.go\<close> that
  initialise the status, show it and repair the vectors.  The status is assessed at the start and after a repair and kept in between;
  a state that needs the operator quarantines the memory tools and blocks semantic search.
\<close>

section \<open>The status\<close>

record model_identity =
  xi_Provider :: go_string
  xi_ModelName :: go_string
  xi_ModelDigest :: go_string
  xi_Dimensions :: int
  xi_EmbeddingInputVersion :: int
  xi_NormalizationVersion :: int

record system_incident =
  xn_Code :: go_string
  xn_IncidentID :: go_string
  xn_Severity :: go_string
  xn_AffectedCapabilities :: "go_string list"
  xn_DataSafety :: go_string
  xn_OperatorMessage :: go_string
  xn_CopyPasteCommands :: "go_string list"
  xn_AgentInstruction :: go_string

text \<open>The status as it is kept; the configuration and the statistics are added when it is shown.\<close>

record system_status =
  xs_SoftwareVersion :: go_string
  xs_State :: go_string
  xs_InitializedAt :: time
  xs_Canonical :: go_string
  xs_Lexical :: go_string
  xs_Embeddings :: go_string
  xs_MCP :: go_string
  xs_ActiveModel :: model_identity
  xs_ConfiguredModel :: model_identity
  xs_Incidents :: "system_incident list"

abbreviation SystemReady :: go_string where "SystemReady \<equiv> ''READY''"
abbreviation SystemDegraded :: go_string where "SystemDegraded \<equiv> ''DEGRADED''"
abbreviation SystemActionRequired :: go_string where "SystemActionRequired \<equiv> ''ACTION_REQUIRED''"
abbreviation SystemBuilding :: go_string where "SystemBuilding \<equiv> ''BUILDING''"

definition version_Value :: go_string where
  "version_Value = ''0.2.2''"

abbreviation zero_identity :: model_identity where
  "zero_identity \<equiv> \<lparr>xi_Provider = '''', xi_ModelName = '''', xi_ModelDigest = '''', xi_Dimensions = 0,
     xi_EmbeddingInputVersion = 0, xi_NormalizationVersion = 0\<rparr>"

definition unconfiguredSystemStatus :: "time \<Rightarrow> system_status" where
  "unconfiguredSystemStatus now =
     \<lparr>xs_SoftwareVersion = version_Value, xs_State = SystemReady, xs_InitializedAt = now, xs_Canonical = SystemReady,
      xs_Lexical = SystemReady, xs_Embeddings = ''UNCONFIGURED'', xs_MCP = SystemReady, xs_ActiveModel = zero_identity,
      xs_ConfiguredModel = zero_identity, xs_Incidents = []\<rparr>"

definition modelIdentityMismatch :: "model_identity \<Rightarrow> model_identity \<Rightarrow> bool" where
  "modelIdentityMismatch active configured =
     (if xi_ModelName active \<noteq> xi_ModelName configured then True
      else if xi_ModelDigest configured \<noteq> '''' \<and> xi_ModelDigest active \<noteq> xi_ModelDigest configured then True
      else if xi_Dimensions configured > 0 \<and> xi_Dimensions active \<noteq> xi_Dimensions configured then True
      else xi_EmbeddingInputVersion active \<noteq> xi_EmbeddingInputVersion configured \<or>
        xi_NormalizationVersion active \<noteq> xi_NormalizationVersion configured)"

definition identityLabel :: "model_identity \<Rightarrow> go_string" where
  "identityLabel i =
     xi_ModelName i @ (if xi_ModelDigest i \<noteq> '''' then ''@'' @ xi_ModelDigest i else '''') @
     (if xi_Dimensions i > 0 then '' ('' @ itoa (xi_Dimensions i) @ '' dimensions)'' else '''')"

definition rebuild_commands :: "go_string \<Rightarrow> go_string list" where
  "rebuild_commands incidentID =
     [''mindmoryctl vectors rebuild --incident-id '' @ incidentID @ '' --confirm'', ''mindmoryctl vectors status'']"

definition newIncident ::
    "(go_string \<Rightarrow> go_string) \<Rightarrow> go_string \<Rightarrow> model_identity \<Rightarrow> model_identity \<Rightarrow> go_string list \<Rightarrow> go_string \<Rightarrow> go_string \<Rightarrow> go_string \<Rightarrow>
     system_incident" where
  "newIncident sha code active configured capabilities safety message command =
     (let identity = join_with [CHR 0x00] [code, xi_ModelName active, xi_ModelDigest active, itoa (xi_Dimensions active),
            xi_Provider configured, xi_ModelName configured, xi_ModelDigest configured, itoa (xi_Dimensions configured)];
          incident_id = ''inc_'' @ hex_encode (take 8 (sha identity)) in
      \<lparr>xn_Code = code, xn_IncidentID = incident_id, xn_Severity = SystemActionRequired,
       xn_AffectedCapabilities = capabilities, xn_DataSafety = safety, xn_OperatorMessage = message,
       xn_CopyPasteCommands = (if command \<noteq> '''' then rebuild_commands incident_id else []),
       xn_AgentInstruction = ''Show this warning and its commands to the user exactly. Do not execute remediation or repeatedly retry blocked memory tools.''\<rparr>)"

section \<open>Assessment\<close>

abbreviation lexical_safe :: go_string where
  "lexical_safe \<equiv> ''Canonical memory and lexical retrieval remain safe.''"

abbreviation rebuild_hint :: go_string where
  "rebuild_hint \<equiv> ''mindmoryctl vectors rebuild --confirm''"

definition configured_model :: "embedding_config \<Rightarrow> model_identity" where
  "configured_model cfg =
     (if ey_Provider cfg = ''disabled'' then zero_identity\<lparr>xi_Provider := ''disabled''\<rparr>
      else \<lparr>xi_Provider = ey_Provider cfg, xi_ModelName = ey_Model cfg, xi_ModelDigest = ey_ModelDigest cfg,
        xi_Dimensions = ey_Dimensions cfg, xi_EmbeddingInputVersion = 1, xi_NormalizationVersion = 1\<rparr>)"

definition active_model :: "vector_status \<Rightarrow> model_identity" where
  "active_model v = \<lparr>xi_Provider = '''', xi_ModelName = vu_ModelName v, xi_ModelDigest = vu_ModelDigest v,
     xi_Dimensions = vu_Dimensions v, xi_EmbeddingInputVersion = vu_EmbeddingInputVersion v,
     xi_NormalizationVersion = vu_NormalizationVersion v\<rparr>"

text \<open>\<open>assessSystemStatus\<close> on the vector status and the issue of the store.\<close>

definition assessSystemStatus ::
    "(go_string \<Rightarrow> go_string) \<Rightarrow> vector_status \<Rightarrow> go_string \<Rightarrow> embedding_config \<Rightarrow> bool \<Rightarrow> time \<Rightarrow> system_status" where
  "assessSystemStatus sha v issue cfg semantic now =
     (let configured = configured_model cfg; active = active_model v;
          st = (unconfiguredSystemStatus now)\<lparr>xs_Embeddings := SystemReady, xs_ConfiguredModel := configured\<rparr>;
          shown = st\<lparr>xs_ActiveModel := active\<rparr> in
      if ey_Provider cfg = ''disabled'' then st\<lparr>xs_Embeddings := ''DISABLED''\<rparr>
      else if issue \<noteq> ''''
      then shown\<lparr>xs_State := SystemActionRequired, xs_Embeddings := ''CORRUPT'',
        xs_Incidents := [newIncident sha ''VECTOR_GENERATION_CORRUPT'' active configured [''SEMANTIC_SEARCH''] lexical_safe
          ''The active vector generation could not be opened or verified.'' rebuild_hint],
        xs_MCP := if semantic then ''QUARANTINED'' else SystemReady\<rparr>
      else if vu_Generation v = ''''
      then (if semantic \<and> vu_CurrentActiveMemories v > 0
        then shown\<lparr>xs_State := SystemActionRequired, xs_Embeddings := ''NO_GENERATION'', xs_MCP := ''QUARANTINED'',
          xs_Incidents := [newIncident sha ''VECTOR_GENERATION_MISSING'' zero_identity configured [''SEMANTIC_SEARCH''] lexical_safe
            ''Semantic search is enabled but no vector generation exists.'' rebuild_hint]\<rparr>
        else shown\<lparr>xs_Embeddings := ''NO_GENERATION''\<rparr>)
      else if modelIdentityMismatch active configured
      then (let incident = newIncident sha ''EMBEDDING_MODEL_MISMATCH'' active configured [''MCP_MEMORY_TOOLS'', ''SEMANTIC_SEARCH'']
              ''Canonical memories and the previous vector generation remain unchanged.''
              (''Mindmory detected an embedding model change: active '' @ identityLabel active @ '', configured '' @
               identityLabel configured @ ''.'') '''' in
        shown\<lparr>xs_State := SystemActionRequired, xs_Embeddings := ''MODEL_MISMATCH'', xs_MCP := ''QUARANTINED'',
          xs_Incidents := [incident\<lparr>xn_CopyPasteCommands := rebuild_commands (xn_IncidentID incident)\<rparr>]\<rparr>)
      else if vu_Missing v > 0 \<or> vu_Stale v > 0
      then shown\<lparr>xs_State := SystemDegraded, xs_Embeddings := ''SYNC_REQUIRED'',
        xs_Incidents := [(newIncident sha ''VECTOR_SYNC_REQUIRED'' active configured [''SEMANTIC_SEARCH''] lexical_safe
          (''The vector projection has '' @ itoa (int (vu_Missing v)) @ '' missing and '' @ itoa (int (vu_Stale v)) @ '' stale memories.'')
          rebuild_hint)\<lparr>xn_Severity := SystemDegraded\<rparr>]\<rparr>
      else shown)"

section \<open>The kept status\<close>

record status_manager =
  xm_status :: system_status
  xm_config :: embedding_config
  xm_storage :: storage_config
  xm_semantic :: bool

text \<open>The incidents an operation is about: all of them without an identifier.\<close>

definition on_incidents :: "go_string \<Rightarrow> (system_incident \<Rightarrow> system_incident) \<Rightarrow> system_status \<Rightarrow> system_status" where
  "on_incidents incidentID f st =
     st\<lparr>xs_Incidents := map (\<lambda>x. if incidentID = '''' \<or> xn_IncidentID x = incidentID then f x else x) (xs_Incidents st)\<rparr>"

definition status_building :: "go_string \<Rightarrow> status_manager \<Rightarrow> status_manager" where
  "status_building incidentID m =
     m\<lparr>xm_status := on_incidents incidentID
       (\<lambda>x. x\<lparr>xn_OperatorMessage := ''Mindmory is rebuilding the vector generation. Wait for completion, then run mindmoryctl vectors status.'',
          xn_CopyPasteCommands := [''mindmoryctl vectors status'']\<rparr>)
       ((xm_status m)\<lparr>xs_State := SystemBuilding, xs_Embeddings := SystemBuilding, xs_MCP := ''QUARANTINED''\<rparr>)\<rparr>"

definition status_refresh :: "(go_string \<Rightarrow> go_string) \<Rightarrow> vector_status \<Rightarrow> go_string \<Rightarrow> time \<Rightarrow> status_manager \<Rightarrow> status_manager" where
  "status_refresh sha v issue now m =
     m\<lparr>xm_status := assessSystemStatus sha v issue (xm_config m) (xm_semantic m) now\<rparr>"

definition status_rebuildFailed ::
    "(go_string \<Rightarrow> go_string) \<Rightarrow> vector_status \<Rightarrow> go_string \<Rightarrow> time \<Rightarrow> go_string \<Rightarrow> status_manager \<Rightarrow> status_manager" where
  "status_rebuildFailed sha v issue now incidentID m =
     m\<lparr>xm_status := on_incidents incidentID
       (\<lambda>x. x\<lparr>xn_OperatorMessage := ''The vector rebuild failed. The previous generation remains active; check the embedding provider and retry the incident-bound command.'',
          xn_CopyPasteCommands := rebuild_commands (xn_IncidentID x)\<rparr>)
       ((assessSystemStatus sha v issue (xm_config m) (xm_semantic m) now)
          \<lparr>xs_State := SystemActionRequired, xs_Embeddings := ''REBUILD_FAILED'', xs_MCP := ''QUARANTINED''\<rparr>)\<rparr>"

definition newStatusManager ::
    "(go_string \<Rightarrow> go_string) \<Rightarrow> vector_status \<Rightarrow> go_string \<Rightarrow> storage_config \<Rightarrow> embedding_config \<Rightarrow> bool \<Rightarrow> time \<Rightarrow> status_manager" where
  "newStatusManager sha v issue storage cfg semantic now =
     \<lparr>xm_status = assessSystemStatus sha v issue cfg semantic now, xm_config = cfg, xm_storage = storage, xm_semantic = semantic\<rparr>"

section \<open>Statistics\<close>

text \<open>The values of the maps of the store in ranging order; the counts of the index in low-memory mode.\<close>

record store_listing =
  sl_sessions :: "session_row list"
  sl_messages :: "message_row list"
  sl_memories :: "memory_row list"
  sl_evidence :: "evidence_row list list"
  sl_proposals :: "proposal list"
  sl_projectCtx :: "project_context_row list"

record projection_counts =
  rn_Messages :: nat
  rn_Memories :: nat
  rn_ActiveMemories :: nat
  rn_InactiveMemories :: nat
  rn_SecretLikeMemories :: nat
  rn_InstructionMemories :: nat
  rn_EvidenceLinks :: nat

definition Counts :: "message_row list \<Rightarrow> memory_row list \<Rightarrow> evidence_row list \<Rightarrow> projection_counts" where
  "Counts messages memories evidence =
     \<lparr>rn_Messages = length messages, rn_Memories = length memories,
      rn_ActiveMemories = length (filter (\<lambda>m. mm_Lifecycle m = ''ACTIVE'') memories),
      rn_InactiveMemories = length (filter (\<lambda>m. mm_Lifecycle m \<noteq> ''ACTIVE'') memories),
      rn_SecretLikeMemories = length (filter mm_SecretLike memories),
      rn_InstructionMemories = length (filter mm_InstructionLike memories), rn_EvidenceLinks = length evidence\<rparr>"

record store_statistics =
  zs_Sessions :: nat
  zs_Counts :: projection_counts
  zs_Proposals :: nat
  zs_PendingProposals :: nat
  zs_AppliedProposals :: nat
  zs_RejectedProposals :: nat
  zs_ContinuityRevisions :: nat
  zs_ProjectContexts :: nat
  zs_MutationEvents :: int
  zs_ArchivedUserTurns :: int
  zs_Vectors :: vector_status

text \<open>\<open>indexed\<close> are the counts of the index when it could be read; in low-memory mode the maps add nothing to them.\<close>

definition ReadOnlyStatistics :: "store \<Rightarrow> store_listing \<Rightarrow> projection_counts option \<Rightarrow> vector_status \<Rightarrow> store_statistics" where
  "ReadOnlyStatistics s l indexed v =
     (let base = Counts [] [] []; base = base\<lparr>rn_Messages := length (sl_messages l), rn_Memories := length (sl_memories l)\<rparr>;
          c = (if st_lowRAM s then (case indexed of None \<Rightarrow> base | Some c \<Rightarrow> c) else base);
          m = Counts [] (sl_memories l) (concat (sl_evidence l));
          of_status = (\<lambda>x. length (filter (\<lambda>p. pr_Status p = x) (sl_proposals l))) in
      \<lparr>zs_Sessions = length (sl_sessions l),
       zs_Counts = c\<lparr>rn_ActiveMemories := rn_ActiveMemories c + rn_ActiveMemories m,
         rn_InactiveMemories := rn_InactiveMemories c + rn_InactiveMemories m,
         rn_SecretLikeMemories := rn_SecretLikeMemories c + rn_SecretLikeMemories m,
         rn_InstructionMemories := rn_InstructionMemories c + rn_InstructionMemories m,
         rn_EvidenceLinks := rn_EvidenceLinks c + rn_EvidenceLinks m\<rparr>,
       zs_Proposals = length (sl_proposals l), zs_PendingProposals = of_status ProposalPending,
       zs_AppliedProposals = of_status ProposalApplied, zs_RejectedProposals = of_status ProposalRejected,
       zs_ContinuityRevisions = length (st_continuity s), zs_ProjectContexts = length (sl_projectCtx l),
       zs_MutationEvents = st_mutationEventSeq s, zs_ArchivedUserTurns = st_turnSeq s, zs_Vectors = v\<rparr>)"

text \<open>The configuration without the key; a duration is shown as a value.\<close>

record read_only_embedding =
  xe_Provider :: go_string
  xe_Endpoint :: go_string
  xe_Path :: go_string
  xe_Model :: go_string
  xe_ModelDigest :: go_string
  xe_Dimensions :: int
  xe_Timeout :: "time option"
  xe_AllowRemote :: bool
  xe_SemanticRequested :: bool
  xe_SemanticEffective :: bool

record read_only_config =
  xc_Storage :: storage_config
  xc_Embedding :: read_only_embedding

definition sanitizedReadOnlyConfig :: "storage_config \<Rightarrow> embedding_config \<Rightarrow> bool \<Rightarrow> bool \<Rightarrow> read_only_config" where
  "sanitizedReadOnlyConfig storage cfg requested effective =
     \<lparr>xc_Storage = storage,
      xc_Embedding =
        (if ey_Provider cfg = ''disabled''
         then \<lparr>xe_Provider = ''disabled'', xe_Endpoint = '''', xe_Path = '''', xe_Model = '''', xe_ModelDigest = '''', xe_Dimensions = 0,
           xe_Timeout = None, xe_AllowRemote = False, xe_SemanticRequested = requested, xe_SemanticEffective = False\<rparr>
         else \<lparr>xe_Provider = ey_Provider cfg, xe_Endpoint = ey_Endpoint cfg, xe_Path = ey_Path cfg, xe_Model = ey_Model cfg,
           xe_ModelDigest = ey_ModelDigest cfg, xe_Dimensions = ey_Dimensions cfg, xe_Timeout = Some (ey_Timeout cfg),
           xe_AllowRemote = ey_AllowRemote cfg, xe_SemanticRequested = requested, xe_SemanticEffective = effective\<rparr>)\<rparr>"

section \<open>The handlers\<close>

record health =
  hl_status :: "status_manager option"
  hl_blocked :: bool
  hl_side :: vector_side

record health_env =
  hv_vectors :: vector_env
  hv_lowRAM :: bool
  hv_Embedder :: "provider option"

text \<open>What an operation meets: the first and the second look of a sync, the memories when the status is assessed, and the clock.\<close>

record health_io =
  hi_before :: "memory_row list \<times> vector_handle option"
  hi_rows :: "go_string \<rightharpoonup> memory_row"
  hi_after :: "memory_row list"
  hi_ambient :: sync_ambient
  hi_now :: time

datatype refusal = Fails go_error | Answers nat go_string

record rebuild_request =
  rr_IncidentID :: go_string
  rr_Confirm :: bool

definition assess :: "health_env \<Rightarrow> health_io \<Rightarrow> vector_side \<Rightarrow> status_manager \<Rightarrow> status_manager" where
  "assess env io side m =
     status_refresh (ve_sha (hv_vectors env)) (VectorStatus (hv_lowRAM env) (ve_sha (hv_vectors env)) (hi_after io) side)
       (vx_issue side) (hi_now io) m"

definition InitializeStatus :: "health_env \<Rightarrow> storage_config \<Rightarrow> embedding_config \<Rightarrow> bool \<Rightarrow> health_io \<Rightarrow> health \<Rightarrow> health" where
  "InitializeStatus env storage cfg semantic io h =
     (let m = newStatusManager (ve_sha (hv_vectors env))
            (VectorStatus (hv_lowRAM env) (ve_sha (hv_vectors env)) (hi_after io) (hl_side h)) (vx_issue (hl_side h)) storage cfg semantic (hi_now io) in
      h\<lparr>hl_status := Some m,
        hl_blocked := xs_State (xm_status m) = SystemActionRequired \<or> xs_Embeddings (xm_status m) = ''DISABLED''\<rparr>)"

definition current_status :: "time \<Rightarrow> health \<Rightarrow> system_status" where
  "current_status now h = (case hl_status h of None \<Rightarrow> unconfiguredSystemStatus now | Some m \<Rightarrow> xm_status m)"

text \<open>\<open>SystemStatus\<close> as it is shown; \<open>startup\<close> is the switch of \<open>semanticEnabled\<close>.\<close>

definition SystemStatus ::
    "time \<Rightarrow> bool option \<Rightarrow> store_statistics \<Rightarrow> health \<Rightarrow> system_status \<times> (read_only_config \<times> store_statistics) option" where
  "SystemStatus now startup stats h =
     (current_status now h,
      case hl_status h of None \<Rightarrow> None
      | Some m \<Rightarrow> Some (sanitizedReadOnlyConfig (xm_storage m) (xm_config m) (xm_semantic m)
            (if hl_blocked h then False else case startup of Some b \<Rightarrow> b | None \<Rightarrow> False),
          if xs_Embeddings (xm_status m) = ''DISABLED'' then stats\<lparr>zs_Vectors := (zs_Vectors stats)\<lparr>vu_State := ''DISABLED''\<rparr>\<rparr> else stats))"

definition systemStatus ::
    "(go_string \<Rightarrow> go_string) \<Rightarrow> server_auth \<Rightarrow> go_string \<Rightarrow> go_string \<Rightarrow> time \<Rightarrow> bool option \<Rightarrow> store_statistics \<Rightarrow> health \<Rightarrow>
     go_error + system_status \<times> (read_only_config \<times> store_statistics) option" where
  "systemStatus sha sv token header now startup stats h =
     (if \<not> adminAuthorized sv token \<and> (case authenticate sha sv header ''CONTEXT_READ'' of Inl _ \<Rightarrow> True | Inr _ \<Rightarrow> False)
      then Inl (app AuthRequired) else Inr (SystemStatus now startup stats h))"

text \<open>The status is assessed again and decides about semantic search.\<close>

definition refreshed :: "health_env \<Rightarrow> health_io \<Rightarrow> health \<Rightarrow> health" where
  "refreshed env io h =
     (case hl_status h of None \<Rightarrow> h
      | Some m \<Rightarrow> (let m = assess env io (hl_side h) m in
          h\<lparr>hl_status := Some m, hl_blocked := xs_State (xm_status m) = SystemActionRequired\<rparr>))"

definition adminEmbed :: "health_env \<Rightarrow> server_auth \<Rightarrow> go_string \<Rightarrow> health_io \<Rightarrow> health \<Rightarrow> health \<times> (refusal + nat \<times> nat)" where
  "adminEmbed env sv token io h =
     (if \<not> adminAuthorized sv token then (h, Inl (Fails (app AuthRequired)))
      else if hv_Embedder env = None then (h, Inl (Answers 503 ''EMBEDDING_DISABLED''))
      else case EmbedAll (hv_vectors env) (hv_Embedder env) (hi_before io) (hi_rows io) (hi_ambient io) (hl_side h) of
        (side, n, Inl _) \<Rightarrow> (h\<lparr>hl_side := side\<rparr>, Inl (Fails (app InternalError)))
      | (side, n, Inr _) \<Rightarrow>
          (refreshed env io (h\<lparr>hl_side := side\<rparr>),
           Inr (n, case vx_store side of None \<Rightarrow> 0 | Some g \<Rightarrow> length (vs_refs (vh_store g)))))"

text \<open>The rebuild itself, for an incident.\<close>

definition run_rebuild :: "health_env \<Rightarrow> health_io \<Rightarrow> go_string \<Rightarrow> health \<Rightarrow> health \<times> (refusal + system_status \<times> sync_summary)" where
  "run_rebuild env io incidentID h =
     (let h = h\<lparr>hl_status := map_option (status_building incidentID) (hl_status h), hl_blocked := True\<rparr> in
      case SyncVectors (hv_vectors env) (hv_Embedder env) (hi_before io) (hi_rows io) (hi_ambient io) (hl_side h) of
        (side, summary, r) \<Rightarrow>
          (let h = h\<lparr>hl_side := side\<rparr> in
           if (case r of Inl _ \<Rightarrow> True | Inr _ \<Rightarrow> sy_Failed summary > 0)
           then (h\<lparr>hl_status := map_option (status_rebuildFailed (ve_sha (hv_vectors env))
                    (VectorStatus (hv_lowRAM env) (ve_sha (hv_vectors env)) (hi_after io) side) (vx_issue side)
                    (hi_now io) incidentID) (hl_status h)\<rparr>,
                 Inl (Answers 502 ''VECTOR_REBUILD_FAILED''))
           else (let h = refreshed env io h in (h, Inr (current_status (hi_now io) h, summary)))))"

text \<open>\<open>running\<close>: another rebuild holds the lock.\<close>

definition adminVectorRebuild ::
    "health_env \<Rightarrow> server_auth \<Rightarrow> go_string \<Rightarrow> rebuild_request option \<Rightarrow> bool \<Rightarrow> health_io \<Rightarrow> health \<Rightarrow> health \<times> (refusal + system_status \<times> sync_summary)" where
  "adminVectorRebuild env sv token request running io h =
     (if \<not> adminAuthorized sv token then (h, Inl (Fails (app AuthRequired)))
      else case request of
        None \<Rightarrow> (h, Inl (Answers 400 ''CONFIRMATION_REQUIRED''))
      | Some rq \<Rightarrow>
          if \<not> rr_Confirm rq \<or> rr_IncidentID rq = '''' then (h, Inl (Answers 400 ''CONFIRMATION_REQUIRED''))
          else
            (let status = current_status (hi_now io) h in
             if \<not> list_ex (\<lambda>x. xn_IncidentID x = rr_IncidentID rq) (xs_Incidents status) \<or>
               xs_State status \<noteq> SystemActionRequired \<and> xs_State status \<noteq> SystemDegraded
             then (h, Inl (Answers 409 ''INCIDENT_CHANGED''))
             else if running then (h, Inl (Answers 409 ''VECTOR_REBUILD_RUNNING''))
             else if hv_Embedder env = None then (h, Inl (Answers 503 ''EMBEDDING_DISABLED''))
             else run_rebuild env io (rr_IncidentID rq) h))"

text \<open>\<open>adminListProposals\<close>: the proposals as they are shown; \<open>ps\<close> are those of the store, in ranging order.\<close>

definition adminListProposals ::
    "server_auth \<Rightarrow> go_string \<Rightarrow> go_string \<Rightarrow> int option \<Rightarrow> proposal list \<Rightarrow> go_error + proposal list" where
  "adminListProposals sv token status requested ps =
     (if \<not> adminAuthorized sv token then Inl (app AuthRequired)
      else
        (let limit = (case requested of Some n \<Rightarrow> if n > 0 \<and> n \<le> 500 then n else 100 | None \<Rightarrow> 100) in
         Inr (ListProposals (if status = '''' then ''PENDING'' else status) limit ps)))"

section \<open>Quarantine\<close>

text \<open>The states of the server: initialised once, then repaired.\<close>

inductive health_run :: "health_env \<Rightarrow> health \<Rightarrow> bool" for env where
  start: "health_run env (InitializeStatus env storage cfg semantic io h)"
| embed: "health_run env h \<Longrightarrow> health_run env (fst (adminEmbed env sv token io h))"
| rebuild: "health_run env h \<Longrightarrow> health_run env (fst (adminVectorRebuild env sv token request running io h))"

definition quarantine_sound :: "health \<Rightarrow> bool" where
  "quarantine_sound h =
     (case hl_status h of None \<Rightarrow> False
      | Some m \<Rightarrow>
          (let st = xm_status m in
           xs_State st \<in> {SystemReady, SystemDegraded, SystemActionRequired} \<and>
           (xs_State st = SystemActionRequired \<longrightarrow> hl_blocked h) \<and>
           (xs_MCP st = ''QUARANTINED'' \<longrightarrow> xs_State st = SystemActionRequired) \<and>
           (xs_State st = SystemReady \<longrightarrow> xs_Incidents st = []) \<and>
           (xs_State st \<noteq> SystemReady \<and> xs_Embeddings st \<noteq> ''REBUILD_FAILED'' \<longrightarrow> length (xs_Incidents st) = 1)))"

lemma assess_sound:
  assumes "hl_status h = Some m" "xm_status m = assessSystemStatus sha v issue cfg semantic now"
    and "xs_State (xm_status m) = SystemActionRequired \<Longrightarrow> hl_blocked h"
  shows "quarantine_sound h"
  using assms by (simp add: quarantine_sound_def assessSystemStatus_def unconfiguredSystemStatus_def Let_def split: if_splits)

lemma Initialize_sound: "quarantine_sound (InitializeStatus env storage cfg semantic io h)"
proof -
  let ?h = "InitializeStatus env storage cfg semantic io h"
  define m where "m = newStatusManager (ve_sha (hv_vectors env))
    (VectorStatus (hv_lowRAM env) (ve_sha (hv_vectors env)) (hi_after io) (hl_side h)) (vx_issue (hl_side h)) storage cfg semantic (hi_now io)"
  have "hl_status ?h = Some m" "xs_State (xm_status m) = SystemActionRequired \<Longrightarrow> hl_blocked ?h"
    by (simp_all add: InitializeStatus_def m_def Let_def)
  moreover have "xm_status m = assessSystemStatus (ve_sha (hv_vectors env))
    (VectorStatus (hv_lowRAM env) (ve_sha (hv_vectors env)) (hi_after io) (hl_side h)) (vx_issue (hl_side h)) cfg semantic (hi_now io)"
    by (simp add: m_def newStatusManager_def)
  ultimately show ?thesis by (intro assess_sound)
qed

lemma refreshed_sound: "hl_status h \<noteq> None \<Longrightarrow> quarantine_sound (refreshed env io h)"
  by (cases "hl_status h") (auto simp: refreshed_def assess_def status_refresh_def Let_def intro!: assess_sound)

lemma side_sound [simp]: "quarantine_sound (h\<lparr>hl_side := side\<rparr>) = quarantine_sound h"
  by (simp add: quarantine_sound_def Let_def split: option.split)

lemma on_incidents_simps [simp]:
  "xs_State (on_incidents i f st) = xs_State st" "xs_MCP (on_incidents i f st) = xs_MCP st"
  "xs_Embeddings (on_incidents i f st) = xs_Embeddings st" "xs_Incidents (on_incidents i f st) = [] \<longleftrightarrow> xs_Incidents st = []"
  by (simp_all add: on_incidents_def)

lemma status_rebuildFailed_simps [simp]:
  "xs_State (xm_status (status_rebuildFailed sha v issue now i m)) = SystemActionRequired"
  "xs_MCP (xm_status (status_rebuildFailed sha v issue now i m)) = ''QUARANTINED''"
  "xs_Embeddings (xm_status (status_rebuildFailed sha v issue now i m)) = ''REBUILD_FAILED''"
  "xs_Incidents (xm_status (status_rebuildFailed sha v issue now i m)) = [] \<longleftrightarrow>
     xs_Incidents (assessSystemStatus sha v issue (xm_config m) (xm_semantic m) now) = []"
  by (simp_all add: status_rebuildFailed_def)

lemma failed_sound:
  "hl_status h = Some m \<Longrightarrow> hl_blocked h \<Longrightarrow>
     quarantine_sound (h\<lparr>hl_status := Some (status_rebuildFailed sha v issue now i m)\<rparr>)"
  by (simp add: quarantine_sound_def)

lemma embed_sound: "quarantine_sound h \<Longrightarrow> quarantine_sound (fst (adminEmbed env sv token io h))"
  by (auto simp: adminEmbed_def quarantine_sound_def [of h] intro!: refreshed_sound split: prod.splits sum.splits option.splits)

text \<open>A rebuild is refused, fails or completes.\<close>

definition under_repair :: "go_string \<Rightarrow> vector_side \<Rightarrow> health \<Rightarrow> health" where
  "under_repair i side h = h\<lparr>hl_status := map_option (status_building i) (hl_status h), hl_blocked := True, hl_side := side\<rparr>"

lemma run_rebuild_eq:
  assumes "SyncVectors (hv_vectors env) (hv_Embedder env) (hi_before io) (hi_rows io) (hi_ambient io) (hl_side h) = (side, summary, r)"
  shows "run_rebuild env io i h =
    (if (case r of Inl _ \<Rightarrow> True | Inr _ \<Rightarrow> sy_Failed summary > 0)
     then ((under_repair i side h)\<lparr>hl_status := map_option (status_rebuildFailed (ve_sha (hv_vectors env))
        (VectorStatus (hv_lowRAM env) (ve_sha (hv_vectors env)) (hi_after io) side) (vx_issue side) (hi_now io) i)
        (hl_status (under_repair i side h))\<rparr>, Inl (Answers 502 ''VECTOR_REBUILD_FAILED''))
     else (let h = refreshed env io (under_repair i side h) in (h, Inr (current_status (hi_now io) h, summary))))"
  by (simp add: run_rebuild_def assms under_repair_def Let_def)

lemma rebuild_refused:
  "(\<exists>e. adminVectorRebuild env sv token request running io h = (h, Inl e) \<and> (\<forall>code. e \<noteq> Answers 502 code)) \<or>
     (\<exists>i. adminVectorRebuild env sv token request running io h = run_rebuild env io i h)"
  unfolding adminVectorRebuild_def by (cases request) (simp_all add: Let_def, blast)

lemma rebuild_cases:
  obtains (refused) e where "adminVectorRebuild env sv token request running io h = (h, Inl e)" "\<And>code. e \<noteq> Answers 502 code"
  | (failed) i side where "adminVectorRebuild env sv token request running io h =
      ((under_repair i side h)\<lparr>hl_status := map_option (status_rebuildFailed (ve_sha (hv_vectors env))
        (VectorStatus (hv_lowRAM env) (ve_sha (hv_vectors env)) (hi_after io) side) (vx_issue side) (hi_now io) i)
        (hl_status (under_repair i side h))\<rparr>, Inl (Answers 502 ''VECTOR_REBUILD_FAILED''))"
  | (finished) i side summary where
      "SyncVectors (hv_vectors env) (hv_Embedder env) (hi_before io) (hi_rows io) (hi_ambient io) (hl_side h) = (side, summary, Inr ())"
      "adminVectorRebuild env sv token request running io h =
        (let h = refreshed env io (under_repair i side h) in (h, Inr (current_status (hi_now io) h, summary)))"
proof -
  obtain side summary r where s:
    "SyncVectors (hv_vectors env) (hv_Embedder env) (hi_before io) (hi_rows io) (hi_ambient io) (hl_side h) = (side, summary, r)"
    by (metis prod.exhaust)
  consider e where "adminVectorRebuild env sv token request running io h = (h, Inl e)" "\<forall>code. e \<noteq> Answers 502 code"
    | i where "adminVectorRebuild env sv token request running io h = run_rebuild env io i h"
    using rebuild_refused by blast
  then show thesis
  proof cases
    case (2 i)
    show thesis
    proof (cases "case r of Inl _ \<Rightarrow> True | Inr _ \<Rightarrow> sy_Failed summary > 0")
      case True
      then show thesis using 2 run_rebuild_eq [OF s, of i] failed by simp
    next
      case False
      then have "r = Inr ()" by (cases r) auto
      then show thesis using 2 run_rebuild_eq [OF s, of i] False s finished by simp
    qed
  qed (use refused in blast)
qed

lemma rebuild_sound: "quarantine_sound h \<Longrightarrow> quarantine_sound (fst (adminVectorRebuild env sv token request running io h))"
proof -
  assume q: "quarantine_sound h"
  then obtain m where m: "hl_status h = Some m" by (auto simp: quarantine_sound_def split: option.splits)
  show ?thesis
  proof (cases rule: rebuild_cases [of env sv token request running io h])
    case (failed i side)
    then show ?thesis by (simp add: m quarantine_sound_def under_repair_def)
  next
    case (finished i side summary)
    then show ?thesis by (simp add: Let_def m refreshed_sound under_repair_def)
  qed (use q in simp)
qed


text \<open>When a rebuild fails although nothing is left to repair - the memory it was made for was
  retired meanwhile - the status asks for an action without an incident that names it, semantic search stays blocked, and every
  further request for a rebuild is refused.\<close>

theorem failed_rebuild_strands:
  assumes "hl_status h = Some m" "adminVectorRebuild env sv token request running io h = (h', Inl (Answers 502 code))"
    and "xs_Incidents (xm_status (assess env io (hl_side h') m)) = []"
  shows "(\<exists>m'. hl_status h' = Some m' \<and> xs_State (xm_status m') = SystemActionRequired \<and> xs_MCP (xm_status m') = ''QUARANTINED'' \<and>
      xs_Incidents (xm_status m') = []) \<and> hl_blocked h' \<and>
    fst (adminVectorRebuild env sv' token' request' running' io' h') = h' \<and>
    snd (adminVectorRebuild env sv' token' request' running' io' h') \<in>
      {Inl (Fails (app AuthRequired)), Inl (Answers 400 ''CONFIRMATION_REQUIRED''), Inl (Answers 409 ''INCIDENT_CHANGED'')}"
proof -
  have "\<exists>m'. hl_status h' = Some m' \<and> xs_State (xm_status m') = SystemActionRequired \<and> xs_MCP (xm_status m') = ''QUARANTINED'' \<and>
      xs_Incidents (xm_status m') = [] \<and> hl_blocked h'"
    using assms
    by (cases rule: rebuild_cases [of env sv token request running io h])
      (auto simp: assess_def status_refresh_def status_building_def under_repair_def Let_def)
  then show ?thesis
    by (auto simp: adminVectorRebuild_def current_status_def Let_def split: option.splits)
qed

text \<open>When every eligible memory has its vector of the configured model, but with other dimensions than the
  configured ones, the rebuild that the incident asks for is reported as done, has embedded nothing and left
  everything as it was: the memory tools stay quarantined.\<close>

theorem dimension_change_stuck:
  assumes embedder: "hv_Embedder env = Some p" "contract_Validate (pr_contract p) = Inr ()"
    and current: "\<forall>row \<in> set (fst (hi_before io)). vector_eligible row \<longrightarrow>
      current_in (ve_sha (hv_vectors env)) (snd (hi_before io)) (embeddingModelName p) (embeddingModelDigest p) row"
    and status: "hl_status h = Some m" "xs_State (xm_status m) = SystemActionRequired" "incident \<in> set (xs_Incidents (xm_status m))"
      "xn_IncidentID incident \<noteq> ''''"
    and side: "vx_store (hl_side h) = Some g" "vx_issue (hl_side h) = ''''" "vm_Generation (handle_manifest g) \<noteq> ''''" "\<not> hv_lowRAM env"
    and cfg: "ey_Provider (xm_config m) \<noteq> ''disabled''" "ey_Dimensions (xm_config m) > 0"
      "vm_Dimensions (handle_manifest g) \<noteq> ey_Dimensions (xm_config m)"
    and admin: "adminAuthorized sv token"
  shows "\<exists>h' st summary. adminVectorRebuild env sv token (Some \<lparr>rr_IncidentID = xn_IncidentID incident, rr_Confirm = True\<rparr>) False io h =
      (h', Inr (st, summary)) \<and> sy_Embedded summary = 0 \<and> hl_side h' = hl_side h \<and> hl_blocked h' \<and>
      xs_State st = SystemActionRequired \<and> xs_Embeddings st = ''MODEL_MISMATCH'' \<and> xs_MCP st = ''QUARANTINED''"
proof -
  let ?i = "xn_IncidentID incident" and ?sha = "ve_sha (hv_vectors env)"
  obtain summary queue where scan: "sync_scan ?sha (snd (hi_before io)) (embeddingModelName p) (embeddingModelDigest p) zero_summary
      (fst (hi_before io)) = (summary, queue)" by (metis prod.exhaust)
  have queue: "queue = []" "sy_Failed summary = 0" "sy_Embedded summary = 0"
    using sync_scan_queue [OF scan] current by (auto simp: filter_empty_conv)
  have sync: "SyncVectors (hv_vectors env) (hv_Embedder env) (hi_before io) (hi_rows io) (hi_ambient io) (hl_side h) =
      (hl_side h, summary, Inr ())"
    by (simp add: SyncVectors_def embedder scan queue(1))
  have run: "run_rebuild env io ?i h = (let h = refreshed env io (under_repair ?i (hl_side h) h) in (h, Inr (current_status (hi_now io) h, summary)))"
    using run_rebuild_eq [OF sync] queue(2) by simp
  have start: "adminVectorRebuild env sv token (Some \<lparr>rr_IncidentID = ?i, rr_Confirm = True\<rparr>) False io h = run_rebuild env io ?i h"
    using status admin embedder(1) by (auto simp: adminVectorRebuild_def current_status_def Let_def list_ex_iff)
  have v: "VectorStatus (hv_lowRAM env) ?sha (hi_after io) (hl_side h) = v \<Longrightarrow>
      vu_Generation v = vm_Generation (handle_manifest g) \<and> vu_Dimensions v = vm_Dimensions (handle_manifest g)" for v
    using side by (auto simp: VectorStatus_def VectorStatus_maps_def manifest_status_def Let_def)
  have "modelIdentityMismatch (active_model v) (configured_model (xm_config m))"
    if "vu_Dimensions v = vm_Dimensions (handle_manifest g)" for v
    using that cfg by (simp add: modelIdentityMismatch_def active_model_def configured_model_def)
  then have "xs_State st = SystemActionRequired \<and> xs_Embeddings st = ''MODEL_MISMATCH'' \<and> xs_MCP st = ''QUARANTINED''"
    if "st = assessSystemStatus ?sha (VectorStatus (hv_lowRAM env) ?sha (hi_after io) (hl_side h)) '''' (xm_config m) (xm_semantic m) (hi_now io)" for st
    using that v [OF refl] cfg(1) side(3) by (simp add: assessSystemStatus_def Let_def)
  then show ?thesis
    using queue(3) by (simp add: start run refreshed_def under_repair_def status(1) assess_def status_refresh_def status_building_def
      side(2) current_status_def Let_def)
qed

end
