(* ===== verification/Sync_Example.thy ===== *)
theory Sync_Example
  imports Vector_Sync Vector_Example
begin

text \<open>A root whose selected generation is replaced by one of another model.\<close>

definition sync_spec :: generation_spec where
  "sync_spec = demo_spec\<lparr>gs_Name := '''', gs_ModelName := ''other''\<rparr>"

definition sync_name :: go_string where
  "sync_name = gs_Name (building_spec (\<lambda>_. ''ab'') sync_spec ''nonce'')"

definition sync_ref :: "64 word \<Rightarrow> vector_ref" where
  "sync_ref n = (demo_ref ''one'')\<lparr>vr_Generation := sync_name, vr_Ordinal := n\<rparr>"

text \<open>A line of the map file carries the ordinal, bit by bit.\<close>

definition sync_env :: vector_env where
  "sync_env = demo_vectors\<lparr>
     ve_json := (\<lambda>r. map (\<lambda>i. if bit (vr_Ordinal r) i then CHR ''1'' else CHR ''0'') [0..<64]),
     ve_unjson := (\<lambda>l. Some (sync_ref (horner_sum of_bool 2 (map (\<lambda>c. c = CHR ''1'') l))))\<rparr>"

definition sync_amb :: sync_ambient where
  "sync_amb = \<lparr>sa_now = (\<lambda>_. ''now''), sa_appends = (\<lambda>_. Completed), sa_create = Created, sa_nonce = ''nonce'', sa_activate = Activated\<rparr>"

definition sync_root :: vector_root where
  "sync_root = \<lparr>rt_gens = [''g'' \<mapsto> vs_disk demo_store], rt_CURRENT = Some (''g'' @ [newline])\<rparr>"

definition sync_side :: vector_side where
  "sync_side = \<lparr>vx_root = sync_root, vx_store = Some \<lparr>vh_name = ''g'', vh_store = demo_store\<rparr>, vx_issue = '''', vx_refs = []\<rparr>"

definition sync_pending :: pending where
  "sync_pending = \<lparr>pq_id = ''one'', pq_inputHash = ''h'', pq_text = ''text''\<rparr>"

lemma sync_code: "horner_sum of_bool 2 (map (\<lambda>c. c = CHR ''1'') (map (\<lambda>i. if bit w i then CHR ''1'' else CHR ''0'') [0..<64])) = (w :: 64 word)"
proof -
  have "map (\<lambda>c. c = CHR ''1'') (map (\<lambda>i. if bit w i then CHR ''1'' else CHR ''0'') [0..<64]) = map (bit w) [0..<64]" by simp
  then show ?thesis by (simp only: horner_sum_bit_eq_take_bit) (simp add: take_bit_word_eq_self)
qed

lemma sync_line: "line_ok sync_env (sync_ref n)"
proof -
  let ?l = "ve_json sync_env (sync_ref n)"
  have l: "?l = map (\<lambda>i. if bit n i then CHR ''1'' else CHR ''0'') [0..<64]" by (simp add: sync_env_def sync_ref_def)
  have "set ?l \<subseteq> {CHR ''0'', CHR ''1''}" "length ?l = 64" unfolding l by auto
  moreover have "ve_unjson sync_env l' = Some (sync_ref (horner_sum of_bool 2 (map (\<lambda>c. c = CHR ''1'') l')))" for l'
    by (simp add: sync_env_def)
  then have "ve_unjson sync_env ?l = Some (sync_ref n)" unfolding l by (simp only: sync_code)
  moreover have "last ?l \<noteq> CHR 0x0D" using calculation(1,2) last_in_set [of ?l] by fastforce
  ultimately show ?thesis by (auto simp: line_ok_def drop_cr_def simp del: length_map)
qed

lemma sync_lines: "lines_ok sync_env sync_amb sync_name sync_pending"
proof -
  have "new_ref sync_env s ''MEMORY'' ''one'' ''h'' b ''now'' = sync_ref (hd_CommittedCount (vs_header s))"
    if "vm_Generation (vs_manifest s) = sync_name" for s b
    using that by (simp add: new_ref_def sync_ref_def demo_ref_def sync_env_def demo_vectors_def sha_name_def)
  then show ?thesis using sync_line by (simp add: lines_ok_def sync_pending_def sync_amb_def)
qed

lemma sync_inv: "vstore_inv sync_env demo_store []"
  using create_inv [of "prepareSpec (\<lambda>_. ''ab'') demo_spec" True "''now''" demo_store sync_env] by (simp add: demo_created)

lemma sync_selects: "selects sync_env sync_root ''g'' [] []"
proof -
  have shape: "vstore_shape sync_env demo_store []" using sync_inv by (simp add: vstore_inv_def)
  have g: "vm_Generation (vs_manifest demo_store) = ''g''" "vs_refs demo_store = []"
    and ready: "map_option vm_State (vd_manifest (vs_disk demo_store)) = Some ''READY''"
    by (simp_all add: demo_store_simps)
  have "clean_name ''g''" by (rule clean_name_plain) (simp_all add: plain_char_def)
  then show ?thesis using reopens_self [OF shape] ready sync_inv
    by (simp add: selects_def sync_root_def g vstore_inv_def)
qed


end
