(* ===== verification/Health_Example.thy ===== *)
theory Health_Example
  imports System_Health Sync_Example Store_Example
begin

text \<open>A server with one memory and a generation of one-dimensional vectors, on which the properties of \<open>System_Health\<close> are applied.\<close>

definition demo_provider :: provider where
  "demo_provider = \<lparr>pr_contract = \<lparr>pv_ContractVersion = ''mindmory.retrieval-provider/v1'', pv_Provider = ''p'', pv_Surface = ''embedding'',
       pv_Locality = ''local'', pv_ModelName = ''m'', pv_ModelDigest = ''d'', pv_Dimensions = 1, pv_SupportsSemantic = True,
       pv_SupportsBatch = True, pv_MaximumBatchSize = 8, pv_SendsContentOffDevice = False, pv_ReadsCanonical = False,
       pv_MutatesCanonical = False\<rparr>,
     pr_ModelName = Some ''m'', pr_ModelDigest = Some ''d'', pr_Embed = (\<lambda>ts. Inr (map (\<lambda>_. [Number 1]) ts))\<rparr>"

definition demo_embedding :: "int \<Rightarrow> embedding_config" where
  "demo_embedding n = \<lparr>ey_Provider = ''ollama'', ey_Endpoint = '''', ey_Path = '''', ey_Model = ''m'', ey_ModelDigest = ''d'',
     ey_APIKey = '''', ey_Dimensions = n, ey_Timeout = 0, ey_AllowRemote = False\<rparr>"

definition demo_storage :: storage_config where
  "demo_storage = \<lparr>sg_RootDir = '''', sg_DataDir = '''', sg_DerivedDir = '''', sg_VectorDir = '''', sg_SnapshotDir = '''', sg_ExportDir = ''''\<rparr>"

definition health_sv :: server_auth where
  "health_sv = \<lparr>sv_Auth = Map.empty, sv_TrustLocal = True, sv_LocalClientKey = ''c'', sv_AdminToken = ''admin''\<rparr>"

definition health_demo_env :: health_env where
  "health_demo_env = \<lparr>hv_vectors = demo_vectors, hv_lowRAM = False, hv_Embedder = Some demo_provider\<rparr>"

definition live_row :: memory_row where
  "live_row = demo_row\<lparr>mm_Lifecycle := ''ACTIVE''\<rparr>"

definition demo_handle :: vector_handle where
  "demo_handle = \<lparr>vh_name = ''g'', vh_store = demo_store\<rparr>"

definition full_handle :: vector_handle where
  "full_handle = demo_handle\<lparr>vh_store := demo_store\<lparr>vs_bySource := (\<lambda>_. Some 0)\<rparr>\<rparr>"

text \<open>The memory is there when the sync looks first, and retired when it looks again.\<close>

definition demo_io :: "vector_handle \<Rightarrow> memory_row list \<Rightarrow> health_io" where
  "demo_io g after = \<lparr>hi_before = ([live_row], Some g), hi_rows = (\<lambda>_. None), hi_after = after, hi_ambient = sync_amb, hi_now = 0\<rparr>"

definition demo_health :: "int \<Rightarrow> vector_handle \<Rightarrow> health" where
  "demo_health n g = InitializeStatus health_demo_env demo_storage (demo_embedding n) True (demo_io g [live_row])
     \<lparr>hl_status = None, hl_blocked = False, hl_side = sync_side\<lparr>vx_store := Some g\<rparr>\<rparr>"

lemma demo_contract: "contract_Validate (pr_contract demo_provider) = Inr ()"
proof -
  have "trim_space ''p'' = ''p''" "trim_space ''m'' = ''m''" by code_simp+
  then show ?thesis by (simp add: contract_Validate_def demo_provider_def RetrievalProviderContractVersion_def)
qed

lemma demo_manifest:
  "vm_Generation (handle_manifest demo_handle) = ''g''" "vm_ModelName (handle_manifest demo_handle) = ''m''"
  "vm_ModelDigest (handle_manifest demo_handle) = ''d''" "vm_Dimensions (handle_manifest demo_handle) = 1"
  "vm_EmbeddingInputVersion (handle_manifest demo_handle) = 1" "vm_NormalizationVersion (handle_manifest demo_handle) = 1"
  by (simp_all add: demo_handle_def demo_store_simps)

lemma live_eligible: "vector_eligible live_row"
  by (simp add: vector_eligible_def live_row_def demo_row_def)

lemma demo_status:
  "VectorStatus False (ve_sha demo_vectors) rows (sync_side\<lparr>vx_store := Some demo_handle\<rparr>) =
     manifest_status demo_handle degraded_status\<lparr>vu_CurrentActiveMemories := length (filter vector_eligible rows),
       vu_Missing := length (filter vector_eligible rows), vu_Tombstoned := 0, vu_Stale := 0\<rparr>"
  by (simp add: VectorStatus_def VectorStatus_maps_def demo_handle_def demo_fresh Has_def Let_def)


definition demo_incident :: go_string where
  "demo_incident = ''inc_'' @ hex_encode ''ab''"

lemma demo_incident_id: "xn_IncidentID (newIncident (ve_sha demo_vectors) code active configured cs safety message command) = demo_incident"
  by (simp add: newIncident_def demo_vectors_def demo_incident_def Let_def)

lemma demo_assessed:
  assumes "v = VectorStatus False (ve_sha demo_vectors) rows (sync_side\<lparr>vx_store := Some demo_handle\<rparr>)"
  shows "filter vector_eligible rows \<noteq> [] \<Longrightarrow>
      xs_State (assessSystemStatus (ve_sha demo_vectors) v '''' (demo_embedding 1) semantic now) = ''DEGRADED'' \<and>
      list_ex (\<lambda>x. xn_IncidentID x = demo_incident)
        (xs_Incidents (assessSystemStatus (ve_sha demo_vectors) v '''' (demo_embedding 1) semantic now))"
    and "filter vector_eligible rows = [] \<Longrightarrow>
      xs_Incidents (assessSystemStatus (ve_sha demo_vectors) v '''' (demo_embedding 1) semantic now) = []"
proof -
  have "vu_Generation v = ''g''" "vu_Missing v = length (filter vector_eligible rows)" "vu_Stale v = 0"
    unfolding assms demo_status by (simp_all add: manifest_status_def demo_manifest Let_def)
  moreover have "\<not> modelIdentityMismatch (active_model v) (configured_model (demo_embedding 1))"
    unfolding assms demo_status
    by (simp add: modelIdentityMismatch_def active_model_def configured_model_def demo_embedding_def manifest_status_def demo_manifest Let_def)
  ultimately show "filter vector_eligible rows \<noteq> [] \<Longrightarrow>
      xs_State (assessSystemStatus (ve_sha demo_vectors) v '''' (demo_embedding 1) semantic now) = ''DEGRADED'' \<and>
      list_ex (\<lambda>x. xn_IncidentID x = demo_incident)
        (xs_Incidents (assessSystemStatus (ve_sha demo_vectors) v '''' (demo_embedding 1) semantic now))"
    and "filter vector_eligible rows = [] \<Longrightarrow>
      xs_Incidents (assessSystemStatus (ve_sha demo_vectors) v '''' (demo_embedding 1) semantic now) = []"
    by (simp_all add: assessSystemStatus_def unconfiguredSystemStatus_def demo_incident_id Let_def) (simp_all add: demo_embedding_def)
qed

theorem failed_rebuild_strands_witness:
  "\<exists>h' e. adminVectorRebuild health_demo_env health_sv ''admin'' (Some \<lparr>rr_IncidentID = demo_incident, rr_Confirm = True\<rparr>) False
       (demo_io demo_handle []) (demo_health 1 demo_handle) = (h', Inl (Answers 502 e)) \<and> hl_blocked h' \<and>
     fst (adminVectorRebuild health_demo_env health_sv ''admin'' (Some \<lparr>rr_IncidentID = demo_incident, rr_Confirm = True\<rparr>) False
       (demo_io demo_handle []) h') = h'"
proof -
  let ?h = "demo_health 1 demo_handle" and ?side = "sync_side\<lparr>vx_store := Some demo_handle\<rparr>"
  let ?io = "demo_io demo_handle []"
  have side: "hl_side ?h = ?side" by (simp add: demo_health_def InitializeStatus_def Let_def)
  obtain m where m: "hl_status ?h = Some m" "xm_config m = demo_embedding 1" "xs_State (xm_status m) = ''DEGRADED''"
      "list_ex (\<lambda>x. xn_IncidentID x = demo_incident) (xs_Incidents (xm_status m))"
    using demo_assessed(1) [OF refl, of "[live_row]" True 0]
    by (simp add: demo_health_def InitializeStatus_def newStatusManager_def health_demo_env_def demo_io_def live_eligible Let_def sync_side_def)
  obtain summary where sync: "SyncVectors demo_vectors (Some demo_provider) (hi_before ?io) (hi_rows ?io) (hi_ambient ?io) ?side =
      (?side, summary, Inr ())" "sy_Failed summary = 1"
    by (simp add: SyncVectors_def demo_contract demo_io_def live_eligible Let_def embeddingModelName_def embeddingModelDigest_def)
      (simp add: demo_provider_def model_current_def demo_manifest Has_def demo_fresh demo_handle_def check_vectors_def
        needs_generation_def still_current_def demo_store_simps)
  have run: "run_rebuild health_demo_env ?io demo_incident ?h = ((under_repair demo_incident ?side ?h)\<lparr>hl_status := h'\<rparr>, Inl (Answers 502 ''VECTOR_REBUILD_FAILED''))"
    if "h' = map_option (status_rebuildFailed (ve_sha demo_vectors) (VectorStatus False (ve_sha demo_vectors) [] ?side) '''' 0 demo_incident)
        (hl_status (under_repair demo_incident ?side ?h))" for h'
    using run_rebuild_eq [of health_demo_env ?io ?h ?side summary "Inr ()" demo_incident] sync side that
    by (simp add: health_demo_env_def demo_io_def sync_side_def)
  have id: "demo_incident \<noteq> ''''" by (simp add: demo_incident_def)
  have start: "adminVectorRebuild health_demo_env health_sv ''admin'' (Some \<lparr>rr_IncidentID = demo_incident, rr_Confirm = True\<rparr>) False ?io ?h =
      run_rebuild health_demo_env ?io demo_incident ?h"
    using m id by (simp add: adminVectorRebuild_def adminAuthorized_def health_sv_def current_status_def health_demo_env_def Let_def)
  obtain h' where r: "adminVectorRebuild health_demo_env health_sv ''admin'' (Some \<lparr>rr_IncidentID = demo_incident, rr_Confirm = True\<rparr>) False ?io ?h =
      (h', Inl (Answers 502 ''VECTOR_REBUILD_FAILED''))" "hl_side h' = ?side"
    using start run [OF refl] by (simp add: under_repair_def)
  have "xs_Incidents (xm_status (assess health_demo_env ?io (hl_side h') m)) = []"
    using demo_assessed(2) [OF refl, of "[]" "xm_semantic m" 0]
    by (simp add: r(2) assess_def status_refresh_def health_demo_env_def demo_io_def m(2) sync_side_def)
  from failed_rebuild_strands [OF m(1) r(1) this] show ?thesis using r(1) by blast
qed

theorem dimension_change_stuck_witness:
  "\<exists>h' st summary. adminVectorRebuild health_demo_env health_sv ''admin'' (Some \<lparr>rr_IncidentID = demo_incident, rr_Confirm = True\<rparr>) False
      (demo_io full_handle [live_row]) (demo_health 2 full_handle) = (h', Inr (st, summary)) \<and> xs_MCP st = ''QUARANTINED''"
proof -
  let ?h = "demo_health 2 full_handle" and ?io = "demo_io full_handle [live_row]"
  have g: "handle_manifest full_handle = handle_manifest demo_handle" by (simp add: full_handle_def demo_handle_def)
  have has: "Has (vh_store full_handle) i j" for i j by (simp add: full_handle_def demo_handle_def Has_def)
  obtain m x where m: "hl_status ?h = Some m" "xm_config m = demo_embedding 2" "xs_State (xm_status m) = ''ACTION_REQUIRED''"
      "x \<in> set (xs_Incidents (xm_status m))" "xn_IncidentID x = demo_incident"
    by (simp add: demo_health_def InitializeStatus_def newStatusManager_def assessSystemStatus_def VectorStatus_def VectorStatus_maps_def
      health_demo_env_def demo_io_def Let_def live_eligible manifest_status_def demo_manifest modelIdentityMismatch_def active_model_def
      configured_model_def demo_embedding_def sync_side_def newIncident_def demo_incident_def demo_vectors_def g)
  have cur: "\<forall>row \<in> set (fst (hi_before ?io)). vector_eligible row \<longrightarrow>
      current_in (ve_sha (hv_vectors health_demo_env)) (snd (hi_before ?io)) (embeddingModelName demo_provider) (embeddingModelDigest demo_provider) row"
    by (simp add: demo_io_def current_in_def model_current_def g demo_manifest has embeddingModelName_def embeddingModelDigest_def demo_provider_def)
  have side: "vx_store (hl_side ?h) = Some full_handle" "vx_issue (hl_side ?h) = ''''"
    by (simp_all add: demo_health_def InitializeStatus_def Let_def sync_side_def)
  have "\<exists>h' st summary. adminVectorRebuild health_demo_env health_sv ''admin'' (Some \<lparr>rr_IncidentID = xn_IncidentID x, rr_Confirm = True\<rparr>) False ?io ?h =
      (h', Inr (st, summary)) \<and> sy_Embedded summary = 0 \<and> hl_side h' = hl_side ?h \<and> hl_blocked h' \<and>
      xs_State st = SystemActionRequired \<and> xs_Embeddings st = ''MODEL_MISMATCH'' \<and> xs_MCP st = ''QUARANTINED''"
    by (rule dimension_change_stuck [OF _ demo_contract cur m(1,3,4) _ side])
      (simp_all add: m(2,5) g demo_manifest demo_embedding_def health_demo_env_def demo_incident_def adminAuthorized_def health_sv_def)
  then show ?thesis by (auto simp: m(5))
qed

end
