(* ===== verification/Client_Text.thy ===== *)
theory Client_Text
  imports Go_Hash Settings
begin

text \<open>
  What the clients of the daemon (\<open>internal/command\<close>, \<open>internal/mcpserver\<close>) use of Go's library: command line flags
  (\<open>package flag\<close>), the escapes of \<open>net/url\<close> and JSON values; with the request a client sends and the answer
  it gets.  An escaped segment reads back as the text it was made of and cannot hold a character that delimits a URL.
\<close>

section \<open>Flags\<close>

datatype flag_value = Flag_Bool bool | Flag_Int int | Flag_String go_string

text \<open>\<open>strconv.ParseInt(s, 0, 64)\<close>: the base is in the prefix, and underscores may separate digits.\<close>

definition digit_value :: "char \<Rightarrow> nat" where
  "digit_value c = (let b = of_char c in
     if 48 \<le> b \<and> b \<le> 57 then b - 48 else if 97 \<le> b \<and> b \<le> 122 then b - 87 else if 65 \<le> b \<and> b \<le> 90 then b - 55 else 99)"

definition int_base :: "go_string \<Rightarrow> nat \<times> go_string" where
  "int_base s =
     (if take 1 s \<noteq> ''0'' then (10, s)
      else if length s \<ge> 3 \<and> take 1 (drop 1 s) \<in> {''b'', ''B''} then (2, drop 2 s)
      else if length s \<ge> 3 \<and> take 1 (drop 1 s) \<in> {''o'', ''O''} then (8, drop 2 s)
      else if length s \<ge> 3 \<and> take 1 (drop 1 s) \<in> {''x'', ''X''} then (16, drop 2 s)
      else (8, drop 1 s))"

text \<open>Underscores follow a digit or the prefix, and a digit follows them; the flag says whether one may come next.\<close>

fun underscores_ok :: "bool \<Rightarrow> go_string \<Rightarrow> bool" where
  "underscores_ok allowed [] = True"
| "underscores_ok allowed (c # cs) =
     (if c = CHR 0x5F then allowed \<and> cs \<noteq> [] \<and> underscores_ok False cs else underscores_ok True cs)"

definition parse_int0 :: "go_string \<Rightarrow> int option" where
  "parse_int0 s =
     (let negative = (take 1 s = ''-''); body = (if take 1 s \<in> {''-'', ''+''} then drop 1 s else s) in
      if body = '''' then None
      else case int_base body of (base, ds) \<Rightarrow>
        (let digits = filter (\<lambda>c. c \<noteq> CHR 0x5F) ds;
             n = int (foldl (\<lambda>n c. n * base + digit_value c) 0 digits); v = (if negative then - n else n) in
         if \<not> list_all (\<lambda>c. digit_value c < base) digits \<or> \<not> underscores_ok (base \<noteq> 10) ds \<or>
            v < - (2 ^ 63) \<or> v > 2 ^ 63 - 1
         then None else Some v))"

definition parse_bool :: "go_string \<Rightarrow> bool option" where
  "parse_bool s =
     (if s \<in> {''1'', ''t'', ''T'', ''true'', ''TRUE'', ''True''} then Some True
      else if s \<in> {''0'', ''f'', ''F'', ''false'', ''FALSE'', ''False''} then Some False else None)"

fun flag_set :: "flag_value \<Rightarrow> go_string \<Rightarrow> flag_value option" where
  "flag_set (Flag_Bool _) s = map_option Flag_Bool (parse_bool s)"
| "flag_set (Flag_Int _) s = map_option Flag_Int (parse_int0 s)"
| "flag_set (Flag_String _) s = Some (Flag_String s)"

text \<open>\<open>FlagSet.Parse\<close>: the declared flags with their values and the arguments left; \<open>None\<close> for an error, which
  is also what a request for help is.\<close>

type_synonym flag_values = "go_string \<Rightarrow> flag_value option"

definition cut_equals :: "go_string \<Rightarrow> go_string \<times> go_string option" where
  "cut_equals name = (case index_of name ''='' of None \<Rightarrow> (name, None) | Some i \<Rightarrow> (take i name, Some (drop (i + 1) name)))"

fun flag_parse :: "flag_values \<Rightarrow> go_string list \<Rightarrow> (flag_values \<times> go_string list) option" where
  "flag_parse fs [] = Some (fs, [])"
| "flag_parse fs (s # args) =
     (if length s < 2 \<or> take 1 s \<noteq> ''-'' then Some (fs, s # args)
      else if s = ''--'' then Some (fs, args)
      else
        (let name = (if take 2 s = ''--'' then drop 2 s else drop 1 s) in
         if take 1 name \<in> {''-'', ''=''} then None
         else case cut_equals name of (key, supplied) \<Rightarrow>
           (case fs key of
              None \<Rightarrow> None
            | Some (Flag_Bool b) \<Rightarrow>
                (case flag_set (Flag_Bool b) (case supplied of None \<Rightarrow> ''true'' | Some v \<Rightarrow> v) of
                   None \<Rightarrow> None | Some v \<Rightarrow> flag_parse (fs(key \<mapsto> v)) args)
            | Some d \<Rightarrow>
                (case supplied of
                   Some v \<Rightarrow> (case flag_set d v of None \<Rightarrow> None | Some v \<Rightarrow> flag_parse (fs(key \<mapsto> v)) args)
                 | None \<Rightarrow>
                     (case args of
                        [] \<Rightarrow> None
                      | v # rest \<Rightarrow> (case flag_set d v of None \<Rightarrow> None | Some v \<Rightarrow> flag_parse (fs(key \<mapsto> v)) rest))))))"

definition flag_string :: "flag_values \<Rightarrow> go_string \<Rightarrow> go_string" where
  "flag_string fs key = (case fs key of Some (Flag_String s) \<Rightarrow> s | _ \<Rightarrow> '''')"

definition flag_int :: "flag_values \<Rightarrow> go_string \<Rightarrow> int" where
  "flag_int fs key = (case fs key of Some (Flag_Int n) \<Rightarrow> n | _ \<Rightarrow> 0)"

definition flag_bool :: "flag_values \<Rightarrow> go_string \<Rightarrow> bool" where
  "flag_bool fs key = (fs key = Some (Flag_Bool True))"

section \<open>Escapes\<close>

definition is_alnum :: "char \<Rightarrow> bool" where
  "is_alnum c = (let b = of_char c :: nat in 48 \<le> b \<and> b \<le> 57 \<or> 65 \<le> b \<and> b \<le> 90 \<or> 97 \<le> b \<and> b \<le> 122)"

definition upper_hex :: "nat \<Rightarrow> char" where
  "upper_hex n = char_of (if n < 10 then 48 + n else 55 + n)"

definition percent :: "char \<Rightarrow> go_string" where
  "percent c = [CHR 0x25, upper_hex (of_char c div 16), upper_hex (of_char c mod 16)]"

definition plain_in_path :: "char \<Rightarrow> bool" where
  "plain_in_path c \<longleftrightarrow> is_alnum c \<or> c \<in> set ''-_.~$&+:=@''"

definition path_escape :: "go_string \<Rightarrow> go_string" where
  "path_escape s = concat (map (\<lambda>c. if plain_in_path c then [c] else percent c) s)"

definition plain_in_query :: "char \<Rightarrow> bool" where
  "plain_in_query c \<longleftrightarrow> is_alnum c \<or> c \<in> set ''-_.~''"

definition query_escape :: "go_string \<Rightarrow> go_string" where
  "query_escape s = concat (map (\<lambda>c. if plain_in_query c then [c] else if c = CHR 0x20 then ''+'' else percent c) s)"

text \<open>What the router of the daemon makes of a segment of the path, and of a value of the query.\<close>

fun unescape :: "bool \<Rightarrow> go_string \<Rightarrow> go_string option" where
  "unescape query [] = Some []"
| "unescape query (c # cs) =
     (if c = CHR 0x25
      then case cs of
        h # l # rest \<Rightarrow>
          if digit_value h < 16 \<and> digit_value l < 16
          then map_option (Cons (char_of (16 * digit_value h + digit_value l))) (unescape query rest) else None
      | _ \<Rightarrow> None
      else map_option (Cons (if query \<and> c = CHR 0x2B then CHR 0x20 else c)) (unescape query cs))"

text \<open>\<open>url.Values.Encode\<close>: the pairs in the order of their keys.\<close>

fun encode_pairs :: "(go_string \<times> go_string) list \<Rightarrow> go_string" where
  "encode_pairs [] = ''''"
| "encode_pairs [(k, v)] = query_escape k @ ''='' @ query_escape v"
| "encode_pairs ((k, v) # p # ps) = query_escape k @ ''='' @ query_escape v @ ''&'' @ encode_pairs (p # ps)"

section \<open>JSON values and requests\<close>

datatype jval = JNull | JBool bool | JNumber go_string | JString go_string | JArray "jval list" | JObject "(go_string \<times> jval) list"

definition jint :: "int \<Rightarrow> jval" where
  "jint n = JNumber (itoa n)"

text \<open>A field of an object; decoding keeps the last of several.\<close>

definition jfield :: "jval \<Rightarrow> go_string \<Rightarrow> jval option" where
  "jfield v key = (case v of JObject fs \<Rightarrow> map_of (rev fs) key | _ \<Rightarrow> None)"

definition jtext :: "jval option \<Rightarrow> go_string" where
  "jtext v = (case v of Some (JString s) \<Rightarrow> s | _ \<Rightarrow> '''')"

datatype credential = Bearer go_string | Admin_Token go_string

record client_request =
  xr_Method :: go_string
  xr_URL :: go_string
  xr_Credential :: credential
  xr_Body :: "jval option"

lemma hex_digits: "n < 16 \<Longrightarrow> digit_value (upper_hex n) = n"
  by (auto simp: digit_value_def upper_hex_def Let_def)

lemma nibbles: "of_char c div 16 < (16 :: nat)" "of_char c mod 16 < (16 :: nat)"
  using nat_of_char_less_256 [of c] by linarith+

lemma byte_split: "char_of (16 * (of_char c div 16) + of_char c mod 16 :: nat) = (c :: char)"
  by simp

lemma percent_unescape: "unescape query (percent c @ s) = map_option (Cons c) (unescape query s)"
  by (simp add: percent_def hex_digits nibbles byte_split)

lemma plain_unescape: "plain_in_path c \<Longrightarrow> unescape False (c # s) = map_option (Cons c) (unescape False s)"
  by (auto simp: plain_in_path_def is_alnum_def)

lemma plain_query_unescape: "plain_in_query c \<Longrightarrow> unescape True (c # s) = map_option (Cons c) (unescape True s)"
  by (auto simp: plain_in_query_def is_alnum_def)

lemma path_escape_round: "unescape False (path_escape s) = Some s"
proof (induction s)
  case (Cons c s)
  then show ?case
    using percent_unescape [of False c "path_escape s"] plain_unescape [of c "path_escape s"] by (simp add: path_escape_def)
qed (simp add: path_escape_def)

lemma query_escape_round: "unescape True (query_escape s) = Some s"
proof (induction s)
  case (Cons c s)
  then show ?case
    using percent_unescape [of True c "query_escape s"] plain_query_unescape [of c "query_escape s"] by (simp add: query_escape_def)
qed (simp add: query_escape_def)

lemma percent_plain: "d \<in> set (percent c) \<Longrightarrow> d = CHR 0x25 \<or> is_alnum d"
proof -
  have "is_alnum (upper_hex n)" if "n < 16" for n using that by (auto simp: is_alnum_def upper_hex_def Let_def)
  then show "d \<in> set (percent c) \<Longrightarrow> d = CHR 0x25 \<or> is_alnum d" using nibbles [of c] by (auto simp: percent_def)
qed

lemma path_escape_chars: "d \<in> set (path_escape s) \<Longrightarrow> d = CHR 0x25 \<or> plain_in_path d"
  using percent_plain by (fastforce simp: path_escape_def plain_in_path_def split: if_splits)

lemma query_escape_chars: "d \<in> set (query_escape s) \<Longrightarrow> d = CHR 0x25 \<or> d = CHR 0x2B \<or> plain_in_query d"
  using percent_plain by (fastforce simp: query_escape_def plain_in_query_def split: if_splits)

lemma not_delimiter: "\<not> plain_in_path (CHR 0x2F)" "\<not> plain_in_path (CHR 0x3F)" "\<not> plain_in_path (CHR 0x23)"
    "\<not> plain_in_query (CHR 0x26)" "\<not> plain_in_query (CHR 0x3D)" "\<not> plain_in_query (CHR 0x23)" "\<not> plain_in_query (CHR 0x2F)" "\<not> plain_in_query (CHR 0x3F)"
  by (simp_all add: plain_in_path_def plain_in_query_def is_alnum_def)

lemma path_escape_no_delimiter: "CHR 0x2F \<notin> set (path_escape s)" "CHR 0x3F \<notin> set (path_escape s)" "CHR 0x23 \<notin> set (path_escape s)"
  using path_escape_chars [of "CHR 0x2F" s] path_escape_chars [of "CHR 0x3F" s] path_escape_chars [of "CHR 0x23" s] not_delimiter by auto

section \<open>The query of a URL\<close>

text \<open>\<open>url.Parse\<close> and \<open>URL.Query\<close> as the daemon uses them: the path up to the first question mark, and of the
  rest the pairs that decode; \<open>Get\<close> takes the first value.\<close>

definition url_path :: "go_string \<Rightarrow> go_string" where
  "url_path url = takeWhile (\<lambda>c. c \<noteq> CHR 0x3F) url"

definition url_query :: "go_string \<Rightarrow> go_string" where
  "url_query url = drop 1 (dropWhile (\<lambda>c. c \<noteq> CHR 0x3F) url)"

fun split_amp :: "go_string \<Rightarrow> go_string list" where
  "split_amp [] = [[]]"
| "split_amp (c # cs) =
     (if c = CHR 0x26 then [] # split_amp cs
      else case split_amp cs of l # ls \<Rightarrow> (c # l) # ls | [] \<Rightarrow> [[c]])"

definition query_pair :: "go_string \<Rightarrow> (go_string \<times> go_string) option" where
  "query_pair piece =
     (if piece = '''' \<or> CHR 0x3B \<in> set piece then None
      else case cut_equals piece of (k, v) \<Rightarrow>
        (case (unescape True k, unescape True (case v of None \<Rightarrow> '''' | Some v \<Rightarrow> v)) of
           (Some k, Some v) \<Rightarrow> Some (k, v) | _ \<Rightarrow> None))"

definition query_get :: "go_string \<Rightarrow> go_string \<Rightarrow> go_string" where
  "query_get query key = (case map_of (List.map_filter query_pair (split_amp query)) key of None \<Rightarrow> '''' | Some v \<Rightarrow> v)"

lemma split_amp_ne [simp]: "split_amp s \<noteq> []"
  by (induction s) (auto split: list.split)

lemma split_amp_append: "CHR 0x26 \<notin> set s \<Longrightarrow> split_amp (s @ CHR 0x26 # t) = s # split_amp t"
  by (induction s) auto

lemma split_amp_flat: "CHR 0x26 \<notin> set s \<Longrightarrow> split_amp s = [s]"
  by (induction s) auto

lemma query_escape_no_delimiter: "CHR 0x26 \<notin> set (query_escape s)" "CHR 0x3B \<notin> set (query_escape s)" "CHR 0x3F \<notin> set (query_escape s)"
proof -
  have "\<not> plain_in_query (CHR 0x3B)" by (simp add: plain_in_query_def is_alnum_def)
  then show "CHR 0x26 \<notin> set (query_escape s)" "CHR 0x3B \<notin> set (query_escape s)" "CHR 0x3F \<notin> set (query_escape s)"
    using query_escape_chars [of "CHR 0x26" s] query_escape_chars [of "CHR 0x3B" s] query_escape_chars [of "CHR 0x3F" s] not_delimiter by auto
qed

lemma query_pair_escaped:
  assumes key: "CHR 0x3D \<notin> set key" "CHR 0x3B \<notin> set key" "unescape True key = Some k"
  shows "query_pair (key @ CHR 0x3D # query_escape v) = Some (k, v)"
proof -
  have idx: "index_of (key @ CHR 0x3D # query_escape v) [CHR 0x3D] = Some (length key)"
    using key(1) by (induction key) (auto simp: index_of.simps)
  then have "cut_equals (key @ CHR 0x3D # query_escape v) = (key, Some (query_escape v))" by (simp add: cut_equals_def)
  then show ?thesis using key query_escape_no_delimiter by (simp add: query_pair_def query_escape_round)
qed

end
