(* ===== verification/Operator_Cli.thy ===== *)
theory Operator_Cli
  imports Native_Hook Provider Message_Journal
begin

text \<open>
  The operator tool of \<open>internal/command/command.go\<close> and \<open>retrieval.go\<close>: from the arguments of \<open>mindmoryctl\<close> to
  the request at the daemon and the exit status.  The daemon, the files of a data directory and the environment are
  parameters.  An identifier on the command line stays one segment of the path.
\<close>

section \<open>Requests\<close>

record retrieval_operation =
  ro_method :: go_string
  ro_path :: go_string
  ro_body :: "jval option"

fun parse_options :: "(go_string \<Rightarrow> go_string option) \<Rightarrow> go_string list \<Rightarrow> (go_string \<Rightarrow> go_string option) option" where
  "parse_options opts [] = Some opts"
| "parse_options opts [_] = None"
| "parse_options opts (k # v # args) =
     (if length k < 3 \<or> take 2 k \<noteq> ''--'' then None else parse_options (opts(drop 2 k \<mapsto> v)) args)"

definition retrieval_post :: "go_string \<Rightarrow> (go_string \<times> jval) list \<Rightarrow> retrieval_operation option" where
  "retrieval_post path fs = Some \<lparr>ro_method = ''POST'', ro_path = path, ro_body = Some (JObject fs)\<rparr>"

definition retrieval_get :: "go_string \<Rightarrow> retrieval_operation option" where
  "retrieval_get path = Some \<lparr>ro_method = ''GET'', ro_path = path, ro_body = None\<rparr>"

definition retrieval_for :: "go_string \<Rightarrow> (go_string \<Rightarrow> go_string) \<Rightarrow> retrieval_operation option" where
  "retrieval_for verb opt =
     (let session = (''session_id'', JString (opt ''session'')); query = (''query'', JString (opt ''query''));
          limit = (''limit'', jint (atoi_value (opt ''limit''))); maxChars = atoi_value (opt ''max-chars'') in
      if verb = ''context search''
      then (if opt ''query'' = '''' then None else retrieval_post ''/v1/context/search'' [session, query, limit])
      else if verb = ''context packet'' then retrieval_post ''/v1/context/packet'' [session, query, (''max_chars'', jint maxChars)]
      else if verb = ''memory recall''
      then (if opt ''id'' = '''' then None
        else retrieval_get (''/v1/context/memories/'' @ path_escape (opt ''id'') @ ''?session_id='' @ query_escape (opt ''session'')))
      else if verb = ''artifact search''
      then (if opt ''query'' = '''' then None else retrieval_post ''/v1/context/artifacts/search'' [session, query, limit])
      else if verb = ''artifact read''
      then (if opt ''id'' = '''' then None
        else retrieval_get (''/v1/context/artifacts/'' @ path_escape (opt ''id'') @ ''/read?session_id='' @ query_escape (opt ''session'') @
          ''&max_chars='' @ itoa maxChars))
      else if verb = ''continuity diff'' then retrieval_post ''/v1/context/diff'' [session, (''cursor'', JString (opt ''cursor'')), limit]
      else if verb = ''memory feedback''
      then (if opt ''id'' = '''' \<or> opt ''outcome'' = '''' \<or> opt ''outcome'' \<noteq> ''helped'' \<and> opt ''outcome'' \<noteq> ''misled'' then None
        else retrieval_post ''/v1/context/feedback''
          [session, (''memory_id'', JString (opt ''id'')), (''outcome'', JString (opt ''outcome'')), (''note'', JString (opt ''note''))])
      else None)"

definition retrievalCommand :: "go_string list \<Rightarrow> retrieval_operation option" where
  "retrievalCommand args =
     (case args of
        kind # action # rest \<Rightarrow>
          (case parse_options Map.empty rest of
             None \<Rightarrow> None
           | Some opts \<Rightarrow>
               (let opt = (\<lambda>k. case opts k of None \<Rightarrow> '''' | Some v \<Rightarrow> v) in
                if opt ''session'' = '''' then None else retrieval_for (kind @ '' '' @ action) opt))
      | _ \<Rightarrow> None)"

definition retrieval_request :: "retrieval_operation \<Rightarrow> go_string \<Rightarrow> go_string \<Rightarrow> client_request" where
  "retrieval_request op endpoint token =
     \<lparr>xr_Method = ro_method op, xr_URL = endpoint @ ro_path op, xr_Credential = Bearer token, xr_Body = ro_body op\<rparr>"

definition adminOperation :: "go_string list \<Rightarrow> (go_string \<times> go_string) option" where
  "adminOperation args =
     (if args = [''ops''] then Some (''GET'', ''/v1/admin/ops'')
      else if args = [''proposals''] then Some (''GET'', ''/v1/admin/proposals'')
      else if args = [''snapshot''] then Some (''POST'', ''/v1/admin/snapshot'')
      else if args = [''learner'', ''extract''] then Some (''POST'', ''/v1/admin/learner/extract'')
      else case args of
        [noun, verb, ident] \<Rightarrow>
          if noun = ''proposal'' \<and> (verb = ''approve'' \<or> verb = ''reject'')
          then Some (''POST'', ''/v1/admin/proposals/'' @ path_escape ident @ ''/'' @ verb)
          else if noun = ''memory'' \<and> verb = ''retire'' then Some (''POST'', ''/v1/admin/memories/'' @ path_escape ident @ ''/retire'')
          else None
      | _ \<Rightarrow> None)"

section \<open>Running a command\<close>

datatype cli_output =
    Silent
  | Body_Printed go_string
  | Body_Failed go_string
  | Hook_Printed hook_output
  | Version_Printed go_string
  | Config_Valid
  | Report_Printed integrity_report
  | Certification_Printed certification_report

record cli_env =
  xo_Hook :: hook_env
  xo_Input :: "hook_input option"
  xo_Settings :: settings_env
  xo_Lookup :: lookup
  xo_Store :: env
  xo_Files :: "go_string \<Rightarrow> go_string \<times> go_string \<times> (go_string \<times> go_string) list"
  xo_Provider :: "embed_request \<Rightarrow> embed_reply"
  xo_Daemon :: "client_request \<Rightarrow> (int \<times> go_string) option"

definition cli_send :: "cli_env \<Rightarrow> client_request \<Rightarrow> nat \<times> cli_output" where
  "cli_send env request =
     (case xo_Daemon env request of
        None \<Rightarrow> (1, Silent)
      | Some (code, body) \<Rightarrow> if success_status code then (0, Body_Printed body) else (1, Body_Failed body))"

definition admin_request :: "client_config \<Rightarrow> go_string \<Rightarrow> go_string \<Rightarrow> jval option \<Rightarrow> client_request" where
  "admin_request cfg verb path body =
     \<lparr>xr_Method = verb, xr_URL = trim_right_slash (cf_Endpoint cfg) @ path, xr_Credential = Admin_Token (cf_Token cfg), xr_Body = body\<rparr>"

text \<open>The request of \<open>vectors status\<close> and \<open>vectors rebuild\<close>.\<close>

definition vector_request :: "go_string list \<Rightarrow> (go_string \<times> go_string \<times> jval option) option" where
  "vector_request arguments =
     (case arguments of
        [] \<Rightarrow> None
      | verb # rest \<Rightarrow>
          if verb = ''status'' then (if rest = [] then Some (''GET'', ''/v1/system/status'', None) else None)
          else if verb = ''rebuild''
          then (case flag_parse [''incident-id'' \<mapsto> Flag_String '''', ''confirm'' \<mapsto> Flag_Bool False] rest of
              None \<Rightarrow> None
            | Some (f, left) \<Rightarrow>
                if left \<noteq> [] \<or> flag_string f ''incident-id'' = '''' \<or> \<not> flag_bool f ''confirm'' then None
                else Some (''POST'', ''/v1/admin/vectors/rebuild'',
                  Some (JObject [(''confirm'', JBool True), (''incident_id'', JString (flag_string f ''incident-id''))])))
          else None)"

definition runVectorCommand :: "cli_env \<Rightarrow> go_string list \<Rightarrow> nat \<times> cli_output" where
  "runVectorCommand env arguments =
     (if arguments = [] then (2, Silent)
      else case LoadCLI (xo_Settings env) (xo_Lookup env) of
        Inl _ \<Rightarrow> (2, Silent)
      | Inr cfg \<Rightarrow>
          (case vector_request arguments of
             None \<Rightarrow> (2, Silent)
           | Some (verb, path, body) \<Rightarrow> cli_send env (admin_request cfg verb path body)))"

definition runIntegrityVerify :: "cli_env \<Rightarrow> go_string list \<Rightarrow> nat \<times> cli_output" where
  "runIntegrityVerify env arguments =
     (case flag_parse [''data-dir'' \<mapsto> Flag_String ''var/data''] arguments of
        None \<Rightarrow> (2, Silent)
      | Some (f, left) \<Rightarrow>
          if left \<noteq> [] then (2, Silent)
          else case xo_Files env (flag_string f ''data-dir'') of (rotationsRaw, eventRaw, files) \<Rightarrow>
            (case VerifyDataDir (xo_Store env) rotationsRaw eventRaw files
                (case xo_Lookup env ''MINDMORY_CURSOR_SIGNING_KEY'' of None \<Rightarrow> '''' | Some key \<Rightarrow> key) of
               Inl _ \<Rightarrow> (1, Silent) | Inr report \<Rightarrow> (0, Report_Printed report)))"

definition runProviderCommand :: "cli_env \<Rightarrow> go_string list \<Rightarrow> nat \<times> cli_output" where
  "runProviderCommand env arguments =
     (if arguments = [] \<or> hd arguments \<noteq> ''certify'' then (2, Silent)
      else case flag_parse [''probe'' \<mapsto> Flag_Bool False] (tl arguments) of
        None \<Rightarrow> (2, Silent)
      | Some (f, left) \<Rightarrow>
          if left \<noteq> [] then (2, Silent)
          else case LoadEnv (xo_Settings env) (xo_Lookup env) of
            Inl _ \<Rightarrow> (2, Silent)
          | Inr cfg \<Rightarrow>
              (case NewConfiguredEmbedder (\<lambda>url. map_option up_Hostname (sx_parse (xo_Settings env) url)) (sx_loopback (xo_Settings env))
                  (xo_Provider env) (ec_Embedding cfg) of
                 Inl _ \<Rightarrow> (1, Silent)
               | Inr embedder \<Rightarrow>
                   (let report = CertifyEmbeddingProvider embedder (flag_bool f ''probe'') in
                    (if cn_Passed report then 0 else 1, Certification_Printed report))))"

definition run_operation :: "cli_env \<Rightarrow> go_string list \<Rightarrow> nat \<times> cli_output" where
  "run_operation env args =
     (case retrievalCommand args of
        Some operation \<Rightarrow>
          (case LoadBridge (xo_Settings env) (xo_Lookup env) of
             Inl _ \<Rightarrow> (2, Silent)
           | Inr cfg \<Rightarrow> cli_send env (retrieval_request operation (trim_right_slash (cf_Endpoint cfg)) (cf_Token cfg)))
      | None \<Rightarrow>
          (case adminOperation args of
             None \<Rightarrow> (2, Silent)
           | Some (verb, path) \<Rightarrow>
               (case LoadCLI (xo_Settings env) (xo_Lookup env) of
                  Inl _ \<Rightarrow> (2, Silent)
                | Inr cfg \<Rightarrow> cli_send env (admin_request cfg verb path None))))"

definition cli_Run :: "cli_env \<Rightarrow> go_string \<Rightarrow> go_string \<Rightarrow> go_string list \<Rightarrow> nat \<times> cli_output" where
  "cli_Run env name version arguments =
     (let verb = take 1 arguments; rest = drop 1 arguments in
      if verb = [''native-hook'']
      then (case runNativeHook (xo_Hook env) (xo_Settings env) (xo_Lookup env) rest (xo_Input env) of
          (code, out) \<Rightarrow> (code, case out of None \<Rightarrow> Silent | Some text \<Rightarrow> Hook_Printed text))
      else if verb = [''checkpoint-hook'']
      then (runCheckpointHook (xo_Hook env) (xo_Settings env) (xo_Lookup env) rest (xo_Input env), Silent)
      else if verb = [''verify''] then runIntegrityVerify env rest
      else if verb = [''vectors''] then runVectorCommand env rest
      else if verb = [''providers''] then runProviderCommand env rest
      else case flag_parse [''version'' \<mapsto> Flag_Bool False, ''check-config'' \<mapsto> Flag_Bool False] arguments of
        None \<Rightarrow> (2, Silent)
      | Some (f, left) \<Rightarrow>
          if flag_bool f ''version'' then (0, Version_Printed (name @ '' '' @ version))
          else if flag_bool f ''check-config''
          then (case LoadCLI (xo_Settings env) (xo_Lookup env) of Inl _ \<Rightarrow> (2, Silent) | Inr _ \<Rightarrow> (0, Config_Valid))
          else run_operation env left)"

section \<open>An identifier stays a segment\<close>

lemma split_slash_flat: "CHR 0x2F \<notin> set s \<Longrightarrow> split_slash s = [s]"
  by (induction s rule: split_slash.induct) (auto split: if_splits)

lemma split_slash_append: "CHR 0x2F \<notin> set s \<Longrightarrow> split_slash (s @ CHR 0x2F # t) = s # split_slash t"
  by (induction s) auto

lemma split_segment: "split_slash (path_escape ident @ CHR 0x2F # t) = path_escape ident # split_slash t"
  by (rule split_slash_append [OF path_escape_no_delimiter(1)])

lemma admin_segments:
  "split_slash (''/v1/admin/'' @ t) = ['''', ''v1'', ''admin''] @ split_slash t"
  "split_slash (''/v1/context/'' @ t) = ['''', ''v1'', ''context''] @ split_slash t"
  "split_slash (''memories/'' @ t) = ''memories'' # split_slash t" "split_slash (''proposals/'' @ t) = ''proposals'' # split_slash t"
  using split_slash_append [of "''v1''" "''admin/'' @ t"] split_slash_append [of "''admin''" t]
    split_slash_append [of "''v1''" "''context/'' @ t"] split_slash_append [of "''context''" t]
    split_slash_append [of "''memories''" t] split_slash_append [of "''proposals''" t]
  by simp_all

lemma retire_path:
  "map (unescape False) (split_slash (''/v1/admin/memories/'' @ path_escape ident @ ''/retire'')) =
     map Some ['''', ''v1'', ''admin'', ''memories'', ident, ''retire'']"
proof -
  have nested: "''/v1/admin/memories/'' @ path_escape ident @ ''/retire'' = ''/v1/admin/'' @ ''memories/'' @ path_escape ident @ CHR 0x2F # ''retire''"
    by simp
  have flat: "split_slash ''retire'' = [''retire'']" by (rule split_slash_flat) simp
  show ?thesis unfolding nested admin_segments split_segment flat by (simp add: path_escape_round)
qed

lemma approve_path:
  "map (unescape False) (split_slash (''/v1/admin/proposals/'' @ path_escape ident @ ''/approve'')) =
     map Some ['''', ''v1'', ''admin'', ''proposals'', ident, ''approve'']"
proof -
  have nested: "''/v1/admin/proposals/'' @ path_escape ident @ ''/approve'' = ''/v1/admin/'' @ ''proposals/'' @ path_escape ident @ CHR 0x2F # ''approve''"
    by simp
  have flat: "split_slash ''approve'' = [''approve'']" by (rule split_slash_flat) simp
  show ?thesis unfolding nested admin_segments split_segment flat by (simp add: path_escape_round)
qed

lemma recall_url:
  "url_path (''/v1/context/memories/'' @ path_escape ident @ ''?session_id='' @ query_escape session) = ''/v1/context/memories/'' @ path_escape ident"
  "query_get (url_query (''/v1/context/memories/'' @ path_escape ident @ ''?session_id='' @ query_escape session)) ''session_id'' = session"
proof -
  let ?head = "''/v1/context/memories/'' @ path_escape ident" and ?query = "''session_id='' @ query_escape session"
  have url: "''/v1/context/memories/'' @ path_escape ident @ ''?session_id='' @ query_escape session = ?head @ CHR 0x3F # ?query" by simp
  have free: "\<forall>c \<in> set ?head. c \<noteq> CHR 0x3F" using path_escape_no_delimiter(2) [of ident] by auto
  show "url_path (''/v1/context/memories/'' @ path_escape ident @ ''?session_id='' @ query_escape session) = ?head"
    unfolding url url_path_def using free by (subst takeWhile_append2) auto
  have query: "url_query (''/v1/context/memories/'' @ path_escape ident @ ''?session_id='' @ query_escape session) = ?query"
    unfolding url url_query_def using free by (subst dropWhile_append2) auto
  have "split_amp ?query = [?query]" using query_escape_no_delimiter(1) by (intro split_amp_flat) simp
  moreover have "query_pair (''session_id'' @ CHR 0x3D # query_escape session) = Some (''session_id'', session)"
    by (rule query_pair_escaped) simp_all
  ultimately show "query_get (url_query (''/v1/context/memories/'' @ path_escape ident @ ''?session_id='' @ query_escape session)) ''session_id'' = session"
    unfolding query query_get_def by (simp add: map_filter_simps)
qed

lemma recall_path_segments:
  "map (unescape False) (split_slash (''/v1/context/memories/'' @ path_escape ident)) = map Some ['''', ''v1'', ''context'', ''memories'', ident]"
proof -
  have nested: "''/v1/context/memories/'' @ path_escape ident = ''/v1/context/'' @ ''memories/'' @ path_escape ident" by simp
  have flat: "split_slash (path_escape ident) = [path_escape ident]" by (rule split_slash_flat [OF path_escape_no_delimiter(1)])
  show ?thesis unfolding nested admin_segments flat by (simp add: path_escape_round)
qed

text \<open>Whatever identifier and session the operator types, the requests to retire and to recall a
  memory and to approve a proposal have that identifier as one segment of the path the daemon routes by, and that session in
  the query.\<close>

theorem operator_ids_are_segments:
  assumes "ident \<noteq> ''''" "session \<noteq> ''''"
  shows "\<exists>retire approve op.
    adminOperation [''memory'', ''retire'', ident] = Some (''POST'', retire) \<and>
    map (unescape False) (split_slash retire) = map Some ['''', ''v1'', ''admin'', ''memories'', ident, ''retire''] \<and>
    adminOperation [''proposal'', ''approve'', ident] = Some (''POST'', approve) \<and>
    map (unescape False) (split_slash approve) = map Some ['''', ''v1'', ''admin'', ''proposals'', ident, ''approve''] \<and>
    retrievalCommand [''memory'', ''recall'', ''--id'', ident, ''--session'', session] = Some op \<and>
    map (unescape False) (split_slash (url_path (ro_path op))) = map Some ['''', ''v1'', ''context'', ''memories'', ident] \<and>
    query_get (url_query (ro_path op)) ''session_id'' = session"
proof -
  let ?path = "''/v1/context/memories/'' @ path_escape ident @ ''?session_id='' @ query_escape session"
  have "adminOperation [''memory'', ''retire'', ident] = Some (''POST'', ''/v1/admin/memories/'' @ path_escape ident @ ''/retire'')"
    "adminOperation [''proposal'', ''approve'', ident] = Some (''POST'', ''/v1/admin/proposals/'' @ path_escape ident @ ''/approve'')"
    by (simp_all add: adminOperation_def)
  moreover have "retrievalCommand [''memory'', ''recall'', ''--id'', ident, ''--session'', session] =
      Some \<lparr>ro_method = ''GET'', ro_path = ?path, ro_body = None\<rparr>"
    using assms by (simp add: retrievalCommand_def retrieval_for_def retrieval_get_def)
  moreover have "ro_path \<lparr>ro_method = ''GET'', ro_path = ?path, ro_body = None\<rparr> = ?path" by simp
  ultimately show ?thesis using retire_path approve_path recall_url recall_path_segments by metis
qed

theorem operator_ids_are_segments_witness:
  "\<exists>retire. adminOperation [''memory'', ''retire'', ''a/../b?x''] = Some (''POST'', retire) \<and>
     map (unescape False) (split_slash retire) = map Some ['''', ''v1'', ''admin'', ''memories'', ''a/../b?x'', ''retire'']"
  using operator_ids_are_segments [of "''a/../b?x''" "''s1''"] by blast

end
