(* ===== verification/Store_Files.thy ===== *)
theory Store_Files
  imports Message_Journal Vector_Sync Store_Example
begin

text \<open>
  The canonical tables of \<open>lite/store.go\<close>: one file of JSON lines per kind of row, read in full at start and rewritten in full, through
  a temporary file, whenever a row changes.  A table is the locale \<open>keyed_table\<close>, interpreted for the sessions, the memories, the
  proposals and the project contexts: what a rewrite leaves on disk loads as the map it was written from.
\<close>

section \<open>Rows and lines\<close>

record row_codecs =
  cd_session :: "session_row \<Rightarrow> go_string"
  cd_unsession :: "go_string \<Rightarrow> session_row option"
  cd_memory :: "memory_row \<Rightarrow> go_string"
  cd_unmemory :: "go_string \<Rightarrow> memory_row option"
  cd_heat :: "go_string \<Rightarrow> real option"
  cd_proposal :: "proposal_record \<Rightarrow> go_string"
  cd_unproposal :: "go_string \<Rightarrow> proposal_record option"
  cd_continuity :: "continuity_row \<Rightarrow> go_string"
  cd_uncontinuity :: "go_string \<Rightarrow> continuity_row option"
  cd_evidence :: "evidence_row \<Rightarrow> go_string"
  cd_unevidence :: "go_string \<Rightarrow> evidence_row option"
  cd_project :: "project_context_row \<Rightarrow> go_string"
  cd_unproject :: "go_string \<Rightarrow> project_context_row option"
  cd_meta :: "int \<Rightarrow> go_string"
  cd_unmeta :: "go_string \<Rightarrow> int option"
  cd_schema :: "int \<Rightarrow> go_string"
  cd_unschema :: "go_string \<Rightarrow> int option"

text \<open>The files of the directory; an empty one stands for one that does not exist.\<close>

record disk =
  dk_sessions :: go_string
  dk_messages :: go_string
  dk_memories :: go_string
  dk_proposals :: go_string
  dk_continuity :: go_string
  dk_evidence :: go_string
  dk_project_context :: go_string
  dk_meta :: go_string
  dk_schema :: go_string

text \<open>The loop of every loader: a line that does not decode fails the start.\<close>

fun load_table :: "go_string \<Rightarrow> (go_string \<Rightarrow> 'r option) \<Rightarrow> ('r \<Rightarrow> 's \<Rightarrow> 's) \<Rightarrow> go_string list \<Rightarrow> 's \<Rightarrow> 's res" where
  "load_table fname dec put [] s = Inr s"
| "load_table fname dec put (l # ls) s =
     (case dec l of None \<Rightarrow> Inl fname | Some r \<Rightarrow> load_table fname dec put ls (put r s))"

text \<open>The rows of a map as lines, in the order of their keys; \<open>ids\<close> lists the keys in ranging order.\<close>

definition dump_table :: "('r \<Rightarrow> go_string) \<Rightarrow> (go_string \<Rightarrow> 'r option) \<Rightarrow> go_string list \<Rightarrow> go_string" where
  "dump_table enc m ids = write_lines (map (\<lambda>k. enc (the (m k))) (sort_by bytes_less ids))"

section \<open>Loading\<close>

definition put_session :: "session_row \<Rightarrow> store \<Rightarrow> store" where
  "put_session row s =
     s\<lparr>st_sessions := (st_sessions s)(sr_SessionID row \<mapsto> row),
       st_sessionsExt := (st_sessionsExt s)(ext_key (sr_ClientKey row) (sr_ExternalSessionID row) \<mapsto> sr_SessionID row)\<rparr>"

definition loadSessions :: "row_codecs \<Rightarrow> disk \<Rightarrow> store \<Rightarrow> store res" where
  "loadSessions cd d s = bindE (readJSONL (dk_sessions d)) (\<lambda>ls. load_table ''sessions.jsonl'' (cd_unsession cd) put_session ls s)"

text \<open>\<open>schemaVersion\<close>: a missing or unreadable marker is the first version.\<close>

definition schemaVersion :: "row_codecs \<Rightarrow> disk \<Rightarrow> int" where
  "schemaVersion cd d =
     (case readJSONL (dk_schema d) of
        Inl _ \<Rightarrow> 1
      | Inr ls \<Rightarrow> if ls = [] then 1 else (case cd_unschema cd (last ls) of None \<Rightarrow> 1 | Some v \<Rightarrow> if v \<le> 0 then 1 else v))"

definition put_memory_row :: "row_codecs \<Rightarrow> int \<Rightarrow> go_string \<times> memory_row \<Rightarrow> store \<times> bool \<Rightarrow> store \<times> bool" where
  "put_memory_row cd version = (\<lambda>(line, row) (s, migrated).
     (let row' = migrateMemoryRow row (cd_heat cd line) version in
      (s\<lparr>st_memories := (st_memories s)(mm_MemoryID row' \<mapsto> row')\<rparr>,
       migrated \<or> mm_SchemaVersion row' \<noteq> mm_SchemaVersion row \<or> version < SchemaVersion \<and> mm_SchemaVersion row' = SchemaVersion)))"

text \<open>Rewriting a file: the temporary file is written and synced, renamed over the old one, and the directory synced.\<close>

datatype flush_stop = Unwritten | Unsynced | Unrenamed | Unlisted | Flushed

definition flushKind :: "((go_string \<Rightarrow> go_string) \<Rightarrow> disk \<Rightarrow> disk) \<Rightarrow> go_string \<Rightarrow> flush_stop \<Rightarrow> disk \<Rightarrow> disk \<times> unit res" where
  "flushKind upd content stop d =
     (if stop = Flushed then (upd (\<lambda>_. content) d, Inr ())
      else if stop = Unlisted then (upd (\<lambda>_. content) d, Inl ''fsync directory'')
      else (d, Inl ''write''))"

text \<open>\<open>loadMemories\<close>: the rows are lifted to the current schema, and written back when any of them was older.\<close>

definition loadMemories :: "row_codecs \<Rightarrow> (store \<Rightarrow> go_string list) \<Rightarrow> flush_stop \<Rightarrow> disk \<Rightarrow> store \<Rightarrow> disk \<times> store res" where
  "loadMemories cd ids stop d s =
     (case bindE (readJSONL (dk_memories d)) (\<lambda>ls.
        load_table ''memories.jsonl'' (\<lambda>l. map_option (Pair l) (cd_unmemory cd l)) (put_memory_row cd (schemaVersion cd d)) ls (s, False)) of
        Inl err \<Rightarrow> (d, Inl err)
      | Inr (s, migrated) \<Rightarrow>
          if \<not> migrated then (d, Inr s)
          else case flushKind dk_memories_update (dump_table (cd_memory cd) (st_memories s) (ids s)) stop d of
            (d, Inl err) \<Rightarrow> (d, Inl err) | (d, Inr _) \<Rightarrow> (d, Inr s))"

definition put_proposal :: "proposal_record \<Rightarrow> store \<Rightarrow> store" where
  "put_proposal row s =
     (let p = toProposal row in
      s\<lparr>st_proposals := (st_proposals s)(pr_ID p \<mapsto> p),
        st_proposalsHash := (if pr_RequestHash p \<noteq> '''' then (st_proposalsHash s)(pr_RequestHash p \<mapsto> pr_ID p) else st_proposalsHash s)\<rparr>)"

definition loadProposals :: "row_codecs \<Rightarrow> disk \<Rightarrow> store \<Rightarrow> store res" where
  "loadProposals cd d s = bindE (readJSONL (dk_proposals d)) (\<lambda>ls. load_table ''proposals.jsonl'' (cd_unproposal cd) put_proposal ls s)"

definition loadContinuity :: "row_codecs \<Rightarrow> disk \<Rightarrow> store \<Rightarrow> store res" where
  "loadContinuity cd d s =
     bindE (readJSONL (dk_continuity d)) (\<lambda>ls.
       bindE (load_table ''continuity.jsonl'' (cd_uncontinuity cd) (\<lambda>row s. s\<lparr>st_continuity := st_continuity s @ [row]\<rparr>) ls s) (\<lambda>s.
         Inr (s\<lparr>st_continuity := sort_by (\<lambda>a b. cr_RevisionNumber a < cr_RevisionNumber b) (st_continuity s)\<rparr>)))"

definition bare_evidence :: "evidence_row \<Rightarrow> evidence_row" where
  "bare_evidence row = row\<lparr>er_MessageContent := '''', er_OccurredAt := 0\<rparr>"

definition put_evidence :: "evidence_row \<Rightarrow> store \<Rightarrow> store" where
  "put_evidence row s =
     s\<lparr>st_evidence := (st_evidence s)(er_MemoryID row := st_evidence s (er_MemoryID row) @ [bare_evidence row])\<rparr>"

definition loadEvidence :: "row_codecs \<Rightarrow> disk \<Rightarrow> store \<Rightarrow> store res" where
  "loadEvidence cd d s = bindE (readJSONL (dk_evidence d)) (\<lambda>ls. load_table ''evidence.jsonl'' (cd_unevidence cd) put_evidence ls s)"

definition put_project :: "project_context_row \<Rightarrow> store \<Rightarrow> store" where
  "put_project row s = s\<lparr>st_projectCtx := (st_projectCtx s)(pc_ProjectKey row \<mapsto> row)\<rparr>"

definition loadProjectContext :: "row_codecs \<Rightarrow> disk \<Rightarrow> store \<Rightarrow> store res" where
  "loadProjectContext cd d s =
     bindE (readJSONL (dk_project_context d)) (\<lambda>ls. load_table ''project_context.jsonl'' (cd_unproject cd) put_project ls s)"

text \<open>\<open>loadMeta\<close>: the ordinal of the last session, raised to those of the rows; \<open>sids\<close> lists the sessions in ranging order.\<close>

definition loadMeta :: "row_codecs \<Rightarrow> go_string list \<Rightarrow> disk \<Rightarrow> store \<Rightarrow> store res" where
  "loadMeta cd sids d s =
     bindE (readJSONL (dk_meta d)) (\<lambda>ls.
       if ls = [] then Inr s
       else case cd_unmeta cd (last ls) of
         None \<Rightarrow> Inr s
       | Some n \<Rightarrow>
           Inr (s\<lparr>st_sessionSeq := foldl (\<lambda>n sid. max n (sr_Seq (go_get (st_sessions s) zero_session sid))) n sids\<rparr>))"

text \<open>What ranging over the maps of a store gives, and where the files of the journals and the vectors come in.\<close>

record load_ambient =
  la_Sessions :: "store \<Rightarrow> go_string list"
  la_Messages :: "go_string list"
  la_Memories :: "store \<Rightarrow> go_string list"
  la_Segments :: "(go_string \<times> go_string) list"
  la_Projection :: "projection_row option list option"
  la_Stop :: flush_stop

definition store_load ::
    "env \<Rightarrow> row_codecs \<Rightarrow> load_ambient \<Rightarrow> disk \<Rightarrow> store \<Rightarrow> disk \<times> (store \<times> (go_string \<rightharpoonup> projection_row)) res" where
  "store_load env cd amb d s =
     (case bindE (loadSessions cd d s) (\<lambda>s. loadMessages env s (la_Segments amb) (dk_messages d) (la_Messages amb)) of
        Inl err \<Rightarrow> (d, Inl err)
      | Inr s \<Rightarrow>
          (case loadMemories cd (la_Memories amb) (la_Stop amb) d s of
             (d, Inl err) \<Rightarrow> (d, Inl err)
           | (d, Inr s) \<Rightarrow>
               (d, bindE (loadProposals cd d s) (\<lambda>s. bindE (loadContinuity cd d s) (\<lambda>s. bindE (loadEvidence cd d s) (\<lambda>s.
                     bindE (loadProjectContext cd d s) (\<lambda>s. bindE (loadKeyRotations env s) (\<lambda>s. bindE (loadMutationEvents env s) (\<lambda>s.
                       let rows = loadVectorProjection (st_memories s) (la_Projection amb) Map.empty in
                       bindE (loadMeta cd (la_Sessions amb s) d s) (\<lambda>s. Inr (s, rows)))))))))))"

section \<open>Writing\<close>

definition sessionsJSONL :: "row_codecs \<Rightarrow> store \<Rightarrow> go_string list \<Rightarrow> go_string" where
  "sessionsJSONL cd s ids = dump_table (cd_session cd) (st_sessions s) ids"

definition messagesJSONL :: "env \<Rightarrow> store \<Rightarrow> go_string list \<Rightarrow> go_string" where
  "messagesJSONL env s ids = dump_table (message_json env) (st_messages s) ids"

definition memoriesJSONL :: "row_codecs \<Rightarrow> store \<Rightarrow> go_string list \<Rightarrow> go_string" where
  "memoriesJSONL cd s ids = dump_table (cd_memory cd) (st_memories s) ids"

definition proposalsJSONL :: "row_codecs \<Rightarrow> store \<Rightarrow> go_string list \<Rightarrow> go_string" where
  "proposalsJSONL cd s ids = dump_table (\<lambda>p. cd_proposal cd (proposalRecordFrom p)) (st_proposals s) ids"

definition continuityJSONL :: "row_codecs \<Rightarrow> store \<Rightarrow> go_string" where
  "continuityJSONL cd s = write_lines (map (cd_continuity cd) (st_continuity s))"

definition projectContextJSONL :: "row_codecs \<Rightarrow> store \<Rightarrow> go_string list \<Rightarrow> go_string" where
  "projectContextJSONL cd s ids = dump_table (cd_project cd) (st_projectCtx s) ids"

definition evidenceJSONL :: "row_codecs \<Rightarrow> store \<Rightarrow> go_string list \<Rightarrow> go_string" where
  "evidenceJSONL cd s ids = write_lines (concat (map (\<lambda>k. map (cd_evidence cd) (st_evidence s k)) (sort_by bytes_less ids)))"

text \<open>In low-RAM mode the rows come from the projection, in the order of its queries.\<close>

record projection_listing =
  pl_memories :: "memory_row list"
  pl_messages :: "message_row list"
  pl_evidence :: "evidence_row list"

record ranging =
  rg_sessions :: "go_string list"
  rg_messages :: "go_string list"
  rg_memories :: "go_string list"
  rg_proposals :: "go_string list"
  rg_evidence :: "go_string list"
  rg_projects :: "go_string list"
  rg_projection :: projection_listing

fun flush_steps :: "(((go_string \<Rightarrow> go_string) \<Rightarrow> disk \<Rightarrow> disk) \<times> go_string) list \<Rightarrow> flush_stop list \<Rightarrow> disk \<Rightarrow> disk \<times> unit res" where
  "flush_steps [] stops d = (d, Inr ())"
| "flush_steps ((upd, content) # steps) stops d =
     (case flushKind upd content (case stops of [] \<Rightarrow> Flushed | stop # _ \<Rightarrow> stop) d of
        (d, Inl err) \<Rightarrow> (d, Inl err) | (d, Inr _) \<Rightarrow> flush_steps steps (tl stops) d)"

text \<open>\<open>flushAllLocked\<close>; \<open>stops\<close> says how far each rewrite gets.\<close>

definition flush_plan :: "env \<Rightarrow> row_codecs \<Rightarrow> ranging \<Rightarrow> store \<Rightarrow> (((go_string \<Rightarrow> go_string) \<Rightarrow> disk \<Rightarrow> disk) \<times> go_string) list" where
  "flush_plan env cd rg s =
     [(dk_sessions_update, sessionsJSONL cd s (rg_sessions rg))] @
     (if st_lowRAM s
      then [(dk_messages_update, write_lines (map (message_json env) (pl_messages (rg_projection rg)))),
            (dk_memories_update, write_lines (map (cd_memory cd) (pl_memories (rg_projection rg))))]
      else [(dk_messages_update, messagesJSONL env s (rg_messages rg)), (dk_memories_update, memoriesJSONL cd s (rg_memories rg))]) @
     [(dk_proposals_update, proposalsJSONL cd s (rg_proposals rg)), (dk_continuity_update, continuityJSONL cd s),
      (dk_evidence_update,
        if st_lowRAM s then write_lines (map (\<lambda>row. cd_evidence cd (bare_evidence row)) (pl_evidence (rg_projection rg)))
        else evidenceJSONL cd s (rg_evidence rg)),
      (dk_project_context_update, projectContextJSONL cd s (rg_projects rg))]"

definition flushAll :: "env \<Rightarrow> row_codecs \<Rightarrow> ranging \<Rightarrow> flush_stop list \<Rightarrow> store \<Rightarrow> disk \<Rightarrow> disk \<times> unit res" where
  "flushAll env cd rg stops s d = flush_steps (flush_plan env cd rg s) stops d"

definition persistMeta :: "row_codecs \<Rightarrow> flush_stop \<Rightarrow> store \<Rightarrow> disk \<Rightarrow> disk \<times> unit res" where
  "persistMeta cd stop s d = flushKind dk_meta_update (cd_meta cd (st_sessionSeq s) @ [newline]) stop d"

definition persistSchema :: "row_codecs \<Rightarrow> flush_stop \<Rightarrow> disk \<Rightarrow> disk \<times> unit res" where
  "persistSchema cd stop d = flushKind dk_schema_update (cd_schema cd SchemaVersion @ [newline]) stop d"

text \<open>\<open>FlushAll\<close> and \<open>Close\<close>: the pending accesses first, which rewrite the memories when there are any; \<open>bumped\<close> lists them,
  and \<open>rg\<close> ranges over the store they leave.\<close>

definition FlushAll :: "env \<Rightarrow> row_codecs \<Rightarrow> ranging \<Rightarrow> go_string list \<Rightarrow> flush_stop \<Rightarrow> flush_stop list \<Rightarrow> store \<Rightarrow> disk \<Rightarrow> store \<times> disk \<times> unit res" where
  "FlushAll env cd rg bumped stop stops s d =
     (let s' = flushAccessBumps (env_sha env) s bumped;
          content = (if st_lowRAM s then write_lines (map (cd_memory cd) (pl_memories (rg_projection rg))) else memoriesJSONL cd s' (rg_memories rg)) in
      case (if bumped = [] then (d, Inr ()) else flushKind dk_memories_update content stop d) of
        (d, Inl err) \<Rightarrow> (s', d, Inl err)
      | (d, Inr _) \<Rightarrow> (s', flushAll env cd rg stops s' d))"

text \<open>\<open>flushEvidenceLocked\<close>, and in low-RAM mode the rows of the projection; \<open>InsertMessageEvidence\<close> links a memory to a message,
  and \<open>rg\<close> ranges over the store it leaves.\<close>

definition flush_evidence :: "row_codecs \<Rightarrow> ranging \<Rightarrow> store \<Rightarrow> go_string" where
  "flush_evidence cd rg s =
     (if st_lowRAM s then write_lines (map (\<lambda>row. cd_evidence cd (bare_evidence row)) (pl_evidence (rg_projection rg)))
      else evidenceJSONL cd s (rg_evidence rg))"

definition InsertMessageEvidence :: "row_codecs \<Rightarrow> ranging \<Rightarrow> flush_stop \<Rightarrow> evidence_row \<Rightarrow> store \<Rightarrow> disk \<Rightarrow> store \<times> disk \<times> unit res" where
  "InsertMessageEvidence cd rg stop row s d =
     (let s = (if st_lowRAM s then s
         else s\<lparr>st_evidence := (st_evidence s)(er_MemoryID row := st_evidence s (er_MemoryID row) @ [row])\<rparr>);
          s = s\<lparr>st_Index := UpsertEvidence row (st_Index s)\<rparr> in
      (s, flushKind dk_evidence_update (flush_evidence cd rg s) stop d))"
section \<open>A table loads as it was written\<close>

locale keyed_table =
  fixes enc :: "'r \<Rightarrow> go_string"
    and dec :: "go_string \<Rightarrow> 'r option"
    and key :: "'r \<Rightarrow> go_string"
    and good :: "'r \<Rightarrow> bool"
  assumes codec: "good r \<Longrightarrow> clean_line (enc r) \<and> dec (enc r) = Some r"
begin

lemma load_lines: "list_all good rs \<Longrightarrow> load_table fname dec put (map enc rs) s = Inr (fold put rs s)"
  by (induction rs arbitrary: s) (simp_all add: codec)

lemma read_lines: "list_all good rs \<Longrightarrow> readJSONL (write_lines (map enc rs)) = Inr (map enc rs)"
  by (rule readJSONL_write) (auto simp: list_all_iff codec)

lemma load_dump:
  assumes ids: "set ids = dom m" "distinct ids" and keyed: "\<forall>k r. m k = Some r \<longrightarrow> key r = k \<and> good r"
  shows "\<exists>rs. readJSONL (dump_table enc m ids) = Inr (map enc rs) \<and> list_all good rs \<and> inj_on key (set rs) \<and>
    (\<forall>k r. m k = Some r \<longleftrightarrow> r \<in> set rs \<and> key r = k)"
proof -
  let ?rs = "map (\<lambda>k. the (m k)) (sort_by bytes_less ids)"
  have rows: "r \<in> set ?rs \<longleftrightarrow> m (key r) = Some r" for r
    using keyed ids(1) by (auto simp: image_iff domD) (metis domI domD option.sel)+
  have good: "list_all good ?rs" using rows keyed by (auto simp: list_all_iff)
  have "readJSONL (dump_table enc m ids) = Inr (map enc ?rs)" using read_lines [OF good] by (simp add: dump_table_def comp_def)
  moreover have "inj_on key (set ?rs)" using rows by (intro inj_onI) (metis option.inject)
  moreover have "\<forall>k r. m k = Some r \<longleftrightarrow> r \<in> set ?rs \<and> key r = k" using rows keyed by blast
  ultimately show ?thesis using good by blast
qed

end

definition good_session :: "row_codecs \<Rightarrow> session_row \<Rightarrow> bool" where
  "good_session cd r \<longleftrightarrow> clean_line (cd_session cd r) \<and> cd_unsession cd (cd_session cd r) = Some r"

definition good_memory :: "row_codecs \<Rightarrow> memory_row \<Rightarrow> bool" where
  "good_memory cd r \<longleftrightarrow> clean_line (cd_memory cd r) \<and> cd_unmemory cd (cd_memory cd r) = Some r"

definition good_proposal :: "row_codecs \<Rightarrow> proposal \<Rightarrow> bool" where
  "good_proposal cd p \<longleftrightarrow> clean_line (cd_proposal cd (proposalRecordFrom p)) \<and>
     cd_unproposal cd (cd_proposal cd (proposalRecordFrom p)) = Some (proposalRecordFrom p) \<and> representable p"

definition good_project :: "row_codecs \<Rightarrow> project_context_row \<Rightarrow> bool" where
  "good_project cd r \<longleftrightarrow> clean_line (cd_project cd r) \<and> cd_unproject cd (cd_project cd r) = Some r"

definition good_continuity :: "row_codecs \<Rightarrow> continuity_row \<Rightarrow> bool" where
  "good_continuity cd r \<longleftrightarrow> clean_line (cd_continuity cd r) \<and> cd_uncontinuity cd (cd_continuity cd r) = Some r"

definition good_evidence :: "row_codecs \<Rightarrow> evidence_row \<Rightarrow> bool" where
  "good_evidence cd r \<longleftrightarrow> clean_line (cd_evidence cd r) \<and> cd_unevidence cd (cd_evidence cd r) = Some r"

interpretation session_table: keyed_table "cd_session cd" "cd_unsession cd" sr_SessionID "good_session cd" for cd
  by unfold_locales (simp add: good_session_def)

interpretation memory_table: keyed_table "cd_memory cd" "\<lambda>l. cd_unmemory cd l" mm_MemoryID "good_memory cd" for cd
  by unfold_locales (simp add: good_memory_def)

interpretation proposal_table: keyed_table "\<lambda>p. cd_proposal cd (proposalRecordFrom p)" "\<lambda>l. map_option toProposal (cd_unproposal cd l)"
    pr_ID "good_proposal cd" for cd
  by unfold_locales (simp add: good_proposal_def toProposal_proposalRecordFrom_iff)

interpretation project_table: keyed_table "cd_project cd" "cd_unproject cd" pc_ProjectKey "good_project cd" for cd
  by unfold_locales (simp add: good_project_def)

interpretation continuity_table: keyed_table "cd_continuity cd" "cd_uncontinuity cd" cr_EventID "good_continuity cd" for cd
  by unfold_locales (simp add: good_continuity_def)

interpretation evidence_table: keyed_table "cd_evidence cd" "cd_unevidence cd" er_MemoryID "good_evidence cd" for cd
  by unfold_locales (simp add: good_evidence_def)

text \<open>A map filled from rows whose key decides the value holds exactly the pairs of the rows.\<close>

definition fill :: "('r \<Rightarrow> 'k) \<Rightarrow> ('r \<Rightarrow> 'v) \<Rightarrow> 'r list \<Rightarrow> ('k \<Rightarrow> 'v option)" where
  "fill f g rs = fold (\<lambda>r m. m(f r \<mapsto> g r)) rs Map.empty"

lemma fill_snoc: "fill f g (rs @ [r]) = (fill f g rs)(f r \<mapsto> g r)"
  by (simp add: fill_def)

lemma fill_iff:
  assumes "\<And>r r'. r \<in> set rs \<Longrightarrow> r' \<in> set rs \<Longrightarrow> f r = f r' \<Longrightarrow> g r = g r'"
  shows "fill f g rs k = Some v \<longleftrightarrow> (\<exists>r \<in> set rs. f r = k \<and> g r = v)"
  using assms
proof (induction rs rule: rev_induct)
  case (snoc r rs)
  have "fill f g rs k = Some v \<longleftrightarrow> (\<exists>r \<in> set rs. f r = k \<and> g r = v)"
    by (rule snoc.IH) (use snoc.prems in simp)
  moreover have "r' \<in> set rs \<Longrightarrow> f r' = f r \<Longrightarrow> g r' = g r" for r' using snoc.prems [of r' r] by simp
  ultimately show ?case unfolding fill_snoc by auto
qed (simp add: fill_def)

lemma fill_eq:
  assumes "\<And>r r'. r \<in> set rs \<Longrightarrow> r' \<in> set rs \<Longrightarrow> f r = f r' \<Longrightarrow> g r = g r'"
    and "\<And>k v. m k = Some v \<longleftrightarrow> (\<exists>r \<in> set rs. f r = k \<and> g r = v)"
  shows "fill f g rs = m"
proof
  fix k
  have "fill f g rs k = Some v \<longleftrightarrow> m k = Some v" for v
    unfolding assms(2) by (rule fill_iff) (rule assms(1))
  then show "fill f g rs k = m k" by (metis not_Some_eq)
qed
lemma fold_filter: "fold (\<lambda>r m. if P r then h r m else m) rs m = fold h (filter P rs) m"
  by (induction rs arbitrary: m) simp_all

lemma sort_sorted_id: "sorted_wrt (\<lambda>a b. \<not> lt b a) xs \<Longrightarrow> sort_by lt xs = xs"
proof (induction xs)
  case (Cons x xs)
  then have "sort_by lt xs = xs" by simp
  then have "sort_by lt (x # xs) = insert_by lt x xs" by (simp add: sort_by_def)
  also have "\<dots> = x # xs" using Cons.prems by (cases xs) auto
  finally show ?case .
qed (simp add: sort_by_def)

lemma filter_concat_keyed:
  assumes "distinct ks" "\<And>k r. r \<in> set (f k) \<Longrightarrow> key r = k"
  shows "filter (\<lambda>r. key r = k) (concat (map f ks)) = (if k \<in> set ks then f k else [])"
  using assms(1)
proof (induction ks)
  case (Cons a ks)
  have "filter (\<lambda>r. key r = k) (f a) = (if k = a then f a else [])"
    using assms(2) by (auto intro: filter_True simp: filter_empty_conv)
  then show ?case using Cons by auto
qed simp

section \<open>Flushing and loading\<close>

text \<open>A store as its operations leave it: the maps are keyed by the rows' own identifiers, the two secondary maps are those the rows
  determine, the rows survive their encoding, and the changes are in the order of their revisions.\<close>

definition tidy_sessions :: "row_codecs \<Rightarrow> store \<Rightarrow> bool" where
  "tidy_sessions cd s \<longleftrightarrow>
     (\<forall>k r. st_sessions s k = Some r \<longrightarrow> sr_SessionID r = k \<and> good_session cd r) \<and>
     (\<forall>k sid. st_sessionsExt s k = Some sid \<longleftrightarrow>
        (\<exists>r. st_sessions s sid = Some r \<and> ext_key (sr_ClientKey r) (sr_ExternalSessionID r) = k))"

definition tidy_memories :: "row_codecs \<Rightarrow> store \<Rightarrow> bool" where
  "tidy_memories cd s \<longleftrightarrow>
     (\<forall>k r. st_memories s k = Some r \<longrightarrow> mm_MemoryID r = k \<and> good_memory cd r \<and> mm_SchemaVersion r = SchemaVersion \<and> 0 < mm_StateVersion r)"

definition tidy_proposals :: "row_codecs \<Rightarrow> store \<Rightarrow> bool" where
  "tidy_proposals cd s \<longleftrightarrow>
     (\<forall>k p. st_proposals s k = Some p \<longrightarrow> pr_ID p = k \<and> good_proposal cd p) \<and>
     (\<forall>h k. st_proposalsHash s h = Some k \<longleftrightarrow> (\<exists>p. st_proposals s k = Some p \<and> pr_RequestHash p = h \<and> h \<noteq> ''''))"

definition tidy_rest :: "row_codecs \<Rightarrow> store \<Rightarrow> bool" where
  "tidy_rest cd s \<longleftrightarrow>
     (\<forall>k r. st_projectCtx s k = Some r \<longrightarrow> pc_ProjectKey r = k \<and> good_project cd r) \<and>
     sorted_wrt (\<lambda>a b. \<not> cr_RevisionNumber b < cr_RevisionNumber a) (st_continuity s) \<and> list_all (good_continuity cd) (st_continuity s) \<and>
     (\<forall>k. \<forall>r \<in> set (st_evidence s k). er_MemoryID r = k \<and> bare_evidence r = r \<and> good_evidence cd r)"

definition ranges :: "ranging \<Rightarrow> store \<Rightarrow> bool" where
  "ranges rg s \<longleftrightarrow>
     set (rg_sessions rg) = dom (st_sessions s) \<and> distinct (rg_sessions rg) \<and> set (rg_memories rg) = dom (st_memories s) \<and> distinct (rg_memories rg) \<and>
     set (rg_proposals rg) = dom (st_proposals s) \<and> distinct (rg_proposals rg) \<and>
     set (rg_projects rg) = dom (st_projectCtx s) \<and> distinct (rg_projects rg) \<and>
     {k. st_evidence s k \<noteq> []} \<subseteq> set (rg_evidence rg) \<and> distinct (rg_evidence rg)"

lemma fold_field:
  assumes "\<And>r s. get (put r s) = h r (get s)"
  shows "get (fold put rs s) = fold h rs (get s)"
  by (induction rs arbitrary: s) (simp_all add: assms)

lemma sessions_back:
  assumes tidy: "tidy_sessions cd s" and ids: "set ids = dom (st_sessions s)" "distinct ids"
    and d: "dk_sessions d = sessionsJSONL cd s ids"
  shows "\<exists>s1. loadSessions cd d (empty_store key) = Inr s1 \<and> st_sessions s1 = st_sessions s \<and> st_sessionsExt s1 = st_sessionsExt s"
proof -
  have keyed: "\<forall>k r. st_sessions s k = Some r \<longrightarrow> sr_SessionID r = k \<and> good_session cd r" using tidy unfolding tidy_sessions_def by blast
  obtain rs where rs: "readJSONL (dk_sessions d) = Inr (map (cd_session cd) rs)" "list_all (good_session cd) rs" "inj_on sr_SessionID (set rs)"
      "\<And>k r. st_sessions s k = Some r \<longleftrightarrow> r \<in> set rs \<and> sr_SessionID r = k"
    using session_table.load_dump [OF ids keyed] unfolding d sessionsJSONL_def by blast
  note load = session_table.load_lines [OF rs(2)]
  let ?s1 = "fold put_session rs (empty_store key)" and ?ext = "\<lambda>r. ext_key (sr_ClientKey r) (sr_ExternalSessionID r)"
  have ext: "st_sessionsExt s k = Some sid \<longleftrightarrow> (\<exists>r \<in> set rs. ?ext r = k \<and> sr_SessionID r = sid)" for k sid
    using tidy rs(4) [of sid] unfolding tidy_sessions_def by blast
  have "st_sessions ?s1 = fill sr_SessionID (\<lambda>r. r) rs"
    unfolding fill_def by (subst fold_field [where get = st_sessions]) (simp_all add: put_session_def empty_store_def)
  also have "\<dots> = st_sessions s" by (rule fill_eq) (use rs(3,4) in \<open>auto dest: inj_onD\<close>)
  finally have sessions: "st_sessions ?s1 = st_sessions s" .
  have "st_sessionsExt ?s1 = fill ?ext sr_SessionID rs"
    unfolding fill_def by (subst fold_field [where get = st_sessionsExt]) (simp_all add: put_session_def empty_store_def)
  also have "\<dots> = st_sessionsExt s"
  proof (rule fill_eq)
    show "sr_SessionID r = sr_SessionID r'" if "r \<in> set rs" "r' \<in> set rs" "?ext r = ?ext r'" for r r'
      using ext that by (metis option.inject)
  qed (rule ext)
  finally show ?thesis using sessions rs(1) by (simp add: loadSessions_def load)
qed

lemma migrate_current: "mm_SchemaVersion r = SchemaVersion \<Longrightarrow> 0 < mm_StateVersion r \<Longrightarrow> migrateMemoryRow r heat SchemaVersion = r"
  by (simp add: migrateMemoryRow_def)

lemma load_memory_lines:
  "list_all (\<lambda>r. good_memory cd r \<and> mm_SchemaVersion r = SchemaVersion \<and> 0 < mm_StateVersion r) rs \<Longrightarrow>
     load_table fname (\<lambda>l. map_option (Pair l) (cd_unmemory cd l)) (put_memory_row cd SchemaVersion) (map (cd_memory cd) rs) (s, False) =
       Inr (fold (\<lambda>r s. s\<lparr>st_memories := (st_memories s)(mm_MemoryID r \<mapsto> r)\<rparr>) rs s, False)"
  by (induction rs arbitrary: s) (simp_all add: good_memory_def put_memory_row_def migrate_current)

lemma memories_back:
  assumes tidy: "tidy_memories cd s" and ids: "set ids = dom (st_memories s)" "distinct ids"
    and d: "dk_memories d = memoriesJSONL cd s ids" and current: "schemaVersion cd d = SchemaVersion"
  shows "\<exists>s1. loadMemories cd order stop d (empty_store key) = (d, Inr s1) \<and> st_memories s1 = st_memories s"
proof -
  have keyed: "\<forall>k r. st_memories s k = Some r \<longrightarrow> mm_MemoryID r = k \<and> good_memory cd r" using tidy unfolding tidy_memories_def by blast
  obtain rs where rs: "readJSONL (dk_memories d) = Inr (map (cd_memory cd) rs)" "list_all (good_memory cd) rs" "inj_on mm_MemoryID (set rs)"
      "\<And>k r. st_memories s k = Some r \<longleftrightarrow> r \<in> set rs \<and> mm_MemoryID r = k"
    using memory_table.load_dump [OF ids keyed] unfolding d memoriesJSONL_def by blast
  note load = memory_table.load_lines [OF rs(2)]
  let ?s1 = "fold (\<lambda>r s. s\<lparr>st_memories := (st_memories s)(mm_MemoryID r \<mapsto> r)\<rparr>) rs (empty_store key)"
  have "list_all (\<lambda>r. good_memory cd r \<and> mm_SchemaVersion r = SchemaVersion \<and> 0 < mm_StateVersion r) rs"
    using tidy rs(4) unfolding tidy_memories_def list_all_iff by blast
  then have loaded: "load_table ''memories.jsonl'' (\<lambda>l. map_option (Pair l) (cd_unmemory cd l)) (put_memory_row cd SchemaVersion)
      (map (cd_memory cd) rs) (empty_store key, False) = Inr (?s1, False)" by (rule load_memory_lines)
  have "st_memories ?s1 = fill mm_MemoryID (\<lambda>r. r) rs"
    unfolding fill_def by (subst fold_field [where get = st_memories]) (simp_all add: empty_store_def)
  also have "\<dots> = st_memories s" by (rule fill_eq) (use rs(3,4) in \<open>auto dest: inj_onD\<close>)
  finally show ?thesis using rs(1) loaded current by (simp add: loadMemories_def)
qed

lemma proposals_back:
  assumes tidy: "tidy_proposals cd s" and ids: "set ids = dom (st_proposals s)" "distinct ids"
    and d: "dk_proposals d = proposalsJSONL cd s ids"
  shows "\<exists>s1. loadProposals cd d (empty_store key) = Inr s1 \<and> st_proposals s1 = st_proposals s \<and> st_proposalsHash s1 = st_proposalsHash s"
proof -
  let ?enc = "\<lambda>p. cd_proposal cd (proposalRecordFrom p)" and ?dec = "\<lambda>l. map_option toProposal (cd_unproposal cd l)"
  let ?put = "\<lambda>p (s :: store). s\<lparr>st_proposals := (st_proposals s)(pr_ID p \<mapsto> p), st_proposalsHash :=
    (if pr_RequestHash p \<noteq> '''' then (st_proposalsHash s)(pr_RequestHash p \<mapsto> pr_ID p) else st_proposalsHash s)\<rparr>"
  have keyed: "\<forall>k r. st_proposals s k = Some r \<longrightarrow> pr_ID r = k \<and> good_proposal cd r" using tidy unfolding tidy_proposals_def by blast
  obtain rs where rs: "readJSONL (dk_proposals d) = Inr (map ?enc rs)" "list_all (good_proposal cd) rs" "inj_on pr_ID (set rs)"
      "\<And>k r. st_proposals s k = Some r \<longleftrightarrow> r \<in> set rs \<and> pr_ID r = k"
    using proposal_table.load_dump [OF ids keyed] unfolding d proposalsJSONL_def by blast
  note load = proposal_table.load_lines [OF rs(2)]
  have through: "load_table fname (cd_unproposal cd) put_proposal ls s = load_table fname ?dec ?put ls s" for fname ls s
    by (induction ls arbitrary: s) (simp_all add: put_proposal_def Let_def split: option.split)
  let ?s1 = "fold ?put rs (empty_store key)"
  have hash: "st_proposalsHash s h = Some k \<longleftrightarrow> (\<exists>p \<in> set (filter (\<lambda>p. pr_RequestHash p \<noteq> '''') rs). pr_RequestHash p = h \<and> pr_ID p = k)" for h k
    using tidy rs(4) [of k] unfolding tidy_proposals_def by auto
  have "st_proposals ?s1 = fill pr_ID (\<lambda>r. r) rs"
    unfolding fill_def by (subst fold_field [where get = st_proposals]) (simp_all add: empty_store_def)
  also have "\<dots> = st_proposals s" by (rule fill_eq) (use rs(3,4) in \<open>auto dest: inj_onD\<close>)
  finally have proposals: "st_proposals ?s1 = st_proposals s" .
  have "st_proposalsHash ?s1 = fold (\<lambda>p m. if pr_RequestHash p \<noteq> '''' then m(pr_RequestHash p \<mapsto> pr_ID p) else m) rs Map.empty"
    by (subst fold_field [where get = st_proposalsHash]) (simp_all add: empty_store_def)
  also have "\<dots> = fill pr_RequestHash pr_ID (filter (\<lambda>p. pr_RequestHash p \<noteq> '''') rs)" unfolding fill_def by (rule fold_filter)
  also have "\<dots> = st_proposalsHash s"
  proof (rule fill_eq)
    show "pr_ID p = pr_ID p'" if "p \<in> set (filter (\<lambda>p. pr_RequestHash p \<noteq> '''') rs)" "p' \<in> set (filter (\<lambda>p. pr_RequestHash p \<noteq> '''') rs)"
        "pr_RequestHash p = pr_RequestHash p'" for p p'
      using hash that by (metis option.inject)
  qed (rule hash)
  finally show ?thesis using proposals rs(1) by (simp add: loadProposals_def through load)
qed

lemma projects_back:
  assumes tidy: "tidy_rest cd s" and ids: "set ids = dom (st_projectCtx s)" "distinct ids"
    and d: "dk_project_context d = projectContextJSONL cd s ids"
  shows "\<exists>s1. loadProjectContext cd d (empty_store key) = Inr s1 \<and> st_projectCtx s1 = st_projectCtx s"
proof -
  have keyed: "\<forall>k r. st_projectCtx s k = Some r \<longrightarrow> pc_ProjectKey r = k \<and> good_project cd r" using tidy unfolding tidy_rest_def by blast
  obtain rs where rs: "readJSONL (dk_project_context d) = Inr (map (cd_project cd) rs)" "list_all (good_project cd) rs" "inj_on pc_ProjectKey (set rs)"
      "\<And>k r. st_projectCtx s k = Some r \<longleftrightarrow> r \<in> set rs \<and> pc_ProjectKey r = k"
    using project_table.load_dump [OF ids keyed] unfolding d projectContextJSONL_def by blast
  note load = project_table.load_lines [OF rs(2)]
  have "st_projectCtx (fold put_project rs (empty_store key)) = fill pc_ProjectKey (\<lambda>r. r) rs"
    unfolding fill_def by (subst fold_field [where get = st_projectCtx]) (simp_all add: put_project_def empty_store_def)
  also have "\<dots> = st_projectCtx s" by (rule fill_eq) (use rs(3,4) in \<open>auto dest: inj_onD\<close>)
  finally show ?thesis using rs(1) by (simp add: loadProjectContext_def load)
qed

lemma continuity_back:
  assumes tidy: "tidy_rest cd s" and d: "dk_continuity d = continuityJSONL cd s"
  shows "\<exists>s1. loadContinuity cd d (empty_store key) = Inr s1 \<and> st_continuity s1 = st_continuity s"
proof -
  let ?rs = "st_continuity s" and ?put = "\<lambda>row s. s\<lparr>st_continuity := st_continuity s @ [row]\<rparr>"
  have good: "list_all (good_continuity cd) ?rs"
    and sorted: "sort_by (\<lambda>a b. cr_RevisionNumber a < cr_RevisionNumber b) ?rs = ?rs"
    using tidy by (auto simp: tidy_rest_def intro: sort_sorted_id)
  have "st_continuity (fold ?put rs s0) = st_continuity s0 @ rs" for rs and s0 :: store by (induction rs arbitrary: s0) simp_all
  moreover have "st_continuity (empty_store key) = []" by (simp add: empty_store_def)
  ultimately have "st_continuity (fold ?put ?rs (empty_store key)) = ?rs" by simp
  then show ?thesis using continuity_table.read_lines [OF good] sorted
    by (simp add: loadContinuity_def d continuityJSONL_def continuity_table.load_lines [OF good])
qed

lemma evidence_back:
  assumes tidy: "tidy_rest cd s" and ids: "{k. st_evidence s k \<noteq> []} \<subseteq> set ids" "distinct ids"
    and d: "dk_evidence d = evidenceJSONL cd s ids"
  shows "\<exists>s1. loadEvidence cd d (empty_store key) = Inr s1 \<and> st_evidence s1 = st_evidence s"
proof -
  let ?ks = "sort_by bytes_less ids"
  let ?rs = "concat (map (st_evidence s) ?ks)"
  have rows: "\<And>k r. r \<in> set (st_evidence s k) \<Longrightarrow> er_MemoryID r = k \<and> bare_evidence r = r \<and> good_evidence cd r"
    using tidy by (simp add: tidy_rest_def)
  have good: "list_all (good_evidence cd) ?rs" and bare: "list_all (\<lambda>r. bare_evidence r = r) ?rs"
    using rows by (auto simp: list_all_iff)
  have fold_at: "list_all (\<lambda>r. bare_evidence r = r) rs \<Longrightarrow>
      st_evidence (fold put_evidence rs s0) k = st_evidence s0 k @ filter (\<lambda>r. er_MemoryID r = k) rs" for rs s0 k
    by (induction rs arbitrary: s0) (simp_all add: put_evidence_def)
  have dist: "distinct ?ks" using ids(2) distinct_map_sort_by [of "\<lambda>x. x" bytes_less ids] by simp
  have "st_evidence (fold put_evidence ?rs (empty_store key)) k = st_evidence s k" for k
  proof -
    have "st_evidence (fold put_evidence ?rs (empty_store key)) k = filter (\<lambda>r. er_MemoryID r = k) ?rs"
      using fold_at [OF bare] by (simp add: empty_store_def)
    also have "\<dots> = (if k \<in> set ?ks then st_evidence s k else [])" by (rule filter_concat_keyed [OF dist]) (use rows in blast)
    also have "\<dots> = st_evidence s k" using ids(1) by (cases "k \<in> set ids") (simp, force)
    finally show ?thesis .
  qed
  then have "st_evidence (fold put_evidence ?rs (empty_store key)) = st_evidence s" by blast
  moreover have "dk_evidence d = write_lines (map (cd_evidence cd) ?rs)" by (simp add: d evidenceJSONL_def map_concat comp_def)
  ultimately show ?thesis using evidence_table.read_lines [OF good]
    by (simp add: loadEvidence_def evidence_table.load_lines [OF good])
qed

definition tidy :: "row_codecs \<Rightarrow> store \<Rightarrow> bool" where
  "tidy cd s \<longleftrightarrow> tidy_sessions cd s \<and> tidy_memories cd s \<and> tidy_proposals cd s \<and> tidy_rest cd s"

lemma flushAll_files:
  assumes "\<not> st_lowRAM s"
  shows "flushAll env cd rg [] s d =
    (d\<lparr>dk_sessions := sessionsJSONL cd s (rg_sessions rg), dk_messages := messagesJSONL env s (rg_messages rg),
       dk_memories := memoriesJSONL cd s (rg_memories rg), dk_proposals := proposalsJSONL cd s (rg_proposals rg),
       dk_continuity := continuityJSONL cd s, dk_evidence := evidenceJSONL cd s (rg_evidence rg),
       dk_project_context := projectContextJSONL cd s (rg_projects rg)\<rparr>, Inr ())"
  using assms by (simp add: flushAll_def flush_plan_def flushKind_def)


definition sample_session :: session_row where
  "sample_session = zero_session\<lparr>sr_SessionID := ''s1'', sr_ClientKey := ''codex'', sr_ExternalSessionID := ''t1'', sr_Seq := 1\<rparr>"

definition sample_memory :: memory_row where
  "sample_memory = \<lparr>mm_SchemaVersion = SchemaVersion, mm_MemoryID = ''m1'', mm_Kind = '''', mm_Subject = ''tea'', mm_Content = ''green'', mm_ContentHash = '''',
     mm_Lifecycle = ''ACTIVE'', mm_EpistemicStatus = '''', mm_Confidence = 1, mm_Importance = 1, mm_Sensitivity = ''NORMAL'', mm_SecretLike = False,
     mm_InstructionLike = False, mm_StateVersion = 1, mm_SupersedesMemoryID = '''', mm_CreatedAt = 0, mm_UpdatedAt = 0, mm_ScopeType = ''GLOBAL'',
     mm_ProjectKey = '''', mm_AccessCount = 0, mm_LastAccessedAt = None, mm_Activation = 1, mm_Disputed = True, mm_RepeatCount = 0, mm_LastUsedSeq = 0\<rparr>"

definition sample_codecs :: row_codecs where
  "sample_codecs = \<lparr>cd_session = (\<lambda>_. ''S''), cd_unsession = (\<lambda>_. Some sample_session), cd_memory = (\<lambda>_. ''M''), cd_unmemory = (\<lambda>_. Some sample_memory),
     cd_heat = (\<lambda>_. None), cd_proposal = (\<lambda>_. ''''), cd_unproposal = (\<lambda>_. None), cd_continuity = (\<lambda>_. ''''), cd_uncontinuity = (\<lambda>_. None),
     cd_evidence = (\<lambda>_. ''''), cd_unevidence = (\<lambda>_. None), cd_project = (\<lambda>_. ''''), cd_unproject = (\<lambda>_. None),
     cd_meta = (\<lambda>_. ''1''), cd_unmeta = (\<lambda>_. Some 1), cd_schema = (\<lambda>_. ''4''), cd_unschema = (\<lambda>_. Some 4)\<rparr>"

definition sample_store :: store where
  "sample_store = (empty_store ''k'')\<lparr>st_sessions := [''s1'' \<mapsto> sample_session],
     st_sessionsExt := [ext_key ''codex'' ''t1'' \<mapsto> ''s1''], st_memories := [''m1'' \<mapsto> sample_memory], st_sessionSeq := 1\<rparr>"

definition sample_ranging :: ranging where
  "sample_ranging = \<lparr>rg_sessions = [''s1''], rg_messages = [], rg_memories = [''m1''], rg_proposals = [], rg_evidence = [], rg_projects = [],
     rg_projection = \<lparr>pl_memories = [], pl_messages = [], pl_evidence = []\<rparr>\<rparr>"

definition empty_disk :: disk where
  "empty_disk = \<lparr>dk_sessions = '''', dk_messages = '''', dk_memories = '''', dk_proposals = '''', dk_continuity = '''', dk_evidence = '''',
     dk_project_context = '''', dk_meta = '''', dk_schema = ''''\<rparr>"

definition marked_disk :: disk where
  "marked_disk = fst (persistSchema sample_codecs Flushed empty_disk)"

lemma sample_tidy: "tidy sample_codecs sample_store"
proof -
  have "clean_line ''S''" "clean_line ''M''" by code_simp+
  then have "good_session sample_codecs sample_session" "good_memory sample_codecs sample_memory"
    by (simp_all add: good_session_def good_memory_def sample_codecs_def)
  then show ?thesis
    by (auto simp: tidy_def tidy_sessions_def tidy_memories_def tidy_proposals_def tidy_rest_def sample_store_def empty_store_def
        sample_session_def sample_memory_def zero_session_def split: if_splits)
qed

lemma sample_marked: "schemaVersion sample_codecs marked_disk = SchemaVersion"
proof -
  have "readJSONL (''4'' @ [newline]) = Inr [''4'']" by code_simp
  then show ?thesis by (simp add: schemaVersion_def marked_disk_def persistSchema_def flushKind_def sample_codecs_def)
qed


section \<open>The ordinal of a session\<close>

text \<open>\<open>UpsertSession\<close> rewrites the sessions before the ordinal.  When the process stops in between and no ordinal was ever written, the
  next start counts from zero again, and the next session gets the ordinal that the stored one already has.\<close>

theorem ordinal_restarts:
  assumes first: "UpsertSession (empty_store key) client external title project activity now fresh = (s', Inr row)"
    and good: "good_session cd row" and d: "d = empty_disk\<lparr>dk_sessions := sessionsJSONL cd s' [fresh]\<rparr>"
    and other: "ext_key client external \<noteq> ext_key client2 external2"
  shows "\<exists>s1. loadSessions cd d (empty_store key) = Inr s1 \<and> loadMeta cd sids d s1 = Inr s1 \<and> SessionSeq s1 fresh = Some 1 \<and>
    (\<exists>s2 row2. UpsertSession s1 client2 external2 title2 project2 activity2 now2 fresh2 = (s2, Inr row2) \<and> sr_Seq row2 = 1)"
proof -
  have row: "sr_SessionID row = fresh" "sr_ClientKey row = client" "sr_ExternalSessionID row = external" "sr_Seq row = 1"
    and s': "st_sessions s' = [fresh \<mapsto> row]"
    using first by (auto simp: UpsertSession_def empty_store_def Let_def)
  let ?s1 = "put_session row (empty_store key)"
  have "dk_sessions d = write_lines (map (cd_session cd) [row])" by (simp add: d sessionsJSONL_def dump_table_def s' sort_by_def)
  then have "loadSessions cd d (empty_store key) = Inr ?s1"
    using session_table.read_lines [of cd "[row]"] session_table.load_lines [of cd "[row]"] good by (simp add: loadSessions_def)
  moreover have "readJSONL (dk_meta d) = Inr []" by (simp add: d empty_disk_def readJSONL_def json_lines_def)
  then have "loadMeta cd sids d ?s1 = Inr ?s1" by (simp add: loadMeta_def)
  moreover have "SessionSeq ?s1 fresh = Some 1" by (simp add: SessionSeq_def put_session_def row)
  moreover have "\<exists>s2 row2. UpsertSession ?s1 client2 external2 title2 project2 activity2 now2 fresh2 = (s2, Inr row2) \<and> sr_Seq row2 = 1"
    using other by (simp add: UpsertSession_def put_session_def row empty_store_def Let_def)
  ultimately show ?thesis by blast
qed

end
