(* ===== verification/Index_Upkeep.thy ===== *)
theory Index_Upkeep
  imports Store_Files Settings
begin

text \<open>
  The upkeep of the derived tables of \<open>lite/index.go\<close>: the fingerprints that tell at start whether they are those of the
  canonical rows, the rebuild in one transaction, and \<open>openIndex\<close> of \<open>lite/store.go\<close>.  SQLite keeps what a committed
  transaction wrote; a failing statement leaves the tables as they were.  JSON and SHA-256 are parameters.
\<close>

section \<open>The database\<close>

record index_db =
  db_index :: index
  db_fingerprint :: go_string
  db_support :: go_string

definition empty_db :: index_db where
  "empty_db = \<lparr>db_index = empty_index, db_fingerprint = '''', db_support = ''''\<rparr>"

text \<open>\<open>OpenMemoryIndex\<close>: tables of another schema version are dropped; \<open>found\<close> is what the file holds, with its version.\<close>

definition OpenMemoryIndex :: "(int \<times> index_db) option \<Rightarrow> index_db" where
  "OpenMemoryIndex found = (case found of None \<Rightarrow> empty_db | Some (version, db) \<Rightarrow> if version \<noteq> 6 then empty_db else db)"

section \<open>Fingerprints\<close>

text \<open>The fields of a row that the fingerprint covers.\<close>

record fingerprint_row =
  fr_ID :: go_string
  fr_Kind :: go_string
  fr_Subject :: go_string
  fr_Content :: go_string
  fr_Lifecycle :: go_string
  fr_Sensitivity :: go_string
  fr_SecretLike :: bool
  fr_InstructionLike :: bool
  fr_Scope :: go_string
  fr_ProjectKey :: go_string
  fr_UpdatedAt :: time

definition fingerprint_of :: "memory_row \<Rightarrow> fingerprint_row" where
  "fingerprint_of row =
     \<lparr>fr_ID = mm_MemoryID row, fr_Kind = mm_Kind row, fr_Subject = mm_Subject row, fr_Content = mm_Content row, fr_Lifecycle = mm_Lifecycle row,
      fr_Sensitivity = mm_Sensitivity row, fr_SecretLike = mm_SecretLike row, fr_InstructionLike = mm_InstructionLike row, fr_Scope = mm_ScopeType row,
      fr_ProjectKey = mm_ProjectKey row, fr_UpdatedAt = mm_UpdatedAt row\<rparr>"

definition by_memory_id :: "memory_row list \<Rightarrow> memory_row list" where
  "by_memory_id rows = sort_by (\<lambda>a b. bytes_less (mm_MemoryID a) (mm_MemoryID b)) rows"

definition fingerprint_text :: "(fingerprint_row \<Rightarrow> go_string) \<Rightarrow> memory_row list \<Rightarrow> go_string" where
  "fingerprint_text enc rows =
     ''index-schema=6;tokenizers=fts5-trigram+porter-bm25;normalization=2;set-build=1'' @ [newline] @
     concat (map (\<lambda>row. enc (fingerprint_of row)) (by_memory_id rows))"

definition Fingerprint :: "(go_string \<Rightarrow> go_string) \<Rightarrow> (fingerprint_row \<Rightarrow> go_string) \<Rightarrow> memory_row list \<Rightarrow> go_string" where
  "Fingerprint sha enc rows = hex_encode (sha (fingerprint_text enc rows))"

definition evidence_key :: "evidence_row \<Rightarrow> go_string" where
  "evidence_key row = er_MemoryID row @ CHR 0x00 # er_MessageID row @ CHR 0x00 # er_QuoteHash row @ CHR 0x00 # er_Relation row"

definition SupportFingerprint ::
    "(go_string \<Rightarrow> go_string) \<Rightarrow> (message_row \<Rightarrow> go_string) \<Rightarrow> (evidence_row \<Rightarrow> go_string) \<Rightarrow> message_row list \<Rightarrow> evidence_row list \<Rightarrow> go_string" where
  "SupportFingerprint sha encm ence messages evidence =
     hex_encode (sha (''support-schema=1'' @ [newline] @
       concat (map encm (sort_by (\<lambda>a b. bytes_less (ms_MessageID a) (ms_MessageID b)) messages)) @
       concat (map (\<lambda>row. ence (bare_evidence row)) (sort_by (\<lambda>a b. bytes_less (evidence_key a) (evidence_key b)) evidence))))"

section \<open>Rebuilding\<close>

definition current_rows :: "memory_row list \<Rightarrow> (go_string \<Rightarrow> memory_row option)" where
  "current_rows rows = fill mm_MemoryID (\<lambda>row. row) (by_memory_id rows)"

definition searchable_row :: "(go_string \<Rightarrow> go_string) \<Rightarrow> memory_row \<Rightarrow> bool" where
  "searchable_row sha row \<longleftrightarrow> memoryRowPolicyAllowed sha row \<and> mm_Lifecycle row = ''ACTIVE''"

text \<open>\<open>RebuildFrom\<close>: the rows, then the full-text tables from those that are eligible, then the fingerprint.\<close>

definition RebuildFrom :: "(go_string \<Rightarrow> go_string) \<Rightarrow> (fingerprint_row \<Rightarrow> go_string) \<Rightarrow> memory_row list \<Rightarrow> index_db \<Rightarrow> index_db" where
  "RebuildFrom sha enc rows db =
     db\<lparr>db_index := (db_index db)\<lparr>ix_memories := current_rows rows,
          ix_searchable := set (map mm_MemoryID (filter (\<lambda>row. current_rows rows (mm_MemoryID row) = Some row \<and> searchable_row sha row) rows))\<rparr>,
        db_fingerprint := Fingerprint sha enc rows\<rparr>"

text \<open>\<open>messages_current\<close> has one row for a message of a host in a session.\<close>

definition external_unique :: "message_row list \<Rightarrow> bool" where
  "external_unique messages \<longleftrightarrow>
     distinct (map (\<lambda>row. (ms_SessionID row, ms_ExternalMessageID row)) (remdups messages))"

definition ReplaceReadSupport ::
    "(go_string \<Rightarrow> go_string) \<Rightarrow> (message_row \<Rightarrow> go_string) \<Rightarrow> (evidence_row \<Rightarrow> go_string) \<Rightarrow> message_row list \<Rightarrow> evidence_row list \<Rightarrow> index_db \<Rightarrow>
     index_db res" where
  "ReplaceReadSupport sha encm ence messages evidence db =
     (if \<not> external_unique messages then Inl ''UNIQUE constraint failed: messages_current.session_id, messages_current.external_message_id''
      else Inr (db\<lparr>db_index := (db_index db)\<lparr>
          ix_messages := fill ms_MessageID (\<lambda>row. row) messages,
          ix_evidence := fill (\<lambda>row. (er_MemoryID row, er_MessageID row, er_QuoteHash row, er_Relation row)) bare_evidence evidence\<rparr>,
        db_support := SupportFingerprint sha encm ence messages evidence\<rparr>))"

text \<open>\<open>Remove\<close> takes a memory out of the full-text tables; the record of the row stays as it was.\<close>

definition index_Remove :: "go_string \<Rightarrow> index_db \<Rightarrow> index_db" where
  "index_Remove memoryID db = db\<lparr>db_index := (db_index db)\<lparr>ix_searchable := ix_searchable (db_index db) - {memoryID}\<rparr>\<rparr>"

section \<open>Reading everything\<close>

text \<open>The queries over a whole table; \<open>rows\<close> are the rows SQLite holds, in any order.\<close>

definition AllMemories :: "memory_row list \<Rightarrow> memory_row list" where
  "AllMemories rows = by_memory_id rows"

definition AllMessages :: "message_row list \<Rightarrow> message_row list" where
  "AllMessages rows = sort_by (\<lambda>a b. ms_MessageSeq a < ms_MessageSeq b) rows"

definition AllEvidence :: "evidence_row list \<Rightarrow> evidence_row list" where
  "AllEvidence rows =
     sort_by (\<lambda>a b. bytes_less (er_MemoryID a) (er_MemoryID b) \<or> er_MemoryID a = er_MemoryID b \<and> er_CreatedAt a < er_CreatedAt b) rows"

definition LoadMessage :: "index \<Rightarrow> go_string \<Rightarrow> message_row option" where
  "LoadMessage ix messageID = ix_messages ix messageID"

definition MessageByExternal :: "message_row list \<Rightarrow> go_string \<Rightarrow> go_string \<Rightarrow> message_row option" where
  "MessageByExternal rows sessionID externalID =
     find (\<lambda>row. ms_SessionID row = sessionID \<and> ms_ExternalMessageID row = externalID) rows"

definition LatestUserMessage :: "message_row list \<Rightarrow> go_string \<Rightarrow> message_row option" where
  "LatestUserMessage rows sessionID =
     (case sort_by (\<lambda>a b. ms_TurnSeq b < ms_TurnSeq a \<or> ms_TurnSeq a = ms_TurnSeq b \<and> ms_MessageSeq b < ms_MessageSeq a)
        (filter (\<lambda>row. ms_SessionID row = sessionID \<and> ms_Role row = ''user'') rows) of
        [] \<Rightarrow> None | row # _ \<Rightarrow> Some row)"

section \<open>Opening\<close>

text \<open>The directories: derived data beside the canonical directory by default, and never in it.\<close>

definition index_directories :: "go_string \<Rightarrow> go_string \<Rightarrow> go_string \<Rightarrow> (go_string \<times> go_string) res" where
  "index_directories dir derivedDir vectorDir =
     (let derived = (if derivedDir = '''' then filepath_Join (filepath_Dir dir) ''derived'' else derivedDir);
          vectors = (if vectorDir = '''' then filepath_Join derived ''vectors'' else vectorDir) in
      if filepath_Clean vectors = filepath_Clean dir then Inl ''vector directory cannot equal canonical data directory''
      else Inr (derived, vectors))"

text \<open>\<open>openIndex\<close> on an open database; the rows are those of the maps, in ranging order.\<close>

definition openIndex ::
    "(go_string \<Rightarrow> go_string) \<Rightarrow> (fingerprint_row \<Rightarrow> go_string) \<Rightarrow> (message_row \<Rightarrow> go_string) \<Rightarrow> (evidence_row \<Rightarrow> go_string) \<Rightarrow>
     memory_row list \<Rightarrow> message_row list \<Rightarrow> evidence_row list \<Rightarrow> index_db \<Rightarrow> index_db res" where
  "openIndex sha enc encm ence rows messages evidence db =
     (let db = (if db_fingerprint db \<noteq> Fingerprint sha enc rows then RebuildFrom sha enc rows db else db);
          messages = AllMessages messages in
      if db_support db \<noteq> SupportFingerprint sha encm ence messages evidence
      then ReplaceReadSupport sha encm ence messages evidence db else Inr db)"

text \<open>\<open>openStore\<close>, once the directory is locked: the tables and journals, the projection, the vectors, the schema marker.  A failure
  of the vectors degrades them only.\<close>

record opened_store =
  os_Store :: store
  os_Db :: index_db
  os_VectorIssue :: bool
  os_Disk :: disk

definition openStore ::
    "env \<Rightarrow> row_codecs \<Rightarrow> (fingerprint_row \<Rightarrow> go_string) \<Rightarrow> load_ambient \<Rightarrow> (store \<Rightarrow> memory_row list \<times> message_row list \<times> evidence_row list) \<Rightarrow>
     (store \<Rightarrow> (go_string \<Rightarrow> projection_row option) \<Rightarrow> go_string + unit) \<Rightarrow> flush_stop \<Rightarrow> go_string \<Rightarrow> (int \<times> index_db) option \<Rightarrow> disk \<Rightarrow> store \<Rightarrow>
     opened_store res" where
  "openStore env cd enc amb ranging vectors stop key found d s =
     (case store_load env cd amb d (s\<lparr>st_integrityKey := key\<rparr>) of
        (d, Inl err) \<Rightarrow> Inl err
      | (d, Inr (s, projection)) \<Rightarrow>
          (case ranging s of (rows, messages, evidence) \<Rightarrow>
             bindE (openIndex (env_sha env) enc (message_json env) (cd_evidence cd) rows messages evidence (OpenMemoryIndex found)) (\<lambda>db.
               case persistSchema cd stop d of
                 (d, Inl err) \<Rightarrow> Inl err
               | (d, Inr _) \<Rightarrow>
                   Inr \<lparr>os_Store = s\<lparr>st_Index := db_index db\<rparr>, os_Db = db,
                     os_VectorIssue = (case vectors s projection of Inl _ \<Rightarrow> True | Inr _ \<Rightarrow> False), os_Disk = d\<rparr>)))"

section \<open>The projection shows the canonical rows\<close>

text \<open>An encoding that tells the given values apart at the start of a longer text, as a JSON object does.\<close>

definition self_delimiting :: "('a \<Rightarrow> go_string) \<Rightarrow> 'a set \<Rightarrow> bool" where
  "self_delimiting enc A \<longleftrightarrow> (\<forall>a \<in> A. enc a \<noteq> [] \<and> (\<forall>b \<in> A. \<forall>s t. enc a @ s = enc b @ t \<longrightarrow> a = b))"

lemma concat_delimited:
  "self_delimiting enc A \<Longrightarrow> set xs \<subseteq> A \<Longrightarrow> set ys \<subseteq> A \<Longrightarrow> concat (map enc xs) = concat (map enc ys) \<Longrightarrow> xs = ys"
proof (induction xs arbitrary: ys)
  case Nil
  then show ?case by (cases ys) (auto simp: self_delimiting_def)
next
  case (Cons x xs)
  then obtain y ys' where ys: "ys = y # ys'" by (cases ys) (auto simp: self_delimiting_def)
  have eq: "enc x @ concat (map enc xs) = enc y @ concat (map enc ys')" using Cons.prems(4) ys by simp
  moreover have "x \<in> A" "y \<in> A" using Cons.prems(2,3) ys by simp_all
  ultimately have "x = y" using Cons.prems(1) unfolding self_delimiting_def by blast
  then show ?case using Cons.IH [of ys'] Cons.prems eq ys by simp
qed

lemma current_rows_iff:
  "distinct (map mm_MemoryID rows) \<Longrightarrow> current_rows rows mid = Some row \<longleftrightarrow> row \<in> set rows \<and> mm_MemoryID row = mid"
  unfolding current_rows_def by (subst fill_iff) (auto simp: by_memory_id_def distinct_map dest: inj_onD)

lemma fingerprint_id: "fr_ID (fingerprint_of row) = mm_MemoryID row"
  by (simp add: fingerprint_of_def)

lemma same_fingerprints:
  assumes d: "distinct (map mm_MemoryID rows)" "distinct (map mm_MemoryID rows')"
    and same: "fingerprint_of ` set rows = fingerprint_of ` set rows'"
  shows "map_option fingerprint_of (current_rows rows mid) = map_option fingerprint_of (current_rows rows' mid)"
proof -
  have shown: "map_option fingerprint_of (current_rows rs mid) = Some f \<longleftrightarrow> f \<in> fingerprint_of ` set rs \<and> fr_ID f = mid"
    if "distinct (map mm_MemoryID rs)" for rs f
    using current_rows_iff [OF that, of mid] fingerprint_id by (fastforce simp: map_option_case split: option.split)
  then show ?thesis using d same by (metis not_None_eq)
qed


text \<open>Rows that differ in other fields only, such as the confidence or the dispute of a memory, do not make the tables stale: they keep
  the rows they were built from.\<close>

lemma fingerprint_blind:
  assumes built: "ix_memories (db_index db) = current_rows old" "db_fingerprint db = Fingerprint sha enc old"
    and same: "map fingerprint_of (by_memory_id rows) = map fingerprint_of (by_memory_id old)"
    and opened: "openIndex sha enc encm ence rows messages evidence db = Inr db'"
  shows "ix_memories (db_index db') = current_rows old"
proof -
  have "fingerprint_text enc rows = fingerprint_text enc old"
    using arg_cong [OF same, of "map enc"] by (simp add: fingerprint_text_def comp_def)
  then show ?thesis using built opened
    by (auto simp: openIndex_def ReplaceReadSupport_def Fingerprint_def Let_def split: if_splits)
qed

lemma openIndex_ok:
  "external_unique (AllMessages messages) \<Longrightarrow> \<exists>db'. openIndex sha enc encm ence rows messages evidence db = Inr db'"
  unfolding openIndex_def ReplaceReadSupport_def Let_def by simp

definition settled_memory :: memory_row where
  "settled_memory = sample_memory\<lparr>mm_Disputed := False\<rparr>"

definition built_db :: index_db where
  "built_db = RebuildFrom (\<lambda>s. s) (\<lambda>_. ''r'') [settled_memory] empty_db"


end
