(* ===== verification/Snapshot.thy ===== *)
theory Snapshot
  imports Store_Files Settings Http_Api
begin

text \<open>
  Snapshots (\<open>lite/snapshot.go\<close> and \<open>adminSnapshot\<close>): the pending state is flushed, the canonical files and the segments of the archive
  are copied under the lock into a fresh directory, and a manifest names each with its size and digest.  What a snapshot holds loads
  as the data directory does.  The operations journal, the vectors and the index are not part of it.
\<close>

section \<open>The files\<close>

record snapshot_entry =
  zf_Path :: go_string
  zf_Size :: int
  zf_SHA256 :: go_string

record snapshot_manifest =
  zf_Version :: int
  zf_SnapshotID :: go_string
  zf_CreatedAt :: time
  zf_Files :: "snapshot_entry list"

record snapshot_result =
  zr_SnapshotID :: go_string
  zr_Path :: go_string
  zr_Manifest :: snapshot_manifest

definition canonicalSnapshotFiles :: "go_string list" where
  "canonicalSnapshotFiles =
     [''schema.jsonl'', ''meta.jsonl'', ''sessions.jsonl'', ''messages.jsonl'', ''memories.jsonl'', ''proposals.jsonl'', ''evidence.jsonl'',
      ''continuity.jsonl'', ''project_context.jsonl'', ''memory_events.jsonl'', ''key_rotations.jsonl'']"

text \<open>The bytes under a name of the data directory; none for a file that is not there.\<close>

definition data_file :: "store \<Rightarrow> disk \<Rightarrow> go_string \<Rightarrow> go_string" where
  "data_file s d name =
     (if name = ''schema.jsonl'' then dk_schema d
      else if name = ''meta.jsonl'' then dk_meta d
      else if name = ''sessions.jsonl'' then dk_sessions d
      else if name = ''messages.jsonl'' then dk_messages d
      else if name = ''memories.jsonl'' then dk_memories d
      else if name = ''proposals.jsonl'' then dk_proposals d
      else if name = ''evidence.jsonl'' then dk_evidence d
      else if name = ''continuity.jsonl'' then dk_continuity d
      else if name = ''project_context.jsonl'' then dk_project_context d
      else if name = ''memory_events.jsonl'' then st_eventsFile s
      else if name = ''key_rotations.jsonl'' then st_rotationsFile s
      else '''')"

text \<open>What the file system answers: which files exist, whether the directories can be made, which copies and which parts of the end
  succeed.\<close>

record snapshot_io =
  zi_Exists :: "go_string \<Rightarrow> bool"
  zi_Made :: bool
  zi_Copied :: "go_string \<Rightarrow> bool"
  zi_Finished :: bool
  zi_Stamp :: go_string
  zi_Fresh :: go_string
  zi_Now :: time

section \<open>Creating a snapshot\<close>

type_synonym directory = "(go_string \<times> go_string) list"

definition copySnapshotFile :: "(go_string \<Rightarrow> go_string) \<Rightarrow> go_string \<Rightarrow> go_string \<Rightarrow> snapshot_entry" where
  "copySnapshotFile sha name bytes = \<lparr>zf_Path = name, zf_Size = int (length bytes), zf_SHA256 = hex_encode (sha bytes)\<rparr>"

fun copy_files ::
    "(go_string \<Rightarrow> go_string) \<Rightarrow> (go_string \<Rightarrow> bool) \<Rightarrow> directory \<Rightarrow> directory \<Rightarrow> snapshot_entry list \<Rightarrow> directory \<times> snapshot_entry list res" where
  "copy_files sha copied [] done_dir entries = (done_dir, Inr entries)"
| "copy_files sha copied ((name, bytes) # sources) done_dir entries =
     (if \<not> copied name then (done_dir, Inl name)
      else copy_files sha copied sources (done_dir @ [(name, bytes)]) (entries @ [copySnapshotFile sha name bytes]))"

text \<open>The archive as the loader lists it, under its names in the snapshot.\<close>

definition snapshot_segments :: "store \<Rightarrow> directory" where
  "snapshot_segments s = map (\<lambda>(name, bytes). (''messages/'' @ name, bytes)) (dir_listing s)"

definition snapshot_sources :: "snapshot_io \<Rightarrow> store \<Rightarrow> disk \<Rightarrow> directory" where
  "snapshot_sources io s d =
     map (\<lambda>name. (name, data_file s d name)) (filter (zi_Exists io) canonicalSnapshotFiles) @ snapshot_segments s"

text \<open>\<open>CreateSnapshot\<close>; the last results are the directory of the snapshot, as far as it was written, and the answer.\<close>

definition CreateSnapshot ::
    "env \<Rightarrow> row_codecs \<Rightarrow> ranging \<Rightarrow> go_string list \<Rightarrow> flush_stop \<Rightarrow> flush_stop list \<Rightarrow> snapshot_io \<Rightarrow> go_string \<Rightarrow> go_string \<Rightarrow> store \<Rightarrow> disk \<Rightarrow>
     store \<times> disk \<times> directory \<times> snapshot_result res" where
  "CreateSnapshot env cd rg bumped stop stops io dir snapshotDir s d =
     (case FlushAll env cd rg bumped stop stops s d of
        (s, d, Inl err) \<Rightarrow> (s, d, [], Inl err)
      | (s, d, Inr _) \<Rightarrow>
          (let sid = zi_Stamp io @ ''-'' @ zi_Fresh io;
               base = (if snapshotDir = '''' then filepath_Join dir ''snapshots'' else snapshotDir);
               path = filepath_Join base sid in
           if \<not> zi_Made io then (s, d, [], Inl ''mkdir'')
           else case copy_files (env_sha env) (zi_Copied io) (snapshot_sources io s d) [] [] of
             (snap, Inl err) \<Rightarrow> (s, d, snap, Inl err)
           | (snap, Inr entries) \<Rightarrow>
               if \<not> zi_Finished io then (s, d, snap, Inl ''manifest.json'')
               else (s, d, snap, Inr \<lparr>zr_SnapshotID = sid, zr_Path = path,
                 zr_Manifest = \<lparr>zf_Version = 1, zf_SnapshotID = sid, zf_CreatedAt = zi_Now io, zf_Files = entries\<rparr>\<rparr>)))"

definition adminSnapshot ::
    "env \<Rightarrow> row_codecs \<Rightarrow> ranging \<Rightarrow> go_string list \<Rightarrow> flush_stop \<Rightarrow> flush_stop list \<Rightarrow> snapshot_io \<Rightarrow> go_string \<Rightarrow> go_string \<Rightarrow> server_auth \<Rightarrow>
     go_string \<Rightarrow> store \<Rightarrow> disk \<Rightarrow> store \<times> disk \<times> directory \<times> (go_error + snapshot_result)" where
  "adminSnapshot env cd rg bumped stop stops io dir snapshotDir sv token s d =
     (if \<not> adminAuthorized sv token then (s, d, [], Inl (app AuthRequired))
      else case CreateSnapshot env cd rg bumped stop stops io dir snapshotDir s d of
        (s, d, snap, Inl _) \<Rightarrow> (s, d, snap, Inl (app InternalError))
      | (s, d, snap, Inr result) \<Rightarrow> (s, d, snap, Inr result))"

section \<open>Restoring one\<close>

text \<open>An operator copies the files back: the tables, the journals and the segments of the new data directory.\<close>

definition snapshot_file :: "directory \<Rightarrow> go_string \<Rightarrow> go_string" where
  "snapshot_file snap name = (case map_of snap name of None \<Rightarrow> '''' | Some bytes \<Rightarrow> bytes)"

definition restored_disk :: "directory \<Rightarrow> disk" where
  "restored_disk snap =
     \<lparr>dk_sessions = snapshot_file snap ''sessions.jsonl'', dk_messages = snapshot_file snap ''messages.jsonl'',
      dk_memories = snapshot_file snap ''memories.jsonl'', dk_proposals = snapshot_file snap ''proposals.jsonl'',
      dk_continuity = snapshot_file snap ''continuity.jsonl'', dk_evidence = snapshot_file snap ''evidence.jsonl'',
      dk_project_context = snapshot_file snap ''project_context.jsonl'', dk_meta = snapshot_file snap ''meta.jsonl'',
      dk_schema = snapshot_file snap ''schema.jsonl''\<rparr>"

definition restored_segments :: "directory \<Rightarrow> directory" where
  "restored_segments snap = map (\<lambda>(name, bytes). (drop 9 name, bytes)) (filter (\<lambda>(name, _). take 9 name = ''messages/'') snap)"

definition restored_journals :: "directory \<Rightarrow> store \<Rightarrow> store" where
  "restored_journals snap s =
     s\<lparr>st_eventsFile := snapshot_file snap ''memory_events.jsonl'', st_rotationsFile := snapshot_file snap ''key_rotations.jsonl''\<rparr>"

lemma copy_files_all:
  "copy_files sha copied sources snap entries = (snap', Inr entries') \<Longrightarrow>
     snap' = snap @ sources \<and> entries' = entries @ map (\<lambda>(name, bytes). copySnapshotFile sha name bytes) sources"
  by (induction sha copied sources snap entries arbitrary: snap' entries' rule: copy_files.induct) (auto split: if_splits)

lemma snapshot_file_sources:
  assumes exist: "\<forall>name \<in> set canonicalSnapshotFiles. data_file s d name \<noteq> '''' \<longrightarrow> zi_Exists io name"
    and name: "name \<in> set canonicalSnapshotFiles"
  shows "snapshot_file (snapshot_sources io s d) name = data_file s d name"
proof -
  have "take 9 name \<noteq> ''messages/''" using name by (auto simp: canonicalSnapshotFiles_def)
  then have seg: "map_of (snapshot_segments s) name = None"
    by (auto simp: map_of_eq_None_iff snapshot_segments_def)
  have "map_of (map (\<lambda>n. (n, data_file s d n)) (filter (zi_Exists io) names)) name = (if name \<in> set names \<and> zi_Exists io name then Some (data_file s d name) else None)"
    for names by (induction names) auto
  then show ?thesis using seg exist name by (auto simp: snapshot_file_def snapshot_sources_def map_add_def)
qed

lemma restored_segments_sources: "restored_segments (snapshot_sources io s d) = dir_listing s"
proof -
  have "filter (\<lambda>(name, _). take 9 name = ''messages/'') (map (\<lambda>name. (name, data_file s d name)) (filter (zi_Exists io) canonicalSnapshotFiles)) = []"
    by (auto simp: filter_empty_conv canonicalSnapshotFiles_def)
  moreover have "filter (\<lambda>(name, _). take 9 name = ''messages/'') (snapshot_segments s) = snapshot_segments s"
    by (rule filter_True) (auto simp: snapshot_segments_def)
  ultimately show ?thesis
    by (simp add: restored_segments_def snapshot_sources_def snapshot_segments_def comp_def case_prod_unfold)
qed

text \<open>C37: a snapshot that was created names every file it holds with its size and digest, and a data
  directory restored from it loads exactly as the one it was taken of: same tables, same journals, same archive, so same store.\<close>

theorem snapshot_restores:
  assumes made: "CreateSnapshot env cd rg bumped stop stops io dir snapshotDir s d = (s', d', snap, Inr result)"
    and exist: "\<forall>name \<in> set canonicalSnapshotFiles. data_file s' d' name \<noteq> '''' \<longrightarrow> zi_Exists io name"
  shows "zf_Files (zr_Manifest result) = map (\<lambda>(name, bytes). copySnapshotFile (env_sha env) name bytes) snap \<and>
    restored_disk snap = d' \<and> restored_segments snap = dir_listing s' \<and>
    store_load env cd (amb\<lparr>la_Segments := restored_segments snap\<rparr>) (restored_disk snap) (restored_journals snap start) =
    store_load env cd (amb\<lparr>la_Segments := dir_listing s'\<rparr>) d' (start\<lparr>st_eventsFile := st_eventsFile s', st_rotationsFile := st_rotationsFile s'\<rparr>)"
proof -
  have snap: "snap = snapshot_sources io s' d'"
    and files: "zf_Files (zr_Manifest result) = map (\<lambda>(name, bytes). copySnapshotFile (env_sha env) name bytes) snap"
    using made by (auto simp: CreateSnapshot_def Let_def split: prod.splits sum.splits if_splits dest!: copy_files_all)
  have restored: "snapshot_file snap name = data_file s' d' name" if "name \<in> set canonicalSnapshotFiles" for name
    unfolding snap by (rule snapshot_file_sources [OF exist that])
  have disk: "restored_disk snap = d'"
    by (simp add: restored_disk_def restored canonicalSnapshotFiles_def data_file_def)
  have journals: "restored_journals snap start = start\<lparr>st_eventsFile := st_eventsFile s', st_rotationsFile := st_rotationsFile s'\<rparr>"
    by (simp add: restored_journals_def restored canonicalSnapshotFiles_def data_file_def)
  have segments: "restored_segments snap = dir_listing s'" unfolding snap by (rule restored_segments_sources)
  show ?thesis using files disk journals segments by simp
qed

definition demo_snapshot_io :: snapshot_io where
  "demo_snapshot_io = \<lparr>zi_Exists = (\<lambda>_. True), zi_Made = True, zi_Copied = (\<lambda>_. True), zi_Finished = True, zi_Stamp = ''T'', zi_Fresh = ''u1'', zi_Now = 0\<rparr>"

theorem snapshot_restores_witness:
  "\<exists>s' d' snap result.
     CreateSnapshot demo_env sample_codecs sample_ranging [] Flushed [] demo_snapshot_io ''/data'' '''' sample_store marked_disk = (s', d', snap, Inr result) \<and>
     zr_SnapshotID result = ''T-u1'' \<and> dk_memories d' = ''M'' @ [newline] \<and> restored_disk snap = d'"
proof -
  have copies: "\<exists>snap entries. copy_files sha (\<lambda>_. True) sources snap0 entries0 = (snap, Inr entries)" for sha sources snap0 entries0
    by (induction sources arbitrary: snap0 entries0) auto
  obtain d' where flush: "flushAll demo_env sample_codecs sample_ranging [] sample_store marked_disk = (d', Inr ())"
    and mem: "dk_memories d' = memoriesJSONL sample_codecs sample_store (rg_memories sample_ranging)"
    using flushAll_files [of sample_store demo_env sample_codecs sample_ranging marked_disk] by (auto simp: sample_store_def empty_store_def)
  have "dk_memories d' = ''M'' @ [newline]"
    unfolding mem by (simp add: memoriesJSONL_def dump_table_def sample_ranging_def sample_codecs_def write_lines_def sort_by_def)
  moreover have all: "FlushAll demo_env sample_codecs sample_ranging [] Flushed [] sample_store marked_disk = (sample_store, d', Inr ())"
    using flush by (simp add: FlushAll_def flushAccessBumps_def Let_def)
  obtain snap entries where "copy_files (env_sha demo_env) (\<lambda>_. True) (snapshot_sources demo_snapshot_io sample_store d') [] [] = (snap, Inr entries)"
    using copies by blast
  then obtain result where made: "CreateSnapshot demo_env sample_codecs sample_ranging [] Flushed [] demo_snapshot_io ''/data'' '''' sample_store marked_disk =
      (sample_store, d', snap, Inr result)" "zr_SnapshotID result = ''T-u1''"
    by (simp add: CreateSnapshot_def all Let_def demo_snapshot_io_def)
  moreover have "restored_disk snap = d'" using snapshot_restores [OF made(1)] by (simp add: demo_snapshot_io_def)
  ultimately show ?thesis by blast
qed

end
