(* ===== verification/Csv_Reader.thy ===== *)
theory Csv_Reader
  imports Hash_Chain
begin

text \<open>
  \<open>encoding/csv\<close> as \<open>readCSV\<close> of \<open>lite/importer.go\<close> sets it up: lazy quotes, and any number of fields in a record.  Reading never fails and
  always ends; what an exporter writes reads back, but for carriage returns before a newline.
\<close>

section \<open>Reading CSV\<close>

abbreviation comma :: char where "comma \<equiv> CHR 0x2C"
abbreviation dquote :: char where "dquote \<equiv> CHR 0x22"
abbreviation carriage :: char where "carriage \<equiv> CHR 0x0D"

text \<open>\<open>Reader.readLine\<close>: a carriage return before the end of a line, or at the end of the input, is dropped; every line keeps its
  newline but a last one without.\<close>

definition drop_carriage :: "go_string \<Rightarrow> go_string" where
  "drop_carriage l = (if l \<noteq> [] \<and> last l = carriage then butlast l else l)"

fun csv_lines_from :: "go_string \<Rightarrow> go_string \<Rightarrow> go_string list" where
  "csv_lines_from cur [] = (if cur = [] then [] else [drop_carriage cur])"
| "csv_lines_from cur (c # cs) =
     (if c = newline then (drop_carriage cur @ [newline]) # csv_lines_from [] cs else csv_lines_from (cur @ [c]) cs)"

definition csv_lines :: "go_string \<Rightarrow> go_string list" where
  "csv_lines raw = csv_lines_from [] raw"

definition strip_newline :: "go_string \<Rightarrow> go_string" where
  "strip_newline l = (if l \<noteq> [] \<and> last l = newline then butlast l else l)"

text \<open>The rest of a record: \<open>line\<close> is what is left of the current line, \<open>ls\<close> are the lines after it, \<open>fs\<close> the fields so far, and
  \<open>open_field\<close> the part of a quoted field that was read.\<close>

function (sequential) csv_fields :: "go_string option \<Rightarrow> go_string \<Rightarrow> go_string list \<Rightarrow> go_string list \<Rightarrow> go_string list \<times> go_string list" where
  "csv_fields None line ls fs =
     (if line \<noteq> [] \<and> hd line = dquote then csv_fields (Some []) (tl line) ls fs
      else if comma \<in> set line
      then csv_fields None (tl (dropWhile (\<lambda>c. c \<noteq> comma) line)) ls (fs @ [takeWhile (\<lambda>c. c \<noteq> comma) line])
      else (fs @ [strip_newline line], ls))"
| "csv_fields (Some cur) line ls fs =
     (if dquote \<in> set line then
        (let before = takeWhile (\<lambda>c. c \<noteq> dquote) line; after = tl (dropWhile (\<lambda>c. c \<noteq> dquote) line) in
         if after \<noteq> [] \<and> hd after = dquote then csv_fields (Some (cur @ before @ [dquote])) (tl after) ls fs
         else if after \<noteq> [] \<and> hd after = comma then csv_fields None (tl after) ls (fs @ [cur @ before])
         else if after = [] \<or> after = [newline] then (fs @ [cur @ before], ls)
         else csv_fields (Some (cur @ before @ [dquote])) after ls fs)
      else if line \<noteq> [] then csv_fields (Some (cur @ line)) (case ls of [] \<Rightarrow> [] | l # _ \<Rightarrow> l) (tl ls) fs
      else (fs @ [cur], ls))"
  by pat_completeness auto

lemma length_after: "x \<in> set l \<Longrightarrow> length (tl (dropWhile (\<lambda>c. c \<noteq> x) l)) < length l"
  by (induction l) auto

termination csv_fields
proof (relation "measure (\<lambda>(_, line, ls, _). length line + sum_list (map length ls))", goal_cases)
  case (2 line ls fs)
  then show ?case by (cases line) auto
next
  case (3 line ls fs)
  then show ?case using length_after [of comma line] by simp
next
  case (4 cur line ls fs before after)
  then show ?case using length_after [of dquote line] by (cases after) auto
next
  case (5 cur line ls fs before after)
  then show ?case using length_after [of dquote line] by (cases after) auto
next
  case (6 cur line ls fs before after)
  then show ?case using length_after [of dquote line] by simp
next
  case (7 cur line ls fs)
  then show ?case by (cases ls) auto
qed simp

declare csv_fields.simps [simp del]

lemma csv_fields_rest: "csv_fields cur line ls fs = (r, ls') \<Longrightarrow> length ls' \<le> length ls"
proof (induction cur line ls fs arbitrary: r ls' rule: csv_fields.induct)
  case (1 line ls fs)
  from 1(3) show ?case
    by (subst (asm) csv_fields.simps) (use 1(1,2) in \<open>auto split: if_splits\<close>)
next
  case (2 cur line ls fs)
  from 2(5) show ?case
    by (subst (asm) csv_fields.simps) (use 2(1-4) in \<open>auto simp: Let_def le_diff_conv split: if_splits list.splits\<close>)
qed

text \<open>\<open>Reader.ReadAll\<close>: empty lines between the records are skipped.\<close>

function csv_rows :: "go_string list \<Rightarrow> go_string list list" where
  "csv_rows [] = []"
| "csv_rows (line # ls) =
     (if line = [] \<or> line = [newline] then csv_rows ls
      else (let (row, ls') = csv_fields None line ls [] in row # csv_rows ls'))"
  by pat_completeness auto
termination
  by (relation "measure length") (auto dest: csv_fields_rest [OF sym] simp: less_Suc_eq_le)

declare csv_rows.simps(2) [simp del]

section \<open>Reading a file\<close>

datatype csv_source = Csv_Missing | Csv_Unreadable | Csv_Bytes go_string

definition readCSV :: "csv_source \<Rightarrow> go_string list list res" where
  "readCSV src =
     (case src of
        Csv_Missing \<Rightarrow> Inr []
      | Csv_Unreadable \<Rightarrow> Inl ''read''
      | Csv_Bytes raw \<Rightarrow> (let rows = csv_rows (csv_lines raw) in Inr (if length rows < 2 then [] else tl rows)))"

section \<open>What an exporter writes\<close>

text \<open>A cell is written bare or in quotes with its own quotes doubled; a bare one holds neither comma nor newline and starts with no
  quote.  This is the form of \<open>COPY ... WITH (FORMAT csv)\<close>, which chooses the quotes.\<close>

type_synonym csv_cell = "bool \<times> go_string"

fun double_quotes :: "go_string \<Rightarrow> go_string" where
  "double_quotes [] = []"
| "double_quotes (c # cs) = (if c = dquote then dquote # dquote # double_quotes cs else c # double_quotes cs)"

fun cell_text :: "csv_cell \<Rightarrow> go_string" where
  "cell_text (q, f) = (if q then dquote # double_quotes f @ [dquote] else f)"

fun cell_ok :: "csv_cell \<Rightarrow> bool" where
  "cell_ok (q, f) \<longleftrightarrow> carriage \<notin> set f \<and> (q \<or> comma \<notin> set f \<and> newline \<notin> set f \<and> take 1 f \<noteq> [dquote])"

fun record_text :: "csv_cell list \<Rightarrow> go_string" where
  "record_text [] = [newline]"
| "record_text [c] = cell_text c @ [newline]"
| "record_text (c # c' # cs) = cell_text c @ comma # record_text (c' # cs)"

definition record_ok :: "csv_cell list \<Rightarrow> bool" where
  "record_ok cs \<longleftrightarrow> cs \<noteq> [] \<and> cs \<noteq> [(False, [])] \<and> list_all cell_ok cs"

definition csv_text :: "csv_cell list list \<Rightarrow> go_string" where
  "csv_text rows = concat (map record_text rows)"

text \<open>The lines of a text without carriage returns.\<close>

fun lines_of :: "go_string \<Rightarrow> go_string list" where
  "lines_of [] = []"
| "lines_of (c # t) =
     (if c = newline then [newline] # lines_of t else case lines_of t of [] \<Rightarrow> [[c]] | l # ls \<Rightarrow> (c # l) # ls)"

definition first_line :: "go_string \<Rightarrow> go_string" where
  "first_line t = (case lines_of t of [] \<Rightarrow> [] | l # _ \<Rightarrow> l)"

definition other_lines :: "go_string \<Rightarrow> go_string list" where
  "other_lines t = tl (lines_of t)"

lemma first_line_Nil [simp]: "first_line [] = []" "other_lines [] = []"
  by (simp_all add: first_line_def other_lines_def)

lemma first_line_Cons [simp]:
  "first_line (c # t) = (if c = newline then [newline] else c # first_line t)"
  "other_lines (c # t) = (if c = newline then lines_of t else other_lines t)"
  by (simp_all add: first_line_def other_lines_def split: list.split)

lemma first_line_append [simp]:
  "newline \<notin> set f \<Longrightarrow> first_line (f @ t) = f @ first_line t"
  "newline \<notin> set f \<Longrightarrow> other_lines (f @ t) = other_lines t"
  by (induction f) auto

lemma lines_of_split: "t \<noteq> [] \<Longrightarrow> lines_of t = first_line t # other_lines t"
  by (cases t) (auto simp: first_line_def other_lines_def split: list.split)

lemma lines_of_newline: "lines_of (newline # t) = [newline] # lines_of t"
  by simp

declare lines_of.simps(2) [simp del]

lemma csv_lines_lines_of: "carriage \<notin> set t \<Longrightarrow> csv_lines t = lines_of t"
proof -
  have "csv_lines_from cur t = (if cur = [] then lines_of t else if t = [] then [cur] else (cur @ first_line t) # other_lines t)"
    if "carriage \<notin> set (cur @ t)" for cur
    using that by (induction t arbitrary: cur) (auto simp: drop_carriage_def lines_of_split lines_of_newline dest: last_in_set)
  then show "carriage \<notin> set t \<Longrightarrow> csv_lines t = lines_of t" by (simp add: csv_lines_def)
qed

text \<open>The steps of the reader.\<close>

lemma span_until: "x \<notin> set f \<Longrightarrow> takeWhile (\<lambda>c. c \<noteq> x) (f @ x # l) = f \<and> dropWhile (\<lambda>c. c \<noteq> x) (f @ x # l) = x # l"
  by (induction f) auto

lemma read_bare:
  assumes "comma \<notin> set f" "take 1 f \<noteq> [dquote]"
  shows "csv_fields None (f @ comma # line) ls fs = csv_fields None line ls (fs @ [f])"
    and "csv_fields None (f @ [newline]) ls fs = (fs @ [f], ls)"
proof -
  have start: "hd (f @ c # l) \<noteq> dquote" if "c \<noteq> dquote" for c l using assms(2) that by (cases f) auto
  show "csv_fields None (f @ comma # line) ls fs = csv_fields None line ls (fs @ [f])"
    unfolding csv_fields.simps(1) [of "f @ comma # line"] using assms(1) start [of comma line] by (simp add: span_until del: hd_append hd_append2)
  show "csv_fields None (f @ [newline]) ls fs = (fs @ [f], ls)"
    unfolding csv_fields.simps(1) [of "f @ [newline]"] using assms(1) start [of newline "[]"]
    by (simp add: strip_newline_def del: hd_append hd_append2)
qed

lemma read_quote: "csv_fields None (dquote # line) ls fs = csv_fields (Some []) line ls fs"
  unfolding csv_fields.simps(1) [of "dquote # line"] by simp

lemma read_char:
  "c \<noteq> dquote \<Longrightarrow> line \<noteq> [] \<Longrightarrow> csv_fields (Some cur) (c # line) ls fs = csv_fields (Some (cur @ [c])) line ls fs"
  unfolding csv_fields.simps(2) [of cur "c # line"] csv_fields.simps(2) [of "cur @ [c]" line] by (simp add: Let_def)

lemma read_newline:
  "csv_fields (Some cur) [newline] ls fs = csv_fields (Some (cur @ [newline])) (case ls of [] \<Rightarrow> [] | l # _ \<Rightarrow> l) (tl ls) fs"
  unfolding csv_fields.simps(2) [of cur "[newline]"] by simp

lemma read_doubled: "csv_fields (Some cur) (dquote # dquote # line) ls fs = csv_fields (Some (cur @ [dquote])) line ls fs"
  unfolding csv_fields.simps(2) [of cur "dquote # dquote # line"] by simp

lemma read_closing:
  "csv_fields (Some cur) (dquote # comma # line) ls fs = csv_fields None line ls (fs @ [cur])"
  "csv_fields (Some cur) [dquote, newline] ls fs = (fs @ [cur], ls)"
  unfolding csv_fields.simps(2) [of cur "dquote # comma # line"] csv_fields.simps(2) [of cur "[dquote, newline]"] by simp_all

lemma read_quoted:
  "t \<noteq> [] \<Longrightarrow> csv_fields (Some cur) (first_line (double_quotes f @ dquote # t)) (other_lines (double_quotes f @ dquote # t)) fs =
     csv_fields (Some (cur @ f)) (dquote # first_line t) (other_lines t) fs"
proof (induction f arbitrary: cur)
  case (Cons c f)
  let ?t = "double_quotes f @ dquote # t"
  have rest: "first_line ?t \<noteq> []" "lines_of ?t = first_line ?t # other_lines ?t" by (cases f; simp add: lines_of_split)+
  have IH: "csv_fields (Some (cur @ [c])) (first_line ?t) (other_lines ?t) fs = csv_fields (Some (cur @ c # f)) (dquote # first_line t) (other_lines t) fs"
    using Cons.IH [of "cur @ [c]"] Cons.prems by simp
  show ?case
  proof (cases "c = dquote \<or> c = newline")
    case True
    then show ?thesis using IH rest by (elim disjE) (simp_all add: read_doubled read_newline)
  next
    case False
    then show ?thesis using IH rest(1) by (simp add: read_char)
  qed
qed simp

lemma csv_read_cell:
  assumes "cell_ok c"
  shows "csv_fields None (first_line (cell_text c @ comma # t)) (other_lines (cell_text c @ comma # t)) fs =
      csv_fields None (first_line t) (other_lines t) (fs @ [snd c])"
    and "csv_fields None (first_line (cell_text c @ newline # t)) (other_lines (cell_text c @ newline # t)) fs = (fs @ [snd c], lines_of t)"
proof -
  obtain q f where c: "c = (q, f)" by (cases c)
  show "csv_fields None (first_line (cell_text c @ comma # t)) (other_lines (cell_text c @ comma # t)) fs =
      csv_fields None (first_line t) (other_lines t) (fs @ [snd c])"
    using assms by (cases q) (simp_all add: c read_bare read_quote read_quoted read_closing)
  show "csv_fields None (first_line (cell_text c @ newline # t)) (other_lines (cell_text c @ newline # t)) fs = (fs @ [snd c], lines_of t)"
    using assms by (cases q) (simp_all add: c read_bare read_quote read_quoted read_closing)
qed

lemma csv_read_record:
  "cs \<noteq> [] \<Longrightarrow> list_all cell_ok cs \<Longrightarrow>
     csv_fields None (first_line (record_text cs @ t)) (other_lines (record_text cs @ t)) fs = (fs @ map snd cs, lines_of t)"
  by (induction cs arbitrary: fs rule: record_text.induct) (simp_all add: csv_read_cell)

lemma record_starts:
  assumes "record_ok cs"
  shows "record_text cs @ t \<noteq> []" "first_line (record_text cs @ t) \<noteq> []" "first_line (record_text cs @ t) \<noteq> [newline]"
proof -
  have "\<exists>c u. record_text cs = c # u \<and> c \<noteq> newline"
  proof (cases cs rule: record_text.cases)
    case (2 c)
    then show ?thesis using assms by (cases c; cases "snd c") (auto simp: record_ok_def split: if_splits)
  next
    case (3 c c' cs')
    then show ?thesis using assms by (cases c; cases "snd c") (auto simp: record_ok_def split: if_splits)
  qed (use assms in \<open>simp add: record_ok_def\<close>)
  then show "record_text cs @ t \<noteq> []" "first_line (record_text cs @ t) \<noteq> []" "first_line (record_text cs @ t) \<noteq> [newline]" by auto
qed

lemma csv_read_rows: "list_all record_ok rows \<Longrightarrow> csv_rows (lines_of (csv_text rows)) = map (map snd) rows"
proof (induction rows)
  case (Cons cs rows)
  have cs: "record_ok cs" and rest: "csv_rows (lines_of (csv_text rows)) = map (map snd) rows" using Cons by simp_all
  have split: "csv_text (cs # rows) = record_text cs @ csv_text rows" by (simp add: csv_text_def)
  have "csv_fields None (first_line (csv_text (cs # rows))) (other_lines (csv_text (cs # rows))) [] = (map snd cs, lines_of (csv_text rows))"
    using cs csv_read_record [of cs "csv_text rows" "[]"] by (simp add: split record_ok_def)
  then show ?case using record_starts [OF cs, of "csv_text rows"] rest lines_of_split [of "csv_text (cs # rows)"]
    by (simp only: split) (simp add: csv_rows.simps(2))
qed (simp add: csv_text_def)

lemma no_carriage: "list_all cell_ok cs \<Longrightarrow> carriage \<notin> set (record_text cs)"
proof -
  have "carriage \<notin> set (double_quotes f)" if "carriage \<notin> set f" for f using that by (induction f) auto
  then have "cell_ok c \<Longrightarrow> carriage \<notin> set (cell_text c)" for c by (cases c) auto
  then show "list_all cell_ok cs \<Longrightarrow> carriage \<notin> set (record_text cs)" by (induction cs rule: record_text.induct) auto
qed

text \<open>C35: whatever an exporter writes, with cells quoted where they need it and with commas, quotes and newlines
  inside them, is read back cell by cell, unless a cell holds a carriage return.\<close>

theorem csv_round_trip:
  "list_all record_ok (header # rows) \<Longrightarrow> readCSV (Csv_Bytes (csv_text (header # rows))) = Inr (map (map snd) rows)"
proof -
  assume ok: "list_all record_ok (header # rows)"
  have "carriage \<notin> set (csv_text (header # rows))" using ok no_carriage by (auto simp: csv_text_def list_all_iff record_ok_def)
  then have "csv_rows (csv_lines (csv_text (header # rows))) = map (map snd) (header # rows)"
    using csv_read_rows [OF ok] by (simp add: csv_lines_lines_of)
  then show ?thesis by (simp add: readCSV_def Let_def)
qed

definition quoted_cell :: go_string where
  "quoted_cell = ''say '' @ [dquote] @ ''a, b'' @ [dquote, newline] @ ''twice''"

theorem csv_round_trip_witness:
  "readCSV (Csv_Bytes (csv_text [[(False, ''id''), (False, ''content'')], [(False, ''m1''), (True, quoted_cell)]])) = Inr [[''m1'', quoted_cell]]"
  by (subst csv_round_trip) (code_simp, simp)

text \<open>A carriage return before a newline does not survive, even in quotes: the content of the row is no longer the one its hash was taken of.\<close>

lemma csv_loses_carriage:
  "readCSV (Csv_Bytes (csv_text [[(False, ''content'')], [(True, ''a'' @ [carriage, newline] @ ''b'')]])) = Inr [[''a'' @ [newline] @ ''b'']]"
  by code_simp

end
