(* ===== verification/Legacy_Import.thy ===== *)
theory Legacy_Import
  imports Csv_Reader Index_Upkeep Query_Cache Message_Example
begin

text \<open>
  The import of \<open>lite/importer.go\<close>: the CSV exports of the older daemon, become rows of the maps, and one flush writes them.  The parsers of \<open>time\<close> and of floating point numbers are parameters.
\<close>

section \<open>Values\<close>

record import_env =
  ie_Parse :: "go_string \<Rightarrow> go_string \<Rightarrow> time option"
  ie_Float :: "go_string \<Rightarrow> real"

definition parseTime :: "import_env \<Rightarrow> go_string \<Rightarrow> time" where
  "parseTime ie value =
     (if value = '''' then 0
      else case find (\<lambda>t. t \<noteq> None) (map (\<lambda>layout. ie_Parse ie layout value)
          [''2006-01-02T15:04:05.999999999Z07:00'', ''2006-01-02T15:04:05Z07:00'', ''2006-01-02 15:04:05.999999-07'', ''2006-01-02 15:04:05-07'']) of
        Some (Some t) \<Rightarrow> t
      | _ \<Rightarrow> 0)"

abbreviation null_value :: go_string where "null_value \<equiv> CHR 0x5C # ''N''"

definition atoi64 :: "go_string \<Rightarrow> int" where
  "atoi64 value = (if value = '''' \<or> value = null_value \<or> value = ''NULL'' then 0 else atoi_value value)"

definition atof :: "import_env \<Rightarrow> go_string \<Rightarrow> real" where
  "atof ie value = (if value = '''' \<or> value = null_value \<or> value = ''NULL'' then 0 else ie_Float ie value)"

definition detectPolicy :: "go_string \<Rightarrow> bool \<times> bool" where
  "detectPolicy content = (detectSecretLike content, detectInstructionLike content)"

section \<open>Rows\<close>

definition session_of_csv :: "import_env \<Rightarrow> go_string list \<Rightarrow> session_row" where
  "session_of_csv ie row =
     \<lparr>sr_SessionID = row ! 0, sr_ClientKey = row ! 1, sr_ExternalSessionID = row ! 2, sr_Title = row ! 3, sr_ProjectKey = row ! 4,
      sr_StartedAt = parseTime ie (row ! 5), sr_LastActivityAt = parseTime ie (row ! 6), sr_CreatedAt = parseTime ie (row ! 7), sr_Seq = 0\<rparr>"

definition message_of_csv :: "import_env \<Rightarrow> go_string list \<Rightarrow> message_row" where
  "message_of_csv ie row =
     (let flags = (if row ! 3 = ''user'' then detectPolicy (row ! 5) else (False, False)) in
      \<lparr>ms_SchemaVersion = 0, ms_MessageID = row ! 0, ms_SessionID = row ! 1, ms_ExternalMessageID = row ! 2, ms_Role = row ! 3,
       ms_ContentType = row ! 4, ms_Content = row ! 5, ms_ContentHash = row ! 6, ms_ExactContentHash = '''', ms_MessageSeq = 0, ms_TurnSeq = 0,
       ms_OccurredAt = parseTime ie (row ! 7), ms_CreatedAt = parseTime ie (row ! 8), ms_SecretLike = fst flags, ms_InstructionLike = snd flags,
       ms_Sensitivity = ''NORMAL'', ms_AssistantID = '''', ms_AssistantName = '''', ms_PreviousRecordHash = '''', ms_RecordHash = ''''\<rparr>)"

definition memory_of_csv :: "import_env \<Rightarrow> go_string list \<Rightarrow> memory_row" where
  "memory_of_csv ie row =
     (let accessed = row ! 16 in
      \<lparr>mm_SchemaVersion = 0, mm_MemoryID = row ! 0, mm_Kind = row ! 1, mm_Subject = row ! 2, mm_Content = row ! 3, mm_ContentHash = row ! 4,
       mm_Lifecycle = row ! 5, mm_EpistemicStatus = row ! 6, mm_Confidence = 1, mm_Importance = ie_Float ie (row ! 8), mm_Sensitivity = row ! 9,
       mm_SecretLike = False, mm_InstructionLike = False, mm_StateVersion = 0, mm_SupersedesMemoryID = row ! 10,
       mm_CreatedAt = parseTime ie (row ! 11), mm_UpdatedAt = parseTime ie (row ! 12), mm_ScopeType = row ! 13, mm_ProjectKey = row ! 14,
       mm_AccessCount = atoi64 (row ! 15),
       mm_LastAccessedAt = (if accessed \<noteq> '''' \<and> accessed \<noteq> null_value \<and> accessed \<noteq> ''NULL'' then Some (parseTime ie accessed) else None),
       mm_Activation = atof ie (row ! 17), mm_Disputed = False, mm_RepeatCount = 0, mm_LastUsedSeq = 0\<rparr>)"

definition identity_of_csv :: "go_string list \<Rightarrow> proposal_identity" where
  "identity_of_csv row =
     \<lparr>pi_ClientKey = row ! 1, pi_SessionID = row ! 2, pi_MessageID = row ! 3, pi_Mutation = row ! 4, pi_TargetMemoryID = row ! 5,
      pi_ProposedKind = row ! 6, pi_Scope = row ! 15, pi_ProjectKey = row ! 16, pi_Subject = row ! 7, pi_Replacement = row ! 8,
      pi_RequestEvidenceHash = '''', pi_EvidenceContentHash = '''', pi_Evidence = None\<rparr>"

definition proposal_of_csv :: "import_env \<Rightarrow> go_string list \<Rightarrow> proposal" where
  "proposal_of_csv ie row =
     \<lparr>pr_ID = row ! 0, pr_RequestHash = row ! 13, pr_ReasonCode = row ! 10, pr_AppliedMemoryID = '''', pr_GateClass = '''',
      pr_Identity = identity_of_csv row, pr_Status = row ! 9, pr_CreatedAt = parseTime ie (row ! 11),
      pr_ResolvedAt = (if row ! 12 \<noteq> '''' \<and> row ! 12 \<noteq> null_value then Some (parseTime ie (row ! 12)) else None)\<rparr>"

definition continuity_of_csv :: "import_env \<Rightarrow> go_string list \<Rightarrow> continuity_row" where
  "continuity_of_csv ie row =
     \<lparr>cr_RevisionNumber = atoi64 (row ! 0), cr_EventID = row ! 1, cr_ChangeKind = row ! 2, cr_TargetKind = row ! 3, cr_TargetID = row ! 4,
      cr_RelatedTargetID = row ! 5, cr_ProjectKey = row ! 6, cr_Sensitivity = row ! 7, cr_TraceID = row ! 8, cr_SafeMetadataJSON = row ! 9,
      cr_CreatedAt = parseTime ie (row ! 10)\<rparr>"

text \<open>The text of a cited message is taken from the messages imported before.\<close>

definition evidence_of_csv :: "import_env \<Rightarrow> store \<Rightarrow> go_string list \<Rightarrow> evidence_row" where
  "evidence_of_csv ie s row =
     (let cited = st_messages s (row ! 1) in
      \<lparr>er_MemoryID = row ! 0, er_MessageID = row ! 1, er_QuoteHash = row ! 2, er_QuoteStart = atoi64 (row ! 3), er_QuoteEnd = atoi64 (row ! 4),
       er_Relation = row ! 5, er_CreatedAt = parseTime ie (row ! 6),
       er_MessageContent = (case cited of None \<Rightarrow> '''' | Some m \<Rightarrow> ms_Content m),
       er_OccurredAt = (case cited of None \<Rightarrow> 0 | Some m \<Rightarrow> ms_OccurredAt m)\<rparr>)"

definition project_of_csv :: "import_env \<Rightarrow> go_string list \<Rightarrow> project_context_row" where
  "project_of_csv ie row =
     \<lparr>pc_RevisionID = row ! 0, pc_ProjectKey = row ! 1, pc_Revision = atoi64 (row ! 2), pc_Objective = row ! 3, pc_CurrentState = row ! 4,
      pc_Decisions = row ! 5, pc_OpenQuestions = row ! 6, pc_NextActions = row ! 7, pc_Sensitivity = row ! 8,
      pc_IsCurrent = (row ! 9 = ''t'' \<or> row ! 9 = ''true'' \<or> row ! 9 = ''1''), pc_CreatedAt = parseTime ie (row ! 10)\<rparr>"

section \<open>The import\<close>

text \<open>The loop of an importer: rows with too few columns are passed over.\<close>

definition import_rows :: "csv_source \<Rightarrow> nat \<Rightarrow> (go_string list \<Rightarrow> store \<Rightarrow> store) \<Rightarrow> store \<Rightarrow> store res" where
  "import_rows src n put s = bindE (readCSV src) (\<lambda>rows. Inr (fold (\<lambda>row s. if length row < n then s else put row s) rows s))"

definition importSessions :: "import_env \<Rightarrow> csv_source \<Rightarrow> store \<Rightarrow> store res" where
  "importSessions ie src s = import_rows src 12 (\<lambda>row. put_session (session_of_csv ie row)) s"

definition importMessages :: "import_env \<Rightarrow> csv_source \<Rightarrow> store \<Rightarrow> store res" where
  "importMessages ie src s =
     import_rows src 11 (\<lambda>row s. s\<lparr>st_messages := (st_messages s)(row ! 0 \<mapsto> message_of_csv ie row)\<rparr>) s"

definition importMemories :: "import_env \<Rightarrow> csv_source \<Rightarrow> store \<Rightarrow> store res" where
  "importMemories ie src s =
     import_rows src 18 (\<lambda>row s. s\<lparr>st_memories := (st_memories s)(row ! 0 \<mapsto> memory_of_csv ie row)\<rparr>) s"

definition importProposals :: "import_env \<Rightarrow> csv_source \<Rightarrow> store \<Rightarrow> store res" where
  "importProposals ie src s =
     import_rows src 17 (\<lambda>row s.
       let p = proposal_of_csv ie row in
       s\<lparr>st_proposals := (st_proposals s)(pr_ID p \<mapsto> p),
         st_proposalsHash := (if pr_RequestHash p \<noteq> '''' then (st_proposalsHash s)(pr_RequestHash p \<mapsto> pr_ID p) else st_proposalsHash s)\<rparr>) s"

definition importContinuity :: "import_env \<Rightarrow> csv_source \<Rightarrow> store \<Rightarrow> store res" where
  "importContinuity ie src s =
     import_rows src 11 (\<lambda>row s. s\<lparr>st_continuity := st_continuity s @ [continuity_of_csv ie row]\<rparr>) s"

definition importEvidence :: "import_env \<Rightarrow> csv_source \<Rightarrow> store \<Rightarrow> store res" where
  "importEvidence ie src s =
     import_rows src 7 (\<lambda>row s. s\<lparr>st_evidence := (st_evidence s)(row ! 0 := st_evidence s (row ! 0) @ [evidence_of_csv ie s row])\<rparr>) s"

definition importProjectContext :: "import_env \<Rightarrow> csv_source \<Rightarrow> store \<Rightarrow> store res" where
  "importProjectContext ie src s = import_rows src 11 (\<lambda>row. put_project (project_of_csv ie row)) s"

definition HasData :: "store \<Rightarrow> bool" where
  "HasData s \<longleftrightarrow> dom (st_sessions s) \<noteq> {} \<or> dom (st_messages s) \<noteq> {} \<or> dom (st_memories s) \<noteq> {}"

text \<open>\<open>ImportCSV\<close>: \<open>dir\<close> gives what opening a file of the export finds, \<open>rg\<close> ranges over the maps of the store that is flushed.\<close>

definition import_all :: "import_env \<Rightarrow> (go_string \<Rightarrow> csv_source) \<Rightarrow> store \<Rightarrow> store res" where
  "import_all ie dir s =
     bindE (importSessions ie (dir ''sessions.csv'') s) (\<lambda>s. bindE (importMessages ie (dir ''messages.csv'') s) (\<lambda>s.
     bindE (importMemories ie (dir ''memories.csv'') s) (\<lambda>s. bindE (importProposals ie (dir ''proposals.csv'') s) (\<lambda>s.
     bindE (importContinuity ie (dir ''continuity.csv'') s) (\<lambda>s. bindE (importEvidence ie (dir ''evidence.csv'') s) (\<lambda>s.
     importProjectContext ie (dir ''project_context.csv'') s))))))"

definition ImportCSV ::
    "env \<Rightarrow> row_codecs \<Rightarrow> import_env \<Rightarrow> (go_string \<Rightarrow> csv_source) \<Rightarrow> (store \<Rightarrow> ranging) \<Rightarrow> flush_stop list \<Rightarrow> store \<Rightarrow> disk \<Rightarrow> disk \<times> store res" where
  "ImportCSV env cd ie dir rg stops s d =
     (case import_all ie dir s of
        Inl err \<Rightarrow> (d, Inl err)
      | Inr s \<Rightarrow> (case flushAll env cd (rg s) stops s d of (d, Inl err) \<Rightarrow> (d, Inl err) | (d, Inr _) \<Rightarrow> (d, Inr s)))"

section \<open>What an import does\<close>

text \<open>An import fills the nine maps and nothing else; it neither touches the index nor the archive of messages.\<close>

definition unimported :: "store \<Rightarrow> store" where
  "unimported s = s\<lparr>st_sessions := Map.empty, st_sessionsExt := Map.empty, st_messages := Map.empty, st_memories := Map.empty,
     st_evidence := (\<lambda>_. []), st_proposals := Map.empty, st_proposalsHash := Map.empty, st_continuity := [], st_projectCtx := Map.empty\<rparr>"

lemma import_rows_keeps:
  "(\<And>row s. f (put row s) = f s) \<Longrightarrow> import_rows src n put s = Inr s' \<Longrightarrow> f s' = f s"
proof -
  assume keeps: "\<And>row s. f (put row s) = f s"
  have "f (fold (\<lambda>row s. if length row < n then s else put row s) rows s) = f s" for rows
    by (induction rows arbitrary: s) (simp_all add: keeps)
  then show "import_rows src n put s = Inr s' \<Longrightarrow> f s' = f s" by (auto simp: import_rows_def bindE_eq_Inr_iff)
qed

lemmas import_defs = importSessions_def importMessages_def importMemories_def importProposals_def importContinuity_def importEvidence_def
  importProjectContext_def

lemma unimported_fields [simp]:
  "st_Index (unimported s) = st_Index s" "st_lowRAM (unimported s) = st_lowRAM s" "st_segments (unimported s) = st_segments s"
  "st_messageSegment (unimported s) = st_messageSegment s" "st_messages (unimported s) = Map.empty"
  by (simp_all add: unimported_def)

lemma import_frame:
  assumes "import_all ie dir s = Inr s'"
  shows "unimported s' = unimported s"
proof -
  have keeps: "import_rows src n put s = Inr s' \<Longrightarrow> (\<And>row s. unimported (put row s) = unimported s) \<Longrightarrow> unimported s' = unimported s"
    for src n put s s' by (rule import_rows_keeps)
  have steps:
    "importSessions ie src s = Inr s' \<Longrightarrow> unimported s' = unimported s" "importMessages ie src s = Inr s' \<Longrightarrow> unimported s' = unimported s"
    "importMemories ie src s = Inr s' \<Longrightarrow> unimported s' = unimported s" "importProposals ie src s = Inr s' \<Longrightarrow> unimported s' = unimported s"
    "importContinuity ie src s = Inr s' \<Longrightarrow> unimported s' = unimported s" "importEvidence ie src s = Inr s' \<Longrightarrow> unimported s' = unimported s"
    "importProjectContext ie src s = Inr s' \<Longrightarrow> unimported s' = unimported s" for src s s'
    unfolding import_defs by (erule keeps; simp add: unimported_def put_session_def put_project_def Let_def)+
  show ?thesis using assms by (auto simp: import_all_def dest!: steps)
qed

lemma inserted_unimported: "inserted_row env (unimported s) sessionID m fresh now = inserted_row env s sessionID m fresh now"
  by (simp add: inserted_row_def new_message_row_def seal_record_def unimported_def)

lemma append_unimported:
  assumes "appendMessageRecord env s row io = (s', r)"
  shows "appendMessageRecord env (unimported s) row io = (unimported s', r)"
proof -
  have "target_segment (unimported s) line = target_segment s line" "seal_record env (unimported s) row = seal_record env s row" for line
    by (simp_all add: target_segment_def seal_record_def unimported_def)
  then show ?thesis using assms
    by (auto simp: appendMessageRecord_def Let_def unimported_def split: prod.splits if_splits)
qed

lemma insert_appends:
  assumes "InsertMessage env s sessionID m None fresh now Appended = (s', r)"
  shows "st_segments s' = st_segments (fst (appendMessageRecord env s (new_message_row env s sessionID m fresh now) Appended))"
    and "st_messageSegment s' = st_messageSegment (fst (appendMessageRecord env s (new_message_row env s sessionID m fresh now) Appended))"
  using assms by (auto simp: InsertMessage_def Let_def split: prod.splits sum.splits)

text \<open>C36: the imported messages are in the maps and in \<open>messages.jsonl\<close> only.  As soon as one new
  message was archived, a segment of the journal exists, and the next start reads the segments alone: every imported message is gone.\<close>

theorem imported_messages_lost:
  assumes imported: "import_all ie dir ((empty_store key)\<lparr>st_Index := ix\<rparr>) = Inr s" "st_messages s mid = Some old"
    and inserted: "InsertMessage env s sessionID m None fresh now Appended = (s', r)" "fresh \<noteq> mid"
    and codec: "message_codec_ok env [inserted_row env s sessionID m fresh now]"
  shows "st_messages s' mid = Some old \<and>
    (\<exists>s''. loadMessages env (empty_store key) (dir_listing s') raw ids = Inr s'' \<and> st_messages s'' fresh \<noteq> None \<and> st_messages s'' mid = None)"
proof -
  let ?u = "unimported s" and ?row = "inserted_row env s sessionID m fresh now"
  have "unimported s = unimported ((empty_store key)\<lparr>st_Index := ix\<rparr>)" using import_frame [OF imported(1)] .
  also have "\<dots> = (empty_store key)\<lparr>st_Index := ix\<rparr>" by (simp add: unimported_def empty_store_def)
  finally have u: "unimported s = (empty_store key)\<lparr>st_Index := ix\<rparr>" .
  have inv: "archive_inv env ?u []" unfolding u using archive_inv_empty [of env key] by (simp add: archive_inv_def)
  have row: "inserted_row env ?u sessionID m fresh now = ?row"
    by (rule inserted_unimported)
  obtain u' r' where ins: "InsertMessage env ?u sessionID m None fresh now Appended = (u', r')" by (cases "InsertMessage env ?u sessionID m None fresh now Appended")
  have new: "new_message_row env ?u sessionID m fresh now = new_message_row env s sessionID m fresh now"
    by (simp add: new_message_row_def unimported_def)
  have same: "st_segments u' = st_segments s'" "st_messageSegment u' = st_messageSegment s'"
    using insert_appends [OF inserted(1)] insert_appends [OF ins] append_unimported [OF surjective_pairing]
    by (simp_all add: new)
  obtain rss where rss: "archive_inv env u' rss" "concat rss = [?row]" using archive_inv_insert [OF inv ins] row by auto
  have listing: "dir_listing s' = files_of env 1 rss ''''"
    using rss(1) unfolding dir_listing_def files_of_map
    by (auto simp: same [symmetric] archive_inv_def segment_map_def intro!: map_cong)
  have "rss \<noteq> []" using rss(2) by auto
  then obtain s'' where load: "loadMessageSegments env (empty_store key) (files_of env 1 rss '''') = Inr s''" "st_messages s'' = st_messages u'"
    using load_listing [OF rss(1) _ _ refl, of "''''" key] codec rss(2) by auto
  have "ms_MessageID ?row = fresh" by (simp add: inserted_row_def new_message_row_def)
  then have "st_messages u' = [fresh \<mapsto> ?row]" using rss by (simp add: archive_inv_def put_row_def)
  moreover have "files_of env 1 rss '''' \<noteq> []" using \<open>rss \<noteq> []\<close> by (simp add: files_of_map Suc_le_eq)
  ultimately have "loadMessages env (empty_store key) (dir_listing s') raw ids = Inr s'' \<and> st_messages s'' fresh \<noteq> None \<and> st_messages s'' mid = None"
    using load inserted(2) listing by (simp add: loadMessages_def)
  moreover have "st_messages s' mid = Some old"
    using inserted imported(2) by (auto simp: InsertMessage_def appendMessageRecord_def append_file_def Let_def)
  ultimately show ?thesis by blast
qed

text \<open>An export with one message of the assistant.\<close>

definition demo_import_env :: import_env where
  "demo_import_env = \<lparr>ie_Parse = (\<lambda>_ _. None), ie_Float = (\<lambda>_. 1)\<rparr>"

definition demo_cells :: "go_string list" where
  "demo_cells = [''m1'', ''s1'', ''e1'', ''assistant'', ''text'', ''hello'', ''h'', '''', '''', '''', '''']"

definition demo_export :: "go_string \<Rightarrow> csv_source" where
  "demo_export name =
     (if name = ''messages.csv'' then Csv_Bytes (csv_text [[(False, ''message_id'')], map (Pair False) demo_cells]) else Csv_Missing)"

lemma demo_messages: "readCSV (demo_export ''messages.csv'') = Inr [demo_cells]"
  by code_simp

lemma demo_absent: "name \<noteq> ''messages.csv'' \<Longrightarrow> readCSV (demo_export name) = Inr []"
  by (simp add: demo_export_def readCSV_def)

lemma demo_imported:
  "\<exists>s. import_all ie demo_export ((empty_store ''k'')\<lparr>st_Index := ix\<rparr>) = Inr s \<and> st_messages s = [''m1'' \<mapsto> message_of_csv ie demo_cells]"
proof -
  have "length demo_cells = 11" "demo_cells ! 0 = ''m1''" by (simp_all add: demo_cells_def)
  then have "importMessages ie (demo_export ''messages.csv'') s =
      Inr (s\<lparr>st_messages := (st_messages s)(''m1'' \<mapsto> message_of_csv ie demo_cells)\<rparr>)" for s
    by (simp add: importMessages_def import_rows_def demo_messages)
  then show ?thesis
    by (simp add: import_all_def importSessions_def importMemories_def importProposals_def importContinuity_def importEvidence_def
        importProjectContext_def import_rows_def demo_absent empty_store_def)
qed

theorem imported_messages_lost_witness:
  "\<exists>s s' s''. import_all demo_import_env demo_export ((empty_store ''k'')\<lparr>st_Index := empty_index\<rparr>) = Inr s \<and> st_messages s ''m1'' \<noteq> None \<and>
     InsertMessage demo_menv s ''S'' demo_message None ''g1'' 2 Appended = (s', Inr (''g1'', False)) \<and>
     loadMessages demo_menv (empty_store ''k'') (dir_listing s') '''' [] = Inr s'' \<and> st_messages s'' ''m1'' = None"
proof -
  obtain s where s: "import_all demo_import_env demo_export ((empty_store ''k'')\<lparr>st_Index := empty_index\<rparr>) = Inr s"
    and old: "st_messages s ''m1'' = Some (message_of_csv demo_import_env demo_cells)" using demo_imported by (metis fun_upd_same)
  have "unimported s = (empty_store ''k'')\<lparr>st_Index := empty_index\<rparr>"
    using import_frame [OF s] by (simp add: unimported_def empty_store_def)
  then have "inserted_row demo_menv s ''S'' demo_message ''g1'' 2 = inserted_row demo_menv ((empty_store ''k'')\<lparr>st_Index := empty_index\<rparr>) ''S'' demo_message ''g1'' 2"
    using inserted_unimported [of demo_menv s "''S''" demo_message "''g1''" 2] by simp
  also have "\<dots> = demo_mrow"
    unfolding demo_mrow_eq [symmetric] by (simp add: inserted_row_def new_message_row_def seal_record_def)
  finally have row: "inserted_row demo_menv s ''S'' demo_message ''g1'' 2 = demo_mrow" .
  obtain s' where ins: "InsertMessage demo_menv s ''S'' demo_message None ''g1'' 2 Appended = (s', Inr (''g1'', False))"
    by (fastforce simp: InsertMessage_def appendMessageRecord_def append_file_def Let_def split: prod.splits)
  show ?thesis using imported_messages_lost [OF s old ins] s old ins demo_mcodec row by auto
qed

end
