(* ===== verification/Daemon_Start.thy ===== *)
theory Daemon_Start
  imports Legacy_Import Health_Example Server_Mutation
begin

text \<open>
  The start of the daemon, \<open>cmd/mindmoryd-lite/main.go\<close> with \<open>NewServer\<close> of \<open>lite/server.go\<close>: the one-shot commands, the import of an
  older export, the low-RAM mode, and the conditions under which it serves.  Opening the store, the commands themselves, the splitting
  of an address and the parsing of durations are parameters; they are modelled or listed elsewhere.
\<close>

section \<open>Commands\<close>

datatype daemon_mode = Verify_Mode | Status_Mode | Rotate_Mode | Rebuild_Mode | Sync_Mode | Serve_Mode

definition daemon_mode :: "go_string list \<Rightarrow> daemon_mode" where
  "daemon_mode args =
     (if ''--verify-vectors'' \<in> set args then Verify_Mode
      else if ''--vector-status'' \<in> set args then Status_Mode
      else if ''--rotate-integrity-key'' \<in> set args then Rotate_Mode
      else if ''--rebuild-index'' \<in> set args then Rebuild_Mode
      else if ''--embed'' \<in> set args \<or> ''--sync-vectors'' \<in> set args then Sync_Mode
      else Serve_Mode)"

record daemon_env =
  dn_Settings :: settings_env
  dn_Lookup :: lookup
  dn_SplitHostPort :: "go_string \<Rightarrow> go_string option"
  dn_Exchange :: "embed_request \<Rightarrow> embed_reply"

definition envOr :: "lookup \<Rightarrow> go_string \<Rightarrow> go_string \<Rightarrow> go_string" where
  "envOr lookup key fallback = (case lookup key of Some v \<Rightarrow> if v \<noteq> '''' then v else fallback | None \<Rightarrow> fallback)"

definition loopbackAddress :: "daemon_env \<Rightarrow> go_string \<Rightarrow> bool" where
  "loopbackAddress env address =
     (case dn_SplitHostPort env address of None \<Rightarrow> False | Some host \<Rightarrow> loopback_host (dn_Settings env) host)"

text \<open>Without an interval, or with one that does not parse or is negative, the learner is off.\<close>

definition parseLearnerInterval :: "(go_string \<Rightarrow> time option) \<Rightarrow> go_string \<Rightarrow> time" where
  "parseLearnerInterval duration value =
     (let trimmed = trim_space value in
      if trimmed = '''' \<or> trimmed = ''0'' then 0
      else case duration trimmed of None \<Rightarrow> 0 | Some d \<Rightarrow> if d < 0 then 0 else d)"

section \<open>The store that is served\<close>

text \<open>\<open>maybeImport\<close>: \<open>listed\<close> says that the export directory can be read and is not empty.\<close>

definition maybeImport ::
    "env \<Rightarrow> row_codecs \<Rightarrow> import_env \<Rightarrow> (go_string \<Rightarrow> csv_source) \<Rightarrow> bool \<Rightarrow> (store \<Rightarrow> ranging) \<Rightarrow> flush_stop list \<Rightarrow> store \<Rightarrow> disk \<Rightarrow> disk \<times> store res" where
  "maybeImport env cd ie dir listed rg stops s d =
     (if HasData s \<or> \<not> listed then (d, Inr s) else ImportCSV env cd ie dir rg stops s d)"

text \<open>What \<open>main\<close> does before it serves: the import, then the low-RAM mode.\<close>

definition prepare_store ::
    "env \<Rightarrow> row_codecs \<Rightarrow> import_env \<Rightarrow> (go_string \<Rightarrow> csv_source) \<Rightarrow> bool \<Rightarrow> (store \<Rightarrow> ranging) \<Rightarrow> flush_stop list \<Rightarrow> bool \<Rightarrow> store \<Rightarrow> disk \<Rightarrow> disk \<times> store res" where
  "prepare_store env cd ie dir listed rg stops lowRAM s d =
     (case maybeImport env cd ie dir listed rg stops s d of
        (d, Inl err) \<Rightarrow> (d, Inl err)
      | (d, Inr s) \<Rightarrow> (d, Inr (if lowRAM then EnableLowRAMExperiment s else s)))"

section \<open>The server\<close>

record server_setup =
  ns_Auth :: server_auth
  ns_Owner :: go_string
  ns_Cursor :: go_string
  ns_LearnerKey :: go_string
  ns_Store :: store
  ns_IntegrityError :: bool

definition principal_entries :: "(go_string \<times> principal_config) list \<Rightarrow> (go_string \<times> go_string \<times> go_string list) list" where
  "principal_entries tokens = map (\<lambda>(key, p). (key, pg_Token p, pg_Capabilities p)) tokens"

definition first_key :: "(go_string \<times> principal_config) list \<Rightarrow> go_string" where
  "first_key tokens =
     (case filter (\<lambda>k. k \<noteq> '''') (sort_by bytes_less (map fst tokens)) of [] \<Rightarrow> '''' | key # _ \<Rightarrow> key)"

definition NewServer ::
    "env \<Rightarrow> store \<Rightarrow> go_string \<Rightarrow> go_string \<Rightarrow> go_string \<Rightarrow> (go_string \<times> principal_config) list \<Rightarrow> bool \<Rightarrow> server_setup" where
  "NewServer env s owner cursorKey adminToken tokens trustLocal =
     (let verified = SetIntegrityKey env s cursorKey in
      \<lparr>ns_Auth = \<lparr>sv_Auth = NewMCPAuthenticator (env_sha env) (principal_entries tokens), sv_TrustLocal = trustLocal,
         sv_LocalClientKey = (if trustLocal then first_key tokens else ''''), sv_AdminToken = adminToken\<rparr>,
       ns_Owner = owner, ns_Cursor = cursorKey, ns_LearnerKey = first_key tokens,
       ns_Store = (case verified of Inl _ \<Rightarrow> s | Inr s \<Rightarrow> s),
       ns_IntegrityError = (case verified of Inl _ \<Rightarrow> True | Inr _ \<Rightarrow> False)\<rparr>)"

record daemon =
  dm_Server :: server_setup
  dm_Address :: go_string
  dm_Embedder :: "provider option"
  dm_Semantic :: bool
  dm_Health :: health
  dm_LearnerInterval :: time

datatype daemon_outcome = Exits nat | Serves daemon

definition client_keys :: "env_config \<Rightarrow> go_string set" where
  "client_keys cfg = set (map fst (ec_MCPClients cfg))"

text \<open>The local mode takes the configured local client for its requests and for the learner.\<close>

definition local_client :: "daemon_env \<Rightarrow> env_config \<Rightarrow> server_setup \<Rightarrow> server_setup option" where
  "local_client env cfg sv =
     (if \<not> sv_TrustLocal (ns_Auth sv) then Some sv
      else
        (let key = trim_space (envOr (dn_Lookup env) ''MINDMORY_LOCAL_CLIENT_KEY'' '''') in
         if key = '''' \<or> key \<notin> client_keys cfg then None
         else Some (sv\<lparr>ns_Auth := (ns_Auth sv)\<lparr>sv_LocalClientKey := key\<rparr>, ns_LearnerKey := key\<rparr>)))"

text \<open>\<open>status\<close> is the start of the status from the store, as \<open>InitializeStatus\<close> gives it.\<close>

definition daemon_serve ::
    "daemon_env \<Rightarrow> env \<Rightarrow> (store \<Rightarrow> health) \<Rightarrow> env_config \<Rightarrow> provider option \<Rightarrow> store \<Rightarrow> daemon_outcome" where
  "daemon_serve env jenv status cfg embedder s =
     (let lookup = dn_Lookup env;
          trustLocal = (to_lower (envOr lookup ''MINDMORY_AUTH'' ''local'') \<noteq> ''token'');
          address = envOr lookup ''MINDMORY_ADDRESS'' (''127.0.0.1:'' @ envOr lookup ''MINDMORY_HTTP_PORT'' ''58080'') in
      if trustLocal \<and> \<not> loopbackAddress env address then Exits 1
      else
        (let sv = NewServer jenv s (ec_Owner cfg) (ec_CursorKey cfg) (envOr lookup ''MINDMORY_ADMIN_TOKEN'' '''') (ec_MCPClients cfg) trustLocal in
         if ns_IntegrityError sv then Exits 1
         else case local_client env cfg sv of
           None \<Rightarrow> Exits 1
         | Some sv \<Rightarrow>
             Serves \<lparr>dm_Server = sv, dm_Address = address, dm_Embedder = embedder, dm_Semantic = ec_SemanticEnabled cfg,
               dm_Health = status (ns_Store sv),
               dm_LearnerInterval = parseLearnerInterval (sx_duration (dn_Settings env)) (envOr lookup ''MINDMORY_LEARNER_INTERVAL'' ''5m'')\<rparr>))"

text \<open>\<open>main\<close>: \<open>opened\<close> is the result of \<open>OpenConfigured\<close>, \<open>succeeds\<close> tells which of the one-shot commands succeed, and \<open>prepare\<close> is
  \<open>prepare_store\<close> on the export and the disk.\<close>

definition daemon_main ::
    "daemon_env \<Rightarrow> env \<Rightarrow> (env_config \<Rightarrow> opened_store res) \<Rightarrow> (daemon_mode \<Rightarrow> bool) \<Rightarrow> (env_config \<Rightarrow> opened_store \<Rightarrow> store res) \<Rightarrow>
     (store \<Rightarrow> health) \<Rightarrow> go_string list \<Rightarrow> daemon_outcome" where
  "daemon_main env jenv opened succeeds prepare status args =
     (if args = [''--version''] then Exits 0
      else case LoadEnv (dn_Settings env) (dn_Lookup env) of
        Inl _ \<Rightarrow> Exits 1
      | Inr cfg \<Rightarrow>
          (case opened cfg of
             Inl _ \<Rightarrow> Exits 1
           | Inr os \<Rightarrow>
               (case NewConfiguredEmbedder (\<lambda>url. map_option up_Hostname (sx_parse (dn_Settings env) url)) (sx_loopback (dn_Settings env))
                   (dn_Exchange env) (ec_Embedding cfg) of
                  Inl _ \<Rightarrow> Exits 1
                | Inr embedder \<Rightarrow>
                    (let mode = daemon_mode args in
                     if mode \<noteq> Serve_Mode then Exits (if succeeds mode \<and> (mode = Sync_Mode \<longrightarrow> embedder \<noteq> None) then 0 else 1)
                     else case prepare cfg os of
                       Inl _ \<Rightarrow> Exits 1
                     | Inr s \<Rightarrow> daemon_serve env jenv status cfg embedder s))))"

section \<open>Whom a daemon serves\<close>

lemma local_client_keeps:
  "local_client env cfg sv = Some sv' \<Longrightarrow>
     ns_Store sv' = ns_Store sv \<and> ns_LearnerKey sv' \<in> insert (ns_LearnerKey sv) (client_keys cfg) \<and>
     (sv_TrustLocal (ns_Auth sv) \<longrightarrow> sv_TrustLocal (ns_Auth sv') \<and> sv_LocalClientKey (ns_Auth sv') \<in> client_keys cfg)"
  unfolding local_client_def Let_def by (auto split: if_splits simp del: server_setup.surjective)

lemma entries_keys: "(key, token, caps) \<in> set (principal_entries tokens) \<Longrightarrow> key \<in> fst ` set tokens"
  by (force simp: principal_entries_def)

lemma granted_is_configured:
  assumes "authenticate sha \<lparr>sv_Auth = NewMCPAuthenticator sha (principal_entries tokens), sv_TrustLocal = False, sv_LocalClientKey = k, sv_AdminToken = a\<rparr>
    header cap = Inr p"
  shows "pn_Key p \<in> fst ` set tokens \<and> has_prefix header ''Bearer ''"
proof -
  obtain token q where "bearer header = Inr token" and q: "NewMCPAuthenticator sha (principal_entries tokens) (sha token) = Some q"
    and "grant q (pn_MCPCapabilities q) cap = Inr p"
    using assms by (auto simp: authenticate_def MCP_Authenticate_def match_def split: option.splits)
  moreover obtain key tok caps where "(key, tok, caps) \<in> set (principal_entries tokens)" "pn_Key q = key"
    using NewMCPAuthenticator_entry [OF q] by auto
  ultimately show ?thesis using entries_keys by (auto simp: bearer_def grant_def split: if_splits)
qed

lemma first_key_in:
  assumes "'''' \<notin> fst ` set tokens" "tokens \<noteq> []"
  shows "first_key tokens \<in> fst ` set tokens"
proof -
  have members: "set (sort_by bytes_less (map fst tokens)) = fst ` set tokens" by simp
  then have all: "filter (\<lambda>k. k \<noteq> '''') (sort_by bytes_less (map fst tokens)) = sort_by bytes_less (map fst tokens)"
    using assms(1) by (intro filter_True) metis
  obtain k ks where "sort_by bytes_less (map fst tokens) = k # ks" using members assms(2) by (cases "sort_by bytes_less (map fst tokens)") auto
  then show ?thesis using all members by (simp add: first_key_def) blast
qed

lemma first_key_configured:
  assumes "LoadEnv env lookup = Inr cfg"
  shows "first_key (ec_MCPClients cfg) \<in> client_keys cfg"
proof -
  have "load_principals env (trimmedLookup lookup ''MINDMORY_MCP_CLIENT_TOKENS_JSON'') = Inr (ec_MCPClients cfg)"
    using assms by (auto simp: LoadEnv_def Let_def bindE_eq_Inr_iff split: if_splits)
  then have some: "ec_MCPClients cfg \<noteq> []" and named: "\<forall>(key, p) \<in> set (ec_MCPClients cfg). trim_space key \<noteq> ''''"
    by (auto simp: load_principals_def list_ex_iff split: if_splits option.splits)
  have "trim_space '''' = ''''" by code_simp
  then have "'''' \<notin> fst ` set (ec_MCPClients cfg)" using named by force
  then show ?thesis using first_key_in some by (simp add: client_keys_def)
qed

text \<open>C38: a daemon that serves has verified the journal of events under its key, and grants a
  request only to a configured client: with a bearer token, or without one if it listens on a loopback address and that client was
  named as the local one.\<close>

theorem daemon_serves_configured:
  assumes "daemon_main env jenv opened succeeds prepare status args = Serves v"
  shows "\<exists>cfg os s. LoadEnv (dn_Settings env) (dn_Lookup env) = Inr cfg \<and> opened cfg = Inr os \<and> prepare cfg os = Inr s \<and>
    SetIntegrityKey jenv s (ec_CursorKey cfg) = Inr (ns_Store (dm_Server v)) \<and>
    ns_LearnerKey (dm_Server v) \<in> client_keys cfg \<and>
    (\<forall>header cap p. authenticate (env_sha jenv) (ns_Auth (dm_Server v)) header cap = Inr p \<longrightarrow>
       pn_Key p \<in> client_keys cfg \<and> (loopbackAddress env (dm_Address v) \<or> has_prefix header ''Bearer ''))"
proof -
  obtain cfg os embedder s where cfg: "LoadEnv (dn_Settings env) (dn_Lookup env) = Inr cfg" "opened cfg = Inr os" "prepare cfg os = Inr s"
    and serve: "daemon_serve env jenv status cfg embedder s = Serves v"
    using assms by (auto simp: daemon_main_def Let_def split: if_splits sum.splits)
  define trust where "trust = (to_lower (envOr (dn_Lookup env) ''MINDMORY_AUTH'' ''local'') \<noteq> ''token'')"
  define sv where "sv = NewServer jenv s (ec_Owner cfg) (ec_CursorKey cfg) (envOr (dn_Lookup env) ''MINDMORY_ADMIN_TOKEN'' '''') (ec_MCPClients cfg) trust"
  have bind: "trust \<Longrightarrow> loopbackAddress env (dm_Address v)" and verified: "\<not> ns_IntegrityError sv"
    and client: "local_client env cfg sv = Some (dm_Server v)"
    using serve by (auto simp: daemon_serve_def Let_def trust_def sv_def split: if_splits option.splits)
  have key: "SetIntegrityKey jenv s (ec_CursorKey cfg) = Inr (ns_Store sv)"
    using verified by (auto simp: sv_def NewServer_def Let_def split: sum.splits)
  have same: "ns_Store (dm_Server v) = ns_Store sv"
    using local_client_keeps [OF client] by simp
  have trusted: "sv_TrustLocal (ns_Auth sv) = trust" by (simp add: sv_def NewServer_def Let_def)
  have learner: "ns_LearnerKey (dm_Server v) \<in> client_keys cfg"
    using local_client_keeps [OF client] first_key_configured [OF cfg(1)] by (auto simp: sv_def NewServer_def Let_def)
  have "pn_Key p \<in> client_keys cfg \<and> (loopbackAddress env (dm_Address v) \<or> has_prefix header ''Bearer '')"
    if granted: "authenticate (env_sha jenv) (ns_Auth (dm_Server v)) header cap = Inr p" for header cap p
  proof (cases trust)
    case True
    then have "sv_TrustLocal (ns_Auth (dm_Server v))" "sv_LocalClientKey (ns_Auth (dm_Server v)) \<in> client_keys cfg"
      using local_client_keeps [OF client] trusted by simp_all
    then show ?thesis using bind [OF True] granted by (auto simp: authenticate_def)
  next
    case False
    then have "ns_Auth (dm_Server v) = ns_Auth sv" using client trusted by (simp add: local_client_def)
    then show ?thesis using granted False granted_is_configured [of "env_sha jenv" "ec_MCPClients cfg"]
      by (simp add: sv_def NewServer_def Let_def client_keys_def)
  qed
  then show ?thesis using cfg key same learner by auto
qed

section \<open>An import in the low-RAM mode\<close>

text \<open>The tables of a projection that was opened over no rows.\<close>

lemma fresh_index:
  "openIndex sha enc encm ence [] [] [] (OpenMemoryIndex None) = Inr db \<Longrightarrow>
     ix_memories (db_index db) = Map.empty \<and> ix_messages (db_index db) = Map.empty \<and> ix_evidence (db_index db) = Map.empty"
  by (auto simp: openIndex_def OpenMemoryIndex_def empty_db_def empty_index_def RebuildFrom_def ReplaceReadSupport_def current_rows_def
      by_memory_id_def fill_def sort_by_def AllMessages_def Let_def split: if_splits)

lemma flushAll_low_ram:
  assumes "st_lowRAM s" "pl_memories (rg_projection rg) = []"
  shows "dk_memories (fst (flushAll env cd rg [] s d)) = ''''"
  using assms by (simp add: flushAll_def flush_plan_def flushKind_def write_lines_def)

text \<open>C39: the import fills the maps and writes \<open>memories.jsonl\<close>, but the projection stays as it was
  opened, empty; the low-RAM mode then drops the maps.  The daemon finds none of the imported memories, and its next flush, from the
  projection, leaves an empty file.\<close>

theorem import_lost_in_low_ram:
  assumes opened: "openIndex (env_sha env) enc encm ence [] [] [] (OpenMemoryIndex None) = Inr db" "st_Index s = db_index db"
    and empty: "\<not> HasData s" "\<not> st_lowRAM s"
    and started: "prepare_store env cd ie dir True rg [] True s d = (d', Inr s')"
    and listing: "\<forall>row \<in> set (pl_memories (rg_projection rg')). ix_memories (st_Index s') (mm_MemoryID row) = Some row"
  shows "\<exists>s1. import_all ie dir s = Inr s1 \<and> dk_memories d' = memoriesJSONL cd s1 (rg_memories (rg s1)) \<and>
    (\<forall>mid. LoadMemoryRow s' mid = Inl ''no rows'') \<and> dk_memories (fst (flushAll env cd rg' [] s' d')) = ''''"
proof -
  obtain s1 where s1: "import_all ie dir s = Inr s1" "d' = fst (flushAll env cd (rg s1) [] s1 d)" "s' = EnableLowRAMExperiment s1"
    using started empty(1) by (auto simp: prepare_store_def maybeImport_def ImportCSV_def split: prod.splits sum.splits)
  have frame: "st_Index s1 = st_Index s" "st_lowRAM s1 = st_lowRAM s"
    using arg_cong [OF import_frame [OF s1(1)], of st_Index] arg_cong [OF import_frame [OF s1(1)], of st_lowRAM] by simp_all
  have ix: "ix_memories (st_Index s') = Map.empty"
    using fresh_index [OF opened(1)] opened(2) frame(1) by (simp add: s1(3) EnableLowRAMExperiment_def)
  have "dk_memories d' = memoriesJSONL cd s1 (rg_memories (rg s1))"
    using flushAll_files [of s1 env cd "rg s1" d] frame(2) empty(2) by (simp add: s1(2))
  moreover have "LoadMemoryRow s' mid = Inl ''no rows''" for mid using ix by (simp add: LoadMemoryRow_def)
  moreover have "pl_memories (rg_projection rg') = []" using listing ix by (cases "pl_memories (rg_projection rg')") auto
  then have "dk_memories (fst (flushAll env cd rg' [] s' d')) = ''''"
    by (intro flushAll_low_ram) (simp_all add: s1(3) EnableLowRAMExperiment_def)
  ultimately show ?thesis using s1(1) by blast
qed

section \<open>A daemon that starts\<close>

definition demo_lookup :: lookup where
  "demo_lookup = [''MINDMORY_OWNER'' \<mapsto> ''me'', ''MINDMORY_CURSOR_SIGNING_KEY'' \<mapsto> replicate 32 CHR ''k'',
     ''MINDMORY_MCP_CLIENT_TOKENS_JSON'' \<mapsto> ''{}'', ''MINDMORY_EMBED_PROVIDER'' \<mapsto> ''disabled'', ''MINDMORY_LOCAL_CLIENT_KEY'' \<mapsto> ''codex'']"

definition demo_settings :: settings_env where
  "demo_settings = \<lparr>sx_parse = (\<lambda>_. None), sx_loopback = (\<lambda>host. host = ''127.0.0.1''),
     sx_unjson = (\<lambda>_. Some [(''codex'', \<lparr>pg_Token = replicate 24 CHR ''t'', pg_Capabilities = [''read'']\<rparr>)]),
     sx_duration = (\<lambda>_. None), sx_cwd = None\<rparr>"

definition demo_daemon_env :: daemon_env where
  "demo_daemon_env = \<lparr>dn_Settings = demo_settings, dn_Lookup = demo_lookup, dn_SplitHostPort = (\<lambda>_. Some ''127.0.0.1''),
     dn_Exchange = (\<lambda>_. Bad_Status 500)\<rparr>"

lemma demo_loads:
  "map_sum (\<lambda>_. ()) (\<lambda>cfg. (ec_CursorKey cfg, map fst (ec_MCPClients cfg), ey_Provider (ec_Embedding cfg))) (LoadEnv demo_settings demo_lookup) =
     Inr (replicate 32 CHR ''k'', [''codex''], ''disabled'')"
  by code_simp

lemma demo_words:
  "to_lower ''local'' \<noteq> ''token''" "trim_space ''codex'' = ''codex''"
  by code_simp+

theorem daemon_serves_configured_witness:
  "\<exists>v. daemon_main demo_daemon_env demo_env (\<lambda>_. Inr \<lparr>os_Store = empty_store ''k'', os_Db = empty_db, os_VectorIssue = False, os_Disk = empty_disk\<rparr>)
       (\<lambda>_. False) (\<lambda>_ os. Inr (os_Store os)) (\<lambda>_. demo_health 1 demo_handle) [] = Serves v \<and>
     ns_LearnerKey (dm_Server v) = ''codex'' \<and>
     (\<forall>header cap. map_sum id pn_Key (authenticate (env_sha demo_env) (ns_Auth (dm_Server v)) header cap) = Inr ''codex'')"
proof -
  obtain cfg where cfg: "LoadEnv demo_settings demo_lookup = Inr cfg" "ec_CursorKey cfg = replicate 32 CHR ''k''" "map fst (ec_MCPClients cfg) = [''codex'']"
    "ey_Provider (ec_Embedding cfg) = ''disabled''"
    using demo_loads by (cases "LoadEnv demo_settings demo_lookup") auto
  have keys: "client_keys cfg = {''codex''}" by (simp add: client_keys_def cfg(3) del: set_map)
  let ?s = "empty_store ''k''"
  let ?main = "daemon_main demo_daemon_env demo_env (\<lambda>_. Inr \<lparr>os_Store = ?s, os_Db = empty_db, os_VectorIssue = False, os_Disk = empty_disk\<rparr>)
       (\<lambda>_. False) (\<lambda>_ os. Inr (os_Store os)) (\<lambda>_. demo_health 1 demo_handle) []"
  obtain s' where "SetIntegrityKey demo_env ?s (ec_CursorKey cfg) = Inr s'"
    by (simp add: SetIntegrityKey_def cfg(2) loadKeyRotations_def empty_store_def complete_file_def readJSONL_def json_lines_def)
  moreover have "loopbackAddress demo_daemon_env address" for address
    by (simp add: loopbackAddress_def demo_daemon_env_def loopback_host_def demo_settings_def)
  moreover have "envOr demo_lookup ''MINDMORY_AUTH'' ''local'' = ''local''" "envOr demo_lookup ''MINDMORY_LOCAL_CLIENT_KEY'' '''' = ''codex''"
    by (simp_all add: envOr_def demo_lookup_def)
  moreover have "NewConfiguredEmbedder hostname loopback http (ec_Embedding cfg) = Inr None" for hostname loopback http
    by (simp add: NewConfiguredEmbedder_def cfg(4))
  ultimately obtain v where v: "?main = Serves v" "sv_TrustLocal (ns_Auth (dm_Server v))" "sv_LocalClientKey (ns_Auth (dm_Server v)) = ''codex''"
      "ns_LearnerKey (dm_Server v) = ''codex''"
    using demo_words cfg(1)
    by (simp add: daemon_main_def daemon_mode_def daemon_serve_def NewServer_def local_client_def keys demo_daemon_env_def Let_def)
  have "authenticate (env_sha demo_env) (ns_Auth (dm_Server v)) header cap = Inr p \<Longrightarrow> pn_Key p = ''codex''" for header cap p
    using daemon_serves_configured [OF v(1)] cfg(1) keys by (auto simp: demo_daemon_env_def)
  then show ?thesis using v by (auto simp: authenticate_def)
qed

text \<open>An export with one memory.\<close>

definition demo_memory_cells :: "go_string list" where
  "demo_memory_cells = [''m1'', ''FACT'', ''tea'', ''green'', ''h'', ''ACTIVE'', ''USER_ACCEPTED'', ''0.5'', ''0.5'', ''NORMAL'', '''', '''', '''',
     ''GLOBAL'', '''', ''0'', '''', ''1'']"

definition demo_memory_export :: "go_string \<Rightarrow> csv_source" where
  "demo_memory_export name =
     (if name = ''memories.csv'' then Csv_Bytes (csv_text [[(False, ''memory_id'')], map (Pair False) demo_memory_cells]) else Csv_Missing)"

lemma demo_memory_rows: "readCSV (demo_memory_export ''memories.csv'') = Inr [demo_memory_cells]"
  by code_simp

lemma demo_memory_imported:
  "import_all ie demo_memory_export s = Inr (s\<lparr>st_memories := (st_memories s)(''m1'' \<mapsto> memory_of_csv ie demo_memory_cells)\<rparr>)"
proof -
  have "length demo_memory_cells = 18" "demo_memory_cells ! 0 = ''m1''" by (simp_all add: demo_memory_cells_def)
  then have "importMemories ie (demo_memory_export ''memories.csv'') s =
      Inr (s\<lparr>st_memories := (st_memories s)(''m1'' \<mapsto> memory_of_csv ie demo_memory_cells)\<rparr>)" for s
    by (simp add: importMemories_def import_rows_def demo_memory_rows)
  moreover have "name \<noteq> ''memories.csv'' \<Longrightarrow> readCSV (demo_memory_export name) = Inr []" for name
    by (simp add: demo_memory_export_def readCSV_def)
  ultimately show ?thesis
    by (simp add: import_all_def importSessions_def importMessages_def importProposals_def importContinuity_def importEvidence_def
        importProjectContext_def import_rows_def)
qed

theorem import_lost_in_low_ram_witness:
  "\<exists>db d' s'. openIndex (env_sha demo_env) (\<lambda>_. ''r'') (\<lambda>_. ''g'') (\<lambda>_. ''e'') [] [] [] (OpenMemoryIndex None) = Inr db \<and>
     prepare_store demo_env sample_codecs demo_import_env demo_memory_export True (\<lambda>_. sample_ranging) [] True ((empty_store ''k'')\<lparr>st_Index := db_index db\<rparr>) empty_disk = (d', Inr s') \<and>
     dk_memories d' = ''M'' @ [newline] \<and> LoadMemoryRow s' ''m1'' = Inl ''no rows'' \<and>
     dk_memories (fst (flushAll demo_env sample_codecs sample_ranging [] s' d')) = ''''"
proof -
  obtain db where db: "openIndex (env_sha demo_env) (\<lambda>_. ''r'') (\<lambda>_. ''g'') (\<lambda>_. ''e'') [] [] [] (OpenMemoryIndex None) = Inr db"
    using openIndex_ok [of "[]" "env_sha demo_env" "\<lambda>_. ''r''" "\<lambda>_. ''g''" "\<lambda>_. ''e''" "[]" "[]" "OpenMemoryIndex None"]
    by (auto simp: external_unique_def AllMessages_def sort_by_def)
  let ?s = "(empty_store ''k'')\<lparr>st_Index := db_index db\<rparr>"
  have start: "\<not> HasData ?s" "\<not> st_lowRAM ?s" by (simp_all add: HasData_def empty_store_def)
  obtain d' s' where started: "prepare_store demo_env sample_codecs demo_import_env demo_memory_export True (\<lambda>_. sample_ranging) [] True ?s empty_disk = (d', Inr s')"
    using start by (simp add: prepare_store_def maybeImport_def ImportCSV_def demo_memory_imported flushAll_files)
  have none: "\<forall>row \<in> set (pl_memories (rg_projection sample_ranging)). ix_memories (st_Index s') (mm_MemoryID row) = Some row"
    by (simp add: sample_ranging_def)
  have "st_Index ?s = db_index db" by simp
  from import_lost_in_low_ram [OF db this start started none] have
    "dk_memories d' = memoriesJSONL sample_codecs (?s\<lparr>st_memories := (st_memories ?s)(''m1'' \<mapsto> memory_of_csv demo_import_env demo_memory_cells)\<rparr>) (rg_memories sample_ranging)"
    "LoadMemoryRow s' ''m1'' = Inl ''no rows''" "dk_memories (fst (flushAll demo_env sample_codecs sample_ranging [] s' d')) = ''''"
    by (auto simp: demo_memory_imported)
  then show ?thesis using db started
    by (auto simp: memoriesJSONL_def dump_table_def sample_ranging_def sample_codecs_def write_lines_def sort_by_def)
qed

end
