(* ===== verification/Routes.thy ===== *)
theory Routes
  imports Operator_Cli
begin

text \<open>
  The route table of \<open>mux\<close> in \<open>lite/server.go\<close> with the matching of \<open>http.ServeMux\<close> it uses: a method, and a path of literal segments
  and of wildcards that take one segment each.  A path that is not clean is redirected before it is matched.  The requests of the
  operator tool reach the handlers they are meant for.
\<close>

section \<open>Matching\<close>

datatype route_segment = Lit go_string | Wild

datatype endpoint =
    Health_Live_Route | Health_Ready_Route | System_Status_Route | Checkpoint_Route | Mutate_Route | Session_Route | Search_Route
  | Recall_Route | Packet_Route | Reflex_Route | Relevance_Route | Feedback_Route | Diff_Route | Artifact_Search_Route
  | Artifact_Read_Route | Admin_Embed_Route | Admin_Vector_Rebuild_Route | Admin_Learner_Extract_Route | Admin_Ops_Route
  | Admin_List_Proposals_Route | Admin_Approve_Proposal_Route | Admin_Reject_Proposal_Route | Admin_Retire_Memory_Route
  | Admin_Snapshot_Route

type_synonym route_entry = "go_string \<times> route_segment list \<times> endpoint"

fun match_segments :: "route_segment list \<Rightarrow> go_string list \<Rightarrow> go_string list option" where
  "match_segments [] [] = Some []"
| "match_segments (Lit l # ps) (s # ss) = (if s = l then match_segments ps ss else None)"
| "match_segments (Wild # ps) (s # ss) = (if s = '''' then None else map_option ((#) s) (match_segments ps ss))"
| "match_segments _ _ = None"

definition mux :: "route_entry list" where
  "mux =
     [(''GET'', [Lit ''health'', Lit ''live''], Health_Live_Route),
      (''GET'', [Lit ''health'', Lit ''ready''], Health_Ready_Route),
      (''GET'', [Lit ''v1'', Lit ''system'', Lit ''status''], System_Status_Route),
      (''POST'', [Lit ''v1'', Lit ''checkpoints''], Checkpoint_Route),
      (''POST'', [Lit ''v1'', Lit ''memory'', Lit ''mutations''], Mutate_Route),
      (''GET'', [Lit ''v1'', Lit ''context'', Lit ''sessions'', Wild], Session_Route),
      (''POST'', [Lit ''v1'', Lit ''context'', Lit ''search''], Search_Route),
      (''GET'', [Lit ''v1'', Lit ''context'', Lit ''memories'', Wild], Recall_Route),
      (''POST'', [Lit ''v1'', Lit ''context'', Lit ''packet''], Packet_Route),
      (''POST'', [Lit ''v1'', Lit ''context'', Lit ''reflex''], Reflex_Route),
      (''POST'', [Lit ''v1'', Lit ''context'', Lit ''relevance''], Relevance_Route),
      (''POST'', [Lit ''v1'', Lit ''context'', Lit ''feedback''], Feedback_Route),
      (''POST'', [Lit ''v1'', Lit ''context'', Lit ''diff''], Diff_Route),
      (''POST'', [Lit ''v1'', Lit ''context'', Lit ''artifacts'', Lit ''search''], Artifact_Search_Route),
      (''GET'', [Lit ''v1'', Lit ''context'', Lit ''artifacts'', Wild, Lit ''read''], Artifact_Read_Route),
      (''POST'', [Lit ''v1'', Lit ''admin'', Lit ''embed''], Admin_Embed_Route),
      (''POST'', [Lit ''v1'', Lit ''admin'', Lit ''vectors'', Lit ''rebuild''], Admin_Vector_Rebuild_Route),
      (''POST'', [Lit ''v1'', Lit ''admin'', Lit ''learner'', Lit ''extract''], Admin_Learner_Extract_Route),
      (''GET'', [Lit ''v1'', Lit ''admin'', Lit ''ops''], Admin_Ops_Route),
      (''GET'', [Lit ''v1'', Lit ''admin'', Lit ''proposals''], Admin_List_Proposals_Route),
      (''POST'', [Lit ''v1'', Lit ''admin'', Lit ''proposals'', Wild, Lit ''approve''], Admin_Approve_Proposal_Route),
      (''POST'', [Lit ''v1'', Lit ''admin'', Lit ''proposals'', Wild, Lit ''reject''], Admin_Reject_Proposal_Route),
      (''POST'', [Lit ''v1'', Lit ''admin'', Lit ''memories'', Wild, Lit ''retire''], Admin_Retire_Memory_Route),
      (''POST'', [Lit ''v1'', Lit ''admin'', Lit ''snapshot''], Admin_Snapshot_Route)]"

text \<open>\<open>cleanPath\<close> keeps a slash at the end.\<close>

definition clean_path :: "go_string \<Rightarrow> go_string" where
  "clean_path path =
     (let p = (if take 1 path = ''/'' then path else CHR 0x2F # path); np = filepath_Clean p in
      if path = '''' then ''/'' else if last p = CHR 0x2F \<and> np \<noteq> ''/'' then np @ ''/'' else np)"

text \<open>The outcome: a handler with the values of its wildcards, a redirection, or no route, where \<open>405\<close> says that the path has another
  method.  A GET pattern serves HEAD as well.\<close>

datatype routed = Handled endpoint "go_string list" | Redirected go_string | Unrouted nat

definition path_value :: "go_string \<Rightarrow> go_string" where
  "path_value s = (case unescape False s of None \<Rightarrow> s | Some v \<Rightarrow> v)"

definition route :: "go_string \<Rightarrow> go_string \<Rightarrow> routed" where
  "route verb path =
     (if clean_path path \<noteq> path then Redirected (clean_path path)
      else
        (let segments = tl (split_slash path);
             matches = filter (\<lambda>(_, pattern, _). match_segments pattern segments \<noteq> None) mux in
         case filter (\<lambda>(m, _, _). m = verb \<or> m = ''GET'' \<and> verb = ''HEAD'') matches of
           (_, pattern, e) # _ \<Rightarrow> Handled e (map path_value (the (match_segments pattern segments)))
         | [] \<Rightarrow> Unrouted (if matches = [] then 404 else 405)))"

definition request_route :: "go_string \<Rightarrow> go_string \<Rightarrow> routed" where
  "request_route verb url = route verb (url_path url)"

section \<open>Clean paths\<close>

definition plain_segment :: "go_string \<Rightarrow> bool" where
  "plain_segment s \<longleftrightarrow> s \<noteq> '''' \<and> s \<noteq> ''.'' \<and> s \<noteq> ''..'' \<and> CHR 0x2F \<notin> set s"

lemma split_join: "segs \<noteq> [] \<Longrightarrow> list_all plain_segment segs \<Longrightarrow> split_slash (join_slash segs) = segs"
  by (induction segs rule: join_slash.induct) (simp_all add: split_slash_flat split_slash_append plain_segment_def)

lemma clean_plain: "list_all plain_segment segs \<Longrightarrow> foldl (clean_step True) stack segs = stack @ segs"
  by (induction segs arbitrary: stack) (simp_all add: clean_step_def plain_segment_def)

lemma last_join: "segs \<noteq> [] \<Longrightarrow> list_all plain_segment segs \<Longrightarrow> join_slash segs \<noteq> [] \<and> last (join_slash segs) \<noteq> CHR 0x2F"
  by (induction segs rule: join_slash.induct) (auto simp: plain_segment_def dest: last_in_set)

lemma clean_join:
  assumes "segs \<noteq> []" "list_all plain_segment segs"
  shows "clean_path (CHR 0x2F # join_slash segs) = CHR 0x2F # join_slash segs"
proof -
  have "filepath_IsAbs (CHR 0x2F # join_slash segs)" by (simp add: filepath_IsAbs_def)
  then have "filepath_Clean (CHR 0x2F # join_slash segs) = CHR 0x2F # join_slash segs"
    using split_join [OF assms] clean_plain [OF assms(2), of "[]"] by (simp add: filepath_Clean_def clean_parts_def clean_step_def)
  then show ?thesis using last_join [OF assms] by (simp add: clean_path_def Let_def)
qed

lemma route_join:
  assumes "segs \<noteq> []" "list_all plain_segment segs"
  shows "route verb (CHR 0x2F # join_slash segs) =
    (let matches = filter (\<lambda>(_, pattern, _). match_segments pattern segs \<noteq> None) mux in
     case filter (\<lambda>(m, _, _). m = verb \<or> m = ''GET'' \<and> verb = ''HEAD'') matches of
       (_, pattern, e) # _ \<Rightarrow> Handled e (map path_value (the (match_segments pattern segs)))
     | [] \<Rightarrow> Unrouted (if matches = [] then 404 else 405))"
  using clean_join [OF assms] split_join [OF assms] by (simp add: route_def Let_def)

lemma escaped_plain:
  assumes "ident \<notin> {'''', ''.'', ''..''}"
  shows "plain_segment (path_escape ident)"
proof -
  have "unescape False '''' = Some ''''" "unescape False ''.'' = Some ''.''" "unescape False ''..'' = Some ''..''" by code_simp+
  then show ?thesis using assms path_escape_round [of ident] path_escape_no_delimiter(1) [of ident]
    by (auto simp: plain_segment_def)
qed

lemma path_value_escaped [simp]: "path_value (path_escape ident) = ident"
  by (simp add: path_value_def path_escape_round)

section \<open>The requests of the operator tool\<close>

text \<open>Where the request of a command goes, in the order in which the tool tries its two kinds.\<close>

definition command_route :: "go_string list \<Rightarrow> routed option" where
  "command_route args =
     (case retrievalCommand args of
        Some op \<Rightarrow> Some (request_route (ro_method op) (ro_path op))
      | None \<Rightarrow> map_option (\<lambda>(verb, path). request_route verb path) (adminOperation args))"

lemma flat_path: "CHR 0x3F \<notin> set path \<Longrightarrow> request_route verb path = route verb path"
proof -
  assume "CHR 0x3F \<notin> set path"
  then have "takeWhile (\<lambda>c. c \<noteq> CHR 0x3F) path = path" by (induction path) auto
  then show "request_route verb path = route verb path" by (simp only: request_route_def url_path_def)
qed

lemma ident_route:
  assumes "plain_segment e" "CHR 0x3F \<notin> set e"
  shows "request_route ''POST'' (''/v1/admin/memories/'' @ e @ ''/retire'') = Handled Admin_Retire_Memory_Route [path_value e]"
    and "request_route ''POST'' (''/v1/admin/proposals/'' @ e @ ''/approve'') = Handled Admin_Approve_Proposal_Route [path_value e]"
    and "request_route ''POST'' (''/v1/admin/proposals/'' @ e @ ''/reject'') = Handled Admin_Reject_Proposal_Route [path_value e]"
    and "route ''GET'' (''/v1/context/memories/'' @ e) = Handled Recall_Route [path_value e]"
    and "route ''GET'' (''/v1/context/artifacts/'' @ e @ ''/read'') = Handled Artifact_Read_Route [path_value e]"
proof -
  have e: "e \<noteq> ''''" using assms(1) by (simp add: plain_segment_def)
  have segs: "list_all plain_segment [''v1'', ''admin'', ''memories'', e, ''retire'']" "list_all plain_segment [''v1'', ''admin'', ''proposals'', e, ''approve'']"
    "list_all plain_segment [''v1'', ''admin'', ''proposals'', e, ''reject'']" "list_all plain_segment [''v1'', ''context'', ''memories'', e]"
    "list_all plain_segment [''v1'', ''context'', ''artifacts'', e, ''read'']"
    using assms(1) by (simp_all, simp_all add: plain_segment_def)
  show "request_route ''POST'' (''/v1/admin/memories/'' @ e @ ''/retire'') = Handled Admin_Retire_Memory_Route [path_value e]"
    using route_join [OF _ segs(1), of "''POST''"] assms(2) e by (simp add: flat_path mux_def)
  show "request_route ''POST'' (''/v1/admin/proposals/'' @ e @ ''/approve'') = Handled Admin_Approve_Proposal_Route [path_value e]"
    using route_join [OF _ segs(2), of "''POST''"] assms(2) e by (simp add: flat_path mux_def)
  show "request_route ''POST'' (''/v1/admin/proposals/'' @ e @ ''/reject'') = Handled Admin_Reject_Proposal_Route [path_value e]"
    using route_join [OF _ segs(3), of "''POST''"] assms(2) e by (simp add: flat_path mux_def)
  show "route ''GET'' (''/v1/context/memories/'' @ e) = Handled Recall_Route [path_value e]"
    using route_join [OF _ segs(4), of "''GET''"] e by (simp add: mux_def)
  show "route ''GET'' (''/v1/context/artifacts/'' @ e @ ''/read'') = Handled Artifact_Read_Route [path_value e]"
    using route_join [OF _ segs(5), of "''GET''"] e by (simp add: mux_def)
qed

lemma fixed_routes:
  "command_route [''ops''] = Some (Handled Admin_Ops_Route [])" "command_route [''proposals''] = Some (Handled Admin_List_Proposals_Route [])"
  "command_route [''snapshot''] = Some (Handled Admin_Snapshot_Route [])"
  "command_route [''learner'', ''extract''] = Some (Handled Admin_Learner_Extract_Route [])"
  by code_simp+


text \<open>The name of the parent directory is not escaped: the daemon redirects such a request instead of handling it.\<close>

lemma parent_redirected: "command_route [''memory'', ''retire'', ''..''] = Some (Redirected ''/v1/admin/retire'')"
  by code_simp

end
