(* ===== verification/Spec2Isabelle.thy ===== *)
theory Spec2Isabelle
  imports Retrieval Store_Example Message_Example Rank_Model Server_Example Search Vector_Example Context_Api
    Passive_Learner Ops_Journal Settings Health_Example Operator_Cli Mcp_Bridge Index_Upkeep Snapshot Daemon_Start Routes
begin

text \<open>
  MindMory, the memory daemon of this repository, in Isabelle/HOL.

  The program.  \<open>mindmoryd-lite\<close> keeps a user's memories for a set of agents.  Agents archive the
  messages of a conversation (checkpoints), ask for memories to be created, corrected or forgotten
  (mutations), search them, and fetch packets of context.  The server (\<open>internal/lite/server.go\<close>) lets a
  mutation through only if the cited message of the user authorises it (\<open>internal/memory\<close>); the store
  (\<open>internal/lite/store.go\<close>, \<open>queries.go\<close>, \<open>mutation_event.go\<close>, \<open>message_journal.go\<close>) writes every
  committed change as a signed event that is chained to the one before it, and rebuilds its state from
  these files at start; the index (\<open>index.go\<close>) and the vectors (\<open>vectorstore/\<close>) are projections that can
  be thrown away.

  Values.  A Go string is a list of bytes (\<open>go_string\<close>); runes, cases, trimming and the regular
  expressions the program uses are defined on it (\<open>Go_Text\<close>, \<open>Go_Regexp\<close>, with the Unicode tables in
  \<open>Unicode_Tables\<close>).  \<open>int\<close> and \<open>int64\<close> are \<open>int\<close> where no arithmetic can reach their bounds and words
  where the width matters (UUIDs, SHA lengths, vector headers and offsets).  \<open>float64\<close> is \<open>real\<close>: scores
  are compared and not accumulated over long runs, and rounding is written out only where the code
  rounds.  A time is a number of nanoseconds since Go's zero time.  An error is the left side of a sum
  (\<open>res\<close>, or \<open>go_error + 'a\<close> where the wire code matters).  Go's iteration over a map is a parameter that
  lists the entries in some order; results that do not depend on it are stated for every order.

  Parameters.  SHA-256, HMAC, JSON, base64, RFC 3339, the full-text engine of SQLite, the embedding
  provider, the clock, random identifiers, the context and the points at which a write fails are
  arguments.  What is relied on is named: injectivity of JSON lines (\<open>codec_ok\<close>, \<open>message_codec_ok\<close>, the
  assumption of \<open>keyed_table\<close>),
  inverses of the cursor codec (\<open>cursor_env_ok\<close>, \<open>project_cursors_ok\<close>).  Nothing assumes that SHA-256 is
  injective: the tamper theorems end in ``or these two inputs collide''.

  Theories and code, in the order in which they build on each other.
  \<^item> \<open>Prelude\<close>, \<open>Unicode_Tables\<close>, \<open>Go_Text\<close>, \<open>Go_Regexp\<close>, \<open>Go_Sort\<close>, \<open>Go_Hash\<close>, \<open>Go_Heap\<close>: the parts of Go's
    standard library the sources use.  \<open>Go_Sort\<close> and \<open>Go_Heap\<close> hold the locales \<open>go_less\<close> (a strict order
    total up to a key, under which sorting is deterministic) and \<open>priority_queue\<close> (the contract of
    \<open>container/heap\<close>).
  \<^item> \<open>Policy\<close>, \<open>Archive\<close>, \<open>Message_Policy\<close>: \<open>internal/artifact\<close> and \<open>internal/archive\<close>.
  \<^item> \<open>Memory_Domain\<close>, \<open>Mutation_Gate\<close>, \<open>Lite_Hash\<close>: \<open>internal/memory\<close> and \<open>lite/hash.go\<close>: proposals, the
    request hash, the gate, quotes and trigram similarity.
  \<^item> \<open>Retrieval\<close>, \<open>Rank_Model\<close>, \<open>Alias_Expander\<close>: \<open>internal/retrieval\<close>, \<open>lite/model.go\<close>, \<open>lite/aliases.go\<close>.
  \<^item> \<open>Store_State\<close>, \<open>Hash_Chain\<close>, \<open>Event_Journal\<close>, \<open>Store_Machine\<close>, \<open>Store_Example\<close>: the store, the locale of
    hash-chained journals with its interpretations, commits and loading, the store as a step relation.
  \<^item> \<open>Message_Journal\<close>, \<open>Message_Example\<close>: the archive of messages in segments, with crashes.
  \<^item> \<open>Http_Api\<close>, \<open>Server_Mutation\<close>, \<open>Server_Machine\<close>, \<open>Server_Example\<close>: errors, credentials, guards,
    identifiers; mutations, reviews and checkpoints; the server as a step relation.
  \<^item> \<open>Query_Cache\<close>, \<open>Vector_Format\<close>, \<open>Vector_Store\<close>, \<open>Vector_Search\<close>, \<open>Vector_Example\<close>: the vectors.
  \<^item> \<open>Index_Search\<close>, \<open>Search\<close>, \<open>Packets\<close>, \<open>Context_Api\<close>: the queries of the index, the search, the packets
    of context and the handlers of the read side.
  \<^item> \<open>Passive_Learner\<close>, \<open>Ops_Journal\<close>: \<open>lite/learner.go\<close>, the pass that proposes memories from archived
    messages, as a run of server steps; \<open>lite/ops.go\<close>, the bounded journal of operations.
  \<^item> \<open>Provider\<close>, \<open>Settings\<close>: the embedding clients and their contract (\<open>lite/embed.go\<close>,
    \<open>provider_contract.go\<close>); the environment of daemon, bridge and operator tool (\<open>lite/env.go\<close>,
    \<open>internal/config\<close>) with the paths of \<open>path/filepath\<close>.
  \<^item> \<open>Vector_Root\<close>, \<open>Vector_Sync\<close>, \<open>Sync_Example\<close>, \<open>System_Health\<close>, \<open>Health_Example\<close>: generations side by
    side and their activation, the sync of the vectors with the memories, and the status with its repairs.
  \<^item> \<open>Store_Files\<close>, \<open>Index_Upkeep\<close>, \<open>Snapshot\<close>: the canonical tables as files, with the locale
    \<open>keyed_table\<close> of what loads as it was written; the fingerprints and the rebuild of the index, and the
    opening of the store; snapshots and what is restored from them.
  \<^item> \<open>Csv_Reader\<close>, \<open>Legacy_Import\<close>, \<open>Daemon_Start\<close>, \<open>Routes\<close>: the import of an older export
    (\<open>lite/importer.go\<close>), \<open>main\<close> of the daemon (\<open>cmd/mindmoryd-lite\<close>) with \<open>NewServer\<close>, and its route table.
  \<^item> \<open>Client_Text\<close>, \<open>Native_Hook\<close>, \<open>Operator_Cli\<close>, \<open>Mcp_Bridge\<close>: the clients: the escapes of URLs and the
    flags, the hooks of the agents and the operator tool (\<open>internal/command\<close>), and the MCP bridge
    (\<open>internal/mcpserver\<close>).

  What the lemmas show.  The gate and its review variant accept exactly the authorised requests; the
  request hash identifies a proposal; policy detection and the card checksum find what they list.  The
  store: commits succeed exactly under their conditions and are atomic, a retired memory stays retired,
  a restart recovers the state, the journals of events and messages are tamper evident, and a crash at
  any byte loses nothing that was acknowledged.  The server: whatever requests it serves, its state is
  explained by signed events; nothing but proposals changes without an authorising message.  Search:
  the ranking is deterministic and protects exact subjects, results are eligible and bounded, the
  vectors survive crashes, and the heap scan returns the best candidates.  Packets stay within their
  budgets, relevance never repeats itself in a session, and diffs read every change once.  Files: a flush
  loads as it was written, a snapshot restores, an index that opens shows the canonical rows, the vectors of
  another model replace the old ones atomically.  The edges: a configuration that loads is safe, a daemon
  serves configured clients only, the status quarantines until it is repaired, the bridge sends nothing in
  quarantine, what a hook shows a model is bounded, and the requests of the operator reach their handlers.
  Some theorems show what the code gets wrong: an import loses its messages at the next start, and all its
  memories in the low-RAM mode; a model can recall in another session than its own.

  Recursion.  Loops are structural or have a measure; there is no fuel.  The states of a run are given
  by \<open>inductive\<close> step relations (\<open>Store_Machine\<close>, \<open>Message_Journal\<close>, \<open>Server_Machine\<close>, \<open>Vector_Store\<close>, \<open>Query_Cache\<close>,
  \<open>System_Health\<close>) with their invariants by rule induction.

  Not modelled.  The evaluation harness (\<open>lite/evaluation*.go\<close>, \<open>cmd/mindmory-eval-lite\<close>), which measures
  the search and is no part of the service; logging and the observer of the debug node; the HTTP listener,
  signals and timers; the registration and transport of the MCP library; memory mapping
  (\<open>vectorstore/mmap_*.go\<close>); the lock on the data directory; the SQL text, of which the tables and the
  results of the statements are modelled; and the two command stubs \<open>cmd/mindmoryctl\<close> and
  \<open>cmd/mindmory-mcp-stdio\<close>, which call \<open>cli_Run\<close> and \<open>bridge_Run\<close>.
\<close>

end
